(* ===== verification/Prelude.thy ===== *)
theory Prelude
  imports Main "HOL-Library.Word"
begin

text \<open>
  Shared by every component theory: the names of the machine types, the view of a C string as
  the list of characters that are left before the terminating NUL, the character classes and
  the number conversions of the C library that the code calls (\<open>isdigit\<close>, \<open>isspace\<close>,
  \<open>tolower\<close>, \<open>atoi\<close>, \<open>strtoul\<close>), decimal printing, and the lemmas on lists and words
  that several components use. The \<open>named_theorems\<close> collections are the hints the component
  proofs share.
\<close>

unbundle bit_operations_syntax

named_theorems cchar_simps \<open>character classes and number parsing on concrete shapes\<close>
named_theorems inv_intros \<open>operations preserve the invariant of their component\<close>

section \<open>Machine types\<close>

type_synonym u8 = "8 word"
type_synonym u16 = "16 word"
type_synonym u32 = "32 word"
type_synonym u64 = "64 word"

text \<open>C's integer division truncates towards zero.\<close>

definition c_div :: "int \<Rightarrow> int \<Rightarrow> int" where
  "c_div a b = sgn a * sgn b * (\<bar>a\<bar> div \<bar>b\<bar>)"

definition int_max :: int where "int_max = 2147483647"
definition int_min :: int where "int_min = - 2147483648"

section \<open>C strings\<close>

text \<open>
  A pointer into a NUL-terminated string is the list of the characters before the NUL.
  Reading through it gives the NUL at the end, advancing it is \<open>tl\<close>.
\<close>

definition nul :: char where "nul = CHR 0x00"

fun peek :: "string \<Rightarrow> char" where
  "peek [] = nul"
| "peek (c # _) = c"

fun peek2 :: "string \<Rightarrow> char" where
  "peek2 (_ # c # _) = c"
| "peek2 _ = nul"

definition code :: "char \<Rightarrow> nat" where "code c = of_char c"

text \<open>\<open>strchr\<close>: the suffix that starts at the first occurrence of a character.\<close>

fun strchr :: "string \<Rightarrow> char \<Rightarrow> string option" where
  "strchr [] c = None"
| "strchr (x # xs) c = (if x = c then Some (x # xs) else strchr xs c)"

definition isdigit :: "char \<Rightarrow> bool" where
  "isdigit c \<longleftrightarrow> 48 \<le> code c \<and> code c \<le> 57"

definition isspace :: "char \<Rightarrow> bool" where
  "isspace c \<longleftrightarrow> code c = 32 \<or> (9 \<le> code c \<and> code c \<le> 13)"

definition tolower :: "char \<Rightarrow> char" where
  "tolower c = (if 65 \<le> code c \<and> code c \<le> 90 then char_of (code c + 32) else c)"

definition toupper :: "char \<Rightarrow> char" where
  "toupper c = (if 97 \<le> code c \<and> code c \<le> 122 then char_of (code c - 32) else c)"

definition digit_val :: "char \<Rightarrow> int" where
  "digit_val c = int (code c) - 48"

text \<open>The digits at the head of a string, read as a decimal number, and what follows them.\<close>

fun dec_acc :: "int \<Rightarrow> string \<Rightarrow> int \<times> string" where
  "dec_acc v [] = (v, [])"
| "dec_acc v (c # cs) = (if isdigit c then dec_acc (v * 10 + digit_val c) cs else (v, c # cs))"

text \<open>
  \<open>atoi\<close>: skips white space, reads an optional sign and the digits after it. The library
  computes \<open>(int) strtol(s)\<close>, and \<open>long\<close> has the width of \<open>int\<close> on the printer's
  processor, so a value out of range is clamped.
\<close>

definition clamp_int :: "int \<Rightarrow> int" where
  "clamp_int v = max int_min (min int_max v)"

definition atoi :: "string \<Rightarrow> int" where
  "atoi s = (let t = dropWhile isspace s in
     clamp_int (if peek t = CHR ''-'' then - fst (dec_acc 0 (tl t))
                else if peek t = CHR ''+'' then fst (dec_acc 0 (tl t))
                else fst (dec_acc 0 t)))"

text \<open>\<open>strtoul\<close> with base 0: a prefix selects hexadecimal or octal.\<close>

definition base_digit :: "nat \<Rightarrow> char \<Rightarrow> nat option" where
  "base_digit b c =
     (let d = (if isdigit c then Some (code c - 48)
               else if 97 \<le> code c \<and> code c \<le> 102 then Some (code c - 87)
               else if 65 \<le> code c \<and> code c \<le> 70 then Some (code c - 55) else None)
      in case d of None \<Rightarrow> None | Some v \<Rightarrow> if v < b then Some v else None)"

fun base_acc :: "nat \<Rightarrow> nat \<Rightarrow> string \<Rightarrow> nat" where
  "base_acc b v [] = v"
| "base_acc b v (c # cs) =
     (case base_digit b c of None \<Rightarrow> v | Some d \<Rightarrow> base_acc b (v * b + d) cs)"

definition strtoul0 :: "string \<Rightarrow> u32" where
  "strtoul0 s =
     (let t = dropWhile isspace s;
          neg = (peek t = CHR ''-'');
          t = (if peek t = CHR ''-'' \<or> peek t = CHR ''+'' then tl t else t);
          v = (if peek t = CHR ''0'' \<and> tolower (peek2 t) = CHR ''x''
                  \<and> base_digit 16 (peek (drop 2 t)) \<noteq> None
               then base_acc 16 0 (drop 2 t)
               else if peek t = CHR ''0'' then base_acc 8 0 (tl t)
               else base_acc 10 0 t)
      in if v \<ge> 2 ^ 32 then 0xFFFFFFFF
         else if neg then - of_nat v else of_nat v)"

section \<open>Decimal printing\<close>

definition digit_char :: "nat \<Rightarrow> char" where
  "digit_char d = char_of (48 + d)"

fun show_nat :: "nat \<Rightarrow> string" where
  "show_nat n = (if n < 10 then [digit_char n] else show_nat (n div 10) @ [digit_char (n mod 10)])"

declare show_nat.simps [simp del]

lemma code_digit_char [simp]: "d < 10 \<Longrightarrow> code (digit_char d) = 48 + d"
  by (simp add: code_def digit_char_def)

lemma isdigit_digit_char [simp]: "d < 10 \<Longrightarrow> isdigit (digit_char d)"
  by (simp add: isdigit_def)

lemma digit_val_digit_char [simp]: "d < 10 \<Longrightarrow> digit_val (digit_char d) = int d"
  by (simp add: digit_val_def)

lemma show_nat_isdigit: "c \<in> set (show_nat n) \<Longrightarrow> isdigit c"
proof (induction n rule: show_nat.induct)
  case (1 n)
  then show ?case
    by (subst (asm) (2) show_nat.simps) (auto split: if_splits)
qed

lemma show_nat_nonempty [simp]: "show_nat n \<noteq> []"
  by (subst show_nat.simps) simp

lemma dec_acc_append_digits:
  "(\<And>c. c \<in> set ds \<Longrightarrow> isdigit c) \<Longrightarrow>
   dec_acc v (ds @ rest) = dec_acc (fst (dec_acc v ds)) rest"
  by (induction ds arbitrary: v) auto

lemma dec_acc_stop [simp]: "\<not> isdigit (peek rest) \<Longrightarrow> dec_acc v rest = (v, rest)"
  by (cases rest) auto

lemma not_isdigit_nul [simp]: "\<not> isdigit nul"
  by (simp add: isdigit_def code_def nul_def)

lemma fst_dec_acc_show_nat: "fst (dec_acc 0 (show_nat n)) = int n"
proof (induction n rule: show_nat.induct)
  case (1 n)
  show ?case
  proof (cases "n < 10")
    case True
    then show ?thesis by (subst show_nat.simps) simp
  next
    case False
    have "dec_acc 0 (show_nat (n div 10) @ [digit_char (n mod 10)])
        = dec_acc (fst (dec_acc 0 (show_nat (n div 10)))) [digit_char (n mod 10)]"
      by (rule dec_acc_append_digits) (rule show_nat_isdigit)
    with False "1.IH" show ?thesis
      by (subst show_nat.simps) (simp add: zmod_int zdiv_int)
  qed
qed

lemma dec_acc_show_nat [cchar_simps]:
  "\<not> isdigit (peek rest) \<Longrightarrow> dec_acc 0 (show_nat n @ rest) = (int n, rest)"
  by (simp add: dec_acc_append_digits show_nat_isdigit fst_dec_acc_show_nat)

lemma isdigit_peek_show_nat [simp]: "isdigit (peek (show_nat n @ rest))"
  using show_nat_isdigit [of "hd (show_nat n)" n]
  by (cases "show_nat n") auto

lemma dropWhile_show_nat [simp]:
  "dropWhile isspace (show_nat n @ rest) = show_nat n @ rest"
proof -
  obtain c cs where cs: "show_nat n = c # cs" by (cases "show_nat n") auto
  have "isdigit c" using show_nat_isdigit [of c n] cs by simp
  then show ?thesis by (simp add: cs isdigit_def isspace_def)
qed

lemma isdigit_not_sign: "isdigit c \<Longrightarrow> c \<noteq> CHR ''-'' \<and> c \<noteq> CHR ''+''"
  by (auto simp: isdigit_def code_def)

lemma atoi_show_nat [cchar_simps]:
  assumes "\<not> isdigit (peek rest)" and "int n \<le> int_max"
  shows "atoi (show_nat n @ rest) = int n"
proof -
  have "peek (show_nat n @ rest) \<noteq> CHR ''-''" "peek (show_nat n @ rest) \<noteq> CHR ''+''"
    using isdigit_not_sign isdigit_peek_show_nat by blast+
  with assms show ?thesis
    by (simp add: atoi_def Let_def dec_acc_show_nat clamp_int_def int_min_def)
qed

section \<open>Words\<close>

lemma u_eqI: "unat a = unat b \<Longrightarrow> a = b"
  by (simp add: word_unat_eq_iff)

lemma unat_u8_bound [simp]: "unat (b :: u8) < 256"
  using unsigned_less [of b] by simp

section \<open>Lists\<close>

lemma dropWhile_append_all: "(\<And>x. x \<in> set xs \<Longrightarrow> P x) \<Longrightarrow> dropWhile P (xs @ ys) = dropWhile P ys"
  by (induction xs) auto

lemma strchr_append:
  "c \<notin> set xs \<Longrightarrow> strchr (xs @ c # ys) c = Some (c # ys)"
  by (induction xs) auto

lemma strchr_None: "strchr s c = None \<longleftrightarrow> c \<notin> set s"
  by (induction s) auto

lemma strchr_Some: "strchr s c = Some t \<Longrightarrow> \<exists>pre. s = pre @ t \<and> c \<notin> set pre \<and> peek t = c \<and> t \<noteq> []"
proof (induction s)
  case Nil
  then show ?case by simp
next
  case (Cons x xs)
  show ?case
  proof (cases "x = c")
    case True
    with Cons.prems show ?thesis by (intro exI [of _ "[]"]) auto
  next
    case False
    with Cons obtain pre where "xs = pre @ t \<and> c \<notin> set pre \<and> peek t = c \<and> t \<noteq> []" by auto
    with False show ?thesis by (intro exI [of _ "x # pre"]) auto
  qed
qed

end
