(* ===== verification/Beep_Hw.thy ===== *)
theory Beep_Hw
  imports Prelude
begin

text \<open>
  \<open>k1/k1_mods/buzzer/guppybeep.c\<close>, the hardware half: the PWM channel that drives the piezo
  and the GPIO pin it is routed to. Both are memory mapped and declared \<open>volatile\<close>, so what
  the program does to them is the sequence of its accesses. The engine record carries that
  sequence (newest access first) beside the program's static variables, and the value that a
  read returns is a function of the accesses so far, the parameter \<open>dev\<close> of every
  definition that reads. The GPIO contract that the source's comment states ("set/clear pairs,
  write 1<<bit") is the locale \<open>pin_port\<close>; \<open>soc_dev\<close> is the register file that the
  comment describes and interprets it.
\<close>

section \<open>Registers and accesses\<close>

datatype page = PWM | GPC

datatype access =
    Rd page nat
  | Wr page nat u32
  | Usleep u32

type_synonym device = "access list \<Rightarrow> page \<Rightarrow> nat \<Rightarrow> u32"

definition CH :: nat where "CH = 3"

definition ch_bit :: u32 where "ch_bit = push_bit CH 1"

definition PWMCCFG0 :: nat where "PWMCCFG0 = 0x000"
definition PWMENS :: nat where "PWMENS = 0x010"
definition PWMENC :: nat where "PWMENC = 0x014"
definition PWMUPDATE :: nat where "PWMUPDATE = 0x020"
definition PWMBUSYR :: nat where "PWMBUSYR = 0x024"
definition PWMLVL :: nat where "PWMLVL = 0x030"
definition PWMWCFG :: "nat \<Rightarrow> nat" where "PWMWCFG n = 0x0B0 + n * 4"
definition PWMOEN :: nat where "PWMOEN = 0x300"

definition G_INTC :: nat where "G_INTC = 0x18"
definition G_MSKS :: nat where "G_MSKS = 0x24"
definition G_MSKC :: nat where "G_MSKC = 0x28"
definition G_PAT1S :: nat where "G_PAT1S = 0x34"
definition G_PAT1C :: nat where "G_PAT1C = 0x38"
definition G_PAT0S :: nat where "G_PAT0S = 0x44"
definition G_PAT0C :: nat where "G_PAT0C = 0x48"

lemmas gpio_reg_defs = G_INTC_def G_MSKS_def G_MSKC_def G_PAT1S_def G_PAT1C_def G_PAT0S_def
  G_PAT0C_def
lemmas pwm_reg_defs = PWMCCFG0_def PWMENS_def PWMENC_def PWMUPDATE_def PWMBUSYR_def PWMLVL_def
  PWMWCFG_def PWMOEN_def

record engine =
  hist :: "access list"
  saved :: bool
  s_msk :: bool
  s_pat1 :: bool
  s_pat0 :: bool
  gpio_done :: bool
  g_duty :: u32

definition init_engine :: engine where
  "init_engine = \<lparr>hist = [], saved = False, s_msk = False, s_pat1 = False, s_pat0 = False,
     gpio_done = False, g_duty = 50\<rparr>"

definition rd :: "device \<Rightarrow> nat \<Rightarrow> engine \<Rightarrow> u32 \<times> engine" where
  "rd dev r e = (dev (hist e) PWM r, e\<lparr>hist := Rd PWM r # hist e\<rparr>)"

definition wr :: "nat \<Rightarrow> u32 \<Rightarrow> engine \<Rightarrow> engine" where
  "wr r v e = e\<lparr>hist := Wr PWM r v # hist e\<rparr>"

definition gset :: "nat \<Rightarrow> engine \<Rightarrow> engine" where
  "gset r e = e\<lparr>hist := Wr GPC r ch_bit # hist e\<rparr>"

definition usleep :: "u32 \<Rightarrow> engine \<Rightarrow> engine" where
  "usleep us e = e\<lparr>hist := Usleep us # hist e\<rparr>"

section \<open>The GPIO pin: save, route to the PWM, restore\<close>

text \<open>One read of \<open>gpio_save\<close>: bit \<open>CH\<close> of a level register.\<close>

definition pin_bit :: "device \<Rightarrow> nat \<Rightarrow> engine \<Rightarrow> bool" where
  "pin_bit dev r e = bit (dev (hist e) GPC r) CH"

definition gpio_save :: "device \<Rightarrow> engine \<Rightarrow> engine" where
  "gpio_save dev e =
     (let e1 = e\<lparr>s_msk := pin_bit dev 0x20 e, hist := Rd GPC 0x20 # hist e\<rparr>;
          e2 = e1\<lparr>s_pat1 := pin_bit dev 0x30 e1, hist := Rd GPC 0x30 # hist e1\<rparr>;
          e3 = e2\<lparr>s_pat0 := pin_bit dev 0x40 e2, hist := Rd GPC 0x40 # hist e2\<rparr>
      in e3\<lparr>saved := True\<rparr>)"

definition gpio_mux_pwm :: "engine \<Rightarrow> engine" where
  "gpio_mux_pwm e = gset G_PAT0C (gset G_PAT1C (gset G_MSKC (gset G_INTC e)))"

definition gpio_restore :: "engine \<Rightarrow> engine" where
  "gpio_restore e =
     (if \<not> saved e \<or> gpio_done e then e
      else (let e1 = gset (if s_msk e then G_MSKS else G_MSKC) e;
                e2 = gset (if s_pat1 e then G_PAT1S else G_PAT1C) e1;
                e3 = gset (if s_pat0 e then G_PAT0S else G_PAT0C) e2
            in e3\<lparr>gpio_done := True\<rparr>))"

definition pwm_off :: "device \<Rightarrow> engine \<Rightarrow> engine" where
  "pwm_off dev e =
     (let e1 = wr PWMENC ch_bit e; (v, e2) = rd dev PWMOEN e1
      in wr PWMOEN (v AND NOT ch_bit) e2)"

definition cleanup :: "device \<Rightarrow> engine \<Rightarrow> engine" where
  "cleanup dev e = gpio_restore (pwm_off dev e)"

definition engine_start :: "device \<Rightarrow> engine \<Rightarrow> engine" where
  "engine_start dev e = gpio_mux_pwm (gpio_save dev e)"

section \<open>Notes\<close>

text \<open>The loop of \<open>pick_prescale\<close>, from prescale \<open>P\<close> to 15, and its fall-back.\<close>

function pick_from :: "u32 \<Rightarrow> nat \<Rightarrow> nat \<times> u32" where
  "pick_from freq P =
     (if P \<le> 15
      then let tot = drop_bit P 300000000 div freq
           in if 0 < tot \<and> tot < 65500 then (P, tot) else pick_from freq (Suc P)
      else (15, drop_bit 15 300000000 div freq))"
  by pat_completeness auto
termination by (relation "measure (\<lambda>(f, P). 16 - P)") auto

declare pick_from.simps [simp del]

definition pick_prescale :: "u32 \<Rightarrow> nat \<times> u32" where
  "pick_prescale freq = pick_from freq 0"

text \<open>
  High and low cycles of one period. The product is 64 bits wide, its quotient is cut to 32;
  \<open>tot - 1\<close> and \<open>tot - hi\<close> wrap as \<open>unsigned\<close> does.
\<close>

definition duty_cycles :: "u32 \<Rightarrow> u32 \<Rightarrow> u32 \<times> u32" where
  "duty_cycles tot duty =
     (let hi = ucast ((ucast tot :: u64) * ucast duty div 100) :: u32;
          hi = (if hi < 1 then 1 else hi);
          hi = (if hi \<ge> tot then tot - 1 else hi)
      in (hi, tot - hi))"

definition wcfg_word :: "u32 \<times> u32 \<Rightarrow> u32" where
  "wcfg_word hl = push_bit 16 (fst hl) OR (snd hl AND 0xFFFF)"

text \<open>The busy wait reads the register before it tests the counter, so up to 200001 reads.\<close>

function busy_wait :: "device \<Rightarrow> nat \<Rightarrow> engine \<Rightarrow> engine" where
  "busy_wait dev sp e =
     (let (v, e1) = rd dev PWMBUSYR e
      in if v AND ch_bit \<noteq> 0 \<and> sp < 200000 then busy_wait dev (Suc sp) e1 else e1)"
  by pat_completeness auto
termination by (relation "measure (\<lambda>(d, sp, e). 200000 - sp)") auto

declare busy_wait.simps [simp del]

definition pwm_note :: "device \<Rightarrow> u32 \<Rightarrow> engine \<Rightarrow> engine" where
  "pwm_note dev freq e =
     (if freq < 20 then pwm_off dev e
      else let (P, tot) = pick_prescale freq;
               (hi, lo) = duty_cycles tot (g_duty e);
               e = wr PWMENC ch_bit e;
               (c, e) = rd dev PWMCCFG0 e;
               c = c AND NOT (push_bit (CH * 4) 0xF);
               c = c OR push_bit (CH * 4) (of_nat P);
               e = wr PWMCCFG0 c e;
               e = wr (PWMWCFG CH) (wcfg_word (hi, lo)) e;
               (l, e) = rd dev PWMLVL e;
               l = l AND NOT (push_bit CH 1 OR push_bit (CH + 16) 1);
               e = wr PWMLVL l e;
               (v, e) = rd dev PWMOEN e;
               e = wr PWMOEN (v OR ch_bit) e;
               e = wr PWMENS ch_bit e;
               e = wr PWMUPDATE ch_bit e
           in busy_wait dev 0 e)"

definition play :: "device \<Rightarrow> u32 \<Rightarrow> u32 \<Rightarrow> engine \<Rightarrow> engine" where
  "play dev freq ms e =
     (if freq < 20 then usleep (ms * 1000) (pwm_off dev e)
      else let gap = (if ms > 40 then 12 else 0);
               e = usleep ((ms - gap) * 1000) (pwm_note dev freq e)
           in if gap \<noteq> 0 then usleep (gap * 1000) (pwm_off dev e) else e)"

section \<open>Restoring the pin\<close>

text \<open>
  The accesses that matter to the pin are the writes to the set and clear registers of the GPIO
  port. A port with level registers at \<open>0x20\<close>, \<open>0x30\<close>, \<open>0x40\<close> honours the comment of the
  source when a write to the register 4 bytes above sets the bits written, one 8 bytes above
  clears them, and no other access of the program changes the level.
\<close>

definition levels :: "nat set" where "levels = {0x10, 0x20, 0x30, 0x40}"

fun touches :: "access \<Rightarrow> nat \<Rightarrow> bool" where
  "touches (Wr GPC r v) l = (r = l + 4 \<or> r = l + 8)"
| "touches _ l = False"

locale pin_port =
  fixes dev :: device
  assumes level_set: "l \<in> levels \<Longrightarrow> dev (Wr GPC (l + 4) v # h) GPC l = dev h GPC l OR v"
    and level_clear: "l \<in> levels \<Longrightarrow> dev (Wr GPC (l + 8) v # h) GPC l = dev h GPC l AND NOT v"
    and level_frame: "l \<in> levels \<Longrightarrow> \<not> touches a l \<Longrightarrow> dev (a # h) GPC l = dev h GPC l"
begin

lemma bit_level_set:
  "l \<in> levels \<Longrightarrow> bit (dev (Wr GPC (l + 4) v # h) GPC l) n \<longleftrightarrow> bit (dev h GPC l) n \<or> bit v n"
  by (simp add: level_set bit_or_iff)

lemma bit_level_clear:
  "l \<in> levels \<Longrightarrow> bit (dev (Wr GPC (l + 8) v # h) GPC l) n \<longleftrightarrow> bit (dev h GPC l) n \<and> \<not> bit v n"
  by (auto simp: level_clear bit_and_iff bit_not_iff dest: bit_imp_le_length)

end

text \<open>The register file of the comment, as a device: every level starts at \<open>init\<close>.\<close>

fun soc_dev :: "(nat \<Rightarrow> u32) \<Rightarrow> device" where
  "soc_dev init [] p r = init r"
| "soc_dev init (a # h) p r =
     (case a of
        Wr p' r' v \<Rightarrow>
          (if p = GPC \<and> p' = GPC \<and> r \<in> levels
           then (if r' = r + 4 then soc_dev init h p r OR v
                 else if r' = r + 8 then soc_dev init h p r AND NOT v
                 else soc_dev init h p r)
           else if p' = p \<and> r' = r then v else soc_dev init h p r)
      | _ \<Rightarrow> soc_dev init h p r)"

interpretation soc: pin_port "soc_dev init" for init
proof unfold_locales
  fix l a h
  assume "l \<in> levels" and "\<not> touches a l"
  then show "soc_dev init (a # h) GPC l = soc_dev init h GPC l"
    by (cases "(a, l)" rule: touches.cases) (auto split: page.splits access.splits)
qed (auto simp: levels_def)

end
