(* ===== verification/Beep_Pin.thy ===== *)
theory Beep_Pin
  imports Beep_Hw
begin

text \<open>
  The promise of \<open>guppybeep.c\<close> that the pin's "original state is saved and restored on exit
  (incl. signals)". The run of the process is a list of atomic steps, one per access or
  assignment to a static variable, from \<open>engine_start\<close> through the notes to \<open>cleanup\<close>; the
  signal handler may run \<open>cleanup\<close> after any of them.
\<close>

section \<open>Atomic steps\<close>

datatype micro =
    Save_Msk | Save_Pat1 | Save_Pat0 | Set_Saved
  | Mux nat
  | Pwm_Wr nat u32 | Pwm_Rd nat | Delay u32
  | Restore_Msk | Restore_Pat1 | Restore_Pat0 | Set_Done

fun exec :: "device \<Rightarrow> micro \<Rightarrow> engine \<Rightarrow> engine" where
  "exec dev Save_Msk e = e\<lparr>s_msk := pin_bit dev 0x20 e, hist := Rd GPC 0x20 # hist e\<rparr>"
| "exec dev Save_Pat1 e = e\<lparr>s_pat1 := pin_bit dev 0x30 e, hist := Rd GPC 0x30 # hist e\<rparr>"
| "exec dev Save_Pat0 e = e\<lparr>s_pat0 := pin_bit dev 0x40 e, hist := Rd GPC 0x40 # hist e\<rparr>"
| "exec dev Set_Saved e = e\<lparr>saved := True\<rparr>"
| "exec dev (Mux r) e = gset r e"
| "exec dev (Pwm_Wr r v) e = wr r v e"
| "exec dev (Pwm_Rd r) e = snd (rd dev r e)"
| "exec dev (Delay us) e = usleep us e"
| "exec dev Restore_Msk e = gset (if s_msk e then G_MSKS else G_MSKC) e"
| "exec dev Restore_Pat1 e = gset (if s_pat1 e then G_PAT1S else G_PAT1C) e"
| "exec dev Restore_Pat0 e = gset (if s_pat0 e then G_PAT0S else G_PAT0C) e"
| "exec dev Set_Done e = e\<lparr>gpio_done := True\<rparr>"

fun run :: "device \<Rightarrow> micro list \<Rightarrow> engine \<Rightarrow> engine" where
  "run dev [] e = e"
| "run dev (m # ms) e = run dev ms (exec dev m e)"

lemma run_append [simp]: "run dev (ms @ ns) e = run dev ns (run dev ms e)"
  by (induction ms arbitrary: e) auto

definition start_steps :: "micro list" where
  "start_steps = [Save_Msk, Save_Pat1, Save_Pat0, Set_Saved,
     Mux G_INTC, Mux G_MSKC, Mux G_PAT1C, Mux G_PAT0C]"

definition restore_steps :: "micro list" where
  "restore_steps = [Restore_Msk, Restore_Pat1, Restore_Pat0, Set_Done]"

text \<open>The accesses of a note: they touch the PWM page and the clock only.\<close>

fun pwm_step :: "micro \<Rightarrow> bool" where
  "pwm_step (Pwm_Wr r v) = True"
| "pwm_step (Pwm_Rd r) = True"
| "pwm_step (Delay us) = True"
| "pwm_step _ = False"

lemma engine_start_steps: "engine_start dev e = run dev start_steps e"
  by (simp add: engine_start_def start_steps_def gpio_save_def gpio_mux_pwm_def Let_def)

lemma gpio_restore_steps:
  "saved e \<Longrightarrow> \<not> gpio_done e \<Longrightarrow> gpio_restore e = run dev restore_steps e"
  by (simp add: gpio_restore_def restore_steps_def Let_def gset_def)

text \<open>Everything a note does is a list of PWM steps.\<close>

definition pwm_run :: "device \<Rightarrow> engine \<Rightarrow> engine \<Rightarrow> bool" where
  "pwm_run dev e e' \<longleftrightarrow> (\<exists>ms. (\<forall>m\<in>set ms. pwm_step m) \<and> e' = run dev ms e)"

lemma pwm_run_refl [intro]: "pwm_run dev e e"
  by (auto simp: pwm_run_def intro: exI [of _ "[]"])

lemma pwm_run_trans: "pwm_run dev e f \<Longrightarrow> pwm_run dev f g \<Longrightarrow> pwm_run dev e g"
  unfolding pwm_run_def by (metis Un_iff run_append set_append)

lemma pwm_run_step: "pwm_step m \<Longrightarrow> pwm_run dev e (exec dev m e)"
  unfolding pwm_run_def by (intro exI [of _ "[m]"]) auto

lemma pwm_run_wr [intro!]: "pwm_run dev e f \<Longrightarrow> pwm_run dev e (wr r v f)"
  using pwm_run_step [of "Pwm_Wr r v" dev f] pwm_run_trans by simp

lemma pwm_run_usleep [intro!]: "pwm_run dev e f \<Longrightarrow> pwm_run dev e (usleep us f)"
  using pwm_run_step [of "Delay us" dev f] pwm_run_trans by simp

lemma pwm_run_rd [intro!]: "pwm_run dev e f \<Longrightarrow> pwm_run dev e (snd (rd dev r f))"
  using pwm_run_step [of "Pwm_Rd r" dev f] pwm_run_trans by simp

lemma pwm_run_off [intro!]: "pwm_run dev e f \<Longrightarrow> pwm_run dev e (pwm_off dev f)"
  unfolding pwm_off_def by (auto simp: Let_def split_beta)

lemma pwm_run_busy [intro!]: "pwm_run dev e f \<Longrightarrow> pwm_run dev e (busy_wait dev sp f)"
proof (induction dev sp f rule: busy_wait.induct)
  case (1 dev sp f)
  obtain v g where vg: "rd dev PWMBUSYR f = (v, g)" by (cases "rd dev PWMBUSYR f")
  have g: "pwm_run dev e g" using pwm_run_rd [OF "1.prems", of PWMBUSYR] vg by simp
  show ?case
    by (subst busy_wait.simps) (simp add: vg g "1.IH" [OF vg [symmetric] refl])
qed

lemma pwm_run_note [intro!]: "pwm_run dev e f \<Longrightarrow> pwm_run dev e (pwm_note dev freq f)"
  unfolding pwm_note_def by (auto simp: Let_def split_beta)

lemma pwm_run_play [intro!]: "pwm_run dev e f \<Longrightarrow> pwm_run dev e (play dev freq ms f)"
  unfolding play_def by (auto simp: Let_def)

section \<open>The pin through a run\<close>

definition pin_regs :: "nat set" where "pin_regs = {0x20, 0x30, 0x40}"

abbreviation level :: "device \<Rightarrow> engine \<Rightarrow> nat \<Rightarrow> u32" where
  "level dev e l \<equiv> dev (hist e) GPC l"

text \<open>Before the save, or with the save complete and consistent with the pin at the start.\<close>

definition untouched :: "device \<Rightarrow> (nat \<Rightarrow> u32) \<Rightarrow> engine \<Rightarrow> bool" where
  "untouched dev orig e \<longleftrightarrow> \<not> saved e \<and> \<not> gpio_done e \<and> (\<forall>l\<in>pin_regs. level dev e l = orig l)"

definition recorded :: "device \<Rightarrow> (nat \<Rightarrow> u32) \<Rightarrow> engine \<Rightarrow> bool" where
  "recorded dev orig e \<longleftrightarrow>
     s_msk e = bit (orig 0x20) CH \<and> s_pat1 e = bit (orig 0x30) CH \<and> s_pat0 e = bit (orig 0x40) CH \<and>
     (\<forall>l\<in>pin_regs. \<forall>n. n \<noteq> CH \<longrightarrow> bit (level dev e l) n = bit (orig l) n)"

definition recoverable :: "device \<Rightarrow> (nat \<Rightarrow> u32) \<Rightarrow> engine \<Rightarrow> bool" where
  "recoverable dev orig e \<longleftrightarrow> saved e \<and> recorded dev orig e \<and>
     (gpio_done e \<longrightarrow> (\<forall>l\<in>pin_regs. level dev e l = orig l))"

lemma bit_ch_bit [simp]: "bit ch_bit n \<longleftrightarrow> n = CH"
  proof -
  have "CH < 32" by (simp add: CH_def)
  then show ?thesis by (auto simp: ch_bit_def bit_exp_iff)
qed

lemma u32_eqI_bits: "(\<And>n. bit a n = bit b n) \<Longrightarrow> (a :: u32) = b"
  by (rule bit_eqI) simp

context pin_port
begin

lemma level_pwm_step: "l \<in> levels \<Longrightarrow> pwm_step m \<Longrightarrow> level dev (exec dev m e) l = level dev e l"
  by (cases m) (auto simp: wr_def rd_def usleep_def level_frame)

lemma level_pwm_run: "pwm_run dev e f \<Longrightarrow> l \<in> levels \<Longrightarrow> level dev f l = level dev e l"
proof -
  have "\<forall>m\<in>set ms. pwm_step m \<Longrightarrow> l \<in> levels \<Longrightarrow> level dev (run dev ms e) l = level dev e l" for ms e
    by (induction ms arbitrary: e) (auto simp: level_pwm_step)
  then show "pwm_run dev e f \<Longrightarrow> l \<in> levels \<Longrightarrow> level dev f l = level dev e l"
    by (auto simp: pwm_run_def)
qed

lemma bit_gset_set:
  "l \<in> levels \<Longrightarrow> bit (level dev (gset (l + 4) e) l) n \<longleftrightarrow> bit (level dev e l) n \<or> n = CH"
  by (simp add: gset_def bit_level_set)

lemma bit_gset_clear:
  "l \<in> levels \<Longrightarrow> bit (level dev (gset (l + 8) e) l) n \<longleftrightarrow> bit (level dev e l) n \<and> n \<noteq> CH"
  by (simp add: gset_def bit_level_clear)

lemma gset_frame:
  "l \<in> levels \<Longrightarrow> r \<noteq> l + 4 \<Longrightarrow> r \<noteq> l + 8 \<Longrightarrow> level dev (gset r e) l = level dev e l"
  by (simp add: gset_def level_frame)

text \<open>What one write does to each of the three saved registers.\<close>

lemma bit_gset_pin:
  "bit (level dev (gset r e) 0x20) n =
     (if r = G_MSKS then bit (level dev e 0x20) n \<or> n = CH
      else if r = G_MSKC then bit (level dev e 0x20) n \<and> n \<noteq> CH else bit (level dev e 0x20) n)"
  "bit (level dev (gset r e) 0x30) n =
     (if r = G_PAT1S then bit (level dev e 0x30) n \<or> n = CH
      else if r = G_PAT1C then bit (level dev e 0x30) n \<and> n \<noteq> CH else bit (level dev e 0x30) n)"
  "bit (level dev (gset r e) 0x40) n =
     (if r = G_PAT0S then bit (level dev e 0x40) n \<or> n = CH
      else if r = G_PAT0C then bit (level dev e 0x40) n \<and> n \<noteq> CH else bit (level dev e 0x40) n)"
  using bit_gset_set [of "0x20" e n] bit_gset_clear [of "0x20" e n] gset_frame [of "0x20" r e]
    bit_gset_set [of "0x30" e n] bit_gset_clear [of "0x30" e n] gset_frame [of "0x30" r e]
    bit_gset_set [of "0x40" e n] bit_gset_clear [of "0x40" e n] gset_frame [of "0x40" r e]
  by (auto simp: levels_def gpio_reg_defs)

end

context pin_port
begin

lemma cleanup_level:
  "l \<in> levels \<Longrightarrow> level dev (pwm_off dev e) l = level dev e l"
  using level_pwm_run [OF pwm_run_off [OF pwm_run_refl]] .

lemma pwm_off_fields [simp]:
  "saved (pwm_off dev e) = saved e" "gpio_done (pwm_off dev e) = gpio_done e"
  "s_msk (pwm_off dev e) = s_msk e" "s_pat1 (pwm_off dev e) = s_pat1 e"
  "s_pat0 (pwm_off dev e) = s_pat0 e"
  by (simp_all add: pwm_off_def wr_def rd_def Let_def)

lemma gset_fields [simp]:
  "saved (gset r e) = saved e" "gpio_done (gset r e) = gpio_done e"
  "s_msk (gset r e) = s_msk e" "s_pat1 (gset r e) = s_pat1 e" "s_pat0 (gset r e) = s_pat0 e"
  by (simp_all add: gset_def)

lemma bits_after_restore:
  defines "f e \<equiv> exec dev Restore_Pat0 (exec dev Restore_Pat1 (exec dev Restore_Msk e))"
  shows "bit (level dev (f e) 0x20) n = (if n = CH then s_msk e else bit (level dev e 0x20) n)"
    and "bit (level dev (f e) 0x30) n = (if n = CH then s_pat1 e else bit (level dev e 0x30) n)"
    and "bit (level dev (f e) 0x40) n = (if n = CH then s_pat0 e else bit (level dev e 0x40) n)"
  unfolding f_def exec.simps gset_fields bit_gset_pin
  by (cases "s_msk e"; cases "s_pat1 e"; cases "s_pat0 e"; simp add: gpio_reg_defs)+

lemma restored_after:
  assumes "recorded dev orig e" and "l \<in> pin_regs"
  shows "level dev (exec dev Restore_Pat0 (exec dev Restore_Pat1 (exec dev Restore_Msk e))) l = orig l"
proof -
  have "l = 0x20 \<or> l = 0x30 \<or> l = 0x40" using assms(2) by (auto simp: pin_regs_def)
  moreover have "\<And>n. n \<noteq> CH \<Longrightarrow> bit (level dev e l) n = bit (orig l) n"
    using assms by (simp add: recorded_def)
  ultimately show ?thesis
    using assms(1) bits_after_restore [of e] unfolding recorded_def
    by (elim disjE) (rule u32_eqI_bits, auto)+
qed

lemma recorded_cong:
  "recorded dev orig e \<Longrightarrow> s_msk f = s_msk e \<Longrightarrow> s_pat1 f = s_pat1 e \<Longrightarrow> s_pat0 f = s_pat0 e \<Longrightarrow>
   (\<And>l n. l \<in> pin_regs \<Longrightarrow> n \<noteq> CH \<Longrightarrow> bit (level dev f l) n = bit (level dev e l) n) \<Longrightarrow>
   recorded dev orig f"
  by (simp add: recorded_def)

lemma recorded_gset: "recorded dev orig e \<Longrightarrow> recorded dev orig (gset r e)"
proof (erule recorded_cong)
  fix l n
  assume "l \<in> pin_regs" and "n \<noteq> CH"
  then show "bit (level dev (gset r e) l) n = bit (level dev e l) n"
    unfolding pin_regs_def by (elim insertE emptyE) (simp_all only: bit_gset_pin simp_thms if_cancel)
qed (simp_all add: gset_def)

lemma cleanup_restores:
  assumes "untouched dev orig e \<or> recoverable dev orig e" and l: "l \<in> pin_regs"
  shows "level dev (cleanup dev e) l = orig l"
proof -
  let ?f = "pwm_off dev e"
  have same: "level dev ?f l = level dev e l" if "l \<in> pin_regs" for l
    using that by (intro cleanup_level) (auto simp: pin_regs_def levels_def)
  show ?thesis
  proof (cases "saved e \<and> \<not> gpio_done e")
    case True
    with assms have "recorded dev orig e" by (auto simp: untouched_def recoverable_def)
    then have "recorded dev orig ?f" by (rule recorded_cong) (simp_all add: same)
    from restored_after [OF this l] True show ?thesis
      by (simp add: cleanup_def gpio_restore_steps [of _ dev] restore_steps_def)
  next
    case False
    with assms show ?thesis
      by (auto simp: cleanup_def gpio_restore_def same untouched_def recoverable_def)
  qed
qed

end

section \<open>Every prefix of a run is recoverable\<close>

definition safe :: "device \<Rightarrow> (nat \<Rightarrow> u32) \<Rightarrow> engine \<Rightarrow> bool" where
  "safe dev orig e \<longleftrightarrow> untouched dev orig e \<or> recoverable dev orig e"

text \<open>Recoverable with the restoration still to be done.\<close>

definition pending :: "device \<Rightarrow> (nat \<Rightarrow> u32) \<Rightarrow> engine \<Rightarrow> bool" where
  "pending dev orig e \<longleftrightarrow> saved e \<and> \<not> gpio_done e \<and> recorded dev orig e"

lemma pending_safe: "pending dev orig e \<Longrightarrow> safe dev orig e"
  by (simp add: pending_def safe_def recoverable_def)

text \<open>All the states a run passes through, the first and the last included.\<close>

fun states :: "device \<Rightarrow> micro list \<Rightarrow> engine \<Rightarrow> engine list" where
  "states dev [] e = [e]"
| "states dev (m # ms) e = e # states dev ms (exec dev m e)"

lemma run_take_in_states: "run dev (take k ms) e \<in> set (states dev ms e)"
  by (induction ms arbitrary: e k) (auto simp: take_Cons split: nat.split)

lemma states_append:
  "set (states dev (ms @ ns) e) = set (states dev ms e) \<union> set (states dev ns (run dev ms e))"
  by (induction ms arbitrary: e) (auto, cases ns, auto)

context pin_port
begin

lemma pwm_step_fields:
  "pwm_step m \<Longrightarrow> saved (exec dev m e) = saved e \<and> gpio_done (exec dev m e) = gpio_done e \<and>
   s_msk (exec dev m e) = s_msk e \<and> s_pat1 (exec dev m e) = s_pat1 e \<and>
   s_pat0 (exec dev m e) = s_pat0 e"
  by (cases m) (simp_all add: wr_def rd_def usleep_def)

lemma pending_pwm:
  assumes p: "pending dev orig e" and m: "pwm_step m"
  shows "pending dev orig (exec dev m e)"
proof -
  have same: "l \<in> pin_regs \<Longrightarrow> level dev (exec dev m e) l = level dev e l" for l
    by (rule level_pwm_step [OF _ m]) (auto simp: pin_regs_def levels_def)
  have "recorded dev orig e" using p by (simp add: pending_def)
  then have "recorded dev orig (exec dev m e)"
    by (rule recorded_cong) (simp_all add: same pwm_step_fields [OF m])
  with p show ?thesis by (simp add: pending_def pwm_step_fields [OF m])
qed

lemma pending_gset: "pending dev orig e \<Longrightarrow> pending dev orig (gset r e)"
  by (simp add: pending_def recorded_gset)

lemma pending_body:
  "\<forall>m\<in>set ms. pwm_step m \<Longrightarrow> pending dev orig e \<Longrightarrow>
   (\<forall>f\<in>set (states dev ms e). pending dev orig f) \<and> pending dev orig (run dev ms e)"
  by (induction ms arbitrary: e) (auto dest: pending_pwm)

lemma untouched_save:
  "untouched dev orig e \<Longrightarrow> m = Save_Msk \<or> m = Save_Pat1 \<or> m = Save_Pat0 \<Longrightarrow>
   untouched dev orig (exec dev m e)"
  by (auto simp: untouched_def pin_regs_def level_frame levels_def)

lemma pin_bit_read: "untouched dev orig e \<Longrightarrow> l \<in> pin_regs \<Longrightarrow> pin_bit dev l e = bit (orig l) CH"
  by (simp add: untouched_def pin_bit_def)

lemma safe_start:
  assumes u: "untouched dev orig e"
  shows "(\<forall>f\<in>set (states dev start_steps e). safe dev orig f)"
    and "pending dev orig (run dev start_steps e)"
proof -
  let ?e1 = "exec dev Save_Msk e"
  let ?e2 = "exec dev Save_Pat1 ?e1"
  let ?e3 = "exec dev Save_Pat0 ?e2"
  have u1: "untouched dev orig ?e1"
    by (rule untouched_save [OF u]) simp
  have u2: "untouched dev orig ?e2"
    by (rule untouched_save [OF u1]) simp
  have u3: "untouched dev orig ?e3"
    by (rule untouched_save [OF u2]) simp
  have b: "s_msk ?e3 = bit (orig 0x20) CH" "s_pat1 ?e3 = bit (orig 0x30) CH"
    "s_pat0 ?e3 = bit (orig 0x40) CH"
    using pin_bit_read [OF u] pin_bit_read [OF u1] pin_bit_read [OF u2]
    by (simp_all add: pin_regs_def)
  have p: "pending dev orig (exec dev Set_Saved ?e3)"
    using u3 b by (simp add: pending_def recorded_def untouched_def)
  note g = pending_gset [OF p, of G_INTC]
  note g' = pending_gset [OF g, of G_MSKC]
  note g'' = pending_gset [OF g', of G_PAT1C]
  note g''' = pending_gset [OF g'', of G_PAT0C]
  show "\<forall>f\<in>set (states dev start_steps e). safe dev orig f"
    using u u1 u2 u3 pending_safe [OF p] pending_safe [OF g] pending_safe [OF g']
      pending_safe [OF g''] pending_safe [OF g''']
    by (simp add: start_steps_def safe_def)
  show "pending dev orig (run dev start_steps e)"
    using g''' by (simp add: start_steps_def)
qed

lemma safe_restore:
  assumes p: "pending dev orig e"
  shows "\<forall>f\<in>set (states dev restore_steps e). safe dev orig f"
proof -
  let ?e1 = "exec dev Restore_Msk e"
  let ?e2 = "exec dev Restore_Pat1 ?e1"
  let ?e3 = "exec dev Restore_Pat0 ?e2"
  have p1: "pending dev orig ?e1" using p by (simp add: pending_gset)
  then have p2: "pending dev orig ?e2" by (simp add: pending_gset)
  then have p3: "pending dev orig ?e3" by (simp add: pending_gset)
  have "\<forall>l\<in>pin_regs. level dev ?e3 l = orig l"
    using restored_after [of orig e] p unfolding pending_def by blast
  then have "safe dev orig (exec dev Set_Done ?e3)"
    using p3 by (simp add: safe_def recoverable_def pending_def recorded_def)
  with p p1 p2 p3 show ?thesis
    by (simp add: restore_steps_def pending_safe)
qed

lemma process_safe:
  assumes "untouched dev orig e" and "\<forall>m\<in>set body. pwm_step m"
  shows "safe dev orig (run dev (take k (start_steps @ body @ restore_steps)) e)"
proof -
  note s = safe_start [OF assms(1)]
  note b = pending_body [OF assms(2) s(2)]
  have "\<forall>f\<in>set (states dev (start_steps @ body @ restore_steps) e). safe dev orig f"
    using s(1) b safe_restore [of orig "run dev body (run dev start_steps e)"]
    by (auto simp: states_append pending_safe)
  then show ?thesis using run_take_in_states by blast
qed

end

end
