(* ===== verification/Beep_Rtttl.thy ===== *)
theory Beep_Rtttl
  imports Beep_Hw
begin

text \<open>
  \<open>k1/k1_mods/buzzer/guppybeep.c\<close>, the song half: the RTTTL parser, the song file, the command
  line. A read outside \<open>OCT4\<close>, a shift by 32 or more and a signed overflow are undefined in C
  and are the values of \<open>fault\<close>; the note loop is a \<open>partial_function\<close>, so that a loop
  which does not end is \<open>None\<close>.
\<close>

section \<open>Note tables\<close>

datatype fault = Table_Index | Shift_Count | Int_Overflow

definition OCT4 :: "u32 list" where
  "OCT4 = [262, 277, 294, 311, 330, 349, 370, 392, 415, 440, 466, 494]"

definition note_idx :: "char \<Rightarrow> int" where
  "note_idx c =
     (if c = CHR ''c'' then 0 else if c = CHR ''d'' then 2 else if c = CHR ''e'' then 4
      else if c = CHR ''f'' then 5 else if c = CHR ''g'' then 7 else if c = CHR ''a'' then 9
      else if c = CHR ''b'' then 11 else - 1)"

definition note_freq :: "int \<Rightarrow> int \<Rightarrow> fault + u32" where
  "note_freq idx oct =
     (if idx < 0 then Inr 0
      else if idx \<ge> 12 then Inl Table_Index
      else let f = OCT4 ! nat idx
           in if oct \<ge> 4
              then (if oct - 4 \<ge> 32 then Inl Shift_Count else Inr (push_bit (nat (oct - 4)) f))
              else (if 4 - oct \<ge> 32 then Inl Shift_Count else Inr (drop_bit (nat (4 - oct)) f)))"

section \<open>The note loop\<close>

record rtttl_cfg =
  d_def :: int
  o_def :: int
  bpm :: int

type_synonym tone = "u32 \<times> u32"

text \<open>\<open>while (isdigit(*p)) dur = dur * 10 + (*p - '0')\<close> in \<open>int\<close>.\<close>

fun dur_acc :: "int \<Rightarrow> string \<Rightarrow> fault + int \<times> string" where
  "dur_acc v [] = Inr (v, [])"
| "dur_acc v (c # cs) =
     (if isdigit c
      then (let v' = v * 10 + digit_val c
            in if v' > int_max then Inl Int_Overflow else dur_acc v' cs)
      else Inr (v, c # cs))"

definition whole_ms :: "rtttl_cfg \<Rightarrow> u32" where
  "whole_ms cfg = 4 * 60000 div (of_int (bpm cfg))"

definition skip_sep :: "string \<Rightarrow> string" where
  "skip_sep p = dropWhile (\<lambda>c. c = CHR '','' \<or> isspace c) p"

text \<open>
  One note, from its duration to the character after it: the tone and the rest. The dot is
  accepted before and after the octave.
\<close>

definition sharp_mark :: "char \<Rightarrow> bool" where
  "sharp_mark c \<longleftrightarrow> c = CHR ''#'' \<or> c = CHR ''s'' \<or> c = CHR ''S''"

definition parse_note :: "rtttl_cfg \<Rightarrow> string \<Rightarrow> fault + tone \<times> string" where
  "parse_note cfg p =
     (case dur_acc 0 p of
        Inl e \<Rightarrow> Inl e
      | Inr (dur, p) \<Rightarrow>
          let dur = (if dur = 0 then d_def cfg else dur);
              nc = tolower (peek p);
              (idx, p) = (if nc = CHR ''p'' then (- 1, tl p)
                          else let i = note_idx nc in (i, if i \<ge> 0 then tl p else p));
              (idx, p) = (if idx \<ge> 0 \<and> sharp_mark (peek p) then (idx + 1, tl p) else (idx, p));
              (dotted, p) = (if peek p = CHR ''.'' then (True, tl p) else (False, p));
              (oct, p) = (if isdigit (peek p) then (digit_val (peek p), tl p) else (o_def cfg, p));
              (dotted, p) = (if peek p = CHR ''.'' then (True, tl p) else (dotted, p));
              ms = whole_ms cfg div of_int dur;
              ms = (if dotted then ms + ms div 2 else ms)
          in case note_freq idx oct of Inl e \<Rightarrow> Inl e | Inr f \<Rightarrow> Inr ((f, ms), p))"

text \<open>
  The loop over the body of the song, with the tones played so far. The result pairs them with
  the fault that stopped the loop, if one did.
\<close>

partial_function (option) rtttl_loop ::
  "rtttl_cfg \<Rightarrow> string \<Rightarrow> tone list \<Rightarrow> (tone list \<times> fault option) option" where
  "rtttl_loop cfg p ts =
     (let p = skip_sep p
      in if p = [] then Some (ts, None)
         else (case parse_note cfg p of
                 Inl e \<Rightarrow> Some (ts, Some e)
               | Inr (t, q) \<Rightarrow> rtttl_loop cfg q (ts @ [t])))"

text \<open>The same loop cut off after \<open>n\<close> rounds: the tones played so far, also of a song that never ends.\<close>

fun rtttl_rounds :: "nat \<Rightarrow> rtttl_cfg \<Rightarrow> string \<Rightarrow> tone list \<Rightarrow> tone list" where
  "rtttl_rounds 0 cfg p ts = ts"
| "rtttl_rounds (Suc n) cfg p ts =
     (let p = skip_sep p
      in if p = [] then ts
         else (case parse_note cfg p of
                 Inl e \<Rightarrow> ts
               | Inr (t, q) \<Rightarrow> rtttl_rounds n cfg q (ts @ [t])))"

lemma rounds_of_loop: "rtttl_loop cfg p ts = Some (us, f) \<Longrightarrow> \<exists>n. rtttl_rounds n cfg p ts = us"
proof -
  assume r: "rtttl_loop cfg p ts = Some (us, f)"
  have "\<exists>n. rtttl_rounds n cfg p ts = fst (us, f)"
    apply (rule rtttl_loop.raw_induct [where P = "\<lambda>cfg p ts r. \<exists>n. rtttl_rounds n cfg p ts = fst r", OF _ r])
    subgoal premises h for rec cfg p ts r
    proof -
      from h(2) consider "skip_sep p = [] \<or> (\<exists>e. parse_note cfg (skip_sep p) = Inl e)" "fst r = ts"
        | t q where "skip_sep p \<noteq> []" "parse_note cfg (skip_sep p) = Inr (t, q)" "rec cfg q (ts @ [t]) = Some r"
        by (auto simp: Let_def split: if_splits sum.splits prod.splits)
      then show ?thesis
      proof cases
        case 1
        then show ?thesis by (intro exI [of _ 1]) (auto simp: Let_def)
      next
        case 2
        from h(1) [OF 2(3)] obtain n where "rtttl_rounds n cfg q (ts @ [t]) = fst r" by blast
        with 2 show ?thesis by (intro exI [of _ "Suc n"]) simp
      qed
    qed
    done
  then show ?thesis by simp
qed

section \<open>The header of a song\<close>

text \<open>The scan of the defaults between the two colons; \<open>n\<close> characters are left before the body.\<close>

fun scan_defaults :: "nat \<Rightarrow> string \<Rightarrow> rtttl_cfg \<Rightarrow> rtttl_cfg" where
  "scan_defaults 0 q cfg = cfg"
| "scan_defaults (Suc n) q cfg =
     scan_defaults n (tl q)
       (if (peek q = CHR ''d'' \<or> peek q = CHR ''o'' \<or> peek q = CHR ''b'') \<and> peek2 q = CHR ''=''
        then let v = atoi (drop 2 q)
             in if peek q = CHR ''d'' \<and> v \<noteq> 0 then cfg\<lparr>d_def := v\<rparr>
                else if peek q = CHR ''o'' \<and> v \<noteq> 0 then cfg\<lparr>o_def := v\<rparr>
                else if peek q = CHR ''b'' \<and> v \<noteq> 0 then cfg\<lparr>bpm := v\<rparr> else cfg
        else cfg)"

definition rtttl_default :: rtttl_cfg where
  "rtttl_default = \<lparr>d_def = 4, o_def = 5, bpm = 63\<rparr>"

definition rtttl_header :: "string \<Rightarrow> rtttl_cfg \<times> string" where
  "rtttl_header s =
     (let p = (case strchr s CHR '':'' of Some q \<Rightarrow> tl q | None \<Rightarrow> s)
      in case strchr p CHR '':'' of
           Some body \<Rightarrow> (scan_defaults (length p - length body) p rtttl_default, tl body)
         | None \<Rightarrow> (rtttl_default, p))"

text \<open>The tones of a song, in the order they are played.\<close>

definition song_tones :: "string \<Rightarrow> (tone list \<times> fault option) option" where
  "song_tones s = (let (cfg, p) = rtttl_header s in rtttl_loop cfg p [])"

fun play_all :: "device \<Rightarrow> tone list \<Rightarrow> engine \<Rightarrow> engine" where
  "play_all dev [] e = e"
| "play_all dev ((f, ms) # ts) e = play_all dev ts (play dev f ms e)"

text \<open>The engine after \<open>n\<close> rounds of a song.\<close>

definition play_rounds :: "nat \<Rightarrow> device \<Rightarrow> string \<Rightarrow> engine \<Rightarrow> engine" where
  "play_rounds n dev s e = (let (cfg, p) = rtttl_header s in play_all dev (rtttl_rounds n cfg p []) e)"

text \<open>\<open>play_rtttl\<close>: the engine when the song has ended; \<open>None\<close> when it never does or the
  code leaves C's defined behaviour.\<close>

definition play_rtttl :: "device \<Rightarrow> string \<Rightarrow> engine \<Rightarrow> engine option" where
  "play_rtttl dev s e =
     (case song_tones s of
        Some (ts, None) \<Rightarrow> Some (pwm_off dev (play_all dev ts e))
      | _ \<Rightarrow> None)"

section \<open>The song file\<close>

text \<open>\<open>fgets\<close> into a buffer of 1024: up to 1023 characters, the newline included.\<close>

fun fgets_take :: "nat \<Rightarrow> string \<Rightarrow> string \<times> string" where
  "fgets_take 0 s = ([], s)"
| "fgets_take (Suc n) [] = ([], [])"
| "fgets_take (Suc n) (c # cs) =
     (if c = CHR 0x0A then ([c], cs) else let (l, r) = fgets_take n cs in (c # l, r))"

lemma fgets_take_length: "fgets_take n s = (l, r) \<Longrightarrow> length l + length r = length s"
  by (induction n s arbitrary: l r rule: fgets_take.induct) (auto split: if_splits prod.splits)

lemma fgets_take_shrinks: "s \<noteq> [] \<Longrightarrow> fgets_take (Suc n) s = (l, r) \<Longrightarrow> length r < length s"
  by (cases s) (auto split: if_splits prod.splits dest: fgets_take_length)

definition fgets_line :: "string \<Rightarrow> string \<times> string" where
  "fgets_line s = fgets_take 1023 s"

lemma fgets_line_shrinks: "s \<noteq> [] \<Longrightarrow> fgets_line s = (l, r) \<Longrightarrow> length r < length s"
  using fgets_take_shrinks [of s 1022 l r] by (simp add: fgets_line_def)

definition is_blank :: "char \<Rightarrow> bool" where
  "is_blank c \<longleftrightarrow> c = CHR '' '' \<or> c = CHR 0x09"

definition is_trail :: "char \<Rightarrow> bool" where
  "is_trail c \<longleftrightarrow> c = CHR 0x0A \<or> c = CHR 0x0D \<or> is_blank c"

definition trim_end :: "(char \<Rightarrow> bool) \<Rightarrow> string \<Rightarrow> string" where
  "trim_end P s = rev (dropWhile P (rev s))"

text \<open>Name and value of one line, unless it is blank, a comment or has no \<open>=\<close>.\<close>

definition song_line :: "string \<Rightarrow> (string \<times> string) option" where
  "song_line line =
     (let p = dropWhile is_blank line
      in if peek p \<in> {CHR ''#'', CHR '';'', CHR 0x0A, CHR 0x0D, nul} then None
         else case strchr p CHR ''='' of
                None \<Rightarrow> None
              | Some eq \<Rightarrow>
                  Some (trim_end is_blank (take (length p - length eq) p),
                        trim_end is_trail (dropWhile is_blank (tl eq))))"

definition strcaseeq :: "string \<Rightarrow> string \<Rightarrow> bool" where
  "strcaseeq a b \<longleftrightarrow> map tolower a = map tolower b"

function find_song :: "string \<Rightarrow> string \<Rightarrow> string option" where
  "find_song name buf =
     (if buf = [] then None
      else case fgets_line buf of
             (line, rest) \<Rightarrow>
               (case song_line line of
                  Some (n, v) \<Rightarrow> if strcaseeq n name then Some v else find_song name rest
                | None \<Rightarrow> find_song name rest))"
  by pat_completeness auto
termination
  by (relation "measure (\<lambda>(n, b). length b)") (auto dest: fgets_line_shrinks [OF _ sym])

declare find_song.simps [simp del]

text \<open>\<open>play_song\<close>: the file is the parameter \<open>file\<close>, \<open>None\<close> when it cannot be opened. The
  result is the return value and the engine.\<close>

definition play_song :: "device \<Rightarrow> string option \<Rightarrow> string \<Rightarrow> engine \<Rightarrow> (int \<times> engine) option" where
  "play_song dev file name e =
     (case file of
        None \<Rightarrow> Some (- 1, e)
      | Some f \<Rightarrow>
          (case find_song name f of
             Some v \<Rightarrow> map_option (Pair 0) (play_rtttl dev v e)
           | None \<Rightarrow> Some (- 1, e)))"

end
