(* ===== verification/Beep_Song.thy ===== *)
theory Beep_Song
  imports Beep_Rtttl
begin

text \<open>
  What \<open>guppybeep.c\<close> makes of a song: the parser against an abstract syntax of songs, exactly
  when its loop ends, and the song file as a table of names.
\<close>

section \<open>Songs, as RTTTL writes them\<close>

datatype letter = Pause | La nat

text \<open>\<open>La i\<close> is the natural note with index \<open>i\<close> in the octave.\<close>

datatype rnote = Note (ndur: nat) (nletter: letter) (nsharp: bool) (ndot: bool) (noct: "nat option")

definition letter_char :: "letter \<Rightarrow> char" where
  "letter_char l = (case l of Pause \<Rightarrow> CHR ''p''
     | La i \<Rightarrow> if i = 0 then CHR ''c'' else if i = 2 then CHR ''d'' else if i = 4 then CHR ''e''
         else if i = 5 then CHR ''f'' else if i = 7 then CHR ''g'' else if i = 9 then CHR ''a''
         else CHR ''b'')"

definition naturals :: "nat set" where "naturals = {0, 2, 4, 5, 7, 9, 11}"

text \<open>Every note the format can spell, but for B sharp; a duration of 0 is one left out.\<close>

definition wf_note :: "rnote \<Rightarrow> bool" where
  "wf_note n \<longleftrightarrow> int (ndur n) \<le> int_max \<and>
     (case nletter n of Pause \<Rightarrow> \<not> nsharp n | La i \<Rightarrow> i \<in> naturals \<and> \<not> (i = 11 \<and> nsharp n)) \<and>
     (case noct n of None \<Rightarrow> True | Some k \<Rightarrow> k \<le> 9)"

definition wf_cfg :: "rtttl_cfg \<Rightarrow> bool" where
  "wf_cfg c \<longleftrightarrow> 0 < d_def c \<and> d_def c \<le> int_max \<and> 1 \<le> o_def c \<and> o_def c \<le> 9 \<and>
     0 < bpm c \<and> bpm c \<le> int_max"

definition render_note :: "rnote \<Rightarrow> string" where
  "render_note n = (if ndur n = 0 then [] else show_nat (ndur n)) @ [letter_char (nletter n)] @
     (if nsharp n then ''#'' else []) @ (if ndot n then ''.'' else []) @
     (case noct n of None \<Rightarrow> [] | Some k \<Rightarrow> show_nat k)"

fun render_notes :: "rnote list \<Rightarrow> string" where
  "render_notes [] = []"
| "render_notes [n] = render_note n"
| "render_notes (n # m # ns) = render_note n @ CHR '','' # render_notes (m # ns)"

definition render_header :: "rtttl_cfg \<Rightarrow> string" where
  "render_header c = ''d='' @ show_nat (nat (d_def c)) @
     '',o='' @ show_nat (nat (o_def c)) @ '',b='' @ show_nat (nat (bpm c))"

definition render_song :: "string \<Rightarrow> rtttl_cfg \<Rightarrow> rnote list \<Rightarrow> string" where
  "render_song name c ns = name @ '':'' @ render_header c @ '':'' @ render_notes ns"

text \<open>
  The tone a note stands for: pitch \<open>OCT4[i]\<close> scaled by a power of two for the octave,
  duration a whole note (\<open>240000 / bpm\<close> milliseconds) divided by the note's value, and half
  as much again for a dot.
\<close>

definition pitch :: "rtttl_cfg \<Rightarrow> rnote \<Rightarrow> nat" where
  "pitch c n = (case nletter n of Pause \<Rightarrow> 0
     | La i \<Rightarrow> unat (OCT4 ! (if nsharp n then Suc i else i)) *
         2 ^ (case noct n of None \<Rightarrow> nat (o_def c) | Some k \<Rightarrow> k) div 16)"

definition duration :: "rtttl_cfg \<Rightarrow> rnote \<Rightarrow> nat" where
  "duration c n =
     (let ms = 240000 div nat (bpm c) div (if ndur n = 0 then nat (d_def c) else ndur n)
      in if ndot n then ms + ms div 2 else ms)"

definition note_tone :: "rtttl_cfg \<Rightarrow> rnote \<Rightarrow> tone" where
  "note_tone c n = (of_nat (pitch c n), of_nat (duration c n))"

section \<open>One note\<close>

lemma dec_acc_ge: "0 \<le> v \<Longrightarrow> v \<le> fst (dec_acc v ds)"
proof (induction ds arbitrary: v)
  case Nil
  then show ?case by simp
next
  case (Cons c cs)
  show ?case
  proof (cases "isdigit c")
    case True
    then have "0 \<le> digit_val c" by (simp add: isdigit_def digit_val_def)
    with Cons.prems have "0 \<le> v * 10 + digit_val c" "v \<le> v * 10 + digit_val c" by auto
    with Cons.IH [of "v * 10 + digit_val c"] True show ?thesis by simp
  qed simp
qed

lemma dur_acc_dec_acc:
  "0 \<le> v \<Longrightarrow> fst (dec_acc v s) \<le> int_max \<Longrightarrow> dur_acc v s = Inr (dec_acc v s)"
proof (induction s arbitrary: v)
  case Nil
  then show ?case by simp
next
  case (Cons c cs)
  show ?case
  proof (cases "isdigit c")
    case True
    then have d: "0 \<le> digit_val c" by (simp add: isdigit_def digit_val_def)
    with Cons.prems have nn: "0 \<le> v * 10 + digit_val c" by auto
    have "v * 10 + digit_val c \<le> int_max"
      using dec_acc_ge [OF nn, of cs] Cons.prems(2) True by simp
    with Cons.IH [OF nn] Cons.prems(2) True show ?thesis by simp
  qed simp
qed

lemma dur_acc_show_nat [cchar_simps]:
  "int n \<le> int_max \<Longrightarrow> \<not> isdigit (peek rest) \<Longrightarrow> dur_acc 0 (show_nat n @ rest) = Inr (int n, rest)"
  by (simp add: dur_acc_dec_acc dec_acc_show_nat)

lemma dur_acc_none [cchar_simps]: "\<not> isdigit (peek s) \<Longrightarrow> dur_acc v s = Inr (v, s)"
  by (cases s) auto

lemma letter_char_facts:
  "i \<in> naturals \<Longrightarrow> note_idx (tolower (letter_char (La i))) = int i"
  "i \<in> naturals \<Longrightarrow> tolower (letter_char (La i)) \<noteq> CHR ''p''"
  "tolower (letter_char Pause) = CHR ''p''"
  "\<not> isdigit (letter_char l)"
  by (auto simp: letter_char_def naturals_def note_idx_def tolower_def code_def isdigit_def
      split: letter.split)

lemma OCT4_small: "i < 12 \<Longrightarrow> unat (OCT4 ! i) \<le> 494 \<and> 262 \<le> unat (OCT4 ! i)"
proof -
  assume "i < 12"
  then have "OCT4 ! i \<in> set OCT4" by (intro nth_mem) (simp add: OCT4_def)
  moreover have "\<forall>x\<in>set OCT4. unat x \<le> 494 \<and> 262 \<le> unat x" by (simp add: OCT4_def)
  ultimately show ?thesis by blast
qed

lemma push_bit_OCT4:
  assumes "i < 12" and "k \<le> 9"
  shows "note_freq (int i) (int k) = Inr (of_nat (unat (OCT4 ! i) * 2 ^ k div 16))"
proof (cases "k \<ge> 4")
  case True
  have "unat (OCT4 ! i) * 2 ^ k div 16 = unat (OCT4 ! i) * 2 ^ (k - 4)"
  proof -
    have "(2::nat) ^ k = 2 ^ (k - 4) * 16" using True power_add [of "2::nat" "k - 4" 4] by simp
    then show ?thesis by simp
  qed
  with True assms show ?thesis
    by (simp add: note_freq_def Let_def push_bit_eq_mult nat_diff_distrib of_nat_diff
        flip: of_nat_diff)
next
  case False
  have "unat (OCT4 ! i) * 2 ^ k div 16 = unat (OCT4 ! i) div 2 ^ (4 - k)"
  proof -
    have e: "2 ^ (4 - k) * 2 ^ k = (16::nat)"
      using False power_add [of "2::nat" "4 - k" k] by simp
    have "unat (OCT4 ! i) * 2 ^ k div (2 ^ (4 - k) * 2 ^ k) = unat (OCT4 ! i) div 2 ^ (4 - k)"
      by (rule div_mult_mult2) simp
    then show ?thesis unfolding e .
  qed
  moreover have "drop_bit (4 - k) (OCT4 ! i) = of_nat (unat (OCT4 ! i) div 2 ^ (4 - k))"
  proof -
    have "drop_bit (4 - k) (OCT4 ! i) = of_nat (unat (drop_bit (4 - k) (OCT4 ! i)))" by simp
    then show ?thesis using unat_drop_bit_eq [of "4 - k" "OCT4 ! i"] by (simp only: drop_bit_eq_div)
  qed
  moreover have "nat (4 - int k) = 4 - k" by linarith
  ultimately show ?thesis
    using False assms by (simp add: note_freq_def Let_def)
qed

lemma note_freq_pause [simp]: "note_freq (- 1) k = Inr 0"
  by (simp add: note_freq_def)

text \<open>The characters that may follow a note without being read as a part of it.\<close>

definition note_end :: "string \<Rightarrow> bool" where
  "note_end rest \<longleftrightarrow> rest = [] \<or> (\<exists>r. rest = CHR '','' # r)"

lemma note_end_peek:
  "note_end r \<Longrightarrow> \<not> isdigit (peek r) \<and> peek r \<noteq> CHR ''.'' \<and> \<not> sharp_mark (peek r)"
  by (auto simp: note_end_def isdigit_def code_def nul_def sharp_mark_def)

lemma isdigit_not_mark: "isdigit c \<Longrightarrow> c \<noteq> CHR ''.'' \<and> \<not> sharp_mark c"
  by (auto simp: isdigit_def code_def sharp_mark_def)

lemma show_nat_digit: "k < 10 \<Longrightarrow> show_nat k = [digit_char k]"
  by (subst show_nat.simps) simp

lemma note_freq_pitch:
  assumes "wf_note n" and "wf_cfg c" and "nletter n = La i"
  shows "note_freq (if nsharp n then int i + 1 else int i)
           (case noct n of None \<Rightarrow> o_def c | Some k \<Rightarrow> int k) = Inr (of_nat (pitch c n))"
proof -
  let ?k = "case noct n of None \<Rightarrow> nat (o_def c) | Some k \<Rightarrow> k"
  let ?i = "if nsharp n then Suc i else i"
  have "?i < 12" "?k \<le> 9"
    using assms by (auto simp: wf_note_def wf_cfg_def naturals_def split: option.splits)
  moreover have "(case noct n of None \<Rightarrow> o_def c | Some k \<Rightarrow> int k) = int ?k"
    using assms(2) by (simp add: wf_cfg_def split: option.split)
  moreover have "(if nsharp n then int i + 1 else int i) = int ?i" by simp
  ultimately show ?thesis
    using push_bit_OCT4 [of ?i ?k] assms(3) by (simp add: pitch_def)
qed

lemma word_of_nat_div:
  "a < 2 ^ 32 \<Longrightarrow> b < 2 ^ 32 \<Longrightarrow> (of_nat a :: u32) div of_nat b = of_nat (a div b)"
  by (rule u_eqI) (simp add: unat_div unat_of_nat less_imp_diff_less div_less_dividend
      order_le_less_trans [OF div_le_dividend])

lemma of_int_nat: "0 \<le> v \<Longrightarrow> (of_int v :: u32) = of_nat (nat v)"
  by (metis int_nat_eq of_int_of_nat_eq)

lemma whole_ms_nat:
  assumes "wf_cfg c" shows "whole_ms c = of_nat (240000 div nat (bpm c))"
proof -
  have "nat (bpm c) < 2 ^ 32" using assms by (simp add: wf_cfg_def int_max_def, linarith)
  then show ?thesis
    using word_of_nat_div [of 240000 "nat (bpm c)"] assms of_int_nat [of "bpm c"]
    by (simp add: whole_ms_def wf_cfg_def)
qed

lemma duration_ms:
  assumes "wf_cfg c" and "wf_note n"
  defines "d \<equiv> if int (ndur n) = 0 then d_def c else int (ndur n)"
  shows "(let ms = whole_ms c div of_int d in if ndot n then ms + ms div 2 else ms) =
         of_nat (duration c n)"
proof -
  let ?d = "if ndur n = 0 then nat (d_def c) else ndur n"
  have d: "?d < 2 ^ 32" using assms(1,2) by (simp add: wf_cfg_def wf_note_def int_max_def, linarith)
  have w: "(of_int d :: u32) = of_nat ?d"
    using assms(1) of_int_nat [of "d_def c"] by (simp add: d_def wf_cfg_def)
  have "240000 div nat (bpm c) \<le> 240000" by (rule div_le_dividend)
  then have q: "240000 div nat (bpm c) < 2 ^ 32" by (rule order_le_less_trans) simp
  have ms: "whole_ms c div of_int d = of_nat (240000 div nat (bpm c) div ?d)"
    unfolding whole_ms_nat [OF assms(1)] w by (rule word_of_nat_div [OF q d])
  have "240000 div nat (bpm c) div ?d \<le> 240000"
    by (rule order_trans [OF div_le_dividend div_le_dividend])
  then have "(of_nat (240000 div nat (bpm c) div ?d) :: u32) div 2 =
      of_nat (240000 div nat (bpm c) div ?d div 2)"
    using word_of_nat_div [of "240000 div nat (bpm c) div ?d" 2] by simp
  then show ?thesis unfolding duration_def Let_def ms by simp
qed

lemma parse_note_render:
  assumes wf: "wf_note n" and c: "wf_cfg c" and r: "note_end rest"
  shows "parse_note c (render_note n @ rest) = Inr (note_tone c n, rest)"
proof -
  obtain d l sh dt oc where n: "n = Note d l sh dt oc" by (cases n)
  let ?tail = "(if sh then ''#'' else []) @ (if dt then ''.'' else []) @
      (case oc of None \<Rightarrow> [] | Some k \<Rightarrow> show_nat k) @ rest"
  have dur: "dur_acc 0 (render_note n @ rest) = Inr (int d, letter_char l # ?tail)"
    using wf letter_char_facts(4) [of l]
    by (auto simp: n render_note_def wf_note_def cchar_simps)
  have marks: "\<not> isdigit (peek rest)" "peek rest \<noteq> CHR ''.''" "\<not> sharp_mark (peek rest)"
    using note_end_peek [OF r] by auto
  have oct: "peek (show_nat k @ rest) = digit_char k" "tl (show_nat k @ rest) = rest"
      "isdigit (digit_char k)" "digit_char k \<noteq> CHR ''.''" "\<not> sharp_mark (digit_char k)"
      "digit_val (digit_char k) = int k" if "oc = Some k" for k
    using that wf isdigit_not_mark [of "digit_char k"]
    by (simp_all add: n wf_note_def show_nat_digit)
  have dd: "sharp_mark CHR ''#''" "\<not> sharp_mark CHR ''.''" "\<not> isdigit CHR ''.''"
    by (simp_all add: sharp_mark_def isdigit_def code_def)
  note ms = duration_ms [OF c wf, unfolded Let_def n rnote.sel]
  show ?thesis
  proof (cases l)
    case Pause
    then have sh: "\<not> sh" using wf by (simp add: n wf_note_def)
    have "pitch c n = 0" by (simp add: pitch_def n Pause)
    then show ?thesis unfolding note_tone_def parse_note_def dur
      using ms marks oct sh letter_char_facts(3)
      by (cases oc; cases dt) (simp_all add: Pause n Let_def dd)
  next
    case (La i)
    then have i: "i \<in> naturals" using wf by (simp add: n wf_note_def)
    note f = note_freq_pitch [OF wf c, unfolded n rnote.sel, OF La]
    show ?thesis unfolding note_tone_def parse_note_def dur
      using ms f marks oct letter_char_facts(1,2) [OF i]
      by (cases oc; cases dt; cases sh) (simp_all add: La n Let_def dd)
  qed
qed

section \<open>The whole song\<close>

lemma skip_sep_comma [simp]: "skip_sep (CHR '','' # s) = skip_sep s"
  by (simp add: skip_sep_def)

lemma letter_char_not_sep: "letter_char l \<noteq> CHR '','' \<and> \<not> isspace (letter_char l)"
  by (simp add: letter_char_def isspace_def code_def split: letter.split)

lemma peek_render_note:
  "peek (render_note n @ r) \<noteq> CHR '','' \<and> \<not> isspace (peek (render_note n @ r)) \<and> render_note n @ r \<noteq> []"
proof (cases "ndur n = 0")
  case True
  then show ?thesis using letter_char_not_sep [of "nletter n"] by (simp add: render_note_def)
next
  case False
  obtain c cs where c: "show_nat (ndur n) = c # cs" by (cases "show_nat (ndur n)") auto
  then have "isdigit c" using show_nat_isdigit [of c "ndur n"] by simp
  with c False show ?thesis by (auto simp: render_note_def isdigit_def isspace_def code_def)
qed

lemma skip_sep_render_note [simp]: "skip_sep (render_note n @ r) = render_note n @ r"
  using peek_render_note [of n r] by (cases "render_note n @ r") (auto simp: skip_sep_def)

lemma render_notes_Cons:
  "render_notes (n # ns) = render_note n @ (if ns = [] then [] else CHR '','' # render_notes ns)"
  by (cases ns) auto

lemma loop_render_notes:
  "wf_cfg c \<Longrightarrow> \<forall>n\<in>set ns. wf_note n \<Longrightarrow>
   rtttl_loop c (render_notes ns) ts = Some (ts @ map (note_tone c) ns, None)"
proof (induction ns arbitrary: ts)
  case Nil
  show ?case by (subst rtttl_loop.simps) (simp add: skip_sep_def)
next
  case (Cons n ns)
  let ?r = "if ns = [] then [] else CHR '','' # render_notes ns"
  have p: "parse_note c (render_note n @ ?r) = Inr (note_tone c n, ?r)"
    using Cons.prems by (intro parse_note_render) (auto simp: note_end_def)
  have ne: "render_note n @ ?r \<noteq> []" using peek_render_note [of n ?r] by simp
  have skip: "rtttl_loop c ?r ts' = rtttl_loop c (render_notes ns) ts'" for ts'
    by (subst (1 2) rtttl_loop.simps) simp
  have "rtttl_loop c (render_notes (n # ns)) ts = rtttl_loop c ?r (ts @ [note_tone c n])"
    unfolding render_notes_Cons by (subst rtttl_loop.simps) (simp only: skip_sep_render_note Let_def p ne if_False sum.case prod.case)
  with Cons show ?case by (simp only: skip) simp
qed

text \<open>The defaults are read back from the header.\<close>

lemma scan_digits:
  "(\<And>x. x \<in> set ds \<Longrightarrow> isdigit x) \<Longrightarrow>
   scan_defaults (length ds + n) (ds @ rest) cfg = scan_defaults n rest cfg"
proof (induction ds)
  case Nil
  then show ?case by simp
next
  case (Cons x ds)
  then have "isdigit x" by simp
  then have "x \<noteq> CHR ''d''" "x \<noteq> CHR ''o''" "x \<noteq> CHR ''b''"
    by (auto simp: isdigit_def code_def)
  with Cons show ?case by simp
qed

lemma scan_skip:
  "c \<notin> {CHR ''d'', CHR ''o'', CHR ''b''} \<Longrightarrow>
   scan_defaults (Suc n) (c # rest) cfg = scan_defaults n rest cfg"
  by simp

definition field :: "char \<Rightarrow> nat \<Rightarrow> string" where
  "field k v = k # CHR ''='' # show_nat v"

definition set_field :: "char \<Rightarrow> int \<Rightarrow> rtttl_cfg \<Rightarrow> rtttl_cfg" where
  "set_field k v cfg = (if k = CHR ''d'' then cfg\<lparr>d_def := v\<rparr>
     else if k = CHR ''o'' then cfg\<lparr>o_def := v\<rparr> else cfg\<lparr>bpm := v\<rparr>)"

lemma scan_field:
  assumes "int v \<le> int_max" and "v \<noteq> 0" and "\<not> isdigit (peek rest)"
    and "k \<in> {CHR ''d'', CHR ''o'', CHR ''b''}"
  shows "scan_defaults (length (field k v) + n) (field k v @ rest) cfg =
    scan_defaults n rest (set_field k (int v) cfg)"
  using assms scan_digits [of "show_nat v" n rest, OF show_nat_isdigit]
  by (auto simp: atoi_show_nat field_def set_field_def)

lemma header_no_colon: "CHR '':'' \<notin> set (render_header c)"
  using show_nat_isdigit by (fastforce simp: render_header_def isdigit_def code_def)

lemma scan_header:
  assumes "wf_cfg c"
  shows "scan_defaults (length (render_header c)) (render_header c @ CHR '':'' # r) cfg = c"
proof -
  have nd: "\<not> isdigit (peek (CHR '','' # s))" "\<not> isdigit (peek (CHR '':'' # s))" for s
    by (simp_all add: isdigit_def code_def)
  have pos: "nat (d_def c) \<noteq> 0" "nat (o_def c) \<noteq> 0" "nat (bpm c) \<noteq> 0"
    "int (nat (d_def c)) \<le> int_max" "int (nat (o_def c)) \<le> int_max" "int (nat (bpm c)) \<le> int_max"
    using assms by (auto simp: wf_cfg_def int_max_def)
  let ?d = "field CHR ''d'' (nat (d_def c))"
  let ?o = "field CHR ''o'' (nat (o_def c))"
  let ?b = "field CHR ''b'' (nat (bpm c))"
  let ?tail = "CHR '':'' # r"
  have split: "render_header c = ?d @ CHR '','' # ?o @ CHR '','' # ?b"
    by (simp add: render_header_def field_def)
  have len: "length (?d @ CHR '','' # ?o @ CHR '','' # ?b) = length ?d + Suc (length ?o + Suc (length ?b + 0))"
    by simp
  have comma: "scan_defaults (Suc n) (CHR '','' # s) g = scan_defaults n s g" for n s g
    by (rule scan_skip) simp
  show ?thesis
    using assms unfolding split len append_assoc append_Cons
    by (simp only: scan_field [OF pos(4,1) nd(1)] comma scan_field [OF pos(5,2) nd(1)]
        scan_field [OF pos(6,3) nd(2)] insert_iff simp_thms scan_defaults.simps(1))
      (simp add: set_field_def wf_cfg_def)
qed

lemma rtttl_header_render:
  assumes "wf_cfg c" and "CHR '':'' \<notin> set name"
  shows "rtttl_header (render_song name c ns) = (c, render_notes ns)"
  using assms
  by (simp add: rtttl_header_def render_song_def strchr_append header_no_colon scan_header)

lemma song_tones_render:
  assumes "wf_cfg c" and "CHR '':'' \<notin> set name" and "\<forall>n\<in>set ns. wf_note n"
  shows "song_tones (render_song name c ns) = Some (map (note_tone c) ns, None)"
  using assms by (simp add: song_tones_def rtttl_header_render loop_render_notes)

section \<open>When the note loop ends\<close>

text \<open>
  The loop does not end exactly when it comes to a place where a whole round of it reads no
  character: a note letter that is none of the eight, with neither digit nor dot before it.
\<close>

inductive stuck :: "rtttl_cfg \<Rightarrow> string \<Rightarrow> bool" for cfg where
  here: "skip_sep p \<noteq> [] \<Longrightarrow> parse_note cfg (skip_sep p) = Inr (t, skip_sep p) \<Longrightarrow> stuck cfg p"
| later: "skip_sep p \<noteq> [] \<Longrightarrow> parse_note cfg (skip_sep p) = Inr (t, q) \<Longrightarrow> q \<noteq> skip_sep p \<Longrightarrow>
    stuck cfg q \<Longrightarrow> stuck cfg p"

inductive_cases stuckE: "stuck cfg p"

lemma skip_sep_idem [simp]: "skip_sep (skip_sep p) = skip_sep p"
  by (simp add: skip_sep_def)

lemma length_skip_sep: "length (skip_sep p) \<le> length p"
  by (simp add: skip_sep_def length_dropWhile_le)

lemma dur_acc_suffix: "dur_acc v s = Inr (d, r) \<Longrightarrow> \<exists>ds. s = ds @ r"
proof (induction v s rule: dur_acc.induct)
  case (1 v)
  then show ?case by simp
next
  case (2 v c cs)
  show ?case
  proof (cases "isdigit c")
    case True
    with "2.prems" have "dur_acc (v * 10 + digit_val c) cs = Inr (d, r)"
      by (auto simp: Let_def split: if_splits)
    with "2.IH" [OF True refl] "2.prems" True obtain ds where "cs = ds @ r"
      by (auto simp: Let_def split: if_splits)
    then show ?thesis by (intro exI [of _ "c # ds"]) simp
  qed (use "2.prems" in auto)
qed

lemma tl_suffix: "\<exists>ds. s = ds @ tl s"
  by (cases s) (auto intro: exI [of _ "[_]"])

definition suffix_of :: "string \<Rightarrow> string \<Rightarrow> bool" where
  "suffix_of s r \<longleftrightarrow> (\<exists>ds. s = ds @ r)"

lemma suffix_of_refl [intro]: "suffix_of s s"
  by (auto simp: suffix_of_def)

lemma suffix_of_tl [intro!]: "suffix_of s r \<Longrightarrow> suffix_of s (tl r)"
  unfolding suffix_of_def using tl_suffix [of r] by (metis append_assoc)

lemma suffix_of_length: "suffix_of s r \<Longrightarrow> r \<noteq> s \<Longrightarrow> length r < length s"
  by (auto simp: suffix_of_def)

lemma parse_note_suffix:
  assumes "parse_note cfg p = Inr (t, q)" shows "suffix_of p q"
proof -
  obtain d r where r: "dur_acc 0 p = Inr (d, r)"
    using assms by (auto simp: parse_note_def split: sum.splits)
  have "suffix_of p r" using dur_acc_suffix [OF r] by (simp add: suffix_of_def)
  then show ?thesis
    using assms unfolding parse_note_def r
    by (auto simp: Let_def split: sum.splits if_splits)
qed

text \<open>At a stuck place the loop has no value.\<close>

lemma loop_stuck_here:
  assumes "skip_sep p \<noteq> []" and "parse_note cfg (skip_sep p) = Inr (t, skip_sep p)"
  shows "rtttl_loop cfg p ts = None"
proof (rule ccontr)
  let ?q = "skip_sep p"
  assume "rtttl_loop cfg p ts \<noteq> None"
  then obtain r where r: "rtttl_loop cfg p ts = Some r" by auto
  have "\<not> (cfg = cfg \<and> skip_sep p = ?q)"
  proof (rule rtttl_loop.raw_induct [where P = "\<lambda>c p ts r. \<not> (c = cfg \<and> skip_sep p = ?q)", OF _ r])
    fix f c p' ts' r'
    assume IH: "\<And>c p ts r. f c p ts = Some r \<Longrightarrow> \<not> (c = cfg \<and> skip_sep p = ?q)"
      and eq: "(let p = skip_sep p' in if p = [] then Some (ts', None)
        else case parse_note c p of Inl e \<Rightarrow> Some (ts', Some e)
          | Inr (t, q) \<Rightarrow> f c q (ts' @ [t])) = Some r'"
    show "\<not> (c = cfg \<and> skip_sep p' = ?q)"
    proof
      assume "c = cfg \<and> skip_sep p' = ?q"
      with eq assms have "f cfg ?q (ts' @ [t]) = Some r'" by simp
      from IH [OF this] show False by simp
    qed
  qed
  then show False by simp
qed

lemma rtttl_loop_step:
  "skip_sep p \<noteq> [] \<Longrightarrow> parse_note cfg (skip_sep p) = Inr (t, q) \<Longrightarrow>
   rtttl_loop cfg p ts = rtttl_loop cfg q (ts @ [t])"
  by (subst rtttl_loop.simps) simp

lemma loop_stuck: "stuck cfg p \<Longrightarrow> rtttl_loop cfg p ts = None"
  by (induction arbitrary: ts rule: stuck.induct) (simp_all add: loop_stuck_here rtttl_loop_step)

lemma loop_not_stuck: "\<not> stuck cfg p \<Longrightarrow> \<exists>r. rtttl_loop cfg p ts = Some r"
proof (induction "length p" arbitrary: p ts rule: less_induct)
  case less
  show ?case
  proof (cases "skip_sep p = []")
    case True
    then show ?thesis by (subst rtttl_loop.simps) simp
  next
    case False
    show ?thesis
    proof (cases "parse_note cfg (skip_sep p)")
      case (Inl e)
      with False show ?thesis by (subst rtttl_loop.simps) simp
    next
      case (Inr tq)
      obtain t q where tq: "tq = (t, q)" by (cases tq)
      have "q \<noteq> skip_sep p" using less.prems False Inr tq stuck.here by blast
      moreover from this have "\<not> stuck cfg q" using less.prems False Inr tq stuck.later by blast
      moreover have "length q < length p"
        using suffix_of_length [OF parse_note_suffix, of cfg "skip_sep p" t q] Inr tq
          \<open>q \<noteq> skip_sep p\<close> length_skip_sep [of p] by simp
      ultimately show ?thesis
        using less.hyps [of q] rtttl_loop_step [OF False] Inr tq by simp
    qed
  qed
qed

text \<open>The letters that block the loop.\<close>

definition blocking :: "char \<Rightarrow> bool" where
  "blocking c \<longleftrightarrow> c \<noteq> CHR '','' \<and> \<not> isspace c \<and> \<not> isdigit c \<and> c \<noteq> CHR ''.'' \<and>
     tolower c \<noteq> CHR ''p'' \<and> note_idx (tolower c) < 0"

lemma blocking_parse:
  assumes "blocking c"
  shows "\<exists>t. parse_note cfg (c # cs) = Inr (t, c # cs)"
proof -
  have "note_idx (tolower c) = - 1" using assms by (auto simp: blocking_def note_idx_def split: if_splits)
  with assms show ?thesis by (simp add: parse_note_def blocking_def Let_def)
qed

lemma blocking_stuck: "blocking c \<Longrightarrow> stuck cfg (c # cs)"
proof -
  assume b: "blocking c"
  then have "skip_sep (c # cs) = c # cs" by (simp add: skip_sep_def blocking_def)
  with blocking_parse [OF b, of cfg cs] show ?thesis by (auto intro: stuck.here)
qed

section \<open>The song file as a table\<close>

definition wf_entry :: "string \<times> string \<Rightarrow> bool" where
  "wf_entry nv \<longleftrightarrow>
     (case nv of (n, v) \<Rightarrow>
        n \<noteq> [] \<and> CHR ''='' \<notin> set n \<and> CHR 0x0A \<notin> set n \<and> CHR 0x0A \<notin> set v \<and>
        hd n \<notin> {CHR ''#'', CHR '';'', CHR 0x0D, nul} \<and> \<not> is_blank (hd n) \<and> \<not> is_blank (last n) \<and>
        (v = [] \<or> \<not> is_blank (hd v) \<and> \<not> is_trail (last v)) \<and> length n + length v < 1000)"

definition render_entry :: "string \<times> string \<Rightarrow> string" where
  "render_entry nv = fst nv @ '' = '' @ snd nv @ [CHR 0x0A]"

definition render_songs :: "(string \<times> string) list \<Rightarrow> string" where
  "render_songs es = concat (map render_entry es)"

definition fold_case :: "string \<Rightarrow> string" where "fold_case = map tolower"

lemma fgets_take_line:
  "CHR 0x0A \<notin> set l \<Longrightarrow> length l < n \<Longrightarrow> fgets_take n (l @ CHR 0x0A # rest) = (l @ [CHR 0x0A], rest)"
proof (induction l arbitrary: n)
  case Nil
  then show ?case by (cases n) auto
next
  case (Cons c l)
  then obtain m where "n = Suc m" by (cases n) auto
  with Cons show ?case by (auto simp: eq_commute)
qed

lemma trim_end_keep: "xs = [] \<or> \<not> P (last xs) \<Longrightarrow> (\<And>y. y \<in> set ys \<Longrightarrow> P y) \<Longrightarrow> trim_end P (xs @ ys) = xs"
proof -
  assume xs: "xs = [] \<or> \<not> P (last xs)" and ys: "\<And>y. y \<in> set ys \<Longrightarrow> P y"
  have "dropWhile P (rev ys @ rev xs) = dropWhile P (rev xs)"
    by (rule dropWhile_append_all) (simp add: ys)
  moreover have "dropWhile P (rev xs) = rev xs"
    using xs by (cases xs rule: rev_cases) auto
  ultimately show ?thesis by (simp add: trim_end_def)
qed

lemma song_line_render:
  assumes "wf_entry (n, v)" shows "song_line (n @ '' = '' @ v @ [CHR 0x0A]) = Some (n, v)"
proof -
  let ?line = "n @ '' = '' @ v @ [CHR 0x0A]"
  obtain c n' where n: "n = c # n'" using assms by (cases n) (auto simp: wf_entry_def)
  have lead: "dropWhile is_blank ?line = ?line" using assms by (simp add: wf_entry_def n)
  have first: "peek ?line \<notin> {CHR ''#'', CHR '';'', CHR 0x0A, CHR 0x0D, nul}"
    using assms by (auto simp: wf_entry_def n)
  have split: "?line = (n @ '' '') @ CHR ''='' # CHR '' '' # v @ [CHR 0x0A]" by simp
  have eq: "strchr ?line CHR ''='' = Some (CHR ''='' # CHR '' '' # v @ [CHR 0x0A])"
    unfolding split by (rule strchr_append) (use assms in \<open>auto simp: wf_entry_def\<close>)
  have name: "trim_end is_blank (n @ '' '') = n"
    by (rule trim_end_keep) (use assms in \<open>auto simp: wf_entry_def is_blank_def\<close>)
  have "dropWhile is_blank (v @ [CHR 0x0A]) = v @ [CHR 0x0A]"
    using assms by (cases v) (auto simp: wf_entry_def is_blank_def)
  moreover have "trim_end is_trail (v @ [CHR 0x0A]) = v"
    by (rule trim_end_keep) (use assms in \<open>auto simp: wf_entry_def is_trail_def\<close>)
  ultimately have val: "trim_end is_trail (dropWhile is_blank (CHR '' '' # v @ [CHR 0x0A])) = v"
    by (simp add: is_blank_def)
  have take: "take (length ?line - length (CHR ''='' # CHR '' '' # v @ [CHR 0x0A])) ?line = n @ '' ''"
    unfolding split by simp
  show ?thesis
    unfolding song_line_def Let_def lead eq option.case take name list.sel(3) val using first by simp
qed

lemma find_song_table:
  "\<forall>e\<in>set es. wf_entry e \<Longrightarrow>
   find_song name (render_songs es) = map_of (map (\<lambda>(n, v). (fold_case n, v)) es) (fold_case name)"
proof (induction es)
  case Nil
  show ?case by (subst find_song.simps) (simp add: render_songs_def)
next
  case (Cons e es)
  obtain n v where e: "e = (n, v)" by (cases e)
  let ?l = "n @ '' = '' @ v"
  have wf: "wf_entry (n, v)" using Cons.prems e by simp
  have buf: "render_songs (e # es) = ?l @ CHR 0x0A # render_songs es"
    by (simp add: render_songs_def render_entry_def e)
  have "fgets_line (?l @ CHR 0x0A # render_songs es) = (?l @ [CHR 0x0A], render_songs es)"
    unfolding fgets_line_def
    by (rule fgets_take_line) (use wf in \<open>auto simp: wf_entry_def\<close>)
  then show ?case
    using Cons song_line_render [OF wf] unfolding buf
    by (subst find_song.simps) (simp add: e strcaseeq_def fold_case_def)
qed

end
