(* ===== verification/Beep_Main.thy ===== *)
theory Beep_Main
  imports Beep_Pin Beep_Song
begin

text \<open>
  \<open>k1/k1_mods/buzzer/guppybeep.c\<close> as a process: the command line, the time a run sleeps, the
  waveform a note programs, and the pin at the end. The memory mapping of \<open>map_all\<close> is the
  flag \<open>mapped\<close>, the file system is the function \<open>fs\<close> from paths to contents.
\<close>

section \<open>The command line\<close>

text \<open>
  The argument scan of \<open>m300\<close>. An empty argument makes the code read behind its NUL, which
  is \<open>None\<close> here.
\<close>

definition m300_set :: "char \<Rightarrow> string \<Rightarrow> u32 \<times> u32 \<Rightarrow> u32 \<times> u32" where
  "m300_set c num fm =
     (if toupper c = CHR ''S'' then (strtoul0 num, snd fm)
      else if toupper c = CHR ''P'' then (fst fm, strtoul0 num) else fm)"

fun m300_args :: "string list \<Rightarrow> u32 \<times> u32 \<Rightarrow> (u32 \<times> u32) option" where
  "m300_args [] fm = Some fm"
| "m300_args (a # rest) fm =
     (if a = [] then None
      else if tl a \<noteq> [] then m300_args rest (m300_set (hd a) (tl a) fm)
      else (case rest of
              [] \<Rightarrow> Some (m300_set (hd a) [] fm)
            | b # r \<Rightarrow> m300_args r (m300_set (hd a) b fm)))"

definition arg_or :: "string list \<Rightarrow> nat \<Rightarrow> u32 \<Rightarrow> u32" where
  "arg_or argv i v = (if i < length argv then strtoul0 (argv ! i) else v)"

definition songs_conf :: string where
  "songs_conf = ''/usr/data/printer_data/config/songs.conf''"

text \<open>The branches of \<open>main\<close> between \<open>engine_start\<close> and \<open>cleanup\<close>: exit status and engine.\<close>

definition run_mode ::
  "device \<Rightarrow> (string \<Rightarrow> string option) \<Rightarrow> string list \<Rightarrow> engine \<Rightarrow> (int \<times> engine) option" where
  "run_mode dev fs argv e =
     (let mode = (if 1 < length argv then argv ! 1 else [])
      in if mode = ''tone'' then Some (0, play dev (arg_or argv 2 1000) (arg_or argv 3 200) e)
         else if mode = ''m300'' then
           (case m300_args (drop 2 argv) (1000, 100) of
              None \<Rightarrow> None
            | Some (f, ms) \<Rightarrow>
                Some (0, if f \<ge> 20 then play dev f ms e else usleep (ms * 1000) (pwm_off dev e)))
         else if mode = ''rtttl'' then
           (if 2 < length argv then map_option (Pair 0) (play_rtttl dev (argv ! 2) e) else Some (0, e))
         else if mode = ''song'' then
           (let name = (if 2 < length argv then argv ! 2 else []);
                path = (if 3 < length argv then argv ! 3 else songs_conf)
            in if name \<noteq> [] then map_option (\<lambda>(r, e). (0, e)) (play_song dev (fs path) name e)
               else Some (0, e))
         else if mode = ''click'' then
           Some (0, play dev (arg_or argv 2 260) (arg_or argv 3 4) (e\<lparr>g_duty := arg_or argv 4 2\<rparr>))
         else Some (2, e))"

definition beep_main ::
  "device \<Rightarrow> bool \<Rightarrow> (string \<Rightarrow> string option) \<Rightarrow> string list \<Rightarrow> engine \<Rightarrow> (int \<times> engine) option" where
  "beep_main dev mapped fs argv e =
     (if \<not> mapped then Some (1, e)
      else (case run_mode dev fs argv (engine_start dev e) of
              None \<Rightarrow> None
            | Some (rc, e) \<Rightarrow> Some (rc, cleanup dev e)))"

section \<open>The process as atomic steps\<close>

text \<open>The duty is a plain variable: changing it is no access, so it is kept aside.\<close>

definition pwm_run_duty :: "device \<Rightarrow> engine \<Rightarrow> engine \<Rightarrow> bool" where
  "pwm_run_duty dev e f \<longleftrightarrow> (\<exists>d. pwm_run dev (e\<lparr>g_duty := d\<rparr>) f)"

lemma pwm_run_dutyI: "pwm_run dev e f \<Longrightarrow> pwm_run_duty dev e f"
  unfolding pwm_run_duty_def by (intro exI [of _ "g_duty e"]) simp

lemma pwm_run_play_all [intro!]: "pwm_run dev e f \<Longrightarrow> pwm_run dev e (play_all dev ts f)"
  by (induction dev ts f rule: play_all.induct) auto

lemma pwm_run_rtttl: "play_rtttl dev s e = Some f \<Longrightarrow> pwm_run dev e f"
  by (auto simp: play_rtttl_def split: option.splits prod.splits)

lemma pwm_run_song: "play_song dev buf name e = Some (r, f) \<Longrightarrow> pwm_run dev e f"
  by (auto simp: play_song_def split: option.splits dest: pwm_run_rtttl)

lemma pwm_run_mode: "run_mode dev fs argv e = Some (rc, f) \<Longrightarrow> pwm_run_duty dev e f"
proof -
  assume r: "run_mode dev fs argv e = Some (rc, f)"
  have click: "pwm_run_duty dev e (play dev fr ms (e\<lparr>g_duty := d\<rparr>))" for fr ms d
    unfolding pwm_run_duty_def by (intro exI [of _ d]) auto
  from r show ?thesis
    unfolding run_mode_def Let_def
    by (auto split: if_splits option.splits prod.splits dest: pwm_run_rtttl pwm_run_song
        intro!: click intro: pwm_run_dutyI)
qed

lemma run_start_duty:
  "run dev start_steps (e\<lparr>g_duty := d\<rparr>) = (run dev start_steps e)\<lparr>g_duty := d\<rparr>"
  by (simp add: start_steps_def pin_bit_def gset_def)

lemma gpio_restore_run:
  "\<exists>steps. set steps \<subseteq> set restore_steps \<and> gpio_restore e = run dev steps e"
proof (cases "saved e \<and> \<not> gpio_done e")
  case True
  then show ?thesis using gpio_restore_steps [of e dev] by blast
next
  case False
  then show ?thesis by (intro exI [of _ "[]"]) (auto simp: gpio_restore_def)
qed

lemma beep_main_steps:
  assumes "beep_main dev True fs argv e = Some (rc, e')"
  shows "\<exists>d body. (\<forall>m\<in>set body. pwm_step m) \<and>
           e' = gpio_restore (run dev body (run dev start_steps (e\<lparr>g_duty := d\<rparr>)))"
proof -
  from assms obtain f where f: "run_mode dev fs argv (engine_start dev e) = Some (rc, f)"
    and e': "e' = cleanup dev f"
    by (auto simp: beep_main_def split: option.splits)
  from pwm_run_mode [OF f] obtain d where "pwm_run dev ((engine_start dev e)\<lparr>g_duty := d\<rparr>) f"
    by (auto simp: pwm_run_duty_def)
  then have "pwm_run dev (run dev start_steps (e\<lparr>g_duty := d\<rparr>)) (pwm_off dev f)"
    by (auto simp: run_start_duty engine_start_steps)
  then obtain body where "\<forall>m\<in>set body. pwm_step m"
    and "pwm_off dev f = run dev body (run dev start_steps (e\<lparr>g_duty := d\<rparr>))"
    by (auto simp: pwm_run_def)
  then show ?thesis by (intro exI conjI) (auto simp: e' cleanup_def)
qed






section \<open>The interrupt bit\<close>

context pin_port
begin

lemma int_bit_gset:
  "\<not> bit (level dev e 0x10) CH \<Longrightarrow> r \<noteq> 0x14 \<Longrightarrow> \<not> bit (level dev (gset r e) 0x10) CH"
  using bit_gset_clear [of "0x10" e CH] gset_frame [of "0x10" r e]
  by (cases "r = 0x18") (auto simp: levels_def)

lemma int_bit_gsetD:
  "bit (level dev (gset r e) 0x10) CH \<Longrightarrow> r \<noteq> 0x14 \<Longrightarrow> bit (level dev e 0x10) CH"
  using int_bit_gset by blast

lemma int_bit_cleared: "\<not> bit (level dev (gset G_INTC e) 0x10) CH"
  using bit_gset_clear [of "0x10" e CH] by (auto simp: levels_def G_INTC_def)

lemma int_bit_start: "\<not> bit (level dev (run dev start_steps e) 0x10) CH"
  unfolding start_steps_def run.simps exec.simps
  by (intro int_bit_gset int_bit_cleared) (simp_all add: gpio_reg_defs)

lemma int_bit_restore:
  "\<not> bit (level dev e 0x10) CH \<Longrightarrow> \<not> bit (level dev (gpio_restore e) 0x10) CH"
  unfolding gpio_restore_def Let_def
  by (auto dest!: int_bit_gsetD simp: gpio_reg_defs)

end

text \<open>The restoration is not complete: \<open>engine_start\<close> clears the pin's bit in the interrupt
  register, which \<open>gpio_save\<close> does not read, and no clean-up sets it again. The bit is clear
  at the end of every run on a port that honours the set/clear contract, whatever it was at
  the start.\<close>

theorem interrupt_bit_not_restored:
  assumes port: "pin_port dev" and "beep_main dev True fs argv e = Some (rc, e')"
  shows "\<not> bit (dev (hist e') GPC 0x10) CH"
proof -
  from beep_main_steps [OF assms(2)] obtain d body
    where body: "\<forall>m\<in>set body. pwm_step m"
      and e': "e' = gpio_restore (run dev body (run dev start_steps (e\<lparr>g_duty := d\<rparr>)))" by blast
  have "pwm_run dev (run dev start_steps (e\<lparr>g_duty := d\<rparr>)) (run dev body (run dev start_steps (e\<lparr>g_duty := d\<rparr>)))"
    using body by (auto simp: pwm_run_def)
  from pin_port.level_pwm_run [OF port this, of "0x10"] show ?thesis
    unfolding e' using pin_port.int_bit_start [OF port]
    by (intro pin_port.int_bit_restore [OF port]) (simp add: levels_def)
qed

theorem interrupt_bit_not_restored_witness:
  "bit (soc_dev (\<lambda>_. 8) (hist init_engine) GPC 0x10) CH \<and>
   (\<exists>rc e'. beep_main (soc_dev (\<lambda>_. 8)) True (\<lambda>_. None) [''guppybeep'', ''click''] init_engine = Some (rc, e') \<and>
      \<not> bit (soc_dev (\<lambda>_. 8) (hist e') GPC 0x10) CH)"
proof -
  let ?dev = "soc_dev (\<lambda>_. 8)"
  obtain rc e' where r: "beep_main ?dev True (\<lambda>_. None) [''guppybeep'', ''click''] init_engine = Some (rc, e')"
    by (simp add: beep_main_def run_mode_def Let_def)
  have "bit (?dev (hist init_engine) GPC 0x10) CH"
    by (simp add: init_engine_def CH_def)
  with interrupt_bit_not_restored [OF soc.pin_port_axioms r] r show ?thesis by blast
qed

section \<open>The waveform of a note\<close>

definition clk :: "nat \<Rightarrow> nat" where "clk P = 300000000 div 2 ^ P"

lemma unat_clk: "unat (drop_bit P (300000000 :: u32)) = clk P"
  using unat_drop_bit_eq [of P "300000000 :: u32"] by (simp only: drop_bit_eq_div clk_def) simp

definition fits :: "u32 \<Rightarrow> nat \<Rightarrow> bool" where
  "fits freq P \<longleftrightarrow> 0 < clk P div unat freq \<and> clk P div unat freq < 65500"

lemma fits_word:
  "fits freq P \<longleftrightarrow>
     0 < drop_bit P 300000000 div freq \<and> drop_bit P 300000000 div freq < 65500"
proof -
  have "unat (drop_bit P (300000000 :: u32) div freq) = clk P div unat freq"
    by (simp only: unat_div unat_clk)
  then show ?thesis
    unfolding fits_def word_less_nat_alt by simp
qed

lemma pick_from_first:
  "P \<le> Q \<Longrightarrow> Q \<le> 15 \<Longrightarrow> fits freq Q \<Longrightarrow> \<forall>R. P \<le> R \<and> R < Q \<longrightarrow> \<not> fits freq R \<Longrightarrow>
   pick_from freq P = (Q, drop_bit Q 300000000 div freq)"
proof (induction freq P rule: pick_from.induct)
  case (1 freq P)
  show ?case
  proof (cases "fits freq P")
    case True
    then have "P = Q" using "1.prems" by (cases "P = Q") auto
    with True "1.prems" show ?thesis
      by (subst pick_from.simps) (simp add: Let_def flip: fits_word)
  next
    case False
    then have "P \<noteq> Q" using "1.prems" by auto
    with "1.prems" have "pick_from freq (Suc P) = (Q, drop_bit Q 300000000 div freq)"
      using False by (intro "1.IH" [OF _ refl]) (auto simp flip: fits_word)
    with False "1.prems" show ?thesis
      by (subst pick_from.simps) (simp add: Let_def flip: fits_word)
  qed
qed

text \<open>Every audible frequency up to half the clock fits one of the first nine prescales.\<close>

lemma some_fits:
  assumes "20 \<le> freq" and "freq \<le> 150000000"
  shows "fits freq 0 \<or> fits freq 8"
proof (cases "unat freq > 4580")
  case True
  have "unat freq \<le> 150000000" using assms(2) by (simp add: word_le_nat_alt)
  then have "2 \<le> 300000000 div unat freq" using True by (simp add: less_eq_div_iff_mult_less_eq)
  moreover have "300000000 div unat freq < 65500"
    using True by (simp add: div_less_iff_less_mult)
  ultimately show ?thesis by (simp add: fits_def clk_def)
next
  case False
  have "20 \<le> unat freq" using assms(1) by (simp add: word_le_nat_alt)
  then have "1171875 div unat freq < 65500" "0 < 1171875 div unat freq"
    using False by (simp_all add: div_less_iff_less_mult div_greater_zero_iff)
  then show ?thesis by (simp add: fits_def clk_def)
qed

lemma pick_prescale_spec:
  assumes "20 \<le> freq" and "freq \<le> 150000000"
  obtains Q where "pick_prescale freq = (Q, drop_bit Q 300000000 div freq)" "Q \<le> 8" "fits freq Q"
    "\<forall>R < Q. \<not> fits freq R"
proof -
  define Q where "Q = (LEAST Q. fits freq Q)"
  have ex: "\<exists>Q. fits freq Q" using some_fits [OF assms] by blast
  have f: "fits freq Q" unfolding Q_def using LeastI_ex [OF ex] .
  have le: "Q \<le> 8" unfolding Q_def using some_fits [OF assms] Least_le [of "fits freq"]
    by (metis le0 le_trans)
  have least: "\<forall>R < Q. \<not> fits freq R" unfolding Q_def using not_less_Least by blast
  have "pick_prescale freq = (Q, drop_bit Q 300000000 div freq)"
    unfolding pick_prescale_def using f le least by (intro pick_from_first) auto
  then show ?thesis using that le f least by blast
qed

lemma clk_fits_ge2:
  assumes "20 \<le> freq" and "freq \<le> 150000000" and "fits freq Q" and "\<forall>R < Q. \<not> fits freq R"
  shows "2 \<le> clk Q div unat freq"
proof (cases Q)
  case 0
  have "unat freq \<le> 150000000" "0 < unat freq" using assms(1,2) by (simp_all add: word_le_nat_alt)
  then show ?thesis by (simp add: 0 clk_def less_eq_div_iff_mult_less_eq)
next
  case (Suc R)
  have half: "clk Q = clk R div 2" by (simp only: clk_def Suc power_Suc2 div_mult2_eq)
  then have "clk Q \<le> clk R" by simp
  then have "clk Q div unat freq \<le> clk R div unat freq" by (rule div_le_mono)
  moreover have "\<not> fits freq R" using assms(4) Suc by simp
  ultimately have "65500 \<le> clk R div unat freq" using assms(3) by (simp add: fits_def)
  moreover have "clk Q div unat freq = clk R div unat freq div 2"
    by (simp add: half div_mult2_eq [symmetric] mult.commute)
  ultimately show ?thesis by simp
qed

lemma duty_cycles_spec:
  assumes "2 \<le> tot" and "duty_cycles tot duty = (hi, lo)"
  shows "1 \<le> hi \<and> 1 \<le> lo \<and> unat hi + unat lo = unat tot"
proof -
  have hi: "1 \<le> hi \<and> hi < tot" and lo: "lo = tot - hi"
    using assms by (auto simp: duty_cycles_def Let_def word_le_nat_alt word_less_nat_alt
        unat_sub_if' split: if_splits)
  have "unat lo = unat tot - unat hi" using hi by (simp add: lo unat_sub word_le_nat_alt word_less_nat_alt)
  with hi show ?thesis by (simp add: word_le_nat_alt word_less_nat_alt, linarith)
qed

lemma low_half: "(lo :: u32) AND 0xFFFF = take_bit 16 lo"
  by (simp add: take_bit_eq_mask mask_eq_exp_minus_1)

lemma wcfg_fields:
  assumes "take_bit 16 hi = hi" and "take_bit 16 lo = lo"
  shows "drop_bit 16 (wcfg_word (hi, lo)) = hi" and "take_bit 16 (wcfg_word (hi, lo)) = lo"
proof -
  have hi: "bit hi n \<Longrightarrow> n < 16" and lo: "bit lo n \<Longrightarrow> n < 16" for n
    using assms by (metis bit_take_bit_iff)+
  show "drop_bit 16 (wcfg_word (hi, lo)) = hi"
    by (rule bit_word_eqI)
      (auto dest: hi lo simp: wcfg_word_def low_half bit_drop_bit_eq bit_or_iff bit_push_bit_iff
        bit_take_bit_iff)
  show "take_bit 16 (wcfg_word (hi, lo)) = lo"
    by (rule bit_word_eqI)
      (auto dest: hi lo simp: wcfg_word_def low_half bit_or_iff bit_push_bit_iff
        bit_take_bit_iff)
qed

lemma take_bit_16: "unat w < 65536 \<Longrightarrow> take_bit 16 (w :: u32) = w"
  by (rule u_eqI) (simp add: unsigned_take_bit_eq take_bit_nat_eq_self)

text \<open>For every frequency from 20 Hz to 150 MHz and every duty, the note programs the
  smallest prescale whose period fits, the word written to the waveform register splits into
  a high and a low count that are both at least one cycle, and the two counts add up to the
  period of the frequency: the clock divided by the period brackets the frequency.\<close>

theorem note_waveform:
  assumes "20 \<le> freq" and "freq \<le> 150000000"
    and "pick_prescale freq = (P, tot)" and "w = wcfg_word (duty_cycles tot duty)"
  shows "P \<le> 8 \<and> (\<forall>R < P. \<not> fits freq R) \<and>
    1 \<le> unat (drop_bit 16 w) \<and> 1 \<le> unat (take_bit 16 w) \<and>
    unat freq * (unat (drop_bit 16 w) + unat (take_bit 16 w)) \<le> clk P \<and>
    clk P < unat freq * (unat (drop_bit 16 w) + unat (take_bit 16 w) + 1)"
proof -
  from pick_prescale_spec [OF assms(1,2)] assms(3)
  have tot: "tot = drop_bit P 300000000 div freq" and P: "P \<le> 8" "fits freq P" "\<forall>R < P. \<not> fits freq R"
    by auto
  have ut: "unat tot = clk P div unat freq" by (simp only: tot unat_div unat_clk)
  have bounds: "2 \<le> unat tot" "unat tot < 65500"
    using clk_fits_ge2 [OF assms(1,2) P(2,3)] P(2) by (simp_all add: ut fits_def)
  obtain hi lo where hl: "duty_cycles tot duty = (hi, lo)" by (cases "duty_cycles tot duty")
  have s: "1 \<le> hi" "1 \<le> lo" "unat hi + unat lo = unat tot"
    using duty_cycles_spec [OF _ hl] bounds by (auto simp: word_le_nat_alt)
  have w: "drop_bit 16 w = hi" "take_bit 16 w = lo"
    using wcfg_fields [of hi lo] s(3) bounds(2) assms(4) hl by (simp_all add: take_bit_16)
  have "0 < unat freq" using assms(1) by (simp add: word_le_nat_alt)
  then have "unat freq * unat tot \<le> clk P" "clk P < unat freq * (unat tot + 1)"
    using dividend_less_times_div [of "unat freq" "clk P"] by (simp_all add: ut)
  with P s(1,2) show ?thesis by (simp add: w s(3) word_le_nat_alt)
qed

theorem note_waveform_witness:
  "pick_prescale 1000 = (3, 37500) \<and> wcfg_word (duty_cycles 37500 2) = 0x02EE8F8E \<and>
   unat (1000 :: u32) * (unat (drop_bit 16 (0x02EE8F8E :: u32)) + unat (take_bit 16 (0x02EE8F8E :: u32))) \<le> clk 3"
proof -
  have p: "pick_prescale 1000 = (3, 37500)"
    by (simp add: pick_prescale_def pick_from.simps)
  have w: "0x02EE8F8E = wcfg_word (duty_cycles 37500 2)"
    by (simp add: wcfg_word_def duty_cycles_def Let_def)
  from note_waveform [OF _ _ p w] p w show ?thesis by simp
qed

section \<open>Time\<close>

text \<open>Microseconds slept in a sequence of accesses.\<close>

fun slept :: "access list \<Rightarrow> nat" where
  "slept [] = 0"
| "slept (Usleep us # h) = unat us + slept h"
| "slept (_ # h) = slept h"

lemma slept_simps [simp]:
  "slept (hist (wr r v e)) = slept (hist e)"
  "slept (hist (snd (rd dev r e))) = slept (hist e)"
  "slept (hist (usleep us e)) = unat us + slept (hist e)"
  by (simp_all add: wr_def rd_def usleep_def)

lemma slept_off [simp]: "slept (hist (pwm_off dev e)) = slept (hist e)"
  by (simp add: pwm_off_def Let_def split_beta)

lemma slept_busy [simp]: "slept (hist (busy_wait dev sp e)) = slept (hist e)"
proof (induction dev sp e rule: busy_wait.induct)
  case (1 dev sp e)
  obtain v f where vf: "rd dev PWMBUSYR e = (v, f)" by (cases "rd dev PWMBUSYR e")
  have f: "slept (hist f) = slept (hist e)" using slept_simps(2) [of dev PWMBUSYR e] vf by simp
  show ?case by (subst busy_wait.simps) (simp add: vf f "1.IH" [OF vf [symmetric] refl])
qed

lemma slept_note [simp]: "slept (hist (pwm_note dev freq e)) = slept (hist e)"
  by (simp add: pwm_note_def Let_def split_beta)

lemma unat_times_1000: "unat ms * 1000 < 2 ^ 32 \<Longrightarrow> unat (ms * 1000 :: u32) = unat ms * 1000"
  by (simp add: unat_mult_lem [THEN iffD1])

lemma slept_play:
  assumes "unat ms * 1000 < 2 ^ 32"
  shows "slept (hist (play dev freq ms e)) = slept (hist e) + unat ms * 1000"
proof (cases "ms > 40")
  case True
  then have gap: "unat (ms - 12) = unat ms - 12" "12 \<le> unat ms"
    by (simp_all add: unat_sub word_le_nat_alt word_less_nat_alt)
  have "unat ((ms - 12) * 1000) = (unat ms - 12) * 1000"
    using assms unat_times_1000 [of "ms - 12"] by (simp only: gap(1))
  moreover have "12000 + (unat ms - 12) * 1000 = unat ms * 1000" using gap(2) by simp
  moreover have "unat (ms * 1000) = unat ms * 1000" using assms by (rule unat_times_1000)
  moreover have "slept (hist (play dev freq ms e)) = slept (hist e) +
      (if freq < 20 then unat (ms * 1000) else unat (12 * 1000 :: u32) + unat ((ms - 12) * 1000))"
    using True unfolding play_def Let_def by simp
  ultimately show ?thesis by simp
next
  case False
  with assms show ?thesis by (simp add: play_def Let_def unat_times_1000)
qed

lemma slept_play_all:
  "\<forall>t\<in>set ts. unat (snd t) * 1000 < 2 ^ 32 \<Longrightarrow>
   slept (hist (play_all dev ts e)) = slept (hist e) + (\<Sum>t\<leftarrow>ts. unat (snd t) * 1000)"
  by (induction dev ts e rule: play_all.induct) (simp_all add: slept_play)

lemma duration_bound: "duration c n \<le> 360000"
proof -
  have "240000 div nat (bpm c) div (if ndur n = 0 then nat (d_def c) else ndur n) \<le> 240000"
    by (rule order_trans [OF div_le_dividend div_le_dividend])
  then show ?thesis unfolding duration_def Let_def
    by (cases "ndot n") (simp_all del: div_le_dividend)
qed

lemma unat_duration: "unat (of_nat (duration c n) :: u32) = duration c n"
proof -
  have "duration c n < 2 ^ 32" using duration_bound [of c n] by simp
  then show ?thesis by (simp add: unat_of_nat)
qed

section \<open>Songs\<close>

text \<open>A song written in RTTTL is played as written: for every name, header and list of
  notes of the format (B sharp apart), the parser ends, and gives exactly the tones that the
  notes stand for, in their order, with the octave, the duration and the tempo of the header
  where the note leaves them out.\<close>

theorem song_plays_its_notes:
  assumes "wf_cfg c" and "CHR '':'' \<notin> set name" and "\<forall>n\<in>set ns. wf_note n"
  shows "song_tones (render_song name c ns) =
    Some (map (\<lambda>n. (of_nat (pitch c n), of_nat (duration c n))) ns, None)"
  using song_tones_render [OF assms] by (simp add: note_tone_def)

theorem song_plays_its_notes_witness:
  "song_tones (render_song ''a'' \<lparr>d_def = 4, o_def = 5, bpm = 100\<rparr>
      [Note 8 (La 9) True False (Some 6), Note 0 Pause False True None]) =
   Some ([(1864, 300), (0, 900)], None)"
proof -
  let ?c = "\<lparr>d_def = 4, o_def = 5, bpm = 100\<rparr>"
  let ?ns = "[Note 8 (La 9) True False (Some 6), Note 0 Pause False True None]"
  have "wf_cfg ?c" "\<forall>n\<in>set ?ns. wf_note n"
    by (simp_all add: wf_cfg_def wf_note_def int_max_def naturals_def)
  from song_plays_its_notes [OF this(1) _ this(2), of "''a''"] show ?thesis
    by (simp add: pitch_def duration_def OCT4_def Let_def)
qed

text \<open>Playing a song takes the time its notes add up to: the engine sleeps exactly the sum
  of the durations, the articulation gaps included.\<close>

theorem song_takes_its_time:
  assumes "wf_cfg c" and "CHR '':'' \<notin> set name" and "\<forall>n\<in>set ns. wf_note n"
  shows "\<exists>f. play_rtttl dev (render_song name c ns) e = Some f \<and>
    slept (hist f) = slept (hist e) + (\<Sum>n\<leftarrow>ns. duration c n * 1000)"
proof -
  let ?ts = "map (note_tone c) ns"
  have "\<forall>t\<in>set ?ts. unat (snd t) * 1000 < 2 ^ 32"
  proof
    fix t assume "t \<in> set ?ts"
    then obtain n where "unat (snd t) = duration c n" by (auto simp: note_tone_def unat_duration)
    then show "unat (snd t) * 1000 < 2 ^ 32" using duration_bound [of c n] by simp
  qed
  from slept_play_all [OF this, of dev e] show ?thesis
    by (simp add: play_rtttl_def song_tones_render [OF assms] o_def note_tone_def unat_duration)
qed

theorem song_takes_its_time_witness:
  "\<exists>f. play_rtttl (soc_dev (\<lambda>_. 0)) (render_song ''a'' \<lparr>d_def = 4, o_def = 5, bpm = 100\<rparr>
       [Note 8 (La 0) False False None]) init_engine = Some f \<and> slept (hist f) = 300000"
proof -
  let ?c = "\<lparr>d_def = 4, o_def = 5, bpm = 100\<rparr>" and ?ns = "[Note 8 (La 0) False False None]"
  have "wf_cfg ?c" "\<forall>n\<in>set ?ns. wf_note n"
    by (simp_all add: wf_cfg_def wf_note_def int_max_def naturals_def)
  from song_takes_its_time [OF this(1) _ this(2), of "''a''" "soc_dev (\<lambda>_. 0)" init_engine]
  show ?thesis by (simp add: duration_def Let_def init_engine_def)
qed

text \<open>C39: The note loop ends exactly on the songs that never reach a place where a whole round
  reads no character, and a letter that names no note is such a place: from there the program
  plays rests for ever.\<close>

theorem note_loop_termination:
  "(rtttl_loop cfg p ts = None \<longleftrightarrow> stuck cfg p) \<and>
   (blocking c \<longrightarrow> rtttl_loop cfg (c # cs) ts = None)"
  using loop_stuck loop_not_stuck blocking_stuck by (metis option.distinct(1))

theorem note_loop_termination_witness:
  "blocking CHR ''h'' \<and> rtttl_loop rtttl_default ''h,c'' [] = None"
proof -
  have "blocking CHR ''h''"
    by (simp add: blocking_def note_idx_def tolower_def isspace_def isdigit_def code_def)
  with note_loop_termination [of rtttl_default "''h,c''" "[]" "CHR ''h''" "'',c''"] show ?thesis
    by simp
qed

text \<open>B sharp runs off the end of the note table: the parser's index is 12, one past the
  last entry, whatever the duration, the octave and the tempo.\<close>

theorem b_sharp_off_table:
  assumes "int_max \<ge> int d"
  shows "parse_note cfg (show_nat d @ ''b#'' @ rest) = Inl Table_Index"
proof -
  have "dur_acc 0 (show_nat d @ ''b#'' @ rest) = Inr (int d, ''b#'' @ rest)"
    by (rule dur_acc_show_nat) (use assms in \<open>simp_all add: isdigit_def code_def\<close>)
  then show ?thesis
    by (simp add: parse_note_def Let_def tolower_def code_def note_idx_def sharp_mark_def
        note_freq_def split: sum.split)
qed

theorem b_sharp_off_table_witness:
  "parse_note rtttl_default ''8b#,c'' = Inl Table_Index"
proof -
  have "show_nat 8 = ''8''" by code_simp
  with b_sharp_off_table [of 8 rtttl_default "'',c''"] show ?thesis by (simp add: int_max_def)
qed

text \<open>The song file is a table: looking a name up in a file that holds a list of entries
  gives the value of the first entry with that name, letter case ignored, and nothing when no
  entry has it.\<close>

theorem song_file_lookup:
  assumes "\<forall>e\<in>set es. wf_entry e"
  shows "find_song name (render_songs es) =
    map_of (map (\<lambda>(n, v). (fold_case n, v)) es) (fold_case name)"
  using assms by (rule find_song_table)

theorem song_file_lookup_witness:
  "find_song ''MARIO'' (render_songs [(''tetris'', ''t:d=4:e''), (''mario'', ''m:d=8:c'')]) =
   Some ''m:d=8:c''"
proof -
  let ?es = "[(''tetris'', ''t:d=4:e''), (''mario'', ''m:d=8:c'')]"
  have "\<forall>e\<in>set ?es. wf_entry e"
    by (simp add: wf_entry_def nul_def is_blank_def is_trail_def)
  from song_file_lookup [OF this, of "''MARIO''"]
  have "find_song ''MARIO'' (render_songs ?es) =
      map_of (map (\<lambda>(n, v). (fold_case n, v)) ?es) (fold_case ''MARIO'')" .
  also have "\<dots> = Some ''m:d=8:c''" by code_simp
  finally show ?thesis .
qed

end
