(* ===== verification/Touch_Fp.thy ===== *)
theory Touch_Fp
  imports Prelude "HOL-Library.Log_Nat"
begin

text \<open>
  The single precision arithmetic of \<open>lv_touch_calibration\<close> (\<open>typedef float lv_tc_val_t\<close> in
  \<open>lv_tc.h\<close>). A value is \<open>Some\<close> rational when it is finite and \<open>None\<close> when it is an
  infinity or not a number; every operation computes exactly and rounds once. \<open>fl32\<close> is the
  rounding of the IEEE binary32 format to nearest, ties to even, with its subnormal numbers and
  its overflow. What the calibration needs of a format is the locale \<open>fp_format\<close>; the error
  lemmas are proved in it, and \<open>fl32\<close> interprets it.
\<close>

type_synonym fp = "rat option"

section \<open>Rounding\<close>

definition mag :: "rat \<Rightarrow> int" where
  "mag x = (case quotient_of \<bar>x\<bar> of (p, q) \<Rightarrow>
     let k = bitlen p - bitlen q in if \<bar>x\<bar> < 2 powi k then k - 1 else k)"

definition round_even :: "rat \<Rightarrow> int" where
  "round_even y =
     (let f = \<lfloor>y\<rfloor>; d = y - of_int f
      in if d < 1 / 2 then f else if d > 1 / 2 then f + 1 else if even f then f else f + 1)"

definition fl32 :: "rat \<Rightarrow> fp" where
  "fl32 x =
     (if x = 0 then Some 0
      else let e = max (mag x - 23) (- 149);
               r = of_int (round_even (x / 2 powi e)) * 2 powi e
           in if \<bar>r\<bar> < 2 powi 128 then Some r else None)"

definition fint :: "(rat \<Rightarrow> fp) \<Rightarrow> int \<Rightarrow> fp" where
  "fint fl n = fl (of_int n)"

definition fop :: "(rat \<Rightarrow> fp) \<Rightarrow> (rat \<Rightarrow> rat \<Rightarrow> rat) \<Rightarrow> fp \<Rightarrow> fp \<Rightarrow> fp" where
  "fop fl f a b = (case a of None \<Rightarrow> None | Some x \<Rightarrow> (case b of None \<Rightarrow> None | Some y \<Rightarrow> fl (f x y)))"

abbreviation fadd :: "(rat \<Rightarrow> fp) \<Rightarrow> fp \<Rightarrow> fp \<Rightarrow> fp" where "fadd fl \<equiv> fop fl (+)"
abbreviation fsub :: "(rat \<Rightarrow> fp) \<Rightarrow> fp \<Rightarrow> fp \<Rightarrow> fp" where "fsub fl \<equiv> fop fl (-)"
abbreviation fmul :: "(rat \<Rightarrow> fp) \<Rightarrow> fp \<Rightarrow> fp \<Rightarrow> fp" where "fmul fl \<equiv> fop fl (*)"

definition fdiv :: "(rat \<Rightarrow> fp) \<Rightarrow> fp \<Rightarrow> fp \<Rightarrow> fp" where
  "fdiv fl a b = (if b = Some 0 then None else fop fl (/) a b)"

definition fneg :: "fp \<Rightarrow> fp" where
  "fneg = map_option uminus"

text \<open>\<open>roundf\<close>: to the nearest integer, halves away from zero.\<close>

definition roundf :: "rat \<Rightarrow> int" where
  "roundf x = (if x \<ge> 0 then \<lfloor>x + 1 / 2\<rfloor> else - \<lfloor>- x + 1 / 2\<rfloor>)"

lemma roundf_near: "\<bar>x - of_int n\<bar> < 1 / 2 \<Longrightarrow> roundf x = n"
proof (cases "x \<ge> 0")
  case True
  assume "\<bar>x - of_int n\<bar> < 1 / 2"
  then have "\<lfloor>x + 1 / 2\<rfloor> = n" by (intro floor_unique) linarith+
  with True show ?thesis by (simp add: roundf_def)
next
  case False
  assume "\<bar>x - of_int n\<bar> < 1 / 2"
  then have "\<lfloor>- x + 1 / 2\<rfloor> = - n"
    by (intro floor_unique) (simp_all only: of_int_minus abs_less_iff, linarith+)
  with False show ?thesis by (simp add: roundf_def)
qed

section \<open>What the calibration needs of a format\<close>

text \<open>\<open>near v x e\<close>: the value is finite and at most \<open>e\<close> away from the exact \<open>x\<close>.\<close>

definition near :: "fp \<Rightarrow> rat \<Rightarrow> rat \<Rightarrow> bool" where
  "near v x e \<longleftrightarrow> (\<exists>r. v = Some r \<and> \<bar>r - x\<bar> \<le> e)"

lemma near_exact [simp]: "near (Some x) x 0"
  by (simp add: near_def)

lemma near_mono: "near v x e \<Longrightarrow> e \<le> e' \<Longrightarrow> near v x e'"
  by (auto simp: near_def)

lemma near_neg: "near v x e \<Longrightarrow> near (fneg v) (- x) e"
  by (auto simp: near_def fneg_def)

definition exactly :: "int \<Rightarrow> fp" where
  "exactly n = Some (of_int n)"

lemma near_exactly: "near (exactly n) (of_int n) 0"
  by (simp add: exactly_def)

locale fp_format =
  fixes fl :: "rat \<Rightarrow> fp"
  assumes exact_int: "\<bar>n\<bar> < 2 ^ 24 \<Longrightarrow> fl (of_int n) = Some (of_int n)"
    and half_ulp: "\<bar>x\<bar> < 2 ^ k \<Longrightarrow> k \<le> 100 \<Longrightarrow> \<exists>r. fl x = Some r \<and> \<bar>r - x\<bar> \<le> 2 ^ k / 2 ^ 25"
begin

lemma fint_exact: "\<bar>n\<bar> < 2 ^ 24 \<Longrightarrow> fint fl n = exactly n"
  by (simp add: fint_def exact_int exactly_def)

lemma add_exact: "\<bar>a + b\<bar> < 2 ^ 24 \<Longrightarrow> fadd fl (exactly a) (exactly b) = exactly (a + b)"
  using exact_int [of "a + b"] by (simp add: fop_def exactly_def)

lemma sub_exact: "\<bar>a - b\<bar> < 2 ^ 24 \<Longrightarrow> fsub fl (exactly a) (exactly b) = exactly (a - b)"
  using exact_int [of "a - b"] by (simp add: fop_def exactly_def)

lemma mul_exact: "\<bar>a * b\<bar> < 2 ^ 24 \<Longrightarrow> fmul fl (exactly a) (exactly b) = exactly (a * b)"
  using exact_int [of "a * b"] by (simp add: fop_def exactly_def)

lemma near_fl:
  assumes "\<bar>x - y\<bar> \<le> e" and "\<bar>y\<bar> + e < 2 ^ k" and "k \<le> 100"
  shows "near (fl x) y (e + 2 ^ k / 2 ^ 25)"
proof -
  have "\<bar>x\<bar> < 2 ^ k" using assms(1,2) by linarith
  from half_ulp [OF this assms(3)] obtain r where "fl x = Some r" "\<bar>r - x\<bar> \<le> 2 ^ k / 2 ^ 25" by blast
  with assms(1) show ?thesis unfolding near_def by (intro exI [of _ r]) linarith
qed

lemma near_add:
  assumes "near a x d" and "near b y e" and "\<bar>x + y\<bar> + (d + e) < 2 ^ k" and "k \<le> 100"
  shows "near (fadd fl a b) (x + y) (d + e + 2 ^ k / 2 ^ 25)"
proof -
  from assms(1,2) obtain r s where rs: "a = Some r" "b = Some s" "\<bar>r - x\<bar> \<le> d" "\<bar>s - y\<bar> \<le> e"
    by (auto simp: near_def)
  then have "\<bar>(r + s) - (x + y)\<bar> \<le> d + e" by linarith
  from near_fl [OF this assms(3,4)] show ?thesis by (simp add: fop_def rs)
qed

lemma near_mul:
  assumes "near b y e" and "\<bar>n * y\<bar> + \<bar>n\<bar> * e < 2 ^ k" and "k \<le> 100"
  shows "near (fmul fl (Some n) b) (n * y) (\<bar>n\<bar> * e + 2 ^ k / 2 ^ 25)"
proof -
  from assms(1) obtain s where s: "b = Some s" "\<bar>s - y\<bar> \<le> e" by (auto simp: near_def)
  have "\<bar>n * s - n * y\<bar> = \<bar>n\<bar> * \<bar>s - y\<bar>" by (simp add: right_diff_distrib flip: abs_mult)
  also have "\<dots> \<le> \<bar>n\<bar> * e" using s(2) by (simp add: mult_left_mono)
  finally show ?thesis using near_fl [OF _ assms(2,3)] by (simp add: fop_def s(1))
qed

lemma near_div:
  assumes "near a x e" and "n \<noteq> 0" and "\<bar>x / n\<bar> + e / \<bar>n\<bar> < 2 ^ k" and "k \<le> 100"
  shows "near (fdiv fl a (Some n)) (x / n) (e / \<bar>n\<bar> + 2 ^ k / 2 ^ 25)"
proof -
  from assms(1) obtain r where r: "a = Some r" "\<bar>r - x\<bar> \<le> e" by (auto simp: near_def)
  have "\<bar>r / n - x / n\<bar> = \<bar>r - x\<bar> / \<bar>n\<bar>" by (simp add: abs_divide flip: diff_divide_distrib)
  also have "\<dots> \<le> e / \<bar>n\<bar>" using r(2) by (simp add: divide_right_mono)
  finally show ?thesis using near_fl [OF _ assms(3,4)] assms(2) by (simp add: fop_def fdiv_def r(1))
qed

end

section \<open>The format is single precision\<close>

lemma bitlen_powi:
  assumes "0 < n"
  shows "2 powi (bitlen n - 1) \<le> (of_int n :: rat)" and "(of_int n :: rat) < 2 powi (bitlen n)"
proof -
  have ge: "1 \<le> bitlen n"
    using assms bitlen_nonneg [of n] bitlen_eq_zero_iff [of n] by linarith
  have "of_int (2 ^ nat (bitlen n - 1)) \<le> (of_int n :: rat)" "of_int n < (of_int (2 ^ nat (bitlen n)) :: rat)"
    using bitlen_bounds [OF assms] by (simp_all only: of_int_le_iff of_int_less_iff)
  with ge show "2 powi (bitlen n - 1) \<le> (of_int n :: rat)" "(of_int n :: rat) < 2 powi (bitlen n)"
    by (simp_all add: power_int_def)
qed

lemma mag_spec:
  assumes "x \<noteq> 0"
  shows "2 powi (mag x) \<le> \<bar>x\<bar>" and "\<bar>x\<bar> < 2 powi (mag x + 1)"
proof -
  obtain p q where pq: "quotient_of \<bar>x\<bar> = (p, q)" by (cases "quotient_of \<bar>x\<bar>")
  have q: "0 < q" using quotient_of_denom_pos [OF pq] .
  have ax: "\<bar>x\<bar> = of_int p / of_int q" using quotient_of_div [OF pq] .
  have "0 < \<bar>x\<bar>" using assms by simp
  with q have p: "0 < p" by (simp add: ax zero_less_divide_iff)
  define k where "k = bitlen p - bitlen q"
  have mag: "mag x = (if \<bar>x\<bar> < 2 powi k then k - 1 else k)"
    by (simp add: mag_def pq k_def Let_def)
  have "2 powi (k - 1) = 2 powi (bitlen p - 1) / (2 powi (bitlen q) :: rat)"
    by (simp add: k_def diff_right_commute flip: power_int_diff)
  also have "\<dots> \<le> \<bar>x\<bar>"
    unfolding ax using bitlen_powi(1) [OF p] bitlen_powi(2) [OF q] p q
    by (intro frac_le) (simp_all add: less_imp_le)
  finally have low: "2 powi (k - 1) \<le> \<bar>x\<bar>" .
  have "\<bar>x\<bar> < 2 powi (bitlen p) / 2 powi (bitlen q - 1)"
    unfolding ax using bitlen_powi(2) [OF p] bitlen_powi(1) [OF q] p
    by (intro frac_less) simp_all
  also have "\<dots> = 2 powi (k + 1)" by (simp add: k_def algebra_simps flip: power_int_diff)
  finally have high: "\<bar>x\<bar> < 2 powi (k + 1)" .
  show "2 powi (mag x) \<le> \<bar>x\<bar>" "\<bar>x\<bar> < 2 powi (mag x + 1)"
    using low high by (auto simp: mag)
qed

lemma round_even_near: "\<bar>of_int (round_even y) - y\<bar> \<le> 1 / 2"
proof -
  have "of_int \<lfloor>y\<rfloor> \<le> y" "y < of_int \<lfloor>y\<rfloor> + 1" by linarith+
  then show ?thesis unfolding round_even_def Let_def
    by (simp only: split: if_split) (simp only: of_int_add of_int_1 abs_le_iff, linarith)
qed

lemma round_even_int [simp]: "round_even (of_int n) = n"
  by (simp add: round_even_def)

lemma powi_less_iff: "(2 :: rat) powi a < 2 powi b \<longleftrightarrow> a < b"
  using power_int_strict_increasing [of a b "2 :: rat"] power_int_increasing [of b a "2 :: rat"]
  by (cases "a < b") auto

lemma powi_le_iff: "(2 :: rat) powi a \<le> 2 powi b \<longleftrightarrow> a \<le> b"
  using powi_less_iff [of b a] by auto

lemma mag_less: "x \<noteq> 0 \<Longrightarrow> \<bar>x\<bar> < 2 powi k \<Longrightarrow> mag x < k"
  using mag_spec(1) [of x] powi_less_iff [of "mag x" k] by linarith

lemma fl32_exact_int:
  assumes "\<bar>n\<bar> < 2 ^ 24"
  shows "fl32 (of_int n) = Some (of_int n)"
proof (cases "n = 0")
  case False
  define e where "e = max (mag (of_int n) - 23) (- 149)"
  have lt: "\<bar>of_int n\<bar> < (2 powi 24 :: rat)"
    using assms by (simp add: power_int_def flip: of_int_abs)
  with False mag_less [of "of_int n" 24] have e: "e \<le> 0" by (simp add: e_def)
  then have "(2 :: rat) powi e = 1 / 2 ^ nat (- e)"
    by (cases "e = 0") (simp_all add: power_int_def power_one_over inverse_eq_divide)
  then have "of_int (round_even (of_int n / 2 powi e)) = (of_int n :: rat) * 2 ^ nat (- e)"
    using round_even_int [of "n * 2 ^ nat (- e)"] by simp
  then have "of_int (round_even (of_int n / 2 powi e)) * 2 powi e = (of_int n :: rat)"
    using \<open>2 powi e = _\<close> by simp
  moreover have "\<bar>of_int n\<bar> < (2 powi 128 :: rat)"
    using lt powi_less_iff [of 24 128] by linarith
  ultimately show ?thesis using False by (simp add: fl32_def Let_def flip: e_def)
qed (simp add: fl32_def)

lemma fl32_half_ulp:
  assumes "\<bar>x\<bar> < 2 ^ k" and "k \<le> 100"
  shows "\<exists>r. fl32 x = Some r \<and> \<bar>r - x\<bar> \<le> 2 ^ k / 2 ^ 25"
proof (cases "x = 0")
  case False
  define e where "e = max (mag x - 23) (- 149)"
  define r :: rat where "r = of_int (round_even (x / 2 powi e)) * 2 powi e"
  have "\<bar>x\<bar> < 2 powi int k" using assms(1) by (simp add: power_int_def)
  from mag_less [OF False this] have e: "e \<le> int k - 24" by (simp add: e_def)
  have "r - x = (of_int (round_even (x / 2 powi e)) - x / 2 powi e) * 2 powi e"
    by (simp add: r_def left_diff_distrib)
  then have "\<bar>r - x\<bar> = \<bar>of_int (round_even (x / 2 powi e)) - x / 2 powi e\<bar> * 2 powi e"
    by (simp add: abs_mult)
  also have "\<dots> \<le> 1 / 2 * 2 powi e"
    by (intro mult_right_mono round_even_near) simp
  also have "\<dots> \<le> 1 / 2 * 2 powi (int k - 24)" using e by (simp add: powi_le_iff)
  also have "\<dots> = 2 ^ k / 2 ^ 25" by (simp add: power_int_diff)
  finally have err: "\<bar>r - x\<bar> \<le> 2 ^ k / 2 ^ 25" .
  have "(2 :: rat) ^ k \<le> 2 ^ 100" using assms(2) by (intro power_increasing) simp_all
  moreover have "2 ^ k / 2 ^ 25 \<le> (2 :: rat) ^ k" by simp
  ultimately have "\<bar>r\<bar> < 2 ^ 100 + 2 ^ 100" using err assms(1) by linarith
  then have "\<bar>r\<bar> < 2 powi 128" by (simp add: power_int_def)
  with False err show ?thesis by (simp add: fl32_def Let_def flip: e_def r_def)
qed (simp add: fl32_def)

interpretation single: fp_format fl32
  by unfold_locales (fact fl32_exact_int fl32_half_ulp)+

end
