(* ===== verification/Touch_Cal.thy ===== *)
theory Touch_Cal
  imports Touch_Fp
begin

text \<open>
  \<open>lv_touch_calibration/lv_tc.c\<close>: the calibration coefficients, the transformation of a touched
  point, and the read callback that wraps the real input driver. The file's static variables are
  the record \<open>tc\<close>; the registered save callback is a log of the coefficients handed to it.
  Coordinates are \<open>lv_coord_t\<close>, 32-bit signed here (\<open>LV_USE_LARGE_COORD\<close> in \<open>lv_conf.h\<close>),
  and are kept as integers; a conversion of an infinity or of not-a-number to an integer, which
  C leaves undefined, is \<open>None\<close>.
\<close>

section \<open>Data\<close>

record point =
  px :: int
  py :: int

datatype istate = Released | Pressed

record indev =
  istate :: istate
  ipoint :: point

record coeff =
  isValid :: bool
  ka :: fp
  kb :: fp
  kc :: fp
  kd :: fp
  ke :: fp
  kf :: fp

record tc =
  calibResult :: coeff
  registeredTCScreen :: "nat option"
  registeredSaveCb :: bool
  last_pressed_point :: point
  last_state :: istate
  saved_coeffs :: "coeff list"

abbreviation pt :: "int \<Rightarrow> int \<Rightarrow> point" where
  "pt x y \<equiv> \<lparr>px = x, py = y\<rparr>"

definition tc_init :: tc where
  "tc_init = \<lparr>calibResult = \<lparr>isValid = False, ka = Some 0, kb = Some 0, kc = Some 0,
       kd = Some 0, ke = Some 0, kf = Some 0\<rparr>,
     registeredTCScreen = None, registeredSaveCb = False, last_pressed_point = pt 0 0,
     last_state = Released, saved_coeffs = []\<rparr>"

section \<open>Coefficients\<close>

definition lv_tc_register_input_cb :: "nat \<Rightarrow> tc \<Rightarrow> tc" where
  "lv_tc_register_input_cb scr t = t\<lparr>registeredTCScreen := Some scr\<rparr>"

definition lv_tc_save_coeff :: "tc \<Rightarrow> tc" where
  "lv_tc_save_coeff t =
     (if registeredSaveCb t then t\<lparr>saved_coeffs := calibResult t # saved_coeffs t\<rparr> else t)"

definition lv_tc_set_coeff :: "coeff \<Rightarrow> bool \<Rightarrow> tc \<Rightarrow> tc" where
  "lv_tc_set_coeff c save t =
     (let t = t\<lparr>calibResult := c\<rparr> in if save then lv_tc_save_coeff t else t)"

text \<open>
  The divisor of \<open>lv_tc_compute_coeff\<close>, and its two numerator shapes: the slope along one
  touch coordinate (\<open>u\<close>) and the offset, both for one screen coordinate (\<open>s\<close>).
\<close>

definition coeff_divisor :: "(rat \<Rightarrow> fp) \<Rightarrow> point list \<Rightarrow> fp" where
  "coeff_divisor fl tch =
     (let x = \<lambda>i. fint fl (px (tch ! i)); y = \<lambda>i. fint fl (py (tch ! i))
      in fadd fl (fadd fl (fsub fl (fmul fl (x 0) (fsub fl (y 2) (y 1))) (fmul fl (x 1) (y 2)))
           (fmul fl (y 1) (x 2))) (fmul fl (y 0) (fsub fl (x 1) (x 2))))"

definition slope_num :: "(rat \<Rightarrow> fp) \<Rightarrow> (nat \<Rightarrow> fp) \<Rightarrow> (nat \<Rightarrow> fp) \<Rightarrow> fp" where
  "slope_num fl s u =
     fadd fl (fadd fl (fsub fl (fmul fl (s 0) (fsub fl (u 2) (u 1))) (fmul fl (s 1) (u 2)))
       (fmul fl (s 2) (u 1))) (fmul fl (fsub fl (s 1) (s 2)) (u 0))"

definition offset_num :: "(rat \<Rightarrow> fp) \<Rightarrow> (nat \<Rightarrow> fp) \<Rightarrow> (nat \<Rightarrow> fp) \<Rightarrow> (nat \<Rightarrow> fp) \<Rightarrow> fp" where
  "offset_num fl s x y =
     fadd fl (fadd fl
       (fmul fl (s 0) (fsub fl (fmul fl (y 1) (x 2)) (fmul fl (x 1) (y 2))))
       (fmul fl (x 0) (fsub fl (fmul fl (s 1) (y 2)) (fmul fl (s 2) (y 1)))))
       (fmul fl (y 0) (fsub fl (fmul fl (s 2) (x 1)) (fmul fl (s 1) (x 2))))"

definition compute_result :: "(rat \<Rightarrow> fp) \<Rightarrow> point list \<Rightarrow> point list \<Rightarrow> coeff" where
  "compute_result fl scr tch =
     (let x = \<lambda>i. fint fl (px (tch ! i)); y = \<lambda>i. fint fl (py (tch ! i));
          sx = \<lambda>i. fint fl (px (scr ! i)); sy = \<lambda>i. fint fl (py (scr ! i));
          d = coeff_divisor fl tch
      in \<lparr>isValid = True,
          ka = fdiv fl (slope_num fl sx y) d, kb = fdiv fl (fneg (slope_num fl sx x)) d,
          kc = fdiv fl (offset_num fl sx x y) d,
          kd = fdiv fl (slope_num fl sy y) d, ke = fdiv fl (fneg (slope_num fl sy x)) d,
          kf = fdiv fl (offset_num fl sy x y) d\<rparr>)"

definition lv_tc_compute_coeff ::
  "(rat \<Rightarrow> fp) \<Rightarrow> point list \<Rightarrow> point list \<Rightarrow> bool \<Rightarrow> tc \<Rightarrow> tc" where
  "lv_tc_compute_coeff fl scr tch save t = lv_tc_set_coeff (compute_result fl scr tch) save t"

section \<open>Transformation\<close>

definition apply_row :: "(rat \<Rightarrow> fp) \<Rightarrow> fp \<Rightarrow> fp \<Rightarrow> fp \<Rightarrow> point \<Rightarrow> int option" where
  "apply_row fl a b c p =
     map_option roundf
       (fadd fl (fadd fl (fmul fl (fint fl (px p)) a) (fmul fl (fint fl (py p)) b)) c)"

definition lv_tc_transform_point :: "(rat \<Rightarrow> fp) \<Rightarrow> tc \<Rightarrow> point \<Rightarrow> point option" where
  "lv_tc_transform_point fl t p =
     (let k = calibResult t
      in if \<not> isValid k then Some p
         else (case apply_row fl (ka k) (kb k) (kc k) p of
                 None \<Rightarrow> None
               | Some x \<Rightarrow> (case apply_row fl (kd k) (ke k) (kf k) p of
                              None \<Rightarrow> None | Some y \<Rightarrow> Some (pt x y))))"

definition lv_tc_transform_point_indev :: "(rat \<Rightarrow> fp) \<Rightarrow> indev \<Rightarrow> tc \<Rightarrow> (point \<times> tc) option" where
  "lv_tc_transform_point_indev fl data t =
     (if istate data = Pressed then
        let t = t\<lparr>last_pressed_point := ipoint data, last_state := Pressed\<rparr>
        in map_option (\<lambda>p. (p, t)) (lv_tc_transform_point fl t (ipoint data))
      else if istate data = Released \<and> last_state t = Pressed then
        let t = t\<lparr>last_state := Released\<rparr>
        in map_option (\<lambda>p. (p, t)) (lv_tc_transform_point fl t (last_pressed_point t))
      else Some (pt 0 0, t))"

text \<open>
  The read callback. \<open>readCb\<close> is the driver's own callback, kept in \<open>user_data\<close> (\<open>None\<close> when
  it is null), \<open>act\<close> the active screen, \<open>input\<close> the callback of the registered calibration
  screen, which changes that screen's state \<open>'s\<close> and the coefficients.
\<close>

definition lv_tc_indev_drv_read_cb ::
  "(rat \<Rightarrow> fp) \<Rightarrow> (indev \<Rightarrow> tc \<times> 's \<Rightarrow> (bool \<times> tc \<times> 's) option) \<Rightarrow> nat \<Rightarrow>
   (indev \<Rightarrow> indev) option \<Rightarrow> indev \<Rightarrow> tc \<times> 's \<Rightarrow> (indev \<times> tc \<times> 's) option" where
  "lv_tc_indev_drv_read_cb fl input act readCb data ts =
     (case readCb of
        None \<Rightarrow> Some (data, ts)
      | Some rd \<Rightarrow>
          (let data = rd data;
               report = (\<lambda>(t, s). map_option (\<lambda>(p, t). (data\<lparr>ipoint := p\<rparr>, t, s))
                                    (lv_tc_transform_point_indev fl data t))
           in if registeredTCScreen (fst ts) = Some act then
                (case input data ts of
                   None \<Rightarrow> None
                 | Some (False, ts) \<Rightarrow> Some (data\<lparr>istate := Released, ipoint := pt 0 0\<rparr>, ts)
                 | Some (True, ts) \<Rightarrow> report ts)
              else report ts))"

section \<open>The exact affine map\<close>

definition divisor :: "point list \<Rightarrow> int" where
  "divisor tch = px (tch ! 0) * (py (tch ! 2) - py (tch ! 1)) - px (tch ! 1) * py (tch ! 2)
     + py (tch ! 1) * px (tch ! 2) + py (tch ! 0) * (px (tch ! 1) - px (tch ! 2))"

definition slope :: "(nat \<Rightarrow> int) \<Rightarrow> (nat \<Rightarrow> int) \<Rightarrow> int" where
  "slope s u = s 0 * (u 2 - u 1) - s 1 * u 2 + s 2 * u 1 + (s 1 - s 2) * u 0"

definition offset :: "(nat \<Rightarrow> int) \<Rightarrow> (nat \<Rightarrow> int) \<Rightarrow> (nat \<Rightarrow> int) \<Rightarrow> int" where
  "offset s x y = s 0 * (y 1 * x 2 - x 1 * y 2) + x 0 * (s 1 * y 2 - s 2 * y 1)
     + y 0 * (s 2 * x 1 - s 1 * x 2)"

text \<open>Cramer's rule: the map takes the touched point \<open>i\<close> to the screen point \<open>i\<close>.\<close>

lemma affine_through:
  assumes "i < 3"
  shows "px (tch ! i) * slope s (\<lambda>i. py (tch ! i)) - py (tch ! i) * slope s (\<lambda>i. px (tch ! i))
    + offset s (\<lambda>i. px (tch ! i)) (\<lambda>i. py (tch ! i)) = s i * divisor tch"
proof -
  from assms have "i = 0 \<or> i = 1 \<or> i = 2" by auto
  then show ?thesis
    by (elim disjE) (simp_all add: slope_def offset_def divisor_def algebra_simps)
qed

text \<open>Coordinates of a panel of at most 1024 by 1024.\<close>

definition on_panel :: "(nat \<Rightarrow> int) \<Rightarrow> bool" where
  "on_panel u \<longleftrightarrow> (\<forall>i<3. 0 \<le> u i \<and> u i \<le> 1023)"

definition panel_points :: "point list \<Rightarrow> bool" where
  "panel_points ps \<longleftrightarrow> on_panel (\<lambda>i. px (ps ! i)) \<and> on_panel (\<lambda>i. py (ps ! i))"

lemma on_panelD: "on_panel u \<Longrightarrow> i < 3 \<Longrightarrow> 0 \<le> u i \<and> u i \<le> 1023"
  by (simp add: on_panel_def)

lemma abs_mult_bound: "\<bar>a\<bar> \<le> A \<Longrightarrow> \<bar>b\<bar> \<le> B \<Longrightarrow> \<bar>a * b\<bar> \<le> A * (B :: int)"
  by (simp add: abs_mult mult_mono')

text \<open>The differences and products the numerators are made of are all exact.\<close>

context fp_format
begin

lemma panel_fint: "on_panel u \<Longrightarrow> i < 3 \<Longrightarrow> fint fl (u i) = exactly (u i)"
  using on_panelD [of u i] by (intro fint_exact) auto

lemma panel_diff: "on_panel u \<Longrightarrow> i < 3 \<Longrightarrow> j < 3 \<Longrightarrow> \<bar>u i - u j\<bar> \<le> 1023"
  using on_panelD [of u i] on_panelD [of u j] by (intro abs_leI) auto

lemma panel_sub:
  "on_panel u \<Longrightarrow> i < 3 \<Longrightarrow> j < 3 \<Longrightarrow> fsub fl (exactly (u i)) (exactly (u j)) = exactly (u i - u j)"
  using panel_diff [of u i j] by (simp add: sub_exact)

lemma panel_mul:
  "\<bar>a\<bar> \<le> 1023 \<Longrightarrow> \<bar>b\<bar> \<le> 1023 \<Longrightarrow>
   fmul fl (exactly a) (exactly b) = exactly (a * b) \<and> \<bar>a * b\<bar> \<le> 1046529"
  using abs_mult_bound [of a 1023 b 1023] by (simp add: mul_exact)

lemma panel_abs: "on_panel u \<Longrightarrow> i < 3 \<Longrightarrow> \<bar>u i\<bar> \<le> 1023"
  using on_panelD [of u i] by simp

text \<open>Four exact terms, added from the left.\<close>

lemma sum4_exact:
  assumes "\<bar>a\<bar> \<le> 1046529" "\<bar>b\<bar> \<le> 1046529" "\<bar>c\<bar> \<le> 1046529" "\<bar>d\<bar> \<le> 1046529"
  shows "fadd fl (fadd fl (fsub fl (exactly a) (exactly b)) (exactly c)) (exactly d)
    = exactly (a - b + c + d)"
    and "\<bar>a - b + c + d\<bar> \<le> 4186116"
proof -
  have "\<bar>a - b\<bar> < 2 ^ 24" "\<bar>(a - b) + c\<bar> < 2 ^ 24" "\<bar>(a - b + c) + d\<bar> < 2 ^ 24"
    using assms by simp_all
  then show "fadd fl (fadd fl (fsub fl (exactly a) (exactly b)) (exactly c))
      (exactly d) = exactly (a - b + c + d)"
    by (simp only: sub_exact add_exact)
  show "\<bar>a - b + c + d\<bar> \<le> 4186116" using assms by simp
qed

lemmas panel_exact = panel_sub panel_mul [THEN conjunct1] panel_fint
lemmas panel_bounds = panel_diff panel_mul [THEN conjunct2] panel_abs

lemma slope_num_exact:
  assumes "on_panel s" and "on_panel u"
  shows "slope_num fl (\<lambda>i. fint fl (s i)) (\<lambda>i. fint fl (u i)) = exactly (slope s u)"
    and "\<bar>slope s u\<bar> \<le> 4186116"
proof -
  note bs = panel_bounds(1) [OF assms(1)] panel_bounds(3) [OF assms(1)]
    panel_bounds(1) [OF assms(2)] panel_bounds(3) [OF assms(2)]
  have b: "\<bar>s 0 * (u 2 - u 1)\<bar> \<le> 1046529" "\<bar>s 1 * u 2\<bar> \<le> 1046529"
    "\<bar>s 2 * u 1\<bar> \<le> 1046529" "\<bar>(s 1 - s 2) * u 0\<bar> \<le> 1046529"
    by (intro panel_bounds(2) bs; simp)+
  have m: "fmul fl (fint fl (s 0)) (fsub fl (fint fl (u 2)) (fint fl (u 1))) = exactly (s 0 * (u 2 - u 1))"
    "fmul fl (fint fl (s 1)) (fint fl (u 2)) = exactly (s 1 * u 2)"
    "fmul fl (fint fl (s 2)) (fint fl (u 1)) = exactly (s 2 * u 1)"
    "fmul fl (fsub fl (fint fl (s 1)) (fint fl (s 2))) (fint fl (u 0)) = exactly ((s 1 - s 2) * u 0)"
    using bs assms by (simp_all add: panel_exact del: One_nat_def)
  show "slope_num fl (\<lambda>i. fint fl (s i)) (\<lambda>i. fint fl (u i)) = exactly (slope s u)"
    unfolding slope_num_def m slope_def by (rule sum4_exact(1)) (fact b)+
  show "\<bar>slope s u\<bar> \<le> 4186116"
    unfolding slope_def by (rule sum4_exact(2)) (fact b)+
qed

lemma divisor_exact:
  assumes "panel_points tch"
  shows "coeff_divisor fl tch = exactly (divisor tch)"
proof -
  let ?x = "\<lambda>i. px (tch ! i)" and ?y = "\<lambda>i. py (tch ! i)"
  have x: "on_panel ?x" and y: "on_panel ?y" using assms by (simp_all add: panel_points_def)
  note bs = panel_bounds(1) [OF x] panel_bounds(3) [OF x] panel_bounds(1) [OF y] panel_bounds(3) [OF y]
  have b: "\<bar>?x 0 * (?y 2 - ?y 1)\<bar> \<le> 1046529" "\<bar>?x 1 * ?y 2\<bar> \<le> 1046529"
    "\<bar>?y 1 * ?x 2\<bar> \<le> 1046529" "\<bar>?y 0 * (?x 1 - ?x 2)\<bar> \<le> 1046529"
    by (intro panel_bounds(2) bs; simp)+
  have m: "fmul fl (fint fl (?x 0)) (fsub fl (fint fl (?y 2)) (fint fl (?y 1))) = exactly (?x 0 * (?y 2 - ?y 1))"
    "fmul fl (fint fl (?x 1)) (fint fl (?y 2)) = exactly (?x 1 * ?y 2)"
    "fmul fl (fint fl (?y 1)) (fint fl (?x 2)) = exactly (?y 1 * ?x 2)"
    "fmul fl (fint fl (?y 0)) (fsub fl (fint fl (?x 1)) (fint fl (?x 2))) = exactly (?y 0 * (?x 1 - ?x 2))"
    using bs panel_fint [OF x] panel_fint [OF y] panel_sub [OF x] panel_sub [OF y]
    by (simp_all add: panel_mul [THEN conjunct1] del: One_nat_def)
  show ?thesis unfolding coeff_divisor_def Let_def m divisor_def
    by (rule sum4_exact(1)) (fact b)+
qed

text \<open>One term of the offset: the difference of two products is exact, the outer product rounds.\<close>

lemma offset_term:
  assumes "\<bar>n\<bar> \<le> 1023" "\<bar>a\<bar> \<le> 1023" "\<bar>b\<bar> \<le> 1023" "\<bar>c\<bar> \<le> 1023" "\<bar>d\<bar> \<le> 1023"
  shows "near (fmul fl (exactly n) (fsub fl (fmul fl (exactly a) (exactly b)) (fmul fl (exactly c) (exactly d))))
    (of_int (n * (a * b - c * d))) 64"
    and "\<bar>n * (a * b - c * d)\<bar> \<le> 2141198334"
proof -
  have ab: "\<bar>a * b\<bar> \<le> 1046529" and cd: "\<bar>c * d\<bar> \<le> 1046529"
    using assms by (intro panel_mul [THEN conjunct2]; simp)+
  then have diff: "\<bar>a * b - c * d\<bar> \<le> 2093058" by simp
  show bound: "\<bar>n * (a * b - c * d)\<bar> \<le> 2141198334"
    using abs_mult_bound [OF assms(1) diff] by simp
  have "fsub fl (fmul fl (exactly a) (exactly b)) (fmul fl (exactly c) (exactly d)) = exactly (a * b - c * d)"
    using assms diff by (simp add: panel_mul [THEN conjunct1] sub_exact)
  moreover have "near (fmul fl (Some (of_int n)) (exactly (a * b - c * d)))
      (of_int n * of_int (a * b - c * d)) (\<bar>of_int n\<bar> * 0 + 2 ^ 31 / 2 ^ 25)"
  proof (rule near_mul [OF near_exactly])
    have "(of_int \<bar>n * (a * b - c * d)\<bar> :: rat) \<le> of_int 2141198334"
      using bound by (simp only: of_int_le_iff)
    then show "\<bar>of_int n * of_int (a * b - c * d)\<bar> + \<bar>of_int n\<bar> * 0 < (2 :: rat) ^ 31"
      by simp
  qed simp
  ultimately show "near (fmul fl (exactly n) (fsub fl (fmul fl (exactly a) (exactly b)) (fmul fl (exactly c) (exactly d))))
    (of_int (n * (a * b - c * d))) 64"
    by (simp add: exactly_def)
qed

lemma of_int_bound: "\<bar>n\<bar> \<le> m \<Longrightarrow> \<bar>of_int n\<bar> \<le> (of_int m :: rat)"
  by (simp flip: of_int_abs)

lemma offset_num_near:
  assumes "on_panel s" and "on_panel x" and "on_panel y"
  shows "near (offset_num fl (\<lambda>i. fint fl (s i)) (\<lambda>i. fint fl (x i)) (\<lambda>i. fint fl (y i)))
      (of_int (offset s x y)) 576"
    and "\<bar>offset s x y\<bar> \<le> 6423595002"
proof -
  note abs = panel_abs [OF assms(1)] panel_abs [OF assms(2)] panel_abs [OF assms(3)]
  let ?a = "s 0 * (y 1 * x 2 - x 1 * y 2)" and ?b = "x 0 * (s 1 * y 2 - s 2 * y 1)"
    and ?c = "y 0 * (s 2 * x 1 - s 1 * x 2)"
  have b: "\<bar>?a\<bar> \<le> 2141198334" "\<bar>?b\<bar> \<le> 2141198334" "\<bar>?c\<bar> \<le> 2141198334"
    by (rule offset_term(2); rule abs; simp)+
  then have ab: "\<bar>?a + ?b\<bar> \<le> 4282396668" and abc: "\<bar>?a + ?b + ?c\<bar> \<le> 6423595002" by linarith+
  have "near (fadd fl (fmul fl (exactly (s 0)) (fsub fl (fmul fl (exactly (y 1)) (exactly (x 2))) (fmul fl (exactly (x 1)) (exactly (y 2)))))
      (fmul fl (exactly (x 0)) (fsub fl (fmul fl (exactly (s 1)) (exactly (y 2))) (fmul fl (exactly (s 2)) (exactly (y 1))))))
      (of_int ?a + of_int ?b) (64 + 64 + 2 ^ 32 / 2 ^ 25)"
    using of_int_bound [OF ab] by (intro near_add offset_term(1) abs) simp_all
  then have two: "near (fadd fl (fmul fl (exactly (s 0)) (fsub fl (fmul fl (exactly (y 1)) (exactly (x 2))) (fmul fl (exactly (x 1)) (exactly (y 2)))))
      (fmul fl (exactly (x 0)) (fsub fl (fmul fl (exactly (s 1)) (exactly (y 2))) (fmul fl (exactly (s 2)) (exactly (y 1))))))
      (of_int (?a + ?b)) 256" by simp
  have "near (fadd fl (fadd fl (fmul fl (exactly (s 0)) (fsub fl (fmul fl (exactly (y 1)) (exactly (x 2))) (fmul fl (exactly (x 1)) (exactly (y 2)))))
      (fmul fl (exactly (x 0)) (fsub fl (fmul fl (exactly (s 1)) (exactly (y 2))) (fmul fl (exactly (s 2)) (exactly (y 1))))))
      (fmul fl (exactly (y 0)) (fsub fl (fmul fl (exactly (s 2)) (exactly (x 1))) (fmul fl (exactly (s 1)) (exactly (x 2))))))
      (of_int (?a + ?b) + of_int ?c) (256 + 64 + 2 ^ 33 / 2 ^ 25)"
    using of_int_bound [OF abc] by (intro near_add [OF two] offset_term(1) abs) simp_all
  then show "near (offset_num fl (\<lambda>i. fint fl (s i)) (\<lambda>i. fint fl (x i)) (\<lambda>i. fint fl (y i)))
      (of_int (offset s x y)) 576"
    unfolding offset_num_def offset_def using assms by (simp add: panel_fint del: One_nat_def)
  show "\<bar>offset s x y\<bar> \<le> 6423595002" unfolding offset_def by (rule abc)
qed

lemma quot_bound:
  assumes "4096 \<le> \<bar>d\<bar>" and "\<bar>n\<bar> \<le> m"
  shows "\<bar>of_int n / of_int d\<bar> \<le> (of_int m :: rat) / 4096"
proof -
  have "(4096 :: rat) \<le> \<bar>of_int d\<bar>" using of_int_le_iff [of 4096 "\<bar>d\<bar>", where ?'a = rat] assms(1) by simp
  then show ?thesis
    unfolding abs_divide using of_int_bound [OF assms(2)] by (intro frac_le) simp_all
qed

lemma slope_coeff:
  assumes "4096 \<le> \<bar>d\<bar>" and "\<bar>n\<bar> \<le> 4186116"
  shows "near (fdiv fl (exactly n) (exactly d)) (of_int n / of_int d) (1 / 32768)"
    and "\<bar>of_int n / of_int d\<bar> \<le> (1023 :: rat)"
proof -
  show b: "\<bar>of_int n / of_int d\<bar> \<le> (1023 :: rat)"
    by (rule order_trans [OF quot_bound [OF assms]]) simp
  then have "near (fdiv fl (exactly n) (Some (of_int d))) (of_int n / of_int d) (0 / \<bar>of_int d\<bar> + 2 ^ 10 / 2 ^ 25)"
    using assms(1) by (intro near_div [OF near_exactly]) simp_all
  then show "near (fdiv fl (exactly n) (exactly d)) (of_int n / of_int d) (1 / 32768)"
    by (simp add: exactly_def)
qed

lemma offset_coeff:
  assumes "4096 \<le> \<bar>d\<bar>" and "near v (of_int n) 576" and "\<bar>n\<bar> \<le> 6423595002"
  shows "near (fdiv fl v (exactly d)) (of_int n / of_int d) (13 / 64)"
proof -
  have d: "(4096 :: rat) \<le> \<bar>of_int d\<bar>" using of_int_le_iff [of 4096 "\<bar>d\<bar>", where ?'a = rat] assms(1) by simp
  then have e: "576 / \<bar>of_int d\<bar> \<le> (9 / 64 :: rat)"
    using frac_le [of 576 576 4096 "\<bar>of_int d\<bar> :: rat"] by simp
  have "\<bar>of_int n / of_int d\<bar> \<le> (1568300 :: rat)"
    by (rule order_trans [OF quot_bound [OF assms(1,3)]]) simp
  then have q: "\<bar>of_int n / of_int d\<bar> + 576 / \<bar>of_int d\<bar> < (2097152 :: rat)"
    using e by linarith
  have "near (fdiv fl v (Some (of_int d))) (of_int n / of_int d) (576 / \<bar>of_int d\<bar> + 2 ^ 21 / 2 ^ 25)"
    using q e d by (intro near_div [OF assms(2)]) simp_all
  then show ?thesis unfolding exactly_def by (rule near_mono) (use e in simp)
qed

lemma row_term:
  assumes "near a A (1 / 32768)" and "\<bar>A\<bar> \<le> 1023" and "0 \<le> n" and "n \<le> 1023"
  shows "near (fmul fl (exactly n) a) (of_int n * A) (1 / 16)" and "\<bar>of_int n * A\<bar> \<le> 1046529"
proof -
  have n: "\<bar>of_int n\<bar> \<le> (1023 :: rat)" using of_int_bound [of n 1023] assms(3,4) by simp
  show b: "\<bar>of_int n * A\<bar> \<le> 1046529"
    using mult_mono' [OF n assms(2)] by (simp add: abs_mult)
  have "near (fmul fl (Some (of_int n)) a) (of_int n * A) (\<bar>of_int n\<bar> * (1 / 32768) + 2 ^ 20 / 2 ^ 25)"
    using b n by (intro near_mul [OF assms(1)]) simp_all
  then show "near (fmul fl (exactly n) a) (of_int n * A) (1 / 16)"
    unfolding exactly_def by (rule near_mono) (use n in simp)
qed

lemma row_exact:
  assumes "near a A (1 / 32768)" and "\<bar>A\<bar> \<le> 1023" and "near b B (1 / 32768)" and "\<bar>B\<bar> \<le> 1023"
    and "near c C (13 / 64)" and "0 \<le> px p" "px p \<le> 1023" "0 \<le> py p" "py p \<le> 1023"
    and row: "of_int (px p) * A + of_int (py p) * B + C = of_int s" and "0 \<le> s" "s \<le> 1023"
  shows "apply_row fl a b c p = Some s"
proof -
  have x: "fint fl (px p) = exactly (px p)" and y: "fint fl (py p) = exactly (py p)"
    using assms(6-9) by (simp_all add: fint_exact)
  have "near (fadd fl (fmul fl (exactly (px p)) a) (fmul fl (exactly (py p)) b))
      (of_int (px p) * A + of_int (py p) * B) (1 / 16 + 1 / 16 + 2 ^ 21 / 2 ^ 25)"
    using row_term(2) [OF assms(1,2,6,7)] row_term(2) [OF assms(3,4,8,9)]
    by (intro near_add row_term(1) assms) simp_all
  from near_add [OF this assms(5), of 11]
  have "near (fadd fl (fadd fl (fmul fl (exactly (px p)) a) (fmul fl (exactly (py p)) b)) c)
      (of_int s) (1 / 16 + 1 / 16 + 2 ^ 21 / 2 ^ 25 + 13 / 64 + 2 ^ 11 / 2 ^ 25)"
    using of_int_bound [of s 1023] assms(11,12) by (simp add: row)
  then obtain r where r: "fadd fl (fadd fl (fmul fl (exactly (px p)) a) (fmul fl (exactly (py p)) b)) c = Some r"
    and "\<bar>r - of_int s\<bar> < 1 / 2"
    by (auto simp: near_def)
  then show ?thesis by (simp add: apply_row_def x y roundf_near)
qed

lemma computed_row:
  assumes "panel_points tch" and "on_panel s" and "4096 \<le> \<bar>divisor tch\<bar>" and "i < 3"
  shows "apply_row fl
      (fdiv fl (slope_num fl (\<lambda>i. fint fl (s i)) (\<lambda>i. fint fl (py (tch ! i)))) (coeff_divisor fl tch))
      (fdiv fl (fneg (slope_num fl (\<lambda>i. fint fl (s i)) (\<lambda>i. fint fl (px (tch ! i))))) (coeff_divisor fl tch))
      (fdiv fl (offset_num fl (\<lambda>i. fint fl (s i)) (\<lambda>i. fint fl (px (tch ! i))) (\<lambda>i. fint fl (py (tch ! i))))
         (coeff_divisor fl tch))
      (tch ! i) = Some (s i)"
proof -
  let ?x = "\<lambda>i. px (tch ! i)" and ?y = "\<lambda>i. py (tch ! i)" and ?d = "divisor tch"
  have x: "on_panel ?x" and y: "on_panel ?y" using assms(1) by (simp_all add: panel_points_def)
  have neg: "fneg (exactly n) = exactly (- n)" for n by (simp add: fneg_def exactly_def)
  have nb: "\<bar>- slope s ?x\<bar> \<le> 4186116" using slope_num_exact(2) [OF assms(2) x] by simp
  have d0: "(of_int ?d :: rat) \<noteq> 0" using assms(3) by auto
  have "of_int (?x i) * (of_int (slope s ?y) / of_int ?d) + of_int (?y i) * (of_int (- slope s ?x) / of_int ?d)
      + of_int (offset s ?x ?y) / of_int ?d
    = (of_int (?x i * slope s ?y - ?y i * slope s ?x + offset s ?x ?y) :: rat) / of_int ?d"
    by (simp add: add_divide_distrib diff_divide_distrib)
  also have "\<dots> = of_int (s i)" using d0 by (simp only: affine_through [OF assms(4)]) simp
  finally have row: "of_int (?x i) * (of_int (slope s ?y) / of_int ?d) + of_int (?y i) * (of_int (- slope s ?x) / of_int ?d)
      + of_int (offset s ?x ?y) / of_int ?d = (of_int (s i) :: rat)" .
  show ?thesis
    unfolding slope_num_exact(1) [OF assms(2) x] slope_num_exact(1) [OF assms(2) y]
      divisor_exact [OF assms(1)] neg
    by (rule row_exact [OF slope_coeff [OF assms(3) slope_num_exact(2) [OF assms(2) y]]
          slope_coeff [OF assms(3) nb] offset_coeff [OF assms(3) offset_num_near [OF assms(2) x y]]
          _ _ _ _ row])
      (use on_panelD [OF x assms(4)] on_panelD [OF y assms(4)] on_panelD [OF assms(2,4)] in auto)
qed

end

section \<open>Properties\<close>

lemma calibResult_compute [simp]:
  "calibResult (lv_tc_compute_coeff fl scr tch save t) = compute_result fl scr tch"
  by (simp add: lv_tc_compute_coeff_def lv_tc_set_coeff_def lv_tc_save_coeff_def Let_def)

lemma transform_computed:
  assumes "calibResult t = compute_result fl32 scr tch"
    and "panel_points scr" and "panel_points tch" and "4096 \<le> \<bar>divisor tch\<bar>" and "i < 3"
  shows "lv_tc_transform_point fl32 t (tch ! i) = Some (scr ! i)"
  using assms(1,2) single.computed_row [OF assms(3) _ assms(4,5)]
  by (simp add: panel_points_def lv_tc_transform_point_def compute_result_def Let_def)

text \<open>C36: Calibration does what it is for, in the single precision arithmetic the code runs: on a
  panel of at most 1024 by 1024, when the three touched points span a triangle of area at least
  2048, touching any of them again gives exactly the screen point it was calibrated to, although
  the coefficients themselves are rounded.\<close>

theorem calibration_hits_targets:
  assumes "panel_points scr" and "panel_points tch" and "4096 \<le> \<bar>divisor tch\<bar>" and "i < 3"
  shows "lv_tc_transform_point fl32 (lv_tc_compute_coeff fl32 scr tch save t) (tch ! i) = Some (scr ! i)"
  by (rule transform_computed) (use assms in simp_all)

theorem calibration_hits_targets_witness:
  "lv_tc_transform_point fl32 (lv_tc_compute_coeff fl32 [pt 72 72, pt 408 72, pt 240 208]
     [pt 61 80, pt 399 75, pt 233 219] False tc_init) (pt 399 75) = Some (pt 408 72)"
proof -
  have "panel_points [pt 72 72, pt 408 72, pt 240 208]" "panel_points [pt 61 80, pt 399 75, pt 233 219]"
    by (auto simp: panel_points_def on_panel_def numeral_3_eq_3 less_Suc_eq)
  from calibration_hits_targets [OF this, of 1] show ?thesis by (simp add: divisor_def)
qed

text \<open>Three touched points on one line are not rejected: the coefficients are marked valid,
  and every later touch is converted from a value that is not finite, which is undefined.\<close>

theorem collinear_taps_accepted:
  assumes "panel_points tch" and "divisor tch = 0"
  shows "isValid (calibResult (lv_tc_compute_coeff fl32 scr tch save t)) \<and>
    lv_tc_transform_point fl32 (lv_tc_compute_coeff fl32 scr tch save t) p = None"
  using single.divisor_exact [OF assms(1)] assms(2)
  by (simp add: compute_result_def lv_tc_transform_point_def apply_row_def fdiv_def fop_def
      exactly_def Let_def split: option.splits)

theorem collinear_taps_accepted_witness:
  "divisor [pt 10 10, pt 20 20, pt 30 30] = 0 \<and>
   lv_tc_transform_point fl32 (lv_tc_compute_coeff fl32 [pt 72 72, pt 408 72, pt 240 208]
     [pt 10 10, pt 20 20, pt 30 30] True tc_init) (pt 5 5) = None"
proof -
  have p: "panel_points [pt 10 10, pt 20 20, pt 30 30]"
    by (auto simp: panel_points_def on_panel_def numeral_3_eq_3 less_Suc_eq)
  have d: "divisor [pt 10 10, pt 20 20, pt 30 30] = 0" by (simp add: divisor_def)
  show ?thesis using collinear_taps_accepted [OF p d] d by simp
qed

lemma transform_frame [simp]:
  "lv_tc_transform_point fl (t\<lparr>last_pressed_point := p\<rparr>) = lv_tc_transform_point fl t"
  "lv_tc_transform_point fl (t\<lparr>last_state := st\<rparr>) = lv_tc_transform_point fl t"
  by (simp_all add: lv_tc_transform_point_def fun_eq_iff Let_def cong: option.case_cong)

text \<open>A release is reported where the finger was last seen, whatever coordinates the driver
  delivers with it, and only once: reads after it give the origin.\<close>

theorem release_keeps_position:
  assumes "lv_tc_transform_point_indev fl \<lparr>istate = Pressed, ipoint = p\<rparr> t = Some (q, t1)"
  shows "\<exists>t2. lv_tc_transform_point_indev fl \<lparr>istate = Released, ipoint = r\<rparr> t1 = Some (q, t2) \<and>
    lv_tc_transform_point_indev fl \<lparr>istate = Released, ipoint = r'\<rparr> t2 = Some (pt 0 0, t2) \<and>
    calibResult t2 = calibResult t"
  using assms by (auto simp: lv_tc_transform_point_indev_def Let_def)

theorem release_keeps_position_witness:
  "\<exists>t1 t2. lv_tc_transform_point_indev fl32 \<lparr>istate = Pressed, ipoint = pt 10 20\<rparr> tc_init = Some (pt 10 20, t1) \<and>
    lv_tc_transform_point_indev fl32 \<lparr>istate = Released, ipoint = pt 0 0\<rparr> t1 = Some (pt 10 20, t2)"
proof -
  obtain t1 where t1: "lv_tc_transform_point_indev fl32 \<lparr>istate = Pressed, ipoint = pt 10 20\<rparr> tc_init = Some (pt 10 20, t1)"
    by (simp add: lv_tc_transform_point_indev_def lv_tc_transform_point_def Let_def tc_init_def)
  from release_keeps_position [OF t1] t1 show ?thesis by blast
qed

end
