(* ===== verification/Touch_Screen.thy ===== *)
theory Touch_Screen
  imports Touch_Cal
begin

text \<open>
  \<open>lv_touch_calibration/lv_tc_screen.c\<close>: the calibration screen. It shows three crosshairs one
  after the other, averages three taps on each, and computes the coefficients after the third.
  The record \<open>screen\<close> has the fields of \<open>lv_tc_screen_t\<close>; of the LVGL widgets it keeps what the
  code sets (the prompt, the place of the crosshair), and of its timers how many start-delay
  timers are pending and whether the recalibration timer exists. \<open>step\<close> and \<open>tapCount\<close>
  are 8-bit in C and never exceed 4 and 2 (lemma \<open>screen_ok\<close> below). The coefficients and the
  save callback are those of \<open>Touch_Cal\<close>. \<open>lv_tc_screen_step(STEP_INIT)\<close> reads
  \<open>scrPoints[-1]\<close>, the element before the array, to place the hidden crosshair: that place is
  \<open>None\<close> here.
\<close>

section \<open>State\<close>

text \<open>\<open>lv_coord_t\<close> is \<open>int32_t\<close> (\<open>LV_USE_LARGE_COORD\<close>); every sum and difference of coordinates is reduced to it.\<close>

definition coord :: "int \<Rightarrow> int" where "coord x = signed_take_bit 31 x"

lemma coord_add [simp]: "coord (coord x + y) = coord (x + y)" "coord (x + coord y) = coord (x + y)"
proof -
  have c: "coord (coord x + coord y) = coord (x + y)" for x y by (simp add: coord_def signed_take_bit_add)
  have i: "coord (coord x) = coord x" for x by (simp add: coord_def)
  show "coord (coord x + y) = coord (x + y)" using c [of "coord x" y] c [of x y] by (simp add: i)
  show "coord (x + coord y) = coord (x + y)" using c [of x "coord y"] c [of x y] by (simp add: i)
qed

lemma coord_id: "- (2 ^ 31) \<le> x \<Longrightarrow> x < 2 ^ 31 \<Longrightarrow> coord x = x"
  unfolding coord_def by (rule signed_take_bit_int_eq_self) simp_all

lemma coord_0 [simp]: "coord 0 = 0" by (simp add: coord_def)

datatype prompt = No_Prompt | Start_Msg | Tap_Again nat

record screen =
  inputEnabled :: bool
  scrPoints :: "point list"
  tchPoints :: "point list"
  currentStep :: nat
  tapCount :: nat
  tapAccum :: point
  delayTimers :: nat
  recalTimer :: bool
  msgLabel :: prompt
  indicator :: "point option"
  indVisible :: bool
  readyEvents :: "coeff list"

datatype rotation = ROT_NONE | ROT_90 | ROT_180 | ROT_270

record display =
  sw_rotate :: bool
  hor_res :: int
  ver_res :: int
  rotated :: rotation

definition STEP_INIT :: nat where "STEP_INIT = 0"
definition STEP_FIRST :: nat where "STEP_FIRST = 1"
definition STEP_FINISH :: nat where "STEP_FINISH = 4"
definition TAPS_PER_POINT :: nat where "TAPS_PER_POINT = 3"

lemmas screen_consts = STEP_INIT_def STEP_FIRST_def STEP_FINISH_def TAPS_PER_POINT_def

section \<open>Operations\<close>

definition lv_tc_screen_set_points :: "point list \<Rightarrow> screen \<Rightarrow> screen" where
  "lv_tc_screen_set_points ps s = s\<lparr>scrPoints := take 3 ps\<rparr>"

text \<open>
  \<open>hor\<close> and \<open>ver\<close> are the display's resolution. The products with the constants 0.15 and 0.5 are
  taken in double precision and truncated, which for a resolution is the integer quotient.
\<close>

definition auto_points :: "int \<Rightarrow> int \<Rightarrow> point list" where
  "auto_points hor ver =
     (let marginH = hor * 15 div 100; marginV = ver * 15 div 100;
          margin = (if marginH < marginV then marginH else marginV)
      in [pt margin margin, pt (hor - margin) margin, pt (hor div 2) (ver - margin)])"

definition lv_tc_screen_constructor :: "int \<Rightarrow> int \<Rightarrow> screen" where
  "lv_tc_screen_constructor hor ver =
     lv_tc_screen_set_points (auto_points hor ver)
       \<lparr>inputEnabled = True, scrPoints = replicate 3 (pt 0 0), tchPoints = replicate 3 (pt 0 0),
        currentStep = 0, tapCount = 0, tapAccum = pt 0 0, delayTimers = 0, recalTimer = False,
        msgLabel = No_Prompt, indicator = None, indVisible = True, readyEvents = []\<rparr>"

definition set_indicator_pos :: "point option \<Rightarrow> bool \<Rightarrow> screen \<Rightarrow> screen" where
  "set_indicator_pos p visible s =
     s\<lparr>indicator := map_option (\<lambda>p. pt (coord (px p - 25)) (coord (py p - 25))) p, indVisible := visible\<rparr>"

text \<open>The screen points in the coordinates the touch driver reports.\<close>

definition evdev_point :: "display \<Rightarrow> point \<Rightarrow> point" where
  "evdev_point d p =
     (case rotated d of
        ROT_90 \<Rightarrow> pt (py p) (coord (ver_res d - px p - 1))
      | ROT_180 \<Rightarrow> pt (coord (hor_res d - px p - 1)) (coord (ver_res d - py p - 1))
      | ROT_270 \<Rightarrow> pt (coord (hor_res d - py p - 1)) (px p)
      | ROT_NONE \<Rightarrow> p)"

definition evdev_points :: "display option \<Rightarrow> point list \<Rightarrow> point list" where
  "evdev_points disp ps =
     (case disp of
        Some d \<Rightarrow> if sw_rotate d then map (evdev_point d) ps else ps
      | None \<Rightarrow> ps)"

definition lv_tc_screen_ready :: "tc \<times> screen \<Rightarrow> tc \<times> screen" where
  "lv_tc_screen_ready ts =
     (let t = lv_tc_save_coeff (fst ts); s = (snd ts)\<lparr>recalTimer := False\<rparr>
      in (t, s\<lparr>readyEvents := calibResult t # readyEvents s\<rparr>))"

definition lv_tc_screen_step ::
  "(rat \<Rightarrow> fp) \<Rightarrow> display option \<Rightarrow> nat \<Rightarrow> point \<Rightarrow> tc \<times> screen \<Rightarrow> tc \<times> screen" where
  "lv_tc_screen_step fl disp step p ts =
     (let t = fst ts;
          s = (snd ts)\<lparr>currentStep := step, tapCount := 0, tapAccum := pt 0 0\<rparr>;
          s = (if step > STEP_INIT \<and> step < STEP_FINISH then s\<lparr>msgLabel := Start_Msg\<rparr> else s);
          s = (if step > STEP_FIRST then s\<lparr>tchPoints := (tchPoints s)[step - 2 := p]\<rparr> else s)
      in if step = STEP_FINISH then
           lv_tc_screen_ready
             (lv_tc_compute_coeff fl (evdev_points disp (scrPoints s)) (tchPoints s) False t, s)
         else (t, set_indicator_pos (if step = STEP_INIT then None else Some (scrPoints s ! (step - 1)))
                    (step > STEP_INIT) s))"

definition lv_tc_screen_process_input ::
  "(rat \<Rightarrow> fp) \<Rightarrow> display option \<Rightarrow> point \<Rightarrow> tc \<times> screen \<Rightarrow> (tc \<times> screen) option" where
  "lv_tc_screen_process_input fl disp p ts =
     (let t = fst ts; s = snd ts
      in if currentStep s > STEP_INIT \<and> currentStep s < STEP_FINISH then
           let s = s\<lparr>inputEnabled := False,
                     tapAccum := pt (coord (px (tapAccum s) + px p)) (coord (py (tapAccum s) + py p)),
                     tapCount := tapCount s + 1\<rparr>
           in if tapCount s \<ge> TAPS_PER_POINT then
                Some (lv_tc_screen_step fl disp (currentStep s + 1)
                  (pt (c_div (px (tapAccum s)) (int TAPS_PER_POINT))
                      (c_div (py (tapAccum s)) (int TAPS_PER_POINT))) (t, s))
              else Some (t, s\<lparr>msgLabel := Tap_Again (tapCount s + 1)\<rparr>)
         else if currentStep s \<ge> STEP_FINISH then
           map_option (\<lambda>q. (t, set_indicator_pos (Some q) True s)) (lv_tc_transform_point fl t p)
         else Some (t, s))"

definition lv_tc_screen_input_cb ::
  "(rat \<Rightarrow> fp) \<Rightarrow> display option \<Rightarrow> indev \<Rightarrow> tc \<times> screen \<Rightarrow> (bool \<times> tc \<times> screen) option" where
  "lv_tc_screen_input_cb fl disp data ts =
     (case (if inputEnabled (snd ts) \<and> istate data = Pressed
            then lv_tc_screen_process_input fl disp (ipoint data) ts else Some ts) of
        None \<Rightarrow> None
      | Some (t, s) \<Rightarrow>
          let s = (if istate data = Released then s\<lparr>inputEnabled := True\<rparr> else s)
          in Some (currentStep s \<ge> STEP_FINISH, t, s))"

definition lv_tc_screen_start :: "(rat \<Rightarrow> fp) \<Rightarrow> display option \<Rightarrow> nat \<Rightarrow> tc \<times> screen \<Rightarrow> tc \<times> screen" where
  "lv_tc_screen_start fl disp self ts =
     (let s = (snd ts)\<lparr>recalTimer := False, msgLabel := Start_Msg\<rparr>;
          (t, s) = lv_tc_screen_step fl disp STEP_INIT (pt 0 0) (fst ts, s)
      in (lv_tc_register_input_cb self t, s\<lparr>delayTimers := delayTimers s + 1\<rparr>))"

text \<open>The timer is created with a repeat count of one: LVGL deletes it when it has fired.\<close>

definition lv_tc_screen_start_delay_timer ::
  "(rat \<Rightarrow> fp) \<Rightarrow> display option \<Rightarrow> tc \<times> screen \<Rightarrow> tc \<times> screen" where
  "lv_tc_screen_start_delay_timer fl disp ts =
     lv_tc_screen_step fl disp STEP_FIRST (pt 0 0)
       (fst ts, (snd ts)\<lparr>delayTimers := delayTimers (snd ts) - 1\<rparr>)"

definition lv_tc_screen_recalibrate_timer ::
  "(rat \<Rightarrow> fp) \<Rightarrow> display option \<Rightarrow> nat \<Rightarrow> int \<Rightarrow> tc \<times> screen \<Rightarrow> tc \<times> screen" where
  "lv_tc_screen_recalibrate_timer fl disp self repeat ts =
     (if repeat = 0 then lv_tc_screen_start fl disp self ts else ts)"

text \<open>A sequence of reads of the touch driver, handed to the screen one by one.\<close>

fun feed :: "(rat \<Rightarrow> fp) \<Rightarrow> display option \<Rightarrow> indev list \<Rightarrow> tc \<times> screen \<Rightarrow> (tc \<times> screen) option" where
  "feed fl disp [] ts = Some ts"
| "feed fl disp (d # ds) ts =
     (case lv_tc_screen_input_cb fl disp d ts of
        None \<Rightarrow> None | Some (_, ts) \<Rightarrow> feed fl disp ds ts)"

section \<open>What a sequence of reads means\<close>

text \<open>The taps: where the finger was at the first read of each contact.\<close>

fun taps :: "bool \<Rightarrow> indev list \<Rightarrow> point list" where
  "taps en [] = []"
| "taps en (d # ds) =
     (if istate d = Released then taps True ds
      else if en then ipoint d # taps False ds else taps False ds)"

definition mean3 :: "point \<Rightarrow> point \<Rightarrow> point \<Rightarrow> point" where
  "mean3 p q r = pt (c_div (coord (px p + px q + px r)) 3) (c_div (coord (py p + py q + py r)) 3)"

text \<open>For the coordinates of a touch panel, this is the plain mean.\<close>

lemma mean3_plain:
  assumes "\<forall>u\<in>{p, q, r}. \<bar>px u\<bar> < 2 ^ 29 \<and> \<bar>py u\<bar> < 2 ^ 29"
  shows "mean3 p q r = pt (c_div (px p + px q + px r) 3) (c_div (py p + py q + py r) 3)"
proof -
  have "coord (px p + px q + px r) = px p + px q + px r" "coord (py p + py q + py r) = py p + py q + py r"
    using assms by (auto intro!: coord_id)
  then show ?thesis by (simp add: mean3_def)
qed

definition rect :: "int \<Rightarrow> int \<Rightarrow> point set" where
  "rect w h = {p. 0 \<le> px p \<and> px p < w \<and> 0 \<le> py p \<and> py p < h}"

text \<open>The state of the screen after the taps \<open>ts\<close>, fewer than nine.\<close>

definition psum :: "point list \<Rightarrow> point" where
  "psum ps = pt (coord (\<Sum>p\<leftarrow>ps. px p)) (coord (\<Sum>p\<leftarrow>ps. py p))"

definition mean_at :: "point list \<Rightarrow> nat \<Rightarrow> point" where
  "mean_at ts i = mean3 (ts ! (3 * i)) (ts ! (3 * i + 1)) (ts ! (3 * i + 2))"

definition after_taps :: "point list \<Rightarrow> screen \<Rightarrow> bool" where
  "after_taps ts s \<longleftrightarrow>
     currentStep s = 1 + length ts div 3 \<and> tapCount s = length ts mod 3 \<and>
     tapAccum s = psum (drop (3 * (length ts div 3)) ts) \<and> length (tchPoints s) = 3 \<and>
     (\<forall>i < length ts div 3. tchPoints s ! i = mean_at ts i)"

lemma psum_snoc: "psum (ps @ [p]) = pt (coord (px (psum ps) + px p)) (coord (py (psum ps) + py p))"
  by (simp add: psum_def)

lemma mean_at_append: "i < length ts div 3 \<Longrightarrow> mean_at (ts @ us) i = mean_at ts i"
  by (simp add: mean_at_def nth_append)

text \<open>Every state of a calibration under way; \<open>before\<close> is the state it started in.\<close>

definition under_way :: "bool \<Rightarrow> point list \<Rightarrow> screen \<Rightarrow> screen \<Rightarrow> bool" where
  "under_way en ts before s \<longleftrightarrow>
     after_taps ts s \<and> inputEnabled s = en \<and> length ts < 9 \<and>
     scrPoints s = scrPoints before \<and> readyEvents s = readyEvents before \<and>
     delayTimers s = delayTimers before"

lemma third_tap_mean:
  assumes "length ts mod 3 = 2"
  shows "psum (drop (3 * (length ts div 3)) ts @ [p]) = psum [ts ! (3 * (length ts div 3)), ts ! (3 * (length ts div 3) + 1), p]"
proof -
  let ?k = "3 * (length ts div 3)"
  have len: "length ts = ?k + 2" using assms by (metis mult_div_mod_eq)
  then have "drop ?k ts = [ts ! ?k, ts ! (?k + 1)]"
    using Cons_nth_drop_Suc [of ?k ts] Cons_nth_drop_Suc [of "Suc ?k" ts] by simp
  then show ?thesis by simp
qed

lemma screen_cases [simp]:
  "STEP_INIT < currentStep s \<longleftrightarrow> 0 < currentStep s" "currentStep s < STEP_FINISH \<longleftrightarrow> currentStep s < 4"
  "STEP_FINISH \<le> currentStep s \<longleftrightarrow> 4 \<le> currentStep s"
  by (simp_all add: screen_consts)

lemma input_release:
  assumes "under_way en ts b s" and "istate d = Released"
  shows "\<exists>s'. lv_tc_screen_input_cb fl disp d (t, s) = Some (False, t, s') \<and> under_way True ts b s'"
  using assms by (auto simp: lv_tc_screen_input_cb_def under_way_def after_taps_def)

lemma input_held:
  assumes "under_way False ts b s" and "istate d = Pressed"
  shows "lv_tc_screen_input_cb fl disp d (t, s) = Some (False, t, s)"
  using assms by (auto simp: lv_tc_screen_input_cb_def under_way_def after_taps_def)

lemma input_tap_more:
  assumes u: "under_way True ts b s" and "istate d = Pressed" and m: "length ts mod 3 \<noteq> 2"
  shows "\<exists>s'. lv_tc_screen_input_cb fl disp d (t, s) = Some (False, t, s') \<and>
    under_way False (ts @ [ipoint d]) b s'"
proof -
  have lt: "length ts mod 3 < 2" using m by linarith
  have len: "length ts < 8" using u m by (cases "length ts = 8") (auto simp: under_way_def)
  have "Suc (length ts) div 3 = length ts div 3" "Suc (length ts) mod 3 = Suc (length ts mod 3)"
    using lt by (simp_all add: div_Suc mod_Suc)
  moreover have "3 * (length ts div 3) \<le> length ts" by simp
  ultimately show ?thesis
    using assms lt len
    by (auto simp: lv_tc_screen_input_cb_def lv_tc_screen_process_input_def Let_def under_way_def
        after_taps_def screen_consts psum_snoc mean_at_append)
qed

lemma input_tap_third:
  assumes u: "under_way True ts b s" and "istate d = Pressed" and m: "length ts mod 3 = 2" and len: "length ts < 8"
  shows "\<exists>s'. lv_tc_screen_input_cb fl disp d (t, s) = Some (False, t, s') \<and>
    under_way False (ts @ [ipoint d]) b s'"
proof -
  let ?k = "length ts div 3"
  have div: "Suc (length ts) div 3 = Suc ?k" "Suc (length ts) mod 3 = 0"
    using m by (simp_all add: div_Suc mod_Suc)
  have k: "?k < 2" using len m by presburger
  have full: "drop (3 * Suc ?k) (ts @ [ipoint d]) = []" using m by simp
  have last: "(ts @ [ipoint d]) ! (3 * ?k + 2) = ipoint d"
    using m by (metis mult_div_mod_eq nth_append_length)
  have prev: "(ts @ [ipoint d]) ! (3 * ?k) = ts ! (3 * ?k)" "(ts @ [ipoint d]) ! (3 * ?k + 1) = ts ! (3 * ?k + 1)"
    using m by (auto simp: nth_append) presburger+
  have mean: "mean_at (ts @ [ipoint d]) ?k =
      pt (c_div (coord (px (psum (drop (3 * ?k) ts)) + px (ipoint d))) 3)
         (c_div (coord (py (psum (drop (3 * ?k) ts)) + py (ipoint d))) 3)"
    using third_tap_mean [OF m, of "ipoint d"] last prev unfolding psum_snoc
    by (simp add: mean_at_def mean3_def psum_def add.assoc)
  show ?thesis
    using assms k div full
    by (auto simp: lv_tc_screen_input_cb_def lv_tc_screen_process_input_def lv_tc_screen_step_def
        set_indicator_pos_def Let_def under_way_def after_taps_def screen_consts mean
        mean_at_append less_Suc_eq psum_def nth_list_update)
qed

lemma input_tap:
  assumes "under_way True ts b s" and "istate d = Pressed" and "length ts < 8"
  shows "\<exists>s'. lv_tc_screen_input_cb fl disp d (t, s) = Some (False, t, s') \<and>
    under_way False (ts @ [ipoint d]) b s'"
  using input_tap_more [OF assms(1,2)] input_tap_third [OF assms(1,2) _ assms(3)] by blast

fun enabled_after :: "bool \<Rightarrow> indev list \<Rightarrow> bool" where
  "enabled_after en [] = en"
| "enabled_after en (d # ds) = enabled_after (istate d = Released) ds"

lemma enabled_after_snoc: "enabled_after en (ds @ [d]) = (istate d = Released)"
  by (induction ds arbitrary: en) auto

lemma taps_append: "taps en (ds @ es) = taps en ds @ taps (enabled_after en ds) es"
  by (induction ds arbitrary: en) auto

lemma feed_append:
  "feed fl disp (ds @ es) ts = (case feed fl disp ds ts of None \<Rightarrow> None | Some ts \<Rightarrow> feed fl disp es ts)"
  by (induction ds arbitrary: ts) (auto split: option.splits)

lemma feed_taps:
  "under_way en ts b s \<Longrightarrow> length (ts @ taps en ds) < 9 \<Longrightarrow>
   \<exists>s'. feed fl disp ds (t, s) = Some (t, s') \<and> under_way (enabled_after en ds) (ts @ taps en ds) b s'"
proof (induction ds arbitrary: en ts s)
  case (Cons d ds)
  consider "istate d = Released" | "istate d = Pressed" "en" | "istate d = Pressed" "\<not> en"
    by (cases "istate d") auto
  then show ?case
  proof cases
    case 1
    with Cons.prems(1) obtain s' where i: "lv_tc_screen_input_cb fl disp d (t, s) = Some (False, t, s')"
      and u: "under_way True ts b s'" using input_release by blast
    from Cons.IH [OF u] Cons.prems(2) 1 show ?thesis by (auto simp: i)
  next
    case 2
    with Cons.prems obtain s' where i: "lv_tc_screen_input_cb fl disp d (t, s) = Some (False, t, s')"
      and u: "under_way False (ts @ [ipoint d]) b s'" using input_tap [of ts b s d fl disp t] by auto
    from Cons.IH [OF u] Cons.prems(2) 2 show ?thesis by (auto simp: i)
  next
    case 3
    with Cons.prems(1) have i: "lv_tc_screen_input_cb fl disp d (t, s) = Some (False, t, s)"
      and u: "under_way False ts b s" using input_held [of ts b s d fl disp t] by auto
    from Cons.IH [OF u] Cons.prems(2) 3 show ?thesis by (auto simp: i)
  qed
qed simp

text \<open>The ninth tap computes the coefficients, saves them and raises the READY event.\<close>

definition finished :: "(rat \<Rightarrow> fp) \<Rightarrow> display option \<Rightarrow> point list \<Rightarrow> tc \<times> screen \<Rightarrow> tc \<times> screen \<Rightarrow> bool" where
  "finished fl disp ts before after \<longleftrightarrow>
     (let c = compute_result fl (evdev_points disp (scrPoints (snd before))) [mean_at ts 0, mean_at ts 1, mean_at ts 2]
      in currentStep (snd after) = STEP_FINISH \<and>
         fst after = lv_tc_save_coeff ((fst before)\<lparr>calibResult := c\<rparr>) \<and>
         readyEvents (snd after) = c # readyEvents (snd before))"

lemma length3_eq: "length xs = 3 \<Longrightarrow> xs = [xs ! 0, xs ! 1, xs ! 2]"
  by (auto simp: numeral_3_eq_3 numeral_2_eq_2 length_Suc_conv)

lemma calibResult_save [simp]: "calibResult (lv_tc_save_coeff t) = calibResult t"
  by (simp add: lv_tc_save_coeff_def)

lemma input_ninth_tap:
  assumes u: "under_way True ts b s" and d: "istate d = Pressed" and len: "length ts = 8"
  shows "\<exists>t' s'. lv_tc_screen_input_cb fl disp d (t, s) = Some (True, t', s') \<and>
    finished fl disp (ts @ [ipoint d]) (t, b) (t', s')"
proof -
  have at: "after_taps ts s" using u by (simp add: under_way_def)
  have two: "length (tchPoints s) = 3" "tchPoints s ! 0 = mean_at ts 0" "tchPoints s ! 1 = mean_at ts 1"
    using at by (simp_all add: after_taps_def len)
  have mean: "pt (c_div (coord (px (psum (drop 6 ts)) + px (ipoint d))) 3)
      (c_div (coord (py (psum (drop 6 ts)) + py (ipoint d))) 3) = mean_at (ts @ [ipoint d]) 2"
    using third_tap_mean [of ts "ipoint d"] unfolding psum_snoc
    by (simp add: len mean_at_def mean3_def nth_append psum_def add.assoc)
  have "mean_at (ts @ [ipoint d]) 0 = mean_at ts 0" "mean_at (ts @ [ipoint d]) 1 = mean_at ts 1"
    using len by (simp_all add: mean_at_append)
  moreover have "(tchPoints s)[2 := q] = [tchPoints s ! 0, tchPoints s ! 1, q]" for q
    using length3_eq [OF two(1)] by (metis list_update_code(2,3) numeral_2_eq_2)
  ultimately show ?thesis
    using u d two
    by (auto simp: lv_tc_screen_input_cb_def lv_tc_screen_process_input_def lv_tc_screen_step_def
        lv_tc_screen_ready_def lv_tc_compute_coeff_def lv_tc_set_coeff_def Let_def under_way_def
        after_taps_def screen_consts len mean finished_def simp flip: numeral_2_eq_2)
qed

text \<open>The state in which the delay timer leaves the screen is the state after no tap.\<close>

lemma timer_under_way:
  assumes "length (tchPoints s) = 3"
  shows "\<exists>s'. lv_tc_screen_start_delay_timer fl disp (t, s) = (t, s') \<and>
    under_way (inputEnabled s) [] s' s' \<and> scrPoints s' = scrPoints s \<and> readyEvents s' = readyEvents s"
  using assms
  by (simp add: lv_tc_screen_start_delay_timer_def lv_tc_screen_step_def Let_def set_indicator_pos_def
      screen_consts under_way_def after_taps_def psum_def)

section \<open>Properties\<close>

lemma calibration_run:
  assumes "length (tchPoints s) = 3"
    and "lv_tc_screen_start_delay_timer fl disp (t, s) = (t0, s0)"
    and "length (taps (inputEnabled s) ds) \<le> 8"
  shows "\<exists>s1. feed fl disp ds (t0, s0) = Some (t, s1) \<and> currentStep s1 < STEP_FINISH \<and>
    readyEvents s1 = readyEvents s \<and>
    (length (taps (inputEnabled s) (ds @ [d])) = 9 \<longrightarrow>
      (\<exists>t2 s2. lv_tc_screen_input_cb fl disp d (t, s1) = Some (True, t2, s2) \<and>
         finished fl disp (taps (inputEnabled s) (ds @ [d])) (t, s) (t2, s2)))"
proof -
  let ?en = "inputEnabled s" and ?ts = "taps (inputEnabled s) ds"
  from timer_under_way [OF assms(1), of fl disp t] assms(2)
  have t0: "t0 = t" and u0: "under_way ?en [] s0 s0" and eq: "scrPoints s0 = scrPoints s" "readyEvents s0 = readyEvents s"
    by auto
  obtain s1 where f: "feed fl disp ds (t, s0) = Some (t, s1)" and u1: "under_way (enabled_after ?en ds) ?ts s0 s1"
    using feed_taps [OF u0, of ds fl disp t] assms(3) by auto
  have "\<exists>t2 s2. lv_tc_screen_input_cb fl disp d (t, s1) = Some (True, t2, s2) \<and>
      finished fl disp (taps ?en (ds @ [d])) (t, s) (t2, s2)"
    if nine: "length (taps ?en (ds @ [d])) = 9"
  proof -
    have ne: "taps (enabled_after ?en ds) [d] \<noteq> []" using nine assms(3)
      by (intro notI) (simp add: taps_append del: taps.simps)
    then have d: "istate d = Pressed" by (cases "istate d") simp_all
    with ne have e: "enabled_after ?en ds" by (cases "enabled_after ?en ds") simp_all
    with d have "taps ?en (ds @ [d]) = ?ts @ [ipoint d]" by (simp add: taps_append)
    with nine input_ninth_tap [of ?ts s0 s1 d] u1 d e show ?thesis
      by (simp add: finished_def eq Let_def)
  qed
  with f u1 show ?thesis
    unfolding t0 by (intro exI [of _ s1]) (auto simp: under_way_def after_taps_def STEP_FINISH_def eq)
qed

text \<open>C35: A calibration is nine taps. From the moment the start delay is over, whatever the driver
  reports, the coefficients stay as they are and nothing is announced until the ninth contact;
  the read that brings it stores the coefficients computed from the means of the taps on each
  crosshair, hands them to the save callback and raises READY once. A finger held down counts
  once. The sums of the taps are those of the 32-bit \<open>lv_coord_t\<close>; for coordinates below $2^{29}$ they
  are the plain sums (\<open>mean3_plain\<close>).\<close>

theorem nine_taps_calibrate:
  assumes "length (tchPoints s) = 3"
    and "lv_tc_screen_start_delay_timer fl disp (t, s) = (t0, s0)"
    and "length (taps (inputEnabled s) ds) \<le> 8"
  shows "\<exists>s1. feed fl disp ds (t0, s0) = Some (t, s1) \<and> currentStep s1 < STEP_FINISH \<and>
    readyEvents s1 = readyEvents s \<and>
    (length (taps (inputEnabled s) (ds @ [d])) = 9 \<longrightarrow>
      (\<exists>t2 s2. lv_tc_screen_input_cb fl disp d (t, s1) = Some (True, t2, s2) \<and>
         finished fl disp (taps (inputEnabled s) (ds @ [d])) (t, s) (t2, s2)))"
  using assms by (rule calibration_run)

theorem nine_taps_calibrate_witness:
  "\<exists>t0 s0 s1. lv_tc_screen_start_delay_timer fl32 None (tc_init, lv_tc_screen_constructor 480 400) = (t0, s0) \<and>
     feed fl32 None [\<lparr>istate = Pressed, ipoint = pt 61 80\<rparr>, \<lparr>istate = Pressed, ipoint = pt 62 80\<rparr>] (t0, s0)
       = Some (tc_init, s1) \<and> readyEvents s1 = []"
proof -
  let ?s = "lv_tc_screen_constructor 480 400"
  obtain t0 s0 where st: "lv_tc_screen_start_delay_timer fl32 None (tc_init, ?s) = (t0, s0)"
    by (cases "lv_tc_screen_start_delay_timer fl32 None (tc_init, ?s)")
  have "length (tchPoints ?s) = 3" "inputEnabled ?s" "readyEvents ?s = []"
    by (simp_all add: lv_tc_screen_constructor_def lv_tc_screen_set_points_def)
  with nine_taps_calibrate [OF _ st, of
      "[\<lparr>istate = Pressed, ipoint = pt 61 80\<rparr>, \<lparr>istate = Pressed, ipoint = pt 62 80\<rparr>]"
      "\<lparr>istate = Released, ipoint = pt 62 80\<rparr>"] st
  show ?thesis by auto
qed

lemma under_way_step: "under_way en ts b s \<Longrightarrow> currentStep s < STEP_FINISH"
  by (auto simp: under_way_def after_taps_def STEP_FINISH_def)

lemma feed_single:
  "feed fl disp [d] ts = Some ts' \<Longrightarrow> \<exists>fin. lv_tc_screen_input_cb fl disp d ts = Some (fin, ts')"
  by (simp split: option.split_asm prod.split_asm)

lemma input_cb_result:
  "lv_tc_screen_input_cb fl disp d ts = Some (fin, t', s') \<Longrightarrow> fin = (STEP_FINISH \<le> currentStep s')"
  unfolding lv_tc_screen_input_cb_def Let_def by (auto simp del: screen_cases split: option.split_asm prod.split_asm)

text \<open>While a calibration runs, no touch reaches the widgets: the wrapped driver reports a
  release at the origin for every read, and the calibration screen still gets it.\<close>

theorem calibration_owns_the_input:
  assumes "under_way en ts b s" and "registeredTCScreen t = Some act"
    and "length (ts @ taps en [rd data]) < 9"
  shows "\<exists>r s'. lv_tc_indev_drv_read_cb fl (lv_tc_screen_input_cb fl disp) act (Some rd) data (t, s) =
      Some (r, t, s') \<and> istate r = Released \<and> ipoint r = pt 0 0 \<and>
    under_way (enabled_after en [rd data]) (ts @ taps en [rd data]) b s'"
proof -
  from feed_taps [OF assms(1,3)] obtain s' where
    f: "feed fl disp [rd data] (t, s) = Some (t, s')" and
    u: "under_way (enabled_after en [rd data]) (ts @ taps en [rd data]) b s'" by blast
  from f obtain fin where i: "lv_tc_screen_input_cb fl disp (rd data) (t, s) = Some (fin, t, s')"
    using feed_single by blast
  from input_cb_result [OF i] under_way_step [OF u] have "fin = False" by simp
  with i u assms(2) show ?thesis by (simp add: lv_tc_indev_drv_read_cb_def Let_def)
qed

theorem calibration_owns_the_input_witness:
  "\<exists>t s r s'. lv_tc_screen_start fl32 None 7 (tc_init, lv_tc_screen_constructor 480 400) = (t, s) \<and>
     lv_tc_indev_drv_read_cb fl32 (lv_tc_screen_input_cb fl32 None) 7
       (Some (\<lambda>_. \<lparr>istate = Pressed, ipoint = pt 61 80\<rparr>)) \<lparr>istate = Released, ipoint = pt 0 0\<rparr>
       (lv_tc_screen_start_delay_timer fl32 None (t, s)) = Some (r, t, s') \<and>
     istate r = Released \<and> tapCount s' = 1"
proof -
  obtain t s where st: "lv_tc_screen_start fl32 None 7 (tc_init, lv_tc_screen_constructor 480 400) = (t, s)"
    by (cases "lv_tc_screen_start fl32 None 7 (tc_init, lv_tc_screen_constructor 480 400)")
  then have "length (tchPoints s) = 3" "inputEnabled s" and reg: "registeredTCScreen t = Some 7"
    by (auto simp: lv_tc_screen_start_def lv_tc_screen_step_def set_indicator_pos_def screen_consts Let_def
        lv_tc_screen_constructor_def lv_tc_screen_set_points_def lv_tc_register_input_cb_def)
  with timer_under_way [of s fl32 None t] obtain s0
    where fire: "lv_tc_screen_start_delay_timer fl32 None (t, s) = (t, s0)" and u: "under_way True [] s0 s0" by auto
  from calibration_owns_the_input [OF u reg, of "\<lambda>_. \<lparr>istate = Pressed, ipoint = pt 61 80\<rparr>"
      "\<lparr>istate = Released, ipoint = pt 0 0\<rparr>" fl32 None]
  obtain r s' where "lv_tc_indev_drv_read_cb fl32 (lv_tc_screen_input_cb fl32 None) 7
       (Some (\<lambda>_. \<lparr>istate = Pressed, ipoint = pt 61 80\<rparr>)) \<lparr>istate = Released, ipoint = pt 0 0\<rparr> (t, s0) = Some (r, t, s')"
    "istate r = Released" "after_taps [pt 61 80] s'" by (auto simp: under_way_def)
  with st fire show ?thesis by (auto simp: after_taps_def)
qed

text \<open>The calibrated panel. When the three taps on each crosshair hit the same raw point, the
  screen ends with coefficients under which each raw point is exactly its crosshair, turned into
  the coordinates of the touch driver by the rotation of the display.\<close>

theorem calibrated_panel:
  assumes "length (tchPoints s) = 3"
    and "lv_tc_screen_start_delay_timer fl32 disp (t, s) = (t0, s0)"
    and "taps (inputEnabled s) (ds @ [d]) = [a, a, a, b, b, b, c, c, c]"
    and "length (taps (inputEnabled s) ds) = 8"
    and "panel_points [a, b, c]" and "4096 \<le> \<bar>divisor [a, b, c]\<bar>"
    and "panel_points (evdev_points disp (scrPoints s))" and "i < 3"
  shows "\<exists>t2 s2. feed fl32 disp (ds @ [d]) (t0, s0) = Some (t2, s2) \<and> currentStep s2 = STEP_FINISH \<and>
    lv_tc_transform_point fl32 t2 ([a, b, c] ! i) = Some (evdev_points disp (scrPoints s) ! i)"
proof -
  from calibration_run [OF assms(1,2), of ds d] assms(3,4) obtain s1 t2 s2 where
    f: "feed fl32 disp ds (t0, s0) = Some (t, s1)"
      "lv_tc_screen_input_cb fl32 disp d (t, s1) = Some (True, t2, s2)"
    and fin: "finished fl32 disp [a, a, a, b, b, b, c, c, c] (t, s) (t2, s2)"
    by auto
  have "\<forall>i<3. 0 \<le> px ([a, b, c] ! i) \<and> px ([a, b, c] ! i) \<le> 1023 \<and> 0 \<le> py ([a, b, c] ! i) \<and> py ([a, b, c] ! i) \<le> 1023"
    using assms(5) by (simp add: panel_points_def on_panel_def)
  then have range: "0 \<le> px q \<and> px q \<le> 1023 \<and> 0 \<le> py q \<and> py q \<le> 1023" if "q \<in> {a, b, c}" for q
    using that by (auto simp: numeral_3_eq_3 less_Suc_eq all_conj_distrib)
  have "mean3 q q q = q" if "q \<in> {a, b, c}" for q
    using range [OF that] mean3_plain [of q q q] by (cases q) (auto simp: c_div_def sgn_if)
  then have means: "mean_at [a, a, a, b, b, b, c, c, c] 0 = a" "mean_at [a, a, a, b, b, b, c, c, c] 1 = b"
    "mean_at [a, a, a, b, b, b, c, c, c] 2 = c"
    by (simp_all add: mean_at_def)
  have "calibResult t2 = compute_result fl32 (evdev_points disp (scrPoints s)) [a, b, c]"
    using fin by (simp only: finished_def means Let_def fst_conv snd_conv) simp
  from transform_computed [OF this assms(7,5,6,8)] show ?thesis
    using f fin by (simp add: feed_append finished_def Let_def)
qed

theorem calibrated_panel_witness:
  "\<exists>t2 s2. feed fl32 (Some \<lparr>sw_rotate = True, hor_res = 400, ver_res = 480, rotated = ROT_270\<rparr>)
      (concat (map (\<lambda>p. [\<lparr>istate = Pressed, ipoint = p\<rparr>, \<lparr>istate = Released, ipoint = p\<rparr>])
        [pt 60 70, pt 60 70, pt 60 70, pt 62 410, pt 62 410, pt 62 410, pt 330 240, pt 330 240]) @
       [\<lparr>istate = Pressed, ipoint = pt 330 240\<rparr>])
      (lv_tc_screen_start_delay_timer fl32 (Some \<lparr>sw_rotate = True, hor_res = 400, ver_res = 480, rotated = ROT_270\<rparr>)
        (tc_init, lv_tc_screen_constructor 480 400)) = Some (t2, s2) \<and>
    lv_tc_transform_point fl32 t2 (pt 62 410) = Some (pt 339 420)"
proof -
  let ?d = "Some \<lparr>sw_rotate = True, hor_res = 400, ver_res = 480, rotated = ROT_270\<rparr>"
  let ?s = "lv_tc_screen_constructor 480 400"
  let ?ds = "concat (map (\<lambda>p. [\<lparr>istate = Pressed, ipoint = p\<rparr>, \<lparr>istate = Released, ipoint = p\<rparr>])
        [pt 60 70, pt 60 70, pt 60 70, pt 62 410, pt 62 410, pt 62 410, pt 330 240, pt 330 240])"
  let ?l = "\<lparr>istate = Pressed, ipoint = pt 330 240\<rparr>"
  obtain t0 s0 where st: "lv_tc_screen_start_delay_timer fl32 ?d (tc_init, ?s) = (t0, s0)"
    by (cases "lv_tc_screen_start_delay_timer fl32 ?d (tc_init, ?s)")
  have pts: "scrPoints ?s = [pt 60 60, pt 420 60, pt 240 340]" and len: "length (tchPoints ?s) = 3"
    and en: "inputEnabled ?s"
    by (simp_all add: lv_tc_screen_constructor_def lv_tc_screen_set_points_def auto_points_def Let_def numeral_3_eq_3)
  have ev: "evdev_points ?d (scrPoints ?s) = [pt 339 60, pt 339 420, pt 59 240]"
    by (simp add: pts evdev_points_def evdev_point_def coord_id)
  have p: "panel_points [pt 60 70, pt 62 410, pt 330 240]" "panel_points (evdev_points ?d (scrPoints ?s))"
    unfolding ev by (auto simp: panel_points_def on_panel_def numeral_3_eq_3 less_Suc_eq)
  have "\<exists>t2 s2. feed fl32 ?d (?ds @ [?l]) (t0, s0) = Some (t2, s2) \<and> currentStep s2 = STEP_FINISH \<and>
    lv_tc_transform_point fl32 t2 ([pt 60 70, pt 62 410, pt 330 240] ! 1) = Some (evdev_points ?d (scrPoints ?s) ! 1)"
    by (rule calibrated_panel [OF len st _ _ p(1) _ p(2)]) (simp_all add: en divisor_def)
  then show ?thesis unfolding st ev by auto
qed

text \<open>The rotation loses nothing: it is a bijection between the logical screen, whose sides
  are swapped when the display is turned by 90 or 270 degrees, and the area the driver
  reports.\<close>

theorem rotation_bijective:
  assumes "hor_res d < 2 ^ 31" "ver_res d < 2 ^ 31"
  shows "bij_betw (evdev_point d)
     (if rotated d = ROT_90 \<or> rotated d = ROT_270 then rect (ver_res d) (hor_res d)
      else rect (hor_res d) (ver_res d))
     (rect (hor_res d) (ver_res d))"
proof -
  let ?inv = "\<lambda>p. case rotated d of
      ROT_90 \<Rightarrow> pt (ver_res d - py p - 1) (px p)
    | ROT_180 \<Rightarrow> pt (hor_res d - px p - 1) (ver_res d - py p - 1)
    | ROT_270 \<Rightarrow> pt (py p) (hor_res d - px p - 1)
    | ROT_NONE \<Rightarrow> p"
  show ?thesis
    by (rule bij_betw_byWitness [where f' = ?inv])
      (use assms in \<open>cases "rotated d"; auto simp: evdev_point_def rect_def coord_id\<close>)+
qed

text \<open>The crosshairs that the screen chooses meet the conditions under which the calibration
  is exact, for every display from 100 by 100 up to 1023 by 1023: they lie on the panel and span
  a large enough triangle.\<close>

theorem auto_points_spread:
  assumes "100 \<le> hor" and "hor \<le> 1023" and "100 \<le> ver" and "ver \<le> 1023"
  shows "panel_points (scrPoints (lv_tc_screen_constructor hor ver)) \<and>
    4096 \<le> \<bar>divisor (scrPoints (lv_tc_screen_constructor hor ver))\<bar>"
proof -
  define m where "m = min (hor * 15 div 100) (ver * 15 div 100)"
  have m: "0 \<le> m" "100 * m \<le> 15 * hor" "100 * m \<le> 15 * ver"
    using assms by (auto simp: m_def min_def)
  have pts: "scrPoints (lv_tc_screen_constructor hor ver) = [pt m m, pt (hor - m) m, pt (hor div 2) (ver - m)]"
    by (simp add: lv_tc_screen_constructor_def lv_tc_screen_set_points_def auto_points_def Let_def m_def min_def
        numeral_3_eq_3)
  have "70 \<le> hor - 2 * m" "70 \<le> ver - 2 * m" using m assms by linarith+
  then have "70 * 70 \<le> (hor - 2 * m) * (ver - 2 * m)" by (intro mult_mono) simp_all
  moreover have "divisor [pt m m, pt (hor - m) m, pt (hor div 2) (ver - m)] = - ((hor - 2 * m) * (ver - 2 * m))"
    by (simp add: divisor_def algebra_simps)
  ultimately have "4096 \<le> \<bar>divisor [pt m m, pt (hor - m) m, pt (hor div 2) (ver - m)]\<bar>" by simp
  moreover have "panel_points [pt m m, pt (hor - m) m, pt (hor div 2) (ver - m)]"
    using m assms by (auto simp: panel_points_def on_panel_def numeral_3_eq_3 less_Suc_eq)
  ultimately show ?thesis by (simp add: pts)
qed

theorem auto_points_spread_witness:
  "panel_points (scrPoints (lv_tc_screen_constructor 480 400))"
  using auto_points_spread [of 480 400] by simp

end
