(* ===== verification/Bitfield.thy ===== *)
theory Bitfield
  imports Prelude
begin

text \<open>
  \<open>wpa_supplicant/src/utils/bitfield.c\<close>: a set of small numbers as a byte array. The locale
  \<open>bit_set\<close> is what its clients rely on (which bit a set or a clear changes, and that numbers
  out of range are ignored); the byte array interprets it, and the set of a bitfield,
  \<open>members\<close>, is the abstraction under which every operation is the operation on sets.
\<close>

section \<open>Operations\<close>

record bitfield =
  bits :: "u8 list"
  max_bits :: nat

definition bitfield_alloc :: "nat \<Rightarrow> bitfield" where
  "bitfield_alloc n = \<lparr>bits = replicate ((n + 7) div 8) 0, max_bits = n\<rparr>"

definition bitfield_set :: "bitfield \<Rightarrow> nat \<Rightarrow> bitfield" where
  "bitfield_set bf b =
     (if b \<ge> max_bits bf then bf
      else bf\<lparr>bits := (bits bf)[b div 8 := bits bf ! (b div 8) OR push_bit (b mod 8) 1]\<rparr>)"

definition bitfield_clear :: "bitfield \<Rightarrow> nat \<Rightarrow> bitfield" where
  "bitfield_clear bf b =
     (if b \<ge> max_bits bf then bf
      else bf\<lparr>bits := (bits bf)[b div 8 := bits bf ! (b div 8) AND NOT (push_bit (b mod 8) 1)]\<rparr>)"

definition bitfield_is_set :: "bitfield \<Rightarrow> nat \<Rightarrow> bool" where
  "bitfield_is_set bf b =
     (if b \<ge> max_bits bf then False else bits bf ! (b div 8) AND push_bit (b mod 8) 1 \<noteq> 0)"

text \<open>The loop of \<open>first_zero\<close>, from index \<open>i\<close> with \<open>k\<close> rounds left; \<open>None\<close> stands for -1.\<close>

fun first_zero_loop :: "nat \<Rightarrow> nat \<Rightarrow> u8 \<Rightarrow> nat option" where
  "first_zero_loop i 0 val = None"
| "first_zero_loop i (Suc k) val =
     (if val AND 1 = 0 then Some i else first_zero_loop (Suc i) k (drop_bit 1 val))"

definition first_zero :: "u8 \<Rightarrow> nat option" where
  "first_zero val = first_zero_loop 0 8 val"

fun skip_full :: "nat \<Rightarrow> u8 list \<Rightarrow> nat" where
  "skip_full i [] = i"
| "skip_full i (v # vs) = (if v \<noteq> 0xff then i else skip_full (Suc i) vs)"

definition bitfield_get_first_zero :: "bitfield \<Rightarrow> nat option" where
  "bitfield_get_first_zero bf =
     (let n = (max_bits bf + 7) div 8; i = skip_full 0 (take n (bits bf))
      in if i = n then None
         else (case first_zero (bits bf ! i) of
                 None \<Rightarrow> None
               | Some z \<Rightarrow> if i * 8 + z \<ge> max_bits bf then None else Some (i * 8 + z)))"

section \<open>The interface\<close>

locale bit_set =
  fixes inv :: "'b \<Rightarrow> bool" and size_of :: "'b \<Rightarrow> nat"
    and ins :: "'b \<Rightarrow> nat \<Rightarrow> 'b" and del :: "'b \<Rightarrow> nat \<Rightarrow> 'b" and mem :: "'b \<Rightarrow> nat \<Rightarrow> bool"
  assumes inv_ins: "inv b \<Longrightarrow> inv (ins b i)"
    and inv_del: "inv b \<Longrightarrow> inv (del b i)"
    and size_ins: "size_of (ins b i) = size_of b"
    and size_del: "size_of (del b i) = size_of b"
    and mem_ins: "inv b \<Longrightarrow> mem (ins b i) j \<longleftrightarrow> (i = j \<and> i < size_of b) \<or> mem b j"
    and mem_del: "inv b \<Longrightarrow> mem (del b i) j \<longleftrightarrow> i \<noteq> j \<and> mem b j"
begin

definition members :: "'b \<Rightarrow> nat set" where
  "members b = {i. mem b i}"

lemma members_ins: "inv b \<Longrightarrow> i < size_of b \<Longrightarrow> members (ins b i) = insert i (members b)"
  by (auto simp: members_def mem_ins)

lemma members_ins_out: "inv b \<Longrightarrow> \<not> i < size_of b \<Longrightarrow> members (ins b i) = members b"
  by (auto simp: members_def mem_ins)

lemma members_del: "inv b \<Longrightarrow> members (del b i) = members b - {i}"
  by (auto simp: members_def mem_del)

lemma fold_ins:
  "inv b \<Longrightarrow> inv (foldl ins b is) \<and> size_of (foldl ins b is) = size_of b \<and>
   members (foldl ins b is) = members b \<union> (set is \<inter> {..<size_of b})"
proof (induction "is" arbitrary: b)
  case (Cons i "is")
  then show ?case using members_ins [of b i] members_ins_out [of b i]
    by (cases "i < size_of b") (simp_all add: inv_ins size_ins)
qed simp

end

section \<open>The byte array provides it\<close>

definition bf_ok :: "bitfield \<Rightarrow> bool" where
  "bf_ok bf \<longleftrightarrow> length (bits bf) = (max_bits bf + 7) div 8"

lemma bf_ok_alloc [simp, inv_intros]: "bf_ok (bitfield_alloc n)"
  by (simp add: bf_ok_def bitfield_alloc_def)

lemma bf_ok_set [inv_intros]: "bf_ok bf \<Longrightarrow> bf_ok (bitfield_set bf i)"
  by (simp add: bf_ok_def bitfield_set_def)

lemma bf_ok_clear [inv_intros]: "bf_ok bf \<Longrightarrow> bf_ok (bitfield_clear bf i)"
  by (simp add: bf_ok_def bitfield_clear_def)

lemma byte_in_range: "bf_ok bf \<Longrightarrow> i < max_bits bf \<Longrightarrow> i div 8 < length (bits bf)"
  by (simp add: bf_ok_def)

lemma and_bit_iff: "(w AND push_bit n 1 \<noteq> 0) = (n < 8 \<and> bit (w :: u8) n)"
proof -
  have "(w AND push_bit n 1 \<noteq> 0) = (\<exists>m. bit (w AND push_bit n 1) m)"
    by (metis bit_eqI bit_0_eq bot_apply bot_bool_def)
  also have "\<dots> = (n < 8 \<and> bit w n)"
    by (auto simp: bit_and_iff bit_exp_iff)
  finally show ?thesis .
qed

lemma is_set_bit:
  "bitfield_is_set bf i \<longleftrightarrow> i < max_bits bf \<and> bit (bits bf ! (i div 8)) (i mod 8)"
  unfolding bitfield_is_set_def and_bit_iff by simp

lemma bit_of_set: "bit ((w :: u8) OR 2 ^ n) m \<longleftrightarrow> bit w m \<or> (m = n \<and> n < 8)"
  by (auto simp: bit_or_iff bit_exp_iff)

lemma bit_of_clear: "bit ((w :: u8) AND NOT (2 ^ n)) m \<longleftrightarrow> bit w m \<and> m \<noteq> n"
  using bit_imp_le_length [of w m] by (auto simp: bit_and_iff bit_not_iff bit_exp_iff)

lemma same_bit: "(i div 8 = j div 8 \<and> i mod 8 = j mod 8) = (i = (j :: nat))"
  by (metis mult_div_mod_eq)

lemma is_set_set:
  assumes "bf_ok bf"
  shows "bitfield_is_set (bitfield_set bf i) j \<longleftrightarrow> (i = j \<and> i < max_bits bf) \<or> bitfield_is_set bf j"
  using byte_in_range [OF assms, of i] same_bit [of i j]
  by (auto simp: is_set_bit bitfield_set_def nth_list_update bit_of_set)

lemma is_set_clear:
  assumes "bf_ok bf"
  shows "bitfield_is_set (bitfield_clear bf i) j \<longleftrightarrow> i \<noteq> j \<and> bitfield_is_set bf j"
  using byte_in_range [OF assms, of i] same_bit [of i j]
  by (auto simp: is_set_bit bitfield_clear_def nth_list_update bit_of_clear)

lemma max_bits_kept [simp]:
  "max_bits (bitfield_set bf i) = max_bits bf" "max_bits (bitfield_clear bf i) = max_bits bf"
  by (simp_all add: bitfield_set_def bitfield_clear_def)

interpretation bf: bit_set bf_ok max_bits bitfield_set bitfield_clear bitfield_is_set
  by unfold_locales (simp_all add: is_set_set is_set_clear bf_ok_set bf_ok_clear max_bits_kept)

section \<open>The first zero\<close>

lemma first_zero_loop_spec:
  "first_zero_loop i k w = (if \<exists>m<k. \<not> bit w m then Some (i + (LEAST m. \<not> bit w m)) else None)"
proof (induction i k w rule: first_zero_loop.induct)
  case (2 i k val)
  show ?case
  proof (cases "bit val 0")
    case False
    then have "(LEAST m. \<not> bit val m) = 0" by (simp add: Least_equality)
    then show ?thesis using False by (auto simp: and_one_eq even_iff_mod_2_eq_zero bit_0)
  next
    case True
    have shift: "bit (drop_bit (Suc 0) val) = (\<lambda>m. bit val (Suc m))" by (simp add: bit_drop_bit_eq o_def fun_eq_iff)
    have "(\<exists>m<Suc k. \<not> bit val m) = (\<exists>m<k. \<not> bit val (Suc m))"
      using True by (metis Suc_less_eq less_Suc_eq_0_disj)
    moreover have "(LEAST m. \<not> bit val m) = Suc (LEAST m. \<not> bit val (Suc m))"
      if "\<not> bit val (Suc m)" for m
      using Least_Suc [of "\<lambda>m. \<not> bit val m" "Suc m"] that True by simp
    moreover have "val AND 1 \<noteq> 0" using True by (simp add: and_one_eq bit_0 odd_iff_mod_2_eq_one)
    ultimately show ?thesis using "2.IH" by (auto simp: shift)
  qed
qed simp

lemma first_zero_spec: "w \<noteq> 0xff \<Longrightarrow> \<exists>z<8. first_zero w = Some z \<and> \<not> bit w z \<and> (\<forall>m<z. bit w m)"
proof -
  assume "w \<noteq> 0xff"
  moreover have "(0xff :: u8) = - 1" by simp
  ultimately obtain m where m: "m < 8" "\<not> bit w m"
    using bit_word_eqI [of w "- 1"] by auto
  then have "first_zero w = Some (LEAST m. \<not> bit w m)" "(LEAST m. \<not> bit w m) < 8"
    using Least_le [of "\<lambda>m. \<not> bit w m" m] by (auto simp: first_zero_def first_zero_loop_spec)
  then show ?thesis using LeastI [of "\<lambda>m. \<not> bit w m" m] m not_less_Least by blast
qed

lemma skip_full_spec:
  "skip_full i vs = i + length (takeWhile (\<lambda>v. v = 0xff) vs)"
  by (induction vs arbitrary: i) auto

lemma skipped_full:
  assumes "k < length (takeWhile (\<lambda>v. v = 0xff) xs)" and "b < 8"
  shows "bit (xs ! k :: u8) b"
proof -
  have "xs ! k = 0xff"
    using assms(1) nth_mem [of k "takeWhile (\<lambda>v. v = 0xff) xs"] by (metis set_takeWhileD takeWhile_nth)
  moreover have "(0xff :: u8) = - 1" by simp
  ultimately show ?thesis using assms(2) by (simp only: bit_minus_1_iff) simp
qed

text \<open>\<open>bitfield_get_first_zero\<close> finds the smallest number below the size that is not in the
  set, and fails exactly when the set is full.\<close>

theorem first_zero_is_least_absent:
  assumes "bf_ok bf"
  shows "bitfield_get_first_zero bf =
    (if \<forall>i < max_bits bf. bitfield_is_set bf i then None
     else Some (LEAST i. i < max_bits bf \<and> \<not> bitfield_is_set bf i))"
proof -
  define n where "n = (max_bits bf + 7) div 8"
  define i where "i = skip_full 0 (bits bf)"
  have len: "length (bits bf) = n" using assms by (simp add: bf_ok_def n_def)
  have i: "i = length (takeWhile (\<lambda>v. v = 0xff) (bits bf))" by (simp add: i_def skip_full_spec)
  then have le: "i \<le> n" using length_takeWhile_le [of _ "bits bf"] len by simp
  have full_set: "bitfield_is_set bf j" if "j < 8 * i" "j < max_bits bf" for j
    using that by (simp add: is_set_bit skipped_full flip: i)
  show ?thesis
  proof (cases "i = n")
    case True
    then have "\<forall>j < max_bits bf. bitfield_is_set bf j" using full_set by (auto simp: n_def)
    moreover have "bitfield_get_first_zero bf = None"
      using True len by (simp add: bitfield_get_first_zero_def Let_def flip: n_def i_def)
    ultimately show ?thesis by simp
  next
    case False
    then have lt: "i < length (bits bf)" using le len by simp
    then have "bits bf ! i \<noteq> 0xff"
      using nth_length_takeWhile [of "\<lambda>v. v = 0xff" "bits bf"] i by simp
    from first_zero_spec [OF this] obtain z where z: "z < 8" "first_zero (bits bf ! i) = Some z"
      "\<not> bit (bits bf ! i) z" "\<forall>m<z. bit (bits bf ! i) m" by blast
    have below: "bitfield_is_set bf j" if "j < i * 8 + z" "j < max_bits bf" for j
    proof (cases "j < 8 * i")
      case False
      then have "j div 8 = i" using that(1) z(1) by (intro div_nat_eqI) simp_all
      moreover from this have "j mod 8 = j - 8 * i" by (metis minus_mult_div_eq_mod)
      ultimately have "j div 8 = i" "j mod 8 < z" using that(1) False by simp_all
      with z(4) that(2) show ?thesis by (simp add: is_set_bit)
    qed (use full_set that in simp)
    have res: "bitfield_get_first_zero bf = (if i * 8 + z \<ge> max_bits bf then None else Some (i * 8 + z))"
      using False len z(2) by (simp add: bitfield_get_first_zero_def Let_def flip: n_def i_def)
    show ?thesis
    proof (cases "i * 8 + z \<ge> max_bits bf")
      case True
      then show ?thesis using below by (simp add: res)
    next
      case False
      then have free: "i * 8 + z < max_bits bf \<and> \<not> bitfield_is_set bf (i * 8 + z)"
        using z(1,3) by (simp add: is_set_bit)
      then have "(LEAST j. j < max_bits bf \<and> \<not> bitfield_is_set bf j) = i * 8 + z"
        using below by (intro Least_equality) (auto simp: not_less [symmetric])
      with free show ?thesis by (auto simp: res)
    qed
  qed
qed

theorem first_zero_is_least_absent_witness:
  "bitfield_get_first_zero (bitfield_set (bitfield_alloc 3) 0) =
    Some (LEAST i. i < 3 \<and> \<not> bitfield_is_set (bitfield_set (bitfield_alloc 3) 0) i)"
proof -
  let ?b = "bitfield_set (bitfield_alloc 3) 0"
  have "bf_ok ?b" by (intro bf_ok_set bf_ok_alloc)
  moreover have "max_bits ?b = 3" by (simp add: bitfield_set_def bitfield_alloc_def)
  moreover have "\<not> bitfield_is_set ?b 1" by code_simp
  then have "\<not> (\<forall>i<3. bitfield_is_set ?b i)" by (auto intro: exI [of _ 1])
  ultimately show ?thesis using first_zero_is_least_absent [of ?b] by simp
qed

lemma alloc_empty [simp]: "bitfield_is_set (bitfield_alloc n) i = False"
  by (auto simp: is_set_bit bitfield_alloc_def)

text \<open>A bitfield is a set of numbers below its size: allocation gives the empty set, setting and
  clearing any sequence of bits inserts and removes exactly those in range.\<close>

theorem bitfield_refines_set:
  assumes "bf_ok bf"
  shows "{i. bitfield_is_set (bitfield_alloc n) i} = {} \<and>
    bf_ok (foldl bitfield_set bf is) \<and> {i. bitfield_is_set (foldl bitfield_set bf is) i} =
      {i. bitfield_is_set bf i} \<union> (set is \<inter> {..<max_bits bf}) \<and>
    bf_ok (bitfield_clear bf j) \<and> {i. bitfield_is_set (bitfield_clear bf j) i} =
      {i. bitfield_is_set bf i} - {j}"
  using bf.fold_ins [OF assms, of "is"] bf.members_del [OF assms, of j] bf_ok_clear [OF assms, of j]
  by (simp add: bf.members_def alloc_empty)

theorem bitfield_refines_set_witness:
  "{i. bitfield_is_set (foldl bitfield_set (bitfield_alloc 10) [3, 9, 12]) i} = {3, 9}"
proof -
  have "max_bits (bitfield_alloc 10) = 10" by (simp add: bitfield_alloc_def)
  with bitfield_refines_set [of "bitfield_alloc 10" 10 "[3, 9, 12]"]
  show ?thesis by auto
qed

end
