(* ===== verification/Base64.thy ===== *)
theory Base64
  imports Prelude
begin

text \<open>
  \<open>wpa_supplicant/src/utils/base64.c\<close>. Data are lists of bytes; \<open>alloc n\<close> says whether
  \<open>os_malloc(n)\<close> succeeds, and \<open>None\<close> is the NULL the functions return. \<open>size_t\<close> is 32 bits
  wide on the printer; the first test of the encoder keeps every computed length below it. What
  the two alphabets have in common is the locale \<open>alphabet\<close>, in which decoding is proved to
  undo encoding.
\<close>

section \<open>Encoder\<close>

definition size_max :: nat where "size_max = 2 ^ 32 - 1"

definition ascii :: "string \<Rightarrow> u8 list" where
  "ascii s = map (\<lambda>c. of_nat (code c)) s"

definition base64_table :: "u8 list" where
  "base64_table = ascii ''ABCDEFGHIJKLMNOPQRSTUVWXYZabcdefghijklmnopqrstuvwxyz0123456789+/''"

definition base64_url_table :: "u8 list" where
  "base64_url_table = ascii ''ABCDEFGHIJKLMNOPQRSTUVWXYZabcdefghijklmnopqrstuvwxyz0123456789-_''"

definition sextets :: "u8 \<Rightarrow> u8 \<Rightarrow> u8 \<Rightarrow> u8 list" where
  "sextets a b c =
     [drop_bit 2 a AND 0x3f,
      (push_bit 4 (a AND 0x03) OR drop_bit 4 b) AND 0x3f,
      (push_bit 2 (b AND 0x0f) OR drop_bit 6 c) AND 0x3f,
      c AND 0x3f]"

definition pick :: "u8 list \<Rightarrow> u8 \<Rightarrow> u8" where
  "pick table s = table ! unat s"

fun encode_loop :: "u8 list \<Rightarrow> bool \<Rightarrow> nat \<Rightarrow> u8 list \<Rightarrow> u8 list" where
  "encode_loop t add_pad line_len (a # b # c # rest) =
     map (pick t) (sextets a b c) @
     (if add_pad \<and> line_len + 4 \<ge> 72 then 10 # encode_loop t add_pad 0 rest
      else encode_loop t add_pad (line_len + 4) rest)"
| "encode_loop t add_pad line_len [a] =
     pick t (drop_bit 2 a AND 0x3f) # pick t (push_bit 4 (a AND 0x03) AND 0x3f) #
     (if add_pad then [61, 61, 10] else [])"
| "encode_loop t add_pad line_len [a, b] =
     pick t (drop_bit 2 a AND 0x3f) # pick t ((push_bit 4 (a AND 0x03) OR drop_bit 4 b) AND 0x3f) #
     pick t (push_bit 2 (b AND 0x0f) AND 0x3f) # (if add_pad then [61, 10] else [])"
| "encode_loop t add_pad line_len [] = (if add_pad \<and> line_len \<noteq> 0 then [10] else [])"

definition encode_olen :: "bool \<Rightarrow> nat \<Rightarrow> nat" where
  "encode_olen add_pad len =
     (let olen = len * 4 div 3 + 4 in (if add_pad then olen + olen div 72 else olen) + 1)"

definition base64_gen_encode :: "(nat \<Rightarrow> bool) \<Rightarrow> u8 list \<Rightarrow> bool \<Rightarrow> u8 list \<Rightarrow> u8 list option" where
  "base64_gen_encode alloc table add_pad src =
     (let olen = encode_olen add_pad (length src)
      in if length src \<ge> size_max div 4 then None
         else if olen < length src \<or> \<not> alloc olen then None
         else Some (encode_loop table add_pad 0 src))"

definition base64_encode :: "(nat \<Rightarrow> bool) \<Rightarrow> u8 list \<Rightarrow> u8 list option" where
  "base64_encode alloc src = base64_gen_encode alloc base64_table True src"

definition base64_url_encode :: "(nat \<Rightarrow> bool) \<Rightarrow> bool \<Rightarrow> u8 list \<Rightarrow> u8 list option" where
  "base64_url_encode alloc add_pad src = base64_gen_encode alloc base64_url_table add_pad src"

section \<open>Decoder\<close>

definition dtable :: "u8 list \<Rightarrow> u8 \<Rightarrow> u8" where
  "dtable table = (foldl (\<lambda>d i. d(table ! i := of_nat i)) (\<lambda>_. 0x80) [0..<64])(61 := 0)"

fun decode_loop :: "(u8 \<Rightarrow> u8) \<Rightarrow> u8 list \<Rightarrow> nat \<Rightarrow> u8 list \<Rightarrow> u8 list \<Rightarrow> u8 list option" where
  "decode_loop d block pad out [] = Some out"
| "decode_loop d block pad out (v # vs) =
     (let tmp = d v; pad' = (if v = 61 then pad + 1 else pad); block' = block @ [tmp]
      in if tmp = 0x80 then decode_loop d block pad out vs
         else if length block' \<noteq> 4 then decode_loop d block' pad' out vs
         else let out' = out @ [push_bit 2 (block' ! 0) OR drop_bit 4 (block' ! 1),
                                push_bit 4 (block' ! 1) OR drop_bit 2 (block' ! 2),
                                push_bit 6 (block' ! 2) OR block' ! 3]
              in if pad' = 0 then decode_loop d [] pad' out' vs
                 else if pad' = 1 then Some (take (length out' - 1) out')
                 else if pad' = 2 then Some (take (length out' - 2) out')
                 else None)"

definition decode_count :: "(u8 \<Rightarrow> u8) \<Rightarrow> u8 list \<Rightarrow> nat" where
  "decode_count d src = length (filter (\<lambda>v. d v \<noteq> 0x80) src)"

definition extra_pad :: "nat \<Rightarrow> nat" where
  "extra_pad count = (4 - count mod 4) mod 4"

definition decode_olen :: "nat \<Rightarrow> nat" where
  "decode_olen count = (count + extra_pad count) div 4 * 3"

definition base64_gen_decode :: "(nat \<Rightarrow> bool) \<Rightarrow> u8 list \<Rightarrow> u8 list \<Rightarrow> u8 list option" where
  "base64_gen_decode alloc table src =
     (let d = dtable table; count = decode_count d src
      in if count = 0 \<or> \<not> alloc (decode_olen count) then None
         else decode_loop d [] 0 [] (src @ replicate (extra_pad count) 61))"

definition base64_decode :: "(nat \<Rightarrow> bool) \<Rightarrow> u8 list \<Rightarrow> u8 list option" where
  "base64_decode alloc src = base64_gen_decode alloc base64_table src"

definition base64_url_decode :: "(nat \<Rightarrow> bool) \<Rightarrow> u8 list \<Rightarrow> u8 list option" where
  "base64_url_decode alloc src = base64_gen_decode alloc base64_url_table src"

section \<open>Sextets\<close>

lemma low_bits:
  "(w :: u8) AND 0x3f = take_bit 6 w" "w AND 0x03 = take_bit 2 w" "w AND 0x0f = take_bit 4 w"
  by (simp_all add: take_bit_eq_mask mask_eq_exp_minus_1)

lemma bit_u8_high: "8 \<le> n \<Longrightarrow> bit (w :: u8) n = False"
  using bit_imp_le_length [of w n] by auto

lemma word8_eqI:
  assumes "bit (v :: u8) 0 = bit w 0" "bit v 1 = bit w 1" "bit v 2 = bit w 2" "bit v 3 = bit w 3"
    "bit v 4 = bit w 4" "bit v 5 = bit w 5" "bit v 6 = bit w 6" "bit v 7 = bit w 7"
  shows "v = w"
proof (rule bit_word_eqI)
  fix n assume "n < LENGTH(8)"
  then have "n \<in> {0, 1, 2, 3, 4, 5, 6, 7}" by auto
  with assms show "bit v n = bit w n" by blast
qed

lemmas byte_bits = bit_or_iff bit_take_bit_iff bit_push_bit_iff bit_drop_bit_eq bit_u8_high

lemma join_sextets:
  assumes "sextets a b c = [s0, s1, s2, s3]"
  shows "push_bit 2 s0 OR drop_bit 4 s1 = a" and "push_bit 4 s1 OR drop_bit 2 s2 = b"
    and "push_bit 6 s2 OR s3 = c"
proof -
  from assms have s: "s0 = take_bit 6 (drop_bit 2 a)" "s1 = take_bit 6 (push_bit 4 (take_bit 2 a) OR drop_bit 4 b)"
    "s2 = take_bit 6 (push_bit 2 (take_bit 4 b) OR drop_bit 6 c)" "s3 = take_bit 6 c"
    by (simp_all add: sextets_def low_bits)
  show "push_bit 2 s0 OR drop_bit 4 s1 = a" "push_bit 4 s1 OR drop_bit 2 s2 = b" "push_bit 6 s2 OR s3 = c"
    unfolding s by (rule word8_eqI; simp add: byte_bits)+
qed

lemma take_bit_6_bound: "unat (take_bit 6 (w :: u8)) < 64"
  using take_bit_nat_less_exp [of 6 "unat w"] by (simp add: unsigned_take_bit_eq)

lemma sextet_bound: "s \<in> set (sextets a b c) \<Longrightarrow> unat s < 64"
  by (simp add: sextets_def low_bits del: take_bit_or) (elim disjE; simp only: take_bit_6_bound)

lemma tail_sextets:
  "sextets a b 0 = [drop_bit 2 a AND 0x3f, (push_bit 4 (a AND 0x03) OR drop_bit 4 b) AND 0x3f,
     push_bit 2 (b AND 0x0f) AND 0x3f, 0]"
  "sextets a 0 0 = [drop_bit 2 a AND 0x3f, push_bit 4 (a AND 0x03) AND 0x3f, 0, 0]"
  by (simp_all add: sextets_def)

section \<open>Alphabets\<close>

lemma three_induct [case_names group one two nil]:
  "(\<And>a b c rest. P rest \<Longrightarrow> P (a # b # c # rest)) \<Longrightarrow> (\<And>a. P [a]) \<Longrightarrow> (\<And>a b. P [a, b]) \<Longrightarrow> P [] \<Longrightarrow> P xs"
  by induction_schema (pat_completeness, lexicographic_order)

locale alphabet =
  fixes table :: "u8 list"
  assumes length_table: "length table = 64"
    and distinct_table: "distinct table"
    and no_mark: "61 \<notin> set table" "10 \<notin> set table"
begin

lemma foldl_dtable:
  "n \<le> 64 \<Longrightarrow> foldl (\<lambda>d i. d(table ! i := of_nat i)) (\<lambda>_. 0x80 :: u8) [0..<n] v =
    (if \<exists>i<n. v = table ! i then of_nat (THE i. i < n \<and> v = table ! i) else 0x80)"
proof (induction n)
  case (Suc n)
  have u: "(THE i. i < m \<and> v = table ! i) = i" if "i < m" "v = table ! i" "m \<le> 64" for i m
    using that nth_eq_iff_index_eq [OF distinct_table] length_table by (intro the_equality) auto
  show ?case
  proof (cases "v = table ! n")
    case True
    with u [of n "Suc n"] Suc.prems show ?thesis by auto
  next
    case False
    have "(\<exists>i<Suc n. v = table ! i) = (\<exists>i<n. v = table ! i)" using False by (auto simp: less_Suc_eq)
    moreover have "(THE i. i < Suc n \<and> v = table ! i) = (THE i. i < n \<and> v = table ! i)"
      using False by (simp add: less_Suc_eq) metis
    ultimately show ?thesis using Suc False by auto
  qed
qed simp

lemma dtable_pick:
  assumes "unat s < 64"
  shows "dtable table (pick table s) = s"
proof -
  have "pick table s \<noteq> 61" using assms no_mark length_table by (metis nth_mem pick_def)
  moreover have "(THE i. i < 64 \<and> pick table s = table ! i) = unat s"
    using assms nth_eq_iff_index_eq [OF distinct_table] length_table
    by (intro the_equality) (auto simp: pick_def)
  ultimately show ?thesis
    using assms foldl_dtable [of 64 "pick table s"] by (auto simp: dtable_def pick_def)
qed

lemma dtable_mark [simp]: "dtable table 61 = 0" "dtable table 10 = 0x80"
proof -
  have "\<not> (\<exists>i<64. 10 = table ! i)" using no_mark length_table nth_mem by metis
  then show "dtable table 61 = 0" "dtable table 10 = 0x80"
    using foldl_dtable [of 64 10] by (auto simp: dtable_def)
qed

lemma pick_not_61: "unat s < 64 \<Longrightarrow> pick table s \<noteq> 61"
  using no_mark length_table by (metis nth_mem pick_def)

lemma sextet_not_80: "unat s < 64 \<Longrightarrow> s \<noteq> (0x80 :: u8)"
  by auto

lemma decode_group:
  assumes "unat s0 < 64" "unat s1 < 64" "unat s2 < 64" "unat s3 < 64"
  shows "decode_loop (dtable table) [] 0 out (map (pick table) [s0, s1, s2, s3] @ rest) =
    decode_loop (dtable table) [] 0
      (out @ [push_bit 2 s0 OR drop_bit 4 s1, push_bit 4 s1 OR drop_bit 2 s2, push_bit 6 s2 OR s3]) rest"
  using assms by (simp add: dtable_pick pick_not_61 sextet_not_80 Let_def)

lemma decode_tail1:
  assumes "sextets a 0 0 = [s0, s1, s2, s3]"
  shows "decode_loop (dtable table) [] 0 out (pick table s0 # pick table s1 # 61 # 61 # rest) = Some (out @ [a])"
proof -
  have b: "unat s0 < 64" "unat s1 < 64" using sextet_bound [of _ a 0 0] assms by auto
  with join_sextets [OF assms] show ?thesis
    by (simp add: dtable_pick pick_not_61 sextet_not_80 Let_def)
qed

lemma decode_tail2:
  assumes "sextets a b 0 = [s0, s1, s2, s3]"
  shows "decode_loop (dtable table) [] 0 out (pick table s0 # pick table s1 # pick table s2 # 61 # rest) =
    Some (out @ [a, b])"
proof -
  have b: "unat s0 < 64" "unat s1 < 64" "unat s2 < 64" using sextet_bound [of _ a b 0] assms by auto
  with join_sextets [OF assms] show ?thesis
    by (simp add: dtable_pick pick_not_61 sextet_not_80 Let_def)
qed

lemma decode_newline: "decode_loop (dtable table) block pad out (10 # rest) = decode_loop (dtable table) block pad out rest"
  by (simp add: Let_def)

lemma decode_count_simps:
  "decode_count (dtable table) (10 # rest) = decode_count (dtable table) rest"
  "decode_count (dtable table) (61 # rest) = Suc (decode_count (dtable table) rest)"
  "decode_count (dtable table) [] = 0"
  "unat s < 64 \<Longrightarrow> decode_count (dtable table) (pick table s # rest) = Suc (decode_count (dtable table) rest)"
  by (simp_all add: decode_count_def dtable_pick sextet_not_80)

lemma sextets4: obtains s0 s1 s2 s3 where "sextets a b c = [s0, s1, s2, s3]"
    "unat s0 < 64" "unat s1 < 64" "unat s2 < 64" "unat s3 < 64"
proof -
  obtain s0 s1 s2 s3 where s: "sextets a b c = [s0, s1, s2, s3]" by (simp add: sextets_def)
  then show ?thesis using that sextet_bound [of _ a b c] by simp
qed

text \<open>Decoding the encoded text followed by the padding that the decoder adds.\<close>

lemma decode_encode_loop:
  "decode_loop (dtable table) [] 0 out
     (encode_loop table add_pad ll src @
      replicate (extra_pad (decode_count (dtable table) (encode_loop table add_pad ll src))) 61) =
   Some (out @ src)"
proof (induction src arbitrary: ll out rule: three_induct)
  case (group a b c rest)
  obtain s0 s1 s2 s3 where s: "sextets a b c = [s0, s1, s2, s3]"
    and bd: "unat s0 < 64" "unat s1 < 64" "unat s2 < 64" "unat s3 < 64" by (rule sextets4)
  have cnt: "extra_pad (Suc (Suc (Suc (Suc n)))) = extra_pad n" for n by (simp add: extra_pad_def)
  have g: "decode_loop (dtable table) [] 0 out (pick table s0 # pick table s1 # pick table s2 # pick table s3 # r) =
      decode_loop (dtable table) [] 0 (out @ [a, b, c]) r" for r
    using decode_group [OF bd, of out r] by (simp add: join_sextets [OF s] del: decode_loop.simps)
  show ?case
    using group [of "out @ [a, b, c]" 0] group [of "out @ [a, b, c]" "ll + 4"]
    by (cases "add_pad \<and> ll + 4 \<ge> 72")
      (auto simp: s g bd decode_count_simps cnt decode_newline simp del: decode_loop.simps)
next
  case (one a)
  obtain s0 s1 s2 s3 where s: "sextets a 0 0 = [s0, s1, s2, s3]" and bd: "unat s0 < 64" "unat s1 < 64"
    by (rule sextets4)
  then show ?case using tail_sextets(2) [of a] decode_tail1 [OF s]
    by (simp add: decode_count_simps extra_pad_def numeral_2_eq_2 del: decode_loop.simps)
next
  case (two a b)
  obtain s0 s1 s2 s3 where s: "sextets a b 0 = [s0, s1, s2, s3]"
    and bd: "unat s0 < 64" "unat s1 < 64" "unat s2 < 64" by (rule sextets4)
  then show ?case using tail_sextets(1) [of a b] decode_tail2 [OF s]
    by (simp add: decode_count_simps extra_pad_def numeral_2_eq_2 del: decode_loop.simps)
next
  case nil
  then show ?case by (simp add: decode_count_simps extra_pad_def decode_newline)
qed

lemma encode_count:
  "src \<noteq> [] \<Longrightarrow> decode_count (dtable table) (encode_loop table add_pad ll src) \<noteq> 0"
proof (induction src rule: three_induct)
  case (group a b c rest)
  obtain s0 s1 s2 s3 where "sextets a b c = [s0, s1, s2, s3]" "unat s0 < 64" by (rule sextets4)
  then show ?case by (simp add: decode_count_simps)
next
  case (one a)
  obtain s0 s1 s2 s3 where "sextets a 0 0 = [s0, s1, s2, s3]" "unat s0 < 64" by (rule sextets4)
  then show ?case using tail_sextets(2) [of a] by (simp add: decode_count_simps)
next
  case (two a b)
  obtain s0 s1 s2 s3 where "sextets a b 0 = [s0, s1, s2, s3]" "unat s0 < 64" by (rule sextets4)
  then show ?case using tail_sextets(1) [of a b] by (simp add: decode_count_simps)
qed simp

lemma decode_encode:
  assumes "src \<noteq> []" and "length src < size_max div 4" and "\<forall>n. alloc n"
  shows "\<exists>enc. base64_gen_encode alloc table add_pad src = Some enc \<and>
    base64_gen_decode alloc table enc = Some src"
proof -
  have "length src \<le> encode_olen add_pad (length src)"
    by (auto simp: encode_olen_def Let_def)
  with assms decode_encode_loop [of "[]" add_pad 0 src] encode_count [OF assms(1), of add_pad 0]
  show ?thesis by (simp add: base64_gen_encode_def base64_gen_decode_def Let_def)
qed

end

interpretation std: alphabet base64_table
  by unfold_locales (simp_all add: base64_table_def ascii_def code_def)

interpretation url: alphabet base64_url_table
  by unfold_locales (simp_all add: base64_url_table_def ascii_def code_def)

section \<open>Sizes\<close>

lemma length_sextets [simp]: "length (sextets a b c) = 4"
  by (simp add: sextets_def)

lemma encode_length_plain: "length (encode_loop t False ll src) = (4 * length src + 2) div 3"
  by (induction src arbitrary: ll rule: three_induct) simp_all

lemma encode_length_padded:
  "4 dvd ll \<Longrightarrow> ll < 72 \<Longrightarrow> length (encode_loop t True ll src) =
     4 * ((length src + 2) div 3) + (ll + 4 * ((length src + 2) div 3) + 71) div 72"
proof (induction src arbitrary: ll rule: three_induct)
  case (group a b c rest)
  define k where "k = (length rest + 2) div 3"
  have k: "(length (a # b # c # rest) + 2) div 3 = Suc k" by (simp add: k_def)
  show ?case
  proof (cases "ll = 68")
    case True
    with group.IH [of 0] show ?thesis unfolding k by (simp add: k_def)
  next
    case False
    then have lt: "ll + 4 < 72" using group.prems by (auto simp: dvd_def)
    with group.IH [of "ll + 4"] group.prems show ?thesis
      unfolding k by (simp add: k_def algebra_simps)
  qed
next
  case (one a)
  then have "(ll + 4 + 71) div 72 = 1" by (intro div_nat_eqI) auto
  then show ?case by (simp add: add.assoc)
next
  case (two a b)
  then have "(ll + 4 + 71) div 72 = 1" by (intro div_nat_eqI) auto
  then show ?case by (simp add: add.assoc)
next
  case nil
  then have "(ll + 71) div 72 = (if ll \<noteq> 0 then 1 else 0)" by (auto intro!: div_nat_eqI)
  then show ?case by simp
qed

lemma encode_fits: "length (encode_loop t add_pad 0 src) < encode_olen add_pad (length src)"
proof (cases add_pad)
  case True
  define n where "n = length src"
  define k where "k = (n + 2) div 3"
  have k: "4 * k + 1 \<le> n * 4 div 3 + 4" unfolding k_def by presburger
  have "(4 * k + 71) div 72 \<le> (n * 4 div 3 + 4 + 71) div 72" using k by (intro div_le_mono) simp
  also have "\<dots> \<le> (n * 4 div 3 + 4 + 72) div 72" by (intro div_le_mono) simp
  also have "\<dots> = 1 + (n * 4 div 3 + 4) div 72" by simp
  finally show ?thesis
    using True k by (simp add: encode_length_padded encode_olen_def Let_def k_def flip: n_def)
next
  case False
  then show ?thesis by (simp add: encode_length_plain encode_olen_def Let_def)
qed

text \<open>The decoder writes three bytes for four counted characters.\<close>

lemma decode_loop_length:
  "decode_loop d block pad out cs = Some res \<Longrightarrow> length block < 4 \<Longrightarrow>
   length res \<le> length out + 3 * ((length block + length (filter (\<lambda>v. d v \<noteq> 0x80) cs)) div 4)"
proof (induction d block pad out cs rule: decode_loop.induct)
  case (2 d block pad out v vs)
  show ?case
  proof (cases "d v = 0x80")
    case True
    with 2 show ?thesis by (simp add: Let_def)
  next
    case False
    show ?thesis
    proof (cases "length block = 3")
      case True
      let ?p = "if v = 61 then pad + 1 else pad"
      define new where "new = [push_bit 2 ((block @ [d v]) ! 0) OR drop_bit 4 ((block @ [d v]) ! 1),
        push_bit 4 ((block @ [d v]) ! 1) OR drop_bit 2 ((block @ [d v]) ! 2),
        push_bit 6 ((block @ [d v]) ! 2) OR (block @ [d v]) ! 3]"
      have new: "length new = 3" by (simp add: new_def)
      have res: "(if ?p = 0 then decode_loop d [] ?p (out @ new) vs
          else if ?p = 1 then Some (take (length (out @ new) - 1) (out @ new))
          else if ?p = 2 then Some (take (length (out @ new) - 2) (out @ new)) else None) = Some res"
        using 2(4) True unfolding decode_loop.simps Let_def new_def if_not_P [OF False] by simp
      have bound: "length res \<le> length (out @ new) + 3 * (length (filter (\<lambda>v. d v \<noteq> 0x80) vs) div 4)"
      proof (cases "?p = 0")
        case p0: True
        then have "decode_loop d [] ?p (out @ new) vs = Some res" using res by simp
        then show ?thesis
          using 2(3) [OF refl refl refl False _ _ p0, of "out @ new"] True by (simp add: new_def)
      next
        case False
        with res show ?thesis by (auto simp: new split: if_splits)
      qed
      have "(length block + length (filter (\<lambda>v. d v \<noteq> 0x80) (v # vs))) div 4 =
          Suc (length (filter (\<lambda>v. d v \<noteq> 0x80) vs) div 4)" using False True by simp
      with bound new show ?thesis by simp
    next
      case nf: False
      with 2 False show ?thesis by (simp add: Let_def split: if_splits)
    qed
  qed
qed simp

lemma decode_loop_filter:
  "decode_loop d block pad out cs = decode_loop d block pad out (filter (\<lambda>v. d v \<noteq> 0x80) cs)"
  by (induction d block pad out cs rule: decode_loop.induct) (simp_all add: Let_def)

lemma gen_decode_bound:
  assumes "base64_gen_decode alloc t enc = Some res"
  shows "length res \<le> decode_olen (decode_count (dtable t) enc)"
proof -
  define c where "c = decode_count (dtable t) enc"
  have "length (filter (\<lambda>v. dtable t v \<noteq> 0x80) (enc @ replicate (extra_pad c) 61)) = c + extra_pad c"
    by (simp add: c_def decode_count_def dtable_def)
  moreover have "decode_loop (dtable t) [] 0 [] (enc @ replicate (extra_pad c) 61) = Some res"
    using assms by (simp add: base64_gen_decode_def Let_def c_def split: if_splits)
  ultimately show ?thesis
    using decode_loop_length [of "dtable t" "[]" 0 "[]" "enc @ replicate (extra_pad c) 61" res]
    by (simp add: decode_olen_def mult.commute flip: c_def)
qed

section \<open>Properties\<close>

text \<open>Decoding undoes encoding, for the standard and for the URL alphabet, with line feeds and
  padding or without.\<close>

theorem base64_roundtrip:
  assumes "src \<noteq> []" and "length src < size_max div 4" and "\<forall>n. alloc n"
  shows "(\<exists>enc. base64_encode alloc src = Some enc \<and> base64_decode alloc enc = Some src) \<and>
    (\<exists>enc. base64_url_encode alloc add_pad src = Some enc \<and> base64_url_decode alloc enc = Some src)"
  using std.decode_encode [OF assms, of True] url.decode_encode [OF assms, of add_pad]
  by (simp add: base64_encode_def base64_decode_def base64_url_encode_def base64_url_decode_def)

theorem base64_roundtrip_witness:
  "\<exists>enc. base64_encode (\<lambda>_. True) [0x4d, 0x61] = Some enc \<and> base64_decode (\<lambda>_. True) enc = Some [0x4d, 0x61]"
  using base64_roundtrip [of "[0x4d, 0x61]" "\<lambda>_. True" True] by (simp add: size_max_def)

text \<open>Neither direction writes behind its buffer: the encoded text and its terminating NUL fit the
  size the encoder allocates, line feeds included, and the decoded bytes fit the size computed
  from the characters counted beforehand.\<close>

theorem base64_fits_buffer:
  "(base64_gen_encode alloc table add_pad src = Some enc \<longrightarrow>
      alloc (encode_olen add_pad (length src)) \<and> length enc + 1 \<le> encode_olen add_pad (length src)) \<and>
   (base64_gen_decode alloc table enc = Some res \<longrightarrow>
      alloc (decode_olen (decode_count (dtable table) enc)) \<and>
      length res \<le> decode_olen (decode_count (dtable table) enc))"
  using gen_decode_bound [of alloc table enc res] encode_fits [of table add_pad src]
  by (auto simp: base64_gen_encode_def base64_gen_decode_def Let_def split: if_splits)

theorem base64_fits_buffer_witness:
  "\<exists>enc. base64_gen_encode (\<lambda>_. True) base64_table True [0x4d] = Some enc \<and> length enc + 1 \<le> 6"
proof -
  have "encode_olen True 1 = 6" by (simp add: encode_olen_def)
  moreover obtain enc where "base64_gen_encode (\<lambda>_. True) base64_table True [0x4d] = Some enc"
    by (simp add: base64_gen_encode_def encode_olen_def Let_def size_max_def)
  ultimately show ?thesis
    using base64_fits_buffer [of "\<lambda>_. True" base64_table True "[0x4d]" enc] by simp
qed

text \<open>The decoder skips every character outside the alphabet, line feeds and blanks among them:
  removing them first changes nothing.\<close>

theorem base64_decode_skips_foreign:
  "base64_gen_decode alloc table (filter (\<lambda>v. dtable table v \<noteq> 0x80) enc) = base64_gen_decode alloc table enc"
proof -
  define d where "d = dtable table"
  have "d 61 \<noteq> 0x80" by (simp add: d_def dtable_def)
  then have "filter (\<lambda>v. d v \<noteq> 0x80) (replicate n 61) = replicate n 61" for n by simp
  then show ?thesis
    using decode_loop_filter [of d "[]" 0 "[]" "enc @ replicate (extra_pad (decode_count d enc)) 61"]
    unfolding base64_gen_decode_def Let_def decode_count_def filter_filter conj_absorb d_def [symmetric]
    by (simp only: filter_append)
qed

end
