(* ===== verification/Byte_Order.thy ===== *)
theory Byte_Order
  imports Prelude
begin

text \<open>
  The unaligned accessors of \<open>wpa_supplicant/src/utils/common.h\<close>: integers of 16 to 64 bits as
  big or little endian bytes. A \<open>WPA_PUT\<close> gives the bytes it stores from its address on, a
  \<open>WPA_GET\<close> reads them from a list. Each pair is an instance of the locale \<open>wire_format\<close>.
\<close>

section \<open>Accessors\<close>

definition WPA_GET_BE16 :: "u8 list \<Rightarrow> u16" where
  "WPA_GET_BE16 a = push_bit 8 (ucast (a ! 0)) OR ucast (a ! 1)"

definition WPA_PUT_BE16 :: "u16 \<Rightarrow> u8 list" where
  "WPA_PUT_BE16 v = [ucast (drop_bit 8 v), ucast v]"

definition WPA_GET_LE16 :: "u8 list \<Rightarrow> u16" where
  "WPA_GET_LE16 a = push_bit 8 (ucast (a ! 1)) OR ucast (a ! 0)"

definition WPA_PUT_LE16 :: "u16 \<Rightarrow> u8 list" where
  "WPA_PUT_LE16 v = [ucast v, ucast (drop_bit 8 v)]"

definition WPA_GET_BE24 :: "u8 list \<Rightarrow> u32" where
  "WPA_GET_BE24 a = push_bit 16 (ucast (a ! 0)) OR push_bit 8 (ucast (a ! 1)) OR ucast (a ! 2)"

definition WPA_PUT_BE24 :: "u32 \<Rightarrow> u8 list" where
  "WPA_PUT_BE24 v = [ucast (drop_bit 16 v), ucast (drop_bit 8 v), ucast v]"

definition WPA_GET_BE32 :: "u8 list \<Rightarrow> u32" where
  "WPA_GET_BE32 a = push_bit 24 (ucast (a ! 0)) OR push_bit 16 (ucast (a ! 1)) OR push_bit 8 (ucast (a ! 2))
     OR ucast (a ! 3)"

definition WPA_PUT_BE32 :: "u32 \<Rightarrow> u8 list" where
  "WPA_PUT_BE32 v = [ucast (drop_bit 24 v), ucast (drop_bit 16 v), ucast (drop_bit 8 v), ucast v]"

definition WPA_GET_LE32 :: "u8 list \<Rightarrow> u32" where
  "WPA_GET_LE32 a = push_bit 24 (ucast (a ! 3)) OR push_bit 16 (ucast (a ! 2)) OR push_bit 8 (ucast (a ! 1))
     OR ucast (a ! 0)"

definition WPA_PUT_LE32 :: "u32 \<Rightarrow> u8 list" where
  "WPA_PUT_LE32 v = [ucast v, ucast (drop_bit 8 v), ucast (drop_bit 16 v), ucast (drop_bit 24 v)]"

definition WPA_GET_BE64 :: "u8 list \<Rightarrow> u64" where
  "WPA_GET_BE64 a = push_bit 56 (ucast (a ! 0)) OR push_bit 48 (ucast (a ! 1)) OR push_bit 40 (ucast (a !
     2)) OR push_bit 32 (ucast (a ! 3)) OR push_bit 24 (ucast (a ! 4)) OR push_bit 16 (ucast
     (a ! 5)) OR push_bit 8 (ucast (a ! 6)) OR ucast (a ! 7)"

definition WPA_PUT_BE64 :: "u64 \<Rightarrow> u8 list" where
  "WPA_PUT_BE64 v = [ucast (drop_bit 56 v), ucast (drop_bit 48 v), ucast (drop_bit 40 v), ucast (drop_bit 32
     v), ucast (drop_bit 24 v), ucast (drop_bit 16 v), ucast (drop_bit 8 v), ucast v]"

definition WPA_GET_LE64 :: "u8 list \<Rightarrow> u64" where
  "WPA_GET_LE64 a = push_bit 56 (ucast (a ! 7)) OR push_bit 48 (ucast (a ! 6)) OR push_bit 40 (ucast (a !
     5)) OR push_bit 32 (ucast (a ! 4)) OR push_bit 24 (ucast (a ! 3)) OR push_bit 16 (ucast
     (a ! 2)) OR push_bit 8 (ucast (a ! 1)) OR ucast (a ! 0)"

definition WPA_PUT_LE64 :: "u64 \<Rightarrow> u8 list" where
  "WPA_PUT_LE64 v = [ucast v, ucast (drop_bit 8 v), ucast (drop_bit 16 v), ucast (drop_bit 24 v), ucast
     (drop_bit 32 v), ucast (drop_bit 40 v), ucast (drop_bit 48 v), ucast (drop_bit 56 v)]"

section \<open>The interface\<close>

text \<open>A fixed number of bytes stands for the values of the set \<open>valid\<close>.\<close>

locale wire_format =
  fixes get :: "u8 list \<Rightarrow> 'v" and put :: "'v \<Rightarrow> u8 list" and width :: nat and valid :: "'v \<Rightarrow> bool"
  assumes length_put: "length (put v) = width"
    and get_put: "valid v \<Longrightarrow> get (put v @ rest) = v"
    and put_get: "length a = width \<Longrightarrow> put (get a) = a"
    and valid_get: "length a = width \<Longrightarrow> valid (get a)"
begin

lemma put_inject: "valid v \<Longrightarrow> valid w \<Longrightarrow> put v = put w \<longleftrightarrow> v = w"
  using get_put [of _ "[]"] by (metis append_Nil2)

text \<open>A sequence of values, one behind the other.\<close>

lemma get_nth_put:
  "(\<forall>v\<in>set vs. valid v) \<Longrightarrow> i < length vs \<Longrightarrow> get (drop (i * width) (concat (map put vs) @ rest)) = vs ! i"
proof (induction vs arbitrary: i)
  case (Cons v vs)
  then show ?case
    by (cases i) (simp_all add: get_put length_put)
qed simp

end

section \<open>Little endian values of any width\<close>

fun le_val :: "u8 list \<Rightarrow> 'a::len word" where
  "le_val [] = 0"
| "le_val (b # bs) = ucast b OR push_bit 8 (le_val bs)"

fun le_bytes :: "nat \<Rightarrow> 'a::len word \<Rightarrow> u8 list" where
  "le_bytes 0 v = []"
| "le_bytes (Suc n) v = ucast v # le_bytes n (drop_bit 8 v)"

lemma length_le_bytes [simp]: "length (le_bytes n v) = n"
  by (induction n arbitrary: v) auto

lemmas wire_bits = bit_or_iff bit_push_bit_iff bit_drop_bit_eq bit_unsigned_iff bit_take_bit_iff

lemma le_val_bound: "bit (le_val bs :: 'a::len word) n \<Longrightarrow> n < 8 * length bs"
proof (induction bs arbitrary: n)
  case (Cons b bs)
  then consider "n < 8" | "8 \<le> n" "bit (le_val bs :: 'a word) (n - 8)"
    using bit_imp_le_length [of b n] by (auto simp: wire_bits)
  then show ?case
  proof cases
    case 2
    then show ?thesis using Cons.IH [of "n - 8"] by (simp add: less_diff_conv2)
  qed simp
qed simp

lemma le_val_bytes: "le_val (le_bytes n v) = take_bit (8 * n) (v :: 'a::len word)"
proof (induction n arbitrary: v)
  case (Suc n)
  show ?case
    by (rule bit_word_eqI) (auto simp: Suc wire_bits dest: bit_imp_possible_bit)
qed simp

lemma le_bytes_val:
  "8 * length bs \<le> LENGTH('a) \<Longrightarrow> le_bytes (length bs) (le_val bs :: 'a::len word) = bs"
proof (induction bs)
  case (Cons b bs)
  have "ucast (ucast b OR push_bit 8 (le_val bs) :: 'a word) = b"
    using Cons.prems by (intro bit_word_eqI) (auto simp: wire_bits)
  moreover have "drop_bit 8 (ucast b OR push_bit 8 (le_val bs) :: 'a word) = le_val bs"
  proof (rule bit_word_eqI)
    fix n
    have "\<not> bit b (8 + n)" using bit_imp_le_length [of b "8 + n"] by auto
    then show "bit (drop_bit 8 (ucast b OR push_bit 8 (le_val bs) :: 'a word)) n = bit (le_val bs :: 'a word) n"
      using le_val_bound [of bs n, where ?'a = 'a] Cons.prems by (auto simp: wire_bits)
  qed
  ultimately show ?case using Cons by simp
qed simp

text \<open>The locale's laws for little and big endian bytes of any width.\<close>

lemma le_wire:
  assumes "\<And>v. put v = le_bytes k (v :: 'a::len word)" and "\<And>a. k \<le> length a \<Longrightarrow> get a = le_val (take k a)"
    and "8 * k \<le> LENGTH('a)" and "\<And>v. valid v \<longleftrightarrow> take_bit (8 * k) v = v"
  shows "wire_format get put k valid"
proof
  fix a :: "u8 list" and v rest
  show "length (put v) = k" by (simp add: assms(1))
  show "valid v \<Longrightarrow> get (put v @ rest) = v" by (simp add: assms(1,2,4) le_val_bytes)
  show "length a = k \<Longrightarrow> put (get a) = a" using le_bytes_val [of a, where ?'a = 'a] assms(3) by (auto simp: assms(1,2))
  show "length a = k \<Longrightarrow> valid (get a)"
    using le_bytes_val [of a, where ?'a = 'a] le_val_bytes [of k "le_val a :: 'a word"] assms(3) by (auto simp: assms(2,4))
qed

lemma be_wire:
  assumes "\<And>v. put v = rev (le_bytes k (v :: 'a::len word))" and "\<And>a. k \<le> length a \<Longrightarrow> get a = le_val (rev (take k a))"
    and "8 * k \<le> LENGTH('a)" and "\<And>v. valid v \<longleftrightarrow> take_bit (8 * k) v = v"
  shows "wire_format get put k valid"
proof
  fix a :: "u8 list" and v rest
  show "length (put v) = k" by (simp add: assms(1))
  show "valid v \<Longrightarrow> get (put v @ rest) = v" by (simp add: assms(1,2,4) le_val_bytes)
  show "length a = k \<Longrightarrow> put (get a) = a" using le_bytes_val [of "rev a", where ?'a = 'a] assms(3) by (auto simp: assms(1,2))
  show "length a = k \<Longrightarrow> valid (get a)"
    using le_bytes_val [of "rev a", where ?'a = 'a] le_val_bytes [of k "le_val (rev a) :: 'a word"] assms(3)
    by (auto simp: assms(2,4))
qed

section \<open>The accessors provide it\<close>

lemma take_nths:
  "2 \<le> length a \<Longrightarrow> take 2 a = [a ! 0, a ! 1]"
  "3 \<le> length a \<Longrightarrow> take 3 a = [a ! 0, a ! 1, a ! 2]"
  "4 \<le> length a \<Longrightarrow> take 4 a = [a ! 0, a ! 1, a ! 2, a ! 3]"
  "8 \<le> length a \<Longrightarrow> take 8 a = [a ! 0, a ! 1, a ! 2, a ! 3, a ! 4, a ! 5, a ! 6, a ! 7]"
  by (rule nth_equalityI; auto simp: less_Suc_eq numeral_eq_Suc)+

lemma le_bytes_numeral:
  "le_bytes 2 v = [ucast v, ucast (drop_bit 8 v)]"
  "le_bytes 3 v = [ucast v, ucast (drop_bit 8 v), ucast (drop_bit 16 v)]"
  "le_bytes 4 v = [ucast v, ucast (drop_bit 8 v), ucast (drop_bit 16 v), ucast (drop_bit 24 v)]"
  "le_bytes 8 v = [ucast v, ucast (drop_bit 8 v), ucast (drop_bit 16 v), ucast (drop_bit 24 v),
     ucast (drop_bit 32 v), ucast (drop_bit 40 v), ucast (drop_bit 48 v), ucast (drop_bit 56 v)]"
  by (simp_all add: eval_nat_numeral del: drop_bit_Suc)

lemmas wire_simps = take_nths le_bytes_numeral push_bit_or push_bit_push_bit or.assoc or.commute or.left_commute
  take_bit_word_eq_self

interpretation be16: wire_format WPA_GET_BE16 WPA_PUT_BE16 2 "\<lambda>_. True"
  by (rule be_wire) (simp_all add: WPA_GET_BE16_def WPA_PUT_BE16_def wire_simps)

interpretation le16: wire_format WPA_GET_LE16 WPA_PUT_LE16 2 "\<lambda>_. True"
  by (rule le_wire) (simp_all add: WPA_GET_LE16_def WPA_PUT_LE16_def wire_simps)

interpretation be24: wire_format WPA_GET_BE24 WPA_PUT_BE24 3 "\<lambda>v. take_bit 24 v = v"
  by (rule be_wire) (simp_all add: WPA_GET_BE24_def WPA_PUT_BE24_def wire_simps)

interpretation be32: wire_format WPA_GET_BE32 WPA_PUT_BE32 4 "\<lambda>_. True"
  by (rule be_wire) (simp_all add: WPA_GET_BE32_def WPA_PUT_BE32_def wire_simps)

interpretation le32: wire_format WPA_GET_LE32 WPA_PUT_LE32 4 "\<lambda>_. True"
  by (rule le_wire) (simp_all add: WPA_GET_LE32_def WPA_PUT_LE32_def wire_simps)

interpretation be64: wire_format WPA_GET_BE64 WPA_PUT_BE64 8 "\<lambda>_. True"
  by (rule be_wire) (simp_all add: WPA_GET_BE64_def WPA_PUT_BE64_def wire_simps)

interpretation le64: wire_format WPA_GET_LE64 WPA_PUT_LE64 8 "\<lambda>_. True"
  by (rule le_wire) (simp_all add: WPA_GET_LE64_def WPA_PUT_LE64_def wire_simps)

section \<open>Properties\<close>

text \<open>Every accessor pair is lossless in both directions: what a put stores, the matching get
  reads back whatever follows it, and storing what was read restores the bytes; the 24-bit pair
  keeps the low 24 bits.\<close>

theorem accessors_roundtrip:
  "WPA_GET_BE16 (WPA_PUT_BE16 v @ r) = v \<and> WPA_GET_LE16 (WPA_PUT_LE16 v @ r) = v \<and>
   WPA_GET_BE32 (WPA_PUT_BE32 w @ r) = w \<and> WPA_GET_LE32 (WPA_PUT_LE32 w @ r) = w \<and>
   WPA_GET_BE64 (WPA_PUT_BE64 x @ r) = x \<and> WPA_GET_LE64 (WPA_PUT_LE64 x @ r) = x \<and>
   WPA_GET_BE24 (WPA_PUT_BE24 w @ r) = take_bit 24 w \<and>
   WPA_PUT_BE16 (WPA_GET_BE16 [a, b]) = [a, b] \<and> WPA_PUT_LE16 (WPA_GET_LE16 [a, b]) = [a, b] \<and>
   WPA_PUT_BE24 (WPA_GET_BE24 [a, b, c]) = [a, b, c] \<and>
   WPA_PUT_BE32 (WPA_GET_BE32 [a, b, c, d]) = [a, b, c, d] \<and>
   WPA_PUT_LE32 (WPA_GET_LE32 [a, b, c, d]) = [a, b, c, d] \<and>
   WPA_PUT_BE64 (WPA_GET_BE64 [a, b, c, d, e, f, g, h]) = [a, b, c, d, e, f, g, h] \<and>
   WPA_PUT_LE64 (WPA_GET_LE64 [a, b, c, d, e, f, g, h]) = [a, b, c, d, e, f, g, h]"
proof -
  have "WPA_PUT_BE24 w = WPA_PUT_BE24 (take_bit 24 w)"
    by (auto intro!: bit_word_eqI simp: WPA_PUT_BE24_def wire_bits)
  then have "WPA_GET_BE24 (WPA_PUT_BE24 w @ r) = take_bit 24 w"
    using be24.get_put [of "take_bit 24 w" r] by simp
  then show ?thesis
    by (simp add: be16.get_put le16.get_put be32.get_put le32.get_put be64.get_put le64.get_put
        be16.put_get le16.put_get be24.put_get be32.put_get le32.put_get be64.put_get le64.put_get)
qed

end
