(* ===== verification/Wpabuf.thy ===== *)
theory Wpabuf
  imports Byte_Order
begin

text \<open>
  \<open>wpa_supplicant/src/utils/wpabuf.c\<close> and the inline functions of \<open>wpabuf.h\<close>: a byte buffer that is
  filled from its front. A buffer is the record \<open>wpabuf\<close>; \<open>wbuf\<close> is the allocated area, of length
  \<open>wsize\<close>. \<open>size_t\<close> has 32 bits and its additions wrap. \<open>alloc n\<close> says whether an allocation of
  \<open>n\<close> bytes succeeds. A call ends with a value or with a fault: \<open>Overflow_Abort\<close> is the
  \<open>abort()\<close> of \<open>wpabuf_overflow\<close>, \<open>Wild_Write\<close> a write behind the allocated area. What the
  builders of messages rely on is the locale \<open>byte_sink\<close>.
\<close>

section \<open>Operations\<close>

datatype buf_fault = Overflow_Abort | Wild_Write

record wpabuf =
  wsize :: nat
  wused :: nat
  wbuf :: "u8 list"
  wext :: bool

definition size_add :: "nat \<Rightarrow> nat \<Rightarrow> nat" where
  "size_add a b = (a + b) mod 2 ^ 32"

definition wpabuf_alloc :: "(nat \<Rightarrow> bool) \<Rightarrow> nat \<Rightarrow> wpabuf option" where
  "wpabuf_alloc alloc len =
     (if alloc len then Some \<lparr>wsize = len, wused = 0, wbuf = replicate len 0, wext = False\<rparr> else None)"

definition wpabuf_alloc_ext_data :: "(nat \<Rightarrow> bool) \<Rightarrow> u8 list \<Rightarrow> wpabuf option" where
  "wpabuf_alloc_ext_data alloc data =
     (if alloc 0 then Some \<lparr>wsize = length data, wused = length data, wbuf = data, wext = True\<rparr> else None)"

text \<open>\<open>wpabuf_resize\<close> through a pointer that may hold NULL; the result is the return code and the
  pointer.\<close>

definition wpabuf_resize :: "(nat \<Rightarrow> bool) \<Rightarrow> wpabuf option \<Rightarrow> nat \<Rightarrow> int \<times> wpabuf option" where
  "wpabuf_resize alloc b add_len =
     (case b of
        None \<Rightarrow> (case wpabuf_alloc alloc add_len of None \<Rightarrow> (-1, None) | Some n \<Rightarrow> (0, Some n))
      | Some b \<Rightarrow>
          if size_add (wused b) add_len > wsize b then
            if \<not> alloc (size_add (wused b) add_len) then (-1, Some b)
            else (0, Some (b\<lparr>wbuf := take (wused b) (wbuf b) @ replicate add_len 0,
                              wsize := size_add (wused b) add_len\<rparr>))
          else (0, Some b))"

text \<open>\<open>wpabuf_put\<close>: where the caller may write, and the buffer.\<close>

definition wpabuf_put :: "wpabuf \<Rightarrow> nat \<Rightarrow> buf_fault + nat \<times> wpabuf" where
  "wpabuf_put b len =
     (let b' = b\<lparr>wused := size_add (wused b) len\<rparr>
      in if wused b' > wsize b' then Inl Overflow_Abort else Inr (wused b, b'))"

definition write_at :: "nat \<Rightarrow> u8 list \<Rightarrow> wpabuf \<Rightarrow> buf_fault + wpabuf" where
  "write_at pos bs b =
     (if pos + length bs > length (wbuf b) then Inl Wild_Write
      else Inr (b\<lparr>wbuf := take pos (wbuf b) @ bs @ drop (pos + length bs) (wbuf b)\<rparr>))"

definition put_bytes :: "u8 list \<Rightarrow> wpabuf \<Rightarrow> buf_fault + wpabuf" where
  "put_bytes bs b = (case wpabuf_put b (length bs) of Inl f \<Rightarrow> Inl f | Inr (pos, b) \<Rightarrow> write_at pos bs b)"

definition wpabuf_put_u8 :: "u8 \<Rightarrow> wpabuf \<Rightarrow> buf_fault + wpabuf" where
  "wpabuf_put_u8 v = put_bytes [v]"

definition wpabuf_put_le16 :: "u16 \<Rightarrow> wpabuf \<Rightarrow> buf_fault + wpabuf" where
  "wpabuf_put_le16 v = put_bytes (WPA_PUT_LE16 v)"

definition wpabuf_put_le32 :: "u32 \<Rightarrow> wpabuf \<Rightarrow> buf_fault + wpabuf" where
  "wpabuf_put_le32 v = put_bytes (WPA_PUT_LE32 v)"

definition wpabuf_put_be16 :: "u16 \<Rightarrow> wpabuf \<Rightarrow> buf_fault + wpabuf" where
  "wpabuf_put_be16 v = put_bytes (WPA_PUT_BE16 v)"

definition wpabuf_put_be24 :: "u32 \<Rightarrow> wpabuf \<Rightarrow> buf_fault + wpabuf" where
  "wpabuf_put_be24 v = put_bytes (WPA_PUT_BE24 v)"

definition wpabuf_put_be32 :: "u32 \<Rightarrow> wpabuf \<Rightarrow> buf_fault + wpabuf" where
  "wpabuf_put_be32 v = put_bytes (WPA_PUT_BE32 v)"

text \<open>The data pointer may be NULL, which puts nothing.\<close>

definition wpabuf_put_data :: "u8 list option \<Rightarrow> wpabuf \<Rightarrow> buf_fault + wpabuf" where
  "wpabuf_put_data data b = (case data of None \<Rightarrow> Inr b | Some bs \<Rightarrow> put_bytes bs b)"

definition wpabuf_head :: "wpabuf \<Rightarrow> u8 list" where
  "wpabuf_head b = take (wused b) (wbuf b)"

definition wpabuf_tailroom :: "wpabuf \<Rightarrow> nat" where
  "wpabuf_tailroom b = wsize b - wused b"

definition wpabuf_put_buf :: "wpabuf \<Rightarrow> wpabuf \<Rightarrow> buf_fault + wpabuf" where
  "wpabuf_put_buf dst src = wpabuf_put_data (Some (wpabuf_head src)) dst"

definition wpabuf_set :: "u8 list \<Rightarrow> wpabuf" where
  "wpabuf_set data = \<lparr>wsize = length data, wused = length data, wbuf = data, wext = True\<rparr>"

definition wpabuf_alloc_copy :: "(nat \<Rightarrow> bool) \<Rightarrow> u8 list option \<Rightarrow> nat \<Rightarrow> buf_fault + wpabuf option" where
  "wpabuf_alloc_copy alloc data len =
     (case wpabuf_alloc alloc len of
        None \<Rightarrow> Inr None
      | Some b \<Rightarrow> map_sum id Some (wpabuf_put_data data b))"

definition wpabuf_dup :: "(nat \<Rightarrow> bool) \<Rightarrow> wpabuf \<Rightarrow> buf_fault + wpabuf option" where
  "wpabuf_dup alloc src = wpabuf_alloc_copy alloc (Some (wpabuf_head src)) (wused src)"

text \<open>Freeing the sources is not visible in the value; the caller may not use them afterwards.\<close>

definition wpabuf_concat :: "(nat \<Rightarrow> bool) \<Rightarrow> wpabuf option \<Rightarrow> wpabuf option \<Rightarrow> buf_fault + wpabuf option" where
  "wpabuf_concat alloc a b =
     (case b of
        None \<Rightarrow> Inr a
      | Some b \<Rightarrow>
          let len = (case a of None \<Rightarrow> wused b | Some a \<Rightarrow> size_add (wused a) (wused b))
          in (case wpabuf_alloc alloc len of
                None \<Rightarrow> Inr None
              | Some n \<Rightarrow>
                  (case (case a of None \<Rightarrow> Inr n | Some a \<Rightarrow> wpabuf_put_buf n a) of
                     Inl f \<Rightarrow> Inl f
                   | Inr n \<Rightarrow> map_sum id Some (wpabuf_put_buf n b))))"

definition wpabuf_zeropad :: "(nat \<Rightarrow> bool) \<Rightarrow> wpabuf option \<Rightarrow> nat \<Rightarrow> buf_fault + wpabuf option" where
  "wpabuf_zeropad alloc b len =
     (case b of
        None \<Rightarrow> Inr None
      | Some b \<Rightarrow>
          if wused b \<ge> len then Inr (Some b)
          else (case wpabuf_alloc alloc len of
                  None \<Rightarrow> Inr None
                | Some r \<Rightarrow>
                    (case put_bytes (replicate (len - wused b) 0) r of
                       Inl f \<Rightarrow> Inl f
                     | Inr r \<Rightarrow> map_sum id Some (wpabuf_put_buf r b))))"

text \<open>\<open>wpabuf_printf\<close> with the formatted text \<open>s\<close> (\<open>vsnprintf\<close> writes what fits, and a NUL).\<close>

definition wpabuf_printf :: "u8 list \<Rightarrow> wpabuf \<Rightarrow> buf_fault + wpabuf" where
  "wpabuf_printf s b =
     (if length s \<ge> wsize b - wused b then Inl Overflow_Abort
      else case write_at (wused b) (s @ [0]) b of
             Inl f \<Rightarrow> Inl f
           | Inr b \<Rightarrow> Inr (b\<lparr>wused := size_add (wused b) (length s)\<rparr>))"

definition wpabuf_clear :: "wpabuf \<Rightarrow> wpabuf" where
  "wpabuf_clear b = b\<lparr>wbuf := replicate (wused b) 0 @ drop (wused b) (wbuf b)\<rparr>"

section \<open>The interface\<close>

locale byte_sink =
  fixes inv :: "'b \<Rightarrow> bool" and put :: "u8 list \<Rightarrow> 'b \<Rightarrow> 'e + 'b"
    and contents :: "'b \<Rightarrow> u8 list" and room :: "'b \<Rightarrow> nat" and full :: 'e and lim :: nat
  assumes put_fits: "inv b \<Longrightarrow> length bs \<le> room b \<Longrightarrow>
      \<exists>b'. put bs b = Inr b' \<and> inv b' \<and> contents b' = contents b @ bs \<and> room b' = room b - length bs"
    and put_full: "inv b \<Longrightarrow> length bs < lim \<Longrightarrow> room b < length bs \<Longrightarrow> put bs b = Inl full"
begin

fun put_all :: "u8 list list \<Rightarrow> 'b \<Rightarrow> 'e + 'b" where
  "put_all [] b = Inr b"
| "put_all (c # cs) b = (case put c b of Inl e \<Rightarrow> Inl e | Inr b \<Rightarrow> put_all cs b)"

text \<open>A message written in pieces arrives whole or not at all.\<close>

lemma put_all_fits:
  "inv b \<Longrightarrow> length (concat cs) \<le> room b \<Longrightarrow>
   \<exists>b'. put_all cs b = Inr b' \<and> inv b' \<and> contents b' = contents b @ concat cs \<and>
     room b' = room b - length (concat cs)"
proof (induction cs arbitrary: b)
  case (Cons c cs)
  from put_fits [OF Cons.prems(1), of c] Cons.prems(2) obtain b1 where b1: "put c b = Inr b1" "inv b1"
    "contents b1 = contents b @ c" "room b1 = room b - length c" by auto
  from Cons.IH [OF b1(2)] Cons.prems(2) b1 show ?case by (auto simp: diff_diff_left)
qed simp

lemma put_all_full:
  "inv b \<Longrightarrow> \<forall>c\<in>set cs. length c < lim \<Longrightarrow> room b < length (concat cs) \<Longrightarrow> put_all cs b = Inl full"
proof (induction cs arbitrary: b)
  case (Cons c cs)
  show ?case
  proof (cases "length c \<le> room b")
    case True
    from put_fits [OF Cons.prems(1) this] obtain b1 where "put c b = Inr b1" "inv b1"
      "room b1 = room b - length c" by blast
    with Cons True show ?thesis by simp
  next
    case False
    with put_full [OF Cons.prems(1), of c] Cons.prems(2) show ?thesis by simp
  qed
qed simp

end

section \<open>The buffer provides it\<close>

definition wok :: "wpabuf \<Rightarrow> bool" where
  "wok b \<longleftrightarrow> wused b \<le> wsize b \<and> length (wbuf b) = wsize b \<and> wsize b < 2 ^ 31"

lemma put_bytes_fits:
  assumes "wok b" and "length bs \<le> wpabuf_tailroom b"
  shows "\<exists>b'. put_bytes bs b = Inr b' \<and> wok b' \<and> wpabuf_head b' = wpabuf_head b @ bs \<and>
    wpabuf_tailroom b' = wpabuf_tailroom b - length bs \<and> wsize b' = wsize b"
  using assms
  by (auto simp: put_bytes_def wpabuf_put_def write_at_def size_add_def wok_def wpabuf_head_def
      wpabuf_tailroom_def Let_def)

lemma put_bytes_full:
  assumes "wok b" and "length bs < 2 ^ 31" and "wpabuf_tailroom b < length bs"
  shows "put_bytes bs b = Inl Overflow_Abort"
  using assms by (auto simp: put_bytes_def wpabuf_put_def size_add_def wok_def wpabuf_tailroom_def Let_def)

interpretation sink: byte_sink wok put_bytes wpabuf_head wpabuf_tailroom Overflow_Abort "2 ^ 31"
  by unfold_locales (use put_bytes_fits put_bytes_full in blast)+

section \<open>Messages\<close>

text \<open>The fields that the message builders write with the inline functions, in order.\<close>

datatype field = F8 u8 | FL16 u16 | FL32 u32 | FB16 u16 | FB24 u32 | FB32 u32 | FData "u8 list option"

fun put_field :: "field \<Rightarrow> wpabuf \<Rightarrow> buf_fault + wpabuf" where
  "put_field (F8 v) = wpabuf_put_u8 v"
| "put_field (FL16 v) = wpabuf_put_le16 v"
| "put_field (FL32 v) = wpabuf_put_le32 v"
| "put_field (FB16 v) = wpabuf_put_be16 v"
| "put_field (FB24 v) = wpabuf_put_be24 v"
| "put_field (FB32 v) = wpabuf_put_be32 v"
| "put_field (FData d) = wpabuf_put_data d"

fun build :: "field list \<Rightarrow> wpabuf \<Rightarrow> buf_fault + wpabuf" where
  "build [] b = Inr b"
| "build (f # fs) b = (case put_field f b of Inl e \<Rightarrow> Inl e | Inr b \<Rightarrow> build fs b)"

fun field_bytes :: "field \<Rightarrow> u8 list" where
  "field_bytes (F8 v) = [v]"
| "field_bytes (FL16 v) = WPA_PUT_LE16 v"
| "field_bytes (FL32 v) = WPA_PUT_LE32 v"
| "field_bytes (FB16 v) = WPA_PUT_BE16 v"
| "field_bytes (FB24 v) = WPA_PUT_BE24 v"
| "field_bytes (FB32 v) = WPA_PUT_BE32 v"
| "field_bytes (FData d) = (case d of None \<Rightarrow> [] | Some bs \<Rightarrow> bs)"

lemmas put_defs = wpabuf_put_u8_def wpabuf_put_le16_def wpabuf_put_le32_def wpabuf_put_be16_def
  wpabuf_put_be24_def wpabuf_put_be32_def wpabuf_put_data_def

lemma put_bytes_nil: "wok b \<Longrightarrow> put_bytes [] b = Inr b"
  by (simp add: put_bytes_def wpabuf_put_def write_at_def size_add_def wok_def Let_def)

lemma put_field_bytes: "wok b \<Longrightarrow> put_field f b = put_bytes (field_bytes f) b"
  by (cases f) (simp_all add: put_defs put_bytes_nil split: option.split)

lemma build_put_all: "wok b \<Longrightarrow> build fs b = sink.put_all (map field_bytes fs) b"
proof (induction fs arbitrary: b)
  case (Cons f fs)
  have "wok b'" if "put_bytes (field_bytes f) b = Inr b'" for b'
    using that Cons.prems
    by (auto simp: put_bytes_def wpabuf_put_def write_at_def wok_def Let_def split: if_splits)
  with Cons show ?case by (auto simp: put_field_bytes split: sum.split)
qed simp

section \<open>Properties\<close>

text \<open>A message built field by field is the concatenation of its encoded fields when they fit the
  buffer, behind what was there; when they do not, the program aborts. It never writes behind
  the allocated area.\<close>

theorem message_built_whole:
  assumes "wok b" and "\<forall>f\<in>set fs. length (field_bytes f) < 2 ^ 31"
  shows "(case build fs b of
      Inr b' \<Rightarrow> wok b' \<and> wpabuf_head b' = wpabuf_head b @ concat (map field_bytes fs) \<and>
        length (concat (map field_bytes fs)) \<le> wpabuf_tailroom b
    | Inl e \<Rightarrow> e = Overflow_Abort \<and> wpabuf_tailroom b < length (concat (map field_bytes fs)))"
proof (cases "length (concat (map field_bytes fs)) \<le> wpabuf_tailroom b")
  case True
  with sink.put_all_fits [OF assms(1), of "map field_bytes fs"] show ?thesis
    by (auto simp: build_put_all [OF assms(1)])
next
  case False
  with sink.put_all_full [OF assms(1), of "map field_bytes fs"] assms(2) show ?thesis
    by (simp add: build_put_all [OF assms(1)])
qed

theorem message_built_whole_witness:
  "\<exists>b b'. wpabuf_alloc (\<lambda>_. True) 7 = Some b \<and> build [F8 1, FB16 0x0203, FData None, FL32 0x07060504] b = Inr b' \<and>
    wpabuf_head b' = [1, 2, 3, 4, 5, 6, 7]"
proof -
  let ?fs = "[F8 1, FB16 0x0203, FData None, FL32 0x07060504]"
  obtain b where b: "wpabuf_alloc (\<lambda>_. True) 7 = Some b" by (simp add: wpabuf_alloc_def)
  then have ok: "wok b" and room: "wpabuf_tailroom b = 7" "wpabuf_head b = []"
    by (auto simp: wpabuf_alloc_def wok_def wpabuf_tailroom_def wpabuf_head_def)
  have bytes: "concat (map field_bytes ?fs) = [1, 2, 3, 4, 5, 6, 7]" by code_simp
  have "\<forall>f\<in>set ?fs. length (field_bytes f) < 2 ^ 31" by (simp add: WPA_PUT_BE16_def WPA_PUT_LE32_def)
  from message_built_whole [OF ok this, unfolded bytes] show ?thesis
    by (cases "build ?fs b") (auto simp: b room)
qed

text \<open>Resizing makes room: when it succeeds, the requested bytes fit and the data is unchanged,
  and when it fails, the buffer is as before.\<close>

theorem resize_makes_room:
  assumes "wok b" and "wused b + add_len < 2 ^ 31"
  shows "(case wpabuf_resize alloc (Some b) add_len of
      (rc, None) \<Rightarrow> False
    | (rc, Some b') \<Rightarrow> (rc = 0 \<longrightarrow> wok b' \<and> add_len \<le> wpabuf_tailroom b' \<and> wpabuf_head b' = wpabuf_head b) \<and>
        (rc \<noteq> 0 \<longrightarrow> b' = b \<and> \<not> alloc (wused b + add_len)))"
  using assms
  by (auto simp: wpabuf_resize_def wok_def wpabuf_tailroom_def wpabuf_head_def size_add_def)

theorem resize_makes_room_witness:
  "\<exists>b. wpabuf_resize (\<lambda>_. True) (Some (wpabuf_set [1, 2])) 3 = (0, Some b) \<and> wpabuf_head b = [1, 2]"
proof -
  have "wok (wpabuf_set [1, 2])" "wused (wpabuf_set [1, 2]) + 3 < 2 ^ 31"
    by (simp_all add: wok_def wpabuf_set_def)
  from resize_makes_room [OF this, of "\<lambda>_. True"] show ?thesis
    by (cases "wpabuf_resize (\<lambda>_. True) (Some (wpabuf_set [1, 2])) 3")
      (auto simp: wpabuf_head_def wpabuf_set_def wpabuf_resize_def size_add_def)
qed

lemma wok_alloc:
  "wpabuf_alloc alloc n = Some b \<Longrightarrow> n < 2 ^ 31 \<Longrightarrow>
   wok b \<and> wpabuf_tailroom b = n \<and> wpabuf_head b = [] \<and> wused b = 0"
  by (auto simp: wpabuf_alloc_def wok_def wpabuf_tailroom_def wpabuf_head_def split: if_splits)

lemma length_head: "wok b \<Longrightarrow> length (wpabuf_head b) = wused b"
  by (simp add: wok_def wpabuf_head_def)

text \<open>Copying, concatenating and padding do what they say: a copy holds the same data, a
  concatenation the first data and then the second (an absent buffer counts as empty), and a
  padded buffer is the data behind zeros, at least as long as asked.\<close>

theorem buffers_combined:
  assumes "wok a" and "wok b" and "wused a + wused b < 2 ^ 31" and "n < 2 ^ 31" and "\<forall>k. alloc k"
  shows "\<exists>d c z. wpabuf_dup alloc a = Inr (Some d) \<and> wpabuf_head d = wpabuf_head a \<and>
    wpabuf_concat alloc (Some a) (Some b) = Inr (Some c) \<and> wpabuf_head c = wpabuf_head a @ wpabuf_head b \<and>
    wpabuf_zeropad alloc (Some a) n = Inr (Some z) \<and>
    wpabuf_head z = replicate (n - wused a) 0 @ wpabuf_head a \<and> wok d \<and> wok c \<and> wok z"
proof -
  have al: "\<exists>b. wpabuf_alloc alloc k = Some b" for k using assms(5) by (simp add: wpabuf_alloc_def)
  have wa: "wused a < 2 ^ 31" using assms(1) by (simp add: wok_def)
  from al obtain d0 where d0: "wpabuf_alloc alloc (wused a) = Some d0" by blast
  from put_bytes_fits [of d0 "wpabuf_head a"] wok_alloc [OF d0 wa] length_head [OF assms(1)]
  obtain d where d: "wpabuf_dup alloc a = Inr (Some d)" "wpabuf_head d = wpabuf_head a" "wok d"
    by (auto simp: wpabuf_dup_def wpabuf_alloc_copy_def wpabuf_put_data_def d0)
  from al obtain c0 where c0: "wpabuf_alloc alloc (wused a + wused b) = Some c0" by blast
  note c0' = wok_alloc [OF c0 assms(3)]
  from put_bytes_fits [of c0 "wpabuf_head a"] c0' length_head [OF assms(1)]
  obtain c1 where c1: "put_bytes (wpabuf_head a) c0 = Inr c1" "wok c1" "wpabuf_head c1 = wpabuf_head a"
    "wpabuf_tailroom c1 = wused b" by auto
  from put_bytes_fits [OF c1(2), of "wpabuf_head b"] c1(3,4) length_head [OF assms(2)]
  obtain c where c: "wpabuf_concat alloc (Some a) (Some b) = Inr (Some c)" "wpabuf_head c = wpabuf_head a @ wpabuf_head b" "wok c"
    using assms(3) by (auto simp: wpabuf_concat_def size_add_def c0 c1(1) wpabuf_put_buf_def wpabuf_put_data_def Let_def)
  have "\<exists>z. wpabuf_zeropad alloc (Some a) n = Inr (Some z) \<and> wpabuf_head z = replicate (n - wused a) 0 @ wpabuf_head a \<and> wok z"
  proof (cases "wused a \<ge> n")
    case False
    from al obtain z0 where z0: "wpabuf_alloc alloc n = Some z0" by blast
    note z0' = wok_alloc [OF z0 assms(4)]
    from put_bytes_fits [of z0 "replicate (n - wused a) 0"] z0' False
    obtain z1 where z1: "put_bytes (replicate (n - wused a) 0) z0 = Inr z1" "wok z1"
      "wpabuf_head z1 = replicate (n - wused a) 0" "wpabuf_tailroom z1 = wused a" by auto
    from put_bytes_fits [OF z1(2), of "wpabuf_head a"] z1(3,4) length_head [OF assms(1)] False
    show ?thesis by (auto simp: wpabuf_zeropad_def z0 z1(1) wpabuf_put_buf_def wpabuf_put_data_def)
  qed (use assms(1) in \<open>simp add: wpabuf_zeropad_def\<close>)
  with d c show ?thesis by blast
qed

theorem buffers_combined_witness:
  "\<exists>c. wpabuf_concat (\<lambda>_. True) (Some (wpabuf_set [1])) (Some (wpabuf_set [2, 3])) = Inr (Some c) \<and> wpabuf_head c = [1, 2, 3]"
proof -
  have "wok (wpabuf_set [1])" "wok (wpabuf_set [2, 3])" "wused (wpabuf_set [1]) + wused (wpabuf_set [2, 3]) < 2 ^ 31"
    "wpabuf_head (wpabuf_set [1]) = [1]" "wpabuf_head (wpabuf_set [2, 3]) = [2, 3]"
    by (simp_all add: wok_def wpabuf_set_def wpabuf_head_def)
  with buffers_combined [of "wpabuf_set [1]" "wpabuf_set [2, 3]" 5 "\<lambda>_. True"] show ?thesis by auto
qed

end
