(* ===== verification/Hex_Text.thy ===== *)
theory Hex_Text
  imports Prelude
begin

text \<open>
  The first half of \<open>wpa_supplicant/src/utils/common.c\<close>: hexadecimal text (hardware addresses,
  binary strings, hex dumps) and the arithmetic on byte arrays (counters, shifts, addresses drawn
  at random). A \<open>const char *\<close> is the list of characters before its NUL, a result of -1 is
  \<open>None\<close>. That text and bytes stand for each other is the locale \<open>byte_text\<close>, for one byte; hex
  strings and addresses of any length follow from it.
\<close>

section \<open>Hexadecimal digits\<close>

definition hex2num :: "char \<Rightarrow> nat option" where
  "hex2num c =
     (if 48 \<le> code c \<and> code c \<le> 57 then Some (code c - 48)
      else if 97 \<le> code c \<and> code c \<le> 102 then Some (code c - 97 + 10)
      else if 65 \<le> code c \<and> code c \<le> 70 then Some (code c - 65 + 10) else None)"

definition hex2byte :: "string \<Rightarrow> u8 option" where
  "hex2byte s =
     (case hex2num (peek s) of
        None \<Rightarrow> None
      | Some a \<Rightarrow> (case hex2num (peek2 s) of None \<Rightarrow> None | Some b \<Rightarrow> Some (of_nat (a * 16 + b))))"

text \<open>\<open>%02x\<close> and \<open>%02X\<close>.\<close>

definition hex_digit :: "bool \<Rightarrow> nat \<Rightarrow> char" where
  "hex_digit upper d = char_of (if d < 10 then 48 + d else (if upper then 65 else 97) + (d - 10))"

definition hex_byte :: "bool \<Rightarrow> u8 \<Rightarrow> string" where
  "hex_byte upper b = [hex_digit upper (unat b div 16), hex_digit upper (unat b mod 16)]"

section \<open>Hardware addresses\<close>

text \<open>\<open>hwaddr_parse\<close> from the byte \<open>i\<close> on: the bytes and the text behind them.\<close>

fun hwaddr_parse_from :: "nat \<Rightarrow> string \<Rightarrow> (u8 list \<times> string) option" where
  "hwaddr_parse_from 0 txt = Some ([], txt)"
| "hwaddr_parse_from (Suc k) txt =
     (case hex2byte txt of
        None \<Rightarrow> None
      | Some a \<Rightarrow>
          let txt = drop 2 txt
          in if k > 0 \<and> peek txt \<noteq> CHR '':'' then None
             else (case hwaddr_parse_from k (if k > 0 then tl txt else txt) of
                     None \<Rightarrow> None | Some (bs, rest) \<Rightarrow> Some (a # bs, rest)))"

definition hwaddr_parse :: "string \<Rightarrow> (u8 list \<times> string) option" where
  "hwaddr_parse txt = hwaddr_parse_from 6 txt"

definition hwaddr_aton :: "string \<Rightarrow> u8 list option" where
  "hwaddr_aton txt = map_option fst (hwaddr_parse txt)"

definition hwaddr_masked_aton :: "string \<Rightarrow> bool \<Rightarrow> (u8 list \<times> u8 list) option" where
  "hwaddr_masked_aton txt maskable =
     (case hwaddr_parse txt of
        None \<Rightarrow> None
      | Some (addr, r) \<Rightarrow>
          if r = [] \<or> isspace (peek r) then Some (addr, replicate 6 0xff)
          else if maskable \<and> peek r = CHR ''/'' then map_option (\<lambda>(m, _). (addr, m)) (hwaddr_parse (tl r))
          else None)"

fun compact_from :: "nat \<Rightarrow> string \<Rightarrow> u8 list option" where
  "compact_from 0 txt = Some []"
| "compact_from (Suc k) txt =
     (case hex2byte txt of None \<Rightarrow> None | Some a \<Rightarrow> map_option (Cons a) (compact_from k (drop 2 txt)))"

definition hwaddr_compact_aton :: "string \<Rightarrow> u8 list option" where
  "hwaddr_compact_aton txt = compact_from 6 txt"

definition is_sep :: "char \<Rightarrow> bool" where
  "is_sep c \<longleftrightarrow> c = CHR '':'' \<or> c = CHR ''.'' \<or> c = CHR ''-''"

text \<open>\<open>hwaddr_aton2\<close>: the bytes and the number of characters used.\<close>

fun aton2_from :: "nat \<Rightarrow> string \<Rightarrow> (u8 list \<times> string) option" where
  "aton2_from 0 pos = Some ([], pos)"
| "aton2_from (Suc k) pos =
     (let pos = dropWhile is_sep pos
      in case hex2byte pos of
           None \<Rightarrow> None
         | Some a \<Rightarrow> (case aton2_from k (drop 2 pos) of
                        None \<Rightarrow> None | Some (bs, r) \<Rightarrow> Some (a # bs, r)))"

definition hwaddr_aton2 :: "string \<Rightarrow> (u8 list \<times> nat) option" where
  "hwaddr_aton2 txt = map_option (\<lambda>(bs, r). (bs, length txt - length r)) (aton2_from 6 txt)"

definition hexstr2bin :: "string \<Rightarrow> nat \<Rightarrow> u8 list option" where
  "hexstr2bin hex len = compact_from len hex"

fun macstr :: "u8 list \<Rightarrow> string" where
  "macstr [] = []"
| "macstr [a] = hex_byte False a"
| "macstr (a # as) = hex_byte False a @ CHR '':'' # macstr as"

text \<open>The text, or \<open>None\<close> when it does not fit the \<open>len\<close> bytes with its NUL.\<close>

definition hwaddr_mask_txt :: "nat \<Rightarrow> u8 list \<Rightarrow> u8 list \<Rightarrow> string option" where
  "hwaddr_mask_txt len addr msk =
     (let s = (if \<exists>m\<in>set msk. m \<noteq> 0xff then macstr addr @ CHR ''/'' # macstr msk else macstr addr)
      in if length s \<ge> len then None else Some s)"

section \<open>Hex dumps\<close>

text \<open>
  The loop of \<open>_wpa_snprintf_hex\<close> with \<open>room\<close> bytes left: it stops at the first byte whose two
  digits and NUL do not fit. The last byte of the buffer is set to NUL in any case.
\<close>

fun snprintf_hex_loop :: "bool \<Rightarrow> nat \<Rightarrow> u8 list \<Rightarrow> string" where
  "snprintf_hex_loop upper room [] = []"
| "snprintf_hex_loop upper room (d # ds) =
     (if 2 \<ge> room then [] else hex_byte upper d @ snprintf_hex_loop upper (room - 2) ds)"

definition snprintf_hex :: "nat \<Rightarrow> bool \<Rightarrow> u8 list \<Rightarrow> string" where
  "snprintf_hex buf_size upper data = (if buf_size = 0 then [] else snprintf_hex_loop upper buf_size data)"

definition wpa_snprintf_hex :: "nat \<Rightarrow> u8 list \<Rightarrow> string" where
  "wpa_snprintf_hex buf_size data = snprintf_hex buf_size False data"

definition wpa_snprintf_hex_uppercase :: "nat \<Rightarrow> u8 list \<Rightarrow> string" where
  "wpa_snprintf_hex_uppercase buf_size data = snprintf_hex buf_size True data"

text \<open>
  The same with a separator behind each byte. When all bytes fit, the last separator is
  overwritten with NUL; for no bytes that is the byte before the buffer, \<open>None\<close>. The result is
  the text and the returned number, which counts that separator.
\<close>

fun hex_sep_loop :: "nat \<Rightarrow> char \<Rightarrow> u8 list \<Rightarrow> string \<times> bool" where
  "hex_sep_loop room sep [] = ([], True)"
| "hex_sep_loop room sep (d # ds) =
     (if 3 \<ge> room then ([], False)
      else (case hex_sep_loop (room - 3) sep ds of (s, fit) \<Rightarrow> (hex_byte False d @ sep # s, fit)))"

definition wpa_snprintf_hex_sep :: "nat \<Rightarrow> u8 list \<Rightarrow> char \<Rightarrow> (string \<times> nat) option" where
  "wpa_snprintf_hex_sep buf_size data sep =
     (if buf_size = 0 then Some ([], 0)
      else (case hex_sep_loop buf_size sep data of
              (s, fit) \<Rightarrow> if fit then (if s = [] then None else Some (butlast s, length s))
                          else Some (s, length s)))"

section \<open>Byte arrays as numbers\<close>

text \<open>\<open>inc_byte_array\<close> from the index \<open>pos - 1\<close> down.\<close>

fun inc_from :: "nat \<Rightarrow> u8 list \<Rightarrow> u8 list" where
  "inc_from 0 counter = counter"
| "inc_from (Suc pos) counter =
     (let counter = counter[pos := counter ! pos + 1]
      in if counter ! pos \<noteq> 0 then counter else inc_from pos counter)"

definition inc_byte_array :: "u8 list \<Rightarrow> u8 list" where
  "inc_byte_array counter = inc_from (length counter) counter"

fun shift_from :: "nat \<Rightarrow> nat \<Rightarrow> u8 list \<Rightarrow> u8 list" where
  "shift_from bits 0 buf = buf[0 := drop_bit bits (buf ! 0)]"
| "shift_from bits (Suc i) buf =
     shift_from bits i (buf[Suc i := push_bit (8 - bits) (buf ! i) OR drop_bit bits (buf ! Suc i)])"

definition buf_shift_right :: "u8 list \<Rightarrow> nat \<Rightarrow> u8 list" where
  "buf_shift_right buf bits = shift_from bits (length buf - 1) buf"

definition ntp_fraction :: "u32 \<Rightarrow> u32" where
  "ntp_fraction usec = 4295 * usec - drop_bit 5 usec - drop_bit 9 usec"

text \<open>\<open>rnd\<close> is what \<open>os_get_random\<close> delivers, \<open>None\<close> when it fails.\<close>

definition random_mac_addr :: "u8 list option \<Rightarrow> u8 list option" where
  "random_mac_addr rnd = map_option (\<lambda>a. a[0 := (a ! 0 AND 0xfe) OR 0x02]) rnd"

definition random_mac_addr_keep_oui :: "u8 list \<Rightarrow> u8 list option \<Rightarrow> u8 list option" where
  "random_mac_addr_keep_oui addr rnd =
     map_option (\<lambda>r. let a = take 3 addr @ r in a[0 := (a ! 0 AND 0xfe) OR 0x02]) rnd"

definition rssi_to_rcpi :: "int \<Rightarrow> u8" where
  "rssi_to_rcpi rssi =
     (if rssi = 0 then 255 else if rssi < - 110 then 0 else if rssi > 0 then 220
      else of_int ((rssi + 110) * 2))"

section \<open>One byte as text\<close>

locale byte_text =
  fixes show_byte :: "u8 \<Rightarrow> string" and read_byte :: "string \<Rightarrow> u8 option"
  assumes two_digits: "length (show_byte b) = 2"
    and read_show: "read_byte (show_byte b @ rest) = Some b"
begin

lemma concat_length: "length (concat (map show_byte bs)) = 2 * length bs"
  by (induction bs) (simp_all add: two_digits)

lemma drop_show: "drop 2 (show_byte b @ rest) = rest"
  by (simp add: two_digits)

end

lemma code_char_of: "n < 256 \<Longrightarrow> code (char_of n) = n"
  by (simp add: code_def)

lemma hex2num_digit: "d < 16 \<Longrightarrow> hex2num (hex_digit up d) = Some d"
  by (auto simp: hex2num_def hex_digit_def code_char_of)

lemma unat_u8: "unat (b :: u8) < 256"
  using unsigned_less [of b] by simp

lemma length_hex_byte [simp]: "length (hex_byte up b) = 2"
  by (simp add: hex_byte_def)

lemma hex2byte_show [simp]: "hex2byte (hex_byte up b @ rest) = Some b"
proof -
  have "unat b div 16 < 16" using unat_u8 [of b] by (simp add: less_mult_imp_div_less)
  then show ?thesis by (simp add: hex2byte_def hex_byte_def hex2num_digit)
qed

interpretation lower: byte_text "hex_byte False" hex2byte
  by unfold_locales simp_all

interpretation upper: byte_text "hex_byte True" hex2byte
  by unfold_locales simp_all

lemma hex_byte_peek: "\<exists>c cs. hex_byte up b = c # cs \<and> hex2num c \<noteq> None"
proof -
  have "unat b div 16 < 16" using unat_u8 [of b] by (simp add: less_mult_imp_div_less)
  then show ?thesis by (simp add: hex_byte_def hex2num_digit)
qed

lemma compact_concat: "compact_from (length bs) (concat (map (hex_byte up) bs) @ rest) = Some bs"
  by (induction bs) (simp_all add: hex2byte_show)

lemma parse_macstr: "bs \<noteq> [] \<Longrightarrow> hwaddr_parse_from (length bs) (macstr bs @ rest) = Some (bs, rest)"
  by (induction bs rule: macstr.induct) (simp_all add: hex2byte_show)

lemma hex_byte_no_sep: "dropWhile is_sep (hex_byte up b @ rest) = hex_byte up b @ rest"
proof -
  from hex_byte_peek [of up b] obtain c cs where c: "hex_byte up b = c # cs" "hex2num c \<noteq> None" by blast
  then have "\<not> is_sep c" by (auto simp: is_sep_def hex2num_def code_def)
  with c show ?thesis by simp
qed

lemma aton2_macstr: "bs \<noteq> [] \<Longrightarrow> aton2_from (length bs) (macstr bs @ rest) = Some (bs, rest)"
proof (induction bs rule: macstr.induct)
  case (3 a b bs)
  have "aton2_from (length (b # bs)) (CHR '':'' # macstr (b # bs) @ rest) =
      aton2_from (length (b # bs)) (macstr (b # bs) @ rest)"
    by (simp add: is_sep_def)
  with 3 show ?case by (simp add: hex2byte_show hex_byte_no_sep del: aton2_from.simps(2))
      (simp add: hex2byte_show hex_byte_no_sep)
qed (simp_all add: hex2byte_show hex_byte_no_sep)

lemma hex_loop_fits:
  "2 * length ds < room \<Longrightarrow> snprintf_hex_loop up room ds = concat (map (hex_byte up) ds)"
  by (induction up room ds rule: snprintf_hex_loop.induct) auto

lemma hex_loop_truncates:
  "snprintf_hex_loop up room ds = concat (map (hex_byte up) (take ((room - 1) div 2) ds))"
proof (induction up room ds rule: snprintf_hex_loop.induct)
  case (2 up room d ds)
  show ?case
  proof (cases "2 \<ge> room")
    case True
    then have "(room - 1) div 2 = 0" by auto
    then show ?thesis using True by simp
  next
    case False
    then have "(room - 1) div 2 = Suc ((room - 2 - 1) div 2)" by presburger
    then show ?thesis using False 2 by simp
  qed
qed simp

section \<open>Byte arrays as numbers\<close>

text \<open>The value of a big endian byte array.\<close>

fun be_value :: "u8 list \<Rightarrow> nat" where
  "be_value [] = 0"
| "be_value (b # bs) = unat b * 256 ^ length bs + be_value bs"

lemma be_value_snoc: "be_value (bs @ [b]) = be_value bs * 256 + unat b"
  by (induction bs) (simp_all add: algebra_simps)

lemma be_value_bound: "be_value bs < 256 ^ length bs"
proof (induction bs)
  case (Cons b bs)
  have "be_value (b # bs) < (unat b + 1) * 256 ^ length bs" using Cons by simp
  also have "\<dots> \<le> 256 * 256 ^ length bs" using unat_u8 [of b] by (intro mult_right_mono, linarith, simp)
  finally show ?case by simp
qed simp

lemma inc_from_snoc:
  "n \<le> length bs \<Longrightarrow> inc_from n (bs @ bs') = inc_from n bs @ bs'"
  by (induction n arbitrary: bs) (auto simp: nth_append list_update_append Let_def)

lemma length_inc_from [simp]: "length (inc_from n bs) = length bs"
  by (induction n bs rule: inc_from.induct) (simp_all add: Let_def)

lemma length_inc [simp]: "length (inc_byte_array bs) = length bs"
  by (simp add: inc_byte_array_def)

lemma inc_value: "be_value (inc_byte_array bs) = (be_value bs + 1) mod 256 ^ length bs"
proof (induction bs rule: rev_induct)
  case (snoc b bs)
  have step: "inc_byte_array (bs @ [b]) =
      (if b + 1 \<noteq> 0 then bs @ [b + 1] else inc_byte_array bs @ [0])"
    by (auto simp: inc_byte_array_def nth_append list_update_append inc_from_snoc)
  show ?case
  proof (cases "b + 1 = 0")
    case False
    then have "unat (b + 1) = unat b + 1"
      using unatSuc [of b] by (simp add: add.commute)
    then have "be_value (inc_byte_array (bs @ [b])) = be_value (bs @ [b]) + 1"
      using False by (simp add: step be_value_snoc)
    moreover have "be_value (inc_byte_array (bs @ [b])) < 256 ^ length (bs @ [b])"
      using be_value_bound [of "inc_byte_array (bs @ [b])"] by (simp del: length_append)
    ultimately show ?thesis by simp
  next
    case True
    then have "b = - 1" by (metis add_eq_0_iff2 add.commute eq_neg_iff_add_eq_0)
    then have "unat b = 255" by (simp add: unsigned_minus_1_eq_mask mask_eq_exp_minus_1)
    then have "be_value (bs @ [b]) + 1 = (be_value bs + 1) * 256" by (simp add: be_value_snoc)
    moreover have "be_value (inc_byte_array (bs @ [b])) = (be_value bs + 1) mod 256 ^ length bs * 256"
      using True snoc by (simp add: step be_value_snoc)
    ultimately show ?thesis
      by (simp only: mult_mod_left length_append list.size power_add) simp
  qed
qed (simp add: inc_byte_array_def)

text \<open>The bytes after a shift, from a byte on, given the byte before it.\<close>

fun shifted :: "nat \<Rightarrow> u8 \<Rightarrow> u8 list \<Rightarrow> u8 list" where
  "shifted k c [] = []"
| "shifted k c (b # bs) = (push_bit (8 - k) c OR drop_bit k b) # shifted k b bs"

lemma length_shift_from [simp]: "length (shift_from k n bs) = length bs"
  by (induction k n bs rule: shift_from.induct) simp_all

lemma length_shifted [simp]: "length (shifted k c bs) = length bs"
  by (induction k c bs rule: shifted.induct) simp_all

lemma nth_shift_from:
  "n < length bs \<Longrightarrow> j < length bs \<Longrightarrow>
   shift_from k n bs ! j =
     (if j > n then bs ! j else if j = 0 then drop_bit k (bs ! 0)
      else push_bit (8 - k) (bs ! (j - 1)) OR drop_bit k (bs ! j))"
proof (induction k n bs rule: shift_from.induct)
  case (2 k i buf)
  then show ?case by (cases "j = Suc i") (auto simp: nth_list_update)
qed (auto simp: nth_list_update)

lemma nth_shifted:
  "j < length bs \<Longrightarrow> shifted k c bs ! j =
     push_bit (8 - k) (if j = 0 then c else bs ! (j - 1)) OR drop_bit k (bs ! j)"
  by (induction k c bs arbitrary: j rule: shifted.induct) (auto simp: nth_Cons split: nat.split)

lemma buf_shift_shifted: "bs \<noteq> [] \<Longrightarrow> buf_shift_right bs k = shifted k 0 bs"
  by (rule nth_equalityI) (auto simp: buf_shift_right_def nth_shift_from nth_shifted)

lemma shift_byte:
  assumes "k \<le> 8"
  shows "unat (push_bit (8 - k) c OR drop_bit k (b :: u8)) = unat c mod 2 ^ k * 2 ^ (8 - k) + unat b div 2 ^ k"
proof -
  have small: "unat b div 2 ^ k < 2 ^ (8 - k)"
    using unat_u8 [of b] assms by (simp add: less_mult_imp_div_less flip: power_add)
  have "unat (push_bit (8 - k) c OR drop_bit k b)
      = take_bit 8 (push_bit (8 - k) (unat c)) OR drop_bit k (unat b)"
    by (simp add: unsigned_or_eq unsigned_push_bit_eq unsigned_drop_bit_eq take_bit_nat_eq_self unat_u8)
  also have "take_bit 8 (push_bit (8 - k) (unat c)) = push_bit (8 - k) (take_bit k (unat c))"
    using assms by (simp add: take_bit_push_bit)
  also have "push_bit (8 - k) (take_bit k (unat c)) OR drop_bit k (unat b) =
      push_bit (8 - k) (take_bit k (unat c)) + drop_bit k (unat b)"
  proof (rule disjunctive_add [symmetric])
    fix n
    have "\<not> bit (drop_bit k (unat b)) n" if "8 - k \<le> n"
    proof -
      have "drop_bit k (unat b) < 2 ^ n"
        unfolding drop_bit_eq_div using small power_increasing [OF that, of "2 :: nat"] by linarith
      then show ?thesis by (metis bit_take_bit_iff less_irrefl take_bit_nat_eq_self)
    qed
    then show "\<not> bit (push_bit (8 - k) (take_bit k (unat c))) n \<or> \<not> bit (drop_bit k (unat b)) n"
      by (auto simp: bit_push_bit_iff)
  qed
  finally show ?thesis by (simp add: push_bit_eq_mult take_bit_eq_mod drop_bit_eq_div)
qed

lemma shifted_value:
  "k \<le> 8 \<Longrightarrow> be_value (shifted k c bs) = (unat c mod 2 ^ k * 256 ^ length bs + be_value bs) div 2 ^ k"
proof (induction k c bs rule: shifted.induct)
  case (1 k c)
  then show ?case by simp
next
  case (2 k c b bs)
  define L where "L = (256 :: nat) ^ length bs"
  have p: "(256 :: nat) = 2 ^ (8 - k) * 2 ^ k" using 2(2) by (simp flip: power_add)
  have "be_value (shifted k c (b # bs)) =
      (unat c mod 2 ^ k * 2 ^ (8 - k) + unat b div 2 ^ k) * L + (unat b mod 2 ^ k * L + be_value bs) div 2 ^ k"
    using 2 by (simp add: shift_byte L_def)
  also have "\<dots> = (((unat c mod 2 ^ k * 2 ^ (8 - k) + unat b div 2 ^ k) * L) * 2 ^ k
      + (unat b mod 2 ^ k * L + be_value bs)) div 2 ^ k"
    by simp
  also have "((unat c mod 2 ^ k * 2 ^ (8 - k) + unat b div 2 ^ k) * L) * 2 ^ k + (unat b mod 2 ^ k * L + be_value bs)
      = unat c mod 2 ^ k * (2 ^ (8 - k) * 2 ^ k * L) + (unat b div 2 ^ k * 2 ^ k + unat b mod 2 ^ k) * L + be_value bs"
    by (simp only: algebra_simps)
  also have "\<dots> = unat c mod 2 ^ k * (256 * L) + unat b * L + be_value bs"
    by (simp only: div_mult_mod_eq flip: p)
  finally show ?case by (simp add: L_def add.assoc)
qed

section \<open>Properties\<close>

text \<open>Binary data survives hexadecimal text: what \<open>wpa_snprintf_hex\<close> prints into a buffer of
  sufficient size, in lower or upper case, \<open>hexstr2bin\<close> reads back; a smaller buffer gets the
  longest run of whole bytes that leaves room for the NUL.\<close>

theorem hex_roundtrip:
  "(2 * length data < n \<longrightarrow>
      hexstr2bin (wpa_snprintf_hex n data) (length data) = Some data \<and>
      hexstr2bin (wpa_snprintf_hex_uppercase n data) (length data) = Some data) \<and>
   wpa_snprintf_hex n data = concat (map (hex_byte False) (take ((n - 1) div 2) data))"
  using compact_concat [of data False "[]"] compact_concat [of data True "[]"]
  by (auto simp: hexstr2bin_def wpa_snprintf_hex_def wpa_snprintf_hex_uppercase_def snprintf_hex_def
      hex_loop_fits hex_loop_truncates [of False])

theorem hex_roundtrip_witness:
  "hexstr2bin (wpa_snprintf_hex 5 [0x0a, 0xff]) 2 = Some [0x0a, 0xff]"
  using hex_roundtrip [of "[0x0a, 0xff]" 5, THEN conjunct1] by (simp add: numeral_2_eq_2)

text \<open>Hardware addresses survive their text form: the text of an address and a mask is read back as
  the same address and the same mask, the mask being left out exactly when it is all ones; the
  free-form reader accepts the same text and reports all characters used.\<close>

theorem hwaddr_roundtrip:
  assumes "length addr = 6" and "length msk = 6" and "hwaddr_mask_txt len addr msk = Some line"
  shows "hwaddr_masked_aton line True = Some (addr, msk) \<and> length line < len \<and>
    hwaddr_aton line = Some addr \<and> hwaddr_aton2 (macstr addr) = Some (addr, length (macstr addr))"
proof -
  have ne: "addr \<noteq> []" "msk \<noteq> []" using assms(1,2) by auto
  have p: "hwaddr_parse (macstr addr @ r) = Some (addr, r)" "hwaddr_parse (macstr msk @ r) = Some (msk, r)" for r
    using parse_macstr [OF ne(1), of r] parse_macstr [OF ne(2), of r] by (simp_all add: hwaddr_parse_def assms(1,2))
  have all: "(\<exists>m\<in>set msk. m \<noteq> 0xff) \<longleftrightarrow> msk \<noteq> replicate 6 0xff"
    using assms(2) by (auto intro: replicate_eqI)
  have a2: "hwaddr_aton2 (macstr addr) = Some (addr, length (macstr addr))"
    using aton2_macstr [OF ne(1), of "[]"] by (simp add: hwaddr_aton2_def assms(1))
  have "hwaddr_masked_aton line True = Some (addr, msk) \<and> hwaddr_aton line = Some addr"
    using assms(3) p [of "[]"] p(1) [of "CHR ''/'' # macstr msk"] all
    by (auto simp: hwaddr_mask_txt_def hwaddr_masked_aton_def hwaddr_aton_def isspace_def code_def Let_def
        split: if_splits)
  moreover have "length line < len" using assms(3) by (auto simp: hwaddr_mask_txt_def Let_def split: if_splits)
  ultimately show ?thesis using a2 by simp
qed

theorem hwaddr_roundtrip_witness:
  "\<exists>line. hwaddr_mask_txt 40 [0, 0x11, 0x22, 0x33, 0x44, 0x55] [0xff, 0xff, 0, 0, 0, 0] = Some line \<and>
    hwaddr_masked_aton line True = Some ([0, 0x11, 0x22, 0x33, 0x44, 0x55], [0xff, 0xff, 0, 0, 0, 0])"
proof -
  obtain line where t: "hwaddr_mask_txt 40 [0, 0x11, 0x22, 0x33, 0x44, 0x55] [0xff, 0xff, 0, 0, 0, 0] = Some line"
    by (simp add: hwaddr_mask_txt_def Let_def)
  from hwaddr_roundtrip [OF _ _ t] t show ?thesis by simp
qed

text \<open>Byte arrays are big endian numbers: incrementing one adds one, rolling over at the largest
  value of its length, and shifting one right by up to eight bits divides it by the power of
  two.\<close>

theorem byte_array_arithmetic:
  "be_value (inc_byte_array bs) = (be_value bs + 1) mod 256 ^ length bs \<and>
   (bs \<noteq> [] \<and> k \<le> 8 \<longrightarrow> be_value (buf_shift_right bs k) = be_value bs div 2 ^ k)"
  by (simp add: inc_value buf_shift_shifted shifted_value)

theorem byte_array_arithmetic_witness:
  "be_value (buf_shift_right [0x12, 0x34] 4) = 0x123"
  using byte_array_arithmetic [of "[0x12, 0x34]" 4] by simp

end
