(* ===== verification/Escape_Text.thy ===== *)
theory Escape_Text
  imports Hex_Text
begin

text \<open>
  The second half of \<open>wpa_supplicant/src/utils/common.c\<close>: the escaped text forms of byte strings
  (\<open>printf_encode\<close>, \<open>printf_decode\<close>, \<open>utf8_escape\<close>, \<open>utf8_unescape\<close>), the string
  values of the configuration file, and SSIDs on the command line. Allocations are taken to
  succeed. A text form with its reader is the locale \<open>text_codec\<close>.
\<close>

section \<open>The escapes of \<open>printf\<close>\<close>

definition byte_of :: "char \<Rightarrow> u8" where "byte_of c = of_nat (code c)"
definition char_of_byte :: "u8 \<Rightarrow> char" where "char_of_byte b = char_of (unat b)"

definition esc :: "u8 \<Rightarrow> string" where
  "esc d =
     (if d = 34 then [CHR 0x5C, CHR 0x22]
      else if d = 92 then [CHR 0x5C, CHR 0x5C]
      else if d = 27 then [CHR 0x5C, CHR ''e'']
      else if d = 10 then [CHR 0x5C, CHR ''n'']
      else if d = 13 then [CHR 0x5C, CHR ''r'']
      else if d = 9 then [CHR 0x5C, CHR ''t'']
      else if d \<ge> 32 \<and> d \<le> 126 then [char_of_byte d]
      else [CHR 0x5C, CHR ''x''] @ hex_byte False d)"

text \<open>\<open>room\<close> is \<open>end - txt\<close>; the terminating NUL is written in any case.\<close>

fun printf_encode :: "nat \<Rightarrow> u8 list \<Rightarrow> string" where
  "printf_encode room [] = []"
| "printf_encode room (d # ds) =
     (if 4 \<ge> room then [] else esc d @ printf_encode (room - length (esc d)) ds)"

definition is_octal :: "char \<Rightarrow> bool" where
  "is_octal c \<longleftrightarrow> 48 \<le> code c \<and> code c \<le> 55"

text \<open>Up to two more octal digits behind the first, whose value is \<open>v\<close>.\<close>

definition octal_tail :: "nat \<Rightarrow> string \<Rightarrow> nat \<times> string" where
  "octal_tail v s =
     (let (v, s) = (if is_octal (peek s) then (v * 8 + (code (peek s) - 48), tl s) else (v, s))
      in if is_octal (peek s) then (v * 8 + (code (peek s) - 48), tl s) else (v, s))"

text \<open>What an escape stands for, read behind its backslash: a byte (or none) and the rest.\<close>

definition unesc :: "string \<Rightarrow> u8 option \<times> string" where
  "unesc s =
     (let c = peek s; r = tl s
      in if s = [] then (None, [])
         else if c = CHR 0x5C then (Some 92, r)
         else if c = CHR 0x22 then (Some 34, r)
         else if c = CHR ''n'' then (Some 10, r)
         else if c = CHR ''r'' then (Some 13, r)
         else if c = CHR ''t'' then (Some 9, r)
         else if c = CHR ''e'' then (Some 27, r)
         else if c = CHR ''x'' then
           (case hex2byte r of
              Some v \<Rightarrow> (Some v, drop 2 r)
            | None \<Rightarrow> (case hex2num (peek r) of
                        Some v \<Rightarrow> (Some (of_nat v), tl r)
                      | None \<Rightarrow> (None, r)))
         else if is_octal c then
           (case octal_tail (code c - 48) r of (v, r) \<Rightarrow> (Some (of_nat v), r))
         else (None, s))"

lemma octal_tail_length: "length (snd (octal_tail v s)) \<le> length s"
  by (auto simp: octal_tail_def Let_def)

lemma unesc_length: "length (snd (unesc s)) \<le> length s"
proof -
  have "length (snd (octal_tail v (tl s))) \<le> length s" for v
    using octal_tail_length [of v "tl s"] by simp
  then show ?thesis
    by (auto simp: unesc_def Let_def split: option.split prod.split) (metis snd_conv)+
qed

text \<open>\<open>room\<close> is \<open>maxlen - len\<close>; the loop keeps the last byte for the NUL.\<close>

function printf_decode :: "nat \<Rightarrow> string \<Rightarrow> u8 list" where
  "printf_decode room [] = []"
| "printf_decode room (c # cs) =
     (if room \<le> 1 then []
      else if c = CHR 0x5C then
        (case unesc cs of
           (Some v, r) \<Rightarrow> v # printf_decode (room - 1) r
         | (None, r) \<Rightarrow> printf_decode room r)
      else byte_of c # printf_decode (room - 1) cs)"
  by pat_completeness auto
termination
proof (relation "measure (\<lambda>(_, s). length s)")
qed (use unesc_length in \<open>auto simp: less_Suc_eq_le, (metis snd_conv)+\<close>)

definition SSID_MAX_LEN :: nat where "SSID_MAX_LEN = 32"

definition wpa_ssid_txt :: "u8 list option \<Rightarrow> string" where
  "wpa_ssid_txt ssid = (case ssid of None \<Rightarrow> [] | Some s \<Rightarrow> printf_encode (SSID_MAX_LEN * 4 + 1) s)"

section \<open>Values of the configuration file and SSIDs\<close>

text \<open>A quoted text: the last quote must be its last character (\<open>os_strrchr\<close>).\<close>

definition quoted_body :: "string \<Rightarrow> string option" where
  "quoted_body v = (if v \<noteq> [] \<and> last v = CHR 0x22 then Some (butlast v) else None)"

definition wpa_config_parse_string :: "string \<Rightarrow> u8 list option" where
  "wpa_config_parse_string value =
     (if peek value = CHR 0x22 then map_option (map byte_of) (quoted_body (tl value))
      else if peek value = CHR ''P'' \<and> peek2 value = CHR 0x22 then
        map_option (\<lambda>t. printf_decode (length t + 1) t) (quoted_body (drop 2 value))
      else if odd (length value) then None
      else hexstr2bin value (length value div 2))"

text \<open>The SSID, \<open>None\<close> for the result -1.\<close>

definition ssid_parse :: "string \<Rightarrow> u8 list option" where
  "ssid_parse buf =
     (let tmp = (if peek buf \<noteq> CHR 0x22 then Some (takeWhile (\<lambda>c. c \<noteq> CHR '' '') buf)
                 else case strchr (tl buf) (CHR 0x22) of
                        None \<Rightarrow> None
                      | Some e \<Rightarrow> Some (take (length buf - length e + 1) buf))
      in case tmp of
           None \<Rightarrow> None
         | Some t \<Rightarrow> (case wpa_config_parse_string t of
                        Some res \<Rightarrow> if res \<noteq> [] \<and> length res \<le> SSID_MAX_LEN then Some res else None
                      | None \<Rightarrow> None))"

section \<open>Escaped UTF-8\<close>

text \<open>
  \<open>inp\<close> is the text before its NUL, \<open>in_size = 0\<close> asks for all of it. \<open>None\<close> is the failure that
  returns 0; otherwise the length of the result is returned. \<open>room\<close> is \<open>out_size - res_size\<close>.
\<close>

fun utf8_unescape_loop :: "nat \<Rightarrow> string \<Rightarrow> string option" where
  "utf8_unescape_loop room [] = Some []"
| "utf8_unescape_loop room (c # cs) =
     (if room = 0 then None
      else if c = CHR 0x27 then Some []
      else if c = CHR 0x5C then
        (case cs of [] \<Rightarrow> None | e # r \<Rightarrow> map_option (Cons e) (utf8_unescape_loop (room - 1) r))
      else map_option (Cons c) (utf8_unescape_loop (room - 1) cs))"

definition utf8_unescape :: "string \<Rightarrow> nat \<Rightarrow> nat \<Rightarrow> string option" where
  "utf8_unescape inp in_size out_size =
     (let s = (if in_size = 0 then inp else take in_size inp)
      in utf8_unescape_loop out_size (if s \<noteq> [] \<and> hd s = CHR 0x27 then tl s else s))"

definition needs_escape :: "char \<Rightarrow> bool" where
  "needs_escape c \<longleftrightarrow> c = CHR 0x5C \<or> c = CHR 0x27"

fun utf8_escape_loop :: "nat \<Rightarrow> string \<Rightarrow> string option" where
  "utf8_escape_loop room [] = Some []"
| "utf8_escape_loop room (c # cs) =
     (if room = 0 then None
      else if needs_escape c then
        (if room = 1 then None
         else map_option (\<lambda>r. CHR 0x5C # c # r) (utf8_escape_loop (room - 2) cs))
      else map_option (Cons c) (utf8_escape_loop (room - 1) cs))"

definition utf8_escape :: "string \<Rightarrow> nat \<Rightarrow> nat \<Rightarrow> string option" where
  "utf8_escape inp in_size out_size =
     utf8_escape_loop out_size (if in_size = 0 then inp else take in_size inp)"

section \<open>Character tests and merging\<close>

definition is_hex :: "u8 list \<Rightarrow> bool" where
  "is_hex data = (\<exists>b\<in>set data. b < 32 \<or> b \<ge> 127)"

definition has_ctrl_char :: "u8 list \<Rightarrow> bool" where
  "has_ctrl_char data = (\<exists>b\<in>set data. b < 32 \<or> b = 127)"

definition has_newline :: "string \<Rightarrow> bool" where
  "has_newline s = (\<exists>c\<in>set s. code c = 10 \<or> code c = 13)"

definition merge_byte_arrays :: "nat \<Rightarrow> u8 list option \<Rightarrow> u8 list option \<Rightarrow> u8 list \<times> nat" where
  "merge_byte_arrays res_len src1 src2 =
     (let r0 = replicate res_len 0
      in case src1 of
           Some a \<Rightarrow>
             if length a \<ge> res_len then (take res_len a, res_len)
             else (case src2 of
                     Some b \<Rightarrow> if length a + length b \<ge> res_len then (a @ take (res_len - length a) b, res_len)
                               else (a @ b @ drop (length a + length b) r0, length a + length b)
                   | None \<Rightarrow> (a @ drop (length a) r0, length a))
         | None \<Rightarrow>
             (case src2 of
                Some b \<Rightarrow> if length b \<ge> res_len then (take res_len b, res_len)
                          else (b @ drop (length b) r0, length b)
              | None \<Rightarrow> (r0, 0)))"

section \<open>Text forms with a reader\<close>

locale text_codec =
  fixes render :: "'d \<Rightarrow> string" and parse :: "string \<Rightarrow> 'd option" and dom :: "'d \<Rightarrow> bool"
  assumes parse_render: "dom d \<Longrightarrow> parse (render d) = Some d"
begin

lemma render_inject: "dom d \<Longrightarrow> dom e \<Longrightarrow> render d = render e \<longleftrightarrow> d = e"
  using parse_render by (metis option.inject)

end

lemma byte_of_char_of_byte [simp]: "byte_of (char_of_byte b) = b"
  using unat_u8 [of b] by (simp add: byte_of_def char_of_byte_def code_char_of)

lemma char_of_byte_backslash: "char_of_byte b = CHR 0x5C \<longleftrightarrow> b = 92"
proof
  assume "char_of_byte b = CHR 0x5C"
  then have "byte_of (char_of_byte b) = byte_of (CHR 0x5C)" by (rule arg_cong)
  also have "\<dots> = 92" by code_simp
  finally show "b = 92" by simp
next
  have "char_of_byte 92 = CHR 0x5C" by code_simp
  then show "b = 92 \<Longrightarrow> char_of_byte b = CHR 0x5C" by simp
qed

lemma decode_esc:
  assumes "1 < room"
  shows "printf_decode room (esc d @ rest) = d # printf_decode (room - 1) rest"
proof -
  have "printf_decode room (CHR 0x5C # cs) = v # printf_decode (room - 1) r" if "unesc cs = (Some v, r)" for cs v r
    using assms that by simp
  moreover have "unesc (CHR 0x22 # rest) = (Some 34, rest)" "unesc (CHR 0x5C # rest) = (Some 92, rest)"
    "unesc (CHR ''e'' # rest) = (Some 27, rest)" "unesc (CHR ''n'' # rest) = (Some 10, rest)"
    "unesc (CHR ''r'' # rest) = (Some 13, rest)" "unesc (CHR ''t'' # rest) = (Some 9, rest)"
    "unesc (CHR ''x'' # hex_byte False d @ rest) = (Some d, rest)"
    by (simp_all add: unesc_def)
  moreover have "printf_decode room (char_of_byte d # rest) = d # printf_decode (room - 1) rest" if "d \<noteq> 92"
    using that assms by (simp add: char_of_byte_backslash)
  ultimately show ?thesis by (simp add: esc_def del: printf_decode.simps)
qed

lemma esc_length: "length (esc d) \<le> 4" "0 < length (esc d)"
  by (simp_all add: esc_def)

lemma encode_all: "4 * length ds < room \<Longrightarrow> printf_encode room ds = concat (map esc ds)"
proof (induction ds arbitrary: room)
  case (Cons d ds)
  then show ?case using esc_length [of d] Cons.IH [of "room - length (esc d)"] by simp
qed simp

lemma decode_concat: "length ds < room \<Longrightarrow> printf_decode room (concat (map esc ds)) = ds"
  by (induction ds arbitrary: room) (simp_all add: decode_esc del: printf_decode.simps(2))

lemma encode_length: "0 < room \<Longrightarrow> length (printf_encode room ds) < room"
proof (induction room ds rule: printf_encode.induct)
  case (2 room d ds)
  then show ?case using esc_length [of d] by (cases "4 \<ge> room") auto
qed simp

interpretation printf: text_codec "\<lambda>ds. concat (map esc ds)" "\<lambda>t. Some (printf_decode (length t + 1) t)" "\<lambda>_. True"
proof
  fix d :: "u8 list"
  have "length d \<le> length (concat (map esc d))"
  proof (induction d)
    case (Cons a d)
    have "0 < length (esc a)" by (rule esc_length(2))
    with Cons show ?case by (simp only: list.map concat.simps length_append list.size)
  qed simp
  then show "Some (printf_decode (length (concat (map esc d)) + 1) (concat (map esc d))) = Some d"
    by (simp add: decode_concat)
qed

lemma unescape_escape:
  "utf8_escape_loop n cs = Some out \<Longrightarrow> length cs \<le> room \<Longrightarrow> utf8_unescape_loop room out = Some cs"
proof (induction n cs arbitrary: out room rule: utf8_escape_loop.induct)
  case (2 n c cs)
  then obtain room' where room: "room = Suc room'" by (cases room) auto
  show ?case
  proof (cases "needs_escape c")
    case True
    with 2(3) obtain out' where "utf8_escape_loop (n - 2) cs = Some out'" "out = CHR 0x5C # c # out'" "n \<noteq> 0" "n \<noteq> 1"
      by (auto split: if_splits)
    with 2(1) [of out' room'] True 2(4) show ?thesis by (simp add: room)
  next
    case False
    with 2(3) obtain out' where "utf8_escape_loop (n - 1) cs = Some out'" "out = c # out'" "n \<noteq> 0"
      by (auto split: if_splits)
    with 2(2) [of out' room'] False 2(4) show ?thesis by (simp add: room needs_escape_def)
  qed
qed simp

lemma escape_bounds:
  "utf8_escape_loop n cs = Some out \<Longrightarrow> length out \<le> n \<and> length out = length cs + length (filter needs_escape cs)"
proof (induction n cs arbitrary: out rule: utf8_escape_loop.induct)
  case (2 n c cs)
  then show ?case by (cases "needs_escape c") (fastforce split: if_splits)+
qed simp

lemma escape_no_leading_quote: "utf8_escape_loop n cs = Some out \<Longrightarrow> out \<noteq> [] \<Longrightarrow> hd out \<noteq> CHR 0x27"
  by (cases cs) (auto simp: needs_escape_def split: if_splits)

lemma unescape_bound: "utf8_unescape_loop n cs = Some out \<Longrightarrow> length out \<le> n"
proof (induction n cs arbitrary: out rule: utf8_unescape_loop.induct)
  case (2 n c cs)
  then show ?case by (fastforce split: if_splits list.splits)
qed simp

section \<open>Properties\<close>

text \<open>Escaping is reversible and bounded: for every byte string and every buffer, \<open>printf_encode\<close>
  leaves room for its NUL; when the buffer has more than four bytes per input byte, decoding the
  text into a buffer that holds the bytes and one more gives the bytes back. So every SSID of
  at most 32 bytes has a text form that can be read back.\<close>

theorem printf_escapes_roundtrip:
  "(0 < room \<longrightarrow> length (printf_encode room ds) < room) \<and>
   (4 * length ds < room \<and> length ds < maxlen \<longrightarrow> printf_decode maxlen (printf_encode room ds) = ds) \<and>
   (length ds \<le> SSID_MAX_LEN \<longrightarrow> printf_decode 33 (wpa_ssid_txt (Some ds)) = ds)"
  by (simp add: encode_length encode_all decode_concat wpa_ssid_txt_def SSID_MAX_LEN_def)

theorem printf_escapes_roundtrip_witness:
  "printf_decode 33 (wpa_ssid_txt (Some [0x41, 0x22, 0x00, 0xc3, 0xa9])) = [0x41, 0x22, 0x00, 0xc3, 0xa9]"
  using printf_escapes_roundtrip [of 0 "[0x41, 0x22, 0x00, 0xc3, 0xa9]" 0] by (simp add: SSID_MAX_LEN_def)

lemma quoted_body_snoc [simp]: "quoted_body (s @ [CHR 0x22]) = Some s"
  by (simp add: quoted_body_def)

lemma hex_text_head:
  "ds \<noteq> [] \<Longrightarrow> peek (concat (map (hex_byte up) ds)) \<noteq> CHR 0x22 \<and> peek (concat (map (hex_byte up) ds)) \<noteq> CHR ''P''"
proof (cases ds)
  case (Cons a list)
  from hex_byte_peek [of up a] obtain c cs where c: "hex_byte up a = c # cs" "hex2num c \<noteq> None" by blast
  then have "c \<noteq> CHR 0x22 \<and> c \<noteq> CHR ''P''" by (auto simp: hex2num_def code_def)
  then show ?thesis by (simp add: Cons c)
qed simp

text \<open>A byte string written to the configuration file in any of its three forms is read back: as
  a quoted text (any characters, quotes included), as an escaped text behind \<open>P\<close>, and as
  hexadecimal digits of either case.\<close>

theorem config_string_forms:
  "wpa_config_parse_string (CHR 0x22 # s @ [CHR 0x22]) = Some (map byte_of s) \<and>
   wpa_config_parse_string (CHR ''P'' # CHR 0x22 # concat (map esc ds) @ [CHR 0x22]) = Some ds \<and>
   (ds \<noteq> [] \<longrightarrow> wpa_config_parse_string (concat (map (hex_byte up) ds)) = Some ds)"
proof -
  have "length (concat (map (hex_byte up) ds)) = 2 * length ds" by (induction ds) simp_all
  then show ?thesis
    using printf.parse_render [of ds] hex_text_head [of ds up] compact_concat [of ds up "[]"]
    by (simp add: wpa_config_parse_string_def hexstr2bin_def)
qed

theorem config_string_forms_witness:
  "wpa_config_parse_string (concat (map (hex_byte True) [0xde, 0xad])) = Some [0xde, 0xad]"
  using config_string_forms [of "[]" "[0xde, 0xad]" True] by simp

lemma strchr_hit: "c \<notin> set s \<Longrightarrow> strchr (s @ c # r) c = Some (c # r)"
  by (rule strchr_append)

text \<open>\<open>ssid_parse\<close> reads an SSID and nothing behind it: a result always has 1 to 32 bytes; a
  quoted SSID ends at its closing quote, a hexadecimal one at the first blank, whatever
  arguments follow.\<close>

theorem ssid_parse_spec:
  "(ssid_parse buf = Some res \<longrightarrow> 0 < length res \<and> length res \<le> 32) \<and>
   (s \<noteq> [] \<and> length s \<le> 32 \<and> CHR 0x22 \<notin> set s \<longrightarrow>
      ssid_parse (CHR 0x22 # s @ CHR 0x22 # rest) = Some (map byte_of s)) \<and>
   (ds \<noteq> [] \<and> length ds \<le> 32 \<longrightarrow>
      ssid_parse (concat (map (hex_byte up) ds) @ CHR '' '' # rest) = Some ds)"
proof (intro conjI impI)
  assume "ssid_parse buf = Some res"
  then show "0 < length res" "length res \<le> 32"
    by (auto simp: ssid_parse_def Let_def SSID_MAX_LEN_def split: option.splits if_splits)
next
  assume s: "s \<noteq> [] \<and> length s \<le> 32 \<and> CHR 0x22 \<notin> set s"
  then have "strchr (s @ CHR 0x22 # rest) (CHR 0x22) = Some (CHR 0x22 # rest)" by (simp add: strchr_append)
  with s show "ssid_parse (CHR 0x22 # s @ CHR 0x22 # rest) = Some (map byte_of s)"
    by (simp add: ssid_parse_def wpa_config_parse_string_def SSID_MAX_LEN_def Suc_diff_le)
next
  assume ds: "ds \<noteq> [] \<and> length ds \<le> 32"
  have "\<forall>c\<in>set (hex_byte up b). c \<noteq> CHR '' ''" for b
    using hex2num_digit [of "unat b div 16" up] hex2num_digit [of "unat b mod 16" up] unat_u8 [of b]
    by (auto simp: hex_byte_def hex2num_def code_def less_mult_imp_div_less split: if_splits)
  then have "\<forall>c\<in>set (concat (map (hex_byte up) ds)). c \<noteq> CHR '' ''" by auto
  then have "takeWhile (\<lambda>c. c \<noteq> CHR '' '') (concat (map (hex_byte up) ds) @ CHR '' '' # rest) = concat (map (hex_byte up) ds)"
    by (simp add: takeWhile_append)
  moreover have "wpa_config_parse_string (concat (map (hex_byte up) ds)) = Some ds"
  proof -
    have "length (concat (map (hex_byte up) ds)) = 2 * length ds" by (induction ds) simp_all
    then show ?thesis using ds hex_text_head [of ds up] compact_concat [of ds up "[]"]
      by (simp add: wpa_config_parse_string_def hexstr2bin_def)
  qed
  moreover have "peek (concat (map (hex_byte up) ds) @ CHR '' '' # rest) \<noteq> CHR 0x22"
  proof -
    obtain a list where "ds = a # list" using ds by (cases ds) auto
    then show ?thesis using hex_text_head [of ds up] by (simp add: hex_byte_def)
  qed
  ultimately show "ssid_parse (concat (map (hex_byte up) ds) @ CHR '' '' # rest) = Some ds"
    using ds by (simp add: ssid_parse_def SSID_MAX_LEN_def)
qed

theorem ssid_parse_spec_witness:
  "ssid_parse (CHR 0x22 # ''home'' @ CHR 0x22 # '' key=1'') = Some (map byte_of ''home'')"
  using ssid_parse_spec [of "[]" "[]" "''home''" "'' key=1''" "[]" True] by simp

text \<open>Escaped UTF-8 reads back: whatever the two buffer sizes, an escape that succeeds fits its
  buffer, adds one character per quote or backslash, and unescapes to the text it came from.\<close>

theorem utf8_escape_roundtrip:
  assumes "utf8_escape inp 0 n = Some out" and "length inp \<le> m" and "out \<noteq> []"
  shows "utf8_unescape out 0 m = Some inp \<and> length out \<le> n \<and>
    length out = length inp + length (filter needs_escape inp)"
  using unescape_escape [of n inp out m] escape_bounds [of n inp out] escape_no_leading_quote [of n inp out] assms
  by (simp add: utf8_escape_def utf8_unescape_def)

theorem utf8_escape_roundtrip_witness:
  "\<exists>out. utf8_escape [CHR 0x27, CHR ''a''] 0 5 = Some out \<and> utf8_unescape out 0 2 = Some [CHR 0x27, CHR ''a'']"
proof -
  obtain out where o: "utf8_escape [CHR 0x27, CHR ''a''] 0 5 = Some out" "out \<noteq> []"
    by (simp add: utf8_escape_def needs_escape_def)
  from utf8_escape_roundtrip [OF o(1) _ o(2), of 2] o(1) show ?thesis by simp
qed

end
