(* ===== verification/Chan_Freq.thy ===== *)
theory Chan_Freq
  imports Prelude
begin

text \<open>
  Channels, frequencies and operating classes: the tables and conversions of
  \<open>wpa_supplicant/src/common/ieee802_11_common.c\<close>. Frequencies (MHz), channels and operating
  classes are natural numbers; they stay far below the bounds of the C types (\<open>unsigned int\<close> and
  \<open>u8\<close>), and -1 is an \<open>int\<close>. A country is the string the caller passes, \<open>None\<close> when NULL.
\<close>

section \<open>Frequency to channel\<close>

datatype hw_mode = MODE_B | MODE_G | MODE_A | MODE_AD

datatype chanwidth = USE_HT | W80 | W160 | W80P80

text \<open>\<open>NUM_HOSTAPD_MODES\<close>, the failure, is \<open>None\<close>; a success has mode, class and channel.\<close>

definition ieee80211_freq_to_channel_ext ::
  "nat \<Rightarrow> int \<Rightarrow> chanwidth \<Rightarrow> (hw_mode \<times> nat \<times> nat) option" where
  "ieee80211_freq_to_channel_ext freq sec vht =
     (let by_sec = \<lambda>above below none. if sec = 1 then above else if sec = - 1 then below else none;
          vht_opclass = (case vht of W80 \<Rightarrow> 128 | W160 \<Rightarrow> 129 | W80P80 \<Rightarrow> 130 | USE_HT \<Rightarrow> 0);
          a5 = \<lambda>above below none. if (freq - 5000) mod 5 \<noteq> 0 then None
                 else Some (MODE_A, if vht_opclass \<noteq> 0 then vht_opclass else by_sec above below none,
                            (freq - 5000) div 5)
      in if sec > 1 \<or> sec < - 1 then None
         else if freq \<ge> 2412 \<and> freq \<le> 2472 then
           (if (freq - 2407) mod 5 \<noteq> 0 then None
            else if vht \<noteq> USE_HT then None
            else Some (MODE_G, by_sec 83 84 81, (freq - 2407) div 5))
         else if freq = 2484 then
           (if sec \<noteq> 0 \<or> vht \<noteq> USE_HT then None else Some (MODE_B, 82, 14))
         else if freq \<ge> 4900 \<and> freq < 5000 then
           (if (freq - 4000) mod 5 \<noteq> 0 then None else Some (MODE_A, 0, (freq - 4000) div 5))
         else if freq \<ge> 5180 \<and> freq \<le> 5240 then a5 116 117 115
         else if freq \<ge> 5260 \<and> freq \<le> 5320 then a5 119 120 118
         else if freq \<ge> 5745 \<and> freq \<le> 5845 then a5 126 127 (if freq \<le> 5805 then 124 else 125)
         else if freq \<ge> 5000 \<and> freq \<le> 5700 then a5 122 123 121
         else if freq \<ge> 5000 \<and> freq < 5900 then
           (if (freq - 5000) mod 5 \<noteq> 0 then None else Some (MODE_A, 0, (freq - 5000) div 5))
         else if freq \<ge> 56160 + 2160 * 1 \<and> freq \<le> 56160 + 2160 * 4 then
           (if sec \<noteq> 0 \<or> vht \<noteq> USE_HT then None else Some (MODE_AD, 180, (freq - 56160) div 2160))
         else None)"

definition ieee80211_freq_to_chan :: "nat \<Rightarrow> (hw_mode \<times> nat) option" where
  "ieee80211_freq_to_chan freq =
     map_option (\<lambda>(m, _, ch). (m, ch)) (ieee80211_freq_to_channel_ext freq 0 USE_HT)"

datatype chan_width = CW_UNKNOWN | CW_20_NOHT | CW_20 | CW_40 | CW_80 | CW_80P80 | CW_160

definition ieee80211_chaninfo_to_channel :: "nat \<Rightarrow> chan_width \<Rightarrow> int \<Rightarrow> (nat \<times> nat) option" where
  "ieee80211_chaninfo_to_channel freq w sec =
     (let vht = (case w of CW_80 \<Rightarrow> W80 | CW_80P80 \<Rightarrow> W80P80 | CW_160 \<Rightarrow> W160 | _ \<Rightarrow> USE_HT)
      in map_option snd (ieee80211_freq_to_channel_ext freq sec vht))"

datatype phy_type = PHY_UNSPECIFIED | PHY_HRDSSS | PHY_OFDM | PHY_ERP | PHY_DMG | PHY_HT | PHY_VHT

definition ieee80211_phy_type_by_freq :: "nat \<Rightarrow> phy_type" where
  "ieee80211_phy_type_by_freq freq =
     (case ieee80211_freq_to_chan freq of
        Some (MODE_A, _) \<Rightarrow> PHY_OFDM
      | Some (MODE_B, _) \<Rightarrow> PHY_HRDSSS
      | Some (MODE_G, _) \<Rightarrow> PHY_ERP
      | Some (MODE_AD, _) \<Rightarrow> PHY_DMG
      | None \<Rightarrow> PHY_UNSPECIFIED)"

definition ieee80211_get_phy_type :: "nat \<Rightarrow> bool \<Rightarrow> bool \<Rightarrow> phy_type" where
  "ieee80211_get_phy_type freq ht vht =
     (if vht then PHY_VHT else if ht then PHY_HT else ieee80211_phy_type_by_freq freq)"

section \<open>Channel to frequency\<close>

definition us_op_class_cc :: "string list" where
  "us_op_class_cc = [''US'', ''CA'']"

definition eu_op_class_cc :: "string list" where
  "eu_op_class_cc = [''AL'', ''AM'', ''AT'', ''AZ'', ''BA'', ''BE'', ''BG'', ''BY'', ''CH'', ''CY'',
      ''CZ'', ''DE'', ''DK'', ''EE'', ''EL'', ''ES'', ''FI'', ''FR'', ''GE'', ''HR'',
      ''HU'', ''IE'', ''IS'', ''IT'', ''LI'', ''LT'', ''LU'', ''LV'', ''MD'', ''ME'',
      ''MK'', ''MT'', ''NL'', ''NO'', ''PL'', ''PT'', ''RO'', ''RS'', ''RU'', ''SE'',
      ''SI'', ''SK'', ''TR'', ''UA'', ''UK'']"

definition jp_op_class_cc :: "string list" where
  "jp_op_class_cc = [''JP'']"

definition cn_op_class_cc :: "string list" where
  "cn_op_class_cc = [''CN'']"

text \<open>Only the first two letters count.\<close>

definition country_match :: "string list \<Rightarrow> string option \<Rightarrow> bool" where
  "country_match cc country =
     (case country of
        None \<Rightarrow> False
      | Some c \<Rightarrow> \<exists>x\<in>set cc. peek x = peek c \<and> peek2 x = peek2 c)"

text \<open>One arm of the switches: the channels \<open>lo\<close> to \<open>hi\<close> on a grid.\<close>

definition chan_range :: "nat \<Rightarrow> nat \<Rightarrow> nat \<Rightarrow> nat \<Rightarrow> nat \<Rightarrow> int" where
  "chan_range lo hi base step chan = (if chan < lo \<or> chan > hi then - 1 else int (base + step * chan))"

definition ieee80211_chan_to_freq_us :: "nat \<Rightarrow> nat \<Rightarrow> int" where
  "ieee80211_chan_to_freq_us op_class chan =
     (if op_class \<in> {12, 32, 33} then
        chan_range 1 11 2407 5 chan
      else if op_class \<in> {1, 2, 22, 23, 27, 28} then
        chan_range 36 64 5000 5 chan
      else if op_class \<in> {4, 24} then
        chan_range 100 144 5000 5 chan
      else if op_class \<in> {3, 25, 26, 30, 31} then
        chan_range 149 161 5000 5 chan
      else if op_class = 5 then
        chan_range 149 165 5000 5 chan
      else if op_class = 34 then
        chan_range 1 3 56160 2160 chan
      else - 1)"

definition ieee80211_chan_to_freq_eu :: "nat \<Rightarrow> nat \<Rightarrow> int" where
  "ieee80211_chan_to_freq_eu op_class chan =
     (if op_class \<in> {4, 11, 12} then
        chan_range 1 13 2407 5 chan
      else if op_class \<in> {1, 2, 5, 6, 8, 9} then
        chan_range 36 64 5000 5 chan
      else if op_class \<in> {3, 7, 10, 16} then
        chan_range 100 140 5000 5 chan
      else if op_class = 17 then
        chan_range 149 169 5000 5 chan
      else if op_class = 18 then
        chan_range 1 4 56160 2160 chan
      else - 1)"

definition ieee80211_chan_to_freq_jp :: "nat \<Rightarrow> nat \<Rightarrow> int" where
  "ieee80211_chan_to_freq_jp op_class chan =
     (if op_class \<in> {30, 56, 57} then
        chan_range 1 13 2407 5 chan
      else if op_class = 31 then
        chan_range 14 14 2414 5 chan
      else if op_class \<in> {1, 32, 33, 36, 37, 38, 41, 42, 43} then
        chan_range 34 64 5000 5 chan
      else if op_class \<in> {34, 35, 39, 40, 44, 45, 58} then
        chan_range 100 140 5000 5 chan
      else if op_class = 59 then
        chan_range 1 3 56160 2160 chan
      else - 1)"

definition ieee80211_chan_to_freq_cn :: "nat \<Rightarrow> nat \<Rightarrow> int" where
  "ieee80211_chan_to_freq_cn op_class chan =
     (if op_class \<in> {7, 8, 9} then
        chan_range 1 13 2407 5 chan
      else if op_class \<in> {1, 2, 4, 5} then
        chan_range 36 64 5000 5 chan
      else if op_class \<in> {3, 6} then
        chan_range 149 165 5000 5 chan
      else - 1)"

definition ieee80211_chan_to_freq_global :: "nat \<Rightarrow> nat \<Rightarrow> int" where
  "ieee80211_chan_to_freq_global op_class chan =
     (if op_class = 81 then
        chan_range 1 13 2407 5 chan
      else if op_class = 82 then
        chan_range 14 14 2414 5 chan
      else if op_class \<in> {83, 84} then
        chan_range 1 13 2407 5 chan
      else if op_class \<in> {115, 116, 117, 118, 119, 120} then
        chan_range 36 64 5000 5 chan
      else if op_class \<in> {121, 122, 123} then
        chan_range 100 140 5000 5 chan
      else if op_class \<in> {124, 126, 127} then
        chan_range 149 161 5000 5 chan
      else if op_class = 125 then
        chan_range 149 169 5000 5 chan
      else if op_class \<in> {128, 130} then
        chan_range 36 161 5000 5 chan
      else if op_class = 129 then
        chan_range 36 128 5000 5 chan
      else if op_class = 180 then
        chan_range 1 4 56160 2160 chan
      else - 1)"

definition ieee80211_chan_to_freq :: "string option \<Rightarrow> nat \<Rightarrow> nat \<Rightarrow> int" where
  "ieee80211_chan_to_freq country op_class chan =
     (let us = ieee80211_chan_to_freq_us op_class chan; eu = ieee80211_chan_to_freq_eu op_class chan;
          jp = ieee80211_chan_to_freq_jp op_class chan; cn = ieee80211_chan_to_freq_cn op_class chan
      in if country_match us_op_class_cc country \<and> us > 0 then us
         else if country_match eu_op_class_cc country \<and> eu > 0 then eu
         else if country_match jp_op_class_cc country \<and> jp > 0 then jp
         else if country_match cn_op_class_cc country \<and> cn > 0 then cn
         else ieee80211_chan_to_freq_global op_class chan)"

section \<open>Operating classes\<close>

datatype bw = BW20 | BW40PLUS | BW40MINUS | BW80 | BW2160 | BW160 | BW80P80

record oper_class_map =
  om_mode :: hw_mode
  om_class :: nat
  min_chan :: nat
  max_chan :: nat
  chan_inc :: nat
  om_bw :: bw
  p2p_supp :: bool

abbreviation oper :: "hw_mode \<Rightarrow> nat \<Rightarrow> nat \<Rightarrow> nat \<Rightarrow> nat \<Rightarrow> bw \<Rightarrow> bool \<Rightarrow> oper_class_map" where
  "oper m c lo hi inc b p \<equiv> \<lparr>om_mode = m, om_class = c, min_chan = lo, max_chan = hi, chan_inc = inc,
     om_bw = b, p2p_supp = p\<rparr>"

text \<open>The table without its terminating row.\<close>

definition global_op_class :: "oper_class_map list" where
  "global_op_class =
     [oper MODE_G 81 1 13 1 BW20 True,
      oper MODE_G 82 14 14 1 BW20 False,
      oper MODE_G 83 1 9 1 BW40PLUS False,
      oper MODE_G 84 5 13 1 BW40MINUS False,
      oper MODE_A 115 36 48 4 BW20 True,
      oper MODE_A 116 36 44 8 BW40PLUS True,
      oper MODE_A 117 40 48 8 BW40MINUS True,
      oper MODE_A 118 52 64 4 BW20 False,
      oper MODE_A 119 52 60 8 BW40PLUS False,
      oper MODE_A 120 56 64 8 BW40MINUS False,
      oper MODE_A 121 100 140 4 BW20 False,
      oper MODE_A 122 100 132 8 BW40PLUS False,
      oper MODE_A 123 104 136 8 BW40MINUS False,
      oper MODE_A 124 149 161 4 BW20 True,
      oper MODE_A 125 149 169 4 BW20 True,
      oper MODE_A 126 149 157 8 BW40PLUS True,
      oper MODE_A 127 153 161 8 BW40MINUS True,
      oper MODE_A 128 36 161 4 BW80 True,
      oper MODE_A 129 50 114 16 BW160 True,
      oper MODE_A 130 36 161 4 BW80P80 True,
      oper MODE_AD 180 1 4 1 BW2160 True]"

definition us_op_class :: "(nat \<times> nat) list" where
  "us_op_class =
     [(1, 115), (2, 118), (3, 124), (4, 121), (5, 125), (12, 81), (22, 116), (23, 119),
      (24, 122), (25, 126), (26, 126), (27, 117), (28, 120), (29, 123), (30, 127), (31,
      127), (32, 83), (33, 84), (34, 180)]"

definition eu_op_class :: "(nat \<times> nat) list" where
  "eu_op_class =
     [(1, 115), (2, 118), (3, 121), (4, 81), (5, 116), (6, 119), (7, 122), (8, 117), (9,
      120), (10, 123), (11, 83), (12, 84), (17, 125), (18, 180)]"

definition jp_op_class :: "(nat \<times> nat) list" where
  "jp_op_class =
     [(1, 115), (30, 81), (31, 82), (32, 118), (33, 118), (34, 121), (35, 121), (36, 116),
      (37, 119), (38, 119), (39, 122), (40, 122), (41, 117), (42, 120), (43, 120), (44,
      123), (45, 123), (56, 83), (57, 84), (58, 121), (59, 180)]"

definition cn_op_class :: "(nat \<times> nat) list" where
  "cn_op_class =
     [(1, 115), (2, 118), (3, 125), (4, 116), (5, 119), (6, 126), (7, 81), (8, 83), (9,
      84)]"

fun global_op_class_from_country_array :: "nat \<Rightarrow> (nat \<times> nat) list \<Rightarrow> nat" where
  "global_op_class_from_country_array op_class [] = 0"
| "global_op_class_from_country_array op_class ((c, g) # rest) =
     (if c = op_class then g else global_op_class_from_country_array op_class rest)"

definition country_to_global_op_class :: "string option \<Rightarrow> nat \<Rightarrow> nat" where
  "country_to_global_op_class country op_class =
     (let via = \<lambda>arr. (let g = global_op_class_from_country_array op_class arr
                       in if g \<noteq> 0 then g else op_class)
      in if country_match us_op_class_cc country then via us_op_class
         else if country_match eu_op_class_cc country then via eu_op_class
         else if country_match jp_op_class_cc country then via jp_op_class
         else if country_match cn_op_class_cc country then via cn_op_class
         else op_class)"

definition get_oper_class :: "string option \<Rightarrow> nat \<Rightarrow> oper_class_map option" where
  "get_oper_class country op_class =
     (let c = (if country = None then op_class else country_to_global_op_class country op_class)
      in find (\<lambda>op. om_class op = c) global_op_class)"

definition oper_class_bw_to_int :: "oper_class_map \<Rightarrow> nat" where
  "oper_class_bw_to_int m =
     (case om_bw m of BW20 \<Rightarrow> 20 | BW40PLUS \<Rightarrow> 40 | BW40MINUS \<Rightarrow> 40 | BW80 \<Rightarrow> 80
      | BW80P80 \<Rightarrow> 160 | BW160 \<Rightarrow> 160 | BW2160 \<Rightarrow> 2160)"

section \<open>From a channel and back\<close>

lemma chan_range_pos: "chan_range lo hi base step ch = int f \<longleftrightarrow> lo \<le> ch \<and> ch \<le> hi \<and> f = base + step * ch"
proof -
  have "int (base + step * ch) = int f \<longleftrightarrow> base + step * ch = f" by (rule of_nat_eq_iff)
  then show ?thesis unfolding chan_range_def by auto
qed

lemma freq_2g: "1 \<le> ch \<Longrightarrow> ch \<le> 13 \<Longrightarrow> ieee80211_freq_to_chan (2407 + 5 * ch) = Some (MODE_G, ch)"
  by (simp add: ieee80211_freq_to_chan_def ieee80211_freq_to_channel_ext_def)

lemma freq_14: "ieee80211_freq_to_chan 2484 = Some (MODE_B, 14)"
  by (simp add: ieee80211_freq_to_chan_def ieee80211_freq_to_channel_ext_def)

lemma freq_5g: "ch < 180 \<Longrightarrow> ieee80211_freq_to_chan (5000 + 5 * ch) = Some (MODE_A, ch)"
  by (simp add: ieee80211_freq_to_chan_def ieee80211_freq_to_channel_ext_def Let_def)

lemma freq_60g: "1 \<le> ch \<Longrightarrow> ch \<le> 4 \<Longrightarrow> ieee80211_freq_to_chan (56160 + 2160 * ch) = Some (MODE_AD, ch)"
  by (simp add: ieee80211_freq_to_chan_def ieee80211_freq_to_channel_ext_def)

lemma global_chan_freq:
  "ieee80211_chan_to_freq_global c ch = int f \<Longrightarrow> \<exists>m. ieee80211_freq_to_chan f = Some (m, ch)"
  unfolding ieee80211_chan_to_freq_global_def
  by (simp add: chan_range_pos split: if_split_asm) (auto simp: freq_2g freq_14 freq_5g freq_60g)

lemma country_chan_freq:
  "ieee80211_chan_to_freq_us c ch = int f \<Longrightarrow> \<exists>m. ieee80211_freq_to_chan f = Some (m, ch)"
  "ieee80211_chan_to_freq_eu c ch = int f \<Longrightarrow> \<exists>m. ieee80211_freq_to_chan f = Some (m, ch)"
  "ieee80211_chan_to_freq_jp c ch = int f \<Longrightarrow> \<exists>m. ieee80211_freq_to_chan f = Some (m, ch)"
  "ieee80211_chan_to_freq_cn c ch = int f \<Longrightarrow> \<exists>m. ieee80211_freq_to_chan f = Some (m, ch)"
  unfolding ieee80211_chan_to_freq_us_def ieee80211_chan_to_freq_eu_def ieee80211_chan_to_freq_jp_def
    ieee80211_chan_to_freq_cn_def
  by (simp_all add: chan_range_pos split: if_split_asm) (auto simp: freq_2g freq_14 freq_5g freq_60g)

section \<open>Properties\<close>

text \<open>C40: A frequency that a country's or the global operating classes assign to a channel leads back to
  that channel: \<open>ieee80211_freq_to_chan\<close> inverts \<open>ieee80211_chan_to_freq\<close> wherever that
  succeeds.\<close>

theorem channel_roundtrip:
  assumes "ieee80211_chan_to_freq country op_class chan = int f"
  shows "\<exists>m. ieee80211_freq_to_chan f = Some (m, chan)"
  using assms global_chan_freq country_chan_freq
  unfolding ieee80211_chan_to_freq_def Let_def by (simp split: if_split_asm)

theorem channel_roundtrip_witness:
  "ieee80211_chan_to_freq (Some ''US'') 4 100 = 5500 \<and> (\<exists>m. ieee80211_freq_to_chan 5500 = Some (m, 100))"
proof -
  have "ieee80211_chan_to_freq (Some ''US'') 4 100 = int 5500" by code_simp
  from channel_roundtrip [OF this] this show ?thesis by simp
qed

text \<open>The frequencies that are given a 20 MHz or 60 GHz class to which they do not belong.\<close>

definition off_grid :: "nat \<Rightarrow> bool" where
  "off_grid f \<longleftrightarrow> (5000 \<le> f \<and> f < 5180) \<or> (5240 < f \<and> f < 5260) \<or> (5320 < f \<and> f < 5500) \<or>
     (56160 < f \<and> (f - 56160) mod 2160 \<noteq> 0)"

lemma chan_to_freq_global_simps:
  "ieee80211_chan_to_freq_global 81 ch = chan_range 1 13 2407 5 ch"
  "ieee80211_chan_to_freq_global 82 ch = chan_range 14 14 2414 5 ch"
  "ieee80211_chan_to_freq_global 115 ch = chan_range 36 64 5000 5 ch"
  "ieee80211_chan_to_freq_global 118 ch = chan_range 36 64 5000 5 ch"
  "ieee80211_chan_to_freq_global 121 ch = chan_range 100 140 5000 5 ch"
  "ieee80211_chan_to_freq_global 124 ch = chan_range 149 161 5000 5 ch"
  "ieee80211_chan_to_freq_global 125 ch = chan_range 149 169 5000 5 ch"
  "ieee80211_chan_to_freq_global 180 ch = chan_range 1 4 56160 2160 ch"
  by (simp_all add: ieee80211_chan_to_freq_global_def)

lemma mod5_eq: "b \<le> f \<Longrightarrow> (f - b) mod 5 = 0 \<Longrightarrow> \<exists>q. f = b + 5 * q \<and> (f - b) div 5 = (q :: nat)"
  by (intro exI [of _ "(f - b) div 5"]) (use mult_div_mod_eq [of 5 "f - b"] in linarith)

lemma ext_cases [consumes 2, case_names g2 b14 low52 mid52 high149 high165 mid100 ad]:
  assumes "ieee80211_freq_to_channel_ext f 0 USE_HT = Some (m, c, ch)" and "c \<noteq> 0"
  obtains
    "1 \<le> ch" "ch \<le> 13" "f = 2407 + 5 * ch" "c = 81"
  | "f = 2484" "c = 82" "ch = 14"
  | "36 \<le> ch" "ch \<le> 48" "f = 5000 + 5 * ch" "c = 115"
  | "52 \<le> ch" "ch \<le> 64" "f = 5000 + 5 * ch" "c = 118"
  | "149 \<le> ch" "ch \<le> 161" "f = 5000 + 5 * ch" "c = 124"
  | "162 \<le> ch" "ch \<le> 169" "f = 5000 + 5 * ch" "c = 125"
  | "ch \<le> 140" "ch < 36 \<or> (48 < ch \<and> ch < 52) \<or> 64 < ch" "f = 5000 + 5 * ch" "c = 121"
  | "58320 \<le> f" "f \<le> 64800" "ch = (f - 56160) div 2160" "c = 180"
proof -
  have a: "f < 4900 \<or> 5000 \<le> f"
    using assms by (auto simp: ieee80211_freq_to_channel_ext_def Let_def split: if_split_asm)
  consider "f \<le> 2472" | "2472 < f" "f < 4900" | "5000 \<le> f" "f < 5900" | "5900 \<le> f" using a by linarith
  then show thesis
  proof cases
    case 1
    then have r: "2412 \<le> f" "(f - 2407) mod 5 = 0" "c = 81" "ch = (f - 2407) div 5"
      using assms by (auto simp: ieee80211_freq_to_channel_ext_def Let_def split: if_split_asm)
    then have f: "f = 2407 + 5 * ch" using mod5_eq [of 2407 f] by auto
    have "1 \<le> ch \<and> ch \<le> 13" using r(1) 1 unfolding f by linarith
    with that(1) f r(3) show thesis by blast
  next
    case 2
    then show thesis using assms that(2)
      by (auto simp: ieee80211_freq_to_channel_ext_def Let_def split: if_split_asm)
  next
    case 3
    then have m: "(f - 5000) mod 5 = 0" "ch = (f - 5000) div 5" "f \<le> 5845" and
      c: "c = (if 5180 \<le> f \<and> f \<le> 5240 then 115 else if 5260 \<le> f \<and> f \<le> 5320 then 118
        else if 5745 \<le> f then (if f \<le> 5805 then 124 else 125) else 121)" and
      gap: "f \<le> 5700 \<or> 5745 \<le> f"
      using assms unfolding ieee80211_freq_to_channel_ext_def Let_def by (simp_all split: if_split_asm)
    with mod5_eq [of 5000 f] 3 have f: "f = 5000 + 5 * ch" by auto
    consider "36 \<le> ch" "ch \<le> 48" | "52 \<le> ch" "ch \<le> 64" | "149 \<le> ch" "ch \<le> 161"
      | "162 \<le> ch" "ch \<le> 169" | "ch \<le> 140" "ch < 36 \<or> (48 < ch \<and> ch < 52) \<or> 64 < ch"
      using gap m(3) unfolding f by linarith
    then show thesis
    proof cases
      case 1 then show thesis using c that(3) unfolding f by simp
    next
      case 2 then show thesis using c that(4) unfolding f by simp
    next
      case 3 then show thesis using c that(5) unfolding f by simp
    next
      case 4 then show thesis using c that(6) unfolding f by simp
    next
      case 5
      then have "c = 121" using c unfolding f by auto
      with 5 that(7) f show thesis by simp
    qed
  next
    case 4
    then show thesis using assms that(8)
      by (auto simp: ieee80211_freq_to_channel_ext_def Let_def split: if_split_asm)
  qed
qed

text \<open>The way back from a frequency: without a secondary channel or a VHT width, the operating
  class and channel that \<open>ieee80211_freq_to_channel_ext\<close> returns stand for the frequency
  exactly when it is not off the grid. The frequencies 5000 to 5175, 5245 to 5255 and 5325 to 5495
  are answered with class 121, whose channels start at 100, and every frequency of the 60 GHz
  band with the channel below it.\<close>

theorem freq_class_roundtrip:
  assumes "ieee80211_freq_to_channel_ext f 0 USE_HT = Some (m, c, ch)" and "c \<noteq> 0"
  shows "ieee80211_chan_to_freq_global c ch = int f \<longleftrightarrow> \<not> off_grid f"
  using assms
proof (cases rule: ext_cases)
  case ad
  have "1 \<le> ch" "ch \<le> 4"
    using ad div_le_mono [of "f - 56160" 8640 2160] div_le_mono [of 2160 "f - 56160" 2160] by auto
  moreover have "f = 56160 + 2160 * ch \<longleftrightarrow> (f - 56160) mod 2160 = 0"
    using ad(1,3) mult_div_mod_eq [of 2160 "f - 56160"] by linarith
  moreover have "off_grid f \<longleftrightarrow> (f - 56160) mod 2160 \<noteq> 0" using ad(1,2) by (auto simp: off_grid_def)
  ultimately show ?thesis by (auto simp: ad(4) chan_to_freq_global_simps chan_range_pos)
qed (auto simp: chan_to_freq_global_simps chan_range_def off_grid_def)

theorem freq_class_roundtrip_witness:
  "ieee80211_freq_to_channel_ext 5100 0 USE_HT = Some (MODE_A, 121, 20) \<and>
   ieee80211_chan_to_freq_global 121 20 \<noteq> 5100 \<and> ieee80211_chan_to_freq_global 115 40 = 5200"
proof -
  have a: "ieee80211_freq_to_channel_ext 5100 0 USE_HT = Some (MODE_A, 121, 20)"
    "ieee80211_freq_to_channel_ext 5200 0 USE_HT = Some (MODE_A, 115, 40)"
    by (simp_all add: ieee80211_freq_to_channel_ext_def Let_def)
  from freq_class_roundtrip [OF a(1)] freq_class_roundtrip [OF a(2)] a show ?thesis
    by (simp add: off_grid_def)
qed

text \<open>The channels of a row of the global table.\<close>

definition class_channels :: "nat \<Rightarrow> nat list" where
  "class_channels g =
     concat (map (\<lambda>op. if om_class op = g
        then filter (\<lambda>ch. (ch - min_chan op) mod chan_inc op = 0) [min_chan op..<Suc (max_chan op)] else [])
       global_op_class)"

definition country_tables :: "(string list \<times> (nat \<times> nat) list \<times> (nat \<Rightarrow> nat \<Rightarrow> bool)) list" where
  "country_tables =
     [(us_op_class_cc, us_op_class, \<lambda>k ch. k = 29 \<or> (k, ch) \<in> {(5, 169), (12, 12), (12, 13), (33, 12), (33, 13), (34, 4)}),
      (eu_op_class_cc, eu_op_class, \<lambda>k ch. False),
      (jp_op_class_cc, jp_op_class, \<lambda>k ch. k = 59 \<and> ch = 4),
      (cn_op_class_cc, cn_op_class, \<lambda>k ch. k = 3 \<and> ch = 169)]"

lemma class_channels_values:
  "class_channels 81 = [1, 2, 3, 4, 5, 6, 7, 8, 9, 10, 11, 12, 13]"
  "class_channels 82 = [14]"
  "class_channels 83 = [1, 2, 3, 4, 5, 6, 7, 8, 9]"
  "class_channels 84 = [5, 6, 7, 8, 9, 10, 11, 12, 13]"
  "class_channels 115 = [36, 40, 44, 48]" "class_channels 116 = [36, 44]" "class_channels 117 = [40, 48]"
  "class_channels 118 = [52, 56, 60, 64]" "class_channels 119 = [52, 60]" "class_channels 120 = [56, 64]"
  "class_channels 121 = [100, 104, 108, 112, 116, 120, 124, 128, 132, 136, 140]"
  "class_channels 122 = [100, 108, 116, 124, 132]" "class_channels 123 = [104, 112, 120, 128, 136]"
  "class_channels 124 = [149, 153, 157, 161]" "class_channels 125 = [149, 153, 157, 161, 165, 169]"
  "class_channels 126 = [149, 157]" "class_channels 127 = [153, 161]"
  "class_channels 180 = [1, 2, 3, 4]"
  by (simp_all add: class_channels_def global_op_class_def upt_rec_numeral upt_rec [of 1] del: One_nat_def)

lemmas agree_simps = ieee80211_chan_to_freq_us_def ieee80211_chan_to_freq_eu_def ieee80211_chan_to_freq_jp_def
  ieee80211_chan_to_freq_cn_def ieee80211_chan_to_freq_global_def chan_range_def

lemma us_agree:
  "\<forall>(k, g)\<in>set us_op_class. \<forall>ch\<in>set (class_channels g).
     ((if ieee80211_chan_to_freq_us k ch > 0 then ieee80211_chan_to_freq_us k ch
       else ieee80211_chan_to_freq_global k ch) = ieee80211_chan_to_freq_global g ch) = (\<not> (k = 29 \<or> (k, ch) \<in> {(5, 169), (12, 12), (12, 13), (33, 12), (33, 13), (34, 4)}))"
  by (simp add: us_op_class_def class_channels_values agree_simps)

lemma eu_agree:
  "\<forall>(k, g)\<in>set eu_op_class. \<forall>ch\<in>set (class_channels g).
     ((if ieee80211_chan_to_freq_eu k ch > 0 then ieee80211_chan_to_freq_eu k ch
       else ieee80211_chan_to_freq_global k ch) = ieee80211_chan_to_freq_global g ch) = (\<not> (False))"
  by (simp add: eu_op_class_def class_channels_values agree_simps)

lemma jp_agree:
  "\<forall>(k, g)\<in>set jp_op_class. \<forall>ch\<in>set (class_channels g).
     ((if ieee80211_chan_to_freq_jp k ch > 0 then ieee80211_chan_to_freq_jp k ch
       else ieee80211_chan_to_freq_global k ch) = ieee80211_chan_to_freq_global g ch) = (\<not> (k = 59 \<and> ch = 4))"
  by (simp add: jp_op_class_def class_channels_values agree_simps)

lemma cn_agree:
  "\<forall>(k, g)\<in>set cn_op_class. \<forall>ch\<in>set (class_channels g).
     ((if ieee80211_chan_to_freq_cn k ch > 0 then ieee80211_chan_to_freq_cn k ch
       else ieee80211_chan_to_freq_global k ch) = ieee80211_chan_to_freq_global g ch) = (\<not> (k = 3 \<and> ch = 169))"
  by (simp add: cn_op_class_def class_channels_values agree_simps)

lemma table_class_nonzero:
  "\<forall>arr\<in>{us_op_class, eu_op_class, jp_op_class, cn_op_class}. \<forall>(k, g)\<in>set arr.
     global_op_class_from_country_array k arr = g \<and> g \<noteq> 0"
  by (simp add: us_op_class_def eu_op_class_def jp_op_class_def cn_op_class_def)

lemma table_row:
  "(k, g) \<in> set us_op_class \<Longrightarrow> global_op_class_from_country_array k us_op_class = g \<and> g \<noteq> 0"
  "(k, g) \<in> set eu_op_class \<Longrightarrow> global_op_class_from_country_array k eu_op_class = g \<and> g \<noteq> 0"
  "(k, g) \<in> set jp_op_class \<Longrightarrow> global_op_class_from_country_array k jp_op_class = g \<and> g \<noteq> 0"
  "(k, g) \<in> set cn_op_class \<Longrightarrow> global_op_class_from_country_array k cn_op_class = g \<and> g \<noteq> 0"
  using table_class_nonzero by fastforce+

lemma country_match_letters:
  "country_match cc (Some c) \<longleftrightarrow> (peek c, peek2 c) \<in> set (map (\<lambda>x. (peek x, peek2 x)) cc)"
  by (simp add: country_match_def image_iff eq_commute)

lemma letters_apart:
  "p \<in> set (map (\<lambda>x. (peek x, peek2 x)) us_op_class_cc) \<Longrightarrow> p \<notin> set (map (\<lambda>x. (peek x, peek2 x)) eu_op_class_cc)"
  "p \<in> set (map (\<lambda>x. (peek x, peek2 x)) us_op_class_cc) \<Longrightarrow> p \<notin> set (map (\<lambda>x. (peek x, peek2 x)) jp_op_class_cc)"
  "p \<in> set (map (\<lambda>x. (peek x, peek2 x)) us_op_class_cc) \<Longrightarrow> p \<notin> set (map (\<lambda>x. (peek x, peek2 x)) cn_op_class_cc)"
  "p \<in> set (map (\<lambda>x. (peek x, peek2 x)) jp_op_class_cc) \<Longrightarrow> p \<notin> set (map (\<lambda>x. (peek x, peek2 x)) eu_op_class_cc)"
  "p \<in> set (map (\<lambda>x. (peek x, peek2 x)) cn_op_class_cc) \<Longrightarrow> p \<notin> set (map (\<lambda>x. (peek x, peek2 x)) eu_op_class_cc)"
  "p \<in> set (map (\<lambda>x. (peek x, peek2 x)) jp_op_class_cc) \<Longrightarrow> p \<notin> set (map (\<lambda>x. (peek x, peek2 x)) cn_op_class_cc)"
  unfolding us_op_class_cc_def eu_op_class_cc_def jp_op_class_cc_def cn_op_class_cc_def by auto

lemma one_country:
  "country_match us_op_class_cc (Some c) \<Longrightarrow> \<not> country_match eu_op_class_cc (Some c) \<and>
     \<not> country_match jp_op_class_cc (Some c) \<and> \<not> country_match cn_op_class_cc (Some c)"
  "country_match eu_op_class_cc (Some c) \<Longrightarrow> \<not> country_match us_op_class_cc (Some c) \<and>
     \<not> country_match jp_op_class_cc (Some c) \<and> \<not> country_match cn_op_class_cc (Some c)"
  "country_match jp_op_class_cc (Some c) \<Longrightarrow> \<not> country_match us_op_class_cc (Some c) \<and>
     \<not> country_match eu_op_class_cc (Some c) \<and> \<not> country_match cn_op_class_cc (Some c)"
  "country_match cn_op_class_cc (Some c) \<Longrightarrow> \<not> country_match us_op_class_cc (Some c) \<and>
     \<not> country_match eu_op_class_cc (Some c) \<and> \<not> country_match jp_op_class_cc (Some c)"
  using letters_apart unfolding country_match_letters by blast+

text \<open>A row of a country's table names the global class with the same channels: the country's class
  is translated to it, and each of its channels has the same frequency under both, except the
  listed ones: the US class 29, which the frequency switch does not know, the 2.4 GHz
  channels 12 and 13, which the US classes do not have, and the last channel of US 5 and 34,
  of JP 59 and of CN 3.\<close>

theorem op_class_tables_agree:
  assumes "(cc, arr, exc) \<in> set country_tables" and "country_match cc (Some c)"
    and "(k, g) \<in> set arr" and "ch \<in> set (class_channels g)"
  shows "country_to_global_op_class (Some c) k = g \<and>
    (ieee80211_chan_to_freq (Some c) k ch = ieee80211_chan_to_freq_global g ch \<longleftrightarrow> \<not> exc k ch)"
proof -
  consider "cc = us_op_class_cc" "arr = us_op_class"
      "exc = (\<lambda>k ch. k = 29 \<or> (k, ch) \<in> {(5, 169), (12, 12), (12, 13), (33, 12), (33, 13), (34, 4)})"
    | "cc = eu_op_class_cc" "arr = eu_op_class" "exc = (\<lambda>k ch. False)"
    | "cc = jp_op_class_cc" "arr = jp_op_class" "exc = (\<lambda>k ch. k = 59 \<and> ch = 4)"
    | "cc = cn_op_class_cc" "arr = cn_op_class" "exc = (\<lambda>k ch. k = 3 \<and> ch = 169)"
    using assms(1) unfolding country_tables_def by auto
  then show ?thesis
  proof cases
    case 1
    from assms(3) have r: "global_op_class_from_country_array k us_op_class = g" "g \<noteq> 0"
      using table_row(1) unfolding 1 by auto
    have a: "((if ieee80211_chan_to_freq_us k ch > 0 then ieee80211_chan_to_freq_us k ch
       else ieee80211_chan_to_freq_global k ch) = ieee80211_chan_to_freq_global g ch) = (\<not> exc k ch)"
      using us_agree assms(3,4) unfolding 1 by blast
    show ?thesis using one_country(1) [of c] assms(2) r a
      unfolding 1(1) country_to_global_op_class_def ieee80211_chan_to_freq_def Let_def a [symmetric] by simp
  next
    case 2
    from assms(3) have r: "global_op_class_from_country_array k eu_op_class = g" "g \<noteq> 0"
      using table_row(2) unfolding 2 by auto
    have a: "((if ieee80211_chan_to_freq_eu k ch > 0 then ieee80211_chan_to_freq_eu k ch
       else ieee80211_chan_to_freq_global k ch) = ieee80211_chan_to_freq_global g ch) = (\<not> exc k ch)"
      using eu_agree assms(3,4) unfolding 2 by blast
    show ?thesis using one_country(2) [of c] assms(2) r a
      unfolding 2(1) country_to_global_op_class_def ieee80211_chan_to_freq_def Let_def a [symmetric] by simp
  next
    case 3
    from assms(3) have r: "global_op_class_from_country_array k jp_op_class = g" "g \<noteq> 0"
      using table_row(3) unfolding 3 by auto
    have a: "((if ieee80211_chan_to_freq_jp k ch > 0 then ieee80211_chan_to_freq_jp k ch
       else ieee80211_chan_to_freq_global k ch) = ieee80211_chan_to_freq_global g ch) = (\<not> exc k ch)"
      using jp_agree assms(3,4) unfolding 3 by blast
    show ?thesis using one_country(3) [of c] assms(2) r a
      unfolding 3(1) country_to_global_op_class_def ieee80211_chan_to_freq_def Let_def a [symmetric] by simp
  next
    case 4
    from assms(3) have r: "global_op_class_from_country_array k cn_op_class = g" "g \<noteq> 0"
      using table_row(4) unfolding 4 by auto
    have a: "((if ieee80211_chan_to_freq_cn k ch > 0 then ieee80211_chan_to_freq_cn k ch
       else ieee80211_chan_to_freq_global k ch) = ieee80211_chan_to_freq_global g ch) = (\<not> exc k ch)"
      using cn_agree assms(3,4) unfolding 4 by blast
    show ?thesis using one_country(4) [of c] assms(2) r a
      unfolding 4(1) country_to_global_op_class_def ieee80211_chan_to_freq_def Let_def a [symmetric] by simp
  qed
qed

theorem op_class_tables_agree_witness:
  "country_to_global_op_class (Some ''US'') 29 = 123 \<and>
   ieee80211_chan_to_freq (Some ''US'') 29 104 \<noteq> ieee80211_chan_to_freq_global 123 104 \<and>
   ieee80211_chan_to_freq (Some ''US'') 28 56 = ieee80211_chan_to_freq_global 120 56"
proof -
  have us: "(us_op_class_cc, us_op_class,
      \<lambda>k ch. k = 29 \<or> (k, ch) \<in> {(5, 169), (12, 12), (12, 13), (33, 12), (33, 13), (34, 4)}) \<in> set country_tables"
    by (simp add: country_tables_def)
  have m: "country_match us_op_class_cc (Some ''US'')" by (simp add: country_match_def us_op_class_cc_def)
  have "(29, 123) \<in> set us_op_class" "(28, 120) \<in> set us_op_class"
    "104 \<in> set (class_channels 123)" "56 \<in> set (class_channels 120)"
    by (simp_all add: us_op_class_def class_channels_values)
  from op_class_tables_agree [OF us m this(1,3)] op_class_tables_agree [OF us m this(2,4)]
  show ?thesis by simp
qed

end
