(* ===== verification/Elements.thy ===== *)
theory Elements
  imports Byte_Order
begin

text \<open>
  Information elements of 802.11 management frames (\<open>ieee802_11_common.c\<close>, the iteration macros of
  \<open>ieee802_11_common.h\<close>): a frame body is a run of elements, each an identifier, a length byte and
  that many bytes. A pointer into the body is its offset; \<open>struct ieee802_11_elems\<close> is a map from
  its members to offset and length. For the members without a length of their own (the structures
  of fixed size) the length is that of the element, which the struct does not keep.
\<close>

section \<open>Iteration\<close>

record element =
  e_pos :: nat
  e_id :: nat
  e_data :: "u8 list"

text \<open>\<open>for_each_element\<close>: the elements visited, and where the loop stops.\<close>

function for_each_element :: "nat \<Rightarrow> u8 list \<Rightarrow> element list \<times> nat" where
  "for_each_element off buf =
     (case buf of
        i # l # rest \<Rightarrow>
          if unat l \<le> length rest then
            let (es, stop) = for_each_element (off + 2 + unat l) (drop (unat l) rest)
            in (\<lparr>e_pos = off, e_id = unat i, e_data = take (unat l) rest\<rparr> # es, stop)
          else ([], off)
      | _ \<Rightarrow> ([], off))"
  by pat_completeness auto

termination
  by (relation "measure (length \<circ> snd)") auto

declare for_each_element.simps [simp del]

lemma for_each_simps [simp]:
  "for_each_element off [] = ([], off)"
  "for_each_element off [i] = ([], off)"
  "for_each_element off (i # l # rest) =
     (if unat l \<le> length rest then
        let (es, stop) = for_each_element (off + 2 + unat l) (drop (unat l) rest)
        in (\<lparr>e_pos = off, e_id = unat i, e_data = take (unat l) rest\<rparr> # es, stop)
      else ([], off))"
  by (subst for_each_element.simps, simp)+

definition iter_elements :: "u8 list \<Rightarrow> element list" where
  "iter_elements buf = fst (for_each_element 0 buf)"

definition for_each_element_completed :: "u8 list \<Rightarrow> bool" where
  "for_each_element_completed buf \<longleftrightarrow> snd (for_each_element 0 buf) = length buf"

section \<open>The parsed elements\<close>

datatype (plugins only: ) elem_field =
      Ssid | Supp_Rates | Ds_Params | Challenge | Erp_Info | Ext_Supp_Rates | Wpa_Ie | Rsn_Ie | Wmm
    | Wmm_Tspec | Wps_Ie | Supp_Channels | Mdie | Ftie | Timeout_Int | Ht_Capabilities
    | Ht_Operation | Mesh_Config | Mesh_Id | Peer_Mgmt | Vht_Capabilities | Vht_Operation
    | Vht_Opmode_Notif | Vendor_Ht_Cap | Vendor_Vht | P2p | Wfd | Link_Id | Interworking
    | Qos_Map_Set | Hs20 | Ext_Capab | Bss_Max_Idle_Period | Ssid_List | Osen | Mbo | Ampe | Mic
    | Pref_Freq_List | Supp_Op_Classes | Rrm_Enabled | Cag_Number | Ap_Csn | Fils_Indic | Dils
    | Assoc_Delay_Info | Fils_Req_Params | Fils_Key_Confirm | Fils_Session | Fils_Hlp
    | Fils_Ip_Addr_Assign | Key_Delivery | Fils_Wrapped_Data | Fils_Pk | Fils_Nonce | Owe_Dh
    | Power_Capab | Roaming_Cons_Sel | Password_Id | Oci | Multi_Ap | He_Capabilities
    | He_Operation

record elems =
  at :: "elem_field \<Rightarrow> (nat \<times> nat) option"
  mb_ies :: "(nat \<times> nat) list"

datatype parse_res = ParseOK | ParseUnknown | ParseFailed

abbreviation (input) WLAN_EID_SSID :: nat where "WLAN_EID_SSID \<equiv> 0"
abbreviation (input) WLAN_EID_SUPP_RATES :: nat where "WLAN_EID_SUPP_RATES \<equiv> 1"
abbreviation (input) WLAN_EID_DS_PARAMS :: nat where "WLAN_EID_DS_PARAMS \<equiv> 3"
abbreviation (input) WLAN_EID_CF_PARAMS :: nat where "WLAN_EID_CF_PARAMS \<equiv> 4"
abbreviation (input) WLAN_EID_TIM :: nat where "WLAN_EID_TIM \<equiv> 5"
abbreviation (input) WLAN_EID_CHALLENGE :: nat where "WLAN_EID_CHALLENGE \<equiv> 16"
abbreviation (input) WLAN_EID_ERP_INFO :: nat where "WLAN_EID_ERP_INFO \<equiv> 42"
abbreviation (input) WLAN_EID_EXT_SUPP_RATES :: nat where "WLAN_EID_EXT_SUPP_RATES \<equiv> 50"
abbreviation (input) WLAN_EID_VENDOR_SPECIFIC :: nat where "WLAN_EID_VENDOR_SPECIFIC \<equiv> 221"
abbreviation (input) WLAN_EID_NEIGHBOR_REPORT :: nat where "WLAN_EID_NEIGHBOR_REPORT \<equiv> 52"
abbreviation (input) WLAN_EID_RSN :: nat where "WLAN_EID_RSN \<equiv> 48"
abbreviation (input) WLAN_EID_PWR_CAPABILITY :: nat where "WLAN_EID_PWR_CAPABILITY \<equiv> 33"
abbreviation (input) WLAN_EID_SUPPORTED_CHANNELS :: nat where "WLAN_EID_SUPPORTED_CHANNELS \<equiv> 36"
abbreviation (input) WLAN_EID_MOBILITY_DOMAIN :: nat where "WLAN_EID_MOBILITY_DOMAIN \<equiv> 54"
abbreviation (input) WLAN_EID_FAST_BSS_TRANSITION :: nat where "WLAN_EID_FAST_BSS_TRANSITION \<equiv> 55"
abbreviation (input) WLAN_EID_TIMEOUT_INTERVAL :: nat where "WLAN_EID_TIMEOUT_INTERVAL \<equiv> 56"
abbreviation (input) WLAN_EID_HT_CAP :: nat where "WLAN_EID_HT_CAP \<equiv> 45"
abbreviation (input) WLAN_EID_HT_OPERATION :: nat where "WLAN_EID_HT_OPERATION \<equiv> 61"
abbreviation (input) WLAN_EID_MESH_CONFIG :: nat where "WLAN_EID_MESH_CONFIG \<equiv> 113"
abbreviation (input) WLAN_EID_MESH_ID :: nat where "WLAN_EID_MESH_ID \<equiv> 114"
abbreviation (input) WLAN_EID_PEER_MGMT :: nat where "WLAN_EID_PEER_MGMT \<equiv> 117"
abbreviation (input) WLAN_EID_VHT_CAP :: nat where "WLAN_EID_VHT_CAP \<equiv> 191"
abbreviation (input) WLAN_EID_VHT_OPERATION :: nat where "WLAN_EID_VHT_OPERATION \<equiv> 192"
abbreviation (input) WLAN_EID_VHT_OPERATING_MODE_NOTIFICATION :: nat where "WLAN_EID_VHT_OPERATING_MODE_NOTIFICATION \<equiv> 199"
abbreviation (input) WLAN_EID_LINK_ID :: nat where "WLAN_EID_LINK_ID \<equiv> 101"
abbreviation (input) WLAN_EID_INTERWORKING :: nat where "WLAN_EID_INTERWORKING \<equiv> 107"
abbreviation (input) WLAN_EID_QOS_MAP_SET :: nat where "WLAN_EID_QOS_MAP_SET \<equiv> 110"
abbreviation (input) WLAN_EID_EXT_CAPAB :: nat where "WLAN_EID_EXT_CAPAB \<equiv> 127"
abbreviation (input) WLAN_EID_BSS_MAX_IDLE_PERIOD :: nat where "WLAN_EID_BSS_MAX_IDLE_PERIOD \<equiv> 90"
abbreviation (input) WLAN_EID_SSID_LIST :: nat where "WLAN_EID_SSID_LIST \<equiv> 84"
abbreviation (input) WLAN_EID_AMPE :: nat where "WLAN_EID_AMPE \<equiv> 139"
abbreviation (input) WLAN_EID_MIC :: nat where "WLAN_EID_MIC \<equiv> 140"
abbreviation (input) WLAN_EID_MULTI_BAND :: nat where "WLAN_EID_MULTI_BAND \<equiv> 158"
abbreviation (input) WLAN_EID_SUPPORTED_OPERATING_CLASSES :: nat where "WLAN_EID_SUPPORTED_OPERATING_CLASSES \<equiv> 59"
abbreviation (input) WLAN_EID_RRM_ENABLED_CAPABILITIES :: nat where "WLAN_EID_RRM_ENABLED_CAPABILITIES \<equiv> 70"
abbreviation (input) WLAN_EID_CAG_NUMBER :: nat where "WLAN_EID_CAG_NUMBER \<equiv> 237"
abbreviation (input) WLAN_EID_AP_CSN :: nat where "WLAN_EID_AP_CSN \<equiv> 239"
abbreviation (input) WLAN_EID_FILS_INDICATION :: nat where "WLAN_EID_FILS_INDICATION \<equiv> 240"
abbreviation (input) WLAN_EID_DILS :: nat where "WLAN_EID_DILS \<equiv> 241"
abbreviation (input) WLAN_EID_FRAGMENT :: nat where "WLAN_EID_FRAGMENT \<equiv> 242"
abbreviation (input) WLAN_EID_EXTENSION :: nat where "WLAN_EID_EXTENSION \<equiv> 255"
abbreviation (input) WLAN_EID_EXT_ASSOC_DELAY_INFO :: nat where "WLAN_EID_EXT_ASSOC_DELAY_INFO \<equiv> 1"
abbreviation (input) WLAN_EID_EXT_FILS_REQ_PARAMS :: nat where "WLAN_EID_EXT_FILS_REQ_PARAMS \<equiv> 2"
abbreviation (input) WLAN_EID_EXT_FILS_KEY_CONFIRM :: nat where "WLAN_EID_EXT_FILS_KEY_CONFIRM \<equiv> 3"
abbreviation (input) WLAN_EID_EXT_FILS_SESSION :: nat where "WLAN_EID_EXT_FILS_SESSION \<equiv> 4"
abbreviation (input) WLAN_EID_EXT_FILS_HLP_CONTAINER :: nat where "WLAN_EID_EXT_FILS_HLP_CONTAINER \<equiv> 5"
abbreviation (input) WLAN_EID_EXT_FILS_IP_ADDR_ASSIGN :: nat where "WLAN_EID_EXT_FILS_IP_ADDR_ASSIGN \<equiv> 6"
abbreviation (input) WLAN_EID_EXT_KEY_DELIVERY :: nat where "WLAN_EID_EXT_KEY_DELIVERY \<equiv> 7"
abbreviation (input) WLAN_EID_EXT_FILS_WRAPPED_DATA :: nat where "WLAN_EID_EXT_FILS_WRAPPED_DATA \<equiv> 8"
abbreviation (input) WLAN_EID_EXT_FILS_PUBLIC_KEY :: nat where "WLAN_EID_EXT_FILS_PUBLIC_KEY \<equiv> 12"
abbreviation (input) WLAN_EID_EXT_FILS_NONCE :: nat where "WLAN_EID_EXT_FILS_NONCE \<equiv> 13"
abbreviation (input) WLAN_EID_EXT_OWE_DH_PARAM :: nat where "WLAN_EID_EXT_OWE_DH_PARAM \<equiv> 32"
abbreviation (input) WLAN_EID_EXT_PASSWORD_IDENTIFIER :: nat where "WLAN_EID_EXT_PASSWORD_IDENTIFIER \<equiv> 33"
abbreviation (input) WLAN_EID_EXT_HE_CAPABILITIES :: nat where "WLAN_EID_EXT_HE_CAPABILITIES \<equiv> 35"
abbreviation (input) WLAN_EID_EXT_HE_OPERATION :: nat where "WLAN_EID_EXT_HE_OPERATION \<equiv> 36"
abbreviation (input) WLAN_EID_EXT_OCV_OCI :: nat where "WLAN_EID_EXT_OCV_OCI \<equiv> 54"

text \<open>What an arm of the parser's switches does with an element.\<close>

datatype action = Store elem_field | Skip | Unknown | Vendor | Extension | Multi_Band | Stop

definition elem_action :: "nat \<Rightarrow> nat \<Rightarrow> action" where
  "elem_action eid len =
     (if eid = WLAN_EID_SSID then (if len > 32 then Skip else Store Ssid)
      else if eid = WLAN_EID_SUPP_RATES then Store Supp_Rates
      else if eid = WLAN_EID_DS_PARAMS then (if len < 1 then Skip else Store Ds_Params)
      else if eid = WLAN_EID_CF_PARAMS then Skip
      else if eid = WLAN_EID_TIM then Skip
      else if eid = WLAN_EID_CHALLENGE then Store Challenge
      else if eid = WLAN_EID_ERP_INFO then (if len < 1 then Skip else Store Erp_Info)
      else if eid = WLAN_EID_EXT_SUPP_RATES then Store Ext_Supp_Rates
      else if eid = WLAN_EID_VENDOR_SPECIFIC then Vendor
      else if eid = WLAN_EID_RSN then Store Rsn_Ie
      else if eid = WLAN_EID_PWR_CAPABILITY then (if len < 2 then Skip else Store Power_Capab)
      else if eid = WLAN_EID_SUPPORTED_CHANNELS then Store Supp_Channels
      else if eid = WLAN_EID_MOBILITY_DOMAIN then (if len < 3 then Skip else Store Mdie)
      else if eid = WLAN_EID_FAST_BSS_TRANSITION then (if len < 82 then Skip else Store Ftie)
      else if eid = WLAN_EID_TIMEOUT_INTERVAL then (if len \<noteq> 5 then Skip else Store Timeout_Int)
      else if eid = WLAN_EID_HT_CAP then (if len < 26 then Skip else Store Ht_Capabilities)
      else if eid = WLAN_EID_HT_OPERATION then (if len < 22 then Skip else Store Ht_Operation)
      else if eid = WLAN_EID_MESH_CONFIG then Store Mesh_Config
      else if eid = WLAN_EID_MESH_ID then Store Mesh_Id
      else if eid = WLAN_EID_PEER_MGMT then Store Peer_Mgmt
      else if eid = WLAN_EID_VHT_CAP then (if len < 12 then Skip else Store Vht_Capabilities)
      else if eid = WLAN_EID_VHT_OPERATION then (if len < 5 then Skip else Store Vht_Operation)
      else if eid = WLAN_EID_VHT_OPERATING_MODE_NOTIFICATION then (if len \<noteq> 1 then Skip else Store Vht_Opmode_Notif)
      else if eid = WLAN_EID_LINK_ID then (if len < 18 then Skip else Store Link_Id)
      else if eid = WLAN_EID_INTERWORKING then Store Interworking
      else if eid = WLAN_EID_QOS_MAP_SET then (if len < 16 then Skip else Store Qos_Map_Set)
      else if eid = WLAN_EID_EXT_CAPAB then Store Ext_Capab
      else if eid = WLAN_EID_BSS_MAX_IDLE_PERIOD then (if len < 3 then Skip else Store Bss_Max_Idle_Period)
      else if eid = WLAN_EID_SSID_LIST then Store Ssid_List
      else if eid = WLAN_EID_AMPE then Store Ampe
      else if eid = WLAN_EID_MIC then Stop
      else if eid = WLAN_EID_MULTI_BAND then Multi_Band
      else if eid = WLAN_EID_SUPPORTED_OPERATING_CLASSES then Store Supp_Op_Classes
      else if eid = WLAN_EID_RRM_ENABLED_CAPABILITIES then Store Rrm_Enabled
      else if eid = WLAN_EID_CAG_NUMBER then Store Cag_Number
      else if eid = WLAN_EID_AP_CSN then (if len < 1 then Skip else Store Ap_Csn)
      else if eid = WLAN_EID_FILS_INDICATION then (if len < 2 then Skip else Store Fils_Indic)
      else if eid = WLAN_EID_DILS then (if len < 2 then Skip else Store Dils)
      else if eid = WLAN_EID_FRAGMENT then Skip
      else if eid = WLAN_EID_EXTENSION then Extension
      else Unknown)"

definition ext_action :: "nat \<Rightarrow> nat \<Rightarrow> action" where
  "ext_action ext_id len =
     (if ext_id = WLAN_EID_EXT_ASSOC_DELAY_INFO then (if len \<noteq> 1 then Skip else Store Assoc_Delay_Info)
      else if ext_id = WLAN_EID_EXT_FILS_REQ_PARAMS then (if len < 3 then Skip else Store Fils_Req_Params)
      else if ext_id = WLAN_EID_EXT_FILS_KEY_CONFIRM then Store Fils_Key_Confirm
      else if ext_id = WLAN_EID_EXT_FILS_SESSION then (if len \<noteq> 8 then Skip else Store Fils_Session)
      else if ext_id = WLAN_EID_EXT_FILS_HLP_CONTAINER then (if len < 12 then Skip else Store Fils_Hlp)
      else if ext_id = WLAN_EID_EXT_FILS_IP_ADDR_ASSIGN then (if len < 1 then Skip else Store Fils_Ip_Addr_Assign)
      else if ext_id = WLAN_EID_EXT_KEY_DELIVERY then (if len < 8 then Skip else Store Key_Delivery)
      else if ext_id = WLAN_EID_EXT_FILS_WRAPPED_DATA then Store Fils_Wrapped_Data
      else if ext_id = WLAN_EID_EXT_FILS_PUBLIC_KEY then (if len < 1 then Skip else Store Fils_Pk)
      else if ext_id = WLAN_EID_EXT_FILS_NONCE then (if len \<noteq> 16 then Skip else Store Fils_Nonce)
      else if ext_id = WLAN_EID_EXT_OWE_DH_PARAM then (if len < 2 then Skip else Store Owe_Dh)
      else if ext_id = WLAN_EID_EXT_PASSWORD_IDENTIFIER then Store Password_Id
      else if ext_id = WLAN_EID_EXT_HE_CAPABILITIES then Store He_Capabilities
      else if ext_id = WLAN_EID_EXT_HE_OPERATION then Store He_Operation
      else if ext_id = WLAN_EID_EXT_OCV_OCI then Store Oci
      else Unknown)"

text \<open>The vendor specific elements, by OUI and type, from the data after the length byte.\<close>

definition vendor_action :: "u8 list \<Rightarrow> action" where
  "vendor_action pos =
     (let elen = length pos; oui = WPA_GET_BE24 pos; ty = unat (pos ! 3); sub = unat (pos ! 4)
      in if elen < 4 then Unknown
         else if oui = 0x0050f2 then
           (if ty = 1 then Store Wpa_Ie
            else if ty = 2 then
              (if elen < 5 then Unknown
               else if sub = 0 \<or> sub = 1 then Store Wmm
               else if sub = 2 then Store Wmm_Tspec else Unknown)
            else if ty = 4 then Store Wps_Ie else Unknown)
         else if oui = 0x506f9a then
           (if ty = 9 then Store P2p else if ty = 10 then Store Wfd else if ty = 16 then Store Hs20
            else if ty = 18 then Store Osen else if ty = 22 then Store Mbo
            else if ty = 29 then Store Roaming_Cons_Sel else if ty = 27 then Store Multi_Ap else Unknown)
         else if oui = 0x00904c then
           (if ty = 0x33 then Store Vendor_Ht_Cap
            else if ty = 4 then
              (if elen > 4 \<and> (sub = 8 \<or> sub = 0) then Store Vendor_Vht else Unknown)
            else Unknown)
         else if oui = 0x001374 then
           (if ty = 0 then Store Pref_Freq_List else Unknown)
         else Unknown)"

definition store :: "elem_field \<Rightarrow> nat \<Rightarrow> nat \<Rightarrow> elems \<Rightarrow> elems" where
  "store f pos len e = e\<lparr>at := (at e)(f \<mapsto> (pos, len))\<rparr>"

text \<open>Both functions answer \<open>None\<close> for the return value -1.\<close>

definition ieee802_11_parse_vendor_specific :: "nat \<Rightarrow> u8 list \<Rightarrow> elems \<Rightarrow> elems option" where
  "ieee802_11_parse_vendor_specific pos data e =
     (case vendor_action data of Store f \<Rightarrow> Some (store f pos (length data) e) | _ \<Rightarrow> None)"

definition ieee802_11_parse_extension :: "nat \<Rightarrow> u8 list \<Rightarrow> elems \<Rightarrow> elems option" where
  "ieee802_11_parse_extension pos data e =
     (if length data < 1 then None
      else (case ext_action (unat (data ! 0)) (length data - 1) of
              Store f \<Rightarrow> Some (store f (pos + 1) (length data - 1) e)
            | Skip \<Rightarrow> Some e
            | _ \<Rightarrow> None))"

definition MAX_NOF_MB_IES_SUPPORTED :: nat where "MAX_NOF_MB_IES_SUPPORTED = 5"

definition add_mb_ie :: "nat \<Rightarrow> nat \<Rightarrow> elems \<Rightarrow> elems" where
  "add_mb_ie pos len e =
     (if length (mb_ies e) \<ge> MAX_NOF_MB_IES_SUPPORTED then e
      else e\<lparr>mb_ies := mb_ies e @ [(pos, len)]\<rparr>)"

text \<open>The body of the parser's loop, with the number of unknown elements, and the loop: the MIC
  element ends it.\<close>

definition parse_element :: "element \<Rightarrow> elems \<times> nat \<Rightarrow> elems \<times> nat" where
  "parse_element x eu =
     (let pos = e_pos x + 2; len = length (e_data x); e = fst eu; unknown = snd eu;
          counted = (\<lambda>r. case r of Some e \<Rightarrow> (e, unknown) | None \<Rightarrow> (e, unknown + 1))
      in case elem_action (e_id x) len of
           Store f \<Rightarrow> (store f pos len e, unknown)
         | Skip \<Rightarrow> (e, unknown)
         | Unknown \<Rightarrow> (e, unknown + 1)
         | Vendor \<Rightarrow> counted (ieee802_11_parse_vendor_specific pos (e_data x) e)
         | Extension \<Rightarrow> counted (ieee802_11_parse_extension pos (e_data x) e)
         | Multi_Band \<Rightarrow> (add_mb_ie pos len e, unknown)
         | Stop \<Rightarrow> (store Mic pos len e, unknown))"

fun parse_loop :: "element list \<Rightarrow> elems \<times> nat \<Rightarrow> (elems \<times> nat) \<times> bool" where
  "parse_loop [] eu = (eu, False)"
| "parse_loop (x # xs) eu =
     (if elem_action (e_id x) (length (e_data x)) = Stop then (parse_element x eu, True)
      else parse_loop xs (parse_element x eu))"

definition no_elems :: elems where
  "no_elems = \<lparr>at = Map.empty, mb_ies = []\<rparr>"

definition ieee802_11_parse_elems :: "u8 list option \<Rightarrow> parse_res \<times> elems" where
  "ieee802_11_parse_elems start =
     (case start of
        None \<Rightarrow> (ParseOK, no_elems)
      | Some buf \<Rightarrow>
          (case parse_loop (iter_elements buf) (no_elems, 0) of
             ((e, unknown), mic_seen) \<Rightarrow>
               (if \<not> mic_seen \<and> \<not> for_each_element_completed buf then ParseFailed
                else if unknown > 0 then ParseUnknown else ParseOK, e)))"

section \<open>What the iteration visits\<close>

definition encode_elem :: "nat \<times> u8 list \<Rightarrow> u8 list" where
  "encode_elem x = of_nat (fst x) # of_nat (length (snd x)) # snd x"

definition encode_elems :: "(nat \<times> u8 list) list \<Rightarrow> u8 list" where
  "encode_elems xs = concat (map encode_elem xs)"

definition wire :: "element \<Rightarrow> nat \<times> u8 list" where
  "wire x = (e_id x, e_data x)"

lemma wire_simp [simp]: "wire \<lparr>e_pos = p, e_id = i, e_data = d\<rparr> = (i, d)"
  by (simp add: wire_def)

text \<open>The rest of a body that holds no whole element.\<close>

definition cut_short :: "u8 list \<Rightarrow> bool" where
  "cut_short r \<longleftrightarrow> length r < 2 \<or> length r - 2 < unat (r ! 1)"

definition laid_out :: "u8 list \<Rightarrow> element \<Rightarrow> bool" where
  "laid_out buf x \<longleftrightarrow> e_id x < 256 \<and> length (e_data x) < 256 \<and>
     e_pos x + 2 + length (e_data x) \<le> length buf \<and>
     buf ! e_pos x = of_nat (e_id x) \<and> buf ! (e_pos x + 1) = of_nat (length (e_data x)) \<and>
     take (length (e_data x)) (drop (e_pos x + 2) buf) = e_data x"

lemma body_cases [case_names short cut whole]:
  obtains "length buf < 2" | i l rest where "buf = i # l # rest" "length rest < unat l"
    | i l rest where "buf = i # l # rest" "unat l \<le> length rest"
proof (cases buf rule: remdups_adj.cases)
  case (3 i l rest)
  then show ?thesis using that(2,3) by (cases "unat l \<le> length rest") auto
qed (use that(1) in auto)

lemma iteration_splits:
  "for_each_element off buf = (es, stop) \<Longrightarrow>
   \<exists>r. buf = encode_elems (map wire es) @ r \<and> stop = off + length (encode_elems (map wire es)) \<and> cut_short r"
proof (induction off buf arbitrary: es stop rule: for_each_element.induct)
  case (1 off buf)
  show ?case
  proof (cases buf rule: body_cases)
    case short
    then have "es = []" "stop = off" using "1.prems" by (cases buf rule: remdups_adj.cases; simp)+
    with short show ?thesis by (simp add: encode_elems_def cut_short_def)
  next
    case (cut i l rest)
    with "1.prems" have "es = []" "stop = off" by simp_all
    with cut show ?thesis by (simp add: encode_elems_def cut_short_def)
  next
    case (whole i l rest)
    obtain es' where next': "for_each_element (off + 2 + unat l) (drop (unat l) rest) = (es', stop)"
      and es: "es = \<lparr>e_pos = off, e_id = unat i, e_data = take (unat l) rest\<rparr> # es'"
      using "1.prems" whole by (auto split: prod.splits)
    from "1.IH" [OF whole(1) refl whole(2) next'] obtain r where
      "drop (unat l) rest = encode_elems (map wire es') @ r" "cut_short r"
      "stop = off + 2 + unat l + length (encode_elems (map wire es'))" by blast
    then have "rest = take (unat l) rest @ encode_elems (map wire es') @ r" "cut_short r"
      "stop = off + 2 + unat l + length (encode_elems (map wire es'))"
      using append_take_drop_id [of "unat l" rest] by simp_all
    moreover have "encode_elems (map wire es) = i # l # take (unat l) rest @ encode_elems (map wire es')"
      using whole es by (simp add: encode_elems_def encode_elem_def)
    ultimately show ?thesis using whole by auto
  qed
qed

lemma iteration_of_encoding:
  "\<forall>x\<in>set xs. fst x < 256 \<and> length (snd x) < 256 \<Longrightarrow> cut_short r \<Longrightarrow>
   map wire (fst (for_each_element off (encode_elems xs @ r))) = xs \<and>
   snd (for_each_element off (encode_elems xs @ r)) = off + length (encode_elems xs)"
proof (induction xs arbitrary: off)
  case Nil
  then show ?case
    by (cases r rule: remdups_adj.cases) (auto simp: encode_elems_def cut_short_def)
next
  case (Cons x xs)
  have u: "unat (of_nat n :: u8) = n" if "n < 256" for n using that by (simp add: unat_of_nat)
  from Cons.prems have b: "fst x < 256" "length (snd x) < 256" by auto
  from Cons.IH [of "off + 2 + length (snd x)"] Cons.prems show ?case
    by (simp add: encode_elems_def encode_elem_def u b split: prod.splits) (auto simp: add.assoc)
qed

lemma iteration_laid_out:
  "for_each_element (length pre) buf = (es, stop) \<Longrightarrow> x \<in> set es \<Longrightarrow> laid_out (pre @ buf) x"
proof (induction "length pre" buf arbitrary: pre es stop rule: for_each_element.induct)
  case (1 buf)
  from "1.prems" obtain i l rest es' where b: "buf = i # l # rest" "unat l \<le> length rest"
    and n: "for_each_element (length pre + 2 + unat l) (drop (unat l) rest) = (es', stop)"
    and es: "es = \<lparr>e_pos = length pre, e_id = unat i, e_data = take (unat l) rest\<rparr> # es'"
    by (cases buf rule: remdups_adj.cases) (auto split: if_splits prod.splits)
  let ?pre = "pre @ i # l # take (unat l) rest"
  have len: "length ?pre = length pre + 2 + unat l" using b by simp
  have whole: "pre @ buf = ?pre @ drop (unat l) rest" using b by simp
  show ?case
  proof (cases "x \<in> set es'")
    case True
    from "1.hyps" [OF b(1) refl b(2), of ?pre es' stop] n True len whole show ?thesis by simp
  next
    case False
    with "1.prems"(2) es have "x = \<lparr>e_pos = length pre, e_id = unat i, e_data = take (unat l) rest\<rparr>" by simp
    with b show ?thesis by (simp add: laid_out_def nth_append)
  qed
qed

lemma iter_laid_out: "x \<in> set (iter_elements buf) \<Longrightarrow> laid_out buf x"
  using iteration_laid_out [of "[]" buf] unfolding iter_elements_def
  by (cases "for_each_element 0 buf") auto

section \<open>What the parser records\<close>

text \<open>The member an element is recorded in, with the offset and length recorded.\<close>

definition records :: "element \<Rightarrow> (elem_field \<times> nat \<times> nat) option" where
  "records x =
     (let pos = e_pos x + 2; len = length (e_data x)
      in case elem_action (e_id x) len of
           Store f \<Rightarrow> Some (f, pos, len)
         | Stop \<Rightarrow> Some (Mic, pos, len)
         | Vendor \<Rightarrow> (case vendor_action (e_data x) of Store f \<Rightarrow> Some (f, pos, len) | _ \<Rightarrow> None)
         | Extension \<Rightarrow>
             (if len < 1 then None
              else (case ext_action (unat (e_data x ! 0)) (len - 1) of
                      Store f \<Rightarrow> Some (f, pos + 1, len - 1) | _ \<Rightarrow> None))
         | _ \<Rightarrow> None)"

definition is_mic :: "element \<Rightarrow> bool" where
  "is_mic x \<longleftrightarrow> e_id x = WLAN_EID_MIC"

text \<open>The elements up to the MIC element, which is the last one looked at.\<close>

fun until_mic :: "element list \<Rightarrow> element list" where
  "until_mic [] = []"
| "until_mic (x # xs) = (if is_mic x then [x] else x # until_mic xs)"

definition places :: "elem_field \<Rightarrow> element list \<Rightarrow> (nat \<times> nat) list" where
  "places f xs = [(p, n). Some (g, p, n) \<leftarrow> map records xs, g = f]"

definition last_place :: "(nat \<times> nat) option \<Rightarrow> (nat \<times> nat) list \<Rightarrow> (nat \<times> nat) option" where
  "last_place d ps = (if ps = [] then d else Some (last ps))"

lemma places_Cons:
  "places f (x # xs) = (case records x of Some (g, p, n) \<Rightarrow> if g = f then [(p, n)] else [] | None \<Rightarrow> []) @ places f xs"
  by (auto simp: places_def split: option.splits)

lemma places_Nil [simp]: "places f [] = []"
  by (simp add: places_def)

lemma last_place_simps [simp]:
  "last_place d [] = d" "last_place d (p # ps) = last_place (Some p) ps"
  by (auto simp: last_place_def)

text \<open>For the long switches: one goal per arm.\<close>

lemma if_ne: "(c \<Longrightarrow> a \<noteq> z) \<Longrightarrow> (\<not> c \<Longrightarrow> b \<noteq> z) \<Longrightarrow> (if c then a else b) \<noteq> (z :: action)"
  by simp

lemma action_stop: "elem_action eid len = Stop \<longleftrightarrow> eid = WLAN_EID_MIC"
proof (cases "eid = WLAN_EID_MIC")
  case False
  then have "elem_action eid len \<noteq> Stop"
    unfolding elem_action_def by (intro if_ne) simp_all
  with False show ?thesis by simp
qed (simp add: elem_action_def)

lemma at_store [simp]: "at (store f p n e) g = (if g = f then Some (p, n) else at e g)"
  "mb_ies (store f p n e) = mb_ies e"
  by (simp_all add: store_def)

lemma at_add_mb [simp]: "at (add_mb_ie p n e) = at e"
  by (simp add: add_mb_ie_def)

lemma stop_iff_mic: "elem_action (e_id x) (length (e_data x)) = Stop \<longleftrightarrow> is_mic x"
  by (simp add: action_stop is_mic_def)

lemma parse_element_at:
  "at (fst (parse_element x eu)) = (case records x of Some (f, q) \<Rightarrow> (at (fst eu))(f \<mapsto> q) | None \<Rightarrow> at (fst eu))"
  by (auto simp: parse_element_def records_def Let_def store_def add_mb_ie_def
      ieee802_11_parse_vendor_specific_def ieee802_11_parse_extension_def split: action.split)

lemma parse_loop_at:
  "at (fst (fst (parse_loop xs eu))) f = last_place (at (fst eu) f) (places f (until_mic xs))"
proof (induction xs arbitrary: eu)
  case (Cons x xs)
  have "at (fst (parse_element x eu)) f = last_place (at (fst eu) f) (places f [x])"
    by (cases "records x") (auto simp: parse_element_at places_Cons)
  with Cons.IH [of "parse_element x eu"] show ?case
    by (cases "records x") (auto simp: stop_iff_mic places_Cons parse_element_at)
qed simp

lemma parse_loop_mic: "snd (parse_loop xs eu) \<longleftrightarrow> (\<exists>x\<in>set xs. is_mic x)"
  by (induction xs arbitrary: eu) (auto simp: stop_iff_mic)

section \<open>Bounds of what is recorded\<close>

text \<open>The least number of bytes the readers of a member rely on, and the most it can have.\<close>

definition min_len :: "elem_field \<Rightarrow> nat" where
  "min_len f =
     (if f \<in> {Ds_Params, Erp_Info, Vht_Opmode_Notif, Ap_Csn, Assoc_Delay_Info, Fils_Ip_Addr_Assign, Fils_Pk} then 1
      else if f \<in> {Power_Capab, Fils_Indic, Dils, Owe_Dh} then 2
      else if f \<in> {Mdie, Bss_Max_Idle_Period, Fils_Req_Params} then 3
      else if f \<in> {Wpa_Ie, Wps_Ie, P2p, Wfd, Hs20, Osen, Mbo, Roaming_Cons_Sel, Multi_Ap, Vendor_Ht_Cap,
                   Pref_Freq_List} then 4
      else if f \<in> {Timeout_Int, Vht_Operation, Wmm, Wmm_Tspec, Vendor_Vht} then 5
      else if f \<in> {Fils_Session, Key_Delivery} then 8
      else if f \<in> {Vht_Capabilities, Fils_Hlp} then 12
      else if f \<in> {Qos_Map_Set, Fils_Nonce} then 16
      else if f = Link_Id then 18
      else if f = Ht_Operation then 22
      else if f = Ht_Capabilities then 26
      else if f = Ftie then 82 else 0)"

definition max_len :: "elem_field \<Rightarrow> nat" where
  "max_len f =
     (if f \<in> {Vht_Opmode_Notif, Assoc_Delay_Info} then 1 else if f = Timeout_Int then 5
      else if f = Fils_Session then 8 else if f = Fils_Nonce then 16 else if f = Ssid then 32 else 255)"

definition fits :: "nat \<Rightarrow> action \<Rightarrow> bool" where
  "fits len a \<longleftrightarrow> (case a of Store f \<Rightarrow> min_len f \<le> len \<and> len \<le> max_len f | _ \<Rightarrow> True)"

lemma if_fits: "(c \<Longrightarrow> fits n a) \<Longrightarrow> (\<not> c \<Longrightarrow> fits n b) \<Longrightarrow> fits n (if c then a else b)"
  by simp

lemma elem_action_fits: "len < 256 \<Longrightarrow> fits len (elem_action eid len)"
  unfolding elem_action_def by (intro if_fits) (simp_all add: fits_def min_len_def max_len_def)

lemma ext_action_fits: "len < 256 \<Longrightarrow> fits len (ext_action eid len)"
  unfolding ext_action_def by (intro if_fits) (simp_all add: fits_def min_len_def max_len_def)

lemma vendor_action_fits: "length d < 256 \<Longrightarrow> fits (length d) (vendor_action d)"
  unfolding vendor_action_def Let_def
  by (intro if_fits) (simp_all add: fits_def min_len_def max_len_def)

lemma records_fits:
  assumes "laid_out buf x" and "records x = Some (f, p, n)"
  shows "p + n \<le> length buf \<and> min_len f \<le> n \<and> n \<le> max_len f"
proof -
  let ?len = "length (e_data x)"
  have b: "?len < 256" "e_pos x + 2 + ?len \<le> length buf" using assms(1) by (simp_all add: laid_out_def)
  have mic: "min_len Mic = 0" "max_len Mic = 255" by (simp_all add: min_len_def max_len_def)
  have c: "e_data x \<noteq> [] \<Longrightarrow> Suc (Suc (Suc (e_pos x + (?len - Suc 0)))) \<le> length buf" "?len - Suc 0 < 256"
    using b by (cases "e_data x"; simp)+
  show ?thesis
    using assms(2) b c mic elem_action_fits [OF b(1), of "e_id x"] vendor_action_fits [OF b(1)]
      ext_action_fits [of "?len - 1" "unat (e_data x ! 0)"]
    by (auto simp: records_def Let_def fits_def split: action.split_asm if_split_asm)
qed

lemma until_mic_subset: "set (until_mic xs) \<subseteq> set xs"
  by (induction xs) auto

lemma last_placeD: "last_place None ps = Some q \<Longrightarrow> q \<in> set ps"
  by (auto simp: last_place_def split: if_splits)

lemma placesD: "(p, n) \<in> set (places f xs) \<Longrightarrow> \<exists>x\<in>set xs. records x = Some (f, p, n)"
  by (induction xs) (auto simp: places_Cons split: option.splits if_splits)

definition mb_ok :: "u8 list \<Rightarrow> elems \<Rightarrow> bool" where
  "mb_ok buf e \<longleftrightarrow> length (mb_ies e) \<le> MAX_NOF_MB_IES_SUPPORTED \<and> (\<forall>(p, n)\<in>set (mb_ies e). p + n \<le> length buf)"

lemma parse_element_mb:
  assumes "laid_out buf x" and "mb_ok buf (fst eu)"
  shows "mb_ok buf (fst (parse_element x eu))"
  using assms
  by (auto simp: parse_element_def Let_def add_mb_ie_def laid_out_def mb_ok_def
      ieee802_11_parse_vendor_specific_def ieee802_11_parse_extension_def split: action.split)

lemma parse_loop_mb:
  "\<forall>x\<in>set xs. laid_out buf x \<Longrightarrow> mb_ok buf (fst eu) \<Longrightarrow> mb_ok buf (fst (fst (parse_loop xs eu)))"
  by (induction xs arbitrary: eu) (auto simp: parse_element_mb)

section \<open>Properties\<close>

text \<open>C31: The parser of information elements never points outside the frame body, whatever bytes it is
  given: every member it sets lies within the body and has at least the bytes its readers rely
  on (the size of the structure for the members that have no length), and at most five multi-band
  elements are kept.\<close>

theorem elements_within_body:
  assumes "ieee802_11_parse_elems (Some buf) = (res, e)"
  shows "(\<forall>f p n. at e f = Some (p, n) \<longrightarrow> p + n \<le> length buf \<and> min_len f \<le> n \<and> n \<le> max_len f) \<and>
    mb_ok buf e"
proof -
  let ?xs = "iter_elements buf"
  have e: "e = fst (fst (parse_loop ?xs (no_elems, 0)))"
    using assms by (auto simp: ieee802_11_parse_elems_def split: prod.splits)
  have "p + n \<le> length buf \<and> min_len f \<le> n \<and> n \<le> max_len f" if "at e f = Some (p, n)" for f p n
  proof -
    have "last_place None (places f (until_mic ?xs)) = Some (p, n)"
      using that by (simp add: e parse_loop_at no_elems_def)
    from placesD [OF last_placeD [OF this]] obtain x where "x \<in> set ?xs" "records x = Some (f, p, n)"
      using until_mic_subset by blast
    then show ?thesis using records_fits iter_laid_out by blast
  qed
  moreover have "mb_ok buf e"
    unfolding e by (rule parse_loop_mb) (auto simp: iter_laid_out mb_ok_def no_elems_def)
  ultimately show ?thesis by blast
qed

theorem elements_within_body_witness:
  "let e = snd (ieee802_11_parse_elems (Some [0, 3, 97, 98, 99, 3, 1, 6, 42, 0])) in
     at e Ssid = Some (Suc (Suc 0), Suc (Suc (Suc 0))) \<and> at e Ds_Params = Some (7, 1) \<and> at e Erp_Info = None \<and>
     (\<forall>f p n. at e f = Some (p, n) \<longrightarrow> p + n \<le> 10)"
proof -
  obtain res e where p: "ieee802_11_parse_elems (Some [0, 3, 97, 98, 99, 3, 1, 6, 42, 0]) = (res, e)" by fastforce
  then have "e = \<lparr>at = [Ssid \<mapsto> (Suc (Suc 0), Suc (Suc (Suc 0))), Ds_Params \<mapsto> (7, 1)], mb_ies = []\<rparr>"
    by (auto simp: ieee802_11_parse_elems_def iter_elements_def parse_element_def elem_action_def store_def
        no_elems_def Let_def)
  with elements_within_body [OF p] p show ?thesis by (simp add: Let_def)
qed

text \<open>Iterating over a body undoes encoding it, and loses nothing: a body is exactly the encoded
  elements visited and a rest that holds no whole element; a list of encoded elements followed
  by such a rest is visited as that list, and the iteration is complete when there is no rest.\<close>

theorem element_iteration:
  "(\<exists>r. buf = encode_elems (map wire (iter_elements buf)) @ r \<and> cut_short r \<and>
      (for_each_element_completed buf \<longleftrightarrow> r = [])) \<and>
   ((\<forall>x\<in>set xs. fst x < 256 \<and> length (snd x) < 256) \<and> cut_short r' \<longrightarrow>
      map wire (iter_elements (encode_elems xs @ r')) = xs)"
proof -
  obtain es stop where i: "for_each_element 0 buf = (es, stop)" by fastforce
  from iteration_splits [OF this] show ?thesis
    using iteration_of_encoding [of xs r' 0]
    by (auto simp: iter_elements_def for_each_element_completed_def i)
qed

theorem element_iteration_witness:
  "map wire (iter_elements [0, 2, 97, 98, 3, 1, 6, 42, 9]) = [(0, [97, 98]), (3, [6])]"
  using element_iteration [of "[]" "[(0, [97, 98]), (3, [6])]" "[42, 9]"]
  by (simp add: encode_elems_def encode_elem_def cut_short_def)

text \<open>C32: What the parser answers: a member is the last element of its kind before the MIC element
  (which ends the parsing), and parsing fails exactly when the body ends within an element and
  no MIC element was met.\<close>

theorem parser_takes_last:
  "at (snd (ieee802_11_parse_elems (Some buf))) f = last_place None (places f (until_mic (iter_elements buf))) \<and>
   (fst (ieee802_11_parse_elems (Some buf)) = ParseFailed \<longleftrightarrow>
      \<not> for_each_element_completed buf \<and> \<not> (\<exists>x\<in>set (iter_elements buf). is_mic x))"
proof -
  obtain e u m where p: "parse_loop (iter_elements buf) (no_elems, 0) = ((e, u), m)"
    by (metis prod.exhaust)
  then show ?thesis
    using parse_loop_at [of "iter_elements buf" "(no_elems, 0)" f] parse_loop_mic [of "iter_elements buf" "(no_elems, 0)"]
    by (simp add: ieee802_11_parse_elems_def no_elems_def)
qed

end
