(* ===== verification/Int_Lists.thy ===== *)
theory Int_Lists
  imports Prelude
begin

text \<open>
  The list handling of \<open>wpa_supplicant/src/utils/common.c\<close>: frequency ranges and their text,
  zero-terminated arrays of frequencies, and the tokenizer. A zero-terminated array is the list of
  its elements before the zero; allocations are taken to succeed. \<open>qsort\<close> with \<open>freq_cmp\<close> on
  elements that are not zero is sorting.
\<close>

section \<open>Frequency ranges\<close>

type_synonym freq_range = "u32 \<times> u32"

text \<open>Is the first \<open>-\<close> of the text before its first comma?\<close>

definition dash_first :: "string \<Rightarrow> string option" where
  "dash_first pos =
     (case strchr pos CHR ''-'' of
        None \<Rightarrow> None
      | Some p2 \<Rightarrow> (case strchr pos CHR '','' of
                      None \<Rightarrow> Some p2
                    | Some p3 \<Rightarrow> if length p2 > length p3 then Some p2 else None))"

definition range_at :: "string \<Rightarrow> freq_range" where
  "range_at pos =
     (let lo = of_int (atoi pos)
      in (lo, case dash_first pos of Some p2 \<Rightarrow> of_int (atoi (tl p2)) | None \<Rightarrow> lo))"

function freq_range_list_parse :: "string \<Rightarrow> freq_range list" where
  "freq_range_list_parse pos =
     (if pos = [] then []
      else range_at pos #
           (case strchr pos CHR '','' of None \<Rightarrow> [] | Some p3 \<Rightarrow> freq_range_list_parse (tl p3)))"
  by pat_completeness auto
termination
proof (relation "measure length")
  fix pos p3
  assume "pos \<noteq> []" "strchr pos CHR '','' = Some p3"
  from strchr_Some [OF this(2)] obtain pre where "pos = pre @ p3" "p3 \<noteq> []" by blast
  then show "(tl p3, pos) \<in> measure length" by (cases p3) auto
qed simp

declare freq_range_list_parse.simps [simp del]

definition freq_range_list_includes :: "freq_range list \<Rightarrow> u32 \<Rightarrow> bool" where
  "freq_range_list_includes rs f = (\<exists>r\<in>set rs. fst r \<le> f \<and> f \<le> snd r)"

definition range_text :: "freq_range \<Rightarrow> string" where
  "range_text r =
     (if fst r = snd r then show_nat (unat (fst r))
      else show_nat (unat (fst r)) @ CHR ''-'' # show_nat (unat (snd r)))"

text \<open>The printing loop with \<open>room\<close> bytes left; \<open>None\<close> when a piece and its NUL do not fit.\<close>

fun range_str_loop :: "bool \<Rightarrow> nat \<Rightarrow> freq_range list \<Rightarrow> string option" where
  "range_str_loop first room [] = Some []"
| "range_str_loop first room (r # rs) =
     (let piece = (if first then [] else '','') @ range_text r
      in if length piece \<ge> room then None
         else map_option (append piece) (range_str_loop False (room - length piece) rs))"

definition freq_range_list_str :: "freq_range list \<Rightarrow> string option" where
  "freq_range_list_str rs = (if rs = [] then None else range_str_loop True (length rs * 30) rs)"

section \<open>Arrays of frequencies\<close>

definition int_array_concat :: "int list \<Rightarrow> int list \<Rightarrow> int list" where
  "int_array_concat res a = res @ a"

text \<open>The loop behind the sort: \<open>a[i]\<close> and \<open>a[j]\<close> are the heads.\<close>

fun uniq_loop :: "int list \<Rightarrow> int list" where
  "uniq_loop (x # y # ys) = (if x = y then uniq_loop (x # ys) else x # uniq_loop (y # ys))"
| "uniq_loop xs = xs"

definition int_array_sort_unique :: "int list \<Rightarrow> int list" where
  "int_array_sort_unique a = uniq_loop (sort a)"

definition int_array_add_unique :: "int list \<Rightarrow> int \<Rightarrow> int list" where
  "int_array_add_unique res a = (if a \<in> set res then res else res @ [a])"

section \<open>Tokens and parameters\<close>

text \<open>A token and the text behind it, read from \<open>*last\<close>.\<close>

definition cstr_token :: "string \<Rightarrow> string \<Rightarrow> (string \<times> string) option" where
  "cstr_token delim s =
     (let t = dropWhile (\<lambda>c. c \<in> set delim) s
      in if t = [] then None
         else Some (hd t # takeWhile (\<lambda>c. c \<notin> set delim) (tl t), dropWhile (\<lambda>c. c \<notin> set delim) (tl t)))"

text \<open>\<open>str_token\<close> also steps over the delimiter that ended the token (it becomes a NUL).\<close>

definition str_token :: "string \<Rightarrow> string \<Rightarrow> (string \<times> string) option" where
  "str_token delim context = map_option (\<lambda>(t, r). (t, tl r)) (cstr_token delim context)"

function cstr_tokens :: "string \<Rightarrow> string \<Rightarrow> string list" where
  "cstr_tokens delim s =
     (case cstr_token delim s of None \<Rightarrow> [] | Some (t, r) \<Rightarrow> t # cstr_tokens delim r)"
  by pat_completeness auto
termination
proof (relation "measure (\<lambda>(_, s). length s)")
  fix delim s p t r
  assume "cstr_token delim s = Some p" "(t, r) = p"
  then have r: "r = dropWhile (\<lambda>c. c \<notin> set delim) (tl (dropWhile (\<lambda>c. c \<in> set delim) s))"
    and ne: "dropWhile (\<lambda>c. c \<in> set delim) s \<noteq> []"
    by (auto simp: cstr_token_def Let_def split: if_splits)
  have "length r \<le> length (tl (dropWhile (\<lambda>c. c \<in> set delim) s))" unfolding r by (rule length_dropWhile_le)
  also have "\<dots> < length (dropWhile (\<lambda>c. c \<in> set delim) s)" using ne by simp
  also have "\<dots> \<le> length s" by (rule length_dropWhile_le)
  finally show "((delim, r), (delim, s)) \<in> measure (\<lambda>(_, s). length s)" by simp
qed simp

declare cstr_tokens.simps [simp del]

fun strstr :: "string \<Rightarrow> string \<Rightarrow> string option" where
  "strstr [] pat = (if pat = [] then Some [] else None)"
| "strstr (c # cs) pat = (if take (length pat) (c # cs) = pat then Some (c # cs) else strstr cs pat)"

definition get_param :: "string \<Rightarrow> string \<Rightarrow> string option" where
  "get_param cmd param =
     map_option (\<lambda>pos. takeWhile (\<lambda>c. c \<noteq> CHR '' '') (drop (length param) pos)) (strstr cmd param)"

definition str_starts :: "string \<Rightarrow> string \<Rightarrow> bool" where
  "str_starts str start = (take (length start) str = start)"

section \<open>Ranges read back\<close>

lemma show_nat_no_sep: "CHR '','' \<notin> set (show_nat n)" "CHR ''-'' \<notin> set (show_nat n)"
  using show_nat_isdigit [of "CHR '',''" n] show_nat_isdigit [of "CHR ''-''" n]
  by (auto simp: isdigit_def code_def)

lemma strchr_none: "c \<notin> set s \<Longrightarrow> strchr s c = None"
  by (simp add: strchr_None)

definition printable :: "freq_range \<Rightarrow> bool" where
  "printable r \<longleftrightarrow> unat (fst r) \<le> 2147483647 \<and> unat (snd r) \<le> 2147483647"

lemma of_int_atoi: "\<not> isdigit (peek rest) \<Longrightarrow> unat w \<le> 2147483647 \<Longrightarrow>
    of_int (atoi (show_nat (unat (w :: u32)) @ rest)) = w"
proof -
  assume a: "\<not> isdigit (peek rest)" "unat w \<le> 2147483647"
  have "int (unat w) \<le> int 2147483647" using a(2) by (simp only: of_nat_le_iff)
  then have "atoi (show_nat (unat w) @ rest) = int (unat w)"
    using a(1) by (intro atoi_show_nat) (simp_all add: int_max_def)
  then show ?thesis by simp
qed

lemma range_text_no_comma: "CHR '','' \<notin> set (range_text r)"
  by (simp add: range_text_def show_nat_no_sep)

lemma not_digit_sep [simp]: "\<not> isdigit CHR '',''" "\<not> isdigit CHR ''-''"
  by (simp_all add: isdigit_def code_def)

lemma range_at_text:
  assumes "printable r" and "rest = [] \<or> peek rest = CHR '',''"
  shows "range_at (range_text r @ rest) = r"
proof (cases "fst r = snd r")
  case True
  have "dash_first (range_text r @ rest) = None"
  proof (cases rest)
    case Nil
    then show ?thesis using True by (simp add: dash_first_def range_text_def strchr_none show_nat_no_sep)
  next
    case (Cons c cs)
    then have c: "c = CHR '',''" using assms(2) by simp
    have comma: "strchr (range_text r @ rest) CHR '','' = Some (CHR '','' # cs)"
      unfolding Cons c using range_text_no_comma by (rule strchr_append)
    have "length p2 \<le> length cs" if "strchr (range_text r @ rest) CHR ''-'' = Some p2" for p2
    proof -
      from strchr_Some [OF that] obtain pre where pre: "range_text r @ rest = pre @ p2" "peek p2 = CHR ''-''" "p2 \<noteq> []"
        by blast
      have dash: "CHR ''-'' \<notin> set (range_text r @ [c])" using True by (simp add: range_text_def show_nat_no_sep c)
      have "length (range_text r @ [c]) \<le> length pre"
      proof (rule ccontr)
        assume "\<not> ?thesis"
        then have "(range_text r @ rest) ! length pre \<in> set (range_text r @ [c])"
          by (auto simp: Cons nth_append less_Suc_eq)
        moreover have "(range_text r @ rest) ! length pre = CHR ''-''"
          using pre by (cases p2) auto
        ultimately show False using dash by simp
      qed
      moreover have "length (range_text r) + length rest = length pre + length p2"
        using arg_cong [OF pre(1), of length] by simp
      ultimately show ?thesis by (simp add: Cons)
    qed
    then show ?thesis by (auto simp: dash_first_def comma split: option.split)
  qed
  moreover have "of_int (atoi (range_text r @ rest)) = fst r"
    using assms True of_int_atoi [of rest "fst r"] by (cases rest) (auto simp: range_text_def printable_def)
  ultimately show ?thesis using True by (cases r) (simp add: range_at_def)
next
  case False
  let ?hi = "show_nat (unat (snd r)) @ rest"
  have t: "range_text r @ rest = show_nat (unat (fst r)) @ CHR ''-'' # ?hi" using False by (simp add: range_text_def)
  have dash: "strchr (range_text r @ rest) CHR ''-'' = Some (CHR ''-'' # ?hi)"
    unfolding t using show_nat_no_sep(2) by (rule strchr_append)
  have "dash_first (range_text r @ rest) = Some (CHR ''-'' # ?hi)"
  proof (cases rest)
    case Nil
    then show ?thesis using range_text_no_comma [of r] by (simp add: dash_first_def dash [unfolded Nil append_Nil2] strchr_none)
  next
    case (Cons c cs)
    then have c: "c = CHR '',''" using assms(2) by simp
    have "strchr (range_text r @ rest) CHR '','' = Some (CHR '','' # cs)"
      unfolding Cons c using range_text_no_comma by (rule strchr_append)
    then show ?thesis using dash by (simp add: dash_first_def Cons)
  qed
  moreover have "of_int (atoi (range_text r @ rest)) = fst r"
    unfolding t using assms(1) by (intro of_int_atoi) (simp_all add: printable_def)
  moreover have "of_int (atoi ?hi) = snd r"
    using assms of_int_atoi [of rest "snd r"] by (cases rest) (auto simp: printable_def)
  ultimately show ?thesis by (cases r) (simp add: range_at_def)
qed

lemma length_show_nat: "n < 10 ^ k \<Longrightarrow> 0 < k \<Longrightarrow> length (show_nat n) \<le> k"
proof (induction n arbitrary: k rule: show_nat.induct)
  case (1 n)
  show ?case
  proof (cases "n < 10")
    case True
    then show ?thesis using 1(3) by (subst show_nat.simps) simp
  next
    case False
    then obtain j where k: "k = Suc j" "0 < j" using 1(2,3) by (cases k; cases "k - 1") auto
    have "n div 10 < 10 ^ j" using 1(2) by (simp add: k less_mult_imp_div_less mult.commute)
    from 1(1) [OF False this k(2)] False show ?thesis by (subst show_nat.simps) (simp add: k)
  qed
qed

lemma range_text_length: "length (range_text r) \<le> 21"
proof -
  have w: "length (show_nat (unat w)) \<le> 10" for w :: u32
  proof (rule length_show_nat)
    have "unat w < 2 ^ 32" using unsigned_less [of w] by simp
    then show "unat w < 10 ^ 10" by simp
  qed simp
  show ?thesis using w [of "fst r"] w [of "snd r"] by (simp add: range_text_def)
qed

fun ranges_text :: "freq_range list \<Rightarrow> string" where
  "ranges_text [] = []"
| "ranges_text [r] = range_text r"
| "ranges_text (r # rs) = range_text r @ CHR '','' # ranges_text rs"

lemma range_loop_tail: "length rs * 30 \<le> room \<Longrightarrow> range_str_loop False room rs =
    Some (if rs = [] then [] else CHR '','' # ranges_text rs)"
proof (induction rs arbitrary: room rule: ranges_text.induct)
  case (2 r)
  then show ?case using range_text_length [of r] by simp
next
  case (3 r v va)
  have "length (v # va) * 30 \<le> room - Suc (length (range_text r))" using 3(2) range_text_length [of r] by simp
  from 3(1) [OF this] show ?case using 3(2) range_text_length [of r] by (simp add: Let_def)
qed simp

lemma range_list_str: "rs \<noteq> [] \<Longrightarrow> freq_range_list_str rs = Some (ranges_text rs)"
proof (cases rs)
  case (Cons r rs')
  have "length rs' * 30 \<le> length rs * 30 - length (range_text r)"
    using range_text_length [of r] by (simp add: Cons)
  from range_loop_tail [OF this] show ?thesis
    using range_text_length [of r] by (cases rs') (simp_all add: freq_range_list_str_def Cons Let_def)
qed simp

lemma ranges_text_nonempty: "rs \<noteq> [] \<Longrightarrow> ranges_text rs \<noteq> []"
  by (cases rs rule: ranges_text.cases) (simp_all add: range_text_def)

lemma parse_ranges_text: "\<forall>r\<in>set rs. printable r \<Longrightarrow> freq_range_list_parse (ranges_text rs) = rs"
proof (induction rs rule: ranges_text.induct)
  case 1
  then show ?case by (simp add: freq_range_list_parse.simps)
next
  case (2 r)
  then show ?case using range_at_text [of r "[]"] ranges_text_nonempty [of "[r]"]
    by (subst freq_range_list_parse.simps) (simp add: strchr_none range_text_no_comma)
next
  case (3 r v va)
  then show ?case using range_at_text [of r "CHR '','' # ranges_text (v # va)"]
    by (subst freq_range_list_parse.simps) (simp add: strchr_append range_text_no_comma)
qed

section \<open>Sorting and tokens\<close>

lemma uniq_loop_sorted: "sorted xs \<Longrightarrow> sorted (uniq_loop xs) \<and> distinct (uniq_loop xs) \<and> set (uniq_loop xs) = set xs"
proof (induction xs rule: uniq_loop.induct)
  case (1 x y ys)
  then show ?case by (cases "x = y") fastforce+
qed simp_all

fun interleave :: "string list \<Rightarrow> string list \<Rightarrow> string" where
  "interleave (g # gs) (t # ts) = g @ t @ interleave gs ts"
| "interleave gs ts = concat gs"

text \<open>A splitting of a text into words: gaps of delimiters, not empty between two words.\<close>

definition splits :: "string \<Rightarrow> string \<Rightarrow> string list \<Rightarrow> bool" where
  "splits delim s ts \<longleftrightarrow>
     (\<exists>gs. length gs = Suc (length ts) \<and> s = interleave gs ts \<and>
        (\<forall>g\<in>set gs. set g \<subseteq> set delim) \<and> (\<forall>t\<in>set ts. t \<noteq> [] \<and> set t \<inter> set delim = {}) \<and>
        (\<forall>g\<in>set (butlast (tl gs)). g \<noteq> []))"

lemma cstr_tokens_split:
  "\<exists>gs. length gs = Suc (length (cstr_tokens delim s)) \<and> s = interleave gs (cstr_tokens delim s) \<and>
     (\<forall>g\<in>set gs. set g \<subseteq> set delim) \<and> (\<forall>t\<in>set (cstr_tokens delim s). t \<noteq> [] \<and> set t \<inter> set delim = {}) \<and>
     (\<forall>g\<in>set (butlast (tl gs)). g \<noteq> []) \<and>
     (hd gs = [] \<longrightarrow> s = [] \<or> hd s \<notin> set delim)"
proof (induction delim s rule: cstr_tokens.induct)
  case (1 delim s)
  let ?D = "\<lambda>c. c \<in> set delim"
  define g where "g = takeWhile ?D s"
  define t where "t = dropWhile ?D s"
  have s: "s = g @ t" by (simp add: g_def t_def)
  have g: "set g \<subseteq> set delim" using set_takeWhileD by (fastforce simp: g_def)
  show ?case
  proof (cases "t = []")
    case True
    then have "cstr_tokens delim s = []"
      by (subst cstr_tokens.simps) (simp add: cstr_token_def t_def Let_def)
    then show ?thesis using g s True by (intro exI [of _ "[g]"]) auto
  next
    case False
    define w where "w = hd t # takeWhile (\<lambda>c. c \<notin> set delim) (tl t)"
    define r where "r = dropWhile (\<lambda>c. c \<notin> set delim) (tl t)"
    have tok: "cstr_token delim s = Some (w, r)" using False by (simp add: cstr_token_def t_def w_def r_def Let_def)
    then have ts: "cstr_tokens delim s = w # cstr_tokens delim r" by (subst cstr_tokens.simps) simp
    have t: "t = w @ r" using False by (simp add: w_def r_def)
    have "hd t \<notin> set delim" using False hd_dropWhile [of ?D s] by (simp add: t_def)
    then have w: "w \<noteq> []" "set w \<inter> set delim = {}" by (auto simp: w_def dest: set_takeWhileD)
    from "1" [OF tok refl] obtain gs where gs: "length gs = Suc (length (cstr_tokens delim r))"
      "r = interleave gs (cstr_tokens delim r)" "\<forall>g\<in>set gs. set g \<subseteq> set delim"
      "\<forall>t\<in>set (cstr_tokens delim r). t \<noteq> [] \<and> set t \<inter> set delim = {}"
      "\<forall>g\<in>set (butlast (tl gs)). g \<noteq> []" "hd gs = [] \<longrightarrow> r = [] \<or> hd r \<notin> set delim" by blast
    have "r = [] \<or> hd r \<in> set delim" using hd_dropWhile [of "\<lambda>c. c \<notin> set delim" "tl t"] by (auto simp: r_def)
    then have "hd gs = [] \<longrightarrow> r = []" using gs(6) by blast
    moreover have "cstr_tokens delim [] = []" by (subst cstr_tokens.simps) (simp add: cstr_token_def)
    ultimately have "\<forall>g\<in>set (butlast gs). g \<noteq> []" using gs(1,5) by (cases gs) auto
    with gs s t g w ts show ?thesis
      by (intro exI [of _ "g # gs"]) (auto simp: g_def takeWhile_eq_Nil_iff)
  qed
qed

section \<open>Properties\<close>

text \<open>A list of frequency ranges survives its text: the text always fits the 30 bytes per range
  that are allocated for it, and parsing it gives the list back, for frequencies up to the
  largest \<open>int\<close>.\<close>

theorem freq_ranges_roundtrip:
  assumes "rs \<noteq> []" and "\<forall>r\<in>set rs. printable r"
  shows "\<exists>s. freq_range_list_str rs = Some s \<and> freq_range_list_parse s = rs"
  using range_list_str [OF assms(1)] parse_ranges_text [OF assms(2)] by simp

theorem freq_ranges_roundtrip_witness:
  "\<exists>s. freq_range_list_str [(2412, 2432), (2462, 2462)] = Some s \<and> freq_range_list_parse s = [(2412, 2432), (2462, 2462)]"
  using freq_ranges_roundtrip [of "[(2412, 2432), (2462, 2462)]"] by (simp add: printable_def)

text \<open>\<open>int_array_sort_unique\<close> gives the ascending list of the distinct elements, and adding an
  element to an array that has it changes nothing.\<close>

theorem int_array_sets:
  "int_array_sort_unique a = sorted_list_of_set (set a) \<and>
   set (int_array_add_unique a x) = insert x (set a) \<and> (distinct a \<longrightarrow> distinct (int_array_add_unique a x))"
proof -
  have u: "sorted (uniq_loop (sort a)) \<and> distinct (uniq_loop (sort a)) \<and> set (uniq_loop (sort a)) = set a"
    using uniq_loop_sorted [of "sort a"] by simp
  then have "uniq_loop (sort a) = sorted_list_of_set (set a)"
    by (metis sorted_list_of_set.idem_if_sorted_distinct)
  then show ?thesis by (auto simp: int_array_sort_unique_def int_array_add_unique_def)
qed

theorem int_array_sets_witness:
  "int_array_sort_unique [2437, 2412, 2437] = sorted_list_of_set {2412, 2437} \<and>
   distinct (int_array_add_unique [2437, 2412] 2437)"
  using int_array_sets [of "[2437, 2412, 2437]" 1] int_array_sets [of "[2437, 2412]" 2437]
  by (simp add: insert_commute)

text \<open>The tokenizer splits a text into its words: the text is the words with gaps of delimiters
  between them, no word is empty or contains a delimiter, and two words are never adjacent.\<close>

theorem tokens_are_words: "splits delim s (cstr_tokens delim s)"
  using cstr_tokens_split [of delim s] unfolding splits_def by blast

end
