(* ===== verification/Element_Uses.thy ===== *)
theory Element_Uses
  imports Elements Wpabuf Hex_Text Int_Lists
begin

text \<open>
  What \<open>ieee802_11_common.c\<close> does with elements: looking them up, collecting vendor and multi-band
  elements into a buffer, building the MBO and Multi-AP elements, and turning the text of a BSS
  transition candidate list into neighbor report elements; and the small readers of frame headers,
  rates and WMM parameters beside them. The output of the builders is what they leave in the
  caller's buffer; \<open>None\<close> stands for the error value.
\<close>

section \<open>Looking up\<close>

definition ieee802_11_ie_count :: "u8 list option \<Rightarrow> nat" where
  "ieee802_11_ie_count ies = (case ies of None \<Rightarrow> 0 | Some buf \<Rightarrow> length (iter_elements buf))"

definition get_ie :: "u8 list option \<Rightarrow> nat \<Rightarrow> nat option" where
  "get_ie ies eid =
     (case ies of
        None \<Rightarrow> None
      | Some buf \<Rightarrow> map_option e_pos (find (\<lambda>x. e_id x = eid) (iter_elements buf)))"

definition get_ie_ext :: "u8 list option \<Rightarrow> nat \<Rightarrow> nat option" where
  "get_ie_ext ies ext =
     (case ies of
        None \<Rightarrow> None
      | Some buf \<Rightarrow>
          map_option e_pos
            (find (\<lambda>x. e_id x = WLAN_EID_EXTENSION \<and> length (e_data x) > 0 \<and> unat (e_data x ! 0) = ext)
              (iter_elements buf)))"

definition vendor_match :: "u32 \<Rightarrow> element \<Rightarrow> bool" where
  "vendor_match ty x \<longleftrightarrow>
     e_id x = WLAN_EID_VENDOR_SPECIFIC \<and> length (e_data x) \<ge> 4 \<and> WPA_GET_BE32 (e_data x) = ty"

definition get_vendor_ie :: "u8 list \<Rightarrow> u32 \<Rightarrow> nat option" where
  "get_vendor_ie ies ty = map_option e_pos (find (vendor_match ty) (iter_elements ies))"

definition ieee802_11_ext_capab :: "u8 list option \<Rightarrow> nat \<Rightarrow> bool" where
  "ieee802_11_ext_capab ie capab =
     (case ie of
        None \<Rightarrow> False
      | Some ie \<Rightarrow> if unat (ie ! 1) \<le> capab div 8 then False else bit (ie ! (2 + capab div 8)) (capab mod 8))"

section \<open>Collecting\<close>

fun put_vendor_data :: "u32 \<Rightarrow> element list \<Rightarrow> wpabuf \<Rightarrow> buf_fault + wpabuf" where
  "put_vendor_data ty [] b = Inr b"
| "put_vendor_data ty (x # xs) b =
     (if vendor_match ty x then
        (case wpabuf_put_data (Some (drop 4 (e_data x))) b of
           Inl f \<Rightarrow> Inl f | Inr b \<Rightarrow> put_vendor_data ty xs b)
      else put_vendor_data ty xs b)"

definition ieee802_11_vendor_ie_concat ::
  "(nat \<Rightarrow> bool) \<Rightarrow> u8 list \<Rightarrow> u32 \<Rightarrow> buf_fault + wpabuf option" where
  "ieee802_11_vendor_ie_concat alloc ies ty =
     (if find (vendor_match ty) (iter_elements ies) = None then Inr None
      else (case wpabuf_alloc alloc (length ies) of
              None \<Rightarrow> Inr None
            | Some buf \<Rightarrow> map_sum id Some (put_vendor_data ty (iter_elements ies) buf)))"

text \<open>The loop over the multi-band elements returns 0 as soon as a sixth one is met.\<close>

fun mb_loop :: "element list \<Rightarrow> (nat \<times> nat) list \<Rightarrow> (nat \<times> nat) list \<times> bool" where
  "mb_loop [] info = (info, False)"
| "mb_loop (x # xs) info =
     (if e_id x \<noteq> WLAN_EID_MULTI_BAND then mb_loop xs info
      else if length info \<ge> MAX_NOF_MB_IES_SUPPORTED then (info, True)
      else mb_loop xs (info @ [(e_pos x + 2, length (e_data x))]))"

definition mb_ies_info_by_ies :: "u8 list option \<Rightarrow> int \<times> (nat \<times> nat) list" where
  "mb_ies_info_by_ies ies_buf =
     (case ies_buf of
        None \<Rightarrow> (0, [])
      | Some buf \<Rightarrow>
          (case mb_loop (iter_elements buf) [] of
             (info, full) \<Rightarrow> (if \<not> full \<and> \<not> for_each_element_completed buf then - 1 else 0, info)))"

definition elem_slice :: "u8 list \<Rightarrow> nat \<times> nat \<Rightarrow> u8 list" where
  "elem_slice buf q = take (snd q) (drop (fst q) buf)"

fun put_mb_ies :: "u8 list \<Rightarrow> (nat \<times> nat) list \<Rightarrow> wpabuf \<Rightarrow> buf_fault + wpabuf" where
  "put_mb_ies buf [] b = Inr b"
| "put_mb_ies buf (q # qs) b =
     (case wpabuf_put_u8 (of_nat WLAN_EID_MULTI_BAND) b of
        Inl f \<Rightarrow> Inl f
      | Inr b \<Rightarrow>
          (case wpabuf_put_u8 (of_nat (snd q)) b of
             Inl f \<Rightarrow> Inl f
           | Inr b \<Rightarrow>
               (case wpabuf_put_data (Some (elem_slice buf q)) b of
                  Inl f \<Rightarrow> Inl f | Inr b \<Rightarrow> put_mb_ies buf qs b)))"

definition mb_ies_by_info :: "(nat \<Rightarrow> bool) \<Rightarrow> u8 list \<Rightarrow> (nat \<times> nat) list \<Rightarrow> buf_fault + wpabuf option" where
  "mb_ies_by_info alloc buf info =
     (if info = [] then Inr None
      else (case wpabuf_alloc alloc (\<Sum>q\<leftarrow>info. 2 + snd q) of
              None \<Rightarrow> Inr None
            | Some b \<Rightarrow> map_sum id Some (put_mb_ies buf info b)))"

section \<open>Building\<close>

abbreviation (input) OUI_WFA :: u32 where "OUI_WFA \<equiv> 0x506f9a"

text \<open>\<open>len\<close> is the room of the caller's buffer; the result is what was written, nothing on error.\<close>

definition mbo_add_ie :: "nat \<Rightarrow> u8 list \<Rightarrow> u8 list" where
  "mbo_add_ie len attr =
     (if len < 6 + length attr then []
      else [of_nat WLAN_EID_VENDOR_SPECIFIC, of_nat (length attr + 4)] @ WPA_PUT_BE24 OUI_WFA @ [22] @ attr)"

definition add_multi_ap_ie :: "nat \<Rightarrow> u8 \<Rightarrow> u8 list" where
  "add_multi_ap_ie len val =
     (if len < 9 then []
      else [of_nat WLAN_EID_VENDOR_SPECIFIC, 7] @ WPA_PUT_BE24 OUI_WFA @ [0x1B, 0x06, 1, val])"

section \<open>Candidate lists\<close>

text \<open>\<open>strtol\<close> with base 0 and a \<open>long\<close> of 32 bits: the value and the rest of the text.\<close>

definition strtol0 :: "string \<Rightarrow> int \<times> string" where
  "strtol0 s =
     (let t = dropWhile isspace s;
          neg = (peek t = CHR ''-'');
          t = (if peek t = CHR ''-'' \<or> peek t = CHR ''+'' then tl t else t);
          (b, ds) = (if peek t = CHR ''0'' \<and> tolower (peek2 t) = CHR ''x'' \<and> base_digit 16 (peek (drop 2 t)) \<noteq> None
                     then (16, drop 2 t) else if peek t = CHR ''0'' then (8, t) else (10, t));
          v = int (base_acc b 0 ds)
      in if base_digit b (peek ds) = None then (0, s)
         else (clamp_int (if neg then - v else v), dropWhile (\<lambda>c. base_digit b c \<noteq> None) ds))"

text \<open>One entry behind \<open>neighbor=\<close>: the element written and where the scan goes on (\<open>None\<close> is the
  null pointer).\<close>

definition neighbor_tail :: "nat \<Rightarrow> u8 list \<Rightarrow> string \<Rightarrow> (u8 list \<times> string option) option" where
  "neighbor_tail room body pos =
     (let end_pos = strchr pos CHR '' ''; tmp = strchr pos CHR '',''
      in case tmp of
           None \<Rightarrow> Some (body, Some pos)
         | Some t \<Rightarrow>
             if end_pos \<noteq> None \<and> length t \<le> length (the end_pos) then Some (body, Some pos)
             else let pos = tl t; end_pos = strchr pos CHR '' '';
                      len = (case end_pos of Some e \<Rightarrow> length pos - length e | None \<Rightarrow> length pos)
                  in if room < 2 + length body + len div 2 then None
                     else if odd len then None
                     else (case hexstr2bin pos (len div 2) of
                             None \<Rightarrow> None
                           | Some bs \<Rightarrow> Some (body @ bs, end_pos)))"

definition parse_neighbor :: "nat \<Rightarrow> string \<Rightarrow> (u8 list \<times> string option) option" where
  "parse_neighbor room pos =
     (case hwaddr_aton pos of
        None \<Rightarrow> None
      | Some bssid \<Rightarrow>
          let pos = drop 17 pos
          in if peek pos \<noteq> CHR '','' then None
             else case strtol0 (tl pos) of (val, endptr) \<Rightarrow>
               if peek endptr \<noteq> CHR '','' then None
               else let pos = tl endptr; opclass = word_of_int (atoi pos)
                    in case strchr pos CHR '','' of
                         None \<Rightarrow> None
                       | Some c1 \<Rightarrow>
                           (case strchr (tl c1) CHR '','' of
                              None \<Rightarrow> None
                            | Some c2 \<Rightarrow>
                                map_option
                                  (\<lambda>(body, rest). ([of_nat WLAN_EID_NEIGHBOR_REPORT, of_nat (length body)] @ body, rest))
                                  (neighbor_tail room
                                    (bssid @ WPA_PUT_LE32 (word_of_int val) @
                                     [opclass, word_of_int (atoi (tl c1)), word_of_int (atoi (tl c2))])
                                    (tl c2))))"

function candidate_loop :: "nat \<Rightarrow> string option \<Rightarrow> u8 list \<Rightarrow> u8 list option" where
  "candidate_loop room pos nei =
     (case pos of
        None \<Rightarrow> Some nei
      | Some p \<Rightarrow>
          (case strstr p '' neighbor='' of
             None \<Rightarrow> Some nei
           | Some q \<Rightarrow>
               if room < length nei + 15 then None
               else (case parse_neighbor (room - length nei) (drop 10 q) of
                       None \<Rightarrow> None
                     | Some (elem, rest) \<Rightarrow> candidate_loop room rest (nei @ elem))))"
  by pat_completeness auto

lemma strchr_length: "strchr s c = Some t \<Longrightarrow> length t \<le> length s"
  by (induction s) (auto split: if_splits)

lemma length_dropWhile_le: "length (dropWhile P s) \<le> length s"
  by (induction s) auto

lemma strtol0_length: "strtol0 s = (v, r) \<Longrightarrow> length r \<le> length s"
proof -
  let ?t = "dropWhile isspace s"
  let ?u = "if peek ?t = CHR ''-'' \<or> peek ?t = CHR ''+'' then tl ?t else ?t"
  have t: "length ?u \<le> length s" using length_dropWhile_le [of isspace s] by auto
  have d: "length (dropWhile P (drop n ?u)) \<le> length s" for P n
    using length_dropWhile_le [of P "drop n ?u"] t by simp
  assume "strtol0 s = (v, r)"
  then have "r = s \<or> (\<exists>P n. r = dropWhile P (drop n ?u))"
    unfolding strtol0_def Let_def
    by (auto split: if_split_asm) (metis drop0)+
  with d show "length r \<le> length s" by auto
qed

lemma strstr_suffix: "strstr s pat = Some q \<Longrightarrow> \<exists>pre. s = pre @ q \<and> take (length pat) q = pat"
proof (induction s)
  case (Cons c cs)
  show ?case
  proof (cases "take (length pat) (c # cs) = pat")
    case True
    with Cons.prems have "c # cs = [] @ q" by simp
    with True show ?thesis by (metis append_Nil)
  next
    case False
    with Cons.prems Cons.IH obtain pre where "cs = pre @ q" "take (length pat) q = pat" by auto
    then have "c # cs = (c # pre) @ q" by simp
    with \<open>take (length pat) q = pat\<close> show ?thesis by blast
  qed
qed (simp split: if_split_asm)

lemma neighbor_tail_length: "neighbor_tail room body pos = Some (b, Some r) \<Longrightarrow> length r \<le> length pos"
  by (auto simp: neighbor_tail_def Let_def split: option.split_asm if_split_asm dest!: strchr_length)

lemma parse_neighbor_length: "parse_neighbor room pos = Some (b, Some r) \<Longrightarrow> length r \<le> length pos"
  by (auto simp: parse_neighbor_def Let_def split: option.split_asm if_split_asm prod.split_asm
      dest!: strchr_length strtol0_length neighbor_tail_length)

termination candidate_loop
proof (relation "measure (\<lambda>(room, pos, nei). case pos of None \<Rightarrow> 0 | Some p \<Rightarrow> Suc (length p))")
  fix room and pos :: "string option" and nei elem :: "u8 list" and p q e rest
  assume a: "pos = Some p" "strstr p '' neighbor='' = Some q"
    and n: "parse_neighbor (room - length nei) (drop 10 q) = Some e" "(elem, rest) = e"
  from strstr_suffix [OF a(2)] have "10 \<le> length q" "length q \<le> length p" by (auto dest: arg_cong [of _ _ length])
  then show "((room, rest, nei @ elem), room, pos, nei) \<in> measure (\<lambda>(room, pos, nei). case pos of None \<Rightarrow> 0 | Some p \<Rightarrow> Suc (length p))"
    using a n parse_neighbor_length [of "room - length nei" "drop 10 q" elem] by (cases rest) auto
qed simp

declare candidate_loop.simps [simp del]

definition ieee802_11_parse_candidate_list :: "string option \<Rightarrow> nat \<Rightarrow> u8 list option" where
  "ieee802_11_parse_candidate_list pos nei_rep_len = candidate_loop nei_rep_len pos []"

section \<open>Frame headers, rates and WMM parameters\<close>

text \<open>\<open>get_hdr_bssid\<close>: the offset of the address in the header, from the frame control field.\<close>

definition get_hdr_bssid :: "u8 list \<Rightarrow> nat option" where
  "get_hdr_bssid frame =
     (let len = length frame; fc = WPA_GET_LE16 frame;
          ty = drop_bit 2 (fc AND 0x000c); stype = drop_bit 4 (fc AND 0x00f0);
          ds = fc AND 0x0300
      in if len < 16 then None
         else if ty = 2 then
           (if len < 24 then None
            else if ds = 0x0300 \<or> ds = 0x0100 then Some 4
            else if ds = 0x0200 then Some 10 else None)
         else if ty = 1 then (if stype \<noteq> 10 then None else Some 4)
         else if ty = 0 then Some 16 else None)"

record wmm_ac =
  cwmin :: int
  cwmax :: int
  aifs :: int
  txop_limit :: int
  acm :: int

definition wmm_ac_index :: "string \<Rightarrow> nat option" where
  "wmm_ac_index pos =
     (if take 3 pos = ''be_'' then Some 0 else if take 3 pos = ''bk_'' then Some 1
      else if take 3 pos = ''vi_'' then Some 2 else if take 3 pos = ''vo_'' then Some 3 else None)"

definition set_wmm_field :: "string \<Rightarrow> int \<Rightarrow> wmm_ac \<Rightarrow> wmm_ac option" where
  "set_wmm_field field v ac =
     (if field = ''aifs'' then (if v < 1 \<or> v > 255 then None else Some (ac\<lparr>aifs := v\<rparr>))
      else if field = ''cwmin'' then (if v < 0 \<or> v > 15 then None else Some (ac\<lparr>cwmin := v\<rparr>))
      else if field = ''cwmax'' then (if v < 0 \<or> v > 15 then None else Some (ac\<lparr>cwmax := v\<rparr>))
      else if field = ''txop_limit'' then (if v < 0 \<or> v > 0xffff then None else Some (ac\<lparr>txop_limit := v\<rparr>))
      else if field = ''acm'' then (if v < 0 \<or> v > 1 then None else Some (ac\<lparr>acm := v\<rparr>))
      else None)"

definition hostapd_config_wmm_ac :: "wmm_ac list \<Rightarrow> string \<Rightarrow> string \<Rightarrow> int \<times> wmm_ac list" where
  "hostapd_config_wmm_ac params name val =
     (let pos = drop 7 name
      in case wmm_ac_index pos of
           None \<Rightarrow> (- 1, params)
         | Some num \<Rightarrow>
             (case set_wmm_field (drop 3 pos) (atoi val) (params ! num) of
                None \<Rightarrow> (- 1, params)
              | Some ac \<Rightarrow> (0, params[num := ac])))"

definition is_11b :: "u8 \<Rightarrow> bool" where
  "is_11b rate \<longleftrightarrow> rate = 0x02 \<or> rate = 0x04 \<or> rate = 0x0b \<or> rate = 0x16"

text \<open>The two rate elements, where present.\<close>

definition supp_rates_11b_only :: "u8 list option \<Rightarrow> u8 list option \<Rightarrow> bool" where
  "supp_rates_11b_only supp ext =
     (if supp = None \<and> ext = None then False
      else let rates = (case supp of Some r \<Rightarrow> r | None \<Rightarrow> []) @ (case ext of Some r \<Rightarrow> r | None \<Rightarrow> []);
               num_11b = length (filter is_11b rates); num_others = length (filter (\<lambda>r. \<not> is_11b r) rates)
           in num_11b > 0 \<and> num_others = 0)"

text \<open>The channels of the modes, each with its frequency and whether radar detection is required.\<close>

definition ieee80211_is_dfs :: "int \<Rightarrow> (int \<times> bool) list list option \<Rightarrow> bool" where
  "ieee80211_is_dfs freq modes =
     (case modes of
        Some (m # ms) \<Rightarrow> \<exists>chans\<in>set (m # ms). \<exists>c\<in>set chans. fst c = freq \<and> snd c
      | _ \<Rightarrow> (freq \<ge> 5260 \<and> freq \<le> 5320) \<or> (freq \<ge> 5500 \<and> freq \<le> 5700))"

section \<open>Room for what is collected\<close>

lemma encode_elems_Cons [simp]: "encode_elems (x # xs) = encode_elem x @ encode_elems xs" "encode_elems [] = []"
  by (simp_all add: encode_elems_def)

lemma length_encode_elem [simp]: "length (encode_elem x) = 2 + length (snd x)"
  by (simp add: encode_elem_def)

lemma length_encode: "length (encode_elems xs) = (\<Sum>x\<leftarrow>xs. 2 + length (snd x))"
  by (induction xs) simp_all

lemma iter_length: "length (encode_elems (map wire (iter_elements buf))) \<le> length buf"
proof -
  obtain es stop where "for_each_element 0 buf = (es, stop)" by fastforce
  with iteration_splits [OF this] show ?thesis by (auto simp: iter_elements_def)
qed

lemma data_total: "length (concat (map (drop k \<circ> e_data) (filter P xs))) \<le> length (encode_elems (map wire xs))"
  by (induction xs) (auto simp: wire_def)

lemma wok_room: "n < 2 ^ 31 \<Longrightarrow> alloc n \<Longrightarrow>
  \<exists>b. wpabuf_alloc alloc n = Some b \<and> wok b \<and> wpabuf_head b = [] \<and> wpabuf_tailroom b = n"
  by (simp add: wpabuf_alloc_def wok_def wpabuf_head_def wpabuf_tailroom_def)

lemma put_keeps_wok: "wok b \<Longrightarrow> put_bytes bs b = Inr b' \<Longrightarrow> wok b'"
  by (auto simp: put_bytes_def wpabuf_put_def write_at_def wok_def Let_def split: if_splits)

lemma put_vendor_all:
  "wok b \<Longrightarrow> put_vendor_data ty xs b = sink.put_all (map (drop 4 \<circ> e_data) (filter (vendor_match ty) xs)) b"
  by (induction xs arbitrary: b) (auto simp: wpabuf_put_data_def put_keeps_wok split: sum.split)

lemma put_mb_all:
  "wok b \<Longrightarrow> put_mb_ies buf qs b = sink.put_all (concat (map (\<lambda>q. [[158], [of_nat (snd q)], elem_slice buf q]) qs)) b"
proof (induction qs arbitrary: b)
  case (Cons q qs)
  have "put_mb_ies buf qs b3 = sink.put_all (concat (map (\<lambda>q. [[158], [of_nat (snd q)], elem_slice buf q]) qs)) b3"
    if "put_bytes [158] b = Inr b1" "put_bytes [of_nat (snd q)] b1 = Inr b2" "put_bytes (elem_slice buf q) b2 = Inr b3"
    for b1 b2 b3
    using that Cons by (blast dest: put_keeps_wok)
  then show ?case by (auto simp: wpabuf_put_data_def wpabuf_put_u8_def split: sum.split)
qed simp

lemma mb_loop_spec:
  "length info \<le> 5 \<Longrightarrow>
   fst (mb_loop xs info) = take 5 (info @ map (\<lambda>x. (e_pos x + 2, length (e_data x))) (filter (\<lambda>x. e_id x = 158) xs))"
proof (induction xs arbitrary: info)
  case (Cons x xs)
  have "4 - length info = k" if "5 - length info = Suc k" for k using that by arith
  with Cons show ?case
    by (cases "5 - length info") (auto simp: MAX_NOF_MB_IES_SUPPORTED_def)
qed simp

lemma slice_laid_out: "laid_out buf x \<Longrightarrow> elem_slice buf (e_pos x + 2, length (e_data x)) = e_data x"
  by (simp add: laid_out_def elem_slice_def)

lemma pieces_encode:
  "\<forall>x\<in>set xs. laid_out buf x \<and> e_id x = 158 \<Longrightarrow>
   concat (concat (map (\<lambda>q. [[158], [of_nat (snd q)], elem_slice buf q]) (map (\<lambda>x. (e_pos x + 2, length (e_data x))) xs))) =
     encode_elems (map wire xs)"
  by (induction xs) (auto simp: encode_elem_def wire_def slice_laid_out [simplified])

lemma laid_outD: "laid_out buf x \<Longrightarrow> e_id x < 256 \<and> length (e_data x) < 256"
  by (simp add: laid_out_def)

lemma places_size:
  "(\<Sum>q\<leftarrow>map (\<lambda>x. (e_pos x + 2, length (e_data x))) xs. 2 + snd q) = length (encode_elems (map wire xs))"
  by (induction xs) (simp_all add: wire_def)

lemma sum_list_le_mult: "\<forall>x\<in>set xs. f x \<le> k \<Longrightarrow> (\<Sum>x\<leftarrow>xs. f x) \<le> k * length xs" for f :: "'a \<Rightarrow> nat"
  by (induction xs) auto

lemma mb_info_elements:
  assumes "mb_ies_info_by_ies (Some buf) = (rc, info)"
  shows "info = map (\<lambda>x. (e_pos x + 2, length (e_data x))) (take 5 (filter (\<lambda>x. e_id x = 158) (iter_elements buf)))"
  using assms mb_loop_spec [of "[]" "iter_elements buf"]
  by (auto simp: mb_ies_info_by_ies_def take_map split: prod.splits)

lemma mb_info_slices:
  "map (elem_slice buf) (snd (mb_ies_info_by_ies (Some buf))) =
     map snd (take 5 (filter (\<lambda>x. fst x = 158) (map wire (iter_elements buf))))"
proof -
  let ?xs = "take 5 (filter (\<lambda>x. e_id x = 158) (iter_elements buf))"
  have "\<forall>x\<in>set ?xs. laid_out buf x" using iter_laid_out [of _ buf] by (auto dest!: in_set_takeD)
  then have "map (elem_slice buf) (snd (mb_ies_info_by_ies (Some buf))) = map e_data ?xs"
    using mb_info_elements [of buf "fst (mb_ies_info_by_ies (Some buf))" "snd (mb_ies_info_by_ies (Some buf))"]
    by (simp add: slice_laid_out [simplified])
  also have "\<dots> = map snd (take 5 (filter (\<lambda>x. fst x = 158) (map wire (iter_elements buf))))"
    by (simp add: filter_map take_map comp_def wire_def)
  finally show ?thesis .
qed

lemma mb_built:
  assumes "mb_ies_info_by_ies (Some buf) = (rc, info)" and "info \<noteq> []" and "\<forall>k. alloc k"
    and "ys = map wire (take 5 (filter (\<lambda>x. e_id x = 158) (iter_elements buf)))"
  shows "(\<forall>y\<in>set ys. fst y = 158 \<and> length (snd y) < 256) \<and>
    (\<exists>w. mb_ies_by_info alloc buf info = Inr (Some w) \<and> wpabuf_head w = encode_elems ys)"
proof -
  let ?xs = "take 5 (filter (\<lambda>x. e_id x = 158) (iter_elements buf))"
  have laid: "\<forall>x\<in>set ?xs. laid_out buf x \<and> e_id x = 158"
    using iter_laid_out [of _ buf] by (auto dest!: in_set_takeD)
  note info = mb_info_elements [OF assms(1)]
  have size': "(\<Sum>q\<leftarrow>info. 2 + snd q) = length (encode_elems ys)"
    unfolding info assms(4) by (rule places_size)
  have small: "fst y = 158 \<and> length (snd y) < 256" if "y \<in> set ys" for y
  proof -
    from that obtain x where x: "x \<in> set ?xs" "y = wire x" unfolding assms(4) set_map by blast
    with laid have "laid_out buf x" "e_id x = 158" by blast+
    with x(2) show ?thesis by (simp add: wire_def laid_outD)
  qed
  have "(\<Sum>y\<leftarrow>ys. 2 + length (snd y)) \<le> 257 * length ys"
  proof (rule sum_list_le_mult, rule ballI)
    fix y assume "y \<in> set ys"
    then show "2 + length (snd y) \<le> 257" using small [of y] by linarith
  qed
  also have "\<dots> < 2 ^ 31" by (simp add: assms(4))
  finally have "length (encode_elems ys) < 2 ^ 31" unfolding length_encode .
  from wok_room [OF this, of alloc] assms(3) obtain b where b: "wpabuf_alloc alloc (\<Sum>q\<leftarrow>info. 2 + snd q) = Some b"
    "wok b" "wpabuf_head b = []" "wpabuf_tailroom b = length (encode_elems ys)" unfolding size' by blast
  have enc: "concat (concat (map (\<lambda>q. [[158], [of_nat (snd q)], elem_slice buf q]) info)) = encode_elems ys"
    unfolding info assms(4) by (rule pieces_encode [OF laid])
  then show ?thesis
    using sink.put_all_fits [OF b(2), of "concat (map (\<lambda>q. [[158], [of_nat (snd q)], elem_slice buf q]) info)"]
      b assms(2) small by (auto simp: mb_ies_by_info_def put_mb_all)
qed

section \<open>Properties of the collectors\<close>

text \<open>Collecting the vendor elements of one type gives the data behind their OUI and type,
  concatenated in their order, in a buffer that is always large enough; without such an element
  there is no buffer.\<close>

theorem vendor_elements_concatenated:
  assumes "length ies < 2 ^ 31" and "\<forall>k. alloc k"
  shows "(let xs = filter (vendor_match ty) (iter_elements ies)
    in if xs = [] then ieee802_11_vendor_ie_concat alloc ies ty = Inr None
       else \<exists>w. ieee802_11_vendor_ie_concat alloc ies ty = Inr (Some w) \<and> wok w \<and>
              wpabuf_head w = concat (map (\<lambda>x. drop 4 (e_data x)) xs))"
proof -
  let ?xs = "filter (vendor_match ty) (iter_elements ies)"
  have none: "find (vendor_match ty) (iter_elements ies) = None \<longleftrightarrow> ?xs = []"
    by (auto simp: find_None_iff filter_empty_conv)
  obtain b where b: "wpabuf_alloc alloc (length ies) = Some b" "wok b" "wpabuf_head b = []"
    "wpabuf_tailroom b = length ies" using wok_room assms by blast
  have "length (concat (map (drop 4 \<circ> e_data) ?xs)) \<le> wpabuf_tailroom b"
    using data_total [of 4 "vendor_match ty" "iter_elements ies"] iter_length [of ies] b(4) by simp
  from sink.put_all_fits [OF b(2) this] show ?thesis
    by (auto simp: ieee802_11_vendor_ie_concat_def none b put_vendor_all comp_def)
qed

theorem vendor_elements_concatenated_witness:
  "\<exists>w. ieee802_11_vendor_ie_concat (\<lambda>_. True) [221, 5, 0, 80, 242, 4, 7, 0, 1, 9, 221, 6, 0, 80, 242, 4, 8, 9] 0x0050f204
     = Inr (Some w) \<and> wpabuf_head w = [7, 8, 9]"
proof -
  let ?b = "[221, 5, 0, 80, 242, 4, 7, 0, 1, 9, 221, 6, 0, 80, 242, 4, 8, 9] :: u8 list"
  have "filter (vendor_match 0x0050f204) (iter_elements ?b) =
      [\<lparr>e_pos = 0, e_id = 221, e_data = [0, 80, 242, 4, 7]\<rparr>, \<lparr>e_pos = 10, e_id = 221, e_data = [0, 80, 242, 4, 8, 9]\<rparr>]"
    by (simp add: iter_elements_def vendor_match_def WPA_GET_BE32_def)
  with vendor_elements_concatenated [of ?b "\<lambda>_. True" "0x0050f204"] show ?thesis by (auto simp: Let_def)
qed

text \<open>Multi-band elements survive being collected and written out again: the buffer built from what
  was collected is the first five multi-band elements of the body, encoded, and collecting from
  it gives the same data.\<close>

theorem multi_band_roundtrip:
  assumes "mb_ies_info_by_ies (Some buf) = (rc, info)" and "info \<noteq> []" and "\<forall>k. alloc k"
  shows "\<exists>w. mb_ies_by_info alloc buf info = Inr (Some w) \<and>
    wpabuf_head w = encode_elems (take 5 (filter (\<lambda>x. fst x = 158) (map wire (iter_elements buf)))) \<and>
    map (elem_slice (wpabuf_head w)) (snd (mb_ies_info_by_ies (Some (wpabuf_head w)))) = map (elem_slice buf) info"
proof -
  let ?ys = "map wire (take 5 (filter (\<lambda>x. e_id x = 158) (iter_elements buf)))"
  have ys: "?ys = take 5 (filter (\<lambda>x. fst x = 158) (map wire (iter_elements buf)))"
    by (simp add: filter_map take_map comp_def wire_def)
  obtain w where small: "\<forall>y\<in>set ?ys. fst y = 158 \<and> length (snd y) < 256"
    and w: "mb_ies_by_info alloc buf info = Inr (Some w)" "wpabuf_head w = encode_elems ?ys"
    using mb_built [OF assms refl] by blast
  have "map wire (iter_elements (wpabuf_head w)) = ?ys"
    using iteration_of_encoding [of ?ys "[]" 0] small by (simp add: w iter_elements_def cut_short_def)
  moreover have "take 5 (filter (\<lambda>x. fst x = 158) ?ys) = ?ys"
    using small by (simp add: filter_id_conv)
  ultimately have "map (elem_slice (wpabuf_head w)) (snd (mb_ies_info_by_ies (Some (wpabuf_head w)))) = map snd ?ys"
    unfolding mb_info_slices by simp
  also have "\<dots> = map (elem_slice buf) info"
    using mb_info_slices [of buf] assms(1) by (simp add: ys)
  finally show ?thesis using w ys by auto
qed

theorem multi_band_roundtrip_witness:
  "\<exists>w. mb_ies_by_info (\<lambda>_. True) [158, 2, 7, 8, 0, 1, 65, 158, 1, 9] [(2, 2), (9, 1)] = Inr (Some w) \<and>
    wpabuf_head w = [158, 2, 7, 8, 158, 1, 9]"
proof -
  let ?b = "[158, 2, 7, 8, 0, 1, 65, 158, 1, 9] :: u8 list"
  have it: "iter_elements ?b = [\<lparr>e_pos = 0, e_id = 158, e_data = [7, 8]\<rparr>, \<lparr>e_pos = 4, e_id = 0, e_data = [65]\<rparr>,
      \<lparr>e_pos = 7, e_id = 158, e_data = [9]\<rparr>]"
    by (simp add: iter_elements_def)
  have "mb_ies_info_by_ies (Some ?b) = (0, [(Suc (Suc 0), Suc (Suc 0)), (9, Suc 0)])"
    by (simp add: mb_ies_info_by_ies_def it MAX_NOF_MB_IES_SUPPORTED_def for_each_element_completed_def)
  from multi_band_roundtrip [OF this, of "\<lambda>_. True"] show ?thesis
    by (auto simp: it encode_elem_def numeral_2_eq_2)
qed

end
