(* ===== verification/Candidates.thy ===== *)
theory Candidates
  imports Element_Uses
begin

text \<open>
  The text form of a BSS transition candidate list, and the proof that
  \<open>ieee802_11_parse_candidate_list\<close> turns it into the neighbor report elements it stands for.
\<close>

record neighbor =
  nbssid :: "u8 list"
  ninfo :: nat
  nclass :: nat
  nchan :: nat
  nphy :: nat
  nsub :: "u8 list"

definition wf_neighbor :: "neighbor \<Rightarrow> bool" where
  "wf_neighbor n \<longleftrightarrow> length (nbssid n) = 6 \<and> int (ninfo n) \<le> int_max \<and>
     nclass n < 256 \<and> nchan n < 256 \<and> nphy n < 256"

definition sub_text :: "neighbor \<Rightarrow> string" where
  "sub_text n = (if nsub n = [] then [] else CHR '','' # concat (map (hex_byte False) (nsub n)))"

definition entry_text :: "neighbor \<Rightarrow> string" where
  "entry_text n = macstr (nbssid n) @ CHR '','' # show_nat (ninfo n) @ CHR '','' # show_nat (nclass n) @
     CHR '','' # show_nat (nchan n) @ CHR '','' # show_nat (nphy n) @ sub_text n"

definition list_text :: "neighbor list \<Rightarrow> string" where
  "list_text ns = concat (map (\<lambda>n. '' neighbor='' @ entry_text n) ns)"

definition report_body :: "neighbor \<Rightarrow> u8 list" where
  "report_body n = nbssid n @ WPA_PUT_LE32 (of_nat (ninfo n)) @
     [of_nat (nclass n), of_nat (nchan n), of_nat (nphy n)] @ nsub n"

definition reports :: "neighbor list \<Rightarrow> u8 list" where
  "reports ns = encode_elems (map (\<lambda>n. (52, report_body n)) ns)"

section \<open>The characters\<close>

lemma show_nat_head: "0 < n \<Longrightarrow> peek (show_nat n @ r) \<noteq> CHR ''0''"
proof (induction n arbitrary: r rule: show_nat.induct)
  case (1 n)
  show ?case
  proof (cases "n < 10")
    case True
    moreover have "code CHR ''0'' = 48" by (simp add: code_def)
    ultimately have "code (digit_char n) \<noteq> code CHR ''0''" using "1.prems" by simp
    then have "digit_char n \<noteq> CHR ''0''" by metis
    then show ?thesis using True by (subst show_nat.simps) simp
  next
    case False
    have "peek (show_nat (n div 10) @ [digit_char (n mod 10)] @ r) \<noteq> CHR ''0''" using 1 False by simp
    then show ?thesis using False by (subst show_nat.simps) simp
  qed
qed

lemma base_digit_10: "isdigit c \<Longrightarrow> base_digit 10 c = Some (code c - 48)"
  by (auto simp: base_digit_def isdigit_def Let_def)

lemma base_digit_none: "\<not> isdigit c \<Longrightarrow> base_digit 10 c = None"
  by (auto simp: base_digit_def isdigit_def Let_def)

lemma base_acc_dec: "int (base_acc 10 v s) = fst (dec_acc (int v) s)"
proof (induction s arbitrary: v)
  case (Cons c s)
  show ?case
  proof (cases "isdigit c")
    case True
    then have "int (v * 10 + (code c - 48)) = int v * 10 + digit_val c"
      by (simp add: digit_val_def isdigit_def of_nat_diff)
    with True Cons.IH [of "v * 10 + (code c - 48)"] show ?thesis by (simp add: base_digit_10)
  qed (simp add: base_digit_none)
qed simp

lemma dropWhile_digits:
  "dropWhile (\<lambda>c. base_digit 10 c \<noteq> None) (show_nat n @ CHR '','' # r) = CHR '','' # r"
proof -
  have "\<forall>c\<in>set (show_nat n). base_digit 10 c \<noteq> None" using show_nat_isdigit base_digit_10 by fastforce
  moreover have "base_digit 10 CHR '','' = None" by (simp add: base_digit_def code_def isdigit_def)
  ultimately show ?thesis by (simp add: dropWhile_append2)
qed

lemma show_nat_zero: "show_nat 0 = ''0''"
  using char_of_char [of "CHR ''0''", where ?'a = nat] by (subst show_nat.simps) (simp add: digit_char_def)

lemma strtol0_show_nat:
  assumes "int n \<le> int_max"
  shows "strtol0 (show_nat n @ CHR '','' # r) = (int n, CHR '','' # r)"
proof (cases "n = 0")
  case True
  have "base_digit 8 CHR ''0'' = Some 0" "base_digit 8 CHR '','' = None" "tolower CHR '','' \<noteq> CHR ''x''"
    by (simp_all add: base_digit_def code_def isdigit_def tolower_def)
  then show ?thesis
    unfolding True show_nat_zero
    by (simp add: strtol0_def isspace_def code_def clamp_int_def int_min_def int_max_def Let_def)
next
  case False
  let ?s = "show_nat n @ CHR '','' # r"
  have nd: "\<not> isdigit (peek (CHR '','' # r))" by (simp add: isdigit_def code_def)
  have head: "isdigit (peek ?s)" by simp
  have "int (base_acc 10 0 ?s) = int n" using base_acc_dec [of 0 ?s] dec_acc_show_nat [OF nd, of n] by simp
  then show ?thesis
    using show_nat_head [of n "CHR '','' # r"] False isdigit_not_sign [OF head] dropWhile_digits [of n r] assms
      base_digit_10 [OF head]
    by (simp add: strtol0_def clamp_int_def int_min_def Let_def)
qed

lemma show_nat_foreign: "\<not> isdigit c \<Longrightarrow> c \<notin> set (show_nat n)"
  using show_nat_isdigit by blast

lemma code_hex_digit: "d < 16 \<Longrightarrow> code (hex_digit False d) = (if d < 10 then 48 + d else 87 + d)"
  by (simp add: hex_digit_def code_char_of)

lemma hex_text_foreign:
  assumes "code c < 48"
  shows "c \<notin> set (concat (map (hex_byte False) bs))"
proof -
  have "c \<noteq> hex_digit False d" if "d < 16" for d using code_hex_digit [OF that] assms by (cases "d < 10") auto
  moreover have "unat b div 16 < 16" for b :: u8 using unat_u8 [of b] by (simp add: less_mult_imp_div_less)
  ultimately show ?thesis by (auto simp: hex_byte_def)
qed

lemma macstr_length: "bs \<noteq> [] \<Longrightarrow> length (macstr bs) = 3 * length bs - 1"
  by (induction bs rule: macstr.induct) auto

section \<open>One entry\<close>

text \<open>What may follow an entry.\<close>

definition entry_end :: "string \<Rightarrow> bool" where
  "entry_end rest \<longleftrightarrow> rest = [] \<or> (\<exists>r. rest = CHR '' '' # r)"

definition after_entry :: "neighbor \<Rightarrow> string \<Rightarrow> string option" where
  "after_entry n rest =
     (if nsub n = [] then Some (show_nat (nphy n) @ rest) else if rest = [] then None else Some rest)"

lemma foreign_chars [simp]: "\<not> isdigit CHR '' ''" "\<not> isdigit CHR '',''"
  by (simp_all add: isdigit_def code_def)

lemma strchr_skip: "c \<notin> set s \<Longrightarrow> strchr (s @ t) c = strchr t c"
  by (induction s) auto

lemma strchr_end:
  assumes "entry_end rest" and "CHR '' '' \<notin> set s"
  shows "strchr (s @ rest) CHR '' '' = (if rest = [] then None else Some rest)"
  using assms by (auto simp: entry_end_def strchr_skip)

lemma tail_plain:
  assumes "entry_end rest"
  shows "neighbor_tail room body (show_nat k @ rest) = Some (body, Some (show_nat k @ rest))"
proof (cases "strchr (show_nat k @ rest) CHR '',''")
  case (Some t)
  then obtain r where r: "rest = CHR '' '' # r" using assms show_nat_foreign [of "CHR '',''" k]
    by (auto simp: entry_end_def strchr_None [THEN iffD2])
  have "strchr (show_nat k @ rest) CHR '',''= strchr rest CHR '',''"
    by (rule strchr_skip) (simp add: show_nat_foreign)
  then have "length t \<le> length rest" using Some strchr_length by simp
  then show ?thesis
    using Some strchr_end [OF assms, of "show_nat k"] show_nat_foreign [of "CHR '' ''" k] r
    by (simp add: neighbor_tail_def)
qed (simp add: neighbor_tail_def)

lemma tail_sub:
  assumes "entry_end rest" and "bs \<noteq> []"
  shows "neighbor_tail room body (show_nat k @ CHR '','' # concat (map (hex_byte False) bs) @ rest) =
    (if room < 2 + length body + length bs then None
     else Some (body @ bs, if rest = [] then None else Some rest))"
proof -
  let ?h = "concat (map (hex_byte False) bs)"
  have foreign: "CHR '' '' \<notin> set ?h" by (rule hex_text_foreign) (simp add: code_def)
  have len: "length ?h = 2 * length bs" by (induction bs) simp_all
  have t: "strchr (show_nat k @ CHR '','' # ?h @ rest) CHR '','' = Some (CHR '','' # ?h @ rest)"
    by (rule strchr_append) (simp add: show_nat_foreign)
  have "strchr ((show_nat k @ CHR '','' # ?h) @ rest) CHR '' '' = (if rest = [] then None else Some rest)"
    by (rule strchr_end [OF assms(1)]) (use foreign show_nat_foreign [of "CHR '' ''" k] in auto)
  then have e: "strchr (show_nat k @ CHR '','' # ?h @ rest) CHR '' '' = (if rest = [] then None else Some rest)" by simp
  have "hexstr2bin (?h @ rest) (length bs) = Some bs" by (simp add: hexstr2bin_def compact_concat)
  then show ?thesis
    using strchr_end [OF assms(1) foreign] t e len
    by (cases "rest = []") (auto simp: neighbor_tail_def Let_def)
qed

lemma tail_entry:
  assumes "entry_end rest"
  shows "neighbor_tail room body (show_nat (nphy n) @ sub_text n @ rest) =
    (if nsub n \<noteq> [] \<and> room < 2 + length body + length (nsub n) then None
     else Some (body @ nsub n, after_entry n rest))"
  using tail_plain [OF assms] tail_sub [OF assms, of "nsub n"] by (simp add: sub_text_def after_entry_def)

lemma parse_entry:
  assumes "wf_neighbor n" and "entry_end rest" and "15 \<le> room"
  shows "parse_neighbor room (entry_text n @ rest) =
    (if room < 15 + length (nsub n) then None
     else Some (encode_elem (52, report_body n), after_entry n rest))"
proof -
  have six: "length (nbssid n) = 6" and ne: "nbssid n \<noteq> []" and info: "int (ninfo n) \<le> int_max" and
    small: "int (nclass n) \<le> int_max" "int (nchan n) \<le> int_max" "int (nphy n) \<le> int_max"
    using assms(1) by (auto simp: wf_neighbor_def int_max_def)
  define u where "u = show_nat (nphy n) @ sub_text n @ rest"
  define t where "t = show_nat (nclass n) @ CHR '','' # show_nat (nchan n) @ CHR '','' # u"
  have text_eq: "entry_text n @ rest = macstr (nbssid n) @ CHR '','' # show_nat (ninfo n) @ CHR '','' # t"
    by (simp add: entry_text_def t_def u_def)
  have mac: "hwaddr_aton (macstr (nbssid n) @ r) = Some (nbssid n)" for r
    using parse_macstr [OF ne, of r] six by (simp add: hwaddr_aton_def hwaddr_parse_def)
  have len: "length (macstr (nbssid n)) = 17" using macstr_length [OF ne] six by simp
  have nd: "\<not> isdigit (peek (CHR '','' # r))" for r by simp
  have "\<not> isdigit (peek (sub_text n @ rest))"
    using assms(2) by (auto simp: sub_text_def entry_end_def nul_def isdigit_def code_def)
  then have phy: "atoi u = int (nphy n)" unfolding u_def by (rule atoi_show_nat) (rule small(3))
  have cls: "atoi t = int (nclass n)" unfolding t_def by (rule atoi_show_nat [OF nd small(1)])
  have c1: "strchr t CHR '','' = Some (CHR '','' # show_nat (nchan n) @ CHR '','' # u)"
    unfolding t_def by (rule strchr_append) (simp add: show_nat_foreign)
  have c2: "strchr (show_nat (nchan n) @ CHR '','' # u) CHR '','' = Some (CHR '','' # u)"
    by (rule strchr_append) (simp add: show_nat_foreign)
  have ch: "atoi (show_nat (nchan n) @ CHR '','' # u) = int (nchan n)" by (rule atoi_show_nat [OF nd small(2)])
  have le32: "length (WPA_PUT_LE32 w) = 4" for w by (simp add: WPA_PUT_LE32_def)
  have tail: "neighbor_tail room body u = (if nsub n \<noteq> [] \<and> room < 2 + length body + length (nsub n) then None
      else Some (body @ nsub n, after_entry n rest))" for body
    unfolding u_def by (rule tail_entry [OF assms(2)])
  show ?thesis
    unfolding text_eq parse_neighbor_def
    using assms(3)
    by (auto simp: mac len strtol0_show_nat [OF info] cls c1 c2 ch phy tail six le32
        encode_elem_def report_body_def Let_def)
qed

section \<open>The whole list\<close>

definition need :: "neighbor list \<Rightarrow> nat" where
  "need ns = (\<Sum>n\<leftarrow>ns. 15 + length (nsub n))"

lemma strstr_skip:
  "CHR '' '' \<notin> set p \<Longrightarrow> strstr (p @ s) '' neighbor='' = strstr s '' neighbor=''"
  by (induction p) auto

lemma list_text_end: "entry_end (list_text ns)"
  by (cases ns) (simp_all add: list_text_def entry_end_def)

lemma strstr_list:
  "strstr (list_text ns) '' neighbor='' = (if ns = [] then None else Some (list_text ns))"
  by (cases ns) (simp_all add: list_text_def)

lemma candidate_loop_skip:
  "CHR '' '' \<notin> set p \<Longrightarrow> candidate_loop room (Some (p @ s)) nei = candidate_loop room (Some s) nei"
  by (subst (1 2) candidate_loop.simps) (simp add: strstr_skip)

lemma candidate_loop_after:
  "candidate_loop room (after_entry n (list_text ns)) nei = candidate_loop room (Some (list_text ns)) nei"
proof (cases "nsub n = []")
  case True
  then show ?thesis
    using candidate_loop_skip [of "show_nat (nphy n)"] by (simp add: after_entry_def show_nat_foreign)
next
  case False
  have "candidate_loop room None nei = candidate_loop room (Some []) nei"
    by (subst (1 2) candidate_loop.simps) simp
  with False show ?thesis by (simp add: after_entry_def)
qed

lemma report_length: "wf_neighbor n \<Longrightarrow> length (report_body n) = 13 + length (nsub n)"
  by (simp add: report_body_def wf_neighbor_def WPA_PUT_LE32_def)

lemma candidate_loop_list:
  "\<forall>n\<in>set ns. wf_neighbor n \<Longrightarrow> length nei \<le> room \<Longrightarrow>
   candidate_loop room (Some (list_text ns)) nei = (if length nei + need ns \<le> room then Some (nei @ reports ns) else None)"
proof (induction ns arbitrary: nei)
  case Nil
  then show ?case
    using strstr_list [of "[]"] by (subst candidate_loop.simps) (simp add: need_def reports_def)
next
  case (Cons n ns)
  let ?rest = "list_text ns"
  have text_eq: "drop 10 (list_text (n # ns)) = entry_text n @ ?rest" by (simp add: list_text_def)
  have step: "candidate_loop room (Some (list_text (n # ns))) nei =
      (if room < length nei + 15 then None
       else case parse_neighbor (room - length nei) (entry_text n @ ?rest) of
              None \<Rightarrow> None | Some (e, r) \<Rightarrow> candidate_loop room r (nei @ e))"
    using strstr_list [of "n # ns"] by (subst candidate_loop.simps) (simp add: text_eq)
  have wf: "wf_neighbor n" using Cons.prems by simp
  have len: "length (encode_elem (52, report_body n)) = 15 + length (nsub n)" by (simp add: report_length [OF wf])
  show ?case
  proof (cases "room < length nei + 15 + length (nsub n)")
    case True
    then show ?thesis
      using parse_entry [OF wf list_text_end, of "room - length nei" ns] by (auto simp: step need_def)
  next
    case False
    then have "parse_neighbor (room - length nei) (entry_text n @ ?rest) =
        Some (encode_elem (52, report_body n), after_entry n ?rest)"
      using parse_entry [OF wf list_text_end, of "room - length nei" ns] by auto
    with False Cons.IH [of "nei @ encode_elem (52, report_body n)"] Cons.prems show ?thesis
      by (auto simp: step candidate_loop_after report_length [OF wf] need_def reports_def)
  qed
qed

section \<open>Properties\<close>

text \<open>C33: Reading back a candidate list: the text of a list of neighbors, whose information is at most 2^31 - 1 (the most a
  \<open>long\<close> of 32 bits reads), is turned into exactly their neighbor report elements, in their order, when these fit the caller's buffer, and refused
  otherwise; and what is written is well formed, an element per neighbor, as long as the
  subelements of each have at most 242 bytes.\<close>

theorem candidate_list_parsed:
  assumes "\<forall>n\<in>set ns. wf_neighbor n"
  shows "ieee802_11_parse_candidate_list (Some (list_text ns)) room =
      (if need ns \<le> room then Some (reports ns) else None) \<and>
    ((\<forall>n\<in>set ns. length (nsub n) \<le> 242) \<longrightarrow>
      map wire (iter_elements (reports ns)) = map (\<lambda>n. (52, report_body n)) ns)"
proof -
  have "map wire (iter_elements (reports ns)) = map (\<lambda>n. (52, report_body n)) ns"
    if "\<forall>n\<in>set ns. length (nsub n) \<le> 242"
  proof -
    have "\<forall>x\<in>set (map (\<lambda>n. (52 :: nat, report_body n)) ns). fst x < 256 \<and> length (snd x) < 256"
      using that assms by (fastforce simp: report_length)
    from iteration_of_encoding [OF this, of "[]" 0] show ?thesis
      by (simp add: iter_elements_def reports_def cut_short_def)
  qed
  then show ?thesis
    using candidate_loop_list [OF assms, of "[]" room] by (simp add: ieee802_11_parse_candidate_list_def)
qed

theorem candidate_list_parsed_witness:
  "ieee802_11_parse_candidate_list (Some '' neighbor=02:00:00:00:00:01,5,115,36,7 neighbor=02:00:00:00:00:02,0,81,6,7,0301'') 32
     = Some [52, 13, 2, 0, 0, 0, 0, 1, 5, 0, 0, 0, 115, 36, 7, 52, 15, 2, 0, 0, 0, 0, 2, 0, 0, 0, 0, 81, 6, 7, 3, 1]"
proof -
  let ?a = "\<lparr>nbssid = [2, 0, 0, 0, 0, 1], ninfo = 5, nclass = 115, nchan = 36, nphy = 7, nsub = []\<rparr>"
  let ?b = "\<lparr>nbssid = [2, 0, 0, 0, 0, 2], ninfo = 0, nclass = 81, nchan = 6, nphy = 7, nsub = [3, 1]\<rparr>"
  have t: "list_text [?a, ?b] =
      '' neighbor=02:00:00:00:00:01,5,115,36,7 neighbor=02:00:00:00:00:02,0,81,6,7,0301''" by code_simp
  have r: "reports [?a, ?b] =
      [52, 13, 2, 0, 0, 0, 0, 1, 5, 0, 0, 0, 115, 36, 7, 52, 15, 2, 0, 0, 0, 0, 2, 0, 0, 0, 0, 81, 6, 7, 3, 1]"
    by code_simp
  have "\<forall>n\<in>set [?a, ?b]. wf_neighbor n" by (simp add: wf_neighbor_def int_max_def)
  from candidate_list_parsed [OF this, of 32] show ?thesis by (simp add: t r need_def)
qed

text \<open>The two elements that are built by hand are single vendor elements of the Wi-Fi Alliance with
  their type, found again by \<open>get_vendor_ie\<close>; for the MBO element this holds up to 251 bytes of
  attributes, beyond which its length byte wraps.\<close>

theorem built_elements_parse:
  "(length attr \<le> 251 \<and> 6 + length attr \<le> len \<longrightarrow>
      map wire (iter_elements (mbo_add_ie len attr)) = [(221, WPA_PUT_BE24 OUI_WFA @ 22 # attr)] \<and>
      get_vendor_ie (mbo_add_ie len attr) 0x506f9a16 = Some 0) \<and>
   (9 \<le> len \<longrightarrow> map wire (iter_elements (add_multi_ap_ie len v)) = [(221, WPA_PUT_BE24 OUI_WFA @ [0x1B, 6, 1, v])] \<and>
      get_vendor_ie (add_multi_ap_ie len v) 0x506f9a1b = Some 0) \<and>
   length (mbo_add_ie len attr) \<le> len \<and> length (add_multi_ap_ie len v) \<le> len"
proof -
  have "length attr + 4 = unat (of_nat (length attr + 4) :: u8)" if "length attr \<le> 251"
    using that by (simp add: unat_of_nat del: of_nat_add)
  then show ?thesis
    by (auto simp: mbo_add_ie_def add_multi_ap_ie_def iter_elements_def get_vendor_ie_def vendor_match_def
        WPA_PUT_BE24_def WPA_GET_BE32_def wire_def)
qed

theorem built_elements_parse_witness:
  "map wire (iter_elements (mbo_add_ie 10 [1, 2])) = [(221, [0x50, 0x6f, 0x9a, 22, 1, 2])] \<and>
   get_vendor_ie (add_multi_ap_ie 9 0x80) 0x506f9a1b = Some 0"
  using built_elements_parse [where attr = "[1, 2]" and len = 10]
    built_elements_parse [where len = 9 and v = "0x80"] by (simp add: WPA_PUT_BE24_def)

end
