(* ===== verification/Eap_Msg.thy ===== *)
theory Eap_Msg
  imports Wpabuf
begin

text \<open>
  \<open>wpa_supplicant/src/eap_common/eap_common.c\<close> without the ERP extension, and the codes and types of
  \<open>eap_defs.h\<close>. A received message is the list of its bytes, an absent one \<open>None\<close>; what
  \<open>eap_hdr_validate\<close> returns is the payload behind the type. Built messages are \<open>wpabuf\<close>s.
\<close>

section \<open>Codes and types\<close>

abbreviation (input) EAP_CODE_REQUEST :: u8 where "EAP_CODE_REQUEST \<equiv> 1"
abbreviation (input) EAP_CODE_RESPONSE :: u8 where "EAP_CODE_RESPONSE \<equiv> 2"
abbreviation (input) EAP_CODE_SUCCESS :: u8 where "EAP_CODE_SUCCESS \<equiv> 3"
abbreviation (input) EAP_CODE_FAILURE :: u8 where "EAP_CODE_FAILURE \<equiv> 4"
abbreviation (input) EAP_CODE_INITIATE :: u8 where "EAP_CODE_INITIATE \<equiv> 5"
abbreviation (input) EAP_CODE_FINISH :: u8 where "EAP_CODE_FINISH \<equiv> 6"

abbreviation (input) EAP_TYPE_NONE :: u32 where "EAP_TYPE_NONE \<equiv> 0"
abbreviation (input) EAP_TYPE_IDENTITY :: u32 where "EAP_TYPE_IDENTITY \<equiv> 1"
abbreviation (input) EAP_TYPE_NOTIFICATION :: u32 where "EAP_TYPE_NOTIFICATION \<equiv> 2"
abbreviation (input) EAP_TYPE_NAK :: u32 where "EAP_TYPE_NAK \<equiv> 3"
abbreviation (input) EAP_TYPE_TLS :: u32 where "EAP_TYPE_TLS \<equiv> 13"
abbreviation (input) EAP_TYPE_LEAP :: u32 where "EAP_TYPE_LEAP \<equiv> 17"
abbreviation (input) EAP_TYPE_PEAP :: u32 where "EAP_TYPE_PEAP \<equiv> 25"
abbreviation (input) EAP_TYPE_EXPANDED :: u32 where "EAP_TYPE_EXPANDED \<equiv> 254"
abbreviation (input) EAP_VENDOR_IETF :: u32 where "EAP_VENDOR_IETF \<equiv> 0"

section \<open>Received messages\<close>

definition eap_len :: "u8 list \<Rightarrow> nat" where "eap_len msg = unat (WPA_GET_BE16 (drop 2 msg))"

definition eap_hdr_len_valid :: "u8 list option \<Rightarrow> nat \<Rightarrow> bool" where
  "eap_hdr_len_valid msg min_payload =
     (case msg of
        None \<Rightarrow> False
      | Some msg \<Rightarrow> \<not> length msg < 4 \<and> \<not> (eap_len msg < 4 + min_payload \<or> eap_len msg > length msg))"

definition eap_hdr_validate :: "u32 \<Rightarrow> u32 \<Rightarrow> u8 list option \<Rightarrow> u8 list option" where
  "eap_hdr_validate vend eap_type msg =
     (if \<not> eap_hdr_len_valid msg 1 then None
      else let m = the msg; len = eap_len m
        in if ucast (m ! 4) = EAP_TYPE_EXPANDED then
             if len < 4 + 8 then None
             else if WPA_GET_BE24 (drop 5 m) \<noteq> vend \<or> WPA_GET_BE32 (drop 8 m) \<noteq> eap_type then None
             else Some (take (len - 4 - 8) (drop 12 m))
           else if vend \<noteq> EAP_VENDOR_IETF \<or> ucast (m ! 4) \<noteq> eap_type then None
           else Some (take (len - 4 - 1) (drop 5 m)))"

definition eap_get_id :: "u8 list \<Rightarrow> u8" where
  "eap_get_id msg = (if length msg < 4 then 0 else msg ! 1)"

definition eap_get_type :: "u8 list \<Rightarrow> u32" where
  "eap_get_type msg = (if length msg < 4 + 1 then EAP_TYPE_NONE else ucast (msg ! 4))"

section \<open>Built messages\<close>

definition eap_msg_alloc ::
    "(nat \<Rightarrow> bool) \<Rightarrow> u32 \<Rightarrow> u32 \<Rightarrow> nat \<Rightarrow> u8 \<Rightarrow> u8 \<Rightarrow> buf_fault + wpabuf option" where
  "eap_msg_alloc alloc vend type payload_len cod ident =
     (let len = size_add (4 + (if vend = EAP_VENDOR_IETF then 1 else 8)) payload_len
      in case wpabuf_alloc alloc len of
           None \<Rightarrow> Inr None
         | Some b \<Rightarrow>
             map_sum id Some
               (build ([F8 cod, F8 ident, FB16 (of_nat len)] @
                  (if vend = EAP_VENDOR_IETF then [F8 (ucast type)]
                   else [F8 (ucast EAP_TYPE_EXPANDED), FB24 vend, FB32 type])) b))"

definition eap_update_len :: "wpabuf \<Rightarrow> wpabuf" where
  "eap_update_len b =
     (if wused b < 4 then b
      else b\<lparr>wbuf := take 2 (wbuf b) @ WPA_PUT_BE16 (of_nat (wused b)) @ drop 4 (wbuf b)\<rparr>)"

section \<open>The shape of a message\<close>

definition eap_header :: "u8 \<Rightarrow> u8 \<Rightarrow> nat \<Rightarrow> u32 \<Rightarrow> u32 \<Rightarrow> u8 list" where
  "eap_header cod ident len vend type =
     [cod, ident] @ WPA_PUT_BE16 (of_nat len) @
     (if vend = EAP_VENDOR_IETF then [ucast type] else [254] @ WPA_PUT_BE24 vend @ WPA_PUT_BE32 type)"

definition type_size :: "u32 \<Rightarrow> nat" where "type_size vend = (if vend = EAP_VENDOR_IETF then 1 else 8)"

lemma length_puts [simp]:
  "length (WPA_PUT_BE16 v) = 2" "length (WPA_PUT_BE24 w) = 3" "length (WPA_PUT_BE32 w) = 4"
  by (simp_all add: WPA_PUT_BE16_def WPA_PUT_BE24_def WPA_PUT_BE32_def)

lemma length_eap_header [simp]: "length (eap_header c i n v t) = 4 + type_size v"
  by (simp add: eap_header_def type_size_def)

text \<open>Allocation succeeds with the header written and room for the payload.\<close>

lemma eap_msg_alloc_ok:
  assumes "alloc (4 + type_size v + n)" "n < 2 ^ 30"
  shows "\<exists>b. eap_msg_alloc alloc v t n c i = Inr (Some b) \<and> wok b \<and>
    wpabuf_head b = eap_header c i (4 + type_size v + n) v t \<and> wpabuf_tailroom b = n"
proof -
  let ?len = "4 + type_size v + n"
  let ?fs = "[F8 c, F8 i, FB16 (of_nat ?len)] @
      (if v = EAP_VENDOR_IETF then [F8 (ucast t)] else [F8 (ucast (254 :: u32)), FB24 v, FB32 t])"
  have len: "size_add (4 + (if v = EAP_VENDOR_IETF then 1 else 8)) n = ?len"
    using assms(2) by (simp add: size_add_def type_size_def)
  obtain b0 where b0: "wpabuf_alloc alloc ?len = Some b0" using assms(1) by (simp add: wpabuf_alloc_def)
  have lt: "?len < 2 ^ 31" using assms(2) by (simp add: type_size_def)
  note ok = wok_alloc [OF b0 lt]
  have bytes: "concat (map field_bytes ?fs) = eap_header c i ?len v t"
    by (simp add: eap_header_def)
  obtain b where b: "build ?fs b0 = Inr b" "wok b" "wpabuf_head b = eap_header c i ?len v t" "wpabuf_tailroom b = n"
    using sink.put_all_fits [of b0 "map field_bytes ?fs"] ok
    unfolding bytes build_put_all [OF conjunct1 [OF ok], of ?fs] by auto
  have "eap_msg_alloc alloc v t n c i = map_sum id Some (build ?fs b0)"
    unfolding eap_msg_alloc_def Let_def len b0 option.case ..
  with b show ?thesis unfolding b(1) by simp
qed

lemma eap_msg_alloc_none: "\<not> alloc (size_add (4 + type_size v) n) \<Longrightarrow> eap_msg_alloc alloc v t n c i = Inr None"
  by (simp add: eap_msg_alloc_def wpabuf_alloc_def type_size_def)

lemma update_len_head:
  assumes "wok b" "wpabuf_head b = eap_header c i n v t @ d"
  shows "wok (eap_update_len b)"
    "wpabuf_head (eap_update_len b) = eap_header c i (4 + type_size v + length d) v t @ d"
proof -
  have used: "wused b = 4 + type_size v + length d"
    using length_head [OF assms(1)] assms(2) by simp
  then have long: "4 \<le> wused b" "wused b \<le> length (wbuf b)" using assms(1) by (auto simp: wok_def)
  show "wok (eap_update_len b)" using assms(1) long by (auto simp: eap_update_len_def wok_def)
  have parts: "take 2 (wpabuf_head b) = [c, i]" "drop 4 (wpabuf_head b) = drop 4 (eap_header c i n v t) @ d"
    unfolding assms(2) by (simp_all add: eap_header_def WPA_PUT_BE16_def)
  have "wpabuf_head (eap_update_len b) =
      take 2 (wpabuf_head b) @ WPA_PUT_BE16 (of_nat (wused b)) @ drop 4 (wpabuf_head b)"
    using long by (simp add: eap_update_len_def wpabuf_head_def min_def take_drop)
  then show "wpabuf_head (eap_update_len b) = eap_header c i (4 + type_size v + length d) v t @ d"
    unfolding parts used by (simp add: eap_header_def WPA_PUT_BE16_def)
qed

section \<open>Reading back a header\<close>

lemma nth_eap_header [simp]:
  "(eap_header c i n v t @ d) ! 0 = c" "(eap_header c i n v t @ d) ! Suc 0 = i"
  "(eap_header c i n v t @ d) ! 4 = (if v = EAP_VENDOR_IETF then ucast t else 254)"
  by (simp_all add: eap_header_def nth_append WPA_PUT_BE16_def)

lemma eap_len_header:
  "n < 2 ^ 16 \<Longrightarrow> eap_len (eap_header c i n v t @ d) = n"
proof -
  assume n: "n < 2 ^ 16"
  have "drop 2 (eap_header c i n v t @ d) = WPA_PUT_BE16 (of_nat n) @ drop 4 (eap_header c i n v t) @ d"
    by (simp add: eap_header_def WPA_PUT_BE16_def)
  with n show ?thesis by (simp add: eap_len_def be16.get_put unat_of_nat)
qed

text \<open>A type that its header can name: the expanded header holds any type of a 24-bit vendor, the
  short one a byte that does not announce an expanded header.\<close>

definition eap_type_ok :: "u32 \<Rightarrow> u32 \<Rightarrow> bool" where
  "eap_type_ok v t \<longleftrightarrow> (if v = EAP_VENDOR_IETF then t < 254 else take_bit 24 v = v)"

lemma unat_byte: "unat (ucast (b :: u8) :: u32) = unat b" "unat (ucast (t :: u32) :: u8) = unat t mod 256"
  using less_trans [OF unat_u8_bound [of b], of 4294967296] by (simp_all add: unsigned_ucast_eq take_bit_eq_mod)

lemma small_type: "t < 254 \<Longrightarrow> ucast (ucast (t :: u32) :: u8) = t \<and> (ucast t :: u8) \<noteq> 254"
  by (auto simp: word_less_nat_alt word_unat_eq_iff unat_byte)

lemma validate_header:
  assumes "eap_type_ok v t" "4 + type_size v + length d < 2 ^ 16"
  shows "eap_hdr_validate v t (Some (eap_header c i (4 + type_size v + length d) v t @ d @ r)) = Some d"
proof -
  define m where "m = eap_header c i (4 + type_size v + length d) v t @ d @ r"
  have len: "eap_len m = 4 + type_size v + length d" using eap_len_header [OF assms(2)] by (simp add: m_def)
  have valid: "eap_hdr_len_valid (Some m) 1"
    by (simp add: eap_hdr_len_valid_def len) (simp add: type_size_def m_def)
  have m4: "m ! 4 = (if v = EAP_VENDOR_IETF then ucast t else 254)" by (simp add: m_def)
  have "eap_hdr_validate v t (Some m) = Some d"
  proof (cases "v = EAP_VENDOR_IETF")
    case True
    then have "drop 5 m = d @ r" by (simp add: eap_header_def m_def)
    moreover have "ucast (m ! 4) = t" "t \<noteq> 254"
      using True assms(1) small_type [of t] by (auto simp: m4 eap_type_ok_def)
    ultimately show ?thesis
      using True by (simp add: eap_hdr_validate_def valid [unfolded One_nat_def] valid Let_def len type_size_def)
  next
    case False
    then have "drop 5 m = WPA_PUT_BE24 v @ WPA_PUT_BE32 t @ d @ r" "drop 8 m = WPA_PUT_BE32 t @ d @ r"
      "drop 12 m = d @ r" by (simp_all add: eap_header_def m_def)
    with False assms(1) show ?thesis
      by (simp add: eap_hdr_validate_def valid [unfolded One_nat_def] len m4 Let_def eap_type_ok_def type_size_def be24.get_put be32.get_put)
  qed
  then show ?thesis by (simp add: m_def)
qed

end
