(* ===== verification/Eapol_Sm.thy ===== *)
theory Eapol_Sm
  imports Byte_Order
begin

text \<open>
  \<open>wpa_supplicant/src/eapol_supp/eapol_supp_sm.c\<close>: the supplicant's IEEE 802.1X state machines, built
  as in \<open>defconfig\<close> (no EAP proxy, no MACsec, RC4 present). \<open>struct eapol_sm\<close> is the record
  \<open>eapol_sm\<close>; its statistics are a record of their own. Every \<open>SM_STATE\<close> is a function with the
  suffix \<open>_Enter\<close>, every \<open>SM_STEP\<close> one with the suffix \<open>_Step\<close>. What the machines send and report
  is appended to \<open>outs\<close>; \<open>ticks\<close> and \<open>steps\<close> count the timeouts that the event loop holds for the
  timer tick and for a continued step. The EAP peer behind \<open>sm->eap\<close> has the state \<open>'e\<close> and is
  reached only through the operations of \<open>eap_peer\<close>; it reads the variables it shares with this
  machine as an \<open>eap_vars\<close> and answers with the callbacks it made.
\<close>

section \<open>Data\<close>

datatype PortStatus = Unauthorized | Authorized
datatype PortControl = Auto | ForceUnauthorized | ForceAuthorized

datatype pae_state =
  SUPP_PAE_UNKNOWN | SUPP_PAE_DISCONNECTED | SUPP_PAE_LOGOFF | SUPP_PAE_CONNECTING
  | SUPP_PAE_AUTHENTICATING | SUPP_PAE_AUTHENTICATED | SUPP_PAE_HELD | SUPP_PAE_RESTART
  | SUPP_PAE_S_FORCE_AUTH | SUPP_PAE_S_FORCE_UNAUTH

datatype key_rx_state = KEY_RX_UNKNOWN | KEY_RX_NO_KEY_RECEIVE | KEY_RX_KEY_RECEIVE

datatype be_state =
  SUPP_BE_UNKNOWN | SUPP_BE_INITIALIZE | SUPP_BE_IDLE | SUPP_BE_REQUEST | SUPP_BE_RECEIVE
  | SUPP_BE_RESPONSE | SUPP_BE_FAIL | SUPP_BE_TIMEOUT | SUPP_BE_SUCCESS

datatype eapol_cb_status = EAPOL_CB_IN_PROGRESS | EAPOL_CB_SUCCESS | EAPOL_CB_FAILURE

datatype eapol_supp_result =
  EAPOL_SUPP_RESULT_FAILURE | EAPOL_SUPP_RESULT_SUCCESS | EAPOL_SUPP_RESULT_EXPECTED_FAILURE

datatype eapol_bool_var =
  EAPOL_eapSuccess | EAPOL_eapRestart | EAPOL_eapFail | EAPOL_eapResp | EAPOL_eapNoResp | EAPOL_eapReq
  | EAPOL_portEnabled | EAPOL_altAccept | EAPOL_altReject | EAPOL_eapTriggerStart

datatype eapol_int_var = EAPOL_idleWhile

record eapol_config =
  accept_802_1x_keys :: bool
  required_keys :: u32
  fast_reauth :: bool
  workaround :: bool
  eap_disabled :: bool
  external_sim :: bool
  wps :: u32

abbreviation (input) EAPOL_REQUIRE_KEY_UNICAST :: u32 where "EAPOL_REQUIRE_KEY_UNICAST \<equiv> 1"
abbreviation (input) EAPOL_REQUIRE_KEY_BROADCAST :: u32 where "EAPOL_REQUIRE_KEY_BROADCAST \<equiv> 2"
abbreviation (input) EAPOL_PEER_IS_WPS20_AP :: u32 where "EAPOL_PEER_IS_WPS20_AP \<equiv> 2"

abbreviation (input) IEEE802_1X_TYPE_EAP_PACKET :: u8 where "IEEE802_1X_TYPE_EAP_PACKET \<equiv> 0"
abbreviation (input) IEEE802_1X_TYPE_EAPOL_START :: u8 where "IEEE802_1X_TYPE_EAPOL_START \<equiv> 1"
abbreviation (input) IEEE802_1X_TYPE_EAPOL_LOGOFF :: u8 where "IEEE802_1X_TYPE_EAPOL_LOGOFF \<equiv> 2"
abbreviation (input) IEEE802_1X_TYPE_EAPOL_KEY :: u8 where "IEEE802_1X_TYPE_EAPOL_KEY \<equiv> 3"

abbreviation (input) EAPOL_KEY_TYPE_RC4 :: u8 where "EAPOL_KEY_TYPE_RC4 \<equiv> 1"
abbreviation (input) EAPOL_KEY_TYPE_RSN :: u8 where "EAPOL_KEY_TYPE_RSN \<equiv> 2"
abbreviation (input) EAPOL_KEY_TYPE_WPA :: u8 where "EAPOL_KEY_TYPE_WPA \<equiv> 254"

record eapol_stats =
  dot1xSuppEapolFramesRx :: u32
  dot1xSuppEapolFramesTx :: u32
  dot1xSuppEapolStartFramesTx :: u32
  dot1xSuppEapolLogoffFramesTx :: u32
  dot1xSuppEapolRespFramesTx :: u32
  dot1xSuppEapolReqIdFramesRx :: u32
  dot1xSuppEapolReqFramesRx :: u32
  dot1xSuppInvalidEapolFramesRx :: u32
  dot1xSuppEapLengthErrorFramesRx :: u32
  dot1xSuppLastEapolFrameVersion :: u8
  dot1xSuppLastEapolFrameSource :: "u8 list"

text \<open>What leaves the machines: frames and the calls of the callbacks in \<open>struct eapol_ctx\<close>.\<close>

datatype eapol_out =
  Eapol_Send u8 "u8 list" | Port_Cb bool | Eapol_Done | Set_Wep_Key bool u8 "u8 list"
  | Result_Cb eapol_supp_result | Aborted_Cached

record 'e eapol_sm =
  authWhile :: u32
  heldWhile :: u32
  startWhen :: u32
  idleWhile :: u32
  timer_tick_enabled :: bool
  eapFail :: bool
  eapolEap :: bool
  eapSuccess :: bool
  initialize :: bool
  keyDone :: bool
  keyRun :: bool
  portControl :: PortControl
  portEnabled :: bool
  suppPortStatus :: PortStatus
  portValid :: bool
  suppAbort :: bool
  suppFail :: bool
  suppStart :: bool
  suppSuccess :: bool
  suppTimeout :: bool
  SUPP_PAE_state :: pae_state
  userLogoff :: bool
  logoffSent :: bool
  startCount :: u32
  eapRestart :: bool
  sPortMode :: PortControl
  heldPeriod :: u32
  startPeriod :: u32
  maxStart :: u32
  KEY_RX_state :: key_rx_state
  rxKey :: bool
  SUPP_BE_state :: be_state
  eapNoResp :: bool
  eapReq :: bool
  eapResp :: bool
  authPeriod :: u32
  stats :: eapol_stats
  changed :: bool
  eap :: 'e
  initial_req :: bool
  last_rx_key :: "u8 list option"
  eapReqData :: "u8 list option"
  altAccept :: bool
  altReject :: bool
  eapTriggerStart :: bool
  replay_counter_valid :: bool
  last_replay_counter :: "u8 list"
  conf :: eapol_config
  cb_status :: eapol_cb_status
  cached_pmk :: bool
  unicast_key_received :: bool
  broadcast_key_received :: bool
  force_authorized_update :: bool
  outs :: "eapol_out list"
  ticks :: nat
  steps :: nat

section \<open>The EAP peer and the context\<close>

text \<open>The variables the EAP peer reads through the callbacks \<open>get_bool\<close>, \<open>get_int\<close> and
  \<open>get_eapReqData\<close>, and the callbacks by which it writes them.\<close>

record eap_vars =
  vbool :: "eapol_bool_var \<Rightarrow> bool"
  vint :: "eapol_int_var \<Rightarrow> u32"
  vreq :: "u8 list option"

datatype eap_call = Set_Bool eapol_bool_var bool | Set_Int eapol_int_var u32

record 'e eap_peer =
  eap_peer_sm_step :: "'e \<Rightarrow> eap_vars \<Rightarrow> 'e \<times> eap_call list \<times> bool"
  eap_sm_abort :: "'e \<Rightarrow> 'e \<times> eap_call list"
  eap_get_eapRespData :: "'e \<Rightarrow> 'e \<times> u8 list option"
  eap_key_available :: "'e \<Rightarrow> bool"
  eap_get_eapKeyData :: "'e \<Rightarrow> u8 list option"
  eap_notify_success :: "'e \<Rightarrow> 'e"
  eap_notify_lower_layer_success :: "'e \<Rightarrow> eap_vars \<Rightarrow> 'e \<times> eap_call list"
  eap_peer_was_failure_expected :: "'e \<Rightarrow> bool"
  eap_set_config :: "eapol_config \<Rightarrow> 'e \<Rightarrow> 'e"
  eap_invalidate_cached_session :: "'e \<Rightarrow> 'e"

text \<open>
  The context of the machines: \<open>struct eapol_ctx\<close> (whether a callback is set; \<open>set_wep_key\<close> is
  absent or says whether the driver took the key), the cryptographic library, the event loop and
  the allocator (whether a registration or an allocation succeeds), and what an uninitialised
  \<open>struct eap_key_data\<close> holds.
\<close>

record 'e eapol_ctx =
  peer :: "'e eap_peer"
  preauth :: bool
  has_cb :: bool
  has_port_cb :: bool
  has_eapol_done_cb :: bool
  has_aborted_cached :: bool
  set_wep_key :: "(bool \<Rightarrow> u8 \<Rightarrow> u8 list \<Rightarrow> bool) option"
  hmac_md5 :: "u8 list \<Rightarrow> u8 list \<Rightarrow> u8 list"
  rc4_skip :: "u8 list \<Rightarrow> u8 list \<Rightarrow> u8 list"
  eloop_register :: bool
  alloc :: "nat \<Rightarrow> bool"
  stack_data :: "u8 list"

definition emit :: "eapol_out \<Rightarrow> 'e eapol_sm \<Rightarrow> 'e eapol_sm" where
  "emit x sm = sm\<lparr>outs := outs sm @ [x]\<rparr>"

definition bump :: "(eapol_stats \<Rightarrow> eapol_stats) \<Rightarrow> 'e eapol_sm \<Rightarrow> 'e eapol_sm" where
  "bump f sm = sm\<lparr>stats := f (stats sm)\<rparr>"

section \<open>Timers\<close>

definition eapol_enable_timer_tick :: "'e eapol_ctx \<Rightarrow> 'e eapol_sm \<Rightarrow> 'e eapol_sm" where
  "eapol_enable_timer_tick C sm =
     (if timer_tick_enabled sm then sm
      else if eloop_register C then sm\<lparr>ticks := 1, timer_tick_enabled := True\<rparr>
      else sm\<lparr>ticks := 0\<rparr>)"

section \<open>The callbacks of the EAP peer\<close>

fun eapol_sm_get_bool :: "'e eapol_sm \<Rightarrow> eapol_bool_var \<Rightarrow> bool" where
  "eapol_sm_get_bool sm EAPOL_eapSuccess = eapSuccess sm"
| "eapol_sm_get_bool sm EAPOL_eapRestart = eapRestart sm"
| "eapol_sm_get_bool sm EAPOL_eapFail = eapFail sm"
| "eapol_sm_get_bool sm EAPOL_eapResp = eapResp sm"
| "eapol_sm_get_bool sm EAPOL_eapNoResp = eapNoResp sm"
| "eapol_sm_get_bool sm EAPOL_eapReq = eapReq sm"
| "eapol_sm_get_bool sm EAPOL_portEnabled = portEnabled sm"
| "eapol_sm_get_bool sm EAPOL_altAccept = altAccept sm"
| "eapol_sm_get_bool sm EAPOL_altReject = altReject sm"
| "eapol_sm_get_bool sm EAPOL_eapTriggerStart = eapTriggerStart sm"

fun eapol_sm_set_bool :: "eapol_bool_var \<Rightarrow> bool \<Rightarrow> 'e eapol_sm \<Rightarrow> 'e eapol_sm" where
  "eapol_sm_set_bool EAPOL_eapSuccess b sm = sm\<lparr>eapSuccess := b\<rparr>"
| "eapol_sm_set_bool EAPOL_eapRestart b sm = sm\<lparr>eapRestart := b\<rparr>"
| "eapol_sm_set_bool EAPOL_eapFail b sm = sm\<lparr>eapFail := b\<rparr>"
| "eapol_sm_set_bool EAPOL_eapResp b sm = sm\<lparr>eapResp := b\<rparr>"
| "eapol_sm_set_bool EAPOL_eapNoResp b sm = sm\<lparr>eapNoResp := b\<rparr>"
| "eapol_sm_set_bool EAPOL_eapReq b sm = sm\<lparr>eapReq := b\<rparr>"
| "eapol_sm_set_bool EAPOL_portEnabled b sm = sm\<lparr>portEnabled := b\<rparr>"
| "eapol_sm_set_bool EAPOL_altAccept b sm = sm\<lparr>altAccept := b\<rparr>"
| "eapol_sm_set_bool EAPOL_altReject b sm = sm\<lparr>altReject := b\<rparr>"
| "eapol_sm_set_bool EAPOL_eapTriggerStart b sm = sm\<lparr>eapTriggerStart := b\<rparr>"

fun eapol_sm_get_int :: "'e eapol_sm \<Rightarrow> eapol_int_var \<Rightarrow> u32" where
  "eapol_sm_get_int sm EAPOL_idleWhile = idleWhile sm"

fun eapol_sm_set_int :: "'e eapol_ctx \<Rightarrow> eapol_int_var \<Rightarrow> u32 \<Rightarrow> 'e eapol_sm \<Rightarrow> 'e eapol_sm" where
  "eapol_sm_set_int C EAPOL_idleWhile v sm =
     (let sm = sm\<lparr>idleWhile := v\<rparr> in if idleWhile sm > 0 then eapol_enable_timer_tick C sm else sm)"

definition eapol_sm_get_eapReqData :: "'e eapol_sm \<Rightarrow> u8 list option" where
  "eapol_sm_get_eapReqData sm = eapReqData sm"

definition eapol_view :: "'e eapol_sm \<Rightarrow> eap_vars" where
  "eapol_view sm = \<lparr>vbool = eapol_sm_get_bool sm, vint = eapol_sm_get_int sm, vreq = eapol_sm_get_eapReqData sm\<rparr>"

fun eap_callback :: "'e eapol_ctx \<Rightarrow> eap_call \<Rightarrow> 'e eapol_sm \<Rightarrow> 'e eapol_sm" where
  "eap_callback C (Set_Bool v b) sm = eapol_sm_set_bool v b sm"
| "eap_callback C (Set_Int v n) sm = eapol_sm_set_int C v n sm"

definition eap_result :: "'e eapol_ctx \<Rightarrow> 'e \<times> eap_call list \<Rightarrow> 'e eapol_sm \<Rightarrow> 'e eapol_sm" where
  "eap_result C r sm = fold (eap_callback C) (snd r) (sm\<lparr>eap := fst r\<rparr>)"

section \<open>Frames, keys and the port\<close>

definition eapol_sm_txLogoff :: "'e eapol_sm \<Rightarrow> 'e eapol_sm" where
  "eapol_sm_txLogoff sm =
     bump (\<lambda>t. t\<lparr>dot1xSuppEapolLogoffFramesTx := dot1xSuppEapolLogoffFramesTx t + 1,
                dot1xSuppEapolFramesTx := dot1xSuppEapolFramesTx t + 1\<rparr>)
       (emit (Eapol_Send IEEE802_1X_TYPE_EAPOL_LOGOFF []) sm)"

definition eapol_sm_txStart :: "'e eapol_sm \<Rightarrow> 'e eapol_sm" where
  "eapol_sm_txStart sm =
     bump (\<lambda>t. t\<lparr>dot1xSuppEapolStartFramesTx := dot1xSuppEapolStartFramesTx t + 1,
                dot1xSuppEapolFramesTx := dot1xSuppEapolFramesTx t + 1\<rparr>)
       (emit (Eapol_Send IEEE802_1X_TYPE_EAPOL_START []) sm)"

text \<open>\<open>eapol_sm_get_key\<close>: the return code and the bytes that were copied.\<close>

definition eapol_sm_get_key :: "'e eapol_ctx \<Rightarrow> 'e eapol_sm \<Rightarrow> nat \<Rightarrow> int \<times> u8 list" where
  "eapol_sm_get_key C sm len =
     (if \<not> eap_key_available (peer C) (eap sm) then (-1, [])
      else case eap_get_eapKeyData (peer C) (eap sm) of
        None \<Rightarrow> (-1, [])
      | Some key \<Rightarrow> if len > length key then (int (length key), []) else (0, take len key))"

definition notify_lower_layer_success_in_sm :: "'e eapol_ctx \<Rightarrow> 'e eapol_sm \<Rightarrow> 'e eapol_sm" where
  "notify_lower_layer_success_in_sm C sm =
     eap_result C (eap_notify_lower_layer_success (peer C) (eap sm) (eapol_view sm)) sm"

text \<open>The fields of an EAPOL-Key frame: \<open>struct ieee802_1x_hdr\<close> is bytes 0 to 3,
  \<open>struct ieee802_1x_eapol_key\<close> bytes 4 to 47, the key data follows.\<close>

definition frame_plen :: "u8 list \<Rightarrow> nat" where "frame_plen f = unat (WPA_GET_BE16 (drop 2 f))"
definition rx_key_length :: "u8 list \<Rightarrow> nat" where "rx_key_length f = unat (WPA_GET_BE16 (drop 5 f))"
definition replay_counter :: "u8 list \<Rightarrow> u8 list" where "replay_counter f = take 8 (drop 7 f)"
definition key_iv :: "u8 list \<Rightarrow> u8 list" where "key_iv f = take 16 (drop 15 f)"
definition key_index :: "u8 list \<Rightarrow> u8" where "key_index f = f ! 31"
definition key_signature :: "u8 list \<Rightarrow> u8 list" where "key_signature f = take 16 (drop 32 f)"

text \<open>\<open>memcmp(a, b, n) >= 0\<close> on lists of the same length.\<close>

fun memcmp_ge :: "u8 list \<Rightarrow> u8 list \<Rightarrow> bool" where
  "memcmp_ge (x # xs) (y # ys) = (if x = y then memcmp_ge xs ys else x > y)"
| "memcmp_ge _ _ = True"

text \<open>The keys \<open>encr_key\<close> and \<open>sign_key\<close> and the return before them, at the calls of
  \<open>eapol_sm_get_key\<close>: 64 bytes, or 16 bytes from LEAP.\<close>

definition process_keydata :: "'e eapol_ctx \<Rightarrow> 'e eapol_sm \<Rightarrow> (u8 list \<times> u8 list \<times> nat) option" where
  "process_keydata C sm =
     (let (res, key) = eapol_sm_get_key C sm 64
      in if res < 0 then None
         else if res = 16 then
           (let (res, key) = eapol_sm_get_key C sm 16
            in if res \<noteq> 0 then None
               else Some (key @ drop 16 (take 32 (stack_data C)), key, 16))
         else if res \<noteq> 0 then None
         else Some (take 32 key, drop 32 key, 32))"

text \<open>The key that the frame carries, or that is taken from the keying material.\<close>

definition process_datakey :: "'e eapol_ctx \<Rightarrow> u8 list \<Rightarrow> nat \<Rightarrow> u8 list \<Rightarrow> u8 list option" where
  "process_datakey C encr_key encr_key_len f =
     (let plen = frame_plen f; key_len = plen - 44
      in if key_len > 32 \<or> rx_key_length f > 32 then None
         else if key_len = rx_key_length f then
           Some (rc4_skip C (key_iv f @ take encr_key_len encr_key) (take key_len (drop 48 f)))
         else if key_len = 0 then Some (take (rx_key_length f) encr_key)
         else None)"

definition process_install :: "'e eapol_ctx \<Rightarrow> u8 list \<Rightarrow> u8 list \<Rightarrow> 'e eapol_sm \<Rightarrow> 'e eapol_sm" where
  "process_install C f datakey sm =
     (let sm = sm\<lparr>replay_counter_valid := True,
                  last_replay_counter := replay_counter f @ drop 8 (last_replay_counter sm)\<rparr>;
          uni = (key_index f AND 0x80 \<noteq> 0); idx = key_index f AND 3;
          sm1 = (if set_wep_key C \<noteq> None then emit (Set_Wep_Key uni idx datakey) sm else sm)
      in if set_wep_key C \<noteq> None \<and> \<not> the (set_wep_key C) uni idx datakey then sm1
         else let sm = (if uni then sm1\<lparr>unicast_key_received := True\<rparr> else sm1\<lparr>broadcast_key_received := True\<rparr>)
           in if (unicast_key_received sm \<or> required_keys (conf sm) AND EAPOL_REQUIRE_KEY_UNICAST = 0)
                \<and> (broadcast_key_received sm \<or> required_keys (conf sm) AND EAPOL_REQUIRE_KEY_BROADCAST = 0)
              then let sm = sm\<lparr>portValid := True\<rparr> in if has_eapol_done_cb C then emit Eapol_Done sm else sm
              else sm)"

definition signed_part :: "u8 list \<Rightarrow> u8 list" where
  "signed_part f = take (4 + frame_plen f) (take 32 f @ replicate 16 0 @ drop 48 f)"

definition eapol_sm_processKey :: "'e eapol_ctx \<Rightarrow> 'e eapol_sm \<Rightarrow> 'e eapol_sm" where
  "eapol_sm_processKey C sm =
     (case last_rx_key sm of
        None \<Rightarrow> sm
      | Some f \<Rightarrow>
          if \<not> accept_802_1x_keys (conf sm) then sm
          else if length f < 48 then sm
          else if 4 + frame_plen f > length f \<or> frame_plen f < 44 then sm
          else let sm = notify_lower_layer_success_in_sm C sm
            in case process_keydata C sm of
                 None \<Rightarrow> sm
               | Some (encr_key, sign_key, key_len) \<Rightarrow>
                   if replay_counter_valid sm \<and> memcmp_ge (take 8 (last_replay_counter sm)) (replay_counter f)
                   then sm
                   else if key_signature f \<noteq> hmac_md5 C sign_key (signed_part f) then sm
                   else case process_datakey C encr_key key_len f of
                          None \<Rightarrow> sm
                        | Some datakey \<Rightarrow> process_install C f datakey sm)"

definition eapol_sm_txSuppRsp :: "'e eapol_ctx \<Rightarrow> 'e eapol_sm \<Rightarrow> 'e eapol_sm" where
  "eapol_sm_txSuppRsp C sm =
     (let (e, resp) = eap_get_eapRespData (peer C) (eap sm); sm = sm\<lparr>eap := e\<rparr>
      in case resp of
           None \<Rightarrow> sm
         | Some resp \<Rightarrow>
             bump (\<lambda>t. (if initial_req sm
                         then t\<lparr>dot1xSuppEapolReqIdFramesRx := dot1xSuppEapolReqIdFramesRx t + 1\<rparr>
                         else t\<lparr>dot1xSuppEapolReqFramesRx := dot1xSuppEapolReqFramesRx t + 1\<rparr>)
                       \<lparr>dot1xSuppEapolRespFramesTx := dot1xSuppEapolRespFramesTx t + 1,
                        dot1xSuppEapolFramesTx := dot1xSuppEapolFramesTx t + 1\<rparr>)
               (emit (Eapol_Send IEEE802_1X_TYPE_EAP_PACKET resp) sm))"

definition eapol_sm_abortSupp :: "'e eapol_ctx \<Rightarrow> 'e eapol_sm \<Rightarrow> 'e eapol_sm" where
  "eapol_sm_abortSupp C sm =
     (let sm = sm\<lparr>last_rx_key := None, eapReqData := None\<rparr> in eap_result C (eap_sm_abort (peer C) (eap sm)) sm)"

definition set_port :: "'e eapol_ctx \<Rightarrow> PortStatus \<Rightarrow> 'e eapol_sm \<Rightarrow> 'e eapol_sm" where
  "set_port C s sm =
     (let cb = (suppPortStatus sm \<noteq> s \<or> force_authorized_update sm);
          sm = sm\<lparr>force_authorized_update := False, suppPortStatus := s\<rparr>
      in if cb \<and> has_port_cb C then emit (Port_Cb (s = Authorized)) sm else sm)"

abbreviation eapol_sm_set_port_authorized :: "'e eapol_ctx \<Rightarrow> 'e eapol_sm \<Rightarrow> 'e eapol_sm" where
  "eapol_sm_set_port_authorized C \<equiv> set_port C Authorized"

abbreviation eapol_sm_set_port_unauthorized :: "'e eapol_ctx \<Rightarrow> 'e eapol_sm \<Rightarrow> 'e eapol_sm" where
  "eapol_sm_set_port_unauthorized C \<equiv> set_port C Unauthorized"

end
