(* ===== verification/Eapol_Step.thy ===== *)
theory Eapol_Step
  imports Eapol_Sm
begin

text \<open>
  The states, the transitions and the external notifications of
  \<open>wpa_supplicant/src/eapol_supp/eapol_supp_sm.c\<close>. \<open>eapol_sm_step\<close> runs the three machines and the EAP
  peer until nothing changes, at most a hundred times; when that was not enough it leaves a
  timeout for a further step. \<open>eapol_event\<close> and \<open>eapol_handle\<close> collect what the rest of the
  supplicant and the event loop can call, \<open>eapol_reachable\<close> the states they lead to.
\<close>

section \<open>Supplicant PAE state machine\<close>

text \<open>\<open>SM_ENTRY\<close>, once per machine.\<close>

definition PAE_ENTRY :: "bool \<Rightarrow> pae_state \<Rightarrow> 'e eapol_sm \<Rightarrow> 'e eapol_sm" where
  "PAE_ENTRY global s sm = sm\<lparr>changed := changed sm \<or> \<not> global \<or> SUPP_PAE_state sm \<noteq> s, SUPP_PAE_state := s\<rparr>"

definition KEY_RX_ENTRY :: "bool \<Rightarrow> key_rx_state \<Rightarrow> 'e eapol_sm \<Rightarrow> 'e eapol_sm" where
  "KEY_RX_ENTRY global s sm = sm\<lparr>changed := changed sm \<or> \<not> global \<or> KEY_RX_state sm \<noteq> s, KEY_RX_state := s\<rparr>"

definition BE_ENTRY :: "bool \<Rightarrow> be_state \<Rightarrow> 'e eapol_sm \<Rightarrow> 'e eapol_sm" where
  "BE_ENTRY global s sm = sm\<lparr>changed := changed sm \<or> \<not> global \<or> SUPP_BE_state sm \<noteq> s, SUPP_BE_state := s\<rparr>"

definition SUPP_PAE_LOGOFF_Enter :: "'e eapol_ctx \<Rightarrow> bool \<Rightarrow> 'e eapol_sm \<Rightarrow> 'e eapol_sm" where
  "SUPP_PAE_LOGOFF_Enter C g sm =
     (let sm = PAE_ENTRY g SUPP_PAE_LOGOFF sm;
          sm = eapol_sm_txLogoff sm;
          sm = sm\<lparr>logoffSent := True\<rparr>
      in eapol_sm_set_port_unauthorized C sm)"

definition SUPP_PAE_DISCONNECTED_Enter :: "'e eapol_ctx \<Rightarrow> bool \<Rightarrow> 'e eapol_sm \<Rightarrow> 'e eapol_sm" where
  "SUPP_PAE_DISCONNECTED_Enter C g sm =
     (let sm = PAE_ENTRY g SUPP_PAE_DISCONNECTED sm;
          sm = sm\<lparr>sPortMode := Auto, startCount := 0, eapTriggerStart := False, logoffSent := False\<rparr>;
          sm = eapol_sm_set_port_unauthorized C sm
      in sm\<lparr>suppAbort := True, unicast_key_received := False, broadcast_key_received := False, heldWhile := 0\<rparr>)"

definition SUPP_PAE_CONNECTING_Enter :: "'e eapol_ctx \<Rightarrow> bool \<Rightarrow> 'e eapol_sm \<Rightarrow> 'e eapol_sm" where
  "SUPP_PAE_CONNECTING_Enter C g sm =
     (let send_start = (SUPP_PAE_state sm = SUPP_PAE_CONNECTING \<or> SUPP_PAE_state sm = SUPP_PAE_HELD);
          sm = PAE_ENTRY g SUPP_PAE_CONNECTING sm;
          send_start = (send_start \<or> eapTriggerStart sm \<or> preauth C);
          sm = sm\<lparr>eapTriggerStart := False\<rparr>;
          sm = (if send_start then sm\<lparr>startWhen := startPeriod sm, startCount := startCount sm + 1\<rparr>
                else sm\<lparr>startWhen :=
                       (if wps (conf sm) \<noteq> 0 \<and> wps (conf sm) AND EAPOL_PEER_IS_WPS20_AP = 0 then 1 else 2)\<rparr>);
          sm = eapol_enable_timer_tick C sm;
          sm = sm\<lparr>eapolEap := False\<rparr>
      in if send_start then eapol_sm_txStart sm else sm)"

definition SUPP_PAE_AUTHENTICATING_Enter :: "bool \<Rightarrow> 'e eapol_sm \<Rightarrow> 'e eapol_sm" where
  "SUPP_PAE_AUTHENTICATING_Enter g sm =
     (PAE_ENTRY g SUPP_PAE_AUTHENTICATING sm)
       \<lparr>startCount := 0, suppSuccess := False, suppFail := False, suppTimeout := False,
        keyRun := False, keyDone := False, suppStart := True\<rparr>"

definition SUPP_PAE_HELD_Enter :: "'e eapol_ctx \<Rightarrow> bool \<Rightarrow> 'e eapol_sm \<Rightarrow> 'e eapol_sm" where
  "SUPP_PAE_HELD_Enter C g sm =
     (let sm = PAE_ENTRY g SUPP_PAE_HELD sm;
          sm = sm\<lparr>heldWhile := heldPeriod sm\<rparr>;
          sm = eapol_enable_timer_tick C sm;
          sm = eapol_sm_set_port_unauthorized C sm
      in sm\<lparr>cb_status := EAPOL_CB_FAILURE\<rparr>)"

definition SUPP_PAE_AUTHENTICATED_Enter :: "'e eapol_ctx \<Rightarrow> bool \<Rightarrow> 'e eapol_sm \<Rightarrow> 'e eapol_sm" where
  "SUPP_PAE_AUTHENTICATED_Enter C g sm =
     (let sm = PAE_ENTRY g SUPP_PAE_AUTHENTICATED sm;
          sm = eapol_sm_set_port_authorized C sm
      in sm\<lparr>cb_status := EAPOL_CB_SUCCESS\<rparr>)"

definition SUPP_PAE_RESTART_Enter :: "bool \<Rightarrow> 'e eapol_sm \<Rightarrow> 'e eapol_sm" where
  "SUPP_PAE_RESTART_Enter g sm =
     (let sm = PAE_ENTRY g SUPP_PAE_RESTART sm;
          sm = sm\<lparr>eapRestart := True\<rparr>
      in if altAccept sm then sm\<lparr>eapSuccess := False, altAccept := False\<rparr> else sm)"

definition SUPP_PAE_S_FORCE_AUTH_Enter :: "'e eapol_ctx \<Rightarrow> bool \<Rightarrow> 'e eapol_sm \<Rightarrow> 'e eapol_sm" where
  "SUPP_PAE_S_FORCE_AUTH_Enter C g sm =
     (let sm = PAE_ENTRY g SUPP_PAE_S_FORCE_AUTH sm;
          sm = eapol_sm_set_port_authorized C sm
      in sm\<lparr>sPortMode := ForceAuthorized\<rparr>)"

definition SUPP_PAE_S_FORCE_UNAUTH_Enter :: "'e eapol_ctx \<Rightarrow> bool \<Rightarrow> 'e eapol_sm \<Rightarrow> 'e eapol_sm" where
  "SUPP_PAE_S_FORCE_UNAUTH_Enter C g sm =
     (let sm = PAE_ENTRY g SUPP_PAE_S_FORCE_UNAUTH sm;
          sm = eapol_sm_set_port_unauthorized C sm;
          sm = sm\<lparr>sPortMode := ForceUnauthorized\<rparr>
      in eapol_sm_txLogoff sm)"

text \<open>The plaintext case of AUTHENTICATING: no EAPOL-Key frames are required.\<close>

definition plaintext_valid :: "'e eapol_ctx \<Rightarrow> 'e eapol_sm \<Rightarrow> 'e eapol_sm" where
  "plaintext_valid C sm =
     (if eapSuccess sm \<and> \<not> portValid sm \<and> accept_802_1x_keys (conf sm) \<and> required_keys (conf sm) = 0
      then let sm = sm\<lparr>portValid := True\<rparr> in if has_eapol_done_cb C then emit Eapol_Done sm else sm
      else sm)"

fun PAE_local :: "'e eapol_ctx \<Rightarrow> pae_state \<Rightarrow> 'e eapol_sm \<Rightarrow> 'e eapol_sm" where
  "PAE_local C SUPP_PAE_UNKNOWN sm = sm"
| "PAE_local C SUPP_PAE_LOGOFF sm = (if \<not> userLogoff sm then SUPP_PAE_DISCONNECTED_Enter C False sm else sm)"
| "PAE_local C SUPP_PAE_DISCONNECTED sm = SUPP_PAE_CONNECTING_Enter C False sm"
| "PAE_local C SUPP_PAE_CONNECTING sm =
     (if startWhen sm = 0 \<and> startCount sm < maxStart sm then SUPP_PAE_CONNECTING_Enter C False sm
      else if startWhen sm = 0 \<and> startCount sm \<ge> maxStart sm \<and> portValid sm
        then SUPP_PAE_AUTHENTICATED_Enter C False sm
      else if eapSuccess sm \<or> eapFail sm then SUPP_PAE_AUTHENTICATING_Enter False sm
      else if eapolEap sm then SUPP_PAE_RESTART_Enter False sm
      else if startWhen sm = 0 \<and> startCount sm \<ge> maxStart sm \<and> \<not> portValid sm
        then SUPP_PAE_HELD_Enter C False sm
      else sm)"
| "PAE_local C SUPP_PAE_AUTHENTICATING sm =
     (let sm = plaintext_valid C sm
      in if eapSuccess sm \<and> portValid sm then SUPP_PAE_AUTHENTICATED_Enter C False sm
         else if eapFail sm \<or> keyDone sm \<and> \<not> portValid sm then SUPP_PAE_HELD_Enter C False sm
         else if suppTimeout sm then SUPP_PAE_CONNECTING_Enter C False sm
         else if eapTriggerStart sm then SUPP_PAE_CONNECTING_Enter C False sm
         else sm)"
| "PAE_local C SUPP_PAE_HELD sm =
     (if heldWhile sm = 0 then SUPP_PAE_CONNECTING_Enter C False sm
      else if eapolEap sm then SUPP_PAE_RESTART_Enter False sm
      else sm)"
| "PAE_local C SUPP_PAE_AUTHENTICATED sm =
     (if eapolEap sm \<and> portValid sm then SUPP_PAE_RESTART_Enter False sm
      else if \<not> portValid sm then SUPP_PAE_DISCONNECTED_Enter C False sm
      else sm)"
| "PAE_local C SUPP_PAE_RESTART sm = (if \<not> eapRestart sm then SUPP_PAE_AUTHENTICATING_Enter False sm else sm)"
| "PAE_local C SUPP_PAE_S_FORCE_AUTH sm = sm"
| "PAE_local C SUPP_PAE_S_FORCE_UNAUTH sm = sm"

definition SUPP_PAE_Step :: "'e eapol_ctx \<Rightarrow> 'e eapol_sm \<Rightarrow> 'e eapol_sm" where
  "SUPP_PAE_Step C sm =
     (if (userLogoff sm \<and> \<not> logoffSent sm) \<and> \<not> (initialize sm \<or> \<not> portEnabled sm)
      then SUPP_PAE_LOGOFF_Enter C True sm
      else if portControl sm = Auto \<and> sPortMode sm \<noteq> portControl sm \<or> initialize sm \<or> \<not> portEnabled sm
      then SUPP_PAE_DISCONNECTED_Enter C True sm
      else if portControl sm = ForceAuthorized \<and> sPortMode sm \<noteq> portControl sm
        \<and> \<not> (initialize sm \<or> \<not> portEnabled sm)
      then SUPP_PAE_S_FORCE_AUTH_Enter C True sm
      else if portControl sm = ForceUnauthorized \<and> sPortMode sm \<noteq> portControl sm
        \<and> \<not> (initialize sm \<or> \<not> portEnabled sm)
      then SUPP_PAE_S_FORCE_UNAUTH_Enter C True sm
      else PAE_local C (SUPP_PAE_state sm) sm)"

section \<open>Key receive and backend state machines\<close>

definition KEY_RX_NO_KEY_RECEIVE_Enter :: "bool \<Rightarrow> 'e eapol_sm \<Rightarrow> 'e eapol_sm" where
  "KEY_RX_NO_KEY_RECEIVE_Enter g sm = KEY_RX_ENTRY g KEY_RX_NO_KEY_RECEIVE sm"

definition KEY_RX_KEY_RECEIVE_Enter :: "'e eapol_ctx \<Rightarrow> bool \<Rightarrow> 'e eapol_sm \<Rightarrow> 'e eapol_sm" where
  "KEY_RX_KEY_RECEIVE_Enter C g sm =
     (eapol_sm_processKey C (KEY_RX_ENTRY g KEY_RX_KEY_RECEIVE sm))\<lparr>rxKey := False\<rparr>"

definition KEY_RX_Step :: "'e eapol_ctx \<Rightarrow> 'e eapol_sm \<Rightarrow> 'e eapol_sm" where
  "KEY_RX_Step C sm =
     (let sm = (if initialize sm \<or> \<not> portEnabled sm then KEY_RX_NO_KEY_RECEIVE_Enter True sm else sm)
      in case KEY_RX_state sm of
           KEY_RX_UNKNOWN \<Rightarrow> sm
         | KEY_RX_NO_KEY_RECEIVE \<Rightarrow> if rxKey sm then KEY_RX_KEY_RECEIVE_Enter C False sm else sm
         | KEY_RX_KEY_RECEIVE \<Rightarrow> if rxKey sm then KEY_RX_KEY_RECEIVE_Enter C False sm else sm)"

definition SUPP_BE_REQUEST_Enter :: "bool \<Rightarrow> 'e eapol_sm \<Rightarrow> 'e eapol_sm" where
  "SUPP_BE_REQUEST_Enter g sm = (BE_ENTRY g SUPP_BE_REQUEST sm)\<lparr>authWhile := 0, eapReq := True\<rparr>"

definition SUPP_BE_RESPONSE_Enter :: "'e eapol_ctx \<Rightarrow> bool \<Rightarrow> 'e eapol_sm \<Rightarrow> 'e eapol_sm" where
  "SUPP_BE_RESPONSE_Enter C g sm = (eapol_sm_txSuppRsp C (BE_ENTRY g SUPP_BE_RESPONSE sm))\<lparr>eapResp := False\<rparr>"

definition SUPP_BE_SUCCESS_Enter :: "'e eapol_ctx \<Rightarrow> bool \<Rightarrow> 'e eapol_sm \<Rightarrow> 'e eapol_sm" where
  "SUPP_BE_SUCCESS_Enter C g sm =
     (let sm = (BE_ENTRY g SUPP_BE_SUCCESS sm)\<lparr>keyRun := True, suppSuccess := True\<rparr>
      in if eap_key_available (peer C) (eap sm) then sm\<lparr>replay_counter_valid := False\<rparr> else sm)"

definition SUPP_BE_FAIL_Enter :: "bool \<Rightarrow> 'e eapol_sm \<Rightarrow> 'e eapol_sm" where
  "SUPP_BE_FAIL_Enter g sm = (BE_ENTRY g SUPP_BE_FAIL sm)\<lparr>suppFail := True\<rparr>"

definition SUPP_BE_TIMEOUT_Enter :: "bool \<Rightarrow> 'e eapol_sm \<Rightarrow> 'e eapol_sm" where
  "SUPP_BE_TIMEOUT_Enter g sm = (BE_ENTRY g SUPP_BE_TIMEOUT sm)\<lparr>suppTimeout := True\<rparr>"

definition SUPP_BE_IDLE_Enter :: "bool \<Rightarrow> 'e eapol_sm \<Rightarrow> 'e eapol_sm" where
  "SUPP_BE_IDLE_Enter g sm = (BE_ENTRY g SUPP_BE_IDLE sm)\<lparr>suppStart := False, initial_req := True\<rparr>"

definition SUPP_BE_INITIALIZE_Enter :: "'e eapol_ctx \<Rightarrow> bool \<Rightarrow> 'e eapol_sm \<Rightarrow> 'e eapol_sm" where
  "SUPP_BE_INITIALIZE_Enter C g sm =
     (eapol_sm_abortSupp C (BE_ENTRY g SUPP_BE_INITIALIZE sm))\<lparr>suppAbort := False, authWhile := 0\<rparr>"

definition SUPP_BE_RECEIVE_Enter :: "'e eapol_ctx \<Rightarrow> bool \<Rightarrow> 'e eapol_sm \<Rightarrow> 'e eapol_sm" where
  "SUPP_BE_RECEIVE_Enter C g sm =
     (let sm = BE_ENTRY g SUPP_BE_RECEIVE sm;
          sm = sm\<lparr>authWhile := authPeriod sm\<rparr>;
          sm = eapol_enable_timer_tick C sm
      in sm\<lparr>eapolEap := False, eapNoResp := False, initial_req := False\<rparr>)"

fun BE_local :: "'e eapol_ctx \<Rightarrow> be_state \<Rightarrow> 'e eapol_sm \<Rightarrow> 'e eapol_sm" where
  "BE_local C SUPP_BE_UNKNOWN sm = sm"
| "BE_local C SUPP_BE_REQUEST sm =
     (if eapResp sm then SUPP_BE_RESPONSE_Enter C False sm
      else if eapNoResp sm then SUPP_BE_RECEIVE_Enter C False sm
      else if eapFail sm then SUPP_BE_FAIL_Enter False sm
      else if eapSuccess sm then SUPP_BE_SUCCESS_Enter C False sm
      else sm)"
| "BE_local C SUPP_BE_RESPONSE sm = SUPP_BE_RECEIVE_Enter C False sm"
| "BE_local C SUPP_BE_SUCCESS sm = SUPP_BE_IDLE_Enter False sm"
| "BE_local C SUPP_BE_FAIL sm = SUPP_BE_IDLE_Enter False sm"
| "BE_local C SUPP_BE_TIMEOUT sm = SUPP_BE_IDLE_Enter False sm"
| "BE_local C SUPP_BE_IDLE sm =
     (if eapFail sm \<and> suppStart sm then SUPP_BE_FAIL_Enter False sm
      else if eapolEap sm \<and> suppStart sm then SUPP_BE_REQUEST_Enter False sm
      else if eapSuccess sm \<and> suppStart sm then SUPP_BE_SUCCESS_Enter C False sm
      else sm)"
| "BE_local C SUPP_BE_INITIALIZE sm = SUPP_BE_IDLE_Enter False sm"
| "BE_local C SUPP_BE_RECEIVE sm =
     (if eapolEap sm then SUPP_BE_REQUEST_Enter False sm
      else if eapFail sm then SUPP_BE_FAIL_Enter False sm
      else if authWhile sm = 0 then SUPP_BE_TIMEOUT_Enter False sm
      else if eapSuccess sm then SUPP_BE_SUCCESS_Enter C False sm
      else sm)"

definition SUPP_BE_Step :: "'e eapol_ctx \<Rightarrow> 'e eapol_sm \<Rightarrow> 'e eapol_sm" where
  "SUPP_BE_Step C sm =
     (if initialize sm \<or> suppAbort sm then SUPP_BE_INITIALIZE_Enter C True sm
      else BE_local C (SUPP_BE_state sm) sm)"

section \<open>The step function and the timer\<close>

definition run_peer :: "'e eapol_ctx \<Rightarrow> 'e eapol_sm \<Rightarrow> 'e eapol_sm" where
  "run_peer C sm =
     (let (e, calls, ch) = eap_peer_sm_step (peer C) (eap sm) (eapol_view sm);
          sm = eap_result C (e, calls) sm
      in if ch then sm\<lparr>changed := True\<rparr> else sm)"

definition eapol_round :: "'e eapol_ctx \<Rightarrow> 'e eapol_sm \<Rightarrow> 'e eapol_sm" where
  "eapol_round C sm = run_peer C (SUPP_BE_Step C (KEY_RX_Step C (SUPP_PAE_Step C (sm\<lparr>changed := False\<rparr>))))"

fun step_loop :: "'e eapol_ctx \<Rightarrow> nat \<Rightarrow> 'e eapol_sm \<Rightarrow> 'e eapol_sm" where
  "step_loop C 0 sm = sm"
| "step_loop C (Suc n) sm = (let sm = eapol_round C sm in if changed sm then step_loop C n sm else sm)"

definition eapol_sm_step :: "'e eapol_ctx \<Rightarrow> 'e eapol_sm \<Rightarrow> 'e eapol_sm" where
  "eapol_sm_step C sm =
     (let sm = step_loop C 100 sm;
          sm = (if changed sm then sm\<lparr>steps := (if eloop_register C then 1 else 0)\<rparr> else sm)
      in if has_cb C \<and> cb_status sm \<noteq> EAPOL_CB_IN_PROGRESS then
           let result = (if cb_status sm = EAPOL_CB_SUCCESS then EAPOL_SUPP_RESULT_SUCCESS
                         else if eap_peer_was_failure_expected (peer C) (eap sm)
                         then EAPOL_SUPP_RESULT_EXPECTED_FAILURE else EAPOL_SUPP_RESULT_FAILURE)
           in emit (Result_Cb result) (sm\<lparr>cb_status := EAPOL_CB_IN_PROGRESS\<rparr>)
         else sm)"

definition count_down :: "u32 \<Rightarrow> u32" where "count_down t = (if t > 0 then t - 1 else t)"

definition timers_running :: "'e eapol_sm \<Rightarrow> bool" where
  "timers_running sm \<longleftrightarrow> authWhile sm OR heldWhile sm OR startWhen sm OR idleWhile sm \<noteq> 0"

text \<open>The event loop removes a timeout before it calls the handler.\<close>

definition eapol_port_timers_tick :: "'e eapol_ctx \<Rightarrow> 'e eapol_sm \<Rightarrow> 'e eapol_sm" where
  "eapol_port_timers_tick C sm =
     (let sm = sm\<lparr>authWhile := count_down (authWhile sm), heldWhile := count_down (heldWhile sm),
                  startWhen := count_down (startWhen sm), idleWhile := count_down (idleWhile sm),
                  ticks := ticks sm - 1\<rparr>;
          sm = (if timers_running sm then
                  if eloop_register C then sm\<lparr>ticks := ticks sm + 1\<rparr> else sm\<lparr>timer_tick_enabled := False\<rparr>
                else sm\<lparr>timer_tick_enabled := False\<rparr>)
      in eapol_sm_step C sm)"

definition eapol_sm_step_timeout :: "'e eapol_ctx \<Rightarrow> 'e eapol_sm \<Rightarrow> 'e eapol_sm" where
  "eapol_sm_step_timeout C sm = eapol_sm_step C (sm\<lparr>steps := steps sm - 1\<rparr>)"

section \<open>Received frames\<close>

definition eapol_sm_abort_cached :: "'e eapol_ctx \<Rightarrow> 'e eapol_sm \<Rightarrow> 'e eapol_sm" where
  "eapol_sm_abort_cached C sm =
     (let sm = sm\<lparr>cached_pmk := False, SUPP_PAE_state := SUPP_PAE_CONNECTING\<rparr>;
          sm = eapol_sm_set_port_unauthorized C sm;
          sm = sm\<lparr>startWhen := 3\<rparr>;
          sm = eapol_enable_timer_tick C sm
      in if has_aborted_cached C then emit Aborted_Cached sm else sm)"

text \<open>The payload length, with the workaround for a too short header around a WPS packet:
  bytes 6 and 7 are the length of the EAP packet.\<close>

definition eapol_payload_len :: "'e eapol_sm \<Rightarrow> u8 list \<Rightarrow> nat" where
  "eapol_payload_len sm buf =
     (let plen = frame_plen buf
      in if wps (conf sm) \<noteq> 0 \<and> workaround (conf sm) \<and> plen < length buf - 4
            \<and> buf ! 1 = IEEE802_1X_TYPE_EAP_PACKET \<and> length buf - 4 > 4
         then let elen = unat (WPA_GET_BE16 (drop 6 buf))
              in if elen > plen \<and> elen \<le> length buf - 4 then elen else plen
         else plen)"

definition rx_eap_packet :: "'e eapol_ctx \<Rightarrow> u8 list \<Rightarrow> nat \<Rightarrow> 'e eapol_sm \<Rightarrow> 'e eapol_sm" where
  "rx_eap_packet C buf plen sm =
     (if workaround (conf sm) \<and> plen \<ge> 4 \<and> buf ! 4 = 10 then sm
      else let sm = (if cached_pmk sm then eapol_sm_abort_cached C sm else sm)
        in if alloc C plen
           then eapol_sm_step C (sm\<lparr>eapReqData := Some (take plen (drop 4 buf)), eapolEap := True\<rparr>)
           else sm\<lparr>eapReqData := None\<rparr>)"

definition rx_eapol_key :: "'e eapol_ctx \<Rightarrow> u8 list \<Rightarrow> nat \<Rightarrow> 'e eapol_sm \<Rightarrow> int \<times> 'e eapol_sm" where
  "rx_eapol_key C buf plen sm =
     (if plen < 44 then (1, sm)
      else if buf ! 4 = EAPOL_KEY_TYPE_WPA \<or> buf ! 4 = EAPOL_KEY_TYPE_RSN then (0, sm)
      else if buf ! 4 \<noteq> EAPOL_KEY_TYPE_RC4 then (1, sm)
      else if alloc C (plen + 4)
        then (1, eapol_sm_step C (sm\<lparr>last_rx_key := Some (take (plen + 4) buf), rxKey := True\<rparr>))
      else (1, sm\<lparr>last_rx_key := None\<rparr>))"

definition eapol_sm_rx_eapol ::
    "'e eapol_ctx \<Rightarrow> u8 list \<Rightarrow> u8 list \<Rightarrow> 'e eapol_sm \<Rightarrow> int \<times> 'e eapol_sm" where
  "eapol_sm_rx_eapol C src buf sm =
     (let sm = bump (\<lambda>t. t\<lparr>dot1xSuppEapolFramesRx := dot1xSuppEapolFramesRx t + 1\<rparr>) sm
      in if length buf < 4
         then (0, bump (\<lambda>t. t\<lparr>dot1xSuppInvalidEapolFramesRx := dot1xSuppInvalidEapolFramesRx t + 1\<rparr>) sm)
         else let sm = bump (\<lambda>t. t\<lparr>dot1xSuppLastEapolFrameVersion := buf ! 0,
                                   dot1xSuppLastEapolFrameSource := take 6 src\<rparr>) sm
           in if frame_plen buf > length buf - 4
              then (0, bump (\<lambda>t. t\<lparr>dot1xSuppEapLengthErrorFramesRx := dot1xSuppEapLengthErrorFramesRx t + 1\<rparr>) sm)
              else let plen = eapol_payload_len sm buf
                in if buf ! 1 = IEEE802_1X_TYPE_EAP_PACKET then (1, rx_eap_packet C buf plen sm)
                   else if buf ! 1 = IEEE802_1X_TYPE_EAPOL_KEY then rx_eapol_key C buf plen sm
                   else (1, bump (\<lambda>t. t\<lparr>dot1xSuppInvalidEapolFramesRx := dot1xSuppInvalidEapolFramesRx t + 1\<rparr>) sm))"

section \<open>Notifications\<close>

definition eapol_sm_configure :: "int \<Rightarrow> int \<Rightarrow> int \<Rightarrow> int \<Rightarrow> 'e eapol_sm \<Rightarrow> 'e eapol_sm" where
  "eapol_sm_configure held auth start max_start sm =
     (let sm = (if held \<ge> 0 then sm\<lparr>heldPeriod := of_int held\<rparr> else sm);
          sm = (if auth \<ge> 0 then sm\<lparr>authPeriod := of_int auth\<rparr> else sm);
          sm = (if start \<ge> 0 then sm\<lparr>startPeriod := of_int start\<rparr> else sm)
      in if max_start \<ge> 0 then sm\<lparr>maxStart := of_int max_start\<rparr> else sm)"

definition eapol_sm_notify_tx_eapol_key :: "'e eapol_sm \<Rightarrow> 'e eapol_sm" where
  "eapol_sm_notify_tx_eapol_key = bump (\<lambda>t. t\<lparr>dot1xSuppEapolFramesTx := dot1xSuppEapolFramesTx t + 1\<rparr>)"

definition eapol_sm_notify_portEnabled :: "'e eapol_ctx \<Rightarrow> bool \<Rightarrow> 'e eapol_sm \<Rightarrow> 'e eapol_sm" where
  "eapol_sm_notify_portEnabled C enabled sm =
     (let sm = (if portEnabled sm \<noteq> enabled then sm\<lparr>force_authorized_update := True\<rparr> else sm)
      in eapol_sm_step C (sm\<lparr>portEnabled := enabled\<rparr>))"

definition eapol_sm_notify_portValid :: "'e eapol_ctx \<Rightarrow> bool \<Rightarrow> 'e eapol_sm \<Rightarrow> 'e eapol_sm" where
  "eapol_sm_notify_portValid C valid sm = eapol_sm_step C (sm\<lparr>portValid := valid\<rparr>)"

definition eapol_sm_notify_eap_success :: "'e eapol_ctx \<Rightarrow> bool \<Rightarrow> 'e eapol_sm \<Rightarrow> 'e eapol_sm" where
  "eapol_sm_notify_eap_success C success sm =
     (let sm = sm\<lparr>eapSuccess := success, altAccept := success\<rparr>;
          sm = (if success then sm\<lparr>eap := eap_notify_success (peer C) (eap sm)\<rparr> else sm)
      in eapol_sm_step C sm)"

definition eapol_sm_notify_eap_fail :: "'e eapol_ctx \<Rightarrow> bool \<Rightarrow> 'e eapol_sm \<Rightarrow> 'e eapol_sm" where
  "eapol_sm_notify_eap_fail C fail sm = eapol_sm_step C (sm\<lparr>eapFail := fail, altReject := fail\<rparr>)"

definition eapol_sm_notify_config :: "'e eapol_ctx \<Rightarrow> eapol_config option \<Rightarrow> 'e eapol_sm \<Rightarrow> 'e eapol_sm" where
  "eapol_sm_notify_config C cfg sm =
     (case cfg of
        None \<Rightarrow> sm
      | Some c \<Rightarrow>
          sm\<lparr>conf := (conf sm)\<lparr>accept_802_1x_keys := accept_802_1x_keys c, required_keys := required_keys c,
                             fast_reauth := fast_reauth c, workaround := workaround c, wps := wps c\<rparr>,
             eap := eap_set_config (peer C) c (eap sm)\<rparr>)"

definition eapol_sm_notify_logoff :: "'e eapol_ctx \<Rightarrow> bool \<Rightarrow> 'e eapol_sm \<Rightarrow> 'e eapol_sm" where
  "eapol_sm_notify_logoff C logoff sm =
     (let sm = sm\<lparr>userLogoff := logoff\<rparr>;
          sm = (if \<not> logoff then sm\<lparr>startWhen := 0\<rparr> else sm)
      in eapol_sm_step C sm)"

definition eapol_sm_notify_cached :: "'e eapol_ctx \<Rightarrow> 'e eapol_sm \<Rightarrow> 'e eapol_sm" where
  "eapol_sm_notify_cached C sm =
     eapol_sm_step C (sm\<lparr>eapSuccess := True, eap := eap_notify_success (peer C) (eap sm)\<rparr>)"

definition eapol_sm_notify_pmkid_attempt :: "'e eapol_sm \<Rightarrow> 'e eapol_sm" where
  "eapol_sm_notify_pmkid_attempt sm = sm\<lparr>cached_pmk := True\<rparr>"

definition eapol_sm_notify_portControl :: "'e eapol_ctx \<Rightarrow> PortControl \<Rightarrow> 'e eapol_sm \<Rightarrow> 'e eapol_sm" where
  "eapol_sm_notify_portControl C c sm = eapol_sm_step C (sm\<lparr>portControl := c\<rparr>)"

definition eapol_sm_notify_ctrl_response :: "'e eapol_ctx \<Rightarrow> 'e eapol_sm \<Rightarrow> 'e eapol_sm" where
  "eapol_sm_notify_ctrl_response C sm =
     (if eapReqData sm \<noteq> None \<and> \<not> eapReq sm then eapol_sm_step C (sm\<lparr>eapolEap := True, eapReq := True\<rparr>) else sm)"

text \<open>The EAP peer calls this one when a pending operation has ended.\<close>

definition eapol_sm_notify_pending :: "'e eapol_ctx \<Rightarrow> 'e eapol_sm \<Rightarrow> 'e eapol_sm" where
  "eapol_sm_notify_pending C sm =
     (if eapReqData sm \<noteq> None \<and> \<not> eapReq sm then eapol_sm_step C (sm\<lparr>eapolEap := True, eapReq := True\<rparr>) else sm)"

definition eapol_sm_request_reauth :: "'e eapol_sm \<Rightarrow> 'e eapol_sm" where
  "eapol_sm_request_reauth sm =
     (if SUPP_PAE_state sm \<noteq> SUPP_PAE_AUTHENTICATED then sm else eapol_sm_txStart sm)"

definition eapol_sm_notify_lower_layer_success :: "'e eapol_ctx \<Rightarrow> bool \<Rightarrow> 'e eapol_sm \<Rightarrow> 'e eapol_sm" where
  "eapol_sm_notify_lower_layer_success C in_eapol_sm sm =
     (let sm = notify_lower_layer_success_in_sm C sm in if in_eapol_sm then sm else eapol_sm_step C sm)"

definition eapol_sm_invalidate_cached_session :: "'e eapol_ctx \<Rightarrow> 'e eapol_sm \<Rightarrow> 'e eapol_sm" where
  "eapol_sm_invalidate_cached_session C sm = sm\<lparr>eap := eap_invalidate_cached_session (peer C) (eap sm)\<rparr>"

definition eapol_sm_failed :: "'e eapol_sm \<Rightarrow> bool" where
  "eapol_sm_failed sm \<longleftrightarrow> \<not> eapSuccess sm \<and> eapFail sm"

text \<open>\<open>os_zalloc\<close> and \<open>eapol_sm_init\<close>; \<open>e\<close> is what \<open>eap_peer_sm_init\<close> returned.\<close>

definition zalloc_sm :: "'e \<Rightarrow> 'e eapol_sm" where
  "zalloc_sm e =
     \<lparr>authWhile = 0, heldWhile = 0, startWhen = 0, idleWhile = 0, timer_tick_enabled = False,
      eapFail = False, eapolEap = False, eapSuccess = False, initialize = False, keyDone = False,
      keyRun = False, portControl = Auto, portEnabled = False, suppPortStatus = Unauthorized,
      portValid = False, suppAbort = False, suppFail = False, suppStart = False, suppSuccess = False,
      suppTimeout = False, SUPP_PAE_state = SUPP_PAE_UNKNOWN, userLogoff = False, logoffSent = False,
      startCount = 0, eapRestart = False, sPortMode = Auto, heldPeriod = 0, startPeriod = 0,
      maxStart = 0, KEY_RX_state = KEY_RX_UNKNOWN, rxKey = False, SUPP_BE_state = SUPP_BE_UNKNOWN,
      eapNoResp = False, eapReq = False, eapResp = False, authPeriod = 0,
      stats = \<lparr>dot1xSuppEapolFramesRx = 0, dot1xSuppEapolFramesTx = 0, dot1xSuppEapolStartFramesTx = 0,
        dot1xSuppEapolLogoffFramesTx = 0, dot1xSuppEapolRespFramesTx = 0, dot1xSuppEapolReqIdFramesRx = 0,
        dot1xSuppEapolReqFramesRx = 0, dot1xSuppInvalidEapolFramesRx = 0,
        dot1xSuppEapLengthErrorFramesRx = 0, dot1xSuppLastEapolFrameVersion = 0,
        dot1xSuppLastEapolFrameSource = replicate 6 0\<rparr>,
      changed = False, eap = e, initial_req = False, last_rx_key = None, eapReqData = None,
      altAccept = False, altReject = False, eapTriggerStart = False, replay_counter_valid = False,
      last_replay_counter = replicate 16 0,
      conf = \<lparr>accept_802_1x_keys = False, required_keys = 0, fast_reauth = False, workaround = False,
        eap_disabled = False, external_sim = False, wps = 0\<rparr>,
      cb_status = EAPOL_CB_IN_PROGRESS, cached_pmk = False, unicast_key_received = False,
      broadcast_key_received = False, force_authorized_update = False, outs = [], ticks = 0, steps = 0\<rparr>"

definition eapol_sm_init :: "'e eapol_ctx \<Rightarrow> 'e option \<Rightarrow> 'e eapol_sm option" where
  "eapol_sm_init C e =
     (case e of
        None \<Rightarrow> None
      | Some e \<Rightarrow>
          let sm = (zalloc_sm e)\<lparr>portControl := Auto, heldPeriod := 60, startPeriod := 30, maxStart := 3,
                                authPeriod := 30\<rparr>;
              sm = sm\<lparr>force_authorized_update := True, initialize := True\<rparr>;
              sm = eapol_sm_step C sm;
              sm = eapol_sm_step C (sm\<lparr>initialize := False\<rparr>)
          in Some (if eloop_register C then sm\<lparr>ticks := ticks sm + 1, timer_tick_enabled := True\<rparr> else sm))"

section \<open>Events and reachable states\<close>

datatype eapol_event =
  Rx_Eapol "u8 list" "u8 list" | Tx_Eapol_Key | Port_Enabled bool | Port_Valid bool | Eap_Success bool
  | Eap_Fail bool | Config "eapol_config option" | Configure int int int int | Logoff bool | Cached
  | Pmkid_Attempt | Port_Control PortControl | Ctrl_Response | Pending | Request_Reauth
  | Lower_Layer_Success | Invalidate_Session | Timer_Tick | Step_Timeout

fun eapol_handle :: "'e eapol_ctx \<Rightarrow> eapol_event \<Rightarrow> 'e eapol_sm \<Rightarrow> 'e eapol_sm" where
  "eapol_handle C (Rx_Eapol src buf) sm = snd (eapol_sm_rx_eapol C src buf sm)"
| "eapol_handle C Tx_Eapol_Key sm = eapol_sm_notify_tx_eapol_key sm"
| "eapol_handle C (Port_Enabled b) sm = eapol_sm_notify_portEnabled C b sm"
| "eapol_handle C (Port_Valid b) sm = eapol_sm_notify_portValid C b sm"
| "eapol_handle C (Eap_Success b) sm = eapol_sm_notify_eap_success C b sm"
| "eapol_handle C (Eap_Fail b) sm = eapol_sm_notify_eap_fail C b sm"
| "eapol_handle C (Config c) sm = eapol_sm_notify_config C c sm"
| "eapol_handle C (Configure h a s m) sm = eapol_sm_configure h a s m sm"
| "eapol_handle C (Logoff b) sm = eapol_sm_notify_logoff C b sm"
| "eapol_handle C Cached sm = eapol_sm_notify_cached C sm"
| "eapol_handle C Pmkid_Attempt sm = eapol_sm_notify_pmkid_attempt sm"
| "eapol_handle C (Port_Control c) sm = eapol_sm_notify_portControl C c sm"
| "eapol_handle C Ctrl_Response sm = eapol_sm_notify_ctrl_response C sm"
| "eapol_handle C Pending sm = eapol_sm_notify_pending C sm"
| "eapol_handle C Request_Reauth sm = eapol_sm_request_reauth sm"
| "eapol_handle C Lower_Layer_Success sm = eapol_sm_notify_lower_layer_success C False sm"
| "eapol_handle C Invalidate_Session sm = eapol_sm_invalidate_cached_session C sm"
| "eapol_handle C Timer_Tick sm = eapol_port_timers_tick C sm"
| "eapol_handle C Step_Timeout sm = eapol_sm_step_timeout C sm"

text \<open>A timeout fires only while the event loop holds it.\<close>

fun can_happen :: "eapol_event \<Rightarrow> 'e eapol_sm \<Rightarrow> bool" where
  "can_happen Timer_Tick sm \<longleftrightarrow> ticks sm > 0"
| "can_happen Step_Timeout sm \<longleftrightarrow> steps sm > 0"
| "can_happen _ sm \<longleftrightarrow> True"

inductive eapol_trans :: "'e eapol_ctx \<Rightarrow> 'e eapol_sm \<Rightarrow> eapol_event \<Rightarrow> 'e eapol_sm \<Rightarrow> bool" for C where
  event: "can_happen ev sm \<Longrightarrow> eapol_trans C sm ev (eapol_handle C ev sm)"

inductive eapol_reachable :: "'e eapol_ctx \<Rightarrow> 'e eapol_sm \<Rightarrow> bool" for C where
  init: "eapol_sm_init C e = Some sm \<Longrightarrow> eapol_reachable C sm"
| trans: "eapol_reachable C sm \<Longrightarrow> eapol_trans C sm ev sm' \<Longrightarrow> eapol_reachable C sm'"

inductive_cases eapol_transE: "eapol_trans C sm ev sm'"
inductive_simps eapol_trans_simp: "eapol_trans C sm ev sm'"

end
