(* ===== verification/Eapol_Port.thy ===== *)
theory Eapol_Port
  imports Eapol_Step
begin

text \<open>
  The controlled port of \<open>eapol_supp_sm.c\<close>. \<open>port_view\<close> is the part of the state that decides it;
  only the PAE machine changes it (\<open>port_frames\<close>). \<open>port_ok\<close> is its invariant. What the machines
  need of the EAP peer behind them is the locale \<open>eap_peer_contract\<close>.
\<close>

section \<open>What the upper layer was told\<close>

definition port_reports :: "eapol_out list \<Rightarrow> bool list" where
  "port_reports os = concat (map (\<lambda>x. case x of Port_Cb b \<Rightarrow> [b] | _ \<Rightarrow> []) os)"

definition driver_port :: "eapol_out list \<Rightarrow> bool option" where
  "driver_port os = (if port_reports os = [] then None else Some (last (port_reports os)))"

lemma driver_port_append [simp]:
  "driver_port (os @ xs) = (case driver_port xs of None \<Rightarrow> driver_port os | Some b \<Rightarrow> Some b)"
  by (auto simp: driver_port_def port_reports_def)

lemma driver_port_simps [simp]:
  "driver_port [] = None"
  "driver_port (x # xs) =
     (case driver_port xs of Some b \<Rightarrow> Some b | None \<Rightarrow> (case x of Port_Cb b \<Rightarrow> Some b | _ \<Rightarrow> None))"
  by (auto simp: driver_port_def port_reports_def split: eapol_out.split)

definition port_view :: "'e eapol_sm \<Rightarrow> pae_state \<times> PortStatus \<times> bool \<times> bool option" where
  "port_view sm = (SUPP_PAE_state sm, suppPortStatus sm, force_authorized_update sm, driver_port (outs sm))"

named_theorems port_frames \<open>operations that leave the port alone\<close>

lemma port_view_enable [port_frames]: "port_view (eapol_enable_timer_tick C sm) = port_view sm"
  by (simp add: eapol_enable_timer_tick_def port_view_def)

lemma port_view_bump [port_frames]: "port_view (bump f sm) = port_view sm"
  by (simp add: bump_def port_view_def)

lemma port_view_emit [port_frames]: "port_view (emit (Eapol_Send ty d) sm) = port_view sm" "port_view (emit Eapol_Done sm) = port_view sm"
  "port_view (emit (Set_Wep_Key u i k) sm) = port_view sm" "port_view (emit (Result_Cb r) sm) = port_view sm"
  "port_view (emit Aborted_Cached sm) = port_view sm"
  by (simp_all add: emit_def port_view_def)

lemma port_view_sends [port_frames]:
  "port_view (eapol_sm_txLogoff sm) = port_view sm" "port_view (eapol_sm_txStart sm) = port_view sm"
  by (simp_all add: eapol_sm_txLogoff_def eapol_sm_txStart_def port_frames)

lemma port_view_callback [port_frames]: "port_view (eap_callback C c sm) = port_view sm"
proof (cases c)
  case (Set_Bool v b)
  then show ?thesis by (cases v) (simp_all add: port_view_def)
next
  case (Set_Int v n)
  then show ?thesis by (cases v) (simp_all add: port_view_def eapol_enable_timer_tick_def Let_def)
qed

lemma port_view_calls [port_frames]: "port_view (fold (eap_callback C) cs sm) = port_view sm"
  by (induction cs arbitrary: sm) (simp_all add: port_frames)

lemma port_view_result [port_frames]: "port_view (eap_result C r sm) = port_view sm"
  by (simp add: eap_result_def port_frames) (simp add: port_view_def)

lemma port_view_fields:
  "port_view (sm\<lparr>rxKey := b\<rparr>) = port_view sm" "port_view (sm\<lparr>changed := b\<rparr>) = port_view sm"
  "port_view (sm\<lparr>eapResp := b\<rparr>) = port_view sm" "port_view (sm\<lparr>eap := e\<rparr>) = port_view sm"
  "port_view (sm\<lparr>portValid := b\<rparr>) = port_view sm" "port_view (sm\<lparr>unicast_key_received := b\<rparr>) = port_view sm"
  "port_view (sm\<lparr>broadcast_key_received := b\<rparr>) = port_view sm"
  "port_view (sm\<lparr>replay_counter_valid := b, last_replay_counter := l\<rparr>) = port_view sm"
  "port_view (sm\<lparr>suppAbort := b, authWhile := n\<rparr>) = port_view sm"
  "port_view (sm\<lparr>last_rx_key := k, eapReqData := r\<rparr>) = port_view sm"
  by (simp_all add: port_view_def)

lemma port_view_install [port_frames]: "port_view (process_install C f k sm) = port_view sm"
  by (simp add: process_install_def Let_def emit_def port_view_def split: option.split)

lemma port_view_processKey [port_frames]: "port_view (eapol_sm_processKey C sm) = port_view sm"
  by (simp add: eapol_sm_processKey_def Let_def notify_lower_layer_success_in_sm_def port_frames
      split: option.split prod.split)

lemma port_view_key_rx [port_frames]: "port_view (KEY_RX_Step C sm) = port_view sm"
  by (simp add: KEY_RX_Step_def KEY_RX_NO_KEY_RECEIVE_Enter_def KEY_RX_KEY_RECEIVE_Enter_def Let_def
      port_frames port_view_fields split: key_rx_state.split)
    (simp add: KEY_RX_ENTRY_def port_view_def)


lemma port_view_be [port_frames]: "port_view (SUPP_BE_Step C sm) = port_view sm"
proof -
  have entry: "port_view (BE_ENTRY g s sm) = port_view sm" for g s and sm :: "'e eapol_sm"
    by (simp add: BE_ENTRY_def port_view_def)
  have local: "port_view (BE_local C s sm) = port_view sm" for s
    by (cases s) (simp_all add: port_frames entry port_view_fields SUPP_BE_REQUEST_Enter_def
        SUPP_BE_RESPONSE_Enter_def SUPP_BE_SUCCESS_Enter_def SUPP_BE_FAIL_Enter_def SUPP_BE_TIMEOUT_Enter_def
        SUPP_BE_IDLE_Enter_def SUPP_BE_RECEIVE_Enter_def Let_def eapol_sm_txSuppRsp_def
        split: option.split prod.split,
        (simp_all add: BE_ENTRY_def port_view_def eapol_enable_timer_tick_def Let_def bump_def emit_def)?)
  show ?thesis
    by (simp add: SUPP_BE_Step_def SUPP_BE_INITIALIZE_Enter_def eapol_sm_abortSupp_def Let_def local
        port_frames entry port_view_fields)
qed

lemma port_view_peer [port_frames]: "port_view (run_peer C sm) = port_view sm"
  by (simp add: run_peer_def Let_def port_frames port_view_fields split: prod.split)

section \<open>The invariant of the port\<close>

definition open_states :: "pae_state set" where
  "open_states = {SUPP_PAE_CONNECTING, SUPP_PAE_AUTHENTICATING, SUPP_PAE_AUTHENTICATED, SUPP_PAE_RESTART,
     SUPP_PAE_S_FORCE_AUTH}"

definition port_ok :: "'e eapol_ctx \<Rightarrow> 'e eapol_sm \<Rightarrow> bool" where
  "port_ok C sm \<longleftrightarrow>
     (suppPortStatus sm = Authorized \<longrightarrow> SUPP_PAE_state sm \<in> open_states) \<and>
     (SUPP_PAE_state sm \<in> {SUPP_PAE_AUTHENTICATED, SUPP_PAE_S_FORCE_AUTH} \<longrightarrow> suppPortStatus sm = Authorized) \<and>
     (has_port_cb C \<longrightarrow> driver_port (outs sm) = Some (suppPortStatus sm = Authorized))"

lemma port_ok_cong: "port_view a = port_view b \<Longrightarrow> port_ok C a \<longleftrightarrow> port_ok C b"
  by (simp add: port_ok_def port_view_def)

lemma port_ok_fields [simp]:
  "port_ok C (sm\<lparr>authWhile := x_authWhile\<rparr>) = port_ok C sm" "port_ok C (sm\<lparr>heldWhile := x_heldWhile\<rparr>) = port_ok C sm"
  "port_ok C (sm\<lparr>startWhen := x_startWhen\<rparr>) = port_ok C sm" "port_ok C (sm\<lparr>idleWhile := x_idleWhile\<rparr>) = port_ok C sm"
  "port_ok C (sm\<lparr>timer_tick_enabled := x_timer_tick_enabled\<rparr>) = port_ok C sm" "port_ok C (sm\<lparr>eapFail := x_eapFail\<rparr>) = port_ok C sm"
  "port_ok C (sm\<lparr>eapolEap := x_eapolEap\<rparr>) = port_ok C sm" "port_ok C (sm\<lparr>eapSuccess := x_eapSuccess\<rparr>) = port_ok C sm"
  "port_ok C (sm\<lparr>initialize := x_initialize\<rparr>) = port_ok C sm" "port_ok C (sm\<lparr>keyDone := x_keyDone\<rparr>) = port_ok C sm"
  "port_ok C (sm\<lparr>keyRun := x_keyRun\<rparr>) = port_ok C sm" "port_ok C (sm\<lparr>portControl := x_portControl\<rparr>) = port_ok C sm"
  "port_ok C (sm\<lparr>portEnabled := x_portEnabled\<rparr>) = port_ok C sm" "port_ok C (sm\<lparr>portValid := x_portValid\<rparr>) = port_ok C sm"
  "port_ok C (sm\<lparr>suppAbort := x_suppAbort\<rparr>) = port_ok C sm" "port_ok C (sm\<lparr>suppFail := x_suppFail\<rparr>) = port_ok C sm"
  "port_ok C (sm\<lparr>suppStart := x_suppStart\<rparr>) = port_ok C sm" "port_ok C (sm\<lparr>suppSuccess := x_suppSuccess\<rparr>) = port_ok C sm"
  "port_ok C (sm\<lparr>suppTimeout := x_suppTimeout\<rparr>) = port_ok C sm" "port_ok C (sm\<lparr>userLogoff := x_userLogoff\<rparr>) = port_ok C sm"
  "port_ok C (sm\<lparr>logoffSent := x_logoffSent\<rparr>) = port_ok C sm" "port_ok C (sm\<lparr>startCount := x_startCount\<rparr>) = port_ok C sm"
  "port_ok C (sm\<lparr>eapRestart := x_eapRestart\<rparr>) = port_ok C sm" "port_ok C (sm\<lparr>sPortMode := x_sPortMode\<rparr>) = port_ok C sm"
  "port_ok C (sm\<lparr>heldPeriod := x_heldPeriod\<rparr>) = port_ok C sm" "port_ok C (sm\<lparr>startPeriod := x_startPeriod\<rparr>) = port_ok C sm"
  "port_ok C (sm\<lparr>maxStart := x_maxStart\<rparr>) = port_ok C sm" "port_ok C (sm\<lparr>KEY_RX_state := x_KEY_RX_state\<rparr>) = port_ok C sm"
  "port_ok C (sm\<lparr>rxKey := x_rxKey\<rparr>) = port_ok C sm" "port_ok C (sm\<lparr>SUPP_BE_state := x_SUPP_BE_state\<rparr>) = port_ok C sm"
  "port_ok C (sm\<lparr>eapNoResp := x_eapNoResp\<rparr>) = port_ok C sm" "port_ok C (sm\<lparr>eapReq := x_eapReq\<rparr>) = port_ok C sm"
  "port_ok C (sm\<lparr>eapResp := x_eapResp\<rparr>) = port_ok C sm" "port_ok C (sm\<lparr>authPeriod := x_authPeriod\<rparr>) = port_ok C sm"
  "port_ok C (sm\<lparr>stats := x_stats\<rparr>) = port_ok C sm" "port_ok C (sm\<lparr>changed := x_changed\<rparr>) = port_ok C sm"
  "port_ok C (sm\<lparr>eap := x_eap\<rparr>) = port_ok C sm" "port_ok C (sm\<lparr>initial_req := x_initial_req\<rparr>) = port_ok C sm"
  "port_ok C (sm\<lparr>last_rx_key := x_last_rx_key\<rparr>) = port_ok C sm" "port_ok C (sm\<lparr>eapReqData := x_eapReqData\<rparr>) = port_ok C sm"
  "port_ok C (sm\<lparr>altAccept := x_altAccept\<rparr>) = port_ok C sm" "port_ok C (sm\<lparr>altReject := x_altReject\<rparr>) = port_ok C sm"
  "port_ok C (sm\<lparr>eapTriggerStart := x_eapTriggerStart\<rparr>) = port_ok C sm" "port_ok C (sm\<lparr>replay_counter_valid := x_replay_counter_valid\<rparr>) = port_ok C sm"
  "port_ok C (sm\<lparr>last_replay_counter := x_last_replay_counter\<rparr>) = port_ok C sm" "port_ok C (sm\<lparr>conf := x_conf\<rparr>) = port_ok C sm"
  "port_ok C (sm\<lparr>cb_status := x_cb_status\<rparr>) = port_ok C sm" "port_ok C (sm\<lparr>cached_pmk := x_cached_pmk\<rparr>) = port_ok C sm"
  "port_ok C (sm\<lparr>unicast_key_received := x_unicast_key_received\<rparr>) = port_ok C sm" "port_ok C (sm\<lparr>broadcast_key_received := x_broadcast_key_received\<rparr>) = port_ok C sm"
  "port_ok C (sm\<lparr>force_authorized_update := x_force_authorized_update\<rparr>) = port_ok C sm" "port_ok C (sm\<lparr>ticks := x_ticks\<rparr>) = port_ok C sm"
  "port_ok C (sm\<lparr>steps := x_steps\<rparr>) = port_ok C sm"
  by (simp_all add: port_ok_def)

named_theorems eapol_enters \<open>the state functions, unfolded\<close>

lemmas [eapol_enters] = SUPP_PAE_LOGOFF_Enter_def SUPP_PAE_DISCONNECTED_Enter_def SUPP_PAE_CONNECTING_Enter_def
  SUPP_PAE_AUTHENTICATING_Enter_def SUPP_PAE_HELD_Enter_def SUPP_PAE_AUTHENTICATED_Enter_def
  SUPP_PAE_RESTART_Enter_def SUPP_PAE_S_FORCE_AUTH_Enter_def SUPP_PAE_S_FORCE_UNAUTH_Enter_def PAE_ENTRY_def
  set_port_def eapol_sm_txLogoff_def eapol_sm_txStart_def eapol_enable_timer_tick_def bump_def emit_def Let_def

lemma port_ok_enters [inv_intros]:
  assumes "port_ok C sm"
  shows "port_ok C (SUPP_PAE_LOGOFF_Enter C g sm)" "port_ok C (SUPP_PAE_DISCONNECTED_Enter C g sm)"
    "port_ok C (SUPP_PAE_HELD_Enter C g sm)" "port_ok C (SUPP_PAE_AUTHENTICATED_Enter C g sm)"
    "port_ok C (SUPP_PAE_S_FORCE_AUTH_Enter C g sm)" "port_ok C (SUPP_PAE_S_FORCE_UNAUTH_Enter C g sm)"
    "port_ok C (SUPP_PAE_CONNECTING_Enter C g sm)" "port_ok C (SUPP_PAE_AUTHENTICATING_Enter g sm)"
    "port_ok C (SUPP_PAE_RESTART_Enter g sm)"
  using assms by (auto simp: port_ok_def eapol_enters open_states_def)

lemma port_ok_plaintext [inv_intros]: "port_ok C sm \<Longrightarrow> port_ok C (plaintext_valid C sm)"
  by (simp add: port_ok_def plaintext_valid_def Let_def emit_def)

lemma port_ok_local [inv_intros]: "port_ok C sm \<Longrightarrow> port_ok C (PAE_local C s sm)"
  by (cases s) (simp_all add: inv_intros Let_def)

lemma port_ok_pae [inv_intros]: "port_ok C sm \<Longrightarrow> port_ok C (SUPP_PAE_Step C sm)"
  by (simp add: SUPP_PAE_Step_def inv_intros)

lemma port_view_round: "port_view (eapol_round C sm) = port_view (SUPP_PAE_Step C (sm\<lparr>changed := False\<rparr>))"
  by (simp add: eapol_round_def port_frames)

lemma port_ok_round [inv_intros]: "port_ok C sm \<Longrightarrow> port_ok C (eapol_round C sm)"
  unfolding port_ok_cong [OF port_view_round] by (intro port_ok_pae) simp

lemma port_ok_loop [inv_intros]: "port_ok C sm \<Longrightarrow> port_ok C (step_loop C n sm)"
  by (induction n arbitrary: sm) (simp_all add: Let_def inv_intros)

lemma port_view_step: "port_view (eapol_sm_step C sm) = port_view (step_loop C 100 sm)"
  by (simp add: eapol_sm_step_def Let_def port_frames) (simp add: port_view_def)

lemma port_ok_step [inv_intros]: "port_ok C sm \<Longrightarrow> port_ok C (eapol_sm_step C sm)"
  unfolding port_ok_cong [OF port_view_step] by (rule port_ok_loop)

lemma port_ok_abort_cached [inv_intros]: "port_ok C sm \<Longrightarrow> port_ok C (eapol_sm_abort_cached C sm)"
  by (auto simp: port_ok_def eapol_sm_abort_cached_def eapol_enters)

lemma port_ok_rx [inv_intros]:
  assumes "port_ok C sm"
  shows "port_ok C (snd (eapol_sm_rx_eapol C src buf sm))"
proof -
  have bump: "port_ok C (bump f sm) \<longleftrightarrow> port_ok C sm" for f and sm :: "'a eapol_sm"
    by (simp add: port_ok_cong [OF port_view_bump])
  have eap: "port_ok C (rx_eap_packet C buf n sm)" if "port_ok C sm" for n and sm :: "'a eapol_sm"
    using that by (simp add: rx_eap_packet_def Let_def inv_intros)
  have key: "port_ok C (snd (rx_eapol_key C buf n sm))" if "port_ok C sm" for n and sm :: "'a eapol_sm"
    using that by (simp add: rx_eapol_key_def inv_intros)
  show ?thesis
    using assms by (simp add: eapol_sm_rx_eapol_def Let_def bump eap key)
qed


lemmas eapol_handlers = eapol_sm_notify_tx_eapol_key_def eapol_sm_notify_portEnabled_def
  eapol_sm_notify_portValid_def eapol_sm_notify_eap_success_def eapol_sm_notify_eap_fail_def
  eapol_sm_notify_logoff_def eapol_sm_notify_cached_def eapol_sm_notify_pmkid_attempt_def
  eapol_sm_notify_portControl_def eapol_sm_notify_ctrl_response_def eapol_sm_notify_pending_def
  eapol_sm_request_reauth_def eapol_sm_notify_lower_layer_success_def notify_lower_layer_success_in_sm_def
  eapol_sm_invalidate_cached_session_def eapol_port_timers_tick_def eapol_sm_step_timeout_def
  eapol_sm_notify_config_def eapol_sm_configure_def

lemma port_ok_frames [simp]:
  "port_ok C (bump f sm) = port_ok C sm" "port_ok C (eapol_sm_txStart sm) = port_ok C sm"
  "port_ok C (eap_result C r sm) = port_ok C sm"
  by (rule port_ok_cong port_view_bump port_view_sends port_view_result)+

lemma port_ok_handle: "port_ok C sm \<Longrightarrow> port_ok C (eapol_handle C ev sm)"
  by (cases ev) (auto simp: eapol_handlers inv_intros Let_def split: option.split)

lemma port_ok_init: "eapol_sm_init C e = Some sm \<Longrightarrow> port_ok C sm"
proof -
  assume init: "eapol_sm_init C e = Some sm"
  let ?z = "\<lambda>e. (zalloc_sm e)\<lparr>portControl := Auto, heldPeriod := 60, startPeriod := 30, maxStart := 3,
       authPeriod := 30, force_authorized_update := True, initialize := True\<rparr>"
  have "port_ok C (SUPP_PAE_Step C ((?z e)\<lparr>changed := False\<rparr>))" for e
    by (simp add: SUPP_PAE_Step_def zalloc_sm_def port_ok_def open_states_def eapol_enters)
  then have "port_ok C (eapol_round C (?z e))" for e
    unfolding port_ok_cong [OF port_view_round] .
  then have "port_ok C (step_loop C 100 (?z e))" for e
    using step_loop.simps(2) [of C 99 "?z e"] by (simp add: Let_def port_ok_loop del: step_loop.simps)
  then have "port_ok C (eapol_sm_step C (?z e))" for e
    unfolding port_ok_cong [OF port_view_step] .
  with init show ?thesis by (auto simp: eapol_sm_init_def Let_def inv_intros split: option.splits if_splits)
qed

lemma port_ok_reachable: "eapol_reachable C sm \<Longrightarrow> port_ok C sm"
  by (induction rule: eapol_reachable.induct) (auto simp: port_ok_init port_ok_handle elim!: eapol_transE)

end
