(* ===== verification/Eapol_Timers.thy ===== *)
theory Eapol_Timers
  imports Eapol_Port
begin

text \<open>
  What \<open>eapol_supp_sm.c\<close> needs of the EAP peer, as the locale \<open>eap_peer_contract\<close>, and what follows
  from it: a disabled port stays closed and silent, and the timer tick is always registered exactly
  once while a timer is running.
\<close>

section \<open>The contract with the EAP peer\<close>

locale eap_peer_contract =
  fixes P :: "'e eap_peer"
  assumes step_port: "eap_peer_sm_step P e v = (e', cs, ch) \<Longrightarrow> Set_Bool EAPOL_portEnabled b \<notin> set cs"
    and step_disabled: "eap_peer_sm_step P e v = (e', cs, ch) \<Longrightarrow> \<not> vbool v EAPOL_portEnabled \<Longrightarrow>
      Set_Int EAPOL_idleWhile n \<in> set cs \<Longrightarrow> n = 0"
    and abort_calls: "set (snd (eap_sm_abort P e)) \<subseteq> {Set_Bool EAPOL_eapSuccess False}"
    and lower_calls: "set (snd (eap_notify_lower_layer_success P e v)) \<subseteq> {Set_Bool EAPOL_eapSuccess True}"

section \<open>A disabled port\<close>

definition frames_sent :: "eapol_out list \<Rightarrow> (u8 \<times> u8 list) list" where
  "frames_sent os = concat (map (\<lambda>x. case x of Eapol_Send ty d \<Rightarrow> [(ty, d)] | _ \<Rightarrow> []) os)"

lemma frames_sent_simps [simp]:
  "frames_sent [] = []" "frames_sent (os @ ps) = frames_sent os @ frames_sent ps"
  "frames_sent (x # xs) = (case x of Eapol_Send ty d \<Rightarrow> (ty, d) # frames_sent xs | _ \<Rightarrow> frames_sent xs)"
  by (auto simp: frames_sent_def split: eapol_out.split)

text \<open>Closed since the frames \<open>fs\<close> were sent.\<close>

definition closed :: "(u8 \<times> u8 list) list \<Rightarrow> 'e eapol_sm \<Rightarrow> bool" where
  "closed fs sm \<longleftrightarrow> \<not> portEnabled sm \<and> suppPortStatus sm = Unauthorized \<and> frames_sent (outs sm) = fs"

lemma closed_fields [simp]:
  "closed fs (sm\<lparr>authWhile := x_authWhile\<rparr>) = closed fs sm" "closed fs (sm\<lparr>heldWhile := x_heldWhile\<rparr>) = closed fs sm"
  "closed fs (sm\<lparr>startWhen := x_startWhen\<rparr>) = closed fs sm" "closed fs (sm\<lparr>idleWhile := x_idleWhile\<rparr>) = closed fs sm"
  "closed fs (sm\<lparr>timer_tick_enabled := x_timer_tick_enabled\<rparr>) = closed fs sm" "closed fs (sm\<lparr>eapFail := x_eapFail\<rparr>) = closed fs sm"
  "closed fs (sm\<lparr>eapolEap := x_eapolEap\<rparr>) = closed fs sm" "closed fs (sm\<lparr>eapSuccess := x_eapSuccess\<rparr>) = closed fs sm"
  "closed fs (sm\<lparr>initialize := x_initialize\<rparr>) = closed fs sm" "closed fs (sm\<lparr>keyDone := x_keyDone\<rparr>) = closed fs sm"
  "closed fs (sm\<lparr>keyRun := x_keyRun\<rparr>) = closed fs sm" "closed fs (sm\<lparr>portControl := x_portControl\<rparr>) = closed fs sm"
  "closed fs (sm\<lparr>portValid := x_portValid\<rparr>) = closed fs sm" "closed fs (sm\<lparr>suppAbort := x_suppAbort\<rparr>) = closed fs sm"
  "closed fs (sm\<lparr>suppFail := x_suppFail\<rparr>) = closed fs sm" "closed fs (sm\<lparr>suppStart := x_suppStart\<rparr>) = closed fs sm"
  "closed fs (sm\<lparr>suppSuccess := x_suppSuccess\<rparr>) = closed fs sm" "closed fs (sm\<lparr>suppTimeout := x_suppTimeout\<rparr>) = closed fs sm"
  "closed fs (sm\<lparr>SUPP_PAE_state := x_SUPP_PAE_state\<rparr>) = closed fs sm" "closed fs (sm\<lparr>userLogoff := x_userLogoff\<rparr>) = closed fs sm"
  "closed fs (sm\<lparr>logoffSent := x_logoffSent\<rparr>) = closed fs sm" "closed fs (sm\<lparr>startCount := x_startCount\<rparr>) = closed fs sm"
  "closed fs (sm\<lparr>eapRestart := x_eapRestart\<rparr>) = closed fs sm" "closed fs (sm\<lparr>sPortMode := x_sPortMode\<rparr>) = closed fs sm"
  "closed fs (sm\<lparr>heldPeriod := x_heldPeriod\<rparr>) = closed fs sm" "closed fs (sm\<lparr>startPeriod := x_startPeriod\<rparr>) = closed fs sm"
  "closed fs (sm\<lparr>maxStart := x_maxStart\<rparr>) = closed fs sm" "closed fs (sm\<lparr>KEY_RX_state := x_KEY_RX_state\<rparr>) = closed fs sm"
  "closed fs (sm\<lparr>rxKey := x_rxKey\<rparr>) = closed fs sm" "closed fs (sm\<lparr>SUPP_BE_state := x_SUPP_BE_state\<rparr>) = closed fs sm"
  "closed fs (sm\<lparr>eapNoResp := x_eapNoResp\<rparr>) = closed fs sm" "closed fs (sm\<lparr>eapReq := x_eapReq\<rparr>) = closed fs sm"
  "closed fs (sm\<lparr>eapResp := x_eapResp\<rparr>) = closed fs sm" "closed fs (sm\<lparr>authPeriod := x_authPeriod\<rparr>) = closed fs sm"
  "closed fs (sm\<lparr>stats := x_stats\<rparr>) = closed fs sm" "closed fs (sm\<lparr>changed := x_changed\<rparr>) = closed fs sm"
  "closed fs (sm\<lparr>eap := x_eap\<rparr>) = closed fs sm" "closed fs (sm\<lparr>initial_req := x_initial_req\<rparr>) = closed fs sm"
  "closed fs (sm\<lparr>last_rx_key := x_last_rx_key\<rparr>) = closed fs sm" "closed fs (sm\<lparr>eapReqData := x_eapReqData\<rparr>) = closed fs sm"
  "closed fs (sm\<lparr>altAccept := x_altAccept\<rparr>) = closed fs sm" "closed fs (sm\<lparr>altReject := x_altReject\<rparr>) = closed fs sm"
  "closed fs (sm\<lparr>eapTriggerStart := x_eapTriggerStart\<rparr>) = closed fs sm" "closed fs (sm\<lparr>replay_counter_valid := x_replay_counter_valid\<rparr>) = closed fs sm"
  "closed fs (sm\<lparr>last_replay_counter := x_last_replay_counter\<rparr>) = closed fs sm" "closed fs (sm\<lparr>conf := x_conf\<rparr>) = closed fs sm"
  "closed fs (sm\<lparr>cb_status := x_cb_status\<rparr>) = closed fs sm" "closed fs (sm\<lparr>cached_pmk := x_cached_pmk\<rparr>) = closed fs sm"
  "closed fs (sm\<lparr>unicast_key_received := x_unicast_key_received\<rparr>) = closed fs sm" "closed fs (sm\<lparr>broadcast_key_received := x_broadcast_key_received\<rparr>) = closed fs sm"
  "closed fs (sm\<lparr>force_authorized_update := x_force_authorized_update\<rparr>) = closed fs sm" "closed fs (sm\<lparr>ticks := x_ticks\<rparr>) = closed fs sm"
  "closed fs (sm\<lparr>steps := x_steps\<rparr>) = closed fs sm"
  by (simp_all add: closed_def)

lemma closed_calls:
  "\<forall>b. Set_Bool EAPOL_portEnabled b \<notin> set cs \<Longrightarrow>
   closed fs (fold (eap_callback C) cs sm) = closed fs sm"
proof (induction cs arbitrary: sm)
  case (Cons c cs)
  have "closed fs (eap_callback C c sm) = closed fs sm"
  proof (cases c)
    case (Set_Bool v b)
    with Cons.prems show ?thesis by (cases v) auto
  next
    case (Set_Int v n)
    then show ?thesis by (cases v) (simp_all add: Let_def eapol_enable_timer_tick_def)
  qed
  with Cons show ?case by auto
qed simp

lemma suppAbort_calls [simp]: "suppAbort (fold (eap_callback C) cs sm) = suppAbort sm"
proof (induction cs arbitrary: sm)
  case (Cons c cs)
  have "suppAbort (eap_callback C c sm) = suppAbort sm"
  proof (cases c)
    case (Set_Bool v b)
    then show ?thesis by (cases v) simp_all
  next
    case (Set_Int v n)
    then show ?thesis by (cases v) (simp_all add: Let_def eapol_enable_timer_tick_def)
  qed
  with Cons show ?case by simp
qed simp

lemma closed_pae:
  assumes "\<not> portEnabled sm" and "frames_sent (outs sm) = fs"
  shows "closed fs (SUPP_PAE_Step C sm)" "suppAbort (SUPP_PAE_Step C sm)"
    "SUPP_PAE_state (SUPP_PAE_Step C sm) = SUPP_PAE_DISCONNECTED"
  using assms by (simp_all add: SUPP_PAE_Step_def closed_def eapol_enters)

context eap_peer_contract
begin

lemma no_port_calls:
  "Set_Bool EAPOL_portEnabled b \<notin> set (fst (snd (eap_peer_sm_step P e v)))"
  "Set_Bool EAPOL_portEnabled b \<notin> set (snd (eap_sm_abort P e))"
  "Set_Bool EAPOL_portEnabled b \<notin> set (snd (eap_notify_lower_layer_success P e v))"
  using step_port [of e v _ _ _ b] abort_calls [of e] lower_calls [of e v] by (auto simp: prod_eq_iff)

lemma closed_results:
  "closed fs (eap_result C (eap_sm_abort P e) sm) = closed fs sm"
  "closed fs (eap_result C (eap_notify_lower_layer_success P e v) sm) = closed fs sm"
  by (simp_all add: eap_result_def closed_calls no_port_calls)

lemma closed_install: "closed fs (process_install C f k sm) = closed fs sm"
  by (simp add: process_install_def Let_def emit_def) (simp add: closed_def)

lemma closed_processKey: "peer C = P \<Longrightarrow> closed fs (eapol_sm_processKey C sm) = closed fs sm"
  by (simp add: eapol_sm_processKey_def Let_def notify_lower_layer_success_in_sm_def closed_results closed_install
      split: option.split prod.split)

lemma abort_processKey: "suppAbort (eapol_sm_processKey C sm) = suppAbort sm"
  by (simp add: eapol_sm_processKey_def Let_def notify_lower_layer_success_in_sm_def eap_result_def
      process_install_def emit_def split: option.split prod.split)

lemma closed_key_rx:
  "peer C = P \<Longrightarrow> closed fs (KEY_RX_Step C sm) = closed fs sm"
  "suppAbort (KEY_RX_Step C sm) = suppAbort sm"
  by (simp_all add: KEY_RX_Step_def KEY_RX_NO_KEY_RECEIVE_Enter_def KEY_RX_KEY_RECEIVE_Enter_def KEY_RX_ENTRY_def
      Let_def closed_processKey abort_processKey split: key_rx_state.split)

lemma closed_be: "peer C = P \<Longrightarrow> suppAbort sm \<Longrightarrow> closed fs (SUPP_BE_Step C sm) = closed fs sm"
  by (simp add: SUPP_BE_Step_def SUPP_BE_INITIALIZE_Enter_def BE_ENTRY_def eapol_sm_abortSupp_def Let_def
      closed_results)

lemma closed_peer: "peer C = P \<Longrightarrow> closed fs (run_peer C sm) = closed fs sm"
  using no_port_calls(1) [of _ "eap sm" "eapol_view sm"]
  by (cases "eap_peer_sm_step P (eap sm) (eapol_view sm)")
    (simp add: run_peer_def Let_def eap_result_def closed_calls)

lemma closed_round:
  assumes "peer C = P" "\<not> portEnabled sm" "frames_sent (outs sm) = fs"
  shows "closed fs (eapol_round C sm)"
  using assms closed_pae [of "sm\<lparr>changed := False\<rparr>" fs C]
  by (simp add: eapol_round_def closed_peer closed_be closed_key_rx)

lemma closed_loop:
  assumes "peer C = P" "\<not> portEnabled sm" "frames_sent (outs sm) = fs"
  shows "closed fs (step_loop C (Suc n) sm)"
  using assms(2,3)
proof (induction n arbitrary: sm)
  case 0
  then show ?case using closed_round [OF assms(1)] by (simp add: Let_def)
next
  case (Suc n)
  let ?r = "eapol_round C sm"
  have r: "closed fs ?r" using Suc.prems by (rule closed_round [OF assms(1)])
  then have "closed fs (step_loop C (Suc n) ?r)" by (intro Suc.IH) (simp_all add: closed_def)
  with r show ?case by (subst step_loop.simps) (simp add: Let_def del: step_loop.simps)
qed

lemma closed_step:
  assumes "peer C = P" "\<not> portEnabled sm" "frames_sent (outs sm) = fs"
  shows "closed fs (eapol_sm_step C sm)"
proof -
  have "closed fs (step_loop C 100 sm)" using closed_loop [OF assms, of 99] by simp
  then show ?thesis by (simp add: eapol_sm_step_def Let_def emit_def del: step_loop.simps) (simp add: closed_def)
qed

lemma closed_step_again [inv_intros]: "peer C = P \<Longrightarrow> closed fs sm \<Longrightarrow> closed fs (eapol_sm_step C sm)"
  by (rule closed_step) (simp_all add: closed_def)

lemma closed_rx: 
  assumes "peer C = P" "closed fs sm"
  shows "closed fs (snd (eapol_sm_rx_eapol C src buf sm))"
proof -
  have "closed fs (eapol_sm_abort_cached C sm)" if "closed fs sm" for sm
    using that by (auto simp: closed_def eapol_sm_abort_cached_def eapol_enters)
  with assms show ?thesis
    by (simp add: eapol_sm_rx_eapol_def rx_eap_packet_def rx_eapol_key_def bump_def Let_def inv_intros)
qed

lemma closed_handle:
  assumes "peer C = P" "closed fs sm" "port_ok C sm" "ev \<noteq> Port_Enabled True"
  shows "closed fs (eapol_handle C ev sm)"
proof (cases ev)
  case Request_Reauth
  have "SUPP_PAE_state sm \<noteq> SUPP_PAE_AUTHENTICATED" using assms(2,3) by (auto simp: closed_def port_ok_def)
  with Request_Reauth assms(2) show ?thesis by (simp add: eapol_sm_request_reauth_def)
next
  case (Port_Enabled b)
  with assms have "closed fs (sm\<lparr>portEnabled := b\<rparr>)" "\<not> portEnabled sm" by (auto simp: closed_def)
  with Port_Enabled assms show ?thesis by (auto simp: eapol_sm_notify_portEnabled_def Let_def inv_intros)
qed (use assms in \<open>auto simp: eapol_handlers closed_rx closed_results inv_intros Let_def bump_def split: option.split\<close>)

lemma disabled_stays_closed:
  assumes "peer C = P" "port_ok C sm" "\<forall>ev\<in>set evs. ev \<noteq> Port_Enabled True"
  shows "closed (frames_sent (outs sm)) (fold (eapol_handle C) (Port_Enabled False # evs) sm) \<and>
    port_ok C (fold (eapol_handle C) (Port_Enabled False # evs) sm)"
proof -
  have first: "closed (frames_sent (outs sm)) (eapol_handle C (Port_Enabled False) sm)"
    using assms(1) by (simp add: eapol_sm_notify_portEnabled_def Let_def closed_step)
  have "closed fs (fold (eapol_handle C) evs t) \<and> port_ok C (fold (eapol_handle C) evs t)"
    if "closed fs t" "port_ok C t" for fs t
    using that assms(3)
  proof (induction evs arbitrary: t)
    case (Cons ev evs)
    then show ?case by (simp add: closed_handle [OF assms(1)] port_ok_handle)
  qed simp
  from this [OF first port_ok_handle [OF assms(2)]] show ?thesis by simp
qed

end

section \<open>The timer tick\<close>

definition tick_ok :: "'e eapol_sm \<Rightarrow> bool" where
  "tick_ok sm \<longleftrightarrow> ticks sm = (if timer_tick_enabled sm then 1 else 0)"

definition timers_ok :: "'e eapol_sm \<Rightarrow> bool" where
  "timers_ok sm \<longleftrightarrow> tick_ok sm \<and> (timers_running sm \<longrightarrow> timer_tick_enabled sm)"

lemma timers_running_iff:
  "timers_running sm \<longleftrightarrow> authWhile sm \<noteq> 0 \<or> heldWhile sm \<noteq> 0 \<or> startWhen sm \<noteq> 0 \<or> idleWhile sm \<noteq> 0"
  by (auto simp: timers_running_def or_eq_0_iff)

lemma timers_ok_fields [simp]:
  "timers_ok (sm\<lparr>eapFail := x_eapFail\<rparr>) = timers_ok sm" "timers_ok (sm\<lparr>eapolEap := x_eapolEap\<rparr>) = timers_ok sm"
  "timers_ok (sm\<lparr>eapSuccess := x_eapSuccess\<rparr>) = timers_ok sm" "timers_ok (sm\<lparr>initialize := x_initialize\<rparr>) = timers_ok sm"
  "timers_ok (sm\<lparr>keyDone := x_keyDone\<rparr>) = timers_ok sm" "timers_ok (sm\<lparr>keyRun := x_keyRun\<rparr>) = timers_ok sm"
  "timers_ok (sm\<lparr>portControl := x_portControl\<rparr>) = timers_ok sm" "timers_ok (sm\<lparr>portEnabled := x_portEnabled\<rparr>) = timers_ok sm"
  "timers_ok (sm\<lparr>suppPortStatus := x_suppPortStatus\<rparr>) = timers_ok sm" "timers_ok (sm\<lparr>portValid := x_portValid\<rparr>) = timers_ok sm"
  "timers_ok (sm\<lparr>suppAbort := x_suppAbort\<rparr>) = timers_ok sm" "timers_ok (sm\<lparr>suppFail := x_suppFail\<rparr>) = timers_ok sm"
  "timers_ok (sm\<lparr>suppStart := x_suppStart\<rparr>) = timers_ok sm" "timers_ok (sm\<lparr>suppSuccess := x_suppSuccess\<rparr>) = timers_ok sm"
  "timers_ok (sm\<lparr>suppTimeout := x_suppTimeout\<rparr>) = timers_ok sm" "timers_ok (sm\<lparr>SUPP_PAE_state := x_SUPP_PAE_state\<rparr>) = timers_ok sm"
  "timers_ok (sm\<lparr>userLogoff := x_userLogoff\<rparr>) = timers_ok sm" "timers_ok (sm\<lparr>logoffSent := x_logoffSent\<rparr>) = timers_ok sm"
  "timers_ok (sm\<lparr>startCount := x_startCount\<rparr>) = timers_ok sm" "timers_ok (sm\<lparr>eapRestart := x_eapRestart\<rparr>) = timers_ok sm"
  "timers_ok (sm\<lparr>sPortMode := x_sPortMode\<rparr>) = timers_ok sm" "timers_ok (sm\<lparr>heldPeriod := x_heldPeriod\<rparr>) = timers_ok sm"
  "timers_ok (sm\<lparr>startPeriod := x_startPeriod\<rparr>) = timers_ok sm" "timers_ok (sm\<lparr>maxStart := x_maxStart\<rparr>) = timers_ok sm"
  "timers_ok (sm\<lparr>KEY_RX_state := x_KEY_RX_state\<rparr>) = timers_ok sm" "timers_ok (sm\<lparr>rxKey := x_rxKey\<rparr>) = timers_ok sm"
  "timers_ok (sm\<lparr>SUPP_BE_state := x_SUPP_BE_state\<rparr>) = timers_ok sm" "timers_ok (sm\<lparr>eapNoResp := x_eapNoResp\<rparr>) = timers_ok sm"
  "timers_ok (sm\<lparr>eapReq := x_eapReq\<rparr>) = timers_ok sm" "timers_ok (sm\<lparr>eapResp := x_eapResp\<rparr>) = timers_ok sm"
  "timers_ok (sm\<lparr>authPeriod := x_authPeriod\<rparr>) = timers_ok sm" "timers_ok (sm\<lparr>stats := x_stats\<rparr>) = timers_ok sm"
  "timers_ok (sm\<lparr>changed := x_changed\<rparr>) = timers_ok sm" "timers_ok (sm\<lparr>eap := x_eap\<rparr>) = timers_ok sm"
  "timers_ok (sm\<lparr>initial_req := x_initial_req\<rparr>) = timers_ok sm" "timers_ok (sm\<lparr>last_rx_key := x_last_rx_key\<rparr>) = timers_ok sm"
  "timers_ok (sm\<lparr>eapReqData := x_eapReqData\<rparr>) = timers_ok sm" "timers_ok (sm\<lparr>altAccept := x_altAccept\<rparr>) = timers_ok sm"
  "timers_ok (sm\<lparr>altReject := x_altReject\<rparr>) = timers_ok sm" "timers_ok (sm\<lparr>eapTriggerStart := x_eapTriggerStart\<rparr>) = timers_ok sm"
  "timers_ok (sm\<lparr>replay_counter_valid := x_replay_counter_valid\<rparr>) = timers_ok sm" "timers_ok (sm\<lparr>last_replay_counter := x_last_replay_counter\<rparr>) = timers_ok sm"
  "timers_ok (sm\<lparr>conf := x_conf\<rparr>) = timers_ok sm" "timers_ok (sm\<lparr>cb_status := x_cb_status\<rparr>) = timers_ok sm"
  "timers_ok (sm\<lparr>cached_pmk := x_cached_pmk\<rparr>) = timers_ok sm" "timers_ok (sm\<lparr>unicast_key_received := x_unicast_key_received\<rparr>) = timers_ok sm"
  "timers_ok (sm\<lparr>broadcast_key_received := x_broadcast_key_received\<rparr>) = timers_ok sm" "timers_ok (sm\<lparr>force_authorized_update := x_force_authorized_update\<rparr>) = timers_ok sm"
  "timers_ok (sm\<lparr>outs := x_outs\<rparr>) = timers_ok sm" "timers_ok (sm\<lparr>steps := x_steps\<rparr>) = timers_ok sm"
  by (simp_all add: timers_ok_def tick_ok_def timers_running_iff)

lemma timers_ok_stop [inv_intros]:
  assumes "timers_ok sm"
  shows "timers_ok (sm\<lparr>authWhile := 0\<rparr>)" "timers_ok (sm\<lparr>heldWhile := 0\<rparr>)"
    "timers_ok (sm\<lparr>startWhen := 0\<rparr>)" "timers_ok (sm\<lparr>idleWhile := 0\<rparr>)"
  using assms by (auto simp: timers_ok_def tick_ok_def timers_running_iff)

lemma tick_ok_fields [simp]:
  "tick_ok (sm\<lparr>authWhile := x_authWhile\<rparr>) = tick_ok sm" "tick_ok (sm\<lparr>heldWhile := x_heldWhile\<rparr>) = tick_ok sm"
  "tick_ok (sm\<lparr>startWhen := x_startWhen\<rparr>) = tick_ok sm" "tick_ok (sm\<lparr>idleWhile := x_idleWhile\<rparr>) = tick_ok sm"
  "tick_ok (sm\<lparr>eapFail := x_eapFail\<rparr>) = tick_ok sm" "tick_ok (sm\<lparr>eapolEap := x_eapolEap\<rparr>) = tick_ok sm"
  "tick_ok (sm\<lparr>eapSuccess := x_eapSuccess\<rparr>) = tick_ok sm" "tick_ok (sm\<lparr>initialize := x_initialize\<rparr>) = tick_ok sm"
  "tick_ok (sm\<lparr>keyDone := x_keyDone\<rparr>) = tick_ok sm" "tick_ok (sm\<lparr>keyRun := x_keyRun\<rparr>) = tick_ok sm"
  "tick_ok (sm\<lparr>portControl := x_portControl\<rparr>) = tick_ok sm" "tick_ok (sm\<lparr>portEnabled := x_portEnabled\<rparr>) = tick_ok sm"
  "tick_ok (sm\<lparr>suppPortStatus := x_suppPortStatus\<rparr>) = tick_ok sm" "tick_ok (sm\<lparr>portValid := x_portValid\<rparr>) = tick_ok sm"
  "tick_ok (sm\<lparr>suppAbort := x_suppAbort\<rparr>) = tick_ok sm" "tick_ok (sm\<lparr>suppFail := x_suppFail\<rparr>) = tick_ok sm"
  "tick_ok (sm\<lparr>suppStart := x_suppStart\<rparr>) = tick_ok sm" "tick_ok (sm\<lparr>suppSuccess := x_suppSuccess\<rparr>) = tick_ok sm"
  "tick_ok (sm\<lparr>suppTimeout := x_suppTimeout\<rparr>) = tick_ok sm" "tick_ok (sm\<lparr>SUPP_PAE_state := x_SUPP_PAE_state\<rparr>) = tick_ok sm"
  "tick_ok (sm\<lparr>userLogoff := x_userLogoff\<rparr>) = tick_ok sm" "tick_ok (sm\<lparr>logoffSent := x_logoffSent\<rparr>) = tick_ok sm"
  "tick_ok (sm\<lparr>startCount := x_startCount\<rparr>) = tick_ok sm" "tick_ok (sm\<lparr>eapRestart := x_eapRestart\<rparr>) = tick_ok sm"
  "tick_ok (sm\<lparr>sPortMode := x_sPortMode\<rparr>) = tick_ok sm" "tick_ok (sm\<lparr>heldPeriod := x_heldPeriod\<rparr>) = tick_ok sm"
  "tick_ok (sm\<lparr>startPeriod := x_startPeriod\<rparr>) = tick_ok sm" "tick_ok (sm\<lparr>maxStart := x_maxStart\<rparr>) = tick_ok sm"
  "tick_ok (sm\<lparr>KEY_RX_state := x_KEY_RX_state\<rparr>) = tick_ok sm" "tick_ok (sm\<lparr>rxKey := x_rxKey\<rparr>) = tick_ok sm"
  "tick_ok (sm\<lparr>SUPP_BE_state := x_SUPP_BE_state\<rparr>) = tick_ok sm" "tick_ok (sm\<lparr>eapNoResp := x_eapNoResp\<rparr>) = tick_ok sm"
  "tick_ok (sm\<lparr>eapReq := x_eapReq\<rparr>) = tick_ok sm" "tick_ok (sm\<lparr>eapResp := x_eapResp\<rparr>) = tick_ok sm"
  "tick_ok (sm\<lparr>authPeriod := x_authPeriod\<rparr>) = tick_ok sm" "tick_ok (sm\<lparr>stats := x_stats\<rparr>) = tick_ok sm"
  "tick_ok (sm\<lparr>changed := x_changed\<rparr>) = tick_ok sm" "tick_ok (sm\<lparr>eap := x_eap\<rparr>) = tick_ok sm"
  "tick_ok (sm\<lparr>initial_req := x_initial_req\<rparr>) = tick_ok sm" "tick_ok (sm\<lparr>last_rx_key := x_last_rx_key\<rparr>) = tick_ok sm"
  "tick_ok (sm\<lparr>eapReqData := x_eapReqData\<rparr>) = tick_ok sm" "tick_ok (sm\<lparr>altAccept := x_altAccept\<rparr>) = tick_ok sm"
  "tick_ok (sm\<lparr>altReject := x_altReject\<rparr>) = tick_ok sm" "tick_ok (sm\<lparr>eapTriggerStart := x_eapTriggerStart\<rparr>) = tick_ok sm"
  "tick_ok (sm\<lparr>replay_counter_valid := x_replay_counter_valid\<rparr>) = tick_ok sm" "tick_ok (sm\<lparr>last_replay_counter := x_last_replay_counter\<rparr>) = tick_ok sm"
  "tick_ok (sm\<lparr>conf := x_conf\<rparr>) = tick_ok sm" "tick_ok (sm\<lparr>cb_status := x_cb_status\<rparr>) = tick_ok sm"
  "tick_ok (sm\<lparr>cached_pmk := x_cached_pmk\<rparr>) = tick_ok sm" "tick_ok (sm\<lparr>unicast_key_received := x_unicast_key_received\<rparr>) = tick_ok sm"
  "tick_ok (sm\<lparr>broadcast_key_received := x_broadcast_key_received\<rparr>) = tick_ok sm" "tick_ok (sm\<lparr>force_authorized_update := x_force_authorized_update\<rparr>) = tick_ok sm"
  "tick_ok (sm\<lparr>outs := x_outs\<rparr>) = tick_ok sm" "tick_ok (sm\<lparr>steps := x_steps\<rparr>) = tick_ok sm"
  by (simp_all add: tick_ok_def)

lemma timers_ok_enable [inv_intros]:
  "tick_ok sm \<Longrightarrow> eloop_register C \<Longrightarrow> timers_ok (eapol_enable_timer_tick C sm)"
  by (simp add: timers_ok_def tick_ok_def eapol_enable_timer_tick_def)

lemma timers_ok_tick [inv_intros]: "timers_ok sm \<Longrightarrow> tick_ok sm"
  by (simp add: timers_ok_def)

lemma timers_ok_outputs [simp]:
  "timers_ok (emit x sm) = timers_ok sm" "timers_ok (bump f sm) = timers_ok sm"
  "timers_ok (set_port C s sm) = timers_ok sm" "timers_ok (eapol_sm_txStart sm) = timers_ok sm"
  "timers_ok (eapol_sm_txLogoff sm) = timers_ok sm"
  by (simp_all add: emit_def bump_def set_port_def eapol_sm_txStart_def eapol_sm_txLogoff_def Let_def)

lemma timers_ok_calls [inv_intros]:
  "eloop_register C \<Longrightarrow> timers_ok sm \<Longrightarrow> timers_ok (fold (eap_callback C) cs sm)"
proof (induction cs arbitrary: sm)
  case (Cons c cs)
  have "timers_ok (eap_callback C c sm)"
  proof (cases c)
    case (Set_Bool v b)
    with Cons.prems show ?thesis by (cases v) simp_all
  next
    case (Set_Int v n)
    with Cons.prems show ?thesis
      by (cases v) (auto simp: Let_def inv_intros dest: timers_ok_stop(4) simp flip: word_neq_0_conv)
  qed
  with Cons show ?case by simp
qed simp

lemma timers_ok_result [inv_intros]:
  "eloop_register C \<Longrightarrow> timers_ok sm \<Longrightarrow> timers_ok (eap_result C r sm)"
  by (simp add: eap_result_def inv_intros)

lemma timers_ok_key_rx [inv_intros]:
  "eloop_register C \<Longrightarrow> timers_ok sm \<Longrightarrow> timers_ok (KEY_RX_Step C sm)"
  by (simp add: KEY_RX_Step_def KEY_RX_NO_KEY_RECEIVE_Enter_def KEY_RX_KEY_RECEIVE_Enter_def KEY_RX_ENTRY_def
      eapol_sm_processKey_def notify_lower_layer_success_in_sm_def process_install_def Let_def inv_intros
      split: key_rx_state.split option.split prod.split)

lemma timers_ok_be [inv_intros]:
  assumes "eloop_register C" "timers_ok sm"
  shows "timers_ok (SUPP_BE_Step C sm)"
proof -
  have "timers_ok (BE_local C s sm)" if "timers_ok sm" for s sm
    using that assms(1) by (cases s) (simp_all add: SUPP_BE_REQUEST_Enter_def
        SUPP_BE_RESPONSE_Enter_def SUPP_BE_SUCCESS_Enter_def SUPP_BE_FAIL_Enter_def SUPP_BE_TIMEOUT_Enter_def
        SUPP_BE_IDLE_Enter_def SUPP_BE_RECEIVE_Enter_def BE_ENTRY_def Let_def eapol_sm_txSuppRsp_def inv_intros
        split: option.split prod.split)
  with assms show ?thesis
    by (simp add: SUPP_BE_Step_def SUPP_BE_INITIALIZE_Enter_def BE_ENTRY_def eapol_sm_abortSupp_def Let_def
        inv_intros)
qed

lemma timers_ok_pae [inv_intros]:
  assumes "eloop_register C" "timers_ok sm"
  shows "timers_ok (SUPP_PAE_Step C sm)"
proof -
  have enters: "timers_ok (SUPP_PAE_LOGOFF_Enter C g sm)" "timers_ok (SUPP_PAE_DISCONNECTED_Enter C g sm)"
    "timers_ok (SUPP_PAE_HELD_Enter C g sm)" "timers_ok (SUPP_PAE_AUTHENTICATED_Enter C g sm)"
    "timers_ok (SUPP_PAE_S_FORCE_AUTH_Enter C g sm)" "timers_ok (SUPP_PAE_S_FORCE_UNAUTH_Enter C g sm)"
    "timers_ok (SUPP_PAE_CONNECTING_Enter C g sm)" "timers_ok (SUPP_PAE_AUTHENTICATING_Enter g sm)"
    "timers_ok (SUPP_PAE_RESTART_Enter g sm)"
    if "timers_ok sm" for g sm
    using that assms(1) by (simp_all add: SUPP_PAE_LOGOFF_Enter_def SUPP_PAE_DISCONNECTED_Enter_def
        SUPP_PAE_CONNECTING_Enter_def SUPP_PAE_AUTHENTICATING_Enter_def SUPP_PAE_HELD_Enter_def
        SUPP_PAE_AUTHENTICATED_Enter_def SUPP_PAE_RESTART_Enter_def SUPP_PAE_S_FORCE_AUTH_Enter_def
        SUPP_PAE_S_FORCE_UNAUTH_Enter_def PAE_ENTRY_def Let_def inv_intros)
  have "timers_ok (plaintext_valid C sm)" if "timers_ok sm" for sm
    using that by (simp add: plaintext_valid_def Let_def)
  then have "timers_ok (PAE_local C s sm)" if "timers_ok sm" for s sm
    using that by (cases s) (simp_all add: enters Let_def)
  with assms enters show ?thesis by (simp add: SUPP_PAE_Step_def)
qed

lemma timers_ok_peer [inv_intros]: "eloop_register C \<Longrightarrow> timers_ok sm \<Longrightarrow> timers_ok (run_peer C sm)"
  by (simp add: run_peer_def Let_def inv_intros split: prod.split)

lemma timers_ok_round [inv_intros]: "eloop_register C \<Longrightarrow> timers_ok sm \<Longrightarrow> timers_ok (eapol_round C sm)"
  by (simp add: eapol_round_def inv_intros)

lemma timers_ok_loop [inv_intros]: "eloop_register C \<Longrightarrow> timers_ok sm \<Longrightarrow> timers_ok (step_loop C n sm)"
  by (induction n arbitrary: sm) (simp_all add: Let_def inv_intros)

lemma timers_ok_step [inv_intros]: "eloop_register C \<Longrightarrow> timers_ok sm \<Longrightarrow> timers_ok (eapol_sm_step C sm)"
  by (simp add: eapol_sm_step_def Let_def inv_intros)

lemma timers_ok_tick_handler [inv_intros]:
  assumes "eloop_register C" "timers_ok sm" "ticks sm > 0"
  shows "timers_ok (eapol_port_timers_tick C sm)"
proof -
  have "timer_tick_enabled sm" "ticks sm = 1"
    using assms(2,3) by (auto simp: timers_ok_def tick_ok_def split: if_splits)
  then have "timers_ok (let sm = sm\<lparr>authWhile := count_down (authWhile sm), heldWhile := count_down (heldWhile sm),
                  startWhen := count_down (startWhen sm), idleWhile := count_down (idleWhile sm),
                  ticks := ticks sm - 1\<rparr>
      in if timers_running sm then
                  if eloop_register C then sm\<lparr>ticks := ticks sm + 1\<rparr> else sm\<lparr>timer_tick_enabled := False\<rparr>
                else sm\<lparr>timer_tick_enabled := False\<rparr>)"
    using assms(1) by (simp add: Let_def timers_ok_def tick_ok_def timers_running_iff)
  then show ?thesis
    using assms(1) unfolding eapol_port_timers_tick_def Let_def by (intro timers_ok_step)
qed

lemma timers_ok_rx [inv_intros]:
  assumes "eloop_register C" "timers_ok sm"
  shows "timers_ok (snd (eapol_sm_rx_eapol C src buf sm))"
proof -
  have "timers_ok (eapol_sm_abort_cached C sm)" if "timers_ok sm" for sm
    using that assms(1) by (simp add: eapol_sm_abort_cached_def Let_def inv_intros)
  with assms show ?thesis
    by (simp add: eapol_sm_rx_eapol_def rx_eap_packet_def rx_eapol_key_def Let_def inv_intros)
qed

lemma timers_ok_handle:
  assumes "eloop_register C" "timers_ok sm" "can_happen ev sm"
  shows "timers_ok (eapol_handle C ev sm)"
proof (cases ev)
  case (Logoff b)
  with assms show ?thesis by (cases b) (simp_all add: eapol_sm_notify_logoff_def Let_def inv_intros)
next
  case Timer_Tick
  with assms show ?thesis by (simp add: inv_intros)
qed (use assms in \<open>simp_all add: eapol_handlers inv_intros Let_def split: option.split\<close>)

text \<open>While the port is disabled nothing starts the timer tick.\<close>

definition tickless :: "'e eapol_sm \<Rightarrow> bool" where
  "tickless sm \<longleftrightarrow> \<not> portEnabled sm \<and> timers_ok sm \<and> \<not> timer_tick_enabled sm"

lemma tickless_eap [simp]:
  "tickless (sm\<lparr>eap := e\<rparr>) = tickless sm" "tickless (sm\<lparr>changed := b\<rparr>) = tickless sm"
  by (simp_all add: tickless_def)

lemma tickless_calls:
  assumes "\<forall>n. Set_Int EAPOL_idleWhile n \<in> set cs \<longrightarrow> n = 0" "\<forall>b. Set_Bool EAPOL_portEnabled b \<notin> set cs"
    and "tickless sm"
  shows "tickless (fold (eap_callback C) cs sm)"
  using assms
proof (induction cs arbitrary: sm)
  case (Cons c cs)
  have "tickless (eap_callback C c sm)"
  proof (cases c)
    case (Set_Bool v b)
    with Cons.prems show ?thesis by (cases v) (auto simp: tickless_def)
  next
    case (Set_Int v n)
    with Cons.prems show ?thesis by (cases v) (auto simp: tickless_def Let_def inv_intros)
  qed
  with Cons show ?case by auto
qed simp

lemma tickless_pae: "tickless sm \<Longrightarrow> tickless (SUPP_PAE_Step C sm)"
  by (auto simp: SUPP_PAE_Step_def tickless_def timers_ok_def tick_ok_def timers_running_iff eapol_enters)

context eap_peer_contract
begin

lemma tickless_results:
  assumes "tickless sm"
  shows "tickless (eap_result C (eap_sm_abort P e) sm)"
    "tickless (eap_result C (eap_notify_lower_layer_success P e v) sm)"
  unfolding eap_result_def using assms abort_calls [of e] lower_calls [of e v]
  by (auto intro!: tickless_calls)

lemma tickless_peer: "peer C = P \<Longrightarrow> tickless sm \<Longrightarrow> tickless (run_peer C sm)"
proof -
  assume pc: "peer C = P" and tl: "tickless sm"
  obtain e cs ch where st: "eap_peer_sm_step P (eap sm) (eapol_view sm) = (e, cs, ch)"
    by (cases "eap_peer_sm_step P (eap sm) (eapol_view sm)")
  have "\<not> vbool (eapol_view sm) EAPOL_portEnabled" using tl by (simp add: tickless_def eapol_view_def)
  with step_disabled [OF st] step_port [OF st] tl have "tickless (eap_result C (e, cs) sm)"
    by (auto simp: eap_result_def intro!: tickless_calls)
  with pc show ?thesis by (simp add: run_peer_def st Let_def)
qed

lemma tickless_key_rx: "peer C = P \<Longrightarrow> tickless sm \<Longrightarrow> tickless (KEY_RX_Step C sm)"
proof -
  assume pc: "peer C = P" and tl: "tickless sm"
  have inst: "tickless (process_install C f k t) = tickless t" for f k t
    by (simp add: process_install_def Let_def emit_def tickless_def)
  have "tickless (eapol_sm_processKey C t)" if "tickless t" for t
    using that tickless_results(2) [of t C] pc by (simp add: eapol_sm_processKey_def Let_def
        notify_lower_layer_success_in_sm_def inst split: option.split prod.split)
  moreover have "tickless (t\<lparr>rxKey := b\<rparr>) = tickless t" "tickless (t\<lparr>KEY_RX_state := s\<rparr>) = tickless t"
    for b s and t :: "'e eapol_sm" by (simp_all add: tickless_def)
  ultimately show ?thesis
    using tl by (simp add: KEY_RX_Step_def KEY_RX_NO_KEY_RECEIVE_Enter_def KEY_RX_KEY_RECEIVE_Enter_def
        KEY_RX_ENTRY_def Let_def split: key_rx_state.split)
qed

lemma tickless_be: "peer C = P \<Longrightarrow> tickless sm \<Longrightarrow> suppAbort sm \<Longrightarrow> tickless (SUPP_BE_Step C sm)"
proof -
  assume pc: "peer C = P" and tl: "tickless sm" and ab: "suppAbort sm"
  let ?t = "(BE_ENTRY True SUPP_BE_INITIALIZE sm)\<lparr>last_rx_key := None, eapReqData := None\<rparr>"
  have "tickless ?t" using tl by (simp add: tickless_def BE_ENTRY_def)
  then have "tickless (eap_result C (eap_sm_abort P (eap ?t)) ?t)" by (rule tickless_results)
  with pc ab show ?thesis
    by (simp add: SUPP_BE_Step_def SUPP_BE_INITIALIZE_Enter_def eapol_sm_abortSupp_def Let_def)
      (simp add: tickless_def inv_intros)
qed

lemma tickless_round: "peer C = P \<Longrightarrow> tickless sm \<Longrightarrow> tickless (eapol_round C sm)"
proof -
  assume pc: "peer C = P" and tl: "tickless sm"
  have "suppAbort (SUPP_PAE_Step C (sm\<lparr>changed := False\<rparr>))"
    using tl by (intro closed_pae(2) [OF _ refl]) (simp add: tickless_def)
  then show ?thesis
    using pc tl by (simp add: eapol_round_def tickless_peer tickless_be tickless_key_rx tickless_pae closed_key_rx(2))
qed

lemma tickless_loop: "peer C = P \<Longrightarrow> tickless sm \<Longrightarrow> tickless (step_loop C n sm)"
  by (induction n arbitrary: sm) (simp_all add: Let_def tickless_round)

lemma tickless_step: "peer C = P \<Longrightarrow> tickless sm \<Longrightarrow> tickless (eapol_sm_step C sm)"
  using tickless_loop [of C sm 100] by (simp add: eapol_sm_step_def Let_def emit_def) (simp add: tickless_def)

lemma timers_ok_init:
  assumes "peer C = P" "eapol_sm_init C e = Some sm"
  shows "timers_ok sm"
proof -
  have tl: "tickless (zalloc_sm e\<lparr>portControl := Auto, heldPeriod := 60, startPeriod := 30, maxStart := 3,
       authPeriod := 30, force_authorized_update := True, initialize := True\<rparr>)" for e :: 'e
    by (simp add: tickless_def zalloc_sm_def timers_ok_def tick_ok_def timers_running_iff)
  have "tickless (eapol_sm_step C (eapol_sm_step C (zalloc_sm e\<lparr>portControl := Auto, heldPeriod := 60,
       startPeriod := 30, maxStart := 3, authPeriod := 30, force_authorized_update := True,
       initialize := True\<rparr>)\<lparr>initialize := False\<rparr>))" for e
    using tickless_step [OF assms(1) tl [of e]]
    by (intro tickless_step [OF assms(1)]) (simp add: tickless_def)
  with assms(2) show ?thesis
    by (auto simp: eapol_sm_init_def Let_def tickless_def timers_ok_def tick_ok_def split: option.splits if_splits)
qed

lemma timers_ok_reachable:
  assumes "peer C = P" "eloop_register C" "eapol_reachable C sm"
  shows "timers_ok sm"
  using assms(3)
proof (induction rule: eapol_reachable.induct)
  case (trans sm ev sm')
  then show ?case using timers_ok_handle [OF assms(2)] by (auto elim!: eapol_transE)
qed (rule timers_ok_init [OF assms(1)])

end

end
