(* ===== verification/Eapol_Keys.thy ===== *)
theory Eapol_Keys
  imports Eapol_Timers
begin

text \<open>
  EAPOL-Key frames in \<open>eapol_supp_sm.c\<close>: which frames \<open>eapol_sm_processKey\<close> accepts, what it
  installs, and that a frame built by an authenticator that knows the keying material is
  accepted once. \<open>key_msg\<close> and \<open>key_frame\<close> are the authenticator's side.
\<close>

section \<open>Replay counters\<close>

text \<open>A counter as the number its bytes stand for, the most significant byte first.\<close>

definition counter_value :: "u8 list \<Rightarrow> nat" where
  "counter_value bs = foldl (\<lambda>a b. a * 256 + unat b) 0 bs"

lemma foldl_counter: "foldl (\<lambda>a b. a * 256 + unat (b :: u8)) n bs = n * 256 ^ length bs + counter_value bs"
proof (induction bs arbitrary: n)
  case (Cons b bs)
  have "counter_value (b # bs) = unat b * 256 ^ length bs + counter_value bs"
    using Cons [of "unat b"] by (simp add: counter_value_def)
  with Cons [of "n * 256 + unat b"] show ?case by (simp add: algebra_simps)
qed (simp add: counter_value_def)

lemma counter_Cons: "counter_value (b # bs) = unat b * 256 ^ length bs + counter_value bs"
  using foldl_counter [of "unat b" bs] by (simp add: counter_value_def)

lemma counter_bound: "counter_value bs < 256 ^ length bs"
proof (induction bs)
  case (Cons b bs)
  have "Suc (unat b) * 256 ^ length bs \<le> 256 * 256 ^ length bs" 
    using unat_u8_bound [of b] by (intro mult_right_mono) (simp_all add: Suc_le_eq)
  with Cons show ?case unfolding counter_Cons list.size power_Suc mult_Suc add_0_right add_Suc_right by linarith
qed (simp add: counter_value_def)

lemma memcmp_ge_value:
  "length a = length b \<Longrightarrow> memcmp_ge a b \<longleftrightarrow> counter_value b \<le> counter_value a"
proof (induction a b rule: list_induct2)
  case (Cons x xs y ys)
  have less: "counter_value (u # us) < counter_value (v # vs)" if "u < v" "length us = length vs" for u v us vs
  proof -
    have "Suc (unat u) * 256 ^ length us \<le> unat v * 256 ^ length vs"
      using that by (intro mult_mono) (simp_all add: word_less_nat_alt Suc_leI)
    then show ?thesis using counter_bound [of us] by (simp add: counter_Cons)
  qed
  show ?case
    using Cons less [of x y xs ys] less [of y x ys xs]
    by (cases x y rule: linorder_cases) (auto simp: counter_Cons)
qed simp

section \<open>The authenticator's side\<close>

record key_msg =
  km_replay :: "u8 list"
  km_iv :: "u8 list"
  km_index :: u8
  km_key :: "u8 list"

definition wf_key_msg :: "key_msg \<Rightarrow> bool" where
  "wf_key_msg m \<longleftrightarrow> length (km_replay m) = 8 \<and> length (km_iv m) = 16 \<and> length (km_key m) \<le> 32"

definition key_frame_with :: "'e eapol_ctx \<Rightarrow> u8 list \<Rightarrow> key_msg \<Rightarrow> u8 list \<Rightarrow> u8 list" where
  "key_frame_with C encr m sig =
     [2, 3] @ WPA_PUT_BE16 (of_nat (44 + length (km_key m))) @ [1] @ WPA_PUT_BE16 (of_nat (length (km_key m)))
     @ km_replay m @ km_iv m @ [km_index m] @ sig @ rc4_skip C (km_iv m @ encr) (km_key m)"

definition key_frame :: "'e eapol_ctx \<Rightarrow> u8 list \<Rightarrow> u8 list \<Rightarrow> key_msg \<Rightarrow> u8 list" where
  "key_frame C encr sign m =
     key_frame_with C encr m (hmac_md5 C sign (key_frame_with C encr m (replicate 16 0)))"

text \<open>What the code relies on of the cryptographic library: RC4 is a stream cipher, its second
  application restores the text, and HMAC-MD5 has 16 bytes.\<close>

definition crypto_ok :: "'e eapol_ctx \<Rightarrow> bool" where
  "crypto_ok C \<longleftrightarrow> (\<forall>k d. length (rc4_skip C k d) = length d \<and> rc4_skip C k (rc4_skip C k d) = d) \<and>
     (\<forall>k d. length (hmac_md5 C k d) = 16)"

lemma list2: "length xs = 2 \<Longrightarrow> \<exists>a b. xs = [a, b]"
  by (auto simp: length_Suc_conv numeral_2_eq_2)

lemma frame_fields:
  assumes "wf_key_msg m" "length sig = 16" "crypto_ok C"
  shows "length (key_frame_with C encr m sig) = 48 + length (km_key m)"
    "frame_plen (key_frame_with C encr m sig) = 44 + length (km_key m)"
    "rx_key_length (key_frame_with C encr m sig) = length (km_key m)"
    "replay_counter (key_frame_with C encr m sig) = km_replay m"
    "key_iv (key_frame_with C encr m sig) = km_iv m"
    "key_index (key_frame_with C encr m sig) = km_index m"
    "key_signature (key_frame_with C encr m sig) = sig"
    "drop 48 (key_frame_with C encr m sig) = rc4_skip C (km_iv m @ encr) (km_key m)"
    "take 32 (key_frame_with C encr m sig) @ x @ drop 48 (key_frame_with C encr m sig) =
       key_frame_with C encr m x"
proof -
  have get: "unat (WPA_GET_BE16 (WPA_PUT_BE16 (of_nat k) @ r)) = k" if "k < 65536" for k r
    using that by (simp add: be16.get_put unat_of_nat)
  have len: "length (WPA_PUT_BE16 v) = 2" for v by (simp add: WPA_PUT_BE16_def)
  obtain a b where ab: "WPA_PUT_BE16 (of_nat (44 + length (km_key m))) = [a, b]"
    using list2 [OF len] by blast
  obtain c d where cd: "WPA_PUT_BE16 (of_nat (length (km_key m))) = [c, d]"
    using list2 [OF len] by blast
  let ?f = "key_frame_with C encr m sig"
  have f: "?f = [2, 3, a, b, 1, c, d] @ km_replay m @ km_iv m @ [km_index m] @ sig
      @ rc4_skip C (km_iv m @ encr) (km_key m)"
    unfolding key_frame_with_def ab cd by simp
  note m = assms(1) [unfolded wf_key_msg_def] and c = assms(3) [unfolded crypto_ok_def]
  show "length ?f = 48 + length (km_key m)" using m c assms(2) by (simp add: f)
  show "frame_plen ?f = 44 + length (km_key m)"
    using m get [of "44 + length (km_key m)"] by (simp add: frame_plen_def key_frame_with_def)
  have "drop 5 ?f = WPA_PUT_BE16 (of_nat (length (km_key m))) @ drop 7 ?f" by (simp add: f cd)
  then show "rx_key_length ?f = length (km_key m)" using m get by (simp add: rx_key_length_def)
  show "replay_counter ?f = km_replay m" "key_iv ?f = km_iv m" "key_signature ?f = sig"
    "key_index ?f = km_index m" "drop 48 ?f = rc4_skip C (km_iv m @ encr) (km_key m)"
    using m assms(2) by (simp_all add: f replay_counter_def key_iv_def key_signature_def key_index_def nth_append)
  show "take 32 ?f @ x @ drop 48 ?f = key_frame_with C encr m x"
    using m assms(2) unfolding f unfolding key_frame_with_def ab cd by simp
qed

section \<open>Acceptance\<close>

lemma process_key_frame:
  assumes "crypto_ok C" "wf_key_msg m" "accept_802_1x_keys (conf sm)"
    and "last_rx_key sm = Some (key_frame C encr sign m)"
    and "sm1 = notify_lower_layer_success_in_sm C sm"
    and "process_keydata C sm1 = Some (encr, sign, 32)" "length encr = 32"
  shows "eapol_sm_processKey C sm =
    (if replay_counter_valid sm1 \<and> memcmp_ge (take 8 (last_replay_counter sm1)) (km_replay m) then sm1
     else process_install C (key_frame C encr sign m) (km_key m) sm1)"
proof -
  let ?sig = "hmac_md5 C sign (key_frame_with C encr m (replicate 16 0))"
  have sig: "length ?sig = 16" "length (replicate 16 (0 :: u8)) = 16" using assms(1) by (simp_all add: crypto_ok_def)
  note ff = frame_fields [OF assms(2) sig(1) assms(1)] frame_fields(1) [OF assms(2) sig(2) assms(1)]
  have "signed_part (key_frame_with C encr m ?sig) = key_frame_with C encr m (replicate 16 0)"
    unfolding signed_part_def ff(9) by (simp add: ff)
  moreover have "process_datakey C encr 32 (key_frame_with C encr m ?sig) = Some (km_key m)"
    using assms(1,2,7) by (auto simp: process_datakey_def Let_def ff crypto_ok_def wf_key_msg_def)
  ultimately show ?thesis
    using assms(3,6) by (simp add: eapol_sm_processKey_def assms(4,5) key_frame_def ff Let_def)
qed

section \<open>What the EAP peer cannot touch\<close>

definition key_view where
  "key_view sm = (outs sm, portValid sm, replay_counter_valid sm, last_replay_counter sm, last_rx_key sm, conf sm,
     unicast_key_received sm, broadcast_key_received sm)"

lemma key_view_calls: "key_view (fold (eap_callback C) cs sm) = key_view sm"
proof (induction cs arbitrary: sm)
  case (Cons c cs)
  have "key_view (eap_callback C c sm) = key_view sm"
  proof (cases c)
    case (Set_Bool v b)
    then show ?thesis by (cases v) (simp_all add: key_view_def)
  next
    case (Set_Int v n)
    then show ?thesis by (cases v) (simp add: key_view_def Let_def eapol_enable_timer_tick_def)
  qed
  with Cons show ?case by simp
qed simp

lemma key_view_lower: "key_view (notify_lower_layer_success_in_sm C sm) = key_view sm"
  by (simp add: notify_lower_layer_success_in_sm_def eap_result_def key_view_calls) (simp add: key_view_def)

lemma lower_fields [simp]:
  "outs (notify_lower_layer_success_in_sm C sm) = outs sm"
  "portValid (notify_lower_layer_success_in_sm C sm) = portValid sm"
  "replay_counter_valid (notify_lower_layer_success_in_sm C sm) = replay_counter_valid sm"
  "last_replay_counter (notify_lower_layer_success_in_sm C sm) = last_replay_counter sm"
  "last_rx_key (notify_lower_layer_success_in_sm C sm) = last_rx_key sm"
  "conf (notify_lower_layer_success_in_sm C sm) = conf sm"
  "unicast_key_received (notify_lower_layer_success_in_sm C sm) = unicast_key_received sm"
  "broadcast_key_received (notify_lower_layer_success_in_sm C sm) = broadcast_key_received sm"
  using key_view_lower [of C sm] by (simp_all add: key_view_def)

text \<open>The port becomes valid when every required kind of key has arrived.\<close>

definition keys_complete :: "'e eapol_sm \<Rightarrow> bool \<Rightarrow> bool" where
  "keys_complete sm uni \<longleftrightarrow>
     (uni \<or> unicast_key_received sm \<or> required_keys (conf sm) AND EAPOL_REQUIRE_KEY_UNICAST = 0) \<and>
     (\<not> uni \<or> broadcast_key_received sm \<or> required_keys (conf sm) AND EAPOL_REQUIRE_KEY_BROADCAST = 0)"

lemma install_effect:
  assumes "sm' = process_install C f k sm" "uni = (key_index f AND 0x80 \<noteq> 0)" "idx = key_index f AND 3"
    and "done = ((case set_wep_key C of None \<Rightarrow> True | Some drv \<Rightarrow> drv uni idx k) \<and> keys_complete sm uni)"
  shows "outs sm' = outs sm @ (if set_wep_key C = None then [] else [Set_Wep_Key uni idx k])
      @ (if done \<and> has_eapol_done_cb C then [Eapol_Done] else [])"
    "portValid sm' \<longleftrightarrow> portValid sm \<or> done" "replay_counter_valid sm'" "last_rx_key sm' = last_rx_key sm"
    "conf sm' = conf sm"
    "last_replay_counter sm' = replay_counter f @ drop 8 (last_replay_counter sm)"
  using assms(4) unfolding assms(1-3)
  by (auto simp: process_install_def Let_def emit_def keys_complete_def split: option.split)

lemma refused_again:
  assumes "last_rx_key sm = Some f" "replay_counter_valid sm"
    and "memcmp_ge (take 8 (last_replay_counter sm)) (replay_counter f)"
  shows "eapol_sm_processKey C sm \<in> {sm, notify_lower_layer_success_in_sm C sm}"
  using assms by (auto simp: eapol_sm_processKey_def Let_def split: option.split prod.split)

lemma memcmp_ge_refl: "memcmp_ge xs xs"
  by (induction xs) simp_all

section \<open>A context to evaluate in\<close>

text \<open>An EAP peer that holds keying material and does nothing else, a stream cipher and a checksum.\<close>

definition key_holder :: "u8 list \<Rightarrow> unit eap_peer" where
  "key_holder key =
     \<lparr>eap_peer_sm_step = \<lambda>e v. (e, [], False), eap_sm_abort = \<lambda>e. (e, []), eap_get_eapRespData = \<lambda>e. (e, None),
      eap_key_available = \<lambda>e. True, eap_get_eapKeyData = \<lambda>e. Some key, eap_notify_success = \<lambda>e. e,
      eap_notify_lower_layer_success = \<lambda>e v. (e, []), eap_peer_was_failure_expected = \<lambda>e. False,
      eap_set_config = \<lambda>c e. e, eap_invalidate_cached_session = \<lambda>e. e\<rparr>"

definition example_ctx :: "'e eap_peer \<Rightarrow> 'e eapol_ctx" where
  "example_ctx p =
     \<lparr>peer = p, preauth = False, has_cb = False, has_port_cb = True, has_eapol_done_cb = True,
      has_aborted_cached = True, set_wep_key = Some (\<lambda>u i k. True),
      hmac_md5 = \<lambda>k d. replicate 16 (foldl (+) (foldl (+) 0 k) d),
      rc4_skip = \<lambda>k d. map (\<lambda>b. b XOR foldl (+) 1 k) d,
      eloop_register = True, alloc = \<lambda>n. True, stack_data = replicate 64 0\<rparr>"

lemma example_crypto [simp]: "crypto_ok (example_ctx p)"
  by (simp add: crypto_ok_def example_ctx_def comp_def xor.assoc)

lemma example_simps [simp]:
  "peer (example_ctx p) = p" "set_wep_key (example_ctx p) = Some (\<lambda>u i k. True)"
  "has_eapol_done_cb (example_ctx p)" "has_port_cb (example_ctx p)" "eloop_register (example_ctx p)"
  "eap_key_available (key_holder k) e" "eap_get_eapKeyData (key_holder k) e = Some k"
  "eap_notify_lower_layer_success (key_holder k) e v = (e, [])"
  by (simp_all add: example_ctx_def key_holder_def)

definition example_msg :: key_msg where
  "example_msg = \<lparr>km_replay = [0, 0, 0, 0, 0, 0, 0, 5], km_iv = replicate 16 3, km_index = 0x81,
     km_key = [1, 2, 3, 4, 5]\<rparr>"

abbreviation example_C :: "unit eapol_ctx" where
  "example_C \<equiv> example_ctx (key_holder (replicate 32 7 @ replicate 32 9))"

definition example_key_sm :: "unit eapol_sm" where
  "example_key_sm = (zalloc_sm ())
     \<lparr>last_rx_key := Some (key_frame example_C (replicate 32 7) (replicate 32 9) example_msg), rxKey := True,
      conf := (conf (zalloc_sm ()))\<lparr>accept_802_1x_keys := True, required_keys := 1\<rparr>\<rparr>"

lemma example_sm_simps [simp]:
  "wf_key_msg example_msg" "accept_802_1x_keys (conf example_key_sm)" "\<not> replay_counter_valid example_key_sm"
  "last_rx_key example_key_sm = Some (key_frame example_C (replicate 32 7) (replicate 32 9) example_msg)"
  "length (last_replay_counter example_key_sm) = 16" "outs example_key_sm = []"
  "keys_complete example_key_sm True" "km_index example_msg = 0x81" "km_key example_msg = [1, 2, 3, 4, 5]"
  by (simp_all add: wf_key_msg_def example_msg_def example_key_sm_def zalloc_sm_def keys_complete_def)

lemma example_lower: "notify_lower_layer_success_in_sm example_C example_key_sm = example_key_sm"
  by (simp add: notify_lower_layer_success_in_sm_def eap_result_def)

lemma example_keydata:
  "process_keydata example_C example_key_sm = Some (replicate 32 7, replicate 32 9, 32)"
  by (simp add: process_keydata_def eapol_sm_get_key_def)

lemma example_install:
  "eapol_sm_processKey example_C example_key_sm =
     process_install example_C (key_frame example_C (replicate 32 7) (replicate 32 9) example_msg) [1, 2, 3, 4, 5] example_key_sm"
  using process_key_frame [OF example_crypto, of example_msg example_key_sm] example_lower example_keydata by simp

section \<open>Properties\<close>

text \<open>C13: A key frame that an authenticator with the same EAP keying material built, with a counter
  above the last accepted one, is decrypted and handed to the driver with its index and kind; the
  port becomes valid once the driver took all required keys. The same frame received again
  installs nothing.\<close>

theorem key_frame_installed:
  assumes "crypto_ok C" "wf_key_msg m" "accept_802_1x_keys (conf sm)"
    and "last_rx_key sm = Some (key_frame C encr sign m)" "length encr = 32" "length sign = 32"
    and "e = eap (notify_lower_layer_success_in_sm C sm)" "eap_key_available (peer C) e"
    and "eap_get_eapKeyData (peer C) e = Some (encr @ sign)"
    and "set_wep_key C = Some drv" "length (last_replay_counter sm) = 16"
    and "replay_counter_valid sm \<longrightarrow>
           counter_value (take 8 (last_replay_counter sm)) < counter_value (km_replay m)"
    and "sm' = eapol_sm_processKey C sm"
    and "uni = (km_index m AND 0x80 \<noteq> 0)" "idx = km_index m AND 3"
  shows "outs sm' = outs sm @ [Set_Wep_Key uni idx (km_key m)] @
      (if drv uni idx (km_key m) \<and> keys_complete sm uni \<and> has_eapol_done_cb C then [Eapol_Done] else []) \<and>
    (portValid sm' \<longleftrightarrow> portValid sm \<or> drv uni idx (km_key m) \<and> keys_complete sm uni) \<and>
    take 8 (last_replay_counter sm') = km_replay m \<and>
    outs (eapol_sm_processKey C sm') = outs sm' \<and> portValid (eapol_sm_processKey C sm') = portValid sm'"
proof -
  let ?sm1 = "notify_lower_layer_success_in_sm C sm" and ?f = "key_frame C encr sign m"
  have keys: "process_keydata C ?sm1 = Some (encr, sign, 32)"
    using assms(5-9) by (simp add: process_keydata_def eapol_sm_get_key_def)
  have "length (km_replay m) = 8" using assms(2) by (simp add: wf_key_msg_def)
  then have fresh: "\<not> (replay_counter_valid ?sm1 \<and> memcmp_ge (take 8 (last_replay_counter ?sm1)) (km_replay m))"
    using assms(11,12) by (auto simp: memcmp_ge_value not_le)
  have fields: "key_index ?f = km_index m" "replay_counter ?f = km_replay m"
    using frame_fields [OF assms(2) _ assms(1)] assms(1) unfolding key_frame_def by (simp_all add: crypto_ok_def)
  have sm': "sm' = process_install C ?f (km_key m) ?sm1"
    using process_key_frame [OF assms(1-4) refl keys assms(5)] fresh assms(13) by auto
  have complete: "keys_complete ?sm1 uni = keys_complete sm uni" by (simp add: keys_complete_def)
  note eff = install_effect [OF sm' refl refl refl, unfolded fields, folded assms(14,15)]
  have last8: "take 8 (last_replay_counter sm') = km_replay m"
    using \<open>length (km_replay m) = 8\<close> by (simp add: eff fields)
  have "eapol_sm_processKey C sm' \<in> {sm', notify_lower_layer_success_in_sm C sm'}"
    by (rule refused_again [of _ ?f]) (use \<open>length (km_replay m) = 8\<close> in \<open>simp_all add: eff assms(4) fields memcmp_ge_refl\<close>)
  then show ?thesis using last8 assms(10) complete by (auto simp: eff)
qed

theorem key_frame_installed_witness:
  "outs (eapol_sm_processKey example_C example_key_sm) = [Set_Wep_Key True 1 [1, 2, 3, 4, 5], Eapol_Done] \<and>
   portValid (eapol_sm_processKey example_C example_key_sm) \<and>
   outs (eapol_sm_processKey example_C (eapol_sm_processKey example_C example_key_sm))
     = outs (eapol_sm_processKey example_C example_key_sm)"
  using key_frame_installed [of example_C example_msg example_key_sm "replicate 32 7" "replicate 32 9" "()"
      "\<lambda>u i k. True"
      "eapol_sm_processKey example_C example_key_sm" True 1] by simp

text \<open>C10: Nothing else is accepted: when processing a key frame hands a key to the driver or changes
  the port or the replay counter, the frame was accepted by the configuration, its declared
  length lies within it, its signature verifies under the signing key of the EAP session, and its
  counter is above the last one; the key has at most 32 bytes.\<close>

theorem only_authentic_keys:
  assumes "sm' = eapol_sm_processKey C sm"
    and "outs sm' \<noteq> outs sm \<or> portValid sm' \<noteq> portValid sm \<or> last_replay_counter sm' \<noteq> last_replay_counter sm"
    and "length (last_replay_counter sm) = 16"
  shows "\<exists>f encr sign n k. last_rx_key sm = Some f \<and> accept_802_1x_keys (conf sm) \<and>
    44 \<le> frame_plen f \<and> 4 + frame_plen f \<le> length f \<and>
    process_keydata C (notify_lower_layer_success_in_sm C sm) = Some (encr, sign, n) \<and>
    key_signature f = hmac_md5 C sign (signed_part f) \<and>
    (replay_counter_valid sm \<longrightarrow>
      counter_value (take 8 (last_replay_counter sm)) < counter_value (replay_counter f)) \<and>
    take 8 (last_replay_counter sm') = replay_counter f \<and>
    process_datakey C encr n f = Some k \<and> rx_key_length f \<le> 32 \<and>
    (\<forall>u i d. Set_Wep_Key u i d \<in> set (outs sm') - set (outs sm) \<longrightarrow>
      u = (key_index f AND 0x80 \<noteq> 0) \<and> i = key_index f AND 3 \<and> d = k)"
proof -
  let ?sm1 = "notify_lower_layer_success_in_sm C sm"
  from assms(1,2) obtain f where f: "last_rx_key sm = Some f" "accept_802_1x_keys (conf sm)" "48 \<le> length f"
    "4 + frame_plen f \<le> length f" "44 \<le> frame_plen f"
    by (auto simp: eapol_sm_processKey_def not_less split: option.splits if_splits)
  with assms(1,2) obtain encr sign n where k: "process_keydata C ?sm1 = Some (encr, sign, n)"
    by (auto simp: eapol_sm_processKey_def Let_def split: option.splits)
  have same: "sm' = ?sm1 \<Longrightarrow> False" using assms(2) by auto
  from assms(1) f k same obtain d where d: "key_signature f = hmac_md5 C sign (signed_part f)"
    "\<not> (replay_counter_valid sm \<and> memcmp_ge (take 8 (last_replay_counter sm)) (replay_counter f))"
    "process_datakey C encr n f = Some d" "sm' = process_install C f d ?sm1"
    by (auto simp: eapol_sm_processKey_def Let_def split: option.splits if_splits)
  have len: "length (replay_counter f) = 8" using f(3) by (simp add: replay_counter_def)
  have "replay_counter_valid sm \<longrightarrow>
      counter_value (take 8 (last_replay_counter sm)) < counter_value (replay_counter f)"
    using d(2) assms(3) len by (auto simp: memcmp_ge_value not_le)
  moreover have "rx_key_length f \<le> 32" using d(3) by (simp add: process_datakey_def Let_def split: if_splits)
  moreover note eff = install_effect [OF d(4) refl refl refl]
  have "take 8 (last_replay_counter sm') = replay_counter f" using len by (simp add: eff)
  moreover have "\<forall>u i x. Set_Wep_Key u i x \<in> set (outs sm') - set (outs sm) \<longrightarrow>
      u = (key_index f AND 0x80 \<noteq> 0) \<and> i = key_index f AND 3 \<and> x = d"
    by (auto simp: eff split: if_splits)
  ultimately show ?thesis using f k d(1,3) by blast
qed


theorem only_authentic_keys_witness:
  "\<exists>f k. last_rx_key example_key_sm = Some f \<and> key_signature f = hmac_md5 example_C (replicate 32 9) (signed_part f) \<and>
     process_datakey example_C (replicate 32 7) 32 f = Some k \<and> replay_counter f = [0, 0, 0, 0, 0, 0, 0, 5]"
proof -
  let ?f = "key_frame example_C (replicate 32 7) (replicate 32 9) example_msg"
  have "outs (eapol_sm_processKey example_C example_key_sm) \<noteq> outs example_key_sm"
    unfolding example_install by (simp add: install_effect [OF refl refl refl refl])
  with only_authentic_keys [of _ example_C example_key_sm, OF refl] obtain f where
    "last_rx_key example_key_sm = Some f" "key_signature f = hmac_md5 example_C (replicate 32 9) (signed_part f)"
    "\<exists>k. process_datakey example_C (replicate 32 7) 32 f = Some k"
    by (auto simp: example_lower example_keydata)
  moreover have "replay_counter ?f = [0, 0, 0, 0, 0, 0, 0, 5]"
    unfolding key_frame_def
    by (subst frame_fields(4) [OF example_sm_simps(1) _ example_crypto])
      (simp_all add: example_msg_def example_ctx_def)
  ultimately show ?thesis by auto
qed

end
