(* ===== verification/Eap_Peer.thy ===== *)
theory Eap_Peer
  imports Eap_Msg Eapol_Keys
begin

text \<open>
  The EAP peer state machine of \<open>wpa_supplicant/src/eap_peer/eap.c\<close>, built as in \<open>defconfig\<close> without
  ERP and smart cards. \<open>struct eap_sm\<close> is the record \<open>eap_sm\<close>; the variables it shares with the
  EAPOL machines are the field \<open>ev\<close>, and every callback that writes one is appended to \<open>calls\<close>.
  An EAP method is the record \<open>eap_method\<close> of its functions over its private data \<open>'p\<close>; the registered
  methods, the network configuration and SHA-1 are the environment \<open>eap_env\<close>.
  \<open>eap_peer_of\<close> is the machine as the EAPOL machines see it.
\<close>

section \<open>Data\<close>

datatype eap_state =
  EAP_INITIALIZE | EAP_DISABLED | EAP_IDLE | EAP_RECEIVED | EAP_GET_METHOD | EAP_METHOD | EAP_SEND_RESPONSE
  | EAP_DISCARD | EAP_IDENTITY | EAP_NOTIFICATION | EAP_RETRANSMIT | EAP_SUCCESS | EAP_FAILURE

datatype method_state = METHOD_NONE | METHOD_INIT | METHOD_CONT | METHOD_MAY_CONT | METHOD_DONE
datatype eap_decision = DECISION_FAIL | DECISION_COND_SUCC | DECISION_UNCOND_SUCC

text \<open>\<open>struct eap_method_ret\<close>, and what a method may write into \<open>struct eap_sm\<close>.\<close>

record eap_method_ret =
  ret_ignore :: bool
  ret_methodState :: method_state
  ret_decision :: eap_decision
  ret_allowNotifications :: bool

record method_flags =
  leap_done :: bool
  peap_done :: bool
  expected_failure :: bool
  ClientTimeout :: u32

record eap_peer_config =
  identity :: "u8 list option"
  anonymous_identity :: "u8 list option"
  pcsc :: bool
  phase1 :: "string option"
  eap_methods :: "(u32 \<times> u32) list option"
  pending_req :: bool

text \<open>The two ways to start a method get the flags and \<open>sm->ignore\<close>, which they may change, and return the
  private data (none when they fail), the flags, \<open>sm->ignore\<close>, and whether a PIN or a passphrase
  has been asked for.\<close>

record 'p eap_method =
  m_vendor :: u32
  m_method :: u32
  m_init :: "eap_peer_config option \<Rightarrow> method_flags \<Rightarrow> bool \<Rightarrow> 'p option \<times> method_flags \<times> bool \<times> bool"
  m_process :: "'p \<Rightarrow> eap_method_ret \<Rightarrow> method_flags \<Rightarrow> u8 list \<Rightarrow> 'p \<times> eap_method_ret \<times> method_flags \<times> u8 list option"
  m_isKeyAvailable :: "('p \<Rightarrow> bool) option"
  m_getKey :: "('p \<Rightarrow> u8 list option) option"
  m_getSessionId :: "('p \<Rightarrow> u8 list option) option"
  m_has_reauth_data :: "('p \<Rightarrow> bool) option"
  m_deinit_for_reauth :: "'p \<Rightarrow> 'p"
  m_init_for_reauth :: "'p \<Rightarrow> method_flags \<Rightarrow> bool \<Rightarrow> 'p option \<times> method_flags \<times> bool \<times> bool"
  m_get_identity :: "('p \<Rightarrow> u8 list option) option"

record 'p eap_env =
  methods :: "'p eap_method list"
  config :: "eap_peer_config option"
  sha1 :: "u8 list \<Rightarrow> u8 list"
  alloc_e :: "nat \<Rightarrow> bool"

record 'p eap_sm =
  EAP_state :: eap_state
  selectedMethod :: u32
  methodState :: method_state
  lastId :: int
  lastRespData :: "u8 list option"
  decision :: eap_decision
  rxReq :: bool
  rxSuccess :: bool
  rxFailure :: bool
  rxResp :: bool
  reqId :: int
  reqMethod :: u32
  reqVendor :: u32
  reqVendorMethod :: u32
  ignore :: bool
  allowNotifications :: bool
  eapRespData :: "u8 list option"
  eapKeyAvailable :: bool
  eapKeyData :: "u8 list option"
  eapSessionId :: "u8 list option"
  meth :: "'p eap_method option"
  eap_method_priv :: "'p option"
  changed_e :: bool
  fast_reauth_e :: bool
  reauthInit :: bool
  flags :: method_flags
  req_sha1 :: "u8 list"
  last_sha1 :: "u8 list"
  workaround_e :: bool
  num_rounds :: nat
  force_disabled :: bool
  prev_failure :: bool
  last_config :: "eap_peer_config option"
  ev :: eap_vars
  calls :: "eap_call list"

abbreviation (input) EAP_MAX_AUTH_ROUNDS :: nat where "EAP_MAX_AUTH_ROUNDS \<equiv> 50"
abbreviation (input) EAP_CLIENT_TIMEOUT_DEFAULT :: u32 where "EAP_CLIENT_TIMEOUT_DEFAULT \<equiv> 60"

section \<open>The shared variables\<close>

definition eapol_get_bool :: "'p eap_sm \<Rightarrow> eapol_bool_var \<Rightarrow> bool" where
  "eapol_get_bool sm x = vbool (ev sm) x"

definition eapol_get_int :: "'p eap_sm \<Rightarrow> eapol_int_var \<Rightarrow> u32" where
  "eapol_get_int sm x = vint (ev sm) x"

definition eapol_get_eapReqData :: "'p eap_sm \<Rightarrow> u8 list option" where
  "eapol_get_eapReqData sm = vreq (ev sm)"

definition eapol_set_bool :: "eapol_bool_var \<Rightarrow> bool \<Rightarrow> 'p eap_sm \<Rightarrow> 'p eap_sm" where
  "eapol_set_bool x b sm =
     sm\<lparr>ev := (ev sm)\<lparr>vbool := (vbool (ev sm))(x := b)\<rparr>, calls := calls sm @ [Set_Bool x b]\<rparr>"

definition eapol_set_int :: "eapol_int_var \<Rightarrow> u32 \<Rightarrow> 'p eap_sm \<Rightarrow> 'p eap_sm" where
  "eapol_set_int x n sm =
     sm\<lparr>ev := (ev sm)\<lparr>vint := (vint (ev sm))(x := n)\<rparr>, calls := calls sm @ [Set_Int x n]\<rparr>"

section \<open>Methods and responses\<close>

text \<open>The configured methods end at the entry \<open>(EAP_VENDOR_IETF, EAP_TYPE_NONE)\<close>.\<close>

fun allowed_in :: "(u32 \<times> u32) list \<Rightarrow> u32 \<Rightarrow> u32 \<Rightarrow> bool" where
  "allowed_in [] v t = False"
| "allowed_in (m # ms) v t =
     (if m = (EAP_VENDOR_IETF, EAP_TYPE_NONE) then False else if m = (v, t) then True else allowed_in ms v t)"

definition eap_allowed_method :: "'p eap_env \<Rightarrow> u32 \<Rightarrow> u32 \<Rightarrow> bool" where
  "eap_allowed_method E v t =
     (case config E of
        None \<Rightarrow> True
      | Some c \<Rightarrow> (case eap_methods c of None \<Rightarrow> True | Some ms \<Rightarrow> allowed_in ms v t))"

definition eap_peer_get_eap_method :: "'p eap_env \<Rightarrow> u32 \<Rightarrow> u32 \<Rightarrow> 'p eap_method option" where
  "eap_peer_get_eap_method E v t = find (\<lambda>m. m_vendor m = v \<and> m_method m = t) (methods E)"

definition eap_sm_allowMethod :: "'p eap_env \<Rightarrow> u32 \<Rightarrow> u32 \<Rightarrow> bool" where
  "eap_sm_allowMethod E v t =
     (if \<not> eap_allowed_method E v t then False else eap_peer_get_eap_method E v t \<noteq> None)"

definition eap_sm_free_key :: "'p eap_sm \<Rightarrow> 'p eap_sm" where
  "eap_sm_free_key sm = sm\<lparr>eapKeyData := None\<rparr>"

definition eap_deinit_prev_method :: "'p eap_sm \<Rightarrow> 'p eap_sm" where
  "eap_deinit_prev_method sm =
     (if meth sm = None \<or> eap_method_priv sm = None then sm else sm\<lparr>eap_method_priv := None, meth := None\<rparr>)"

text \<open>A response that is being built, with the number of methods that were found.\<close>

type_synonym nak_result = "buf_fault + nat \<times> wpabuf"

fun expanded_nak_loop :: "'p eap_env \<Rightarrow> 'p eap_sm \<Rightarrow> 'p eap_method list \<Rightarrow> nat \<Rightarrow> wpabuf \<Rightarrow> nak_result" where
  "expanded_nak_loop E sm [] found b = Inr (found, b)"
| "expanded_nak_loop E sm (m # ms) found b =
     (if reqVendor sm = m_vendor m \<and> reqVendorMethod sm = m_method m then expanded_nak_loop E sm ms found b
      else if eap_allowed_method E (m_vendor m) (m_method m) then
        (case build [F8 (ucast EAP_TYPE_EXPANDED), FB24 (m_vendor m), FB32 (m_method m)] b of
           Inl e \<Rightarrow> Inl e | Inr b \<Rightarrow> expanded_nak_loop E sm ms (found + 1) b)
      else expanded_nak_loop E sm ms found b)"

definition eap_sm_build_expanded_nak :: "'p eap_env \<Rightarrow> 'p eap_sm \<Rightarrow> u8 \<Rightarrow> buf_fault + wpabuf option" where
  "eap_sm_build_expanded_nak E sm ident =
     (case eap_msg_alloc (alloc_e E) EAP_VENDOR_IETF EAP_TYPE_EXPANDED (8 + 8 * (length (methods E) + 1))
             EAP_CODE_RESPONSE ident of
        Inl e \<Rightarrow> Inl e
      | Inr None \<Rightarrow> Inr None
      | Inr (Some b) \<Rightarrow>
          (case build [FB24 EAP_VENDOR_IETF, FB32 EAP_TYPE_NAK] b of
             Inl e \<Rightarrow> Inl e
           | Inr b \<Rightarrow>
               (case expanded_nak_loop E sm (methods E) 0 b of
                  Inl e \<Rightarrow> Inl e
                | Inr (found, b) \<Rightarrow>
                    (case (if found = 0
                           then build [F8 (ucast EAP_TYPE_EXPANDED), FB24 EAP_VENDOR_IETF, FB32 EAP_TYPE_NONE] b
                           else Inr b) of
                       Inl e \<Rightarrow> Inl e | Inr b \<Rightarrow> Inr (Some (eap_update_len b))))))"

fun nak_loop :: "'p eap_env \<Rightarrow> u32 \<Rightarrow> 'p eap_method list \<Rightarrow> bool \<Rightarrow> nat \<Rightarrow> wpabuf \<Rightarrow> nak_result" where
  "nak_loop E req [] expanded_found found b = Inr (found, b)"
| "nak_loop E req (m # ms) expanded_found found b =
     (if m_vendor m = EAP_VENDOR_IETF \<and> m_method m = req then nak_loop E req ms expanded_found found b
      else if eap_allowed_method E (m_vendor m) (m_method m) then
        if m_vendor m \<noteq> EAP_VENDOR_IETF then
          if expanded_found then nak_loop E req ms expanded_found found b
          else (case wpabuf_put_u8 (ucast EAP_TYPE_EXPANDED) b of
                  Inl e \<Rightarrow> Inl e | Inr b \<Rightarrow> nak_loop E req ms True (found + 1) b)
        else (case wpabuf_put_u8 (ucast (m_method m)) b of
                Inl e \<Rightarrow> Inl e | Inr b \<Rightarrow> nak_loop E req ms expanded_found (found + 1) b)
      else nak_loop E req ms expanded_found found b)"

definition eap_sm_buildNak :: "'p eap_env \<Rightarrow> 'p eap_sm \<Rightarrow> u8 \<Rightarrow> buf_fault + wpabuf option" where
  "eap_sm_buildNak E sm ident =
     (if methods E = [] then Inr None
      else if reqMethod sm = EAP_TYPE_EXPANDED then eap_sm_build_expanded_nak E sm ident
      else (case eap_msg_alloc (alloc_e E) EAP_VENDOR_IETF EAP_TYPE_NAK (4 + 1 + length (methods E) + 1)
                   EAP_CODE_RESPONSE ident of
              Inl e \<Rightarrow> Inl e
            | Inr None \<Rightarrow> Inr None
            | Inr (Some b) \<Rightarrow>
                (case nak_loop E (reqMethod sm) (methods E) False 0 b of
                   Inl e \<Rightarrow> Inl e
                 | Inr (found, b) \<Rightarrow>
                     (case (if found = 0 then wpabuf_put_u8 (ucast EAP_TYPE_NONE) b else Inr b) of
                        Inl e \<Rightarrow> Inl e | Inr b \<Rightarrow> Inr (Some (eap_update_len b))))))"

definition eap_sm_buildIdentity :: "'p eap_env \<Rightarrow> 'p eap_sm \<Rightarrow> u8 \<Rightarrow> bool \<Rightarrow> buf_fault + wpabuf option" where
  "eap_sm_buildIdentity E sm ident encrypted =
     (case config E of
        None \<Rightarrow> Inr None
      | Some c \<Rightarrow>
          let from_method = (case meth sm of
                None \<Rightarrow> None
              | Some m \<Rightarrow> (case m_get_identity m of None \<Rightarrow> None | Some g \<Rightarrow> Option.bind (eap_method_priv sm) g));
              ident_data = (if from_method \<noteq> None then from_method
                            else if \<not> encrypted \<and> anonymous_identity c \<noteq> None then anonymous_identity c
                            else identity c)
          in if pcsc c then Inr None
             else case ident_data of
                    None \<Rightarrow> Inr None
                  | Some d \<Rightarrow>
                      (case eap_msg_alloc (alloc_e E) EAP_VENDOR_IETF EAP_TYPE_IDENTITY (length d)
                              EAP_CODE_RESPONSE ident of
                         Inl e \<Rightarrow> Inl e
                       | Inr None \<Rightarrow> Inr None
                       | Inr (Some b) \<Rightarrow> map_sum id Some (wpabuf_put_data (Some d) b)))"

definition eap_sm_buildNotify :: "'p eap_env \<Rightarrow> u8 \<Rightarrow> buf_fault + wpabuf option" where
  "eap_sm_buildNotify E ident =
     eap_msg_alloc (alloc_e E) EAP_VENDOR_IETF EAP_TYPE_NOTIFICATION 0 EAP_CODE_RESPONSE ident"

text \<open>The bytes of a built response; building never faults (\<open>responses_never_overflow\<close> in \<open>Eap_Build\<close>).\<close>

definition response :: "buf_fault + wpabuf option \<Rightarrow> u8 list option" where
  "response r = (case r of Inr (Some b) \<Rightarrow> Some (wpabuf_head b) | _ \<Rightarrow> None)"

definition dup_bytes :: "'p eap_env \<Rightarrow> u8 list \<Rightarrow> u8 list option" where
  "dup_bytes E d = (if alloc_e E (length d) then Some d else None)"

section \<open>Received requests\<close>

definition eap_peer_initiate :: "'p eap_sm \<Rightarrow> 'p eap_sm" where
  "eap_peer_initiate sm = eapol_set_bool EAPOL_eapTriggerStart True sm"

definition eap_sm_parseEapReq :: "'p eap_env \<Rightarrow> u8 list option \<Rightarrow> 'p eap_sm \<Rightarrow> 'p eap_sm" where
  "eap_sm_parseEapReq E req sm =
     (let sm = sm\<lparr>rxReq := False, rxResp := False, rxSuccess := False, rxFailure := False, reqId := 0,
                  reqMethod := EAP_TYPE_NONE, reqVendor := EAP_VENDOR_IETF, reqVendorMethod := EAP_TYPE_NONE\<rparr>
      in case req of
           None \<Rightarrow> sm
         | Some q \<Rightarrow>
             if length q < 4 then sm
             else if eap_len q > length q then sm
             else let sm = sm\<lparr>reqId := uint (q ! 1)\<rparr>;
                      sm = (if workaround_e sm then sm\<lparr>req_sha1 := sha1 E (take (eap_len q) q)\<rparr> else sm);
                      cod = q ! 0
               in if cod = EAP_CODE_REQUEST then
                    if eap_len q < 4 + 1 then sm
                    else let sm = sm\<lparr>rxReq := True, reqMethod := ucast (q ! 4)\<rparr>
                      in if reqMethod sm = EAP_TYPE_EXPANDED then
                           if eap_len q < 4 + 8 then sm
                           else sm\<lparr>reqVendor := WPA_GET_BE24 (drop 5 q), reqVendorMethod := WPA_GET_BE32 (drop 8 q)\<rparr>
                         else sm
                  else if cod = EAP_CODE_RESPONSE then
                    if selectedMethod sm = EAP_TYPE_LEAP then
                      if eap_len q < 4 + 1 then sm else sm\<lparr>rxResp := True, reqMethod := ucast (q ! 4)\<rparr>
                    else sm
                  else if cod = EAP_CODE_SUCCESS then sm\<lparr>rxSuccess := True\<rparr>
                  else if cod = EAP_CODE_FAILURE then sm\<lparr>rxFailure := True\<rparr>
                  else if cod = EAP_CODE_INITIATE then eap_peer_initiate sm
                  else sm)"

section \<open>States\<close>

definition EAP_ENTRY :: "bool \<Rightarrow> eap_state \<Rightarrow> 'p eap_sm \<Rightarrow> 'p eap_sm" where
  "EAP_ENTRY global s sm = sm\<lparr>changed_e := changed_e sm \<or> \<not> global \<or> EAP_state sm \<noteq> s, EAP_state := s\<rparr>"

text \<open>\<open>sm->m->has_reauth_data && sm->m->has_reauth_data(sm, sm->eap_method_priv)\<close>\<close>

definition has_reauth :: "'p eap_sm \<Rightarrow> bool" where
  "has_reauth sm \<longleftrightarrow>
     (case (meth sm, eap_method_priv sm) of
        (Some m, Some p) \<Rightarrow> (case m_has_reauth_data m of None \<Rightarrow> False | Some h \<Rightarrow> h p)
      | _ \<Rightarrow> False)"

definition EAP_INITIALIZE_Enter :: "'p eap_env \<Rightarrow> bool \<Rightarrow> 'p eap_sm \<Rightarrow> 'p eap_sm" where
  "EAP_INITIALIZE_Enter E g sm =
     (let sm = EAP_ENTRY g EAP_INITIALIZE sm;
          sm = (if fast_reauth_e sm \<and> has_reauth sm \<and> \<not> prev_failure sm \<and> last_config sm = config E
                then sm\<lparr>eap_method_priv := map_option (m_deinit_for_reauth (the (meth sm))) (eap_method_priv sm)\<rparr>
                else eap_deinit_prev_method (sm\<lparr>last_config := config E\<rparr>));
          sm = sm\<lparr>selectedMethod := EAP_TYPE_NONE, methodState := METHOD_NONE, allowNotifications := True,
                  decision := DECISION_FAIL,
                  flags := (flags sm)\<lparr>ClientTimeout := EAP_CLIENT_TIMEOUT_DEFAULT\<rparr>\<rparr>;
          sm = eapol_set_int EAPOL_idleWhile (ClientTimeout (flags sm)) sm;
          sm = eapol_set_bool EAPOL_eapSuccess False sm;
          sm = eapol_set_bool EAPOL_eapFail False sm;
          sm = eap_sm_free_key sm;
          sm = sm\<lparr>eapSessionId := None, eapKeyAvailable := False\<rparr>;
          sm = eapol_set_bool EAPOL_eapRestart False sm;
          sm = sm\<lparr>lastId := -1\<rparr>;
          sm = eapol_set_bool EAPOL_eapResp False sm;
          sm = eapol_set_bool EAPOL_eapNoResp False sm
      in sm\<lparr>ignore := False, num_rounds := 0, prev_failure := False,
            flags := (flags sm)\<lparr>expected_failure := False\<rparr>, reauthInit := False\<rparr>)"

definition EAP_DISABLED_Enter :: "bool \<Rightarrow> 'p eap_sm \<Rightarrow> 'p eap_sm" where
  "EAP_DISABLED_Enter g sm = eapol_set_int EAPOL_idleWhile 0 ((EAP_ENTRY g EAP_DISABLED sm)\<lparr>num_rounds := 0\<rparr>)"

definition EAP_IDLE_Enter :: "bool \<Rightarrow> 'p eap_sm \<Rightarrow> 'p eap_sm" where
  "EAP_IDLE_Enter g sm = EAP_ENTRY g EAP_IDLE sm"

definition EAP_RECEIVED_Enter :: "'p eap_env \<Rightarrow> bool \<Rightarrow> 'p eap_sm \<Rightarrow> 'p eap_sm" where
  "EAP_RECEIVED_Enter E g sm =
     (let sm = EAP_ENTRY g EAP_RECEIVED sm;
          sm = eap_sm_parseEapReq E (eapol_get_eapReqData sm) sm
      in sm\<lparr>num_rounds := num_rounds sm + 1\<rparr>)"

definition nak :: "'p eap_env \<Rightarrow> 'p eap_sm \<Rightarrow> 'p eap_sm" where
  "nak E sm = sm\<lparr>eapRespData := response (eap_sm_buildNak E sm (of_int (reqId sm)))\<rparr>"

text \<open>\<open>EAP_GET_METHOD\<close> in two parts: which method object serves the request, and its start.\<close>

definition get_method_reinit :: "u32 \<Rightarrow> 'p eap_sm \<Rightarrow> bool" where
  "get_method_reinit method sm \<longleftrightarrow> fast_reauth_e sm \<and> has_reauth sm \<and>
     (case meth sm of None \<Rightarrow> False | Some m \<Rightarrow> m_vendor m = reqVendor sm \<and> m_method m = method)"

definition get_method_select :: "bool \<Rightarrow> 'p eap_method option \<Rightarrow> 'p eap_sm \<Rightarrow> 'p eap_sm" where
  "get_method_select reinit eap_method sm =
     (let sm = (if reinit then sm else eap_deinit_prev_method sm);
          sm = sm\<lparr>selectedMethod := reqMethod sm\<rparr>
      in if meth sm = None then sm\<lparr>meth := eap_method\<rparr> else sm)"

definition get_method_start :: "'p eap_env \<Rightarrow> bool \<Rightarrow> 'p eap_method \<Rightarrow> 'p eap_sm \<Rightarrow> 'p eap_sm" where
  "get_method_start E reinit m sm =
     (let fl = (flags sm)\<lparr>ClientTimeout := EAP_CLIENT_TIMEOUT_DEFAULT\<rparr>;
          (p, fl, ign, pending) =
            (if reinit then (case eap_method_priv sm of
                               None \<Rightarrow> (None, fl, ignore sm, False)
                             | Some p \<Rightarrow> m_init_for_reauth m p fl (ignore sm))
             else m_init m (config E) fl (ignore sm));
          sm = sm\<lparr>eap_method_priv := p, flags := fl, ignore := ign\<rparr>
      in if eap_method_priv sm = None then
           let sm = sm\<lparr>meth := None, methodState := METHOD_NONE, selectedMethod := EAP_TYPE_NONE\<rparr>
           in if reqMethod sm = EAP_TYPE_TLS \<and> (case config E of None \<Rightarrow> False | Some c \<Rightarrow> pending_req c \<or> pending)
              then sm else nak E sm
         else sm\<lparr>methodState := METHOD_INIT\<rparr>)"

definition EAP_GET_METHOD_Enter :: "'p eap_env \<Rightarrow> bool \<Rightarrow> 'p eap_sm \<Rightarrow> 'p eap_sm" where
  "EAP_GET_METHOD_Enter E g sm =
     (let sm = EAP_ENTRY g EAP_GET_METHOD sm;
          method = (if reqMethod sm = EAP_TYPE_EXPANDED then reqVendorMethod sm else reqMethod sm);
          eap_method = eap_peer_get_eap_method E (reqVendor sm) method
      in if \<not> eap_sm_allowMethod E (reqVendor sm) method then nak E sm
         else
           let reinit = get_method_reinit method sm;
               sm = get_method_select reinit eap_method sm
           in case meth sm of None \<Rightarrow> nak E sm | Some m \<Rightarrow> get_method_start E reinit m sm)"

definition EAP_METHOD_Enter :: "'p eap_env \<Rightarrow> bool \<Rightarrow> 'p eap_sm \<Rightarrow> 'p eap_sm" where
  "EAP_METHOD_Enter E g sm =
     (let sm = EAP_ENTRY g EAP_METHOD sm
      in case meth sm of
           None \<Rightarrow> sm
         | Some m \<Rightarrow>
             let eapReqData = eapol_get_eapReqData sm;
                 min_len = (if m_vendor m = EAP_VENDOR_IETF \<and> m_method m = EAP_TYPE_LEAP then 0 else 1)
             in if \<not> eap_hdr_len_valid eapReqData min_len then sm
                else case eap_method_priv sm of
                  None \<Rightarrow> sm
                | Some p \<Rightarrow>
                    let ret = \<lparr>ret_ignore = ignore sm, ret_methodState = methodState sm,
                               ret_decision = decision sm, ret_allowNotifications = allowNotifications sm\<rparr>;
                        (p, ret, fl, resp) = m_process m p ret (flags sm) (the eapReqData);
                        sm = sm\<lparr>eap_method_priv := Some p, flags := fl, eapRespData := resp, ignore := ret_ignore ret\<rparr>
                    in if ignore sm then sm
                       else
                         let sm = sm\<lparr>methodState := ret_methodState ret, decision := ret_decision ret,
                                     allowNotifications := ret_allowNotifications ret\<rparr>
                         in case (m_isKeyAvailable m, m_getKey m) of
                              (Some av, Some get) \<Rightarrow>
                                if av p then
                                  let sm = (eap_sm_free_key sm)\<lparr>eapKeyData := get p, eapSessionId := None\<rparr>
                                  in (case m_getSessionId m of None \<Rightarrow> sm | Some sid \<Rightarrow> sm\<lparr>eapSessionId := sid p\<rparr>)
                                else sm
                            | _ \<Rightarrow> sm)"

definition EAP_SEND_RESPONSE_Enter :: "'p eap_env \<Rightarrow> bool \<Rightarrow> 'p eap_sm \<Rightarrow> 'p eap_sm" where
  "EAP_SEND_RESPONSE_Enter E g sm =
     (let sm = EAP_ENTRY g EAP_SEND_RESPONSE sm;
          sm = (case eapRespData sm of
                  Some r \<Rightarrow>
                    let sm = (if workaround_e sm then sm\<lparr>last_sha1 := req_sha1 sm\<rparr> else sm);
                        sm = sm\<lparr>lastId := reqId sm, lastRespData := dup_bytes E r\<rparr>
                    in eapol_set_bool EAPOL_eapResp True sm
                | None \<Rightarrow> sm\<lparr>lastRespData := None\<rparr>);
          sm = eapol_set_bool EAPOL_eapReq False sm;
          sm = eapol_set_int EAPOL_idleWhile (ClientTimeout (flags sm)) sm
      in sm\<lparr>reauthInit := False\<rparr>)"

definition EAP_DISCARD_Enter :: "bool \<Rightarrow> 'p eap_sm \<Rightarrow> 'p eap_sm" where
  "EAP_DISCARD_Enter g sm =
     eapol_set_bool EAPOL_eapNoResp True (eapol_set_bool EAPOL_eapReq False (EAP_ENTRY g EAP_DISCARD sm))"

definition EAP_IDENTITY_Enter :: "'p eap_env \<Rightarrow> bool \<Rightarrow> 'p eap_sm \<Rightarrow> 'p eap_sm" where
  "EAP_IDENTITY_Enter E g sm =
     (let sm = EAP_ENTRY g EAP_IDENTITY sm
      in if \<not> eap_hdr_len_valid (eapol_get_eapReqData sm) 1 then sm
         else sm\<lparr>eapRespData := response (eap_sm_buildIdentity E sm (of_int (reqId sm)) False)\<rparr>)"

definition EAP_NOTIFICATION_Enter :: "'p eap_env \<Rightarrow> bool \<Rightarrow> 'p eap_sm \<Rightarrow> 'p eap_sm" where
  "EAP_NOTIFICATION_Enter E g sm =
     (let sm = EAP_ENTRY g EAP_NOTIFICATION sm
      in if \<not> eap_hdr_len_valid (eapol_get_eapReqData sm) 1 then sm
         else sm\<lparr>eapRespData := response (eap_sm_buildNotify E (of_int (reqId sm)))\<rparr>)"

definition EAP_RETRANSMIT_Enter :: "'p eap_env \<Rightarrow> bool \<Rightarrow> 'p eap_sm \<Rightarrow> 'p eap_sm" where
  "EAP_RETRANSMIT_Enter E g sm =
     (let sm = EAP_ENTRY g EAP_RETRANSMIT sm
      in sm\<lparr>eapRespData := Option.bind (lastRespData sm) (dup_bytes E)\<rparr>)"

definition EAP_SUCCESS_Enter :: "bool \<Rightarrow> 'p eap_sm \<Rightarrow> 'p eap_sm" where
  "EAP_SUCCESS_Enter g sm =
     (let sm = EAP_ENTRY g EAP_SUCCESS sm;
          sm = (if eapKeyData sm \<noteq> None then sm\<lparr>eapKeyAvailable := True\<rparr> else sm);
          sm = eapol_set_bool EAPOL_eapSuccess True sm;
          sm = eapol_set_bool EAPOL_eapReq False sm
      in eapol_set_bool EAPOL_eapNoResp True sm)"

definition EAP_FAILURE_Enter :: "bool \<Rightarrow> 'p eap_sm \<Rightarrow> 'p eap_sm" where
  "EAP_FAILURE_Enter g sm =
     (let sm = EAP_ENTRY g EAP_FAILURE sm;
          sm = eapol_set_bool EAPOL_eapFail True sm;
          sm = eapol_set_bool EAPOL_eapReq False sm;
          sm = eapol_set_bool EAPOL_eapNoResp True sm
      in sm\<lparr>prev_failure := True\<rparr>)"

section \<open>Transitions\<close>

definition eap_success_workaround :: "'p eap_sm \<Rightarrow> int \<Rightarrow> int \<Rightarrow> bool" where
  "eap_success_workaround sm rid lid \<longleftrightarrow>
     workaround_e sm \<and> (rid = (lid + 1) mod 256 \<or> rid = (lid + 2) mod 256)"

definition eap_peer_sm_step_idle :: "'p eap_sm \<Rightarrow> 'p eap_env \<Rightarrow> 'p eap_sm" where
  "eap_peer_sm_step_idle sm E =
     (if eapol_get_bool sm EAPOL_eapReq then EAP_RECEIVED_Enter E False sm
      else if eapol_get_bool sm EAPOL_altAccept \<and> decision sm \<noteq> DECISION_FAIL
        \<or> eapol_get_int sm EAPOL_idleWhile = 0 \<and> decision sm = DECISION_UNCOND_SUCC
        then EAP_SUCCESS_Enter False sm
      else if eapol_get_bool sm EAPOL_altReject
        \<or> eapol_get_int sm EAPOL_idleWhile = 0 \<and> decision sm \<noteq> DECISION_UNCOND_SUCC
        \<or> eapol_get_bool sm EAPOL_altAccept \<and> methodState sm \<noteq> METHOD_CONT \<and> decision sm = DECISION_FAIL
        then EAP_FAILURE_Enter False sm
      else if selectedMethod sm = EAP_TYPE_LEAP \<and> leap_done (flags sm) \<and> decision sm \<noteq> DECISION_FAIL
        \<and> methodState sm = METHOD_DONE then EAP_SUCCESS_Enter False sm
      else if selectedMethod sm = EAP_TYPE_PEAP \<and> peap_done (flags sm) \<and> decision sm \<noteq> DECISION_FAIL
        \<and> methodState sm = METHOD_DONE then EAP_SUCCESS_Enter False sm
      else sm)"

definition eap_peer_req_is_duplicate :: "'p eap_sm \<Rightarrow> bool" where
  "eap_peer_req_is_duplicate sm =
     (let duplicate = (reqId sm = lastId sm \<and> rxReq sm)
      in if workaround_e sm \<and> duplicate \<and> req_sha1 sm \<noteq> last_sha1 sm then False else duplicate)"

definition contains_text :: "string \<Rightarrow> string \<Rightarrow> bool" where
  "contains_text pat s = list_ex (\<lambda>i. take (length pat) (drop i s) = pat) [0..<Suc (length s)]"

definition eap_peer_sm_allow_canned :: "'p eap_env \<Rightarrow> bool" where
  "eap_peer_sm_allow_canned E =
     (case config E of
        None \<Rightarrow> False
      | Some c \<Rightarrow> (case phase1 c of None \<Rightarrow> False | Some p \<Rightarrow> contains_text ''allow_canned_success=1'' p))"

definition eap_peer_sm_step_received :: "'p eap_env \<Rightarrow> 'p eap_sm \<Rightarrow> 'p eap_sm" where
  "eap_peer_sm_step_received E sm =
     (let duplicate = eap_peer_req_is_duplicate sm;
          id_ok = (reqId sm = lastId sm \<or> eap_success_workaround sm (reqId sm) (lastId sm))
      in if rxSuccess sm \<and> decision sm \<noteq> DECISION_FAIL \<and> id_ok then EAP_SUCCESS_Enter False sm
         else if workaround_e sm \<and> lastId sm = -1 \<and> rxSuccess sm \<and> \<not> rxFailure sm \<and> \<not> rxReq sm
           \<and> eap_peer_sm_allow_canned E then EAP_SUCCESS_Enter False sm
         else if workaround_e sm \<and> lastId sm = -1 \<and> rxFailure sm \<and> \<not> rxReq sm
           \<and> methodState sm \<noteq> METHOD_CONT \<and> eap_peer_sm_allow_canned E then EAP_FAILURE_Enter False sm
         else if workaround_e sm \<and> rxSuccess sm \<and> \<not> rxFailure sm \<and> \<not> rxReq sm
           \<and> methodState sm \<noteq> METHOD_CONT \<and> eap_peer_sm_allow_canned E then EAP_SUCCESS_Enter False sm
         else if methodState sm \<noteq> METHOD_CONT
           \<and> (rxFailure sm \<and> decision sm \<noteq> DECISION_UNCOND_SUCC
              \<or> rxSuccess sm \<and> decision sm = DECISION_FAIL
                \<and> (selectedMethod sm \<noteq> EAP_TYPE_LEAP \<or> methodState sm \<noteq> METHOD_MAY_CONT))
           \<and> id_ok then EAP_FAILURE_Enter False sm
         else if rxReq sm \<and> duplicate then EAP_RETRANSMIT_Enter E False sm
         else if rxReq sm \<and> \<not> duplicate \<and> reqMethod sm = EAP_TYPE_NOTIFICATION \<and> allowNotifications sm
           then EAP_NOTIFICATION_Enter E False sm
         else if rxReq sm \<and> \<not> duplicate \<and> selectedMethod sm = EAP_TYPE_NONE \<and> reqMethod sm = EAP_TYPE_IDENTITY
           then EAP_IDENTITY_Enter E False sm
         else if rxReq sm \<and> \<not> duplicate \<and> selectedMethod sm = EAP_TYPE_NONE
           \<and> reqMethod sm \<noteq> EAP_TYPE_IDENTITY \<and> reqMethod sm \<noteq> EAP_TYPE_NOTIFICATION
           then EAP_GET_METHOD_Enter E False sm
         else if rxReq sm \<and> \<not> duplicate \<and> reqMethod sm = selectedMethod sm \<and> methodState sm \<noteq> METHOD_DONE
           then EAP_METHOD_Enter E False sm
         else if selectedMethod sm = EAP_TYPE_LEAP \<and> (rxSuccess sm \<or> rxResp sm) then EAP_METHOD_Enter E False sm
         else if reauthInit sm then EAP_SEND_RESPONSE_Enter E False sm
         else EAP_DISCARD_Enter False sm)"

fun eap_peer_sm_step_local :: "'p eap_env \<Rightarrow> eap_state \<Rightarrow> 'p eap_sm \<Rightarrow> 'p eap_sm" where
  "eap_peer_sm_step_local E EAP_INITIALIZE sm = EAP_IDLE_Enter False sm"
| "eap_peer_sm_step_local E EAP_DISABLED sm =
     (if eapol_get_bool sm EAPOL_portEnabled \<and> \<not> force_disabled sm then EAP_INITIALIZE_Enter E False sm else sm)"
| "eap_peer_sm_step_local E EAP_IDLE sm = eap_peer_sm_step_idle sm E"
| "eap_peer_sm_step_local E EAP_RECEIVED sm = eap_peer_sm_step_received E sm"
| "eap_peer_sm_step_local E EAP_GET_METHOD sm =
     (if selectedMethod sm = reqMethod sm then EAP_METHOD_Enter E False sm else EAP_SEND_RESPONSE_Enter E False sm)"
| "eap_peer_sm_step_local E EAP_METHOD sm =
     (if ignore sm then EAP_DISCARD_Enter False sm
      else if methodState sm = METHOD_DONE \<and> decision sm = DECISION_FAIL \<and> eapRespData sm = None
        then EAP_FAILURE_Enter False sm
      else EAP_SEND_RESPONSE_Enter E False sm)"
| "eap_peer_sm_step_local E EAP_SEND_RESPONSE sm = EAP_IDLE_Enter False sm"
| "eap_peer_sm_step_local E EAP_DISCARD sm = EAP_IDLE_Enter False sm"
| "eap_peer_sm_step_local E EAP_IDENTITY sm = EAP_SEND_RESPONSE_Enter E False sm"
| "eap_peer_sm_step_local E EAP_NOTIFICATION sm = EAP_SEND_RESPONSE_Enter E False sm"
| "eap_peer_sm_step_local E EAP_RETRANSMIT sm = EAP_SEND_RESPONSE_Enter E False sm"
| "eap_peer_sm_step_local E EAP_SUCCESS sm = sm"
| "eap_peer_sm_step_local E EAP_FAILURE sm = sm"

definition EAP_Step :: "'p eap_env \<Rightarrow> 'p eap_sm \<Rightarrow> 'p eap_sm" where
  "EAP_Step E sm =
     (if eapol_get_bool sm EAPOL_eapRestart \<and> eapol_get_bool sm EAPOL_portEnabled
      then EAP_INITIALIZE_Enter E True sm
      else if \<not> eapol_get_bool sm EAPOL_portEnabled \<or> force_disabled sm then EAP_DISABLED_Enter True sm
      else if num_rounds sm > EAP_MAX_AUTH_ROUNDS then
        if num_rounds sm = EAP_MAX_AUTH_ROUNDS + 1
        then EAP_FAILURE_Enter True (sm\<lparr>num_rounds := num_rounds sm + 1\<rparr>) else sm
      else eap_peer_sm_step_local E (EAP_state sm) sm)"

section \<open>The step function ends\<close>

definition state_rank :: "eap_state \<Rightarrow> bool \<Rightarrow> nat" where
  "state_rank s req =
     (case s of
        EAP_FAILURE \<Rightarrow> 0 | EAP_SUCCESS \<Rightarrow> 1
      | EAP_IDLE \<Rightarrow> if req then 7 else 2
      | EAP_SEND_RESPONSE \<Rightarrow> if req then 8 else 3
      | EAP_DISCARD \<Rightarrow> if req then 8 else 3
      | EAP_METHOD \<Rightarrow> 4 | EAP_IDENTITY \<Rightarrow> 4 | EAP_NOTIFICATION \<Rightarrow> 4 | EAP_RETRANSMIT \<Rightarrow> 4
      | EAP_GET_METHOD \<Rightarrow> 5 | EAP_RECEIVED \<Rightarrow> 6 | EAP_INITIALIZE \<Rightarrow> 8 | EAP_DISABLED \<Rightarrow> 9)"

text \<open>What a state function does to the measure: the state it enters, and the variables.\<close>

definition shape :: "'p eap_sm \<Rightarrow> eap_state \<times> bool \<times> bool \<times> bool \<times> bool" where
  "shape sm = (EAP_state sm, vbool (ev sm) EAPOL_eapReq, vbool (ev sm) EAPOL_eapRestart,
     vbool (ev sm) EAPOL_portEnabled, force_disabled sm)"

fun shape_measure :: "eap_state \<times> bool \<times> bool \<times> bool \<times> bool \<Rightarrow> nat" where
  "shape_measure (s, req, restart, enabled, dis) =
     (if restart \<and> enabled then 100 else 0) + (if (\<not> enabled \<or> dis) \<and> s \<noteq> EAP_DISABLED then 50 else 0)
       + state_rank s req"

lemma parse_shape [simp]: "shape (eap_sm_parseEapReq E q sm) = shape sm"
  by (auto simp: shape_def eap_sm_parseEapReq_def Let_def eap_peer_initiate_def eapol_set_bool_def split: option.split)

lemma enter_shapes:
  "shape sm = (s, q, r, p, f) \<Longrightarrow> shape (EAP_INITIALIZE_Enter E g sm) = (EAP_INITIALIZE, q, False, p, f)"
  "shape sm = (s, q, r, p, f) \<Longrightarrow> shape (EAP_DISABLED_Enter g sm) = (EAP_DISABLED, q, r, p, f)"
  "shape sm = (s, q, r, p, f) \<Longrightarrow> shape (EAP_IDLE_Enter g sm) = (EAP_IDLE, q, r, p, f)"
  "shape sm = (s, q, r, p, f) \<Longrightarrow> shape (EAP_SEND_RESPONSE_Enter E g sm) = (EAP_SEND_RESPONSE, False, r, p, f)"
  "shape sm = (s, q, r, p, f) \<Longrightarrow> shape (EAP_DISCARD_Enter g sm) = (EAP_DISCARD, False, r, p, f)"
  "shape sm = (s, q, r, p, f) \<Longrightarrow> shape (EAP_IDENTITY_Enter E g sm) = (EAP_IDENTITY, q, r, p, f)"
  "shape sm = (s, q, r, p, f) \<Longrightarrow> shape (EAP_NOTIFICATION_Enter E g sm) = (EAP_NOTIFICATION, q, r, p, f)"
  "shape sm = (s, q, r, p, f) \<Longrightarrow> shape (EAP_RETRANSMIT_Enter E g sm) = (EAP_RETRANSMIT, q, r, p, f)"
  "shape sm = (s, q, r, p, f) \<Longrightarrow> shape (EAP_SUCCESS_Enter g sm) = (EAP_SUCCESS, False, r, p, f)"
  "shape sm = (s, q, r, p, f) \<Longrightarrow> shape (EAP_FAILURE_Enter g sm) = (EAP_FAILURE, False, r, p, f)"
  by (auto simp: shape_def EAP_INITIALIZE_Enter_def EAP_DISABLED_Enter_def EAP_IDLE_Enter_def
      EAP_SEND_RESPONSE_Enter_def EAP_DISCARD_Enter_def EAP_IDENTITY_Enter_def EAP_NOTIFICATION_Enter_def
      EAP_RETRANSMIT_Enter_def EAP_SUCCESS_Enter_def EAP_FAILURE_Enter_def EAP_ENTRY_def Let_def
      eapol_set_bool_def eapol_set_int_def eap_deinit_prev_method_def eap_sm_free_key_def split: option.split)

lemma shape_fields [simp]:
  "shape (sm\<lparr>selectedMethod := x_selectedMethod\<rparr>) = shape sm" "shape (sm\<lparr>methodState := x_methodState\<rparr>) = shape sm"
  "shape (sm\<lparr>lastId := x_lastId\<rparr>) = shape sm" "shape (sm\<lparr>lastRespData := x_lastRespData\<rparr>) = shape sm"
  "shape (sm\<lparr>decision := x_decision\<rparr>) = shape sm" "shape (sm\<lparr>rxReq := x_rxReq\<rparr>) = shape sm"
  "shape (sm\<lparr>rxSuccess := x_rxSuccess\<rparr>) = shape sm" "shape (sm\<lparr>rxFailure := x_rxFailure\<rparr>) = shape sm"
  "shape (sm\<lparr>rxResp := x_rxResp\<rparr>) = shape sm" "shape (sm\<lparr>reqId := x_reqId\<rparr>) = shape sm"
  "shape (sm\<lparr>reqMethod := x_reqMethod\<rparr>) = shape sm" "shape (sm\<lparr>reqVendor := x_reqVendor\<rparr>) = shape sm"
  "shape (sm\<lparr>reqVendorMethod := x_reqVendorMethod\<rparr>) = shape sm" "shape (sm\<lparr>ignore := x_ignore\<rparr>) = shape sm"
  "shape (sm\<lparr>allowNotifications := x_allowNotifications\<rparr>) = shape sm"
  "shape (sm\<lparr>eapRespData := x_eapRespData\<rparr>) = shape sm" "shape (sm\<lparr>eapKeyAvailable := x_eapKeyAvailable\<rparr>) = shape sm"
  "shape (sm\<lparr>eapKeyData := x_eapKeyData\<rparr>) = shape sm" "shape (sm\<lparr>eapSessionId := x_eapSessionId\<rparr>) = shape sm"
  "shape (sm\<lparr>meth := x_meth\<rparr>) = shape sm" "shape (sm\<lparr>eap_method_priv := x_eap_method_priv\<rparr>) = shape sm"
  "shape (sm\<lparr>changed_e := x_changed_e\<rparr>) = shape sm" "shape (sm\<lparr>fast_reauth_e := x_fast_reauth_e\<rparr>) = shape sm"
  "shape (sm\<lparr>reauthInit := x_reauthInit\<rparr>) = shape sm" "shape (sm\<lparr>flags := x_flags\<rparr>) = shape sm"
  "shape (sm\<lparr>req_sha1 := x_req_sha1\<rparr>) = shape sm" "shape (sm\<lparr>last_sha1 := x_last_sha1\<rparr>) = shape sm"
  "shape (sm\<lparr>workaround_e := x_workaround_e\<rparr>) = shape sm" "shape (sm\<lparr>num_rounds := x_num_rounds\<rparr>) = shape sm"
  "shape (sm\<lparr>prev_failure := x_prev_failure\<rparr>) = shape sm" "shape (sm\<lparr>last_config := x_last_config\<rparr>) = shape sm"
  "shape (sm\<lparr>calls := x_calls\<rparr>) = shape sm"
  by (simp_all add: shape_def)

lemma shape_helpers [simp]:
  "shape (eap_deinit_prev_method sm) = shape sm" "shape (nak E sm) = shape sm"
  "shape (eap_sm_free_key sm) = shape sm"
  by (simp_all add: eap_deinit_prev_method_def nak_def eap_sm_free_key_def)

lemma shape_entry: "shape sm = (s, q, r, p, f) \<Longrightarrow> shape (EAP_ENTRY g t sm) = (t, q, r, p, f)"
  by (simp add: shape_def EAP_ENTRY_def)

lemma shape_received: "shape sm = (s, q, r, p, f) \<Longrightarrow> shape (EAP_RECEIVED_Enter E g sm) = (EAP_RECEIVED, q, r, p, f)"
  by (simp add: EAP_RECEIVED_Enter_def Let_def shape_entry)

lemma shape_select [simp]: "shape (get_method_select b m sm) = shape sm"
  by (simp add: get_method_select_def Let_def)

lemma shape_start [simp]: "shape (get_method_start E b m sm) = shape sm"
  by (auto simp: get_method_start_def Let_def split: prod.split)

lemma shape_get_method:
  "shape sm = (s, q, r, p, f) \<Longrightarrow> shape (EAP_GET_METHOD_Enter E g sm) = (EAP_GET_METHOD, q, r, p, f)"
  using shape_entry [of sm s q r p f g EAP_GET_METHOD]
  by (simp add: EAP_GET_METHOD_Enter_def Let_def split: option.split)

lemma shape_method: "shape sm = (s, q, r, p, f) \<Longrightarrow> shape (EAP_METHOD_Enter E g sm) = (EAP_METHOD, q, r, p, f)"
  using shape_entry [of sm s q r p f g EAP_METHOD]
  by (simp add: EAP_METHOD_Enter_def Let_def split: option.split prod.split)


lemmas shapes = enter_shapes shape_received shape_get_method shape_method

lemma received_measure:
  assumes "shape sm = (EAP_RECEIVED, q, r, p, f)" "\<not> (r \<and> p)" "p" "\<not> f"
  shows "shape_measure (shape (eap_peer_sm_step_received E sm)) < shape_measure (shape sm)"
  unfolding eap_peer_sm_step_received_def Let_def
  by (simp add: shapes [OF assms(1)] assms state_rank_def)

lemma idle_choices:
  "eap_peer_sm_step_idle sm E \<in>
     (if eapol_get_bool sm EAPOL_eapReq then {EAP_RECEIVED_Enter E False sm}
      else {sm, EAP_SUCCESS_Enter False sm, EAP_FAILURE_Enter False sm})"
  by (simp add: eap_peer_sm_step_idle_def)

lemma local_measure:
  assumes "shape sm = (s, q, r, p, f)" "\<not> (r \<and> p)" "p" "\<not> f" "\<not> changed_e sm"
    and "changed_e (eap_peer_sm_step_local E s sm)"
  shows "shape_measure (shape (eap_peer_sm_step_local E s sm)) < shape_measure (shape sm)"
proof (cases s)
  case EAP_RECEIVED
  with received_measure [of sm q r p f E] assms show ?thesis by simp
next
  case EAP_IDLE
  have "q = eapol_get_bool sm EAPOL_eapReq" using assms(1) by (auto simp: shape_def eapol_get_bool_def)
  with EAP_IDLE idle_choices [of sm E] assms show ?thesis
    by (auto simp: shapes [OF assms(1)] state_rank_def)
qed (use assms in \<open>auto simp: shapes [OF assms(1)] state_rank_def split: if_splits\<close>)

lemma global_changed:
  "changed_e (EAP_DISABLED_Enter True sm) \<longleftrightarrow> changed_e sm \<or> EAP_state sm \<noteq> EAP_DISABLED"
  "changed_e (EAP_FAILURE_Enter True sm) \<longleftrightarrow> changed_e sm \<or> EAP_state sm \<noteq> EAP_FAILURE"
  by (auto simp: EAP_DISABLED_Enter_def EAP_FAILURE_Enter_def EAP_ENTRY_def eapol_set_bool_def eapol_set_int_def Let_def)

lemma step_measure:
  assumes "changed_e (EAP_Step E (sm\<lparr>changed_e := False\<rparr>))"
  shows "shape_measure (shape (EAP_Step E (sm\<lparr>changed_e := False\<rparr>))) < shape_measure (shape sm)"
proof -
  define t where "t = sm\<lparr>changed_e := False\<rparr>"
  obtain s q r p f where sh: "shape t = (s, q, r, p, f)" by (cases "shape t")
  then have vars: "s = EAP_state t" "q = vbool (ev t) EAPOL_eapReq" "r = vbool (ev t) EAPOL_eapRestart"
    "p = vbool (ev t) EAPOL_portEnabled" "f = force_disabled t" by (auto simp: shape_def)
  have ch: "\<not> changed_e t" "changed_e (EAP_Step E t)" using assms by (simp_all add: t_def)
  have "shape_measure (shape (EAP_Step E t)) < shape_measure (shape t)"
  proof -
    consider "r \<and> p" | "\<not> (r \<and> p)" "\<not> p \<or> f" | "\<not> (r \<and> p)" "p" "\<not> f" "num_rounds t > 50"
      | "\<not> (r \<and> p)" "p" "\<not> f" "\<not> num_rounds t > 50" by blast
    then show ?thesis
    proof cases
      case 1
      then have "EAP_Step E t = EAP_INITIALIZE_Enter E True t" by (simp add: EAP_Step_def eapol_get_bool_def vars)
      with 1 show ?thesis by (simp add: sh shapes [OF sh] state_rank_def)
    next
      case 2
      then have "EAP_Step E t = EAP_DISABLED_Enter True t" by (auto simp: EAP_Step_def eapol_get_bool_def vars)
      with 2 ch show ?thesis by (auto simp: sh shapes [OF sh] state_rank_def global_changed vars)
    next
      case 3
      with ch have e: "EAP_Step E t = EAP_FAILURE_Enter True (t\<lparr>num_rounds := 52\<rparr>)"
        by (auto simp: EAP_Step_def eapol_get_bool_def vars split: if_splits)
      have sh': "shape (t\<lparr>num_rounds := 52\<rparr>) = (s, q, r, p, f)" by (simp add: sh)
      from e ch have "s \<noteq> EAP_FAILURE" by (auto simp: global_changed vars)
      with 3 show ?thesis by (cases s) (auto simp: e sh shapes [OF sh'] state_rank_def)
    next
      case 4
      then have "EAP_Step E t = eap_peer_sm_step_local E s t" by (auto simp: EAP_Step_def eapol_get_bool_def vars)
      with local_measure [OF sh 4(1-3) ch(1)] ch(2) show ?thesis by simp
    qed
  qed
  then show ?thesis by (simp add: t_def)
qed

function (sequential) eap_step_loop :: "'p eap_env \<Rightarrow> bool \<Rightarrow> 'p eap_sm \<Rightarrow> bool \<times> 'p eap_sm" where
  "eap_step_loop E res sm =
     (let sm' = EAP_Step E (sm\<lparr>changed_e := False\<rparr>)
      in if changed_e sm' then eap_step_loop E True sm' else (res, sm'))"
  by pat_completeness auto
termination by (relation "measure (\<lambda>(E, res, sm). shape_measure (shape sm))") (simp_all add: step_measure)

declare eap_step_loop.simps [simp del]

lemma step_loop_still: "\<not> changed_e (EAP_Step E (sm\<lparr>changed_e := False\<rparr>)) \<Longrightarrow>
   eap_step_loop E res sm = (res, EAP_Step E (sm\<lparr>changed_e := False\<rparr>))"
  by (subst eap_step_loop.simps) (simp add: Let_def)

lemma step_loop_more: "changed_e (EAP_Step E (sm\<lparr>changed_e := False\<rparr>)) \<Longrightarrow>
   eap_step_loop E res sm = eap_step_loop E True (EAP_Step E (sm\<lparr>changed_e := False\<rparr>))"
  by (subst eap_step_loop.simps) (simp add: Let_def)

section \<open>What the machine writes\<close>

definition shared :: "'p eap_sm \<Rightarrow> eap_vars \<times> eap_call list" where
  "shared sm = (ev sm, calls sm)"

inductive writes :: "eap_vars \<times> eap_call list \<Rightarrow> eap_vars \<times> eap_call list \<Rightarrow> bool" where
  none: "writes s s"
| bool: "writes s (v, cs) \<Longrightarrow> x \<noteq> EAPOL_portEnabled \<Longrightarrow>
    writes s (v\<lparr>vbool := (vbool v)(x := b)\<rparr>, cs @ [Set_Bool x b])"
| int: "writes s (v, cs) \<Longrightarrow> writes s (v\<lparr>vint := (vint v)(x := n)\<rparr>, cs @ [Set_Int x n])"

lemma shared_fields [simp]:
  "shared (sm\<lparr>EAP_state := x_EAP_state\<rparr>) = shared sm" "shared (sm\<lparr>selectedMethod := x_selectedMethod\<rparr>) = shared sm"
  "shared (sm\<lparr>methodState := x_methodState\<rparr>) = shared sm" "shared (sm\<lparr>lastId := x_lastId\<rparr>) = shared sm"
  "shared (sm\<lparr>lastRespData := x_lastRespData\<rparr>) = shared sm" "shared (sm\<lparr>decision := x_decision\<rparr>) = shared sm"
  "shared (sm\<lparr>rxReq := x_rxReq\<rparr>) = shared sm" "shared (sm\<lparr>rxSuccess := x_rxSuccess\<rparr>) = shared sm"
  "shared (sm\<lparr>rxFailure := x_rxFailure\<rparr>) = shared sm" "shared (sm\<lparr>rxResp := x_rxResp\<rparr>) = shared sm"
  "shared (sm\<lparr>reqId := x_reqId\<rparr>) = shared sm" "shared (sm\<lparr>reqMethod := x_reqMethod\<rparr>) = shared sm"
  "shared (sm\<lparr>reqVendor := x_reqVendor\<rparr>) = shared sm" "shared (sm\<lparr>reqVendorMethod := x_reqVendorMethod\<rparr>) = shared sm"
  "shared (sm\<lparr>ignore := x_ignore\<rparr>) = shared sm" 
  "shared (sm\<lparr>allowNotifications := x_allowNotifications\<rparr>) = shared sm" "shared (sm\<lparr>eapRespData := x_eapRespData\<rparr>) = shared sm"
  "shared (sm\<lparr>eapKeyAvailable := x_eapKeyAvailable\<rparr>) = shared sm" "shared (sm\<lparr>eapKeyData := x_eapKeyData\<rparr>) = shared sm"
  "shared (sm\<lparr>eapSessionId := x_eapSessionId\<rparr>) = shared sm" "shared (sm\<lparr>meth := x_meth\<rparr>) = shared sm"
  "shared (sm\<lparr>eap_method_priv := x_eap_method_priv\<rparr>) = shared sm" "shared (sm\<lparr>changed_e := x_changed_e\<rparr>) = shared sm"
  "shared (sm\<lparr>fast_reauth_e := x_fast_reauth_e\<rparr>) = shared sm" "shared (sm\<lparr>reauthInit := x_reauthInit\<rparr>) = shared sm"
  "shared (sm\<lparr>flags := x_flags\<rparr>) = shared sm" "shared (sm\<lparr>req_sha1 := x_req_sha1\<rparr>) = shared sm"
  "shared (sm\<lparr>last_sha1 := x_last_sha1\<rparr>) = shared sm" "shared (sm\<lparr>workaround_e := x_workaround_e\<rparr>) = shared sm"
  "shared (sm\<lparr>num_rounds := x_num_rounds\<rparr>) = shared sm" "shared (sm\<lparr>force_disabled := x_force_disabled\<rparr>) = shared sm"
  "shared (sm\<lparr>prev_failure := x_prev_failure\<rparr>) = shared sm" "shared (sm\<lparr>last_config := x_last_config\<rparr>) = shared sm"
  by (simp_all add: shared_def)

lemma shared_helpers [simp]:
  "shared (eap_deinit_prev_method sm) = shared sm" "shared (nak E sm) = shared sm"
  "shared (eap_sm_free_key sm) = shared sm" "shared (EAP_ENTRY g t sm) = shared sm"
  "shared (get_method_select b m sm) = shared sm" "shared (get_method_start E b m2 sm) = shared sm"
  by (simp_all add: eap_deinit_prev_method_def nak_def eap_sm_free_key_def EAP_ENTRY_def get_method_select_def
      get_method_start_def Let_def split: prod.split)

lemma writes_bool [inv_intros]:
  "writes s (shared sm) \<Longrightarrow> x \<noteq> EAPOL_portEnabled \<Longrightarrow> writes s (shared (eapol_set_bool x b sm))"
  by (auto simp: shared_def eapol_set_bool_def intro: writes.bool)

lemma writes_int [inv_intros]: "writes s (shared sm) \<Longrightarrow> writes s (shared (eapol_set_int x n sm))"
  by (auto simp: shared_def eapol_set_int_def intro: writes.int)

lemma writes_enters [inv_intros]:
  assumes "writes s (shared sm)"
  shows "writes s (shared (EAP_INITIALIZE_Enter E g sm))" "writes s (shared (EAP_DISABLED_Enter g sm))"
    "writes s (shared (EAP_IDLE_Enter g sm))" "writes s (shared (EAP_RECEIVED_Enter E g sm))"
    "writes s (shared (EAP_GET_METHOD_Enter E g sm))" "writes s (shared (EAP_METHOD_Enter E g sm))"
    "writes s (shared (EAP_SEND_RESPONSE_Enter E g sm))" "writes s (shared (EAP_DISCARD_Enter g sm))"
    "writes s (shared (EAP_IDENTITY_Enter E g sm))" "writes s (shared (EAP_NOTIFICATION_Enter E g sm))"
    "writes s (shared (EAP_RETRANSMIT_Enter E g sm))" "writes s (shared (EAP_SUCCESS_Enter g sm))"
    "writes s (shared (EAP_FAILURE_Enter g sm))"
proof -
  have parse: "writes s (shared (eap_sm_parseEapReq E q t))" if "writes s (shared t)" for q and t :: "'a eap_sm"
    using that by (simp add: eap_sm_parseEapReq_def eap_peer_initiate_def Let_def inv_intros split: option.split)
  show "writes s (shared (EAP_INITIALIZE_Enter E g sm))" "writes s (shared (EAP_DISABLED_Enter g sm))"
    "writes s (shared (EAP_IDLE_Enter g sm))" "writes s (shared (EAP_RECEIVED_Enter E g sm))"
    "writes s (shared (EAP_DISCARD_Enter g sm))" "writes s (shared (EAP_IDENTITY_Enter E g sm))"
    "writes s (shared (EAP_NOTIFICATION_Enter E g sm))" "writes s (shared (EAP_RETRANSMIT_Enter E g sm))"
    "writes s (shared (EAP_SUCCESS_Enter g sm))" "writes s (shared (EAP_FAILURE_Enter g sm))"
    "writes s (shared (EAP_SEND_RESPONSE_Enter E g sm))"
    using assms by (simp_all add: EAP_INITIALIZE_Enter_def EAP_DISABLED_Enter_def EAP_IDLE_Enter_def
        EAP_RECEIVED_Enter_def EAP_DISCARD_Enter_def EAP_IDENTITY_Enter_def EAP_NOTIFICATION_Enter_def
        EAP_RETRANSMIT_Enter_def EAP_SUCCESS_Enter_def EAP_FAILURE_Enter_def EAP_SEND_RESPONSE_Enter_def
        Let_def parse inv_intros split: option.split)
  show "writes s (shared (EAP_GET_METHOD_Enter E g sm))"
    using assms by (simp add: EAP_GET_METHOD_Enter_def Let_def split: option.split)
  show "writes s (shared (EAP_METHOD_Enter E g sm))"
    using assms by (simp add: EAP_METHOD_Enter_def Let_def split: option.split prod.split)
qed

lemma writes_step: "writes s (shared sm) \<Longrightarrow> writes s (shared (EAP_Step E sm))"
proof -
  assume w: "writes s (shared sm)"
  have "writes s (shared (eap_peer_sm_step_local E st sm))" for st
    using w by (cases st) (simp_all add: eap_peer_sm_step_idle_def eap_peer_sm_step_received_def Let_def inv_intros)
  with w show ?thesis by (simp add: EAP_Step_def inv_intros)
qed

lemma writes_loop: "eap_step_loop E res sm = (r, sm') \<Longrightarrow> writes s (shared sm) \<Longrightarrow> writes s (shared sm')"
proof (induction E res sm rule: eap_step_loop.induct)
  case (1 E res sm)
  have "writes s (shared (EAP_Step E (sm\<lparr>changed_e := False\<rparr>)))" by (rule writes_step) (simp add: "1.prems")
  with 1 show ?case by (subst (asm) eap_step_loop.simps) (auto simp: Let_def split: if_splits)
qed

section \<open>The operations the EAPOL machines call\<close>

text \<open>Functions whose name is an operation of \<open>eap_peer\<close> carry the suffix \<open>_impl\<close>.\<close>

definition eap_peer_sm_step_impl :: "'p eap_env \<Rightarrow> 'p eap_sm \<Rightarrow> eap_vars \<Rightarrow> 'p eap_sm \<times> eap_call list \<times> bool" where
  "eap_peer_sm_step_impl E sm v =
     (let (res, sm) = eap_step_loop E False (sm\<lparr>ev := v, calls := []\<rparr>) in (sm, calls sm, res))"

definition eap_sm_abort_impl :: "'p eap_sm \<Rightarrow> 'p eap_sm \<times> eap_call list" where
  "eap_sm_abort_impl sm =
     (let sm = sm\<lparr>lastRespData := None, eapRespData := None\<rparr>;
          sm = (eap_sm_free_key sm)\<lparr>eapSessionId := None\<rparr>;
          sm = eapol_set_bool EAPOL_eapSuccess False (sm\<lparr>calls := []\<rparr>)
      in (sm, calls sm))"

definition eap_get_eapRespData_impl :: "'p eap_sm \<Rightarrow> 'p eap_sm \<times> u8 list option" where
  "eap_get_eapRespData_impl sm = (sm\<lparr>eapRespData := None\<rparr>, eapRespData sm)"

definition eap_notify_success_impl :: "'p eap_sm \<Rightarrow> 'p eap_sm" where
  "eap_notify_success_impl sm = sm\<lparr>decision := DECISION_COND_SUCC, EAP_state := EAP_SUCCESS\<rparr>"

definition eap_notify_lower_layer_success_impl :: "'p eap_sm \<Rightarrow> eap_vars \<Rightarrow> 'p eap_sm \<times> eap_call list" where
  "eap_notify_lower_layer_success_impl sm v =
     (let sm = sm\<lparr>ev := v, calls := []\<rparr>
      in if eapol_get_bool sm EAPOL_eapSuccess \<or> decision sm = DECISION_FAIL
           \<or> methodState sm \<noteq> METHOD_MAY_CONT \<and> methodState sm \<noteq> METHOD_DONE then (sm, [])
         else let sm = (if eapKeyData sm \<noteq> None then sm\<lparr>eapKeyAvailable := True\<rparr> else sm);
                  sm = eapol_set_bool EAPOL_eapSuccess True sm
           in (sm, calls sm))"

definition eap_set_config_impl :: "eapol_config \<Rightarrow> 'p eap_sm \<Rightarrow> 'p eap_sm" where
  "eap_set_config_impl c sm =
     sm\<lparr>fast_reauth_e := fast_reauth c, workaround_e := workaround c, force_disabled := eap_disabled c\<rparr>"

definition eap_peer_of :: "'p eap_env \<Rightarrow> 'p eap_sm eap_peer" where
  "eap_peer_of E =
     \<lparr>eap_peer_sm_step = eap_peer_sm_step_impl E, eap_sm_abort = eap_sm_abort_impl,
      eap_get_eapRespData = eap_get_eapRespData_impl, eap_key_available = eapKeyAvailable,
      eap_get_eapKeyData = eapKeyData, eap_notify_success = eap_notify_success_impl,
      eap_notify_lower_layer_success = eap_notify_lower_layer_success_impl,
      eap_peer_was_failure_expected = \<lambda>sm. expected_failure (flags sm),
      eap_set_config = eap_set_config_impl, eap_invalidate_cached_session = eap_deinit_prev_method\<rparr>"

text \<open>What \<open>os_zalloc\<close> and \<open>eap_peer_sm_init\<close> leave.\<close>

definition eap_peer_sm_init :: "'p eap_sm" where
  "eap_peer_sm_init =
     \<lparr>EAP_state = EAP_INITIALIZE, selectedMethod = EAP_TYPE_NONE, methodState = METHOD_NONE, lastId = 0,
      lastRespData = None, decision = DECISION_FAIL, rxReq = False, rxSuccess = False, rxFailure = False,
      rxResp = False, reqId = 0, reqMethod = EAP_TYPE_NONE, reqVendor = EAP_VENDOR_IETF, reqVendorMethod = 0,
      ignore = False, allowNotifications = False, eapRespData = None,
      eapKeyAvailable = False, eapKeyData = None, eapSessionId = None, meth = None, eap_method_priv = None,
      changed_e = False, fast_reauth_e = False, reauthInit = False,
      flags = \<lparr>leap_done = False, peap_done = False, expected_failure = False,
        ClientTimeout = EAP_CLIENT_TIMEOUT_DEFAULT\<rparr>,
      req_sha1 = replicate 20 0, last_sha1 = replicate 20 0, workaround_e = False, num_rounds = 0,
      force_disabled = False, prev_failure = False, last_config = None,
      ev = \<lparr>vbool = \<lambda>_. False, vint = \<lambda>_. 0, vreq = None\<rparr>, calls = []\<rparr>"

section \<open>The contract\<close>

lemma no_port_write: "writes s s' \<Longrightarrow> Set_Bool EAPOL_portEnabled b \<notin> set (snd s) \<Longrightarrow>
    Set_Bool EAPOL_portEnabled b \<notin> set (snd s')"
  by (induction rule: writes.induct) auto

lemma step_loop_disabled:
  assumes "\<not> vbool (ev sm) EAPOL_portEnabled" "eap_step_loop E res sm = (r, sm')"
    and "\<forall>n. Set_Int EAPOL_idleWhile n \<in> set (calls sm) \<longrightarrow> n = 0"
  shows "\<forall>n. Set_Int EAPOL_idleWhile n \<in> set (calls sm') \<longrightarrow> n = 0"
  using assms
proof (induction E res sm rule: eap_step_loop.induct)
  case (1 E res sm)
  let ?t = "EAP_Step E (sm\<lparr>changed_e := False\<rparr>)"
  have t: "?t = EAP_DISABLED_Enter True (sm\<lparr>changed_e := False\<rparr>)"
    using "1.prems"(1) by (simp add: EAP_Step_def eapol_get_bool_def)
  have "\<not> vbool (ev ?t) EAPOL_portEnabled" "\<forall>n. Set_Int EAPOL_idleWhile n \<in> set (calls ?t) \<longrightarrow> n = 0"
    unfolding t using "1.prems" by (auto simp: EAP_DISABLED_Enter_def eapol_set_int_def EAP_ENTRY_def)
  moreover have "eap_step_loop E res sm = (if changed_e ?t then eap_step_loop E True ?t else (res, ?t))"
    by (subst eap_step_loop.simps) (simp add: Let_def)
  ultimately show ?case using 1 by (auto split: if_splits)
qed

interpretation eap_machine: eap_peer_contract "eap_peer_of E" for E
proof
  fix e :: "'a eap_sm" and v e' cs ch b n
  assume st: "eap_peer_sm_step (eap_peer_of E) e v = (e', cs, ch)"
  then have loop: "eap_step_loop E False (e\<lparr>ev := v, calls := []\<rparr>) = (ch, e')" "cs = calls e'"
    by (auto simp: eap_peer_of_def eap_peer_sm_step_impl_def split: prod.splits)
  from writes_loop [OF loop(1) writes.none] show "Set_Bool EAPOL_portEnabled b \<notin> set cs"
    using no_port_write [of "shared (e\<lparr>ev := v, calls := []\<rparr>)" "shared e'" b] by (simp add: shared_def loop(2))
  assume "\<not> vbool v EAPOL_portEnabled" "Set_Int EAPOL_idleWhile n \<in> set cs"
  then show "n = 0" using step_loop_disabled [OF _ loop(1)] by (simp add: loop(2))
qed (auto simp: eap_peer_of_def eap_sm_abort_impl_def eap_notify_lower_layer_success_impl_def Let_def eapol_set_bool_def)

end
