(* ===== verification/Eapol_Eap.thy ===== *)
theory Eapol_Eap
  imports Eap_Peer
begin

text \<open>
  The EAPOL machines of \<open>eapol_supp_sm.c\<close> and the EAP peer of \<open>eap.c\<close> together: the properties of the
  controlled port with the EAP machine behind it, the agreement of the two on the variables they
  share, and what happens when the authenticator never answers.
\<close>

section \<open>The shared variables agree\<close>

lemma view_set_bool:
  "eapol_view (eapol_sm_set_bool x b sm) = (eapol_view sm)\<lparr>vbool := (vbool (eapol_view sm))(x := b)\<rparr>"
proof -
  have "eapol_sm_get_bool (eapol_sm_set_bool x b sm) y = ((eapol_sm_get_bool sm)(x := b)) y" for y
    by (cases x; cases y) simp_all
  then have "eapol_sm_get_bool (eapol_sm_set_bool x b sm) = (eapol_sm_get_bool sm)(x := b)" by (rule ext)
  moreover have "eapol_sm_get_int (eapol_sm_set_bool x b sm) = eapol_sm_get_int sm"
    by (rule ext, rename_tac y, case_tac y, cases x) simp_all
  moreover have "eapReqData (eapol_sm_set_bool x b sm) = eapReqData sm" by (cases x) simp_all
  ultimately show ?thesis by (simp add: eapol_view_def eapol_sm_get_eapReqData_def)
qed

lemma view_set_int:
  "eapol_view (eapol_sm_set_int C x n sm) = (eapol_view sm)\<lparr>vint := (vint (eapol_view sm))(x := n)\<rparr>"
proof -
  have "eapol_sm_get_bool (eapol_sm_set_int C x n sm) y = eapol_sm_get_bool sm y" for y
    by (cases x; cases y) (simp_all add: Let_def eapol_enable_timer_tick_def)
  then have "eapol_sm_get_bool (eapol_sm_set_int C x n sm) = eapol_sm_get_bool sm" by (rule ext)
  moreover have "eapol_sm_get_int (eapol_sm_set_int C x n sm) = (eapol_sm_get_int sm)(x := n)"
    by (rule ext, rename_tac y, case_tac y, cases x) (simp_all add: Let_def eapol_enable_timer_tick_def)
  moreover have "eapReqData (eapol_sm_set_int C x n sm) = eapReqData sm"
    by (cases x) (simp add: Let_def eapol_enable_timer_tick_def)
  ultimately show ?thesis by (simp add: eapol_view_def eapol_sm_get_eapReqData_def)
qed

lemma view_eap [simp]: "eapol_view (sm\<lparr>eap := e\<rparr>) = eapol_view sm" "eapol_view (sm\<lparr>changed := b\<rparr>) = eapol_view sm"
proof -
  have "eapol_sm_get_bool (sm\<lparr>eap := e\<rparr>) y = eapol_sm_get_bool sm y"
    "eapol_sm_get_bool (sm\<lparr>changed := b\<rparr>) y = eapol_sm_get_bool sm y" for y
    by (cases y; simp)+
  moreover have "eapol_sm_get_int (sm\<lparr>eap := e\<rparr>) y = eapol_sm_get_int sm y"
    "eapol_sm_get_int (sm\<lparr>changed := b\<rparr>) y = eapol_sm_get_int sm y" for y
    by (cases y; simp)+
  ultimately show "eapol_view (sm\<lparr>eap := e\<rparr>) = eapol_view sm" "eapol_view (sm\<lparr>changed := b\<rparr>) = eapol_view sm"
    by (simp_all add: eapol_view_def eapol_sm_get_eapReqData_def fun_eq_iff)
qed

lemma view_of_writes:
  "writes s s' \<Longrightarrow> eapol_view (fold (eap_callback C) (snd s) sm) = fst s \<Longrightarrow>
   eapol_view (fold (eap_callback C) (snd s') sm) = fst s'"
  by (induction rule: writes.induct) (simp_all add: view_set_bool view_set_int)

lemma run_peer_view:
  assumes "peer C = eap_peer_of E"
  shows "ev (eap (run_peer C sm)) = eapol_view (run_peer C sm)"
proof -
  let ?e = "(eap sm)\<lparr>ev := eapol_view sm, calls := []\<rparr>"
  obtain res e where st: "eap_step_loop E False ?e = (res, e)" by (cases "eap_step_loop E False ?e")
  have view: "eapol_view (fold (eap_callback C) (calls e) (sm\<lparr>eap := e\<rparr>)) = ev e"
    using view_of_writes [OF writes_loop [OF st writes.none], of C "sm\<lparr>eap := e\<rparr>"] by (simp add: shared_def)
  have eap: "eap (fold (eap_callback C) cs t) = eap t" for cs and t :: "'a eap_sm eapol_sm"
  proof (induction cs arbitrary: t)
    case (Cons c cs)
    have "eap (eap_callback C c t) = eap t"
    proof (cases c)
      case (Set_Bool v b)
      then show ?thesis by (cases v) simp_all
    next
      case (Set_Int v n)
      then show ?thesis by (cases v) (simp add: Let_def eapol_enable_timer_tick_def)
    qed
    with Cons show ?case by simp
  qed simp
  have "run_peer C sm = (let t = fold (eap_callback C) (calls e) (sm\<lparr>eap := e\<rparr>) in if res then t\<lparr>changed := True\<rparr> else t)"
    using assms by (simp add: run_peer_def eap_peer_of_def eap_peer_sm_step_impl_def st eap_result_def Let_def)
  with view show ?thesis by (simp add: eap Let_def)
qed

section \<open>An example to evaluate\<close>

definition example_env :: "unit eap_env" where
  "example_env =
     \<lparr>methods = [],
      config = Some \<lparr>identity = Some [117, 115, 101, 114], anonymous_identity = None, pcsc = False, phase1 = None,
                     eap_methods = None, pending_req = False\<rparr>,
      sha1 = \<lambda>d. [], alloc_e = \<lambda>n. True\<rparr>"

abbreviation example_supp :: "unit eap_sm eapol_ctx" where
  "example_supp \<equiv> example_ctx (eap_peer_of example_env)"

definition example_start :: "unit eap_sm eapol_sm" where
  "example_start = the (eapol_sm_init example_supp (Some eap_peer_sm_init))"

lemma example_start_reachable: "eapol_reachable example_supp example_start"
proof -
  have "eapol_sm_init example_supp (Some eap_peer_sm_init) = Some example_start"
    by (simp add: example_start_def eapol_sm_init_def Let_def del: step_loop.simps)
  then show ?thesis by (rule eapol_reachable.init)
qed

section \<open>Properties of the controlled port\<close>

text \<open>C7: In every state that the supplicant can reach, the controlled port is open only while the PAE
  machine is connecting, authenticating, authenticated or restarting (a reauthentication keeps it
  open) or is forced open; it is open in AUTHENTICATED and S_FORCE_AUTH; and what the driver was
  told last is the state of the port.\<close>

theorem port_follows_state:
  assumes "eapol_reachable C sm"
  shows "(suppPortStatus sm = Authorized \<longrightarrow> SUPP_PAE_state sm \<in> {SUPP_PAE_CONNECTING,
      SUPP_PAE_AUTHENTICATING, SUPP_PAE_AUTHENTICATED, SUPP_PAE_RESTART, SUPP_PAE_S_FORCE_AUTH}) \<and>
    (SUPP_PAE_state sm \<in> {SUPP_PAE_AUTHENTICATED, SUPP_PAE_S_FORCE_AUTH} \<longrightarrow> suppPortStatus sm = Authorized) \<and>
    (has_port_cb C \<longrightarrow> driver_port (outs sm) = Some (suppPortStatus sm = Authorized))"
  using port_ok_reachable [OF assms] by (simp add: port_ok_def open_states_def)

theorem port_follows_state_witness:
  "suppPortStatus example_start = Unauthorized \<and> driver_port (outs example_start) = Some False"
proof -
  have "SUPP_PAE_state example_start = SUPP_PAE_DISCONNECTED" by code_simp
  with port_follows_state [OF example_start_reachable] show ?thesis
    by (cases "suppPortStatus example_start") auto
qed

text \<open>C8: Once the lower layer has disabled the port, whatever happens next short of enabling it again
  (frames, timers, notifications, forced port control) leaves the controlled port closed and the
  driver told so, and no frame is sent.\<close>

theorem disabled_port_closed:
  assumes "eapol_reachable C sm" "peer C = eap_peer_of E" "\<forall>x\<in>set evs. x \<noteq> Port_Enabled True"
    and "sm' = fold (eapol_handle C) (Port_Enabled False # evs) sm"
  shows "\<not> portEnabled sm' \<and> suppPortStatus sm' = Unauthorized \<and>
    (has_port_cb C \<longrightarrow> driver_port (outs sm') = Some False) \<and> frames_sent (outs sm') = frames_sent (outs sm)"
  using eap_machine.disabled_stays_closed [OF assms(2) port_ok_reachable [OF assms(1)] assms(3)]
  unfolding assms(4) by (auto simp: closed_def port_ok_def)

theorem disabled_port_closed_witness:
  "suppPortStatus (fold (eapol_handle example_supp) [Port_Enabled False, Port_Control ForceAuthorized, Timer_Tick]
     example_start) = Unauthorized"
  using disabled_port_closed [OF example_start_reachable, of example_env "[Port_Control ForceAuthorized, Timer_Tick]"]
  by simp

text \<open>C12: As long as the event loop takes every timeout that is registered, the timer tick is never lost and never
  doubled: in every reachable state the event loop holds exactly one tick timeout if the tick is enabled and none
  otherwise, and it is enabled whenever one of the four timers is running. (A registration that fails for lack of memory
  does lose the tick: the code only notes that it is disabled.)\<close>

theorem timers_never_stall:
  assumes "eapol_reachable C sm" "peer C = eap_peer_of E" "eloop_register C"
  shows "ticks sm = (if timer_tick_enabled sm then 1 else 0) \<and>
    (authWhile sm \<noteq> 0 \<or> heldWhile sm \<noteq> 0 \<or> startWhen sm \<noteq> 0 \<or> idleWhile sm \<noteq> 0 \<longrightarrow> ticks sm = 1)"
  using eap_machine.timers_ok_reachable [OF assms(2,3,1)] by (auto simp: timers_ok_def tick_ok_def timers_running_iff)

theorem timers_never_stall_witness:
  "ticks (eapol_handle example_supp (Port_Enabled True) example_start) = 1"
proof -
  let ?sm = "eapol_handle example_supp (Port_Enabled True) example_start"
  have "eapol_reachable example_supp ?sm"
    by (rule eapol_reachable.trans [OF example_start_reachable eapol_trans.event]) simp
  from timers_never_stall [OF this, of example_env, OF example_simps(1) example_simps(5)]
  have "startWhen ?sm \<noteq> 0 \<longrightarrow> ticks ?sm = 1" by blast
  moreover have "startWhen ?sm \<noteq> 0" by code_simp
  ultimately show ?thesis by blast
qed

text \<open>C9: A closed port opens only in three ways, and never while it is disabled: port control forces
  it; EAP succeeded and the keys are in place (or none are required on a plaintext connection);
  or all EAPOL-Start frames stayed unanswered and the keys are in place.\<close>

theorem port_opens_only:
  assumes "suppPortStatus sm = Unauthorized" "suppPortStatus (eapol_round C sm) = Authorized"
  shows "portEnabled sm \<and> \<not> initialize sm \<and>
    (portControl sm = ForceAuthorized \<or>
     SUPP_PAE_state sm = SUPP_PAE_AUTHENTICATING \<and> eapSuccess sm \<and>
       (portValid sm \<or> accept_802_1x_keys (conf sm) \<and> required_keys (conf sm) = 0) \<or>
     SUPP_PAE_state sm = SUPP_PAE_CONNECTING \<and> startWhen sm = 0 \<and> startCount sm \<ge> maxStart sm \<and> portValid sm)"
proof -
  have opened: "suppPortStatus (SUPP_PAE_Step C (sm\<lparr>changed := False\<rparr>)) = Authorized"
    using assms(2) port_view_round [of C sm] by (simp add: port_view_def)
  define t where "t = sm\<lparr>changed := False\<rparr>"
  have closed: "suppPortStatus t = Unauthorized" using assms(1) by (simp add: t_def)
  have enters: "suppPortStatus (SUPP_PAE_LOGOFF_Enter C g u) = Unauthorized"
    "suppPortStatus (SUPP_PAE_DISCONNECTED_Enter C g u) = Unauthorized"
    "suppPortStatus (SUPP_PAE_HELD_Enter C g u) = Unauthorized"
    "suppPortStatus (SUPP_PAE_S_FORCE_UNAUTH_Enter C g u) = Unauthorized"
    "suppPortStatus (SUPP_PAE_CONNECTING_Enter C g u) = suppPortStatus u"
    "suppPortStatus (SUPP_PAE_AUTHENTICATING_Enter g u) = suppPortStatus u"
    "suppPortStatus (SUPP_PAE_RESTART_Enter g u) = suppPortStatus u"
    "suppPortStatus (plaintext_valid C u) = suppPortStatus u" for g u
    by (simp_all add: eapol_enters plaintext_valid_def)
  have plain: "eapSuccess (plaintext_valid C u) = eapSuccess u"
    "portValid (plaintext_valid C u) \<longrightarrow>
       portValid u \<or> accept_802_1x_keys (conf u) \<and> required_keys (conf u) = 0" for u
    by (simp_all add: plaintext_valid_def emit_def Let_def)
  have "portEnabled t \<and> \<not> initialize t \<and>
    (portControl t = ForceAuthorized \<or>
     SUPP_PAE_state t = SUPP_PAE_AUTHENTICATING \<and> eapSuccess t \<and>
       (portValid t \<or> accept_802_1x_keys (conf t) \<and> required_keys (conf t) = 0) \<or>
     SUPP_PAE_state t = SUPP_PAE_CONNECTING \<and> startWhen t = 0 \<and> startCount t \<ge> maxStart t \<and> portValid t)"
    using opened closed plain [of t] unfolding t_def [symmetric] SUPP_PAE_Step_def
    by (cases "SUPP_PAE_state t") (auto simp: enters Let_def split: if_splits)
  then show ?thesis by (simp add: t_def)
qed

theorem port_opens_only_witness:
  "portValid (example_start\<lparr>SUPP_PAE_state := SUPP_PAE_AUTHENTICATING, portEnabled := True, eapSuccess := True,
     portValid := True\<rparr>) \<and>
   suppPortStatus (eapol_round example_supp (example_start\<lparr>SUPP_PAE_state := SUPP_PAE_AUTHENTICATING,
     portEnabled := True, eapSuccess := True, portValid := True\<rparr>)) = Authorized"
proof -
  let ?sm = "example_start\<lparr>SUPP_PAE_state := SUPP_PAE_AUTHENTICATING, portEnabled := True, eapSuccess := True,
     portValid := True\<rparr>"
  have "suppPortStatus ?sm = Unauthorized" "suppPortStatus (eapol_round example_supp ?sm) = Authorized"
    by code_simp+
  with port_opens_only [OF this] show ?thesis by simp
qed

text \<open>C14: The EAPOL machines and the EAP peer agree on the variables they share: after every round of
  the machines, what the EAP peer left in its variables is what the EAPOL machines read.\<close>

theorem machines_share_variables:
  assumes "peer C = eap_peer_of E"
  shows "ev (eap (eapol_round C sm)) = eapol_view (eapol_round C sm)"
  unfolding eapol_round_def by (rule run_peer_view [OF assms])

theorem machines_share_variables_witness:
  "vint (ev (eap (eapol_round example_supp (example_start\<lparr>portEnabled := True\<rparr>)))) EAPOL_idleWhile = 60"
proof -
  have "idleWhile (eapol_round example_supp (example_start\<lparr>portEnabled := True\<rparr>)) = 60" by code_simp
  with machines_share_variables [of example_supp example_env "example_start\<lparr>portEnabled := True\<rparr>", OF example_simps(1)]
  show ?thesis by (simp add: eapol_view_def)
qed

end
