(* ===== verification/Eapol_Live.thy ===== *)
theory Eapol_Live
  imports Eapol_Eap
begin

text \<open>
  The supplicant of \<open>eapol_supp_sm.c\<close> and \<open>eap.c\<close> in front of an authenticator that never answers.
  \<open>waiting\<close> are the states in which it has asked and nothing else is going on; every tick of the
  timer counts down, sends the next EAPOL-Start, or ends in HELD.
\<close>

section \<open>The EAP peer on its own\<close>

definition peer_rest :: "'p eap_sm \<Rightarrow> eap_vars \<Rightarrow> bool" where
  "peer_rest e v \<longleftrightarrow> vbool v EAPOL_portEnabled \<and> \<not> vbool v EAPOL_eapRestart \<and> \<not> vbool v EAPOL_eapReq \<and>
     \<not> vbool v EAPOL_altAccept \<and> \<not> vbool v EAPOL_altReject \<and> \<not> force_disabled e \<and> num_rounds e \<le> 50"

abbreviation at_rest :: "'p eap_sm \<Rightarrow> eap_vars \<Rightarrow> 'p eap_sm" where
  "at_rest e v \<equiv> e\<lparr>ev := v, calls := [], changed_e := False\<rparr>"

lemma peer_idle:
  assumes "peer_rest e v" "EAP_state e = EAP_IDLE" "decision e = DECISION_FAIL" "vint v EAPOL_idleWhile \<noteq> 0"
  shows "eap_peer_sm_step_impl E e v = (at_rest e v, [], False)"
proof -
  have "EAP_Step E (at_rest e v) = at_rest e v"
    using assms by (simp add: EAP_Step_def eap_peer_sm_step_idle_def peer_rest_def eapol_get_bool_def eapol_get_int_def)
  then show ?thesis by (simp add: eap_peer_sm_step_impl_def step_loop_still)
qed

lemma peer_failed:
  assumes "peer_rest e v" "EAP_state e = EAP_FAILURE"
  shows "eap_peer_sm_step_impl E e v = (at_rest e v, [], False)"
proof -
  have "EAP_Step E (at_rest e v) = at_rest e v"
    using assms by (simp add: EAP_Step_def peer_rest_def eapol_get_bool_def)
  then show ?thesis by (simp add: eap_peer_sm_step_impl_def step_loop_still)
qed

lemma peer_gives_up:
  assumes "peer_rest e v" "EAP_state e = EAP_IDLE" "decision e = DECISION_FAIL" "vint v EAPOL_idleWhile = 0"
  shows "\<exists>e'. eap_peer_sm_step_impl E e v =
      (e', [Set_Bool EAPOL_eapFail True, Set_Bool EAPOL_eapReq False, Set_Bool EAPOL_eapNoResp True], True) \<and>
    EAP_state e' = EAP_FAILURE \<and> num_rounds e' = num_rounds e \<and> force_disabled e' = force_disabled e"
proof -
  let ?t = "EAP_FAILURE_Enter False (at_rest e v)"
  have s1: "EAP_Step E (at_rest e v) = ?t"
    using assms by (simp add: EAP_Step_def eap_peer_sm_step_idle_def peer_rest_def eapol_get_bool_def eapol_get_int_def)
  have ch: "changed_e ?t" by (simp add: EAP_FAILURE_Enter_def EAP_ENTRY_def eapol_set_bool_def Let_def)
  have s2: "EAP_Step E (?t\<lparr>changed_e := False\<rparr>) = ?t\<lparr>changed_e := False\<rparr>"
    using assms(1) by (simp add: EAP_Step_def peer_rest_def eapol_get_bool_def EAP_FAILURE_Enter_def EAP_ENTRY_def
        eapol_set_bool_def Let_def)
  have "eap_step_loop E False (e\<lparr>ev := v, calls := []\<rparr>) = (True, ?t\<lparr>changed_e := False\<rparr>)"
    using step_loop_more [of E "e\<lparr>ev := v, calls := []\<rparr>" False] step_loop_still [of E ?t True] ch s1 s2 by simp
  then show ?thesis
    by (simp add: eap_peer_sm_step_impl_def EAP_FAILURE_Enter_def EAP_ENTRY_def eapol_set_bool_def Let_def)
qed

section \<open>Rounds\<close>

definition quiet :: "'p eap_sm eapol_ctx \<Rightarrow> 'p eap_env \<Rightarrow> 'p eap_sm eapol_sm \<Rightarrow> bool" where
  "quiet C E sm \<longleftrightarrow> peer C = eap_peer_of E \<and> eloop_register C \<and> portEnabled sm \<and> \<not> initialize sm \<and>
     \<not> userLogoff sm \<and> portControl sm = Auto \<and> sPortMode sm = Auto \<and> \<not> rxKey sm \<and> \<not> suppAbort sm \<and>
     \<not> eapolEap sm \<and> \<not> portValid sm \<and> KEY_RX_state sm = KEY_RX_NO_KEY_RECEIVE \<and> \<not> eapSuccess sm \<and>
     \<not> eapTriggerStart sm \<and> suppPortStatus sm = Unauthorized \<and> heldPeriod sm \<noteq> 0 \<and> startPeriod sm \<noteq> 0 \<and>
     \<not> keyDone sm \<and> \<not> suppTimeout sm \<and>
     peer_rest (eap sm) (eapol_view sm)"

lemma quiet_frame:
  assumes "quiet C E sm"
  shows "SUPP_PAE_Step C (sm\<lparr>changed := b\<rparr>) = PAE_local C (SUPP_PAE_state sm) (sm\<lparr>changed := b\<rparr>)"
    "KEY_RX_Step C sm = sm" "SUPP_BE_Step C sm = BE_local C (SUPP_BE_state sm) sm"
  using assms by (simp_all add: quiet_def SUPP_PAE_Step_def KEY_RX_Step_def SUPP_BE_Step_def)

definition settle :: "'p eap_sm eapol_sm \<Rightarrow> 'p eap_sm eapol_sm" where
  "settle sm = sm\<lparr>changed := False, eap := at_rest (eap sm) (eapol_view sm)\<rparr>"

lemma run_peer_still:
  assumes "peer C = eap_peer_of E" "eap_peer_sm_step_impl E (eap sm) (eapol_view sm) = (e, [], False)"
  shows "run_peer C sm = sm\<lparr>eap := e\<rparr>"
  using assms by (simp add: run_peer_def eap_peer_of_def eap_result_def Let_def)

lemma quiet_round:
  assumes "quiet C E sm" "s1 = PAE_local C (SUPP_PAE_state sm) (sm\<lparr>changed := False\<rparr>)" "quiet C E s1"
  shows "eapol_round C sm = run_peer C (BE_local C (SUPP_BE_state s1) s1)"
  using assms by (simp add: eapol_round_def quiet_frame)

definition due :: "'p eap_sm eapol_ctx \<Rightarrow> 'p eap_env \<Rightarrow> 'p eap_sm eapol_sm \<Rightarrow> bool" where
  "due C E sm \<longleftrightarrow> quiet C E sm \<and> SUPP_PAE_state sm = SUPP_PAE_CONNECTING \<and> SUPP_BE_state sm = SUPP_BE_IDLE \<and>
     \<not> suppStart sm \<and> \<not> eapFail sm \<and> EAP_state (eap sm) = EAP_IDLE \<and> decision (eap sm) = DECISION_FAIL"

definition waiting :: "'p eap_sm eapol_ctx \<Rightarrow> 'p eap_env \<Rightarrow> 'p eap_sm eapol_sm \<Rightarrow> bool" where
  "waiting C E sm \<longleftrightarrow> due C E sm \<and> startWhen sm \<noteq> 0 \<and> idleWhile sm \<noteq> 0"

text \<open>Held, and failing: EAP has given up and the PAE machine is about to notice.\<close>

definition held :: "'p eap_sm eapol_ctx \<Rightarrow> 'p eap_env \<Rightarrow> 'p eap_sm eapol_sm \<Rightarrow> bool" where
  "held C E sm \<longleftrightarrow> quiet C E sm \<and> SUPP_PAE_state sm = SUPP_PAE_HELD \<and> heldWhile sm \<noteq> 0 \<and>
     SUPP_BE_state sm = SUPP_BE_IDLE \<and> \<not> suppStart sm \<and>
     (EAP_state (eap sm) = EAP_IDLE \<and> decision (eap sm) = DECISION_FAIL \<and> idleWhile sm \<noteq> 0 \<or>
      EAP_state (eap sm) = EAP_FAILURE)"

definition failing :: "'p eap_sm eapol_ctx \<Rightarrow> 'p eap_env \<Rightarrow> 'p eap_sm eapol_sm \<Rightarrow> bool" where
  "failing C E sm \<longleftrightarrow> quiet C E sm \<and> SUPP_PAE_state sm = SUPP_PAE_CONNECTING \<and> startWhen sm \<noteq> 0 \<and> eapFail sm \<and>
     SUPP_BE_state sm = SUPP_BE_IDLE \<and> \<not> suppStart sm \<and> EAP_state (eap sm) = EAP_FAILURE"

definition failed :: "'p eap_sm eapol_ctx \<Rightarrow> 'p eap_env \<Rightarrow> 'p eap_sm eapol_sm \<Rightarrow> bool" where
  "failed C E sm \<longleftrightarrow> quiet C E sm \<and> SUPP_PAE_state sm = SUPP_PAE_AUTHENTICATING \<and> eapFail sm \<and>
     SUPP_BE_state sm = SUPP_BE_FAIL \<and> EAP_state (eap sm) = EAP_FAILURE"

lemma view_fields [simp]:
  "vbool (eapol_view sm) EAPOL_eapSuccess = eapSuccess sm"
  "vbool (eapol_view sm) EAPOL_eapRestart = eapRestart sm"
  "vbool (eapol_view sm) EAPOL_eapFail = eapFail sm"
  "vbool (eapol_view sm) EAPOL_eapResp = eapResp sm"
  "vbool (eapol_view sm) EAPOL_eapNoResp = eapNoResp sm"
  "vbool (eapol_view sm) EAPOL_eapReq = eapReq sm"
  "vbool (eapol_view sm) EAPOL_portEnabled = portEnabled sm"
  "vbool (eapol_view sm) EAPOL_altAccept = altAccept sm"
  "vbool (eapol_view sm) EAPOL_altReject = altReject sm"
  "vbool (eapol_view sm) EAPOL_eapTriggerStart = eapTriggerStart sm"
  "vint (eapol_view sm) EAPOL_idleWhile = idleWhile sm"
  by (simp_all add: eapol_view_def)


lemma round_waiting: "waiting C E sm \<Longrightarrow> eapol_round C sm = settle sm"
proof -
  assume w: "waiting C E sm"
  have q: "quiet C E (sm\<lparr>changed := False\<rparr>)" using w by (simp add: waiting_def due_def quiet_def)
  have "eapol_round C sm = run_peer C (sm\<lparr>changed := False\<rparr>)"
    using quiet_round [OF _ refl, of C E sm] q w by (simp add: waiting_def due_def quiet_def)
  also have "\<dots> = settle sm"
    using run_peer_still [of C E "sm\<lparr>changed := False\<rparr>"] peer_idle [of "eap sm" "eapol_view sm" E] w
    by (simp add: waiting_def due_def quiet_def settle_def peer_rest_def)
  finally show ?thesis .
qed

lemma round_held: "held C E sm \<Longrightarrow> eapol_round C sm = settle sm"
proof -
  assume w: "held C E sm"
  have q: "quiet C E (sm\<lparr>changed := False\<rparr>)" using w by (simp add: held_def quiet_def)
  have "eapol_round C sm = run_peer C (sm\<lparr>changed := False\<rparr>)"
    using quiet_round [OF _ refl, of C E sm] q w by (simp add: held_def quiet_def)
  also have "\<dots> = settle sm"
    using run_peer_still [of C E "sm\<lparr>changed := False\<rparr>"] peer_idle [of "eap sm" "eapol_view sm" E]
      peer_failed [of "eap sm" "eapol_view sm" E] w
    by (auto simp: held_def quiet_def settle_def peer_rest_def)
  finally show ?thesis .
qed


lemma round_start:
  assumes "due C E sm" "startWhen sm = 0" "startCount sm < maxStart sm" "idleWhile sm \<noteq> 0"
  shows "waiting C E (eapol_round C sm)" "changed (eapol_round C sm)"
    "idleWhile (eapol_round C sm) = idleWhile sm"
    "frames_sent (outs (eapol_round C sm)) = frames_sent (outs sm) @ [(IEEE802_1X_TYPE_EAPOL_START, [])]"
proof -
  define s1 where "s1 = SUPP_PAE_CONNECTING_Enter C False (sm\<lparr>changed := False\<rparr>)"
  note d = assms(1) [unfolded due_def quiet_def peer_rest_def] assms(2-4)
  have s1: "quiet C E s1" "SUPP_PAE_state s1 = SUPP_PAE_CONNECTING" "SUPP_BE_state s1 = SUPP_BE_IDLE"
    "\<not> suppStart s1" "\<not> eapFail s1" "startWhen s1 \<noteq> 0" "idleWhile s1 = idleWhile sm" "eap s1 = eap sm"
    "changed s1"
    "frames_sent (outs s1) = frames_sent (outs sm) @ [(IEEE802_1X_TYPE_EAPOL_START, [])]"
    using d by (simp_all add: s1_def eapol_enters quiet_def peer_rest_def)
  have "eapol_round C sm = run_peer C s1"
    using quiet_round [OF _ _ s1(1), of sm] assms(1) d s1 by (simp add: due_def s1_def)
  also have "\<dots> = s1\<lparr>eap := at_rest (eap s1) (eapol_view s1)\<rparr>"
    using run_peer_still [of C E s1] peer_idle [of "eap s1" "eapol_view s1" E] s1 d
    by (simp add: quiet_def)
  finally have r: "eapol_round C sm = s1\<lparr>eap := at_rest (eap s1) (eapol_view s1)\<rparr>" .
  show "waiting C E (eapol_round C sm)" unfolding r using s1 d
    by (simp add: waiting_def due_def quiet_def peer_rest_def)
  show "changed (eapol_round C sm)"
    "idleWhile (eapol_round C sm) = idleWhile sm"
    "frames_sent (outs (eapol_round C sm)) = frames_sent (outs sm) @ [(IEEE802_1X_TYPE_EAPOL_START, [])]"
    unfolding r using s1 by simp_all
qed

lemma round_held_start:
  assumes "due C E sm" "startWhen sm = 0" "startCount sm \<ge> maxStart sm" "idleWhile sm \<noteq> 0"
  shows "held C E (eapol_round C sm)" "changed (eapol_round C sm)"
proof -
  define s1 where "s1 = SUPP_PAE_HELD_Enter C False (sm\<lparr>changed := False\<rparr>)"
  note d = assms(1) [unfolded due_def quiet_def peer_rest_def] assms(2-4)
  have s1: "quiet C E s1" "SUPP_PAE_state s1 = SUPP_PAE_HELD" "SUPP_BE_state s1 = SUPP_BE_IDLE"
    "\<not> suppStart s1" "heldWhile s1 \<noteq> 0" "idleWhile s1 = idleWhile sm" "eap s1 = eap sm" "changed s1"
    using d by (simp_all add: s1_def eapol_enters quiet_def peer_rest_def)
  have "eapol_round C sm = run_peer C s1"
    using quiet_round [OF _ _ s1(1), of sm] assms(1,3) d s1 by (simp add: due_def s1_def not_less)
  also have "\<dots> = s1\<lparr>eap := at_rest (eap s1) (eapol_view s1)\<rparr>"
    using run_peer_still [of C E s1] peer_idle [of "eap s1" "eapol_view s1" E] s1 d
    by (simp add: quiet_def)
  finally have r: "eapol_round C sm = s1\<lparr>eap := at_rest (eap s1) (eapol_view s1)\<rparr>" .
  show "held C E (eapol_round C sm)" unfolding r using s1 d
    by (simp add: held_def quiet_def peer_rest_def)
  show "changed (eapol_round C sm)" unfolding r using s1 by simp
qed

text \<open>The EAP peer's own timeout, in whatever state the round has brought the PAE machine to.\<close>

lemma run_peer_gives_up:
  assumes "quiet C E sm" "EAP_state (eap sm) = EAP_IDLE" "decision (eap sm) = DECISION_FAIL" "idleWhile sm = 0"
  shows "\<exists>e. run_peer C sm = sm\<lparr>eap := e, eapFail := True, eapReq := False, eapNoResp := True, changed := True\<rparr> \<and>
    EAP_state e = EAP_FAILURE \<and> num_rounds e = num_rounds (eap sm) \<and> force_disabled e = force_disabled (eap sm)"
proof -
  from assms peer_gives_up [of "eap sm" "eapol_view sm" E] obtain e where e:
    "eap_peer_sm_step_impl E (eap sm) (eapol_view sm) =
      (e, [Set_Bool EAPOL_eapFail True, Set_Bool EAPOL_eapReq False, Set_Bool EAPOL_eapNoResp True], True)"
    "EAP_state e = EAP_FAILURE" "num_rounds e = num_rounds (eap sm)" "force_disabled e = force_disabled (eap sm)"
    by (auto simp: quiet_def)
  with assms(1) show ?thesis
    by (intro exI [of _ e]) (simp add: run_peer_def quiet_def eap_peer_of_def eap_result_def Let_def)
qed

lemma round_gives_up:
  assumes "due C E sm" "idleWhile sm = 0"
  shows "changed (eapol_round C sm)" "failing C E (eapol_round C sm) \<or> held C E (eapol_round C sm)"
proof -
  define s1 where "s1 = PAE_local C SUPP_PAE_CONNECTING (sm\<lparr>changed := False\<rparr>)"
  note d = assms(1) [unfolded due_def quiet_def peer_rest_def] assms(2)
  have s1: "quiet C E s1" "SUPP_BE_state s1 = SUPP_BE_IDLE" "\<not> suppStart s1" "idleWhile s1 = 0" "eap s1 = eap sm"
    "SUPP_PAE_state s1 = SUPP_PAE_CONNECTING \<and> startWhen s1 \<noteq> 0 \<or> SUPP_PAE_state s1 = SUPP_PAE_HELD \<and> heldWhile s1 \<noteq> 0"
    using d by (auto simp: s1_def eapol_enters quiet_def peer_rest_def not_less)
  have r: "eapol_round C sm = run_peer C s1"
    using quiet_round [OF _ _ s1(1), of sm] assms(1) d s1 by (simp add: due_def s1_def)
  obtain e where e: "run_peer C s1 = s1\<lparr>eap := e, eapFail := True, eapReq := False, eapNoResp := True, changed := True\<rparr>"
    "EAP_state e = EAP_FAILURE" "num_rounds e = num_rounds (eap sm)" "force_disabled e = force_disabled (eap sm)"
    using run_peer_gives_up [of C E s1] s1 d by auto
  show "changed (eapol_round C sm)" by (simp add: r e)
  show "failing C E (eapol_round C sm) \<or> held C E (eapol_round C sm)"
    using s1 e(2-) unfolding r e(1) by (auto simp: failing_def held_def quiet_def peer_rest_def)
qed

lemma round_failing:
  assumes "failing C E sm"
  shows "changed (eapol_round C sm)" "failed C E (eapol_round C sm)"
proof -
  define s1 where "s1 = SUPP_PAE_AUTHENTICATING_Enter False (sm\<lparr>changed := False\<rparr>)"
  define s2 where "s2 = SUPP_BE_FAIL_Enter False s1"
  note d = assms [unfolded failing_def quiet_def peer_rest_def]
  have s1: "quiet C E s1" "SUPP_BE_state s1 = SUPP_BE_IDLE" "suppStart s1" "eapFail s1"
    using d by (simp_all add: s1_def SUPP_PAE_AUTHENTICATING_Enter_def PAE_ENTRY_def quiet_def peer_rest_def)
  have s2: "quiet C E s2" "SUPP_PAE_state s2 = SUPP_PAE_AUTHENTICATING" "SUPP_BE_state s2 = SUPP_BE_FAIL"
    "eapFail s2" "eap s2 = eap sm" "changed s2"
    using d by (simp_all add: s2_def s1_def SUPP_BE_FAIL_Enter_def BE_ENTRY_def SUPP_PAE_AUTHENTICATING_Enter_def
        PAE_ENTRY_def quiet_def peer_rest_def)
  have "eapol_round C sm = run_peer C s2"
    using quiet_round [OF _ _ s1(1), of sm] assms d s1 by (simp add: failing_def s1_def s2_def)
  also have "\<dots> = s2\<lparr>eap := at_rest (eap s2) (eapol_view s2)\<rparr>"
    using run_peer_still [of C E s2] peer_failed [of "eap s2" "eapol_view s2" E] s2 d by (simp add: quiet_def)
  finally have r: "eapol_round C sm = s2\<lparr>eap := at_rest (eap s2) (eapol_view s2)\<rparr>" .
  show "changed (eapol_round C sm)" "failed C E (eapol_round C sm)"
    unfolding r using s2 d by (simp_all add: failed_def quiet_def peer_rest_def)
qed

lemma round_failed:
  assumes "failed C E sm"
  shows "changed (eapol_round C sm)" "held C E (eapol_round C sm)"
proof -
  define s1 where "s1 = SUPP_PAE_HELD_Enter C False (sm\<lparr>changed := False\<rparr>)"
  define s2 where "s2 = SUPP_BE_IDLE_Enter False s1"
  note d = assms [unfolded failed_def quiet_def peer_rest_def]
  have plain: "plaintext_valid C (sm\<lparr>changed := False\<rparr>) = sm\<lparr>changed := False\<rparr>"
    using d by (simp add: plaintext_valid_def)
  have s1: "quiet C E s1" "SUPP_BE_state s1 = SUPP_BE_FAIL"
    using d by (simp_all add: s1_def eapol_enters quiet_def peer_rest_def)
  have s2: "quiet C E s2" "SUPP_PAE_state s2 = SUPP_PAE_HELD" "SUPP_BE_state s2 = SUPP_BE_IDLE"
    "\<not> suppStart s2" "heldWhile s2 \<noteq> 0" "eap s2 = eap sm" "changed s2"
    using d by (simp_all add: s2_def s1_def SUPP_BE_IDLE_Enter_def BE_ENTRY_def eapol_enters quiet_def peer_rest_def)
  have "eapol_round C sm = run_peer C s2"
    using quiet_round [OF _ _ s1(1), of sm] assms d s1 by (simp add: failed_def s1_def s2_def plain Let_def)
  also have "\<dots> = s2\<lparr>eap := at_rest (eap s2) (eapol_view s2)\<rparr>"
    using run_peer_still [of C E s2] peer_failed [of "eap s2" "eapol_view s2" E] s2 d by (simp add: quiet_def)
  finally have r: "eapol_round C sm = s2\<lparr>eap := at_rest (eap s2) (eapol_view s2)\<rparr>" .
  show "changed (eapol_round C sm)" "held C E (eapol_round C sm)"
    unfolding r using s2 d by (simp_all add: held_def quiet_def peer_rest_def)
qed

section \<open>Steps and ticks\<close>

lemma loop_more: "changed (eapol_round C sm) \<Longrightarrow> step_loop C (Suc n) sm = step_loop C n (eapol_round C sm)"
  by simp

lemma loop_still: "\<not> changed (eapol_round C sm) \<Longrightarrow> step_loop C (Suc n) sm = eapol_round C sm"
  by (simp add: Let_def)

definition stops_in :: "('p eap_sm eapol_sm \<Rightarrow> bool) \<Rightarrow> 'p eap_sm eapol_ctx \<Rightarrow> nat \<Rightarrow> 'p eap_sm eapol_sm \<Rightarrow> bool" where
  "stops_in P C n sm \<longleftrightarrow> \<not> changed (step_loop C n sm) \<and> P (step_loop C n sm)"

lemma stops_more: "changed (eapol_round C sm) \<Longrightarrow> stops_in P C n (eapol_round C sm) \<Longrightarrow> stops_in P C (Suc n) sm"
  by (simp add: stops_in_def loop_more del: step_loop.simps)

lemma stops_held: "held C E sm \<Longrightarrow> stops_in (held C E) C (Suc n) sm"
  using round_held [of C E sm] loop_still [of C sm n]
  by (simp add: stops_in_def settle_def held_def quiet_def peer_rest_def del: step_loop.simps)

lemma stops_waiting: "waiting C E sm \<Longrightarrow>
    stops_in (\<lambda>t. waiting C E t \<and> idleWhile t = idleWhile sm) C (Suc n) sm"
  using round_waiting [of C E sm] loop_still [of C sm n]
  by (simp add: stops_in_def settle_def waiting_def due_def quiet_def peer_rest_def del: step_loop.simps)

lemma stops_failed: "failed C E sm \<Longrightarrow> stops_in (held C E) C (Suc (Suc n)) sm"
  by (intro stops_more stops_held round_failed)

lemma stops_failing: "failing C E sm \<Longrightarrow> stops_in (held C E) C (Suc (Suc (Suc n))) sm"
  by (intro stops_more stops_failed round_failing)

lemma stops_due:
  assumes "due C E sm"
  shows "stops_in (\<lambda>t. held C E t \<or> waiting C E t \<and> idleWhile t = idleWhile sm \<and> idleWhile sm \<noteq> 0) C
    (Suc (Suc (Suc (Suc n)))) sm"
proof -
  have weak: "stops_in P C m s \<Longrightarrow> (\<And>t. P t \<Longrightarrow> Q t) \<Longrightarrow> stops_in Q C m s" for P Q m s
    by (simp add: stops_in_def)
  consider "idleWhile sm = 0" | "idleWhile sm \<noteq> 0" "startWhen sm \<noteq> 0"
    | "idleWhile sm \<noteq> 0" "startWhen sm = 0" "startCount sm < maxStart sm"
    | "idleWhile sm \<noteq> 0" "startWhen sm = 0" "startCount sm \<ge> maxStart sm"
    by (meson not_less)
  then show ?thesis
  proof cases
    case 1
    with round_gives_up [OF assms] show ?thesis
      by (blast intro: stops_more weak [OF stops_held] weak [OF stops_failing])
  next
    case 2
    with assms show ?thesis by (intro weak [OF stops_waiting]) (auto simp: waiting_def)
  next
    case 3
    with round_start [OF assms 3(2,3,1)] show ?thesis
      by (intro stops_more weak [OF stops_waiting]) auto
  next
    case 4
    with round_held_start [OF assms 4(2,3,1)] show ?thesis
      by (intro stops_more weak [OF stops_held]) auto
  qed
qed

lemma step_ends:
  assumes "stops_in P C 100 sm"
  obtains t os c where "P t" "eapol_sm_step C sm = t\<lparr>outs := os, cb_status := c\<rparr>"
proof -
  define t where "t = step_loop C 100 sm"
  have t: "\<not> changed t" "P t" using assms by (simp_all add: stops_in_def t_def)
  have out: "eapol_sm_step C sm = t\<lparr>outs := outs (eapol_sm_step C sm), cb_status := cb_status (eapol_sm_step C sm)\<rparr>"
    unfolding eapol_sm_step_def t_def [symmetric] Let_def emit_def by (simp add: t(1))
  from that [OF t(2) out] show thesis .
qed

lemma step_due:
  assumes "due C E sm"
  shows "held C E (eapol_sm_step C sm) \<or>
    waiting C E (eapol_sm_step C sm) \<and> idleWhile (eapol_sm_step C sm) = idleWhile sm \<and> idleWhile sm \<noteq> 0"
proof -
  have "stops_in (\<lambda>t. held C E t \<or> waiting C E t \<and> idleWhile t = idleWhile sm \<and> idleWhile sm \<noteq> 0) C 100 sm"
  proof -
    have "Suc (Suc (Suc (Suc 96))) = 100" by simp
    with stops_due [OF assms, of 96] show ?thesis by metis
  qed
  from step_ends [OF this] obtain t os c where
    t: "held C E t \<or> waiting C E t \<and> idleWhile t = idleWhile sm \<and> idleWhile sm \<noteq> 0"
    and e: "eapol_sm_step C sm = t\<lparr>outs := os, cb_status := c\<rparr>" by blast
  show ?thesis using t unfolding e
    by (simp add: held_def waiting_def due_def quiet_def peer_rest_def eapol_view_def)
qed

lemma tick_waiting:
  assumes "waiting C E sm"
  shows "held C E (eapol_port_timers_tick C sm) \<or> waiting C E (eapol_port_timers_tick C sm) \<and>
    unat (idleWhile (eapol_port_timers_tick C sm)) < unat (idleWhile sm)"
proof -
  define s where "s = sm\<lparr>authWhile := count_down (authWhile sm), heldWhile := count_down (heldWhile sm),
      startWhen := count_down (startWhen sm), idleWhile := count_down (idleWhile sm), ticks := ticks sm - 1\<rparr>"
  have less: "unat (count_down (idleWhile sm)) < unat (idleWhile sm)"
    using assms 
    by (auto simp: waiting_def count_down_def unat_minus_one unat_gt_0 word_neq_0_conv [symmetric] diff_less)
  obtain b k where e: "eapol_port_timers_tick C sm = eapol_sm_step C (s\<lparr>timer_tick_enabled := b, ticks := k\<rparr>)"
  proof
    show "eapol_port_timers_tick C sm = eapol_sm_step C (s\<lparr>timer_tick_enabled := timer_tick_enabled s \<and> timers_running s,
        ticks := (if timers_running s then ticks s + 1 else ticks s)\<rparr>)"
      using assms unfolding eapol_port_timers_tick_def s_def [symmetric] Let_def
      by (simp add: waiting_def due_def quiet_def)
  qed
  have "due C E (s\<lparr>timer_tick_enabled := b, ticks := k\<rparr>)"
    using assms by (simp add: s_def waiting_def due_def quiet_def peer_rest_def eapol_view_def)
  from step_due [OF this] less show ?thesis unfolding e by (auto simp: s_def)
qed

text \<open>C11: an authenticator that never answers cannot keep the supplicant waiting: when it has sent its
  EAPOL-Start and every timer is running, at most \<open>idleWhile\<close> ticks of the timer bring it to HELD, with the
  port unauthorized and the hold timer running, whatever happens to the start timer on the way.\<close>

theorem unanswered_start_is_held:
  assumes "waiting C E sm"
  shows "\<exists>k\<le>unat (idleWhile sm). let s = (eapol_port_timers_tick C ^^ k) sm in
    SUPP_PAE_state s = SUPP_PAE_HELD \<and> suppPortStatus s = Unauthorized \<and> heldWhile s \<noteq> 0"
  using assms
proof (induction "unat (idleWhile sm)" arbitrary: sm rule: less_induct)
  case less
  from tick_waiting [OF less.prems] show ?case
  proof
    assume "held C E (eapol_port_timers_tick C sm)"
    moreover have "1 \<le> unat (idleWhile sm)" using less.prems by (simp add: waiting_def Suc_le_eq unat_gt_0)
    ultimately show ?thesis
      by (intro exI [of _ 1]) (simp add: held_def quiet_def)
  next
    assume w: "waiting C E (eapol_port_timers_tick C sm) \<and>
      unat (idleWhile (eapol_port_timers_tick C sm)) < unat (idleWhile sm)"
    from less.hyps [of "eapol_port_timers_tick C sm"] w obtain k where
      "k \<le> unat (idleWhile (eapol_port_timers_tick C sm))"
      "let s = (eapol_port_timers_tick C ^^ k) (eapol_port_timers_tick C sm) in
        SUPP_PAE_state s = SUPP_PAE_HELD \<and> suppPortStatus s = Unauthorized \<and> heldWhile s \<noteq> 0" by blast
    with w show ?thesis
      by (intro exI [of _ "Suc k"]) (simp add: funpow_swap1)
  qed
qed

abbreviation example_asking :: "unit eap_sm eapol_sm" where
  "example_asking \<equiv> eapol_handle example_supp (Port_Enabled True) example_start"

definition asks :: "'p eap_sm eapol_sm \<Rightarrow> bool" where
  "asks sm \<longleftrightarrow> portEnabled sm \<and> \<not> initialize sm \<and>
     \<not> userLogoff sm \<and> portControl sm = Auto \<and> sPortMode sm = Auto \<and> \<not> rxKey sm \<and> \<not> suppAbort sm \<and>
     \<not> eapolEap sm \<and> \<not> portValid sm \<and> KEY_RX_state sm = KEY_RX_NO_KEY_RECEIVE \<and> \<not> eapSuccess sm \<and>
     \<not> eapTriggerStart sm \<and> suppPortStatus sm = Unauthorized \<and> heldPeriod sm \<noteq> 0 \<and> startPeriod sm \<noteq> 0 \<and>
     \<not> keyDone sm \<and> \<not> suppTimeout sm \<and> \<not> eapRestart sm \<and> \<not> eapReq sm \<and> \<not> altAccept sm \<and>
     \<not> altReject sm \<and> \<not> force_disabled (eap sm) \<and> num_rounds (eap sm) \<le> 50 \<and>
     SUPP_PAE_state sm = SUPP_PAE_CONNECTING \<and> SUPP_BE_state sm = SUPP_BE_IDLE \<and>
     \<not> suppStart sm \<and> \<not> eapFail sm \<and> EAP_state (eap sm) = EAP_IDLE \<and>
     decision (eap sm) = DECISION_FAIL \<and> startWhen sm \<noteq> 0 \<and> idleWhile sm = 60"

lemma example_asks: "asks example_asking"
  by code_simp

lemma asks_waits: "asks sm \<Longrightarrow> peer C = eap_peer_of E \<Longrightarrow> eloop_register C \<Longrightarrow> waiting C E sm"
  by (simp add: asks_def waiting_def due_def quiet_def peer_rest_def)

theorem unanswered_start_is_held_witness:
  "\<exists>k\<le>60. SUPP_PAE_state ((eapol_port_timers_tick example_supp ^^ k) example_asking) = SUPP_PAE_HELD"
proof -
  have "unat (idleWhile example_asking) = 60" using example_asks by (simp add: asks_def)
  with unanswered_start_is_held [OF asks_waits [OF example_asks example_simps(1) example_simps(5)]]
  show ?thesis by (auto simp: Let_def)
qed

end
