(* ===== verification/Eap_Build.thy ===== *)
theory Eap_Build
  imports Eap_Peer
begin

text \<open>
  The responses that \<open>eap.c\<close> builds itself (Identity, Notification, Nak and expanded Nak): building
  them never runs over its buffer, and what they say. The header round trip of \<open>eap_common.c\<close>.
\<close>

section \<open>Messages\<close>

text \<open>A message built with \<open>eap_msg_alloc\<close> and filled with its payload is accepted by
  \<open>eap_hdr_validate\<close> for the type it was built with, which returns exactly the payload, and its code
  and identifier are the given ones; trailing bytes of the frame that carried it do not matter.\<close>

theorem eap_message_roundtrip:
  assumes "al (4 + type_size v + length d)" "4 + type_size v + length d < 2 ^ 16" "eap_type_ok v t"
  shows "\<exists>b b'. eap_msg_alloc al v t (length d) c i = Inr (Some b) \<and> wpabuf_put_data (Some d) b = Inr b' \<and>
    eap_hdr_validate v t (Some (wpabuf_head b' @ pad)) = Some d \<and>
    hd (wpabuf_head b') = c \<and> eap_get_id (wpabuf_head b') = i"
proof -
  have "length d < 2 ^ 30" using assms(2) by simp
  from eap_msg_alloc_ok [of al v "length d" t c i, OF assms(1) this] obtain b where
    b: "eap_msg_alloc al v t (length d) c i = Inr (Some b)" "wok b"
    "wpabuf_head b = eap_header c i (4 + type_size v + length d) v t" "wpabuf_tailroom b = length d"
    by blast
  from put_bytes_fits [OF b(2), of d] b(4) obtain b' where
    b': "put_bytes d b = Inr b'" "wpabuf_head b' = eap_header c i (4 + type_size v + length d) v t @ d"
    by (auto simp: b(3))
  show ?thesis
    using b(1) b' validate_header [OF assms(3,2), of c i pad]
    by (intro exI [of _ b] exI [of _ b'] conjI)
      (simp_all add: wpabuf_put_data_def eap_get_id_def, simp add: eap_header_def)
qed

theorem eap_message_roundtrip_witness:
  "eap_type_ok 0x372a 5 \<and> (\<exists>b b'. eap_msg_alloc (\<lambda>_. True) 0x372a 5 3 1 7 = Inr (Some b) \<and>
    wpabuf_put_data (Some [1, 2, 3]) b = Inr b' \<and>
    eap_hdr_validate 0x372a 5 (Some (wpabuf_head b' @ [0])) = Some [1, 2, 3])"
proof -
  have ok: "eap_type_ok 0x372a 5" by code_simp
  with eap_message_roundtrip [of "\<lambda>_. True" "0x372a" "[1, 2, 3]" 5 1 7 "[0]"] show ?thesis
    by (auto simp: type_size_def numeral_3_eq_3)
qed

text \<open>What \<open>eap_hdr_validate\<close> accepts lies inside the received bytes: the payload it returns is a
  contiguous part of the message behind the type, whatever the length fields say.\<close>

theorem eap_payload_inside:
  assumes "eap_hdr_validate v t msg = Some d"
  shows "\<exists>m p. msg = Some m \<and> 5 \<le> p \<and> p + length d \<le> length m \<and> d = take (length d) (drop p m)"
proof -
  from assms obtain m where m: "msg = Some m" "4 + 1 \<le> eap_len m" "eap_len m \<le> length m"
    by (auto simp: eap_hdr_validate_def eap_hdr_len_valid_def not_less split: if_splits option.splits)
  from assms m show ?thesis
    by (auto simp: eap_hdr_validate_def Let_def min_def split: if_splits intro: exI [of _ 5] exI [of _ 12])
qed

theorem eap_payload_inside_witness:
  "eap_hdr_validate 0 1 (Some [1, 9, 0, 7, 1, 65, 66, 0]) = Some [65, 66]"
proof -
  have e: "eap_hdr_validate 0 1 (Some [1, 9, 0, 7, 1, 65, 66, 0]) = Some [65, 66]" by code_simp
  from eap_payload_inside [OF this] e show ?thesis by simp
qed

section \<open>The Nak loops\<close>

fun nak_types :: "'p eap_env \<Rightarrow> u32 \<Rightarrow> 'p eap_method list \<Rightarrow> bool \<Rightarrow> u8 list" where
  "nak_types E req [] x = []"
| "nak_types E req (m # ms) x =
     (if m_vendor m = EAP_VENDOR_IETF \<and> m_method m = req \<or> \<not> eap_allowed_method E (m_vendor m) (m_method m)
        \<or> m_vendor m \<noteq> EAP_VENDOR_IETF \<and> x then nak_types E req ms x
      else (if m_vendor m \<noteq> EAP_VENDOR_IETF then 254 else ucast (m_method m)) #
        nak_types E req ms (x \<or> m_vendor m \<noteq> EAP_VENDOR_IETF))"

lemma length_nak_types: "length (nak_types E req ms x) \<le> length ms"
proof (induction ms arbitrary: x)
  case (Cons m ms)
  have "length (nak_types E req ms y) \<le> Suc (length ms)" for y using Cons [of y] by simp
  with Cons show ?case by simp
qed simp

lemma nak_loop_types:
  "wok b \<Longrightarrow> length (nak_types E req ms x) \<le> wpabuf_tailroom b \<Longrightarrow>
   \<exists>b'. nak_loop E req ms x n b = Inr (n + length (nak_types E req ms x), b') \<and> wok b' \<and>
     wpabuf_head b' = wpabuf_head b @ nak_types E req ms x \<and>
     wpabuf_tailroom b' = wpabuf_tailroom b - length (nak_types E req ms x)"
proof (induction ms arbitrary: x n b)
  case (Cons m ms)
  have go: ?case
    if n: "nak_types E req (m # ms) x = c # nak_types E req ms y"
    and l: "nak_loop E req (m # ms) x n b =
      (case put_bytes [c] b of Inl e \<Rightarrow> Inl e | Inr b \<Rightarrow> nak_loop E req ms y (n + 1) b)" for c y
  proof -
    from put_bytes_fits [OF Cons.prems(1), of "[c]"] Cons.prems(2) obtain b1 where
      b1: "put_bytes [c] b = Inr b1" "wok b1" "wpabuf_head b1 = wpabuf_head b @ [c]"
      "wpabuf_tailroom b1 = wpabuf_tailroom b - 1" unfolding n by auto
    from Cons.IH [OF b1(2), of y "n + 1"] Cons.prems(2) b1 show ?thesis unfolding n l by auto
  qed
  show ?case
  proof (cases "m_vendor m = EAP_VENDOR_IETF \<and> m_method m = req \<or>
      \<not> eap_allowed_method E (m_vendor m) (m_method m) \<or> m_vendor m \<noteq> EAP_VENDOR_IETF \<and> x")
    case True
    then have "nak_loop E req (m # ms) x n b = nak_loop E req ms x n b"
      "nak_types E req (m # ms) x = nak_types E req ms x" by auto
    with Cons show ?thesis by simp
  next
    case False
    then have take: "\<not> (m_vendor m = EAP_VENDOR_IETF \<and> m_method m = req)"
      "eap_allowed_method E (m_vendor m) (m_method m)" "m_vendor m \<noteq> EAP_VENDOR_IETF \<Longrightarrow> \<not> x" by auto
    show ?thesis
    proof (cases "m_vendor m = EAP_VENDOR_IETF")
      case True
      with take show ?thesis by (intro go [of "ucast (m_method m)" x]) (simp_all add: wpabuf_put_u8_def)
    next
      case False
      with take show ?thesis by (intro go [of 254 True]) (simp_all add: wpabuf_put_u8_def)
    qed
  qed
qed simp

definition expanded_entry :: "'p eap_method \<Rightarrow> u8 list" where
  "expanded_entry m = [254] @ WPA_PUT_BE24 (m_vendor m) @ WPA_PUT_BE32 (m_method m)"

definition expanded_offers :: "'p eap_env \<Rightarrow> 'p eap_sm \<Rightarrow> 'p eap_method list \<Rightarrow> 'p eap_method list" where
  "expanded_offers E sm = filter (\<lambda>m. \<not> (reqVendor sm = m_vendor m \<and> reqVendorMethod sm = m_method m) \<and>
     eap_allowed_method E (m_vendor m) (m_method m))"

lemma build_fits:
  assumes "wok b" "length (concat (map field_bytes fs)) \<le> wpabuf_tailroom b"
  shows "\<exists>b'. build fs b = Inr b' \<and> wok b' \<and> wpabuf_head b' = wpabuf_head b @ concat (map field_bytes fs) \<and>
    wpabuf_tailroom b' = wpabuf_tailroom b - length (concat (map field_bytes fs))"
  using sink.put_all_fits [OF assms] by (simp add: build_put_all [OF assms(1)])

lemma length_entries: "length (concat (map expanded_entry ms)) = 8 * length ms"
  by (induction ms) (simp_all add: expanded_entry_def)

lemma expanded_loop_offers:
  "wok b \<Longrightarrow> 8 * length (expanded_offers E sm ms) \<le> wpabuf_tailroom b \<Longrightarrow>
   \<exists>b'. expanded_nak_loop E sm ms n b = Inr (n + length (expanded_offers E sm ms), b') \<and> wok b' \<and>
     wpabuf_head b' = wpabuf_head b @ concat (map expanded_entry (expanded_offers E sm ms)) \<and>
     wpabuf_tailroom b' = wpabuf_tailroom b - 8 * length (expanded_offers E sm ms)"
proof (induction ms arbitrary: n b)
  case (Cons m ms)
  show ?case
  proof (cases "expanded_offers E sm (m # ms) = expanded_offers E sm ms")
    case True
    then have "expanded_nak_loop E sm (m # ms) n b = expanded_nak_loop E sm ms n b"
      by (auto simp: expanded_offers_def split: if_splits)
    with Cons True show ?thesis by simp
  next
    case False
    then have o: "expanded_offers E sm (m # ms) = m # expanded_offers E sm ms"
      by (auto simp: expanded_offers_def split: if_splits)
    let ?fs = "[F8 (ucast EAP_TYPE_EXPANDED), FB24 (m_vendor m), FB32 (m_method m)]"
    have bytes: "concat (map field_bytes ?fs) = expanded_entry m" by (simp add: expanded_entry_def)
    have len: "length (expanded_entry m) = 8" by (simp add: expanded_entry_def)
    from build_fits [OF Cons.prems(1), of ?fs, unfolded bytes len] Cons.prems(2) obtain b1 where
      b1: "build ?fs b = Inr b1" "wok b1" "wpabuf_head b1 = wpabuf_head b @ expanded_entry m"
      "wpabuf_tailroom b1 = wpabuf_tailroom b - 8" unfolding o by auto
    have l: "expanded_nak_loop E sm (m # ms) n b = expanded_nak_loop E sm ms (n + 1) b1"
      using False b1(1) by (auto simp: expanded_offers_def simp del: build.simps)
    from Cons.IH [OF b1(2), of "n + 1"] Cons.prems(2) b1(3,4) show ?thesis unfolding o l by auto
  qed
qed (simp add: expanded_offers_def)

section \<open>Naks\<close>

lemma nak_built:
  assumes "methods E \<noteq> []" "reqMethod sm \<noteq> EAP_TYPE_EXPANDED" "length (methods E) < 2 ^ 12"
    and "alloc_e E (length (methods E) + 11)"
  defines "ts \<equiv> nak_types E (reqMethod sm) (methods E) False"
  shows "\<exists>b. eap_sm_buildNak E sm i = Inr (Some b) \<and>
    wpabuf_head b = eap_header EAP_CODE_RESPONSE i (5 + length (if ts = [] then [0] else ts)) EAP_VENDOR_IETF EAP_TYPE_NAK
      @ (if ts = [] then [0] else ts)"
proof -
  let ?n = "4 + 1 + length (methods E) + 1"
  have al: "alloc_e E (4 + type_size EAP_VENDOR_IETF + ?n)"
    using assms(4) by (simp add: type_size_def add.commute)
  have small: "?n < 2 ^ 30" using assms(3) by simp
  from eap_msg_alloc_ok [of "alloc_e E" EAP_VENDOR_IETF ?n EAP_TYPE_NAK EAP_CODE_RESPONSE i, OF al small] obtain b where
    b: "eap_msg_alloc (alloc_e E) EAP_VENDOR_IETF EAP_TYPE_NAK ?n EAP_CODE_RESPONSE i = Inr (Some b)" "wok b"
    "wpabuf_head b = eap_header EAP_CODE_RESPONSE i (4 + type_size EAP_VENDOR_IETF + ?n) EAP_VENDOR_IETF EAP_TYPE_NAK"
    "wpabuf_tailroom b = ?n" by blast
  have le: "length ts \<le> length (methods E)" unfolding ts_def by (rule length_nak_types)
  from nak_loop_types [OF b(2), of E "reqMethod sm" "methods E" False 0] le b(4) obtain b1 where
    b1: "nak_loop E (reqMethod sm) (methods E) False 0 b = Inr (length ts, b1)" "wok b1"
    "wpabuf_head b1 = wpabuf_head b @ ts" "wpabuf_tailroom b1 = ?n - length ts"
    unfolding ts_def by auto
  obtain b2 where b2: "(if length ts = 0 then wpabuf_put_u8 (ucast EAP_TYPE_NONE) b1 else Inr b1) = Inr b2" "wok b2"
    "wpabuf_head b2 = wpabuf_head b @ (if ts = [] then [0] else ts)"
  proof (cases "ts = []")
    case True
    with put_bytes_fits [OF b1(2), of "[0]"] b1(3,4) that show thesis by (auto simp: wpabuf_put_u8_def)
  next
    case False
    with b1 that show thesis by simp
  qed
  have "eap_sm_buildNak E sm i = Inr (Some (eap_update_len b2))"
    unfolding eap_sm_buildNak_def b(1) using assms(1,2) b1(1) b2(1) by simp
  with update_len_head(2) [OF b2(2) b2(3) [unfolded b(3)]] show ?thesis by (simp add: type_size_def)
qed

lemma nak_types_set:
  "set (nak_types E req ms x) =
     (ucast \<circ> m_method) ` {m \<in> set ms. eap_allowed_method E (m_vendor m) (m_method m) \<and>
        m_vendor m = EAP_VENDOR_IETF \<and> m_method m \<noteq> req} \<union>
     (if \<not> x \<and> (\<exists>m\<in>set ms. eap_allowed_method E (m_vendor m) (m_method m) \<and> m_vendor m \<noteq> EAP_VENDOR_IETF)
      then {254} else {})"
  by (induction ms arbitrary: x) (auto simp: image_iff)

text \<open>C22: A refused method of a type that is not the expanded one is answered, when there is memory, with a Nak that
  never overruns its buffer and that the authenticator can read: it offers exactly the registered methods that the
  configuration allows and that are not the refused one, vendor methods by the expanded type, and says type 0 when
  there is none.\<close>

theorem nak_offers_alternatives:
  assumes "methods E \<noteq> []" "reqMethod sm \<noteq> EAP_TYPE_EXPANDED" "length (methods E) < 2 ^ 12"
    and "alloc_e E (length (methods E) + 11)"
  shows "\<exists>b d. eap_sm_buildNak E sm i = Inr (Some b) \<and>
    eap_hdr_validate EAP_VENDOR_IETF EAP_TYPE_NAK (Some (wpabuf_head b)) = Some d \<and>
    eap_get_id (wpabuf_head b) = i \<and>
    (let allowed = {m \<in> set (methods E). eap_allowed_method E (m_vendor m) (m_method m)};
         others = {m \<in> allowed. m_vendor m = EAP_VENDOR_IETF \<and> m_method m \<noteq> reqMethod sm};
         vendor = {m \<in> allowed. m_vendor m \<noteq> EAP_VENDOR_IETF}
     in set d = (if others = {} \<and> vendor = {} then {0}
                 else (\<lambda>m. ucast (m_method m)) ` others \<union> (if vendor = {} then {} else {254})))"
proof -
  let ?ts = "nak_types E (reqMethod sm) (methods E) False"
  define d where "d = (if ?ts = [] then [0] else ?ts)"
  from nak_built [OF assms, of i] obtain b where b: "eap_sm_buildNak E sm i = Inr (Some b)"
    "wpabuf_head b = eap_header EAP_CODE_RESPONSE i (5 + length d) EAP_VENDOR_IETF EAP_TYPE_NAK @ d"
    unfolding d_def by blast
  have "length ?ts < 2 ^ 12" using length_nak_types [of E "reqMethod sm" "methods E" False] assms(3) by linarith
  then have len: "4 + type_size EAP_VENDOR_IETF + length d < 2 ^ 16" by (simp add: type_size_def d_def)
  have "eap_hdr_validate EAP_VENDOR_IETF EAP_TYPE_NAK (Some (wpabuf_head b)) = Some d"
    using validate_header [of EAP_VENDOR_IETF EAP_TYPE_NAK d EAP_CODE_RESPONSE i "[]"] len
    by (simp add: b(2) eap_type_ok_def type_size_def)
  moreover have "eap_get_id (wpabuf_head b) = i" by (simp add: b(2) eap_get_id_def)
  moreover have "set ?ts = {} \<longleftrightarrow> ?ts = []" by simp
  ultimately show ?thesis
    using b(1) nak_types_set [of E "reqMethod sm" "methods E" False]
    by (intro exI [of _ b] exI [of _ d]) (auto simp: d_def Let_def comp_def split: if_splits)
qed

abbreviation (input) nak_example_method :: "u32 \<Rightarrow> u32 \<Rightarrow> unit eap_method" where
  "nak_example_method v t \<equiv>
     \<lparr>m_vendor = v, m_method = t, m_init = \<lambda>_ fl i. (None, fl, i, False), m_process = \<lambda>p r f _. (p, r, f, None), m_isKeyAvailable = None,
      m_getKey = None, m_getSessionId = None, m_has_reauth_data = None, m_deinit_for_reauth = \<lambda>p. p,
      m_init_for_reauth = \<lambda>_ fl i. (None, fl, i, False), m_get_identity = None\<rparr>"

definition nak_example_env :: "unit eap_env" where
  "nak_example_env = \<lparr>methods = [nak_example_method 0 13, nak_example_method 0 25, nak_example_method 0x372a 1,
     nak_example_method 0 4], config = None, sha1 = \<lambda>_. [], alloc_e = \<lambda>_. True\<rparr>"

theorem nak_offers_alternatives_witness:
  "\<exists>b d. eap_sm_buildNak nak_example_env (eap_peer_sm_init\<lparr>reqMethod := 13\<rparr>) 9 = Inr (Some b) \<and>
    eap_hdr_validate EAP_VENDOR_IETF EAP_TYPE_NAK (Some (wpabuf_head b)) = Some d \<and> set d = {254, 25, 4}"
proof -
  let ?sm = "(eap_peer_sm_init :: unit eap_sm)\<lparr>reqMethod := 13\<rparr>"
  have "methods nak_example_env \<noteq> []" "reqMethod ?sm \<noteq> EAP_TYPE_EXPANDED" "length (methods nak_example_env) < 2 ^ 12"
    "alloc_e nak_example_env (length (methods nak_example_env) + 11)" by (simp_all add: nak_example_env_def)
  note nak = nak_offers_alternatives [OF this, of 9]
  let ?all = "set (methods nak_example_env)"
  have allowed: "{m \<in> ?all. eap_allowed_method nak_example_env (m_vendor m) (m_method m)} = ?all"
  proof -
    have "eap_allowed_method nak_example_env v t" for v t by (simp add: nak_example_env_def eap_allowed_method_def)
    then show ?thesis by simp
  qed
  have others: "(\<lambda>m. ucast (m_method m)) ` {m \<in> ?all. m_vendor m = EAP_VENDOR_IETF \<and> m_method m \<noteq> reqMethod ?sm} = {25, 4 :: u8}"
  proof -
    have image: "f ` {m \<in> set ms. P m} = set (map f (filter P ms))" for f :: "unit eap_method \<Rightarrow> u8" and P ms by simp
    show ?thesis unfolding image by (simp add: nak_example_env_def)
  qed
  have vendor: "{m \<in> ?all. m_vendor m \<noteq> EAP_VENDOR_IETF} \<noteq> {}"
  proof -
    have "\<exists>m\<in>?all. m_vendor m \<noteq> EAP_VENDOR_IETF" by (simp add: nak_example_env_def)
    then show ?thesis by blast
  qed
  have some: "{m \<in> ?all. m_vendor m = EAP_VENDOR_IETF \<and> m_method m \<noteq> reqMethod ?sm} \<noteq> {}" using others by auto
  obtain b d where b: "eap_sm_buildNak nak_example_env ?sm 9 = Inr (Some b)"
    "eap_hdr_validate EAP_VENDOR_IETF EAP_TYPE_NAK (Some (wpabuf_head b)) = Some d" "set d = {25, 4} \<union> {254}"
    using nak [unfolded Let_def allowed others] unfolding if_not_P [OF vendor] using some by force
  then show ?thesis by (intro exI [of _ b] exI [of _ d]) simp
qed

definition expanded_none :: "u8 list" where
  "expanded_none = [254, 0, 0, 0, 0, 0, 0, 0]"

lemma expanded_nak_built:
  fixes E :: "'p eap_env" and sm :: "'p eap_sm"
  assumes "length (methods E) < 2 ^ 12" "alloc_e E (21 + 8 * length (methods E))"
  defines "es \<equiv> (case expanded_offers E sm (methods E) of [] \<Rightarrow> expanded_none
                 | ms \<Rightarrow> concat (map expanded_entry ms))"
  shows "\<exists>b. eap_sm_build_expanded_nak E sm i = Inr (Some b) \<and>
    wpabuf_head b = eap_header EAP_CODE_RESPONSE i (12 + length es) EAP_VENDOR_IETF EAP_TYPE_EXPANDED
      @ WPA_PUT_BE24 EAP_VENDOR_IETF @ WPA_PUT_BE32 EAP_TYPE_NAK @ es"
proof -
  let ?ms = "expanded_offers E sm (methods E)" and ?n = "8 + 8 * (length (methods E) + 1)"
  let ?nak = "[FB24 EAP_VENDOR_IETF, FB32 EAP_TYPE_NAK]"
  let ?none = "[F8 (ucast EAP_TYPE_EXPANDED), FB24 EAP_VENDOR_IETF, FB32 EAP_TYPE_NONE]"
  have al: "alloc_e E (4 + type_size EAP_VENDOR_IETF + ?n)"
    using assms(2) by (simp add: type_size_def algebra_simps)
  have small: "?n < 2 ^ 30" using assms(1) by simp
  from eap_msg_alloc_ok [of "alloc_e E" EAP_VENDOR_IETF ?n EAP_TYPE_EXPANDED EAP_CODE_RESPONSE i, OF al small] obtain b where
    b: "eap_msg_alloc (alloc_e E) EAP_VENDOR_IETF EAP_TYPE_EXPANDED ?n EAP_CODE_RESPONSE i = Inr (Some b)" "wok b"
    "wpabuf_head b = eap_header EAP_CODE_RESPONSE i (4 + type_size EAP_VENDOR_IETF + ?n) EAP_VENDOR_IETF EAP_TYPE_EXPANDED"
    "wpabuf_tailroom b = ?n" by blast
  define nk where "nk = WPA_PUT_BE24 EAP_VENDOR_IETF @ WPA_PUT_BE32 EAP_TYPE_NAK"
  have nk: "concat (map field_bytes ?nak) = nk" "length nk = 7" by (simp_all add: nk_def)
  have none: "concat (map field_bytes ?none) = expanded_none" "length expanded_none = 8"
    by (simp_all add: expanded_none_def WPA_PUT_BE24_def WPA_PUT_BE32_def)
  have le: "length ?ms \<le> length (methods E)" by (simp add: expanded_offers_def)
  from build_fits [OF b(2), of ?nak, unfolded nk] b(4) obtain b0 where
    b0: "build ?nak b = Inr b0" "wok b0" "wpabuf_head b0 = wpabuf_head b @ nk" "wpabuf_tailroom b0 = ?n - 7" by auto
  from expanded_loop_offers [OF b0(2), of E sm "methods E" 0] le b0(4) obtain b1 where
    b1: "expanded_nak_loop E sm (methods E) 0 b0 = Inr (length ?ms, b1)" "wok b1"
    "wpabuf_head b1 = wpabuf_head b0 @ concat (map expanded_entry ?ms)" "wpabuf_tailroom b1 = ?n - 7 - 8 * length ?ms"
    by auto
  obtain b2 where b2: "(if length ?ms = 0 then build ?none b1 else Inr b1) = Inr b2" "wok b2"
    "wpabuf_head b2 = wpabuf_head b @ nk @ es"
  proof (cases "?ms = []")
    case True
    with build_fits [OF b1(2), of ?none, unfolded none] b1(3,4) b0(3) that show thesis
      by (auto simp: es_def simp del: build.simps)
  next
    case False
    with b1 b0(3) that show thesis by (auto simp: es_def split: list.split simp del: build.simps)
  qed
  have "eap_sm_build_expanded_nak E sm i = Inr (Some (eap_update_len b2))"
    unfolding eap_sm_build_expanded_nak_def b(1) sum.case option.case b0(1) b1(1) prod.case b2(1) ..
  with update_len_head(2) [OF b2(2) b2(3) [unfolded b(3)]] show ?thesis by (simp add: type_size_def nk_def nk(2))
qed

text \<open>A refused vendor method is answered with an expanded Nak that never overruns its buffer and
  that reads back as an expanded Nak: its payload is one eight-byte entry for every registered
  method that is allowed and is not the refused one, or the entry of type 0.\<close>

theorem expanded_nak_offers:
  assumes "methods E \<noteq> []" "reqMethod sm = EAP_TYPE_EXPANDED" "length (methods E) < 2 ^ 12"
    and "alloc_e E (21 + 8 * length (methods E))"
  shows "\<exists>b. eap_sm_buildNak E sm i = Inr (Some b) \<and>
    eap_hdr_validate EAP_VENDOR_IETF EAP_TYPE_NAK (Some (wpabuf_head b)) =
      Some (case filter (\<lambda>m. \<not> (reqVendor sm = m_vendor m \<and> reqVendorMethod sm = m_method m) \<and>
              eap_allowed_method E (m_vendor m) (m_method m)) (methods E) of
            [] \<Rightarrow> [254, 0, 0, 0, 0, 0, 0, 0]
          | ms \<Rightarrow> concat (map (\<lambda>m. 254 # WPA_PUT_BE24 (m_vendor m) @ WPA_PUT_BE32 (m_method m)) ms))"
proof -
  let ?ms = "expanded_offers E sm (methods E)"
  define es where "es = (case ?ms of [] \<Rightarrow> expanded_none | ms \<Rightarrow> concat (map expanded_entry ms))"
  from expanded_nak_built [OF assms(3,4), of sm i] obtain b where b: "eap_sm_build_expanded_nak E sm i = Inr (Some b)"
    "wpabuf_head b = eap_header EAP_CODE_RESPONSE i (12 + length es) EAP_VENDOR_IETF EAP_TYPE_EXPANDED
      @ WPA_PUT_BE24 EAP_VENDOR_IETF @ WPA_PUT_BE32 EAP_TYPE_NAK @ es" unfolding es_def by blast
  have "length ?ms \<le> length (methods E)" by (simp add: expanded_offers_def)
  with assms(3) have len: "12 + length es < 2 ^ 16"
    by (auto simp: es_def expanded_none_def length_entries [of "_ # _", simplified] split: list.split)
  have "eap_len (wpabuf_head b) = 12 + length es" unfolding b(2) by (rule eap_len_header [OF len])
  moreover have "length (wpabuf_head b) = 12 + length es" by (simp add: b(2) type_size_def)
  moreover have "drop 12 (wpabuf_head b) = es" "drop 5 (wpabuf_head b) = WPA_PUT_BE24 0 @ drop 8 (wpabuf_head b)"
    "drop 8 (wpabuf_head b) = WPA_PUT_BE32 3 @ es"
    by (simp_all add: b(2) eap_header_def WPA_PUT_BE16_def WPA_PUT_BE24_def WPA_PUT_BE32_def)
  moreover have "wpabuf_head b ! 4 = 254" by (simp add: b(2))
  ultimately have reads: "eap_hdr_validate EAP_VENDOR_IETF EAP_TYPE_NAK (Some (wpabuf_head b)) = Some es"
    by (simp add: eap_hdr_validate_def eap_hdr_len_valid_def Let_def be24.get_put be32.get_put)
  have entry: "expanded_entry = (\<lambda>m. 254 # WPA_PUT_BE24 (m_vendor m) @ WPA_PUT_BE32 (m_method m))"
    by (simp add: expanded_entry_def fun_eq_iff)
  have built: "eap_sm_buildNak E sm i = Inr (Some b)" using assms(1,2) b(1) by (simp add: eap_sm_buildNak_def)
  show ?thesis
    using built reads unfolding es_def expanded_offers_def expanded_none_def entry by blast
qed

theorem expanded_nak_offers_witness:
  "\<exists>b d. eap_sm_buildNak nak_example_env (eap_peer_sm_init\<lparr>reqMethod := 254, reqVendor := 0x372a, reqVendorMethod := 1\<rparr>) 9
      = Inr (Some b) \<and>
    eap_hdr_validate EAP_VENDOR_IETF EAP_TYPE_NAK (Some (wpabuf_head b)) = Some d \<and> length d = 24"
proof -
  let ?sm = "(eap_peer_sm_init :: unit eap_sm)\<lparr>reqMethod := 254, reqVendor := 0x372a, reqVendorMethod := 1\<rparr>"
  have "methods nak_example_env \<noteq> []" "reqMethod ?sm = EAP_TYPE_EXPANDED" "length (methods nak_example_env) < 2 ^ 12"
    "alloc_e nak_example_env (21 + 8 * length (methods nak_example_env))" by (simp_all add: nak_example_env_def)
  from expanded_nak_offers [OF this, of 9] show ?thesis
    by (auto simp: nak_example_env_def eap_allowed_method_def)
qed

section \<open>Building never faults\<close>

lemma nak_total:
  assumes "length (methods E) < 2 ^ 12"
  shows "eap_sm_buildNak E sm i \<noteq> Inl f"
proof -
  consider "methods E = []" | "methods E \<noteq> []" "reqMethod sm \<noteq> EAP_TYPE_EXPANDED" "alloc_e E (length (methods E) + 11)"
    | "methods E \<noteq> []" "reqMethod sm \<noteq> EAP_TYPE_EXPANDED" "\<not> alloc_e E (length (methods E) + 11)"
    | "reqMethod sm = EAP_TYPE_EXPANDED" "alloc_e E (21 + 8 * length (methods E))"
    | "reqMethod sm = EAP_TYPE_EXPANDED" "\<not> alloc_e E (21 + 8 * length (methods E))" by blast
  then show ?thesis
  proof cases
    case 2
    with nak_built [of E sm i] assms show ?thesis by auto
  next
    case 3
    have "size_add (4 + type_size EAP_VENDOR_IETF) (4 + 1 + length (methods E) + 1) = length (methods E) + 11"
      using assms by (simp add: size_add_def type_size_def)
    with 3 eap_msg_alloc_none [of "alloc_e E" EAP_VENDOR_IETF "4 + 1 + length (methods E) + 1" EAP_TYPE_NAK EAP_CODE_RESPONSE i]
    show ?thesis by (simp add: eap_sm_buildNak_def)
  next
    case 4
    with expanded_nak_built [of E sm i] assms show ?thesis by (auto simp: eap_sm_buildNak_def)
  next
    case 5
    have "size_add (4 + type_size EAP_VENDOR_IETF) (8 + 8 * (length (methods E) + 1)) = 21 + 8 * length (methods E)"
      using assms by (simp add: size_add_def type_size_def)
    with 5 eap_msg_alloc_none [of "alloc_e E" EAP_VENDOR_IETF "8 + 8 * (length (methods E) + 1)" EAP_TYPE_EXPANDED
        EAP_CODE_RESPONSE i]
    show ?thesis by (simp add: eap_sm_buildNak_def eap_sm_build_expanded_nak_def)
  qed (simp add: eap_sm_buildNak_def)
qed

text \<open>The identity the peer sends: the method's own, else the anonymous one, else the configured one.\<close>

definition peer_identity :: "'p eap_env \<Rightarrow> 'p eap_sm \<Rightarrow> u8 list option" where
  "peer_identity E sm =
     (case config E of
        None \<Rightarrow> None
      | Some c \<Rightarrow>
          let own = (case meth sm of
                None \<Rightarrow> None
              | Some m \<Rightarrow> (case m_get_identity m of None \<Rightarrow> None | Some g \<Rightarrow> Option.bind (eap_method_priv sm) g))
          in if pcsc c then None
             else if own \<noteq> None then own
             else if anonymous_identity c \<noteq> None then anonymous_identity c else identity c)"

lemma identity_built:
  assumes "peer_identity E sm = Some d" "length d < 2 ^ 30" "alloc_e E (5 + length d)"
  shows "\<exists>b. eap_sm_buildIdentity E sm i False = Inr (Some b) \<and>
    wpabuf_head b = eap_header EAP_CODE_RESPONSE i (5 + length d) EAP_VENDOR_IETF EAP_TYPE_IDENTITY @ d"
proof -
  have al: "alloc_e E (4 + type_size EAP_VENDOR_IETF + length d)" using assms(3) by (simp add: type_size_def)
  from eap_msg_alloc_ok [of "alloc_e E" EAP_VENDOR_IETF "length d" EAP_TYPE_IDENTITY EAP_CODE_RESPONSE i, OF al assms(2)]
  obtain b where
    b: "eap_msg_alloc (alloc_e E) EAP_VENDOR_IETF EAP_TYPE_IDENTITY (length d) EAP_CODE_RESPONSE i = Inr (Some b)" "wok b"
    "wpabuf_head b = eap_header EAP_CODE_RESPONSE i (5 + length d) EAP_VENDOR_IETF EAP_TYPE_IDENTITY"
    "wpabuf_tailroom b = length d" by (auto simp: type_size_def)
  from put_bytes_fits [OF b(2), of d] b(4) obtain b' where b': "put_bytes d b = Inr b'"
    "wpabuf_head b' = wpabuf_head b @ d" by auto
  have "eap_sm_buildIdentity E sm i False = map_sum id Some (wpabuf_put_data (Some d) b)"
    using assms(1) b(1)
    by (auto simp: peer_identity_def eap_sm_buildIdentity_def Let_def split: option.splits if_splits)
  with b' b(3) show ?thesis by (simp add: wpabuf_put_data_def)
qed

lemma identity_total:
  assumes "\<forall>d. peer_identity E sm = Some d \<longrightarrow> length d < 2 ^ 30"
  shows "eap_sm_buildIdentity E sm i False \<noteq> Inl f"
proof (cases "peer_identity E sm")
  case None
  then show ?thesis
    by (auto simp: peer_identity_def eap_sm_buildIdentity_def Let_def split: option.splits if_splits)
next
  case (Some d)
  with assms have d: "length d < 2 ^ 30" by blast
  show ?thesis
  proof (cases "alloc_e E (5 + length d)")
    case True
    with identity_built [OF Some d, of i] show ?thesis by auto
  next
    case False
    have "size_add (4 + type_size EAP_VENDOR_IETF) (length d) = 5 + length d"
      using d by (simp add: size_add_def type_size_def)
    with False eap_msg_alloc_none [of "alloc_e E" EAP_VENDOR_IETF "length d" EAP_TYPE_IDENTITY EAP_CODE_RESPONSE i]
    have "eap_msg_alloc (alloc_e E) EAP_VENDOR_IETF EAP_TYPE_IDENTITY (length d) EAP_CODE_RESPONSE i = Inr None" by simp
    with Some show ?thesis
      by (auto simp: peer_identity_def eap_sm_buildIdentity_def Let_def split: option.splits if_splits)
  qed
qed

lemma notify_built:
  "\<exists>r. eap_sm_buildNotify E i = Inr r \<and> (\<forall>b. r = Some b \<longrightarrow>
     wpabuf_head b = eap_header EAP_CODE_RESPONSE i 5 EAP_VENDOR_IETF EAP_TYPE_NOTIFICATION)"
proof (cases "alloc_e E 5")
  case True
  with eap_msg_alloc_ok [of "alloc_e E" EAP_VENDOR_IETF 0 EAP_TYPE_NOTIFICATION EAP_CODE_RESPONSE i] show ?thesis
    by (auto simp: eap_sm_buildNotify_def type_size_def)
next
  case False
  with eap_msg_alloc_none [of "alloc_e E" EAP_VENDOR_IETF 0 EAP_TYPE_NOTIFICATION EAP_CODE_RESPONSE i] show ?thesis
    by (simp add: eap_sm_buildNotify_def type_size_def size_add_def)
qed

text \<open>Whatever request arrives and however many methods are registered or allowed, building the
  peer's own responses never runs over the buffer that was allocated for them and never aborts:
  it gives a response, or none when memory is out or there is nothing to say.\<close>

theorem responses_never_overflow:
  assumes "length (methods E) < 2 ^ 12" "\<forall>d. peer_identity E sm = Some d \<longrightarrow> length d < 2 ^ 30"
  shows "eap_sm_buildNak E sm i \<noteq> Inl f \<and> eap_sm_buildIdentity E sm i False \<noteq> Inl f \<and> eap_sm_buildNotify E i \<noteq> Inl f"
  using nak_total [OF assms(1)] identity_total [OF assms(2)] notify_built [of E i] by auto

theorem responses_never_overflow_witness:
  "eap_sm_buildNak nak_example_env (eap_peer_sm_init\<lparr>reqMethod := 26\<rparr>) 1 \<noteq> Inl Overflow_Abort"
proof -
  have "length (methods nak_example_env) < 2 ^ 12" "\<forall>d. peer_identity nak_example_env
      (eap_peer_sm_init\<lparr>reqMethod := 26\<rparr>) = Some d \<longrightarrow> length d < 2 ^ 30"
    by (simp_all add: nak_example_env_def peer_identity_def)
  from responses_never_overflow [OF this] show ?thesis by blast
qed

end
