(* ===== verification/Eap_Exchange.thy ===== *)
theory Eap_Exchange
  imports Eap_Build Eapol_Eap
begin

text \<open>
  Whole exchanges of the EAP peer of \<open>eap.c\<close>: what one call of \<open>eap_peer_sm_step\<close> does with a request
  for the identity and with a request it has already answered.
\<close>

section \<open>A request arrives\<close>

text \<open>The peer is idle and \<open>q\<close>, a well-formed request of type \<open>t\<close>, has been received.\<close>

definition requested :: "'p eap_sm \<Rightarrow> eap_vars \<Rightarrow> u8 list \<Rightarrow> u8 \<Rightarrow> bool" where
  "requested e v q t \<longleftrightarrow> EAP_state e = EAP_IDLE \<and> vbool v EAPOL_portEnabled \<and> \<not> vbool v EAPOL_eapRestart \<and>
     \<not> force_disabled e \<and> num_rounds e < 50 \<and> vbool v EAPOL_eapReq \<and> vreq v = Some q \<and>
     5 \<le> eap_len q \<and> eap_len q \<le> length q \<and> q ! 0 = EAP_CODE_REQUEST \<and> q ! 4 = t \<and> t \<noteq> 254 \<and>
     \<not> vbool v EAPOL_altAccept \<and> \<not> vbool v EAPOL_altReject \<and> ClientTimeout (flags e) \<noteq> 0"

text \<open>The peer after \<open>EAP_RECEIVED\<close>.\<close>

definition parsed :: "'p eap_env \<Rightarrow> 'p eap_sm \<Rightarrow> eap_vars \<Rightarrow> u8 list \<Rightarrow> u8 \<Rightarrow> 'p eap_sm" where
  "parsed E e v q t = e\<lparr>ev := v, calls := [], changed_e := False, EAP_state := EAP_RECEIVED, rxReq := True,
     rxResp := False, rxSuccess := False, rxFailure := False, reqId := uint (q ! 1), reqMethod := ucast t,
     reqVendor := EAP_VENDOR_IETF, reqVendorMethod := EAP_TYPE_NONE,
     req_sha1 := (if workaround_e e then sha1 E (take (eap_len q) q) else req_sha1 e),
     num_rounds := num_rounds e + 1\<rparr>"

lemma ucast_254: "ucast (t :: u8) = (254 :: u32) \<longleftrightarrow> t = 254"
proof -
  have "ucast t = (254 :: u32) \<longleftrightarrow> unat (ucast t :: u32) = unat (254 :: u32)" by (simp only: word_unat_eq_iff)
  also have "\<dots> \<longleftrightarrow> t = 254" by (simp add: unat_byte word_unat_eq_iff)
  finally show ?thesis .
qed

lemma received_step:
  assumes "requested e v q t"
  shows "EAP_Step E (e\<lparr>ev := v, calls := [], changed_e := False\<rparr>) = (parsed E e v q t)\<lparr>changed_e := True\<rparr>"
  using assms
  by (simp add: requested_def EAP_Step_def eapol_get_bool_def eap_peer_sm_step_idle_def EAP_RECEIVED_Enter_def
      EAP_ENTRY_def eap_sm_parseEapReq_def eapol_get_eapReqData_def parsed_def Let_def ucast_254)

lemma parsed_step:
  assumes "requested e v q t"
  shows "EAP_Step E (parsed E e v q t) = eap_peer_sm_step_received E (parsed E e v q t)"
  using assms by (simp add: requested_def EAP_Step_def eapol_get_bool_def parsed_def)

text \<open>The two states in which the response \<open>r\<close> is ready, and the peer after it has been handed over.\<close>

definition answering :: "'p eap_sm \<Rightarrow> u8 list option \<Rightarrow> 'p eap_sm \<Rightarrow> bool" where
  "answering p r s \<longleftrightarrow> EAP_state s \<in> {EAP_IDENTITY, EAP_RETRANSMIT} \<and> changed_e s \<and> eapRespData s = r \<and>
     ev s = ev p \<and> calls s = calls p \<and> num_rounds s = num_rounds p \<and> force_disabled s = force_disabled p \<and>
     reqId s = reqId p \<and> selectedMethod s = selectedMethod p \<and>
     decision s = decision p \<and> methodState s = methodState p \<and> flags s = flags p \<and>
     eap_method_priv s = eap_method_priv p"

lemma answer_sent:
  assumes req: "requested e v q t" and s: "answering (parsed E e v q t) (Some r) s"
    and plain: "selectedMethod e \<noteq> EAP_TYPE_LEAP" "selectedMethod e \<noteq> EAP_TYPE_PEAP"
  shows "\<exists>e'. eap_step_loop E True s = (True, e') \<and> EAP_state e' = EAP_IDLE \<and> eapRespData e' = Some r \<and>
    lastId e' = uint (q ! 1) \<and> lastRespData e' = dup_bytes E r \<and>
    eap_method_priv e' = eap_method_priv e \<and>
    calls e' = [Set_Bool EAPOL_eapResp True, Set_Bool EAPOL_eapReq False, Set_Int EAPOL_idleWhile (ClientTimeout (flags e))]"
proof -
  note a = req [unfolded requested_def] s [unfolded answering_def parsed_def] plain
  define s1 where "s1 = EAP_SEND_RESPONSE_Enter E False (s\<lparr>changed_e := False\<rparr>)"
  define s2 where "s2 = EAP_IDLE_Enter False (s1\<lparr>changed_e := False\<rparr>)"
  have e1: "EAP_Step E (s\<lparr>changed_e := False\<rparr>) = s1" unfolding s1_def using a
    by (elim conjE) (auto simp: EAP_Step_def eapol_get_bool_def)
  have f1: "changed_e s1" "EAP_state s1 = EAP_SEND_RESPONSE" "num_rounds s1 = num_rounds s" "eapRespData s1 = Some r"
    "force_disabled s1 = force_disabled s" "lastId s1 = reqId s" "lastRespData s1 = dup_bytes E r"
    "vbool (ev s1) = (vbool (ev s))(EAPOL_eapResp := True, EAPOL_eapReq := False)"
    "vint (ev s1) = (vint (ev s))(EAPOL_idleWhile := ClientTimeout (flags s))" "selectedMethod s1 = selectedMethod s"
    "eap_method_priv s1 = eap_method_priv s"
    "calls s1 = calls s @ [Set_Bool EAPOL_eapResp True, Set_Bool EAPOL_eapReq False, Set_Int EAPOL_idleWhile (ClientTimeout (flags s))]"
    using a unfolding s1_def
    by (auto simp: EAP_SEND_RESPONSE_Enter_def EAP_ENTRY_def Let_def eapol_set_bool_def eapol_set_int_def)
  have e2: "EAP_Step E (s1\<lparr>changed_e := False\<rparr>) = s2" unfolding s2_def using a f1
    by (simp add: EAP_Step_def eapol_get_bool_def)
  have f2: "changed_e s2" "EAP_state s2 = EAP_IDLE" "num_rounds s2 = num_rounds s1" "eapRespData s2 = Some r"
    "force_disabled s2 = force_disabled s1" "lastId s2 = lastId s1" "lastRespData s2 = lastRespData s1"
    "ev s2 = ev s1" "selectedMethod s2 = selectedMethod s1" "eap_method_priv s2 = eap_method_priv s1" "calls s2 = calls s1"
    using f1 by (simp_all add: s2_def EAP_IDLE_Enter_def EAP_ENTRY_def)
  have e3: "EAP_Step E (s2\<lparr>changed_e := False\<rparr>) = s2\<lparr>changed_e := False\<rparr>" using a f1 f2
    by (simp add: EAP_Step_def eapol_get_bool_def eap_peer_sm_step_idle_def eapol_get_int_def)
  have "eap_step_loop E True s = (True, s2\<lparr>changed_e := False\<rparr>)"
    using step_loop_more [of E s True] step_loop_more [of E s1 True] step_loop_still [of E s2 True] e1 e2 e3 f1(1) f2(1)
    by simp
  with a f1 f2 show ?thesis by simp
qed

lemma request_answered:
  assumes req: "requested e v q t" and s: "answering (parsed E e v q t) (Some r) (eap_peer_sm_step_received E (parsed E e v q t))"
    and plain: "selectedMethod e \<noteq> EAP_TYPE_LEAP" "selectedMethod e \<noteq> EAP_TYPE_PEAP"
  shows "\<exists>e' cs. eap_peer_sm_step_impl E e v = (e', cs, True) \<and> EAP_state e' = EAP_IDLE \<and> eapRespData e' = Some r \<and>
    lastId e' = uint (q ! 1) \<and> lastRespData e' = dup_bytes E r \<and>
    eap_method_priv e' = eap_method_priv e \<and>
    cs = [Set_Bool EAPOL_eapResp True, Set_Bool EAPOL_eapReq False, Set_Int EAPOL_idleWhile (ClientTimeout (flags e))]"
proof -
  let ?p = "parsed E e v q t"
  have p: "?p\<lparr>changed_e := False\<rparr> = ?p" by (simp add: parsed_def)
  have "eap_step_loop E False (e\<lparr>ev := v, calls := []\<rparr>) = eap_step_loop E True (eap_peer_sm_step_received E ?p)"
    using step_loop_more [of E "e\<lparr>ev := v, calls := []\<rparr>" False] step_loop_more [of E "?p\<lparr>changed_e := True\<rparr>" True]
      received_step [OF req, of E] parsed_step [OF req, of E] s p by (simp add: answering_def)
  with answer_sent [OF req s plain] show ?thesis
    by (auto simp: eap_peer_sm_step_impl_def)
qed

section \<open>Identity and retransmission\<close>

text \<open>C21: A new request for the identity, which comes before a method is selected, is answered in one call of the
  step function: the response is the EAP identity message with the identifier of the request and the configured
  identity (shorter than 32768 bytes, and memory for it), the EAPOL machine is told that a response is ready, and the
  peer is idle again.\<close>

theorem identity_request_answered:
  assumes "requested e v q 1" "selectedMethod e = EAP_TYPE_NONE" "lastId e \<noteq> uint (q ! 1)"
    and "peer_identity E e = Some d" "length d < 2 ^ 15" "alloc_e E (5 + length d)"
  shows "\<exists>e' cs. eap_peer_sm_step_impl E e v = (e', cs, True) \<and> EAP_state e' = EAP_IDLE \<and>
    eapRespData e' = Some ([EAP_CODE_RESPONSE, q ! 1] @ WPA_PUT_BE16 (of_nat (5 + length d)) @ [1] @ d) \<and>
    lastId e' = uint (q ! 1) \<and> Set_Bool EAPOL_eapResp True \<in> set cs"
proof -
  let ?p = "parsed E e v q 1"
  let ?s = "EAP_ENTRY False EAP_IDENTITY ?p"
  have "eap_hdr_len_valid (Some q) (Suc 0)"
    using assms(1) by (simp add: requested_def eap_hdr_len_valid_def)
  moreover have "eap_peer_sm_step_received E ?p = EAP_IDENTITY_Enter E False ?p"
    using assms(1-3) by (simp add: requested_def eap_peer_sm_step_received_def eap_peer_req_is_duplicate_def parsed_def Let_def)
  moreover have "eapol_get_eapReqData ?s = Some q"
    using assms(1) by (simp add: eapol_get_eapReqData_def parsed_def EAP_ENTRY_def requested_def)
  ultimately have r: "eap_peer_sm_step_received E ?p =
      ?s\<lparr>eapRespData := response (eap_sm_buildIdentity E ?s (of_int (reqId ?s)) False)\<rparr>"
    by (simp add: EAP_IDENTITY_Enter_def Let_def)
  have "meth ?s = meth e" "eap_method_priv ?s = eap_method_priv e" by (simp_all add: parsed_def EAP_ENTRY_def)
  then have pid: "peer_identity E ?s = Some d" unfolding assms(4) [symmetric] by (simp only: peer_identity_def)
  have i: "(of_int (reqId ?s) :: u8) = q ! 1" by (simp add: parsed_def EAP_ENTRY_def)
  have "length d < 2 ^ 30" using assms(5) by simp
  from identity_built [OF pid this assms(6), of "q ! 1"] obtain b where
    b: "eap_sm_buildIdentity E ?s (q ! 1) False = Inr (Some b)"
    "wpabuf_head b = eap_header EAP_CODE_RESPONSE (q ! 1) (5 + length d) EAP_VENDOR_IETF EAP_TYPE_IDENTITY @ d" by blast
  have "answering ?p (Some (wpabuf_head b)) (eap_peer_sm_step_received E ?p)"
    unfolding r i b(1) by (simp add: answering_def response_def EAP_ENTRY_def)
  from request_answered [OF assms(1) this] assms(2) show ?thesis
    by (auto simp: b(2) eap_header_def)
qed

definition exchange_env :: "unit eap_env" where
  "exchange_env = example_env\<lparr>config := Some \<lparr>identity = Some [97, 98], anonymous_identity = None, pcsc = False,
     phase1 = None, eap_methods = None, pending_req = False\<rparr>, alloc_e := \<lambda>_. True\<rparr>"

definition exchange_vars :: eap_vars where
  "exchange_vars = \<lparr>vbool = (\<lambda>_. False)(EAPOL_portEnabled := True, EAPOL_eapReq := True), vint = \<lambda>_. 60,
     vreq = Some [1, 7, 0, 5, 1]\<rparr>"

definition exchange_peer :: "unit eap_sm" where
  "exchange_peer = eap_peer_sm_init\<lparr>EAP_state := EAP_IDLE, lastId := -1\<rparr>"

lemma exchange_requested: "requested exchange_peer exchange_vars [1, 7, 0, 5, 1] 1"
proof -
  have "eap_len [1, 7, 0, 5, 1] = 5" by code_simp
  then show ?thesis by (simp add: requested_def exchange_peer_def exchange_vars_def eap_peer_sm_init_def)
qed

theorem identity_request_answered_witness:
  "\<exists>e' cs. eap_peer_sm_step_impl exchange_env exchange_peer exchange_vars = (e', cs, True) \<and>
    eapRespData e' = Some [2, 7, 0, 7, 1, 97, 98]"
proof -
  have "selectedMethod exchange_peer = EAP_TYPE_NONE" "lastId exchange_peer \<noteq> uint ([1, 7, 0, 5, 1 :: u8] ! 1)"
    "peer_identity exchange_env exchange_peer = Some [97, 98]" "length [97, 98 :: u8] < 2 ^ 15"
    "alloc_e exchange_env (5 + length [97, 98 :: u8])"
    by (simp_all add: exchange_peer_def eap_peer_sm_init_def exchange_env_def peer_identity_def)
  from identity_request_answered [OF exchange_requested this] show ?thesis
    by (auto simp: WPA_PUT_BE16_def)
qed

text \<open>A request that is received again is answered with the very response that was sent before: no
  method sees it, its state stays as it is, and only the round counter and the timer move.\<close>

theorem duplicate_request_retransmitted:
  assumes "requested e v q t" "lastId e = uint (q ! 1)" "lastRespData e = Some r" "\<forall>n. alloc_e E n"
    and "workaround_e e \<longrightarrow> sha1 E (take (eap_len q) q) = last_sha1 e"
    and "selectedMethod e \<noteq> EAP_TYPE_LEAP" "selectedMethod e \<noteq> EAP_TYPE_PEAP"
  shows "\<exists>e' cs. eap_peer_sm_step_impl E e v = (e', cs, True) \<and> EAP_state e' = EAP_IDLE \<and>
    eapRespData e' = Some r \<and> lastRespData e' = Some r \<and> lastId e' = lastId e \<and> eap_method_priv e' = eap_method_priv e \<and>
    Set_Bool EAPOL_eapResp True \<in> set cs"
proof -
  let ?p = "parsed E e v q t"
  have "eap_peer_sm_step_received E ?p = EAP_RETRANSMIT_Enter E False ?p"
    using assms(1,2,5)
    by (simp add: requested_def eap_peer_sm_step_received_def eap_peer_req_is_duplicate_def parsed_def Let_def)
  also have "answering ?p (Some r) \<dots>"
    using assms(3,4) by (simp add: answering_def EAP_RETRANSMIT_Enter_def EAP_ENTRY_def Let_def parsed_def dup_bytes_def)
  finally have "answering ?p (Some r) (eap_peer_sm_step_received E ?p)" .
  from request_answered [OF assms(1) this assms(6,7)] assms(2,4) show ?thesis
    by (auto simp: dup_bytes_def)
qed

theorem duplicate_request_retransmitted_witness:
  "\<exists>e' cs. eap_peer_sm_step_impl exchange_env (exchange_peer\<lparr>lastId := 7, lastRespData := Some [2, 7, 0, 4]\<rparr>) exchange_vars
      = (e', cs, True) \<and> eapRespData e' = Some [2, 7, 0, 4]"
proof -
  let ?e = "exchange_peer\<lparr>lastId := 7, lastRespData := Some [2, 7, 0, 4]\<rparr>"
  have "requested ?e exchange_vars [1, 7, 0, 5, 1] 1" using exchange_requested by (simp add: requested_def)
  moreover have "lastId ?e = uint ([1, 7, 0, 5, 1 :: u8] ! 1)" "lastRespData ?e = Some [2, 7, 0, 4]"
    "\<forall>n. alloc_e exchange_env n" "\<not> workaround_e ?e" "selectedMethod ?e \<noteq> EAP_TYPE_LEAP" "selectedMethod ?e \<noteq> EAP_TYPE_PEAP"
    by (simp_all add: exchange_peer_def eap_peer_sm_init_def exchange_env_def)
  ultimately show ?thesis
    using duplicate_request_retransmitted [of ?e exchange_vars "[1, 7, 0, 5, 1]" 1 "[2, 7, 0, 4]" exchange_env] by blast
qed

section \<open>The step function settles\<close>

lemma changed_helpers [simp]:
  "changed_e (eapol_set_bool x b sm) = changed_e sm" "changed_e (eapol_set_int y n sm) = changed_e sm"
  "changed_e (eap_sm_free_key sm) = changed_e sm" "changed_e (eap_deinit_prev_method sm) = changed_e sm"
  "changed_e (nak E sm) = changed_e sm" "changed_e (EAP_ENTRY False s sm)"
  "changed_e (get_method_select r em sm) = changed_e sm" "changed_e (get_method_start E r m sm) = changed_e sm"
  by (simp_all add: eapol_set_bool_def eapol_set_int_def eap_sm_free_key_def eap_deinit_prev_method_def nak_def
      EAP_ENTRY_def get_method_select_def get_method_start_def Let_def split: prod.split)

lemma changed_parse [simp]: "changed_e (eap_sm_parseEapReq E q sm) = changed_e sm"
  by (simp add: eap_sm_parseEapReq_def eap_peer_initiate_def Let_def split: option.split)

lemma entered_changed [simp]:
  "changed_e (EAP_INITIALIZE_Enter E False sm)" "changed_e (EAP_IDLE_Enter False sm)"
  "changed_e (EAP_RECEIVED_Enter E False sm)" "changed_e (EAP_SEND_RESPONSE_Enter E False sm)"
  "changed_e (EAP_DISCARD_Enter False sm)" "changed_e (EAP_IDENTITY_Enter E False sm)"
  "changed_e (EAP_NOTIFICATION_Enter E False sm)" "changed_e (EAP_RETRANSMIT_Enter E False sm)"
  "changed_e (EAP_SUCCESS_Enter False sm)" "changed_e (EAP_FAILURE_Enter False sm)"
  by (simp_all add: EAP_INITIALIZE_Enter_def EAP_IDLE_Enter_def EAP_RECEIVED_Enter_def EAP_SEND_RESPONSE_Enter_def
      EAP_DISCARD_Enter_def EAP_IDENTITY_Enter_def EAP_NOTIFICATION_Enter_def EAP_RETRANSMIT_Enter_def
      EAP_SUCCESS_Enter_def EAP_FAILURE_Enter_def Let_def split: option.split)

lemma entered_get_method [simp]: "changed_e (EAP_GET_METHOD_Enter E False sm)"
  by (simp add: EAP_GET_METHOD_Enter_def Let_def split: option.split)

lemma entered_method [simp]: "changed_e (EAP_METHOD_Enter E False sm)"
  by (simp add: EAP_METHOD_Enter_def Let_def split: option.split prod.split)

lemma received_changed [simp]: "changed_e (eap_peer_sm_step_received E sm)"
  by (simp add: eap_peer_sm_step_received_def Let_def)

lemma local_unchanged:
  assumes "\<not> changed_e (eap_peer_sm_step_local E s t)"
  shows "eap_peer_sm_step_local E s t = t"
proof (cases s)
  case EAP_IDLE
  with idle_choices [of t E] assms show ?thesis by (auto split: if_splits)
qed (use assms in \<open>auto split: if_splits\<close>)

text \<open>The one state the loop can leave with work to do: a restart asked for while the machine is in
  \<open>EAP_INITIALIZE\<close>, whose global transition then changes nothing.\<close>

definition restarting :: "'p eap_sm \<Rightarrow> bool" where
  "restarting sm \<longleftrightarrow> EAP_state sm = EAP_INITIALIZE \<and> vbool (ev sm) EAPOL_eapRestart \<and> vbool (ev sm) EAPOL_portEnabled"

lemma restarting_shape: "shape sm = (s, q, r, p, f) \<Longrightarrow> restarting sm \<longleftrightarrow> s = EAP_INITIALIZE \<and> r \<and> p"
  by (auto simp: restarting_def shape_def)

lemma received_not_restarting:
  assumes "shape sm = (EAP_RECEIVED, q, r, p, f)"
  shows "\<not> restarting (eap_peer_sm_step_received E sm)"
  unfolding eap_peer_sm_step_received_def Let_def by (simp add: shapes [OF assms, THEN restarting_shape])

lemma step_not_restarting:
  assumes "\<not> restarting sm" shows "\<not> restarting (EAP_Step E sm)"
proof -
  obtain s q r p f where sh: "shape sm = (s, q, r, p, f)" by (cases "shape sm")
  then have vars: "s = EAP_state sm" "q = vbool (ev sm) EAPOL_eapReq" "r = vbool (ev sm) EAPOL_eapRestart"
    "p = vbool (ev sm) EAPOL_portEnabled" "f = force_disabled sm" by (auto simp: shape_def)
  have fail: "shape (EAP_FAILURE_Enter True (sm\<lparr>num_rounds := n\<rparr>)) = (EAP_FAILURE, False, r, p, f)" for n
    using sh by (simp add: shapes)
  have loc: "\<not> restarting (eap_peer_sm_step_local E s sm)"
  proof (cases s)
    case EAP_RECEIVED
    with received_not_restarting [of sm q r p f E] sh show ?thesis by simp
  next
    case EAP_IDLE
    with idle_choices [of sm E] assms show ?thesis
      by (auto simp: restarting_shape [OF shapes(3) [OF sh]] restarting_shape [OF enter_shapes(9) [OF sh]]
          restarting_shape [OF enter_shapes(10) [OF sh]] restarting_shape [OF shape_received [OF sh]] split: if_splits)
  qed (use assms sh in \<open>auto simp: restarting_shape [OF enter_shapes(1) [OF sh]] restarting_shape [OF enter_shapes(3) [OF sh]]
      restarting_shape [OF enter_shapes(4) [OF sh]] restarting_shape [OF enter_shapes(5) [OF sh]]
      restarting_shape [OF enter_shapes(10) [OF sh]] restarting_shape [OF shape_method [OF sh]]\<close>)
  show ?thesis
    using loc assms unfolding EAP_Step_def eapol_get_bool_def vars
    by (simp add: restarting_shape [OF enter_shapes(1) [OF sh]] restarting_shape [OF enter_shapes(2) [OF sh]]
        restarting_shape [OF fail])
qed

lemma step_settled:
  assumes "\<not> restarting t" "\<not> changed_e t" "\<not> changed_e (EAP_Step E t)"
  shows "\<not> changed_e (EAP_Step E (EAP_Step E t))"
proof -
  let ?restart = "vbool (ev t) EAPOL_eapRestart \<and> vbool (ev t) EAPOL_portEnabled"
  consider "?restart" | "\<not> ?restart" "\<not> vbool (ev t) EAPOL_portEnabled \<or> force_disabled t"
    | "\<not> ?restart" "vbool (ev t) EAPOL_portEnabled" "\<not> force_disabled t" "num_rounds t = 51"
    | "EAP_Step E t = t \<or> (\<exists>s. EAP_Step E t = eap_peer_sm_step_local E s t)"
    unfolding EAP_Step_def eapol_get_bool_def by fastforce
  then show ?thesis
  proof cases
    case 1
    then have "EAP_Step E t = EAP_INITIALIZE_Enter E True t" by (simp add: EAP_Step_def eapol_get_bool_def)
    then have "changed_e (EAP_Step E t)" using assms(1) 1
      by (simp add: EAP_INITIALIZE_Enter_def Let_def EAP_ENTRY_def restarting_def)
    with assms(3) show ?thesis by simp
  next
    case 2
    then have u: "EAP_Step E t = EAP_DISABLED_Enter True t" by (auto simp: EAP_Step_def eapol_get_bool_def)
    then have "EAP_Step E (EAP_Step E t) = EAP_DISABLED_Enter True (EAP_Step E t)" using 2
      by (auto simp: EAP_Step_def eapol_get_bool_def EAP_DISABLED_Enter_def EAP_ENTRY_def eapol_set_int_def)
    with assms(3) u show ?thesis
      by (simp add: global_changed) (simp add: EAP_DISABLED_Enter_def EAP_ENTRY_def eapol_set_int_def)
  next
    case 3
    then have u: "EAP_Step E t = EAP_FAILURE_Enter True (t\<lparr>num_rounds := 52\<rparr>)" by (auto simp: EAP_Step_def eapol_get_bool_def)
    then have "EAP_Step E (EAP_Step E t) = EAP_Step E t" using 3
      by (auto simp: EAP_Step_def eapol_get_bool_def EAP_FAILURE_Enter_def EAP_ENTRY_def eapol_set_bool_def Let_def)
    with assms(3) show ?thesis by simp
  next
    case 4
    then have "EAP_Step E t = t" using assms(3) local_unchanged by metis
    with assms(2) show ?thesis by simp
  qed
qed

lemma loop_settled:
  "eap_step_loop E res sm = (r, sm') \<Longrightarrow> \<not> restarting sm \<Longrightarrow> \<not> changed_e sm' \<and> \<not> changed_e (EAP_Step E sm')"
proof (induction E res sm rule: eap_step_loop.induct)
  case (1 E res sm)
  let ?t = "sm\<lparr>changed_e := False\<rparr>"
  have t: "\<not> restarting ?t" using "1.prems"(2) by (simp add: restarting_def)
  show ?case
  proof (cases "changed_e (EAP_Step E ?t)")
    case True
    with "1.IH" [OF refl True] "1.prems"(1) step_not_restarting [OF t, of E] show ?thesis
      by (simp add: step_loop_more)
  next
    case False
    with "1.prems"(1) step_settled [OF t _ False] show ?thesis by (simp add: step_loop_still)
  qed
qed

text \<open>C20: The loop of \<open>eap_peer_sm_step\<close> always ends, and it ends with nothing left to do: stepping the
  peer once more would change no state, unless it was asked to restart while still in
  \<open>EAP_INITIALIZE\<close>.\<close>

theorem eap_step_settles:
  assumes "\<not> (EAP_state e = EAP_INITIALIZE \<and> vbool v EAPOL_eapRestart \<and> vbool v EAPOL_portEnabled)"
  shows "\<exists>e' cs r. eap_peer_sm_step_impl E e v = (e', cs, r) \<and> \<not> changed_e (EAP_Step E e')"
proof -
  obtain r e' where l: "eap_step_loop E False (e\<lparr>ev := v, calls := []\<rparr>) = (r, e')"
    by (cases "eap_step_loop E False (e\<lparr>ev := v, calls := []\<rparr>)")
  have "\<not> restarting (e\<lparr>ev := v, calls := []\<rparr>)" using assms by (simp add: restarting_def)
  from loop_settled [OF l this] l show ?thesis by (auto simp: eap_peer_sm_step_impl_def)
qed

theorem eap_step_settles_witness:
  "\<exists>e' cs r. eap_peer_sm_step_impl exchange_env exchange_peer exchange_vars = (e', cs, r) \<and>
    \<not> changed_e (EAP_Step exchange_env e')"
  by (rule eap_step_settles) (simp add: exchange_peer_def)

end
