(* ===== verification/Eloop.thy ===== *)
theory Eloop
  imports Prelude "HOL-Library.Multiset"
begin

text \<open>
  \<open>wpa_supplicant/src/utils/eloop.c\<close> as built by default, over \<open>select\<close>: the timeouts, the sockets, the
  signals and the loop \<open>eloop_run\<close>. \<open>struct eloop_data\<close> is the record \<open>eloop\<close>; its \<open>dl_list\<close> of timeouts
  and its arrays are lists. A handler is a value of type \<open>'h\<close>, the data pointers are words. \<open>os_time_t\<close> has
  32 bits. What a timeout queue promises its users is the locale \<open>timeout_service\<close>.
\<close>

section \<open>Data\<close>

type_synonym ptr = "32 word"

abbreviation (input) ELOOP_ALL_CTX :: ptr where "ELOOP_ALL_CTX \<equiv> - 1"

record reltime =
  sec :: int
  usec :: int

record 'h eloop_timeout =
  t_time :: reltime
  t_eloop_data :: ptr
  t_user_data :: ptr
  t_handler :: 'h

record 'h eloop_sock =
  sock :: int
  s_eloop_data :: ptr
  s_user_data :: ptr
  s_handler :: 'h

record 'h eloop_signal =
  sig :: int
  g_user_data :: ptr
  g_handler :: 'h
  g_signaled :: nat

datatype eloop_event_type = EVENT_TYPE_READ | EVENT_TYPE_WRITE | EVENT_TYPE_EXCEPTION

record 'h eloop_sock_table =
  table :: "'h eloop_sock list"
  tchanged :: bool

record 'h eloop =
  max_sock :: int
  sock_count :: nat
  readers :: "'h eloop_sock_table"
  writers :: "'h eloop_sock_table"
  exceptions :: "'h eloop_sock_table"
  timeout :: "'h eloop_timeout list"
  signals :: "'h eloop_signal list"
  signaled :: nat
  pending_terminate :: bool
  terminate :: bool

definition eloop_init :: "'h eloop" where
  "eloop_init = \<lparr>max_sock = 0, sock_count = 0, readers = \<lparr>table = [], tchanged = False\<rparr>,
     writers = \<lparr>table = [], tchanged = False\<rparr>, exceptions = \<lparr>table = [], tchanged = False\<rparr>,
     timeout = [], signals = [], signaled = 0, pending_terminate = False, terminate = False\<rparr>"

section \<open>Times\<close>

definition os_reltime_before :: "reltime \<Rightarrow> reltime \<Rightarrow> bool" where
  "os_reltime_before a b \<longleftrightarrow> sec a < sec b \<or> sec a = sec b \<and> usec a < usec b"

definition os_reltime_sub :: "reltime \<Rightarrow> reltime \<Rightarrow> reltime" where
  "os_reltime_sub a b =
     (let s = sec a - sec b; u = usec a - usec b
      in if u < 0 then \<lparr>sec = s - 1, usec = u + 1000000\<rparr> else \<lparr>sec = s, usec = u\<rparr>)"

text \<open>Conversion of a 32-bit value to \<open>os_time_t\<close>.\<close>

definition wrap32 :: "int \<Rightarrow> int" where "wrap32 x = (x + 2 ^ 31) mod 2 ^ 32 - 2 ^ 31"

text \<open>The seconds wrap around as the addition of the registration does.\<close>

function carry_usec :: "reltime \<Rightarrow> reltime" where
  "carry_usec t = (if usec t \<ge> 1000000 then carry_usec \<lparr>sec = wrap32 (sec t + 1), usec = usec t - 1000000\<rparr> else t)"
  by pat_completeness auto
termination by (relation "measure (nat \<circ> usec)") auto

declare carry_usec.simps [simp del]

section \<open>Timeouts\<close>

text \<open>The new timeout goes before the first one that is later.\<close>

fun insert_timeout :: "'h eloop_timeout \<Rightarrow> 'h eloop_timeout list \<Rightarrow> 'h eloop_timeout list" where
  "insert_timeout t [] = [t]"
| "insert_timeout t (x # xs) =
     (if os_reltime_before (t_time t) (t_time x) then t # x # xs else x # insert_timeout t xs)"

text \<open>\<open>alloc\<close> says whether the allocation succeeds, \<open>now\<close> is what \<open>os_get_reltime\<close> gives.\<close>

definition eloop_register_timeout ::
    "bool \<Rightarrow> reltime option \<Rightarrow> nat \<Rightarrow> nat \<Rightarrow> 'h \<Rightarrow> ptr \<Rightarrow> ptr \<Rightarrow> 'h eloop \<Rightarrow> int \<times> 'h eloop" where
  "eloop_register_timeout alloc now secs usecs handler edata udata el =
     (if \<not> alloc then (-1, el)
      else case now of
        None \<Rightarrow> (-1, el)
      | Some now \<Rightarrow>
          let s = wrap32 (sec now + int secs)
          in if s < sec now then (0, el)
             else let t = \<lparr>t_time = carry_usec \<lparr>sec = s, usec = wrap32 (usec now + int usecs)\<rparr>,
                           t_eloop_data = edata, t_user_data = udata, t_handler = handler\<rparr>
               in (0, el\<lparr>timeout := insert_timeout t (timeout el)\<rparr>))"

definition cancel_matches :: "'h \<Rightarrow> ptr \<Rightarrow> ptr \<Rightarrow> 'h eloop_timeout \<Rightarrow> bool" where
  "cancel_matches handler edata udata t \<longleftrightarrow> t_handler t = handler \<and>
     (t_eloop_data t = edata \<or> edata = ELOOP_ALL_CTX) \<and> (t_user_data t = udata \<or> udata = ELOOP_ALL_CTX)"

fun cancel_loop :: "('h eloop_timeout \<Rightarrow> bool) \<Rightarrow> 'h eloop_timeout list \<Rightarrow> nat \<times> 'h eloop_timeout list" where
  "cancel_loop m [] = (0, [])"
| "cancel_loop m (t # ts) =
     (let (n, ts) = cancel_loop m ts in if m t then (n + 1, ts) else (n, t # ts))"

definition eloop_cancel_timeout :: "'h \<Rightarrow> ptr \<Rightarrow> ptr \<Rightarrow> 'h eloop \<Rightarrow> nat \<times> 'h eloop" where
  "eloop_cancel_timeout handler edata udata el =
     (let (n, ts) = cancel_loop (cancel_matches handler edata udata) (timeout el) in (n, el\<lparr>timeout := ts\<rparr>))"

definition exact_match :: "'h \<Rightarrow> ptr \<Rightarrow> ptr \<Rightarrow> 'h eloop_timeout \<Rightarrow> bool" where
  "exact_match handler edata udata t \<longleftrightarrow> t_handler t = handler \<and> t_eloop_data t = edata \<and> t_user_data t = udata"

fun remove_first :: "('a \<Rightarrow> bool) \<Rightarrow> 'a list \<Rightarrow> 'a list" where
  "remove_first p [] = []"
| "remove_first p (x # xs) = (if p x then xs else x # remove_first p xs)"

definition eloop_cancel_timeout_one ::
    "reltime \<Rightarrow> 'h \<Rightarrow> ptr \<Rightarrow> ptr \<Rightarrow> 'h eloop \<Rightarrow> nat \<times> reltime \<times> 'h eloop" where
  "eloop_cancel_timeout_one now handler edata udata el =
     (case find (exact_match handler edata udata) (timeout el) of
        None \<Rightarrow> (0, \<lparr>sec = 0, usec = 0\<rparr>, el)
      | Some t \<Rightarrow>
          (1, if os_reltime_before now (t_time t) then os_reltime_sub (t_time t) now else \<lparr>sec = 0, usec = 0\<rparr>,
           el\<lparr>timeout := remove_first (exact_match handler edata udata) (timeout el)\<rparr>))"

definition eloop_is_timeout_registered :: "'h \<Rightarrow> ptr \<Rightarrow> ptr \<Rightarrow> 'h eloop \<Rightarrow> bool" where
  "eloop_is_timeout_registered handler edata udata el = list_ex (exact_match handler edata udata) (timeout el)"

definition eloop_deplete_timeout ::
    "bool \<Rightarrow> reltime \<Rightarrow> nat \<Rightarrow> nat \<Rightarrow> 'h \<Rightarrow> ptr \<Rightarrow> ptr \<Rightarrow> 'h eloop \<Rightarrow> int \<times> 'h eloop" where
  "eloop_deplete_timeout alloc now secs usecs handler edata udata el =
     (case find (exact_match handler edata udata) (timeout el) of
        None \<Rightarrow> (-1, el)
      | Some t \<Rightarrow>
          if os_reltime_before \<lparr>sec = wrap32 (int secs), usec = wrap32 (int usecs)\<rparr> (os_reltime_sub (t_time t) now)
          then (1, snd (eloop_register_timeout alloc (Some now) (nat (wrap32 (int secs) mod 2 ^ 32))
                     (nat (wrap32 (int usecs) mod 2 ^ 32)) handler edata udata
                     (snd (eloop_cancel_timeout handler edata udata el))))
          else (0, el))"

definition eloop_replenish_timeout ::
    "bool \<Rightarrow> reltime \<Rightarrow> nat \<Rightarrow> nat \<Rightarrow> 'h \<Rightarrow> ptr \<Rightarrow> ptr \<Rightarrow> 'h eloop \<Rightarrow> int \<times> 'h eloop" where
  "eloop_replenish_timeout alloc now secs usecs handler edata udata el =
     (case find (exact_match handler edata udata) (timeout el) of
        None \<Rightarrow> (-1, el)
      | Some t \<Rightarrow>
          if os_reltime_before (os_reltime_sub (t_time t) now) \<lparr>sec = wrap32 (int secs), usec = wrap32 (int usecs)\<rparr>
          then (1, snd (eloop_register_timeout alloc (Some now) (nat (wrap32 (int secs) mod 2 ^ 32))
                     (nat (wrap32 (int usecs) mod 2 ^ 32)) handler edata udata
                     (snd (eloop_cancel_timeout handler edata udata el))))
          else (0, el))"

section \<open>Sockets and signals\<close>

fun get_sock_table :: "eloop_event_type \<Rightarrow> 'h eloop \<Rightarrow> 'h eloop_sock_table" where
  "get_sock_table EVENT_TYPE_READ el = readers el"
| "get_sock_table EVENT_TYPE_WRITE el = writers el"
| "get_sock_table EVENT_TYPE_EXCEPTION el = exceptions el"

fun set_sock_table :: "eloop_event_type \<Rightarrow> 'h eloop_sock_table \<Rightarrow> 'h eloop \<Rightarrow> 'h eloop" where
  "set_sock_table EVENT_TYPE_READ t el = el\<lparr>readers := t\<rparr>"
| "set_sock_table EVENT_TYPE_WRITE t el = el\<lparr>writers := t\<rparr>"
| "set_sock_table EVENT_TYPE_EXCEPTION t el = el\<lparr>exceptions := t\<rparr>"

definition eloop_sock_table_add_sock ::
    "bool \<Rightarrow> eloop_event_type \<Rightarrow> int \<Rightarrow> 'h \<Rightarrow> ptr \<Rightarrow> ptr \<Rightarrow> 'h eloop \<Rightarrow> int \<times> 'h eloop" where
  "eloop_sock_table_add_sock alloc type fd handler edata udata el =
     (let new_max_sock = (if fd > max_sock el then fd else max_sock el); t = get_sock_table type el
      in if \<not> alloc then (-1, el)
         else let e = \<lparr>sock = fd, s_eloop_data = edata, s_user_data = udata, s_handler = handler\<rparr>
           in (0, (set_sock_table type \<lparr>table = table t @ [e], tchanged = True\<rparr> el)
                    \<lparr>max_sock := new_max_sock, sock_count := sock_count el + 1\<rparr>))"

definition eloop_sock_table_remove_sock :: "eloop_event_type \<Rightarrow> int \<Rightarrow> 'h eloop \<Rightarrow> 'h eloop" where
  "eloop_sock_table_remove_sock type fd el =
     (let t = get_sock_table type el
      in if \<not> list_ex (\<lambda>e. sock e = fd) (table t) then el
         else (set_sock_table type \<lparr>table = remove_first (\<lambda>e. sock e = fd) (table t), tchanged = True\<rparr> el)
                \<lparr>sock_count := sock_count el - 1\<rparr>)"

text \<open>\<open>assert\<close> in \<open>eloop_register_sock\<close>: \<open>None\<close> is the failed assertion.\<close>

definition eloop_register_sock ::
    "bool \<Rightarrow> int \<Rightarrow> eloop_event_type \<Rightarrow> 'h \<Rightarrow> ptr \<Rightarrow> ptr \<Rightarrow> 'h eloop \<Rightarrow> (int \<times> 'h eloop) option" where
  "eloop_register_sock alloc fd type handler edata udata el =
     (if fd < 0 then None else Some (eloop_sock_table_add_sock alloc type fd handler edata udata el))"

definition eloop_unregister_sock :: "int \<Rightarrow> eloop_event_type \<Rightarrow> 'h eloop \<Rightarrow> 'h eloop" where
  "eloop_unregister_sock fd type el = eloop_sock_table_remove_sock type fd el"

definition eloop_register_read_sock ::
    "bool \<Rightarrow> int \<Rightarrow> 'h \<Rightarrow> ptr \<Rightarrow> ptr \<Rightarrow> 'h eloop \<Rightarrow> (int \<times> 'h eloop) option" where
  "eloop_register_read_sock alloc fd handler edata udata el =
     eloop_register_sock alloc fd EVENT_TYPE_READ handler edata udata el"

definition eloop_unregister_read_sock :: "int \<Rightarrow> 'h eloop \<Rightarrow> 'h eloop" where
  "eloop_unregister_read_sock fd el = eloop_unregister_sock fd EVENT_TYPE_READ el"

definition eloop_register_signal :: "bool \<Rightarrow> int \<Rightarrow> 'h \<Rightarrow> ptr \<Rightarrow> 'h eloop \<Rightarrow> int \<times> 'h eloop" where
  "eloop_register_signal alloc s handler udata el =
     (if \<not> alloc then (-1, el)
      else (0, el\<lparr>signals := signals el @ [\<lparr>sig = s, g_user_data = udata, g_handler = handler, g_signaled = 0\<rparr>]\<rparr>))"

abbreviation (input) SIGINT :: int where "SIGINT \<equiv> 2"
abbreviation (input) SIGTERM :: int where "SIGTERM \<equiv> 15"
abbreviation (input) SIGHUP :: int where "SIGHUP \<equiv> 1"

text \<open>\<open>alloc2\<close> is the second allocation; after the first has failed there is none.\<close>

definition eloop_register_signal_terminate :: "bool \<Rightarrow> bool \<Rightarrow> 'h \<Rightarrow> ptr \<Rightarrow> 'h eloop \<Rightarrow> int \<times> 'h eloop" where
  "eloop_register_signal_terminate alloc alloc2 handler udata el =
     (let (ret, el) = eloop_register_signal alloc SIGINT handler udata el
      in if ret = 0 then eloop_register_signal alloc2 SIGTERM handler udata el else (ret, el))"

definition eloop_register_signal_reconfig :: "bool \<Rightarrow> 'h \<Rightarrow> ptr \<Rightarrow> 'h eloop \<Rightarrow> int \<times> 'h eloop" where
  "eloop_register_signal_reconfig alloc handler udata el = eloop_register_signal alloc SIGHUP handler udata el"

fun mark_signal :: "int \<Rightarrow> 'h eloop_signal list \<Rightarrow> 'h eloop_signal list" where
  "mark_signal s [] = []"
| "mark_signal s (g # gs) = (if sig g = s then g\<lparr>g_signaled := g_signaled g + 1\<rparr> # gs else g # mark_signal s gs)"

definition eloop_handle_signal :: "int \<Rightarrow> 'h eloop \<Rightarrow> 'h eloop" where
  "eloop_handle_signal s el =
     (let el = (if (s = SIGINT \<or> s = SIGTERM) \<and> \<not> pending_terminate el then el\<lparr>pending_terminate := True\<rparr> else el)
      in el\<lparr>signaled := signaled el + 1, signals := mark_signal s (signals el)\<rparr>)"

definition eloop_terminate :: "'h eloop \<Rightarrow> 'h eloop" where
  "eloop_terminate el = el\<lparr>terminate := True\<rparr>"

definition eloop_terminated :: "'h eloop \<Rightarrow> bool" where
  "eloop_terminated el \<longleftrightarrow> terminate el \<or> pending_terminate el"

section \<open>The loop\<close>

text \<open>What the loop finds outside: the clock, \<open>select\<close> (its result, whether it failed for good, and the
  descriptors that are ready) and the handlers, which may call any of the functions above.\<close>

record ('h, 's) world =
  get_reltime :: "'s \<Rightarrow> reltime \<times> 's"
  select_fds :: "int \<Rightarrow> int list \<Rightarrow> int list \<Rightarrow> int list \<Rightarrow> reltime option \<Rightarrow> 's \<Rightarrow>
    (int \<times> bool \<times> int list \<times> int list \<times> int list) \<times> 's"
  call_timeout :: "'h \<Rightarrow> ptr \<Rightarrow> ptr \<Rightarrow> 'h eloop \<times> 's \<Rightarrow> 'h eloop \<times> 's"
  call_sock :: "'h \<Rightarrow> int \<Rightarrow> ptr \<Rightarrow> ptr \<Rightarrow> 'h eloop \<times> 's \<Rightarrow> 'h eloop \<times> 's"
  call_signal :: "'h \<Rightarrow> int \<Rightarrow> ptr \<Rightarrow> 'h eloop \<times> 's \<Rightarrow> 'h eloop \<times> 's"

partial_function (option) signal_loop ::
    "('h, 's) world \<Rightarrow> nat \<Rightarrow> 'h eloop \<times> 's \<Rightarrow> ('h eloop \<times> 's) option" where
  "signal_loop W i st =
     (if i < length (signals (fst st)) then
        let g = signals (fst st) ! i
        in if g_signaled g > 0 then
             signal_loop W (i + 1) (call_signal W (g_handler g) (sig g) (g_user_data g)
               ((fst st)\<lparr>signals := (signals (fst st))[i := g\<lparr>g_signaled := 0\<rparr>]\<rparr>, snd st))
           else signal_loop W (i + 1) st
      else Some st)"

definition eloop_process_pending_signals ::
    "('h, 's) world \<Rightarrow> 'h eloop \<times> 's \<Rightarrow> ('h eloop \<times> 's) option" where
  "eloop_process_pending_signals W st =
     (let el = fst st
      in if signaled el = 0 then Some st
         else signal_loop W 0 (el\<lparr>signaled := 0, pending_terminate := False\<rparr>, snd st))"

text \<open>The wait for \<open>select\<close>, and the dispatch of the first timeout when it has come.\<close>

definition wait_time :: "('h, 's) world \<Rightarrow> 'h eloop \<times> 's \<Rightarrow> reltime option \<times> 's" where
  "wait_time W st =
     (case timeout (fst st) of
        [] \<Rightarrow> (None, snd st)
      | t # _ \<Rightarrow>
          let (now, s) = get_reltime W (snd st)
          in (Some (if os_reltime_before now (t_time t) then os_reltime_sub (t_time t) now else \<lparr>sec = 0, usec = 0\<rparr>), s))"

definition fire_timeout :: "('h, 's) world \<Rightarrow> 'h eloop \<times> 's \<Rightarrow> 'h eloop \<times> 's" where
  "fire_timeout W st =
     (case timeout (fst st) of
        [] \<Rightarrow> st
      | t # ts \<Rightarrow>
          let (now, s) = get_reltime W (snd st)
          in if \<not> os_reltime_before now (t_time t)
             then call_timeout W (t_handler t) (t_eloop_data t) (t_user_data t) ((fst st)\<lparr>timeout := ts\<rparr>, s)
             else (fst st, s))"

definition clear_changed :: "eloop_event_type \<Rightarrow> 'h eloop \<Rightarrow> 'h eloop" where
  "clear_changed type el = set_sock_table type ((get_sock_table type el)\<lparr>tchanged := False\<rparr>) el"

partial_function (option) dispatch_loop ::
    "('h, 's) world \<Rightarrow> eloop_event_type \<Rightarrow> int list \<Rightarrow> nat \<Rightarrow> 'h eloop \<times> 's \<Rightarrow> ('h eloop \<times> 's) option" where
  "dispatch_loop W type ready i st =
     (let t = get_sock_table type (fst st)
      in if i < length (table t) then
           let e = table t ! i
           in if sock e \<in> set ready then
                let st = call_sock W (s_handler e) (sock e) (s_eloop_data e) (s_user_data e) st
                in if tchanged (get_sock_table type (fst st)) then Some st else dispatch_loop W type ready (i + 1) st
              else dispatch_loop W type ready (i + 1) st
         else Some st)"

definition eloop_sock_table_dispatch ::
    "('h, 's) world \<Rightarrow> eloop_event_type \<Rightarrow> int list \<Rightarrow> 'h eloop \<times> 's \<Rightarrow> ('h eloop \<times> 's) option" where
  "eloop_sock_table_dispatch W type ready st = dispatch_loop W type ready 0 (clear_changed type (fst st), snd st)"

definition any_changed :: "'h eloop \<Rightarrow> bool" where
  "any_changed el \<longleftrightarrow> tchanged (readers el) \<or> tchanged (writers el) \<or> tchanged (exceptions el)"

text \<open>One turn of the loop; the flag says whether the loop goes on.\<close>

definition eloop_turn :: "('h, 's) world \<Rightarrow> 'h eloop \<times> 's \<Rightarrow> (bool \<times> 'h eloop \<times> 's) option" where
  "eloop_turn W st =
     Option.bind (if pending_terminate (fst st) then eloop_process_pending_signals W st else Some st) (\<lambda>st'.
       if pending_terminate (fst st) \<and> terminate (fst st') then Some (False, (fst st')\<lparr>terminate := False\<rparr>, snd st')
       else
         let el = fst st'; (tv, s) = wait_time W st';
             ((res, fatal, rfds, wfds, efds), s) =
               select_fds W (max_sock el + 1) (map sock (table (readers el))) (map sock (table (writers el)))
                 (map sock (table (exceptions el))) tv s
         in if res < 0 \<and> fatal then Some (False, el, s)
            else
              let el = clear_changed EVENT_TYPE_READ (clear_changed EVENT_TYPE_WRITE (clear_changed EVENT_TYPE_EXCEPTION el))
              in Option.bind (eloop_process_pending_signals W (el, s)) (\<lambda>st.
                   let st = fire_timeout W st
                   in if res \<le> 0 \<or> any_changed (fst st) then Some (True, st)
                      else Option.bind (eloop_sock_table_dispatch W EVENT_TYPE_READ rfds st) (\<lambda>st.
                             Option.bind (eloop_sock_table_dispatch W EVENT_TYPE_WRITE wfds st) (\<lambda>st.
                               Option.bind (eloop_sock_table_dispatch W EVENT_TYPE_EXCEPTION efds st) (\<lambda>st.
                                 Some (True, st))))))"

partial_function (option) run_loop :: "('h, 's) world \<Rightarrow> 'h eloop \<times> 's \<Rightarrow> ('h eloop \<times> 's) option" where
  "run_loop W st =
     (let el = fst st
      in if \<not> terminate el \<and> (timeout el \<noteq> [] \<or> table (readers el) \<noteq> [] \<or> table (writers el) \<noteq> []
           \<or> table (exceptions el) \<noteq> [])
         then Option.bind (eloop_turn W st) (\<lambda>(go, st). if go then run_loop W st else Some st)
         else Some (el\<lparr>terminate := False\<rparr>, snd st))"

definition eloop_run :: "('h, 's) world \<Rightarrow> bool \<Rightarrow> 'h eloop \<times> 's \<Rightarrow> ('h eloop \<times> 's) option" where
  "eloop_run W alloc st = (if \<not> alloc then Some st else run_loop W st)"

end
