(* ===== verification/Eloop_Queue.thy ===== *)
theory Eloop_Queue
  imports Eloop
begin

text \<open>
  The state of the event loop of \<open>eloop.c\<close> keeps its invariant under every call and every step of the
  loop, and its timeouts are a queue ordered by time.
  The promise of the queue to its users is the locale \<open>timeout_service\<close>.
\<close>

section \<open>Order\<close>

definition not_after :: "reltime \<Rightarrow> reltime \<Rightarrow> bool" where
  "not_after a b \<longleftrightarrow> \<not> os_reltime_before b a"

lemma not_after_trans: "not_after a b \<Longrightarrow> not_after b c \<Longrightarrow> not_after a c"
  by (auto simp: not_after_def os_reltime_before_def)

lemma before_not_after: "os_reltime_before a b \<Longrightarrow> not_after a b"
  by (auto simp: not_after_def os_reltime_before_def)

definition time_sorted :: "'h eloop_timeout list \<Rightarrow> bool" where
  "time_sorted = sorted_wrt (\<lambda>a b. not_after (t_time a) (t_time b))"

lemma mset_insert_timeout [simp]: "mset (insert_timeout t ts) = add_mset t (mset ts)"
  by (induction ts) auto

lemma set_insert_timeout [simp]: "set (insert_timeout t ts) = insert t (set ts)"
  by (induction ts) auto

lemma sorted_insert_timeout: "time_sorted ts \<Longrightarrow> time_sorted (insert_timeout t ts)"
proof (induction ts)
  case (Cons x xs)
  show ?case
  proof (cases "os_reltime_before (t_time t) (t_time x)")
    case True
    then have "not_after (t_time t) (t_time x)" by (rule before_not_after)
    with Cons.prems not_after_trans [OF this] True show ?thesis by (auto simp: time_sorted_def)
  next
    case False
    with Cons show ?thesis by (auto simp: time_sorted_def not_after_def)
  qed
qed (simp add: time_sorted_def)

lemma sorted_filter: "time_sorted ts \<Longrightarrow> time_sorted (filter p ts)"
  unfolding time_sorted_def by (rule sorted_wrt_filter)

lemma cancel_loop_filter [simp]:
  "cancel_loop m ts = (length (filter m ts), filter (\<lambda>t. \<not> m t) ts)"
  by (induction ts) (auto simp: Let_def split: prod.split)

lemma remove_first_split:
  "(\<nexists>x. x \<in> set xs \<and> p x) \<and> remove_first p xs = xs \<or>
   (\<exists>us x vs. xs = us @ x # vs \<and> p x \<and> (\<forall>u\<in>set us. \<not> p u) \<and> remove_first p xs = us @ vs)"
proof (induction xs)
  case (Cons a as)
  show ?case
  proof (cases "p a")
    case True
    then show ?thesis by (intro disjI2 exI [of _ "[]"]) auto
  next
    case False
    from Cons show ?thesis
    proof
      assume "(\<nexists>x. x \<in> set as \<and> p x) \<and> remove_first p as = as"
      with False show ?thesis by auto
    next
      assume "\<exists>us x vs. as = us @ x # vs \<and> p x \<and> (\<forall>u\<in>set us. \<not> p u) \<and> remove_first p as = us @ vs"
      then obtain us x vs where "as = us @ x # vs" "p x" "\<forall>u\<in>set us. \<not> p u" "remove_first p as = us @ vs" by blast
      with False show ?thesis by (intro disjI2 exI [of _ "a # us"] exI [of _ x] exI [of _ vs]) auto
    qed
  qed
qed simp

lemma sorted_remove_first: "time_sorted ts \<Longrightarrow> time_sorted (remove_first p ts)"
  using remove_first_split [of ts p] by (auto simp: time_sorted_def sorted_wrt_append)

lemma length_remove_first: "list_ex p xs \<Longrightarrow> length xs = Suc (length (remove_first p xs))"
  using remove_first_split [of xs p] by (auto simp: list_ex_iff)

lemma set_remove_first: "set (remove_first p xs) \<subseteq> set xs"
  by (induction xs) auto

section \<open>Times in normal form\<close>

definition total :: "reltime \<Rightarrow> int" where "total t = sec t * 1000000 + usec t"

lemma wrap32_id: "- (2 ^ 31) \<le> x \<Longrightarrow> x < 2 ^ 31 \<Longrightarrow> wrap32 x = x"
  by (simp add: wrap32_def)

lemma carry_usec_total:
  "0 \<le> usec t \<Longrightarrow> 0 \<le> sec t \<Longrightarrow> total t < 2 ^ 31 * 1000000 \<Longrightarrow>
    total (carry_usec t) = total t \<and> 0 \<le> usec (carry_usec t) \<and> usec (carry_usec t) < 1000000"
proof (induction t rule: carry_usec.induct)
  case (1 t)
  show ?case
  proof (cases "usec t \<ge> 1000000")
    case True
    with "1.prems" have "wrap32 (sec t + 1) = sec t + 1" by (intro wrap32_id) (auto simp: total_def)
    with 1 True show ?thesis by (subst (1 2 3) carry_usec.simps) (simp add: total_def algebra_simps)
  next
    case False
    with 1 show ?thesis by (subst (1 2 3) carry_usec.simps) simp
  qed
qed

section \<open>The invariant\<close>

text \<open>The timeouts are in order; the socket count is the number of entries of the three tables; and
  every registered socket lies below \<open>max_sock + 1\<close>, the bound \<open>select\<close> is given.\<close>

definition eloop_ok :: "'h eloop \<Rightarrow> bool" where
  "eloop_ok el \<longleftrightarrow> time_sorted (timeout el) \<and>
     sock_count el = length (table (readers el)) + length (table (writers el)) + length (table (exceptions el)) \<and>
     (\<forall>e\<in>set (table (readers el)) \<union> set (table (writers el)) \<union> set (table (exceptions el)).
        0 \<le> sock e \<and> sock e \<le> max_sock el)"

text \<open>The calls that a program and its handlers make, the signals that arrive, and what the loop itself does
  to the state: it takes the first timeout off the queue, clears the flags of the tables before it
  dispatches, takes the signals that have arrived, and clears \<open>terminate\<close> at its end.\<close>

datatype 'h eloop_op =
  Register bool "reltime option" nat nat 'h ptr ptr
  | Cancel 'h ptr ptr
  | Cancel_One reltime 'h ptr ptr
  | Deplete bool reltime nat nat 'h ptr ptr
  | Replenish bool reltime nat nat 'h ptr ptr
  | Register_Sock bool int eloop_event_type 'h ptr ptr
  | Unregister_Sock int eloop_event_type
  | Register_Signal bool int 'h ptr
  | Signal int
  | Terminate
  | Take_First
  | Clear_Changed eloop_event_type
  | Take_Signals
  | Take_Signal nat
  | Loop_End

fun eloop_do :: "'h eloop_op \<Rightarrow> 'h eloop \<Rightarrow> 'h eloop option" where
  "eloop_do (Register a n s u h e d) el = Some (snd (eloop_register_timeout a n s u h e d el))"
| "eloop_do (Cancel h e d) el = Some (snd (eloop_cancel_timeout h e d el))"
| "eloop_do (Cancel_One n h e d) el = Some (snd (snd (eloop_cancel_timeout_one n h e d el)))"
| "eloop_do (Deplete a n s u h e d) el = Some (snd (eloop_deplete_timeout a n s u h e d el))"
| "eloop_do (Replenish a n s u h e d) el = Some (snd (eloop_replenish_timeout a n s u h e d el))"
| "eloop_do (Register_Sock a f t h e d) el = map_option snd (eloop_register_sock a f t h e d el)"
| "eloop_do (Unregister_Sock f t) el = Some (eloop_unregister_sock f t el)"
| "eloop_do (Register_Signal a s h d) el = Some (snd (eloop_register_signal a s h d el))"
| "eloop_do (Signal s) el = Some (eloop_handle_signal s el)"
| "eloop_do Terminate el = Some (eloop_terminate el)"
| "eloop_do Take_First el = Some (el\<lparr>timeout := tl (timeout el)\<rparr>)"
| "eloop_do (Clear_Changed t) el = Some (clear_changed t el)"
| "eloop_do Take_Signals el = Some (el\<lparr>signaled := 0, pending_terminate := False\<rparr>)"
| "eloop_do (Take_Signal i) el = Some (el\<lparr>signals := (signals el)[i := (signals el ! i)\<lparr>g_signaled := 0\<rparr>]\<rparr>)"
| "eloop_do Loop_End el = Some (el\<lparr>terminate := False\<rparr>)"

inductive eloop_reachable :: "'h eloop \<Rightarrow> bool" where
  init: "eloop_reachable eloop_init"
| call: "eloop_reachable el \<Longrightarrow> eloop_do c el = Some el' \<Longrightarrow> eloop_reachable el'"

lemma ok_register: "eloop_ok el \<Longrightarrow> eloop_ok (snd (eloop_register_timeout a n s u h e d el))"
  by (auto simp: eloop_ok_def eloop_register_timeout_def Let_def sorted_insert_timeout split: option.split)

lemma ok_cancel: "eloop_ok el \<Longrightarrow> eloop_ok (snd (eloop_cancel_timeout h e d el))"
  by (simp add: eloop_ok_def eloop_cancel_timeout_def sorted_filter)

lemma ok_fields [simp]:
  "eloop_ok (el\<lparr>signals := x1\<rparr>) = eloop_ok el" "eloop_ok (el\<lparr>signaled := x2\<rparr>) = eloop_ok el"
  "eloop_ok (el\<lparr>pending_terminate := x3\<rparr>) = eloop_ok el" "eloop_ok (el\<lparr>terminate := x4\<rparr>) = eloop_ok el"
  by (simp_all add: eloop_ok_def)

lemma ok_add_sock:
  assumes "eloop_ok el" "0 \<le> f"
  shows "eloop_ok (snd (eloop_sock_table_add_sock a t f h e d el))"
proof -
  have "sock x \<le> f" if "x \<in> set (table (readers el)) \<union> set (table (writers el)) \<union> set (table (exceptions el))"
    "max_sock el < f" for x
    using assms(1) that by (force simp: eloop_ok_def)
  with assms show ?thesis
    by (cases t) (auto simp: eloop_ok_def eloop_sock_table_add_sock_def Let_def)
qed

lemma ok_remove_sock:
  assumes "eloop_ok el" shows "eloop_ok (eloop_sock_table_remove_sock t f el)"
proof -
  have "e \<in> set (remove_first p xs) \<Longrightarrow> e \<in> set xs" for p e and xs :: "'a eloop_sock list"
    using set_remove_first by fast
  with assms show ?thesis
    by (cases t) (auto simp: eloop_ok_def eloop_sock_table_remove_sock_def Let_def
        length_remove_first [of "\<lambda>e. sock e = f"])
qed

lemma ok_take: "eloop_ok el \<Longrightarrow> eloop_ok (el\<lparr>timeout := tl (timeout el)\<rparr>)"
  by (cases "timeout el") (auto simp: eloop_ok_def time_sorted_def)

lemma ok_cancel_one: "eloop_ok el \<Longrightarrow> eloop_ok (el\<lparr>timeout := remove_first p (timeout el)\<rparr>)"
  by (simp add: eloop_ok_def sorted_remove_first)

lemma ok_register_sock: "eloop_ok el \<Longrightarrow> eloop_register_sock a f t h e d el = Some r \<Longrightarrow> eloop_ok (snd r)"
  using ok_add_sock [of el f a t h e d] by (auto simp: eloop_register_sock_def split: if_splits)

lemma ok_clear: "eloop_ok (clear_changed t el) = eloop_ok el"
  by (cases t) (simp_all add: eloop_ok_def clear_changed_def)

lemma ok_do: "eloop_ok el \<Longrightarrow> eloop_do c el = Some el' \<Longrightarrow> eloop_ok el'"
  by (cases c) (auto simp: ok_register ok_cancel ok_add_sock ok_remove_sock ok_take ok_cancel_one ok_clear
      eloop_cancel_timeout_one_def eloop_deplete_timeout_def eloop_replenish_timeout_def
      eloop_unregister_sock_def eloop_register_signal_def eloop_handle_signal_def eloop_terminate_def Let_def
      dest: ok_register_sock split: option.splits if_splits)

text \<open>C23: Whatever timeouts, sockets and signals are registered and cancelled, in any order and with any
  allocation failing, the timeouts stay in the order of their times, the socket count is the number
  of registered sockets, and every socket lies within the range that \<open>select\<close> is asked about.\<close>

theorem event_loop_invariant:
  assumes "eloop_reachable el"
  shows "sorted_wrt (\<lambda>a b. \<not> os_reltime_before (t_time b) (t_time a)) (timeout el) \<and>
    sock_count el = length (table (readers el)) + length (table (writers el)) + length (table (exceptions el)) \<and>
    (\<forall>e\<in>set (table (readers el)) \<union> set (table (writers el)) \<union> set (table (exceptions el)).
       0 \<le> sock e \<and> sock e < max_sock el + 1)"
proof -
  from assms have "eloop_ok el"
  proof induction
    case init
    then show ?case by (simp add: eloop_ok_def eloop_init_def time_sorted_def)
  next
    case (call el c el')
    then show ?case using ok_do by blast
  qed
  then show ?thesis by (auto simp: eloop_ok_def time_sorted_def not_after_def)
qed

definition eloop_example :: "nat eloop" where
  "eloop_example = the (eloop_do (Register True (Some \<lparr>sec = 100, usec = 0\<rparr>) 1 500000 1 0 7)
     (the (eloop_do (Register True (Some \<lparr>sec = 100, usec = 0\<rparr>) 30 0 2 0 7)
       (the (eloop_do (Register_Sock True 5 EVENT_TYPE_READ 3 0 7) eloop_init)))))"

lemma eloop_example_reachable: "eloop_reachable eloop_example"
proof -
  have step: "eloop_reachable el \<Longrightarrow> eloop_do c el \<noteq> None \<Longrightarrow> eloop_reachable (the (eloop_do c el))" for el and c :: "nat eloop_op"
    by (auto intro: eloop_reachable.call)
  show ?thesis unfolding eloop_example_def
    by (intro step eloop_reachable.init) (simp_all add: eloop_register_sock_def)
qed

theorem event_loop_invariant_witness:
  "map t_handler (timeout eloop_example) = [1, 2] \<and>
   sorted_wrt (\<lambda>a b. \<not> os_reltime_before (t_time b) (t_time a)) (timeout eloop_example)"
proof -
  have "map t_handler (timeout eloop_example) = [1, 2]"
    by (simp add: eloop_example_def eloop_register_sock_def eloop_sock_table_add_sock_def eloop_init_def Let_def
        eloop_register_timeout_def wrap32_def carry_usec.simps os_reltime_before_def)
  with event_loop_invariant [OF eloop_example_reachable] show ?thesis by blast
qed

section \<open>One timeout in, matching timeouts out\<close>

lemma register_adds_one:
  assumes "0 \<le> sec now" "sec now < 2 ^ 31" "0 \<le> usec now" "usec now < 1000000" "secs < 2 ^ 31" "usecs < 2 ^ 30"
  shows "\<exists>el'. eloop_register_timeout True (Some now) secs usecs h e d el = (0, el') \<and>
      (if total now + int secs * 1000000 + int usecs < 2 ^ 31 * 1000000
       then \<exists>t. mset (timeout el') = add_mset t (mset (timeout el)) \<and> t_handler t = h \<and> t_eloop_data t = e \<and>
              t_user_data t = d \<and> total (t_time t) = total now + int secs * 1000000 + int usecs \<and>
              0 \<le> usec (t_time t) \<and> usec (t_time t) < 1000000
       else sec now + int secs \<ge> 2 ^ 31 \<longrightarrow> el' = el)"
proof -
  have u: "wrap32 (usec now + int usecs) = usec now + int usecs" using assms by (intro wrap32_id) auto
  show ?thesis
  proof (cases "sec now + int secs < 2 ^ 31")
    case True
    let ?t = "carry_usec \<lparr>sec = sec now + int secs, usec = usec now + int usecs\<rparr>"
    have "wrap32 (sec now + int secs) = sec now + int secs" using True assms by (intro wrap32_id) auto
    moreover have "total now + int secs * 1000000 + int usecs < 2 ^ 31 * 1000000 \<Longrightarrow>
        total ?t = total now + int secs * 1000000 + int usecs \<and> 0 \<le> usec ?t \<and> usec ?t < 1000000"
      using carry_usec_total [of "\<lparr>sec = sec now + int secs, usec = usec now + int usecs\<rparr>"] assms
      by (simp add: total_def algebra_simps)
    ultimately show ?thesis using True u by (simp add: eloop_register_timeout_def Let_def)
  next
    case False
    have "wrap32 (sec now + int secs) = sec now + int secs - 2 ^ 32"
    proof -
      have "(sec now + int secs + 2 ^ 31) mod 2 ^ 32 = (sec now + int secs + 2 ^ 31 - 2 ^ 32) mod 2 ^ 32"
        by (simp only: minus_mod_self2)
      also have "\<dots> = sec now + int secs + 2 ^ 31 - 2 ^ 32" using False assms by (intro mod_pos_pos_trivial) auto
      finally show ?thesis by (simp add: wrap32_def)
    qed
    moreover have "\<not> total now + int secs * 1000000 + int usecs < 2 ^ 31 * 1000000"
      using False assms by (simp add: total_def)
    ultimately show ?thesis using False assms by (simp add: eloop_register_timeout_def Let_def)
  qed
qed

lemma cancel_removes_matching:
  "\<exists>el'. eloop_cancel_timeout h e d el = (size {#t \<in># mset (timeout el). cancel_matches h e d t#}, el') \<and>
    mset (timeout el') = {#t \<in># mset (timeout el). \<not> cancel_matches h e d t#}"
  by (simp add: eloop_cancel_timeout_def size_mset [symmetric] mset_filter del: size_mset)

text \<open>A registered timeout comes on top of those there were, at the time asked for to the microsecond;
  a timeout too far away to be represented is dropped and the call still succeeds; cancelling removes
  the matching timeouts, all of them and no other, and returns how many there were.\<close>

theorem timeouts_registered_and_cancelled:
  assumes "0 \<le> sec now" "sec now < 2 ^ 31" "0 \<le> usec now" "usec now < 1000000" "secs < 2 ^ 31" "usecs < 2 ^ 30"
  shows "(\<exists>el'. eloop_register_timeout True (Some now) secs usecs h e d el = (0, el') \<and>
      (if total now + int secs * 1000000 + int usecs < 2 ^ 31 * 1000000
       then \<exists>t. mset (timeout el') = add_mset t (mset (timeout el)) \<and> t_handler t = h \<and> t_eloop_data t = e \<and>
              t_user_data t = d \<and> total (t_time t) = total now + int secs * 1000000 + int usecs \<and>
              0 \<le> usec (t_time t) \<and> usec (t_time t) < 1000000
       else sec now + int secs \<ge> 2 ^ 31 \<longrightarrow> el' = el)) \<and>
    (\<exists>el'. eloop_cancel_timeout h e d el = (size {#t \<in># mset (timeout el). cancel_matches h e d t#}, el') \<and>
      mset (timeout el') = {#t \<in># mset (timeout el). \<not> cancel_matches h e d t#})"
  by (intro conjI register_adds_one [OF assms] cancel_removes_matching)

theorem timeouts_registered_and_cancelled_witness:
  "\<exists>el'. eloop_register_timeout True (Some \<lparr>sec = 5, usec = 999999\<rparr>) 1 2 (9 :: nat) 0 0 eloop_init = (0, el') \<and>
    size (mset (timeout el')) = 1"
  using timeouts_registered_and_cancelled [of "\<lparr>sec = 5, usec = 999999\<rparr>" 1 2 "9 :: nat" 0 0 eloop_init]
  by (auto simp: eloop_init_def total_def)

section \<open>What a user of the queue relies on\<close>

locale timeout_service =
  fixes inv :: "'q \<Rightarrow> bool" and reg :: "'w \<Rightarrow> 'k \<Rightarrow> 'q \<Rightarrow> int \<times> 'q" and cancel :: "'k \<Rightarrow> 'q \<Rightarrow> 'q"
    and pending :: "'k \<Rightarrow> 'q \<Rightarrow> nat" and serves :: "'w \<Rightarrow> bool" and refuses :: "'w \<Rightarrow> bool"
  assumes reg_ok: "inv q \<Longrightarrow> serves w \<Longrightarrow>
      \<exists>q'. reg w k q = (0, q') \<and> inv q' \<and> (\<forall>j. pending j q' = pending j q + (if j = k then 1 else 0))"
    and reg_refused: "refuses w \<Longrightarrow> reg w k q = (-1, q)"
    and cancel_ok: "inv q \<Longrightarrow> inv (cancel k q) \<and> (\<forall>j. pending j (cancel k q) = (if j = k then 0 else pending j q))"
begin

text \<open>The way a timer is armed: cancel what there is and register it again.\<close>

definition arm :: "'w \<Rightarrow> 'k \<Rightarrow> 'q \<Rightarrow> int \<times> 'q" where
  "arm w k q = reg w k (cancel k q)"

lemma armed:
  "inv q \<Longrightarrow> serves w \<Longrightarrow> \<exists>q'. arm w k q = (0, q') \<and> inv q' \<and> (\<forall>j. pending j q' = (if j = k then 1 else pending j q))"
  using reg_ok [of "cancel k q" w k] cancel_ok [of q k] by (auto simp: arm_def)

lemma not_armed:
  "inv q \<Longrightarrow> refuses w \<Longrightarrow> \<exists>q'. arm w k q = (-1, q') \<and> inv q' \<and> (\<forall>j. pending j q' = (if j = k then 0 else pending j q))"
  using reg_refused [of w k "cancel k q"] cancel_ok [of q k] by (auto simp: arm_def)

end

text \<open>A key is a handler with its two data pointers, none of them the wildcard; the environment of a
  call is the allocation, the clock and the delay.\<close>

type_synonym 'h timer_key = "'h \<times> ptr \<times> ptr"

definition eloop_reg :: "bool \<times> reltime option \<times> nat \<times> nat \<Rightarrow> 'h timer_key \<Rightarrow> 'h eloop \<Rightarrow> int \<times> 'h eloop" where
  "eloop_reg = (\<lambda>(a, n, s, u) (h, e, d). eloop_register_timeout a n s u h e d)"

definition eloop_stop :: "'h timer_key \<Rightarrow> 'h eloop \<Rightarrow> 'h eloop" where
  "eloop_stop = (\<lambda>(h, e, d) el. el\<lparr>timeout := filter (\<lambda>t. \<not> exact_match h e d t) (timeout el)\<rparr>)"

definition eloop_pending :: "'h timer_key \<Rightarrow> 'h eloop \<Rightarrow> nat" where
  "eloop_pending = (\<lambda>(h, e, d) el. length (filter (exact_match h e d) (timeout el)))"

definition eloop_serves :: "bool \<times> reltime option \<times> nat \<times> nat \<Rightarrow> bool" where
  "eloop_serves = (\<lambda>(a, n, s, u). a \<and> (\<exists>now. n = Some now \<and> wrap32 (sec now + int s) \<ge> sec now))"

definition eloop_refuses :: "bool \<times> reltime option \<times> nat \<times> nat \<Rightarrow> bool" where
  "eloop_refuses = (\<lambda>(a, n, s, u). \<not> a \<or> n = None)"

lemma cancel_is_stop:
  "e \<noteq> ELOOP_ALL_CTX \<Longrightarrow> d \<noteq> ELOOP_ALL_CTX \<Longrightarrow> snd (eloop_cancel_timeout h e d el) = eloop_stop (h, e, d) el"
proof -
  assume "e \<noteq> ELOOP_ALL_CTX" "d \<noteq> ELOOP_ALL_CTX"
  then have "cancel_matches h e d = exact_match h e d" by (auto simp: cancel_matches_def exact_match_def fun_eq_iff)
  then show ?thesis by (simp add: eloop_cancel_timeout_def eloop_stop_def)
qed

lemma length_filter_insert: "length (filter p (insert_timeout t ts)) = length (filter p ts) + (if p t then 1 else 0)"
  by (induction ts) auto

interpretation eloop_timers: timeout_service eloop_ok eloop_reg eloop_stop eloop_pending eloop_serves eloop_refuses
proof
  fix q :: "'a eloop" and w :: "bool \<times> reltime option \<times> nat \<times> nat" and k :: "'a timer_key"
  assume q: "eloop_ok q" "eloop_serves w"
  obtain h e d where k: "k = (h, e, d)" by (cases k)
  from q(2) obtain now s u where w: "w = (True, Some now, s, u)" "wrap32 (sec now + int s) \<ge> sec now"
    by (cases w) (auto simp: eloop_serves_def)
  define t where "t = \<lparr>t_time = carry_usec \<lparr>sec = wrap32 (sec now + int s), usec = wrap32 (usec now + int u)\<rparr>,
      t_eloop_data = e, t_user_data = d, t_handler = h\<rparr>"
  have r: "eloop_reg w k q = (0, q\<lparr>timeout := insert_timeout t (timeout q)\<rparr>)"
    using w(2) by (simp add: eloop_reg_def w(1) k eloop_register_timeout_def t_def Let_def)
  have "eloop_ok (q\<lparr>timeout := insert_timeout t (timeout q)\<rparr>)"
    using q(1) by (simp add: eloop_ok_def sorted_insert_timeout)
  moreover have "exact_match h' e' d' t \<longleftrightarrow> (h', e', d') = k" for h' e' d'
    by (auto simp: exact_match_def t_def k)
  ultimately show "\<exists>q'. eloop_reg w k q = (0, q') \<and> eloop_ok q' \<and>
      (\<forall>j. eloop_pending j q' = eloop_pending j q + (if j = k then 1 else 0))"
    unfolding r by (auto simp: eloop_pending_def length_filter_insert)
next
  fix w :: "bool \<times> reltime option \<times> nat \<times> nat" and k :: "'a timer_key" and q
  assume "eloop_refuses w"
  then show "eloop_reg w k q = (-1, q)"
    by (cases w; cases k) (auto simp: eloop_refuses_def eloop_reg_def eloop_register_timeout_def)
next
  fix q :: "'a eloop" and k :: "'a timer_key"
  assume q: "eloop_ok q"
  obtain h e d where k: "k = (h, e, d)" by (cases k)
  have excl: "exact_match h e d t \<Longrightarrow> exact_match h' e' d' t \<longleftrightarrow> (h', e', d') = k" for h' e' d' t
    by (auto simp: exact_match_def k)
  have "eloop_pending j (eloop_stop k q) = (if j = k then 0 else eloop_pending j q)" for j
  proof -
    obtain h' e' d' where j: "j = (h', e', d')" by (cases j)
    have "filter (exact_match h' e' d') (filter (\<lambda>t. \<not> exact_match h e d t) ts) =
        (if j = k then [] else filter (exact_match h' e' d') ts)" for ts :: "'a eloop_timeout list"
      by (induction ts) (use excl [of _ h' e' d'] in \<open>auto simp: j k\<close>)
    then show ?thesis by (simp add: eloop_pending_def eloop_stop_def k j)
  qed
  with q show "eloop_ok (eloop_stop k q) \<and> (\<forall>j. eloop_pending j (eloop_stop k q) = (if j = k then 0 else eloop_pending j q))"
    by (simp add: eloop_stop_def k eloop_ok_def sorted_filter)
qed

end
