(* ===== verification/Eloop_Eapol.thy ===== *)
theory Eloop_Eapol
  imports Eloop_Queue Eapol_Eap
begin

text \<open>
  The tick of the EAPOL machines in the event loop: the counter \<open>ticks\<close> of \<open>Eapol_Sm\<close> is the number of
  entries that the real queue of \<open>eloop.c\<close> holds for \<open>eapol_port_timers_tick\<close>, at each place where
  \<open>eapol_supp_sm.c\<close> registers, cancels or consumes it.
\<close>

section \<open>The calls on the queue\<close>

text \<open>\<open>tick\<close> is the handler, \<open>p\<close> the machine; \<open>w\<close> is what allocation and clock do in a call.\<close>

definition tick_key :: "'h \<Rightarrow> ptr \<Rightarrow> 'h timer_key" where
  "tick_key tick p = (tick, 0, p)"

text \<open>\<open>eapol_enable_timer_tick\<close>: \<open>eloop_cancel_timeout\<close> and \<open>eloop_register_timeout (1, 0)\<close>.\<close>

definition enable_calls :: "bool \<Rightarrow> reltime option \<Rightarrow> 'h \<Rightarrow> ptr \<Rightarrow> 'e eapol_sm \<Rightarrow> 'h eloop \<Rightarrow> 'h eloop" where
  "enable_calls a now tick p sm el =
     (if timer_tick_enabled sm then el
      else snd (eloop_register_timeout a now 1 0 tick 0 p (snd (eloop_cancel_timeout tick 0 p el))))"

text \<open>\<open>eapol_port_timers_tick\<close> up to its call of \<open>eapol_sm_step\<close>; the loop has taken the entry out.\<close>

definition tick_timers :: "'e eapol_ctx \<Rightarrow> 'e eapol_sm \<Rightarrow> 'e eapol_sm" where
  "tick_timers C sm =
     (let sm = sm\<lparr>authWhile := count_down (authWhile sm), heldWhile := count_down (heldWhile sm),
                  startWhen := count_down (startWhen sm), idleWhile := count_down (idleWhile sm),
                  ticks := ticks sm - 1\<rparr>
      in if timers_running sm then
           if eloop_register C then sm\<lparr>ticks := ticks sm + 1\<rparr> else sm\<lparr>timer_tick_enabled := False\<rparr>
         else sm\<lparr>timer_tick_enabled := False\<rparr>)"

lemma tick_is_timers_then_step: "eapol_port_timers_tick C sm = eapol_sm_step C (tick_timers C sm)"
  by (simp add: eapol_port_timers_tick_def tick_timers_def Let_def)

definition tick_calls :: "bool \<Rightarrow> reltime option \<Rightarrow> 'h \<Rightarrow> ptr \<Rightarrow> 'e eapol_ctx \<Rightarrow> 'e eapol_sm \<Rightarrow> 'h eloop \<Rightarrow> 'h eloop" where
  "tick_calls a now tick p C sm el =
     (let el = el\<lparr>timeout := tl (timeout el)\<rparr>
      in if timers_running (tick_timers C sm) then snd (eloop_register_timeout a now 1 0 tick 0 p el) else el)"

section \<open>The counter is the queue\<close>

text \<open>The environment of the call agrees with the model: registration succeeds or is refused.\<close>

definition env_agrees :: "'e eapol_ctx \<Rightarrow> bool \<Rightarrow> reltime option \<Rightarrow> bool" where
  "env_agrees C a now \<longleftrightarrow>
     (if eloop_register C then a \<and> (\<exists>t. now = Some t \<and> wrap32 (sec t + 1) \<ge> sec t) else \<not> a \<or> now = None)"

lemma env_serves:
  "env_agrees C a now \<Longrightarrow> eloop_register C \<Longrightarrow> eloop_serves (a, now, 1, 0)"
  "env_agrees C a now \<Longrightarrow> \<not> eloop_register C \<Longrightarrow> eloop_refuses (a, now, 1, 0)"
  by (auto simp: env_agrees_def eloop_serves_def eloop_refuses_def)

lemma pending_take:
  assumes "timeout el = t # ts" "exact_match tick 0 p t" "eloop_ok el"
  shows "eloop_ok (el\<lparr>timeout := tl (timeout el)\<rparr>)"
    "eloop_pending (tick_key tick p) (el\<lparr>timeout := tl (timeout el)\<rparr>) = eloop_pending (tick_key tick p) el - 1"
  using assms ok_take [of el] by (simp_all add: eloop_pending_def tick_key_def)

lemma timers_running_tick: "timers_running (sm\<lparr>ticks := n\<rparr>) = timers_running sm"
  "timers_running (sm\<lparr>timer_tick_enabled := b\<rparr>) = timers_running sm"
  by (simp_all add: timers_running_def)

lemma reg_of_key:
  "eloop_register_timeout a now 1 0 tick 0 p q = eloop_reg (a, now, 1, 0) (tick_key tick p) q"
  by (simp add: eloop_reg_def tick_key_def)

lemma stop_of_key: "p \<noteq> ELOOP_ALL_CTX \<Longrightarrow> snd (eloop_cancel_timeout tick 0 p el) = eloop_stop (tick_key tick p) el"
  using cancel_is_stop [of 0 p tick el] by (simp add: tick_key_def)

lemma enable_calls_pending:
  assumes "eloop_ok el" "p \<noteq> ELOOP_ALL_CTX" "env_agrees C a now" "eloop_pending (tick_key tick p) el = ticks sm"
  shows "eloop_ok (enable_calls a now tick p sm el) \<and>
    eloop_pending (tick_key tick p) (enable_calls a now tick p sm el) = ticks (eapol_enable_timer_tick C sm)"
proof -
  let ?k = "tick_key tick p"
  have arm: "enable_calls a now tick p sm el =
      (if timer_tick_enabled sm then el else snd (eloop_timers.arm (a, now, 1, 0) ?k el))"
    unfolding enable_calls_def reg_of_key stop_of_key [OF assms(2)] eloop_timers.arm_def ..
  show ?thesis
  proof (cases "eloop_register C")
    case True
    from eloop_timers.armed [OF assms(1) env_serves(1) [OF assms(3) True], of ?k] obtain q where
      "eloop_timers.arm (a, now, 1, 0) ?k el = (0, q)" "eloop_ok q"
        "\<forall>j. eloop_pending j q = (if j = ?k then 1 else eloop_pending j el)" by blast
    from spec [OF this(3), of ?k] this(1,2) arm True assms show ?thesis by (simp add: eapol_enable_timer_tick_def)
  next
    case False
    from eloop_timers.not_armed [OF assms(1) env_serves(2) [OF assms(3) False], of ?k] obtain q where
      "eloop_timers.arm (a, now, 1, 0) ?k el = (-1, q)" "eloop_ok q"
        "\<forall>j. eloop_pending j q = (if j = ?k then 0 else eloop_pending j el)" by blast
    from spec [OF this(3), of ?k] this(1,2) arm False assms show ?thesis by (simp add: eapol_enable_timer_tick_def)
  qed
qed

lemma tick_calls_pending:
  assumes "timeout el = t # ts" "exact_match tick 0 p t"
    "eloop_ok el" "p \<noteq> ELOOP_ALL_CTX" "env_agrees C a now" "eloop_pending (tick_key tick p) el = ticks sm"
  shows "eloop_ok (tick_calls a now tick p C sm el) \<and>
    eloop_pending (tick_key tick p) (tick_calls a now tick p C sm el) = ticks (tick_timers C sm)"
proof -
  let ?k = "tick_key tick p" and ?el = "el\<lparr>timeout := tl (timeout el)\<rparr>"
  note taken = pending_take [OF assms(1-3)]
  show ?thesis
  proof (cases "eloop_register C")
    case True
    from eloop_timers.reg_ok [OF taken(1) env_serves(1) [OF assms(5) True], of ?k] obtain q where
      q: "eloop_reg (a, now, 1, 0) ?k ?el = (0, q)" "eloop_ok q"
        "\<forall>j. eloop_pending j q = eloop_pending j ?el + (if j = ?k then 1 else 0)" by blast
    from spec [OF q(3), of ?k] q(1,2) True taken assms(6) show ?thesis
      unfolding tick_calls_def reg_of_key by (simp add: tick_timers_def Let_def timers_running_tick)
  next
    case False
    from eloop_timers.reg_refused [OF env_serves(2) [OF assms(5) False], of ?k ?el]
    have "eloop_reg (a, now, 1, 0) ?k ?el = (-1, ?el)" .
    with False taken assms(6) show ?thesis
      unfolding tick_calls_def reg_of_key by (simp add: tick_timers_def Let_def timers_running_tick)
  qed
qed

text \<open>C25: The supplicant's timer tick is one real timeout of the event loop: when the queue of \<open>eloop.c\<close>
  holds as many tick timeouts for the machine as its counter says, it does so again after
  \<open>eapol_enable_timer_tick\<close> (which cancels and registers), whether registration succeeds or not, and
  again after the loop has taken the due entry out and \<open>eapol_port_timers_tick\<close> has registered the next.\<close>

theorem tick_timer_is_queued:
  assumes "eloop_ok el" "p \<noteq> ELOOP_ALL_CTX" "env_agrees C a now" "eloop_pending (tick_key tick p) el = ticks sm"
  shows "eloop_ok (enable_calls a now tick p sm el) \<and>
    eloop_pending (tick_key tick p) (enable_calls a now tick p sm el) = ticks (eapol_enable_timer_tick C sm) \<and>
    (\<forall>t ts. timeout el = t # ts \<and> exact_match tick 0 p t \<longrightarrow>
      eloop_ok (tick_calls a now tick p C sm el) \<and>
      eloop_pending (tick_key tick p) (tick_calls a now tick p C sm el) = ticks (tick_timers C sm) \<and>
      eapol_port_timers_tick C sm = eapol_sm_step C (tick_timers C sm))"
  using enable_calls_pending [OF assms] tick_calls_pending [OF _ _ assms] tick_is_timers_then_step by blast

definition armed_example :: "nat eloop" where
  "armed_example = snd (eloop_register_timeout True (Some \<lparr>sec = 100, usec = 0\<rparr>) 1 0 5 0 7 eloop_init)"

theorem tick_timer_is_queued_witness:
  "eloop_pending (tick_key 5 7) (tick_calls True (Some \<lparr>sec = 101, usec = 0\<rparr>) 5 7 example_supp
      (example_start\<lparr>ticks := 1, heldWhile := 3\<rparr>) armed_example) = 1"
proof -
  let ?sm = "example_start\<lparr>ticks := 1, heldWhile := 3\<rparr>" and ?now = "Some \<lparr>sec = 101, usec = 0\<rparr>"
  define t where "t = \<lparr>t_time = \<lparr>sec = 101, usec = 0\<rparr>, t_eloop_data = 0, t_user_data = 7, t_handler = 5 :: nat\<rparr>"
  have e: "armed_example = eloop_init\<lparr>timeout := [t]\<rparr>"
    by (simp add: armed_example_def eloop_register_timeout_def eloop_init_def wrap32_def carry_usec.simps t_def Let_def)
  have "eloop_ok armed_example" by (simp add: e eloop_ok_def eloop_init_def time_sorted_def)
  moreover have "(7 :: ptr) \<noteq> ELOOP_ALL_CTX" by simp
  moreover have "env_agrees example_supp True ?now" by (simp add: env_agrees_def wrap32_def)
  moreover have m: "exact_match 5 0 7 t" by (simp add: exact_match_def t_def)
  moreover have "eloop_pending (tick_key 5 7) armed_example = ticks ?sm"
    using m by (simp add: e eloop_pending_def tick_key_def)
  moreover have "timeout armed_example = [t]" by (simp add: e)
  ultimately have "eloop_pending (tick_key 5 7) (tick_calls True ?now 5 7 example_supp ?sm armed_example) =
      ticks (tick_timers example_supp ?sm)"
    using tick_timer_is_queued [of armed_example 7 example_supp True ?now 5 ?sm] by blast
  moreover have "ticks (tick_timers example_supp ?sm) = 1" by code_simp
  ultimately show ?thesis by simp
qed

end
