(* ===== verification/Eloop_Run.thy ===== *)
theory Eloop_Run
  imports Eloop_Queue
begin

text \<open>
  The loop \<open>eloop_run\<close> of \<open>eloop.c\<close>. Its own steps are among those the invariant of the queue speaks of;
  and what it does with the timeouts a program has registered is, handler by handler, the stable
  sort of the requests by the time they are due.
\<close>

section \<open>The steps of the loop keep to the reachable states\<close>

text \<open>Handlers reach the state of the loop only through its functions.\<close>

definition handlers_reachable :: "('h, 's) world \<Rightarrow> bool" where
  "handlers_reachable W \<longleftrightarrow> (\<forall>el s. eloop_reachable el \<longrightarrow>
     (\<forall>h e d. eloop_reachable (fst (call_timeout W h e d (el, s)))) \<and>
     (\<forall>h f e d. eloop_reachable (fst (call_sock W h f e d (el, s)))) \<and>
     (\<forall>h g d. eloop_reachable (fst (call_signal W h g d (el, s)))))"

lemma handlers_reachableD:
  assumes "handlers_reachable W" "eloop_reachable (fst st)"
  shows "eloop_reachable (fst (call_timeout W h e d st))" "eloop_reachable (fst (call_sock W h' f e d st))"
    "eloop_reachable (fst (call_signal W h'' g d st))"
  using assms by (cases st; simp add: handlers_reachable_def)+

lemma reachable_loop_steps:
  assumes "eloop_reachable el"
  shows "eloop_reachable (el\<lparr>timeout := tl (timeout el)\<rparr>)" "eloop_reachable (clear_changed t el)"
    "eloop_reachable (el\<lparr>signaled := 0, pending_terminate := False\<rparr>)"
    "eloop_reachable (el\<lparr>signals := (signals el)[i := (signals el ! i)\<lparr>g_signaled := 0\<rparr>]\<rparr>)"
    "eloop_reachable (el\<lparr>terminate := False\<rparr>)"
  using eloop_reachable.call [OF assms, of Take_First] eloop_reachable.call [OF assms, of "Clear_Changed t"]
    eloop_reachable.call [OF assms, of Take_Signals] eloop_reachable.call [OF assms, of "Take_Signal i"]
    eloop_reachable.call [OF assms, of Loop_End] by simp_all

lemma reachable_signal_loop:
  assumes "signal_loop W i st = Some r" "handlers_reachable W" "eloop_reachable (fst st)"
  shows "eloop_reachable (fst r)"
proof -
  have "handlers_reachable W \<longrightarrow> eloop_reachable (fst st) \<longrightarrow> eloop_reachable (fst r)"
    apply (rule signal_loop.raw_induct
        [where P = "\<lambda>W i st r. handlers_reachable W \<longrightarrow> eloop_reachable (fst st) \<longrightarrow> eloop_reachable (fst r)", OF _ assms(1)])
    subgoal premises p for rec W i st r
      using p(2) by (auto simp: Let_def handlers_reachableD reachable_loop_steps split: if_splits
        intro: p(1) [rule_format])
    done
  with assms show ?thesis by simp
qed

lemma reachable_pending_signals:
  assumes "eloop_process_pending_signals W st = Some r" "handlers_reachable W" "eloop_reachable (fst st)"
  shows "eloop_reachable (fst r)"
  using assms reachable_signal_loop [of W 0 "((fst st)\<lparr>signaled := 0, pending_terminate := False\<rparr>, snd st)"]
  by (auto simp: eloop_process_pending_signals_def Let_def reachable_loop_steps split: if_splits)

lemma reachable_dispatch:
  assumes "dispatch_loop W t ready i st = Some r" "handlers_reachable W" "eloop_reachable (fst st)"
  shows "eloop_reachable (fst r)"
proof -
  have "handlers_reachable W \<longrightarrow> eloop_reachable (fst st) \<longrightarrow> eloop_reachable (fst r)"
    apply (rule dispatch_loop.raw_induct
        [where P = "\<lambda>W t f i st r. handlers_reachable W \<longrightarrow> eloop_reachable (fst st) \<longrightarrow> eloop_reachable (fst r)", OF _ assms(1)])
    subgoal premises p for rec W t f i st r
      using p(2) by (auto simp: Let_def handlers_reachableD split: if_splits intro: p(1) [rule_format])
    done
  with assms show ?thesis by simp
qed

lemma reachable_table_dispatch:
  "eloop_sock_table_dispatch W t ready st = Some r \<Longrightarrow> handlers_reachable W \<Longrightarrow> eloop_reachable (fst st) \<Longrightarrow>
    eloop_reachable (fst r)"
  unfolding eloop_sock_table_dispatch_def by (erule reachable_dispatch) (simp_all add: reachable_loop_steps)

lemma reachable_fire: "handlers_reachable W \<Longrightarrow> eloop_reachable (fst st) \<Longrightarrow> eloop_reachable (fst (fire_timeout W st))"
  using reachable_loop_steps(1) [of "fst st"]
  by (auto simp: fire_timeout_def handlers_reachableD split: list.split prod.split)

lemma reachable_turn:
  assumes "eloop_turn W st = Some (go, r)" "handlers_reachable W" "eloop_reachable (fst st)"
  shows "eloop_reachable (fst r)"
proof -
  note steps = reachable_pending_signals [OF _ assms(2)] reachable_table_dispatch [OF _ assms(2)]
    reachable_fire [OF assms(2)] reachable_loop_steps
  from assms(1) obtain st' where st': "(if pending_terminate (fst st) then eloop_process_pending_signals W st else Some st) = Some st'"
    by (auto simp: eloop_turn_def bind_eq_Some_conv)
  with assms(3) have r': "eloop_reachable (fst st')" by (auto intro: steps split: if_splits)
  with assms(1) st' show ?thesis
    by (auto simp: eloop_turn_def Let_def bind_eq_Some_conv reachable_loop_steps intro: steps
        split: if_splits prod.splits dest!: steps(1,2))
qed

lemma reachable_run:
  assumes "run_loop W st = Some r" "handlers_reachable W" "eloop_reachable (fst st)"
  shows "eloop_reachable (fst r)"
proof -
  have "handlers_reachable W \<longrightarrow> eloop_reachable (fst st) \<longrightarrow> eloop_reachable (fst r)"
    apply (rule run_loop.raw_induct
        [where P = "\<lambda>W st r. handlers_reachable W \<longrightarrow> eloop_reachable (fst st) \<longrightarrow> eloop_reachable (fst r)", OF _ assms(1)])
    subgoal premises p for rec W st r
      using p(2) by (auto simp: Let_def bind_eq_Some_conv reachable_loop_steps split: if_splits
        dest!: reachable_turn intro: p(1) [rule_format])
    done
  with assms show ?thesis by simp
qed

section \<open>The queue is a stable sort\<close>

abbreviation (input) normal :: "reltime \<Rightarrow> bool" where "normal t \<equiv> 0 \<le> usec t \<and> usec t < 1000000"

lemma before_total: "normal a \<Longrightarrow> normal b \<Longrightarrow> os_reltime_before a b \<longleftrightarrow> total a < total b"
  by (auto simp: os_reltime_before_def total_def)

lemma sub_total: "total (os_reltime_sub a b) = total a - total b"
  by (simp add: os_reltime_sub_def total_def Let_def algebra_simps)

definition at_time :: "'h eloop_timeout \<Rightarrow> int" where "at_time t = total (t_time t)"

definition all_normal :: "'h eloop_timeout list \<Rightarrow> bool" where
  "all_normal ts \<longleftrightarrow> (\<forall>t\<in>set ts. normal (t_time t))"

lemma insert_timeout_class:
  "sorted (map at_time ts) \<Longrightarrow> all_normal (t # ts) \<Longrightarrow>
    filter (\<lambda>x. at_time x = k) (insert_timeout t ts) = filter (\<lambda>x. at_time x = k) ts @ (if at_time t = k then [t] else [])"
proof (induction ts)
  case (Cons x xs)
  then have b: "os_reltime_before (t_time t) (t_time x) \<longleftrightarrow> at_time t < at_time x"
    by (simp add: all_normal_def at_time_def before_total)
  have "filter (\<lambda>y. at_time y = at_time t) (x # xs) = []" if "at_time t < at_time x"
    using that Cons.prems(1) by (auto simp: filter_empty_conv)
  with Cons show ?case by (auto simp: b all_normal_def simp del: filter.simps(2) split: if_splits) auto
qed simp

lemma time_sorted_at: "all_normal ts \<Longrightarrow> time_sorted ts \<longleftrightarrow> sorted (map at_time ts)"
  by (induction ts) (auto simp: time_sorted_def not_after_def all_normal_def before_total at_time_def)

lemma insert_timeout_sort:
  assumes "all_normal (t # ts)"
  shows "insert_timeout t (sort_key at_time ts) = sort_key at_time (ts @ [t])"
proof (rule properties_for_sort_key [symmetric])
  have n: "all_normal (sort_key at_time ts)" "all_normal (insert_timeout t (sort_key at_time ts))"
    using assms by (simp_all add: all_normal_def)
  then show "sorted (map at_time (insert_timeout t (sort_key at_time ts)))"
    using sorted_insert_timeout [of "sort_key at_time ts" t] by (simp add: time_sorted_at)
  have "all_normal (t # sort_key at_time ts)" using assms by (simp add: all_normal_def)
  then show "filter (\<lambda>x. at_time k = at_time x) (insert_timeout t (sort_key at_time ts)) = filter (\<lambda>x. at_time k = at_time x) (ts @ [t])" for k
    using insert_timeout_class [of "sort_key at_time ts" t "at_time k"] sort_key_stable [of at_time "at_time k" ts]
    by (simp add: eq_commute)
qed simp

section \<open>What a program asks for\<close>

text \<open>A request: the time it is made, the delay in seconds and microseconds, and the handler with its data.\<close>

type_synonym 'h request = "reltime \<times> nat \<times> nat \<times> 'h timer_key"

definition due :: "'h request \<Rightarrow> int" where
  "due = (\<lambda>(now, secs, usecs, k). total now + int secs * 1000000 + int usecs)"

definition whom :: "'h request \<Rightarrow> 'h timer_key" where "whom = (\<lambda>(now, secs, usecs, k). k)"

text \<open>Requests the clock can represent: the time due is less than $2^{31}$ seconds.\<close>

definition representable :: "'h request \<Rightarrow> bool" where
  "representable = (\<lambda>(now, secs, usecs, k). 0 \<le> sec now \<and> normal now \<and> usecs < 2 ^ 30 \<and>
     due (now, secs, usecs, k) < 2 ^ 31 * 1000000)"

definition register_all :: "'h request list \<Rightarrow> 'h eloop \<Rightarrow> 'h eloop" where
  "register_all rs el =
     foldl (\<lambda>el (now, secs, usecs, h, e, d). snd (eloop_register_timeout True (Some now) secs usecs h e d el)) el rs"

definition entry :: "'h request \<Rightarrow> 'h eloop_timeout" where
  "entry = (\<lambda>(now, secs, usecs, h, e, d).
     \<lparr>t_time = carry_usec \<lparr>sec = sec now + int secs, usec = usec now + int usecs\<rparr>,
      t_eloop_data = e, t_user_data = d, t_handler = h\<rparr>)"

lemma entry_due: "representable r \<Longrightarrow> at_time (entry r) = due r \<and> normal (t_time (entry r))"
  using carry_usec_total [of "\<lparr>sec = sec (fst r) + int (fst (snd r)), usec = usec (fst r) + int (fst (snd (snd r)))\<rparr>"]
  by (auto simp: representable_def entry_def due_def at_time_def total_def algebra_simps split: prod.splits)

lemma register_entry:
  assumes "representable (now, secs, usecs, h, e, d)"
  shows "snd (eloop_register_timeout True (Some now) secs usecs h e d el) =
    el\<lparr>timeout := insert_timeout (entry (now, secs, usecs, h, e, d)) (timeout el)\<rparr>"
proof -
  have "wrap32 (sec now + int secs) = sec now + int secs" "wrap32 (usec now + int usecs) = usec now + int usecs"
    using assms by (auto simp: representable_def due_def total_def intro!: wrap32_id)
  then show ?thesis by (simp add: eloop_register_timeout_def entry_def Let_def)
qed

lemma timeout_register_all:
  "\<forall>r\<in>set rs. representable r \<Longrightarrow>
    register_all rs eloop_init = eloop_init\<lparr>timeout := sort_key at_time (map entry rs)\<rparr>"
proof (induction rs rule: rev_induct)
  case (snoc r rs)
  obtain now secs usecs h e d where r: "r = (now, secs, usecs, h, e, d)" by (cases r)
  have "all_normal (entry r # map entry rs)" using snoc.prems by (simp add: all_normal_def entry_due)
  from insert_timeout_sort [OF this] snoc show ?case
    by (simp add: register_all_def r register_entry)
qed (simp add: register_all_def eloop_init_def)

lemma sort_key_map: "sort_key f (map g xs) = map g (sort_key (f \<circ> g) xs)"
proof -
  have "insort_key f (g x) (map g ys) = map g (insort_key (f \<circ> g) x ys)" for x ys by (induction ys) auto
  then show ?thesis by (induction xs) auto
qed

lemma sort_key_agree:
  assumes "\<forall>x\<in>set xs. f x = g x" shows "sort_key f xs = sort_key g xs"
proof -
  have "\<forall>y\<in>set (x # ys). f y = g y \<Longrightarrow> insort_key f x ys = insort_key g x ys" for x ys by (induction ys) auto
  with assms show ?thesis by (induction xs) auto
qed

lemma queue_of_requests:
  assumes "\<forall>r\<in>set rs. representable r"
  shows "register_all rs eloop_init = eloop_init\<lparr>timeout := map entry (sort_key due rs)\<rparr>"
proof -
  have "sort_key (at_time \<circ> entry) rs = sort_key due rs"
    using assms by (intro sort_key_agree) (simp add: entry_due)
  with timeout_register_all [OF assms] show ?thesis by (simp add: sort_key_map)
qed

section \<open>The loop runs the queue\<close>

text \<open>
  What the loop relies on outside, as the manual pages of \<open>clock_gettime\<close> and \<open>select\<close> have it: the clock is
  in normal form and does not go back; \<open>select\<close>, where no descriptor becomes ready and no signal arrives,
  returns zero when the time it was given has passed, and not before. The handlers leave the queue
  alone, take their time, and are written down in a log with the time of the call.
\<close>

definition waits_and_logs ::
    "('h, 's) world \<Rightarrow> ('s \<Rightarrow> reltime) \<Rightarrow> ('s \<Rightarrow> ('h timer_key \<times> reltime) list) \<Rightarrow> bool" where
  "waits_and_logs W clk log \<longleftrightarrow>
     (\<forall>s. normal (clk s)) \<and>
     (\<forall>s. fst (get_reltime W s) = clk s \<and> total (clk s) \<le> total (clk (snd (get_reltime W s))) \<and>
        log (snd (get_reltime W s)) = log s) \<and>
     (\<forall>n rs ws es tv s. 0 \<le> sec tv \<and> normal tv \<longrightarrow> fst (select_fds W n rs ws es (Some tv) s) = (0, False, [], [], []) \<and>
        total (clk s) + total tv \<le> total (clk (snd (select_fds W n rs ws es (Some tv) s))) \<and>
        log (snd (select_fds W n rs ws es (Some tv) s)) = log s) \<and>
     (\<forall>h e d el s. \<exists>s'. call_timeout W h e d (el, s) = (el, s') \<and> total (clk s) \<le> total (clk s') \<and>
        log s' = log s @ [((h, e, d), clk s)])"

text \<open>The state of a loop with timeouts only.\<close>

definition timers_only :: "'h eloop_timeout list \<Rightarrow> 'h eloop" where
  "timers_only ts = eloop_init\<lparr>timeout := ts\<rparr>"

lemma timers_only_fields [simp]:
  "timeout (timers_only ts) = ts" "pending_terminate (timers_only ts) = False" "terminate (timers_only ts) = False"
  "table (readers (timers_only ts)) = []" "table (writers (timers_only ts)) = []"
  "table (exceptions (timers_only ts)) = []" "signaled (timers_only ts) = 0"
  "clear_changed t (timers_only ts) = timers_only ts" "(timers_only ts)\<lparr>timeout := us\<rparr> = timers_only us"
  "(timers_only ts)\<lparr>terminate := False\<rparr> = timers_only ts"
  by (simp_all add: timers_only_def eloop_init_def) (cases t; simp add: clear_changed_def)

definition key_of :: "'h eloop_timeout \<Rightarrow> 'h timer_key" where
  "key_of t = (t_handler t, t_eloop_data t, t_user_data t)"

lemma waits_and_logsD:
  assumes "waits_and_logs W clk log"
  shows "normal (clk s)"
    "\<exists>s'. get_reltime W s = (clk s, s') \<and> total (clk s) \<le> total (clk s') \<and> log s' = log s"
    "0 \<le> sec tv \<Longrightarrow> normal tv \<Longrightarrow> \<exists>s'. select_fds W n rs ws es (Some tv) s = ((0, False, [], [], []), s') \<and>
       total (clk s) + total tv \<le> total (clk s') \<and> log s' = log s"
    "\<exists>s'. call_timeout W h e d (el, s) = (el, s') \<and> total (clk s) \<le> total (clk s') \<and>
       log s' = log s @ [((h, e, d), clk s)]"
proof -
  note D = assms [unfolded waits_and_logs_def]
  show "normal (clk s)" using D by blast
  show "\<exists>s'. get_reltime W s = (clk s, s') \<and> total (clk s) \<le> total (clk s') \<and> log s' = log s"
    using D by (intro exI [of _ "snd (get_reltime W s)"]) (simp add: prod_eq_iff)
  show "0 \<le> sec tv \<Longrightarrow> normal tv \<Longrightarrow> \<exists>s'. select_fds W n rs ws es (Some tv) s = ((0, False, [], [], []), s') \<and>
      total (clk s) + total tv \<le> total (clk s') \<and> log s' = log s"
    using D by (intro exI [of _ "snd (select_fds W n rs ws es (Some tv) s)"]) (simp add: prod_eq_iff)
  show "\<exists>s'. call_timeout W h e d (el, s) = (el, s') \<and> total (clk s) \<le> total (clk s') \<and>
      log s' = log s @ [((h, e, d), clk s)]"
    using D by blast
qed

lemma turn_fires_first:
  assumes "waits_and_logs W clk log" "normal (t_time t)"
  shows "\<exists>now s'. eloop_turn W (timers_only (t # ts), s) = Some (True, timers_only ts, s') \<and>
    log s' = log s @ [(key_of t, now)] \<and> total (t_time t) \<le> total now"
proof -
  note D = waits_and_logsD [OF assms(1)]
  from D(2) obtain s1 where 1: "get_reltime W s = (clk s, s1)" "total (clk s) \<le> total (clk s1)" "log s1 = log s"
    by blast
  define tv where "tv = (if os_reltime_before (clk s) (t_time t) then os_reltime_sub (t_time t) (clk s) else \<lparr>sec = 0, usec = 0\<rparr>)"
  have "0 \<le> sec tv \<and> normal tv"
    using D(1) [of s] assms(2) by (auto simp: tv_def os_reltime_sub_def os_reltime_before_def Let_def)
  with D(3) obtain s2 where 2: "select_fds W (max_sock (timers_only (t # ts)) + 1) [] [] [] (Some tv) s1 = ((0, False, [], [], []), s2)"
    "total (clk s1) + total tv \<le> total (clk s2)" "log s2 = log s1" by blast
  from D(2) obtain s3 where 3: "get_reltime W s2 = (clk s2, s3)" "total (clk s2) \<le> total (clk s3)" "log s3 = log s2"
    by blast
  from D(4) obtain s4 where 4: "call_timeout W (t_handler t) (t_eloop_data t) (t_user_data t) (timers_only ts, s3) = (timers_only ts, s4)"
    "log s4 = log s3 @ [(key_of t, clk s3)]" unfolding key_of_def by blast
  have "total (t_time t) - total (clk s) \<le> total tv"
    using D(1) [of s] assms(2) by (auto simp: tv_def sub_total before_total total_def [of "\<lparr>sec = 0, usec = 0\<rparr>"])
  with 1 2 have due: "total (t_time t) \<le> total (clk s2)" by simp
  then have "\<not> os_reltime_before (clk s2) (t_time t)" using D(1) [of s2] assms(2) by (simp add: before_total)
  then have f: "fire_timeout W (timers_only (t # ts), s2) = (timers_only ts, s4)" by (simp add: fire_timeout_def 3 4)
  have "eloop_turn W (timers_only (t # ts), s) = Some (True, timers_only ts, s4)"
    using 2(1) f by (simp add: eloop_turn_def wait_time_def 1(1) tv_def [symmetric] eloop_process_pending_signals_def)
  with 1 2 3 4 due show ?thesis by auto
qed

lemma run_fires_all:
  assumes "waits_and_logs W clk log"
  shows "all_normal ts \<Longrightarrow> \<exists>s' fired. run_loop W (timers_only ts, s) = Some (timers_only [], s') \<and>
    log s' = log s @ fired \<and> list_all2 (\<lambda>t f. fst f = key_of t \<and> at_time t \<le> total (snd f)) ts fired"
proof (induction ts arbitrary: s)
  case Nil
  show ?case by (subst run_loop.simps) simp
next
  case (Cons t ts)
  from turn_fires_first [OF assms, of t ts s] Cons.prems obtain now s1 where
    1: "eloop_turn W (timers_only (t # ts), s) = Some (True, timers_only ts, s1)"
      "log s1 = log s @ [(key_of t, now)]" "total (t_time t) \<le> total now" by (auto simp: all_normal_def)
  from Cons.IH [of s1] Cons.prems obtain s' fired where
    2: "run_loop W (timers_only ts, s1) = Some (timers_only [], s')" "log s' = log s1 @ fired"
      "list_all2 (\<lambda>t f. fst f = key_of t \<and> at_time t \<le> total (snd f)) ts fired" by (auto simp: all_normal_def)
  show ?case
    using 1 2 by (subst run_loop.simps) (auto simp: at_time_def intro!: exI [of _ "(key_of t, now) # fired"])
qed

text \<open>C24: Let a program register any list of timeouts, each with the time of the call and a delay, and then run
  the event loop with no socket and no signal. The loop ends, with nothing left in the queue, and it has
  called exactly the handlers asked for: each request once, with the data it was registered with, in
  the order of the times they are due, those due at the same time in the order they were registered
  in, and none before its time. The requests are those the 32-bit clock can represent; \<open>select\<close> sleeps at
  least as long as it is told to, the clock does not go back, and the handlers, which may take any
  time, register and cancel nothing.\<close>

theorem timeouts_fire_in_order:
  assumes "\<forall>r\<in>set rs. representable r" "waits_and_logs W clk log"
  shows "\<exists>s' fired. eloop_run W True (register_all rs eloop_init, s) = Some (eloop_init, s') \<and>
    log s' = log s @ fired \<and> map fst fired = map whom (sort_key due rs) \<and>
    list_all2 (\<lambda>r f. due r \<le> total (snd f)) (sort_key due rs) fired"
proof -
  let ?ts = "map entry (sort_key due rs)"
  have n: "all_normal ?ts" using assms(1) by (simp add: all_normal_def entry_due)
  from run_fires_all [OF assms(2) n, of s] obtain s' fired where
    r: "run_loop W (timers_only ?ts, s) = Some (timers_only [], s')" "log s' = log s @ fired"
      "list_all2 (\<lambda>t f. fst f = key_of t \<and> at_time t \<le> total (snd f)) ?ts fired" by blast
  have k: "key_of (entry r) = whom r" for r :: "'a request"
    by (cases r) (simp add: key_of_def entry_def whom_def)
  from r(3) have "list_all2 (\<lambda>r f. fst f = whom r \<and> due r \<le> total (snd f)) (sort_key due rs) fired"
    using assms(1) by (auto simp: list.rel_map k entry_due intro!: list.rel_mono_strong [where Ra = "\<lambda>r f. fst f = whom r \<and> due r \<le> total (snd f)"])
  moreover have "register_all rs eloop_init = timers_only ?ts" "timers_only [] = eloop_init"
    using queue_of_requests [OF assms(1)] by (simp_all add: timers_only_def eloop_init_def)
  ultimately show ?thesis using r(1,2)
    by (auto simp: eloop_run_def list_all2_conv_all_nth intro!: nth_equalityI)
qed

text \<open>A world with a clock that \<open>select\<close> sets forward, a microsecond late; every handler takes a second.\<close>

definition clock_world :: "(nat, int \<times> (nat timer_key \<times> reltime) list) world" where
  "clock_world =
     (let clk = (\<lambda>(t :: int). \<lparr>sec = t div 1000000, usec = t mod 1000000\<rparr>)
      in \<lparr>get_reltime = \<lambda>(t, l). (clk t, (t, l)),
          select_fds = \<lambda>_ _ _ _ tv (t, l). ((0, False, [], [], []), (t + (case tv of None \<Rightarrow> 0 | Some tv \<Rightarrow> total tv + 1), l)),
          call_timeout = \<lambda>h e d (el, (t, l)). (el, (t + 1000000, l @ [((h, e, d), clk t)])),
          call_sock = \<lambda>_ _ _ _ st. st, call_signal = \<lambda>_ _ _ st. st\<rparr>)"

lemma clock_world_waits: "waits_and_logs clock_world (\<lambda>s. \<lparr>sec = fst s div 1000000, usec = fst s mod 1000000\<rparr>) snd"
  by (auto simp: waits_and_logs_def clock_world_def Let_def total_def)

theorem timeouts_fire_in_order_witness:
  "\<exists>s'. eloop_run clock_world True (register_all
      [(\<lparr>sec = 10, usec = 0\<rparr>, 5, 0, 1, 0, 7), (\<lparr>sec = 10, usec = 1\<rparr>, 0, 999999, 2, 0, 7), (\<lparr>sec = 10, usec = 2\<rparr>, 4, 999998, 3, 0, 7),
       (\<lparr>sec = 10, usec = 3\<rparr>, 1, 0, 4, 0, 7)] eloop_init, (10000004, [])) = Some (eloop_init, s') \<and>
    map (fst \<circ> fst) (snd s') = [2, 4, 1, 3]"
proof -
  let ?rs = "[(\<lparr>sec = 10, usec = 0\<rparr>, 5, 0, 1, 0, 7), (\<lparr>sec = 10, usec = 1\<rparr>, 0, 999999, 2, 0, 7), (\<lparr>sec = 10, usec = 2\<rparr>, 4, 999998, 3, 0, 7),
       (\<lparr>sec = 10, usec = 3\<rparr>, 1, 0, 4, 0, 7)] :: nat request list"
  have "\<forall>r\<in>set ?rs. representable r" by (simp add: representable_def due_def total_def)
  from timeouts_fire_in_order [OF this clock_world_waits, of "(10000004, [])"] obtain s' fired where
    "eloop_run clock_world True (register_all ?rs eloop_init, (10000004, [])) = Some (eloop_init, s')"
    "snd s' = fired" "map fst fired = map whom (sort_key due ?rs)" by auto
  moreover have "map whom (sort_key due ?rs) = [(2, 0, 7), (4, 0, 7), (1, 0, 7), (3, 0, 7)]"
    by (simp add: due_def total_def whom_def sort_key_def)
  ultimately show ?thesis by (metis (no_types, lifting) list.simps(8,9) fst_conv list.map_comp)
qed

end
