(* ===== verification/Pmksa.thy ===== *)
theory Pmksa
  imports Hex_Text Eloop_Queue
begin

text \<open>
  \<open>wpa_supplicant/src/rsn_supp/pmksa_cache.c\<close>, the cache of pairwise master keys, with the callback and the
  users of it in \<open>wpa.c\<close>. The singly linked list is the list \<open>pmksa\<close> of entries; an entry's address is its
  \<open>pe_id\<close>, so that the pointer \<open>cur_pmksa\<close> can be compared and can dangle. A key with its length is the list
  of its first \<open>pmk_len\<close> bytes. The timers are real entries of the event loop of \<open>Eloop\<close>; calls into the
  driver, EAPOL and the supplicant are entries of \<open>outs\<close>. Hash functions are a parameter.
\<close>

unbundle bit_operations_syntax

section \<open>Data\<close>

datatype pmksa_free_reason = PMKSA_FREE | PMKSA_REPLACE | PMKSA_EXPIRE

datatype pmksa_timer = Pmksa_Cache_Expire | Pmksa_Cache_Reauth

record rsn_pmksa_cache_entry =
  pe_id :: nat
  pmkid :: "u8 list"
  pmk :: "u8 list"
  expiration :: int
  akmp :: u32
  aa :: "u8 list"
  fils_cache_id :: "u8 list option"
  reauth_time :: int
  network_ctx :: ptr
  opportunistic :: bool

datatype pmksa_out =
  Add_Pmkid ptr "u8 list" "u8 list" "u8 list option" "u8 list"
  | Remove_Pmkid ptr "u8 list" "u8 list" "u8 list option"
  | Request_Reauth
  | Deauthenticate

text \<open>\<open>struct rsn_pmksa_cache\<close> and the fields of \<open>struct wpa_sm\<close> it uses; \<open>next_ptr\<close> is the next address that the
  allocator gives.\<close>

record wpa_sm =
  pmksa :: "rsn_pmksa_cache_entry list"
  pmksa_count :: int
  cur_pmksa :: "nat option"
  cache_ptr :: ptr
  sm_pmk :: "u8 list"
  xxkey :: "u8 list"
  bssid :: "u8 list"
  own_addr :: "u8 list"
  sm_network_ctx :: ptr
  key_mgmt :: u32
  dot11RSNAConfigPMKLifetime :: u32
  dot11RSNAConfigPMKReauthThreshold :: u32
  eloop_of :: "pmksa_timer eloop"
  outs :: "pmksa_out list"
  next_ptr :: nat

text \<open>What a call finds outside: whether an entry can be allocated, the time, whether a timer can be
  registered, and the HMAC functions with their return value and the bytes they leave.\<close>

datatype hmac = HMAC_SHA1 | HMAC_SHA256 | HMAC_SHA384

record pmksa_env =
  entry_alloc :: bool
  now :: reltime
  timer_alloc :: "pmksa_timer \<Rightarrow> bool"
  hmac_vector :: "hmac \<Rightarrow> u8 list \<Rightarrow> u8 list \<Rightarrow> int \<times> u8 list"

section \<open>Key identifiers\<close>

definition wpa_key_mgmt_sha256 :: "u32 \<Rightarrow> bool" where
  "wpa_key_mgmt_sha256 akm \<longleftrightarrow>
     akm AND (0x100 OR 0x80 OR 0x400 OR 0x800 OR 0x8000 OR 0x10000 OR 0x40000 OR 0x100000) \<noteq> 0"

definition wpa_key_mgmt_sha384 :: "u32 \<Rightarrow> bool" where
  "wpa_key_mgmt_sha384 akm \<longleftrightarrow> akm AND (0x20000 OR 0x1000000 OR 0x80000 OR 0x200000) \<noteq> 0"

definition wpa_key_mgmt_suite_b :: "u32 \<Rightarrow> bool" where
  "wpa_key_mgmt_suite_b akm \<longleftrightarrow> akm AND (0x10000 OR 0x20000) \<noteq> 0"

definition pmk_name :: "u8 list" where
  "pmk_name = [0x50, 0x4d, 0x4b, 0x20, 0x4e, 0x61, 0x6d, 0x65]"

definition rsn_pmkid :: "pmksa_env \<Rightarrow> u8 list \<Rightarrow> u8 list \<Rightarrow> u8 list \<Rightarrow> u32 \<Rightarrow> u8 list" where
  "rsn_pmkid E key addr spa akm =
     (let data = pmk_name @ addr @ spa;
          hash = (if wpa_key_mgmt_sha384 akm then hmac_vector E HMAC_SHA384 key data
                  else if wpa_key_mgmt_sha256 akm then hmac_vector E HMAC_SHA256 key data
                  else hmac_vector E HMAC_SHA1 key data)
      in take 16 (snd hash))"

text \<open>\<open>None\<close> is the result -1, which leaves the buffer as it was: \<open>defconfig\<close> has no Suite B, and the build takes
  the two stubs of \<open>wpa_common.h\<close>.\<close>

definition rsn_pmkid_suite_b :: "u8 list \<Rightarrow> u8 list \<Rightarrow> u8 list \<Rightarrow> u8 list option" where
  "rsn_pmkid_suite_b kck addr spa = None"

definition rsn_pmkid_suite_b_192 :: "u8 list \<Rightarrow> u8 list \<Rightarrow> u8 list \<Rightarrow> u8 list option" where
  "rsn_pmkid_suite_b_192 kck addr spa = None"

section \<open>Removing entries\<close>

text \<open>\<open>wpa_sm_pmksa_free_cb\<close> of \<open>wpa.c\<close>.\<close>

definition wpa_sm_pmksa_free_cb :: "rsn_pmksa_cache_entry \<Rightarrow> pmksa_free_reason \<Rightarrow> wpa_sm \<Rightarrow> wpa_sm" where
  "wpa_sm_pmksa_free_cb e reason sm =
     (let current = (cur_pmksa sm = Some (pe_id e));
          sm = (if current then sm\<lparr>cur_pmksa := None\<rparr> else sm);
          deauth = (current \<and> reason \<noteq> PMKSA_REPLACE);
          expired = (reason = PMKSA_EXPIRE \<and> sm_pmk sm = pmk e);
          sm = (if expired then sm\<lparr>cur_pmksa := None\<rparr> else sm)
      in if deauth \<or> expired then sm\<lparr>sm_pmk := [], outs := outs sm @ [Deauthenticate]\<rparr> else sm)"

definition pmksa_cache_free_entry :: "rsn_pmksa_cache_entry \<Rightarrow> pmksa_free_reason \<Rightarrow> wpa_sm \<Rightarrow> wpa_sm" where
  "pmksa_cache_free_entry e reason sm =
     wpa_sm_pmksa_free_cb e reason
       (sm\<lparr>outs := outs sm @ [Remove_Pmkid (network_ctx e) (aa e) (pmkid e) (fils_cache_id e)],
           pmksa_count := pmksa_count sm - 1\<rparr>)"

text \<open>Absent pointers match every entry, as do a zero \<open>akmp\<close> and a \<open>NULL\<close> context.\<close>

definition entry_matches ::
    "u8 list option \<Rightarrow> u8 list option \<Rightarrow> ptr \<Rightarrow> u32 \<Rightarrow> rsn_pmksa_cache_entry \<Rightarrow> bool" where
  "entry_matches a pid ctx akm e \<longleftrightarrow> (a = None \<or> a = Some (aa e)) \<and> (pid = None \<or> pid = Some (pmkid e)) \<and>
     (akm = 0 \<or> akm = akmp e) \<and> (ctx = 0 \<or> ctx = network_ctx e)"

definition pmksa_cache_get ::
    "u8 list option \<Rightarrow> u8 list option \<Rightarrow> ptr \<Rightarrow> u32 \<Rightarrow> wpa_sm \<Rightarrow> rsn_pmksa_cache_entry option" where
  "pmksa_cache_get a pid ctx akm sm = find (entry_matches a pid ctx akm) (pmksa sm)"

section \<open>Timers\<close>

text \<open>The calls of \<open>eloop_cancel_timeout\<close> and \<open>eloop_register_timeout\<close> with the cache as context.\<close>

definition stop_timer :: "pmksa_timer \<Rightarrow> wpa_sm \<Rightarrow> wpa_sm" where
  "stop_timer t sm = sm\<lparr>eloop_of := snd (eloop_cancel_timeout t (cache_ptr sm) 0 (eloop_of sm))\<rparr>"

definition start_timer :: "pmksa_env \<Rightarrow> int \<Rightarrow> pmksa_timer \<Rightarrow> wpa_sm \<Rightarrow> wpa_sm" where
  "start_timer E secs t sm =
     sm\<lparr>eloop_of := snd (eloop_register_timeout (timer_alloc E t) (Some (now E)) (nat secs) 0 t (cache_ptr sm) 0
           (eloop_of sm))\<rparr>"

definition pmksa_cache_set_expiration :: "pmksa_env \<Rightarrow> wpa_sm \<Rightarrow> wpa_sm" where
  "pmksa_cache_set_expiration E sm =
     (let sm = stop_timer Pmksa_Cache_Reauth (stop_timer Pmksa_Cache_Expire sm)
      in case pmksa sm of
           [] \<Rightarrow> sm
         | head # _ \<Rightarrow>
             let sm = start_timer E (max 0 (expiration head - sec (now E)) + 1) Pmksa_Cache_Expire sm
             in if cur_pmksa sm \<noteq> None \<or> pmksa_cache_get (Some (bssid sm)) None 0 0 sm \<noteq> None
                then start_timer E (max 0 (reauth_time head - sec (now E))) Pmksa_Cache_Reauth sm
                else sm)"

lemma free_entry_list [simp]: "pmksa (pmksa_cache_free_entry e r sm) = pmksa sm"
  by (simp add: pmksa_cache_free_entry_def wpa_sm_pmksa_free_cb_def Let_def)

function expire_loop :: "int \<Rightarrow> wpa_sm \<Rightarrow> wpa_sm" where
  "expire_loop t sm =
     (case pmksa sm of
        [] \<Rightarrow> sm
      | e # es \<Rightarrow>
          if expiration e \<le> t then expire_loop t (pmksa_cache_free_entry e PMKSA_EXPIRE (sm\<lparr>pmksa := es\<rparr>)) else sm)"
  by pat_completeness auto
termination by (relation "measure (\<lambda>(t, sm). length (pmksa sm))") auto

declare expire_loop.simps [simp del]

definition pmksa_cache_expire :: "pmksa_env \<Rightarrow> wpa_sm \<Rightarrow> wpa_sm" where
  "pmksa_cache_expire E sm = pmksa_cache_set_expiration E (expire_loop (sec (now E)) sm)"

definition pmksa_cache_reauth :: "wpa_sm \<Rightarrow> wpa_sm" where
  "pmksa_cache_reauth sm = sm\<lparr>cur_pmksa := None, outs := outs sm @ [Request_Reauth]\<rparr>"

section \<open>Flushing\<close>

definition flush_matches :: "ptr \<Rightarrow> u8 list option \<Rightarrow> rsn_pmksa_cache_entry \<Rightarrow> bool" where
  "flush_matches ctx key e \<longleftrightarrow> (network_ctx e = ctx \<or> ctx = 0) \<and> (key = None \<or> key = Some (pmk e))"

text \<open>\<open>kept\<close> is the list before \<open>entry\<close>; the number counts the removed entries.\<close>

fun flush_loop ::
    "(rsn_pmksa_cache_entry \<Rightarrow> bool) \<Rightarrow> rsn_pmksa_cache_entry list \<Rightarrow> rsn_pmksa_cache_entry list \<Rightarrow> nat \<Rightarrow> wpa_sm \<Rightarrow> nat \<times> wpa_sm" where
  "flush_loop m kept [] n sm = (n, sm)"
| "flush_loop m kept (e # es) n sm =
     (if m e then flush_loop m kept es (n + 1) (pmksa_cache_free_entry e PMKSA_FREE (sm\<lparr>pmksa := kept @ es\<rparr>))
      else flush_loop m (kept @ [e]) es n sm)"

definition pmksa_cache_flush :: "pmksa_env \<Rightarrow> ptr \<Rightarrow> u8 list option \<Rightarrow> wpa_sm \<Rightarrow> wpa_sm" where
  "pmksa_cache_flush E ctx key sm =
     (let (removed, sm) = flush_loop (flush_matches ctx key) [] (pmksa sm) 0 sm
      in if removed > 0 then pmksa_cache_set_expiration E sm else sm)"

definition pmksa_cache_deinit :: "pmksa_env \<Rightarrow> wpa_sm \<Rightarrow> wpa_sm" where
  "pmksa_cache_deinit E sm = pmksa_cache_set_expiration E (sm\<lparr>pmksa := []\<rparr>)"

section \<open>Adding entries\<close>

definition pmksa_cache_max_entries :: int where "pmksa_cache_max_entries = 32"

text \<open>The oldest entry goes, but never the current one.\<close>

definition make_room :: "wpa_sm \<Rightarrow> wpa_sm" where
  "make_room sm =
     (if pmksa_count sm \<ge> pmksa_cache_max_entries then
        case pmksa sm of
          [] \<Rightarrow> sm
        | head # rest \<Rightarrow>
            if cur_pmksa sm = Some (pe_id head) then
              (case rest of
                 [] \<Rightarrow> sm\<lparr>pmksa := [head]\<rparr>
               | pos # rest \<Rightarrow> pmksa_cache_free_entry pos PMKSA_FREE (sm\<lparr>pmksa := head # rest\<rparr>))
            else pmksa_cache_free_entry head PMKSA_FREE (sm\<lparr>pmksa := rest\<rparr>)
      else sm)"

definition insert_entry :: "pmksa_env \<Rightarrow> rsn_pmksa_cache_entry \<Rightarrow> wpa_sm \<Rightarrow> wpa_sm" where
  "insert_entry E entry sm =
     (let before = takeWhile (\<lambda>p. \<not> expiration p > expiration entry) (pmksa sm);
          after = dropWhile (\<lambda>p. \<not> expiration p > expiration entry) (pmksa sm);
          sm = sm\<lparr>pmksa := before @ entry # after\<rparr>;
          sm = (if before = [] then pmksa_cache_set_expiration E sm else sm)
      in sm\<lparr>pmksa_count := pmksa_count sm + 1,
            outs := outs sm @ [Add_Pmkid (network_ctx entry) (aa entry) (pmkid entry) (fils_cache_id entry) (pmk entry)]\<rparr>)"

text \<open>The result is the address of the entry, which is the old one when it has the same key.\<close>

definition pmksa_cache_add_entry :: "pmksa_env \<Rightarrow> rsn_pmksa_cache_entry \<Rightarrow> wpa_sm \<Rightarrow> nat \<times> wpa_sm" where
  "pmksa_cache_add_entry E entry sm =
     (case dropWhile (\<lambda>p. aa p \<noteq> aa entry) (pmksa sm) of
        [] \<Rightarrow> (pe_id entry, insert_entry E entry (make_room sm))
      | pos # rest \<Rightarrow>
          if pmk pos = pmk entry \<and> pmkid pos = pmkid entry then (pe_id pos, sm)
          else
            let sm = sm\<lparr>pmksa := takeWhile (\<lambda>p. aa p \<noteq> aa entry) (pmksa sm) @ rest\<rparr>;
                sm = (if \<not> opportunistic pos then pmksa_cache_flush E (network_ctx entry) (Some (pmk pos)) sm else sm);
                sm = pmksa_cache_free_entry pos PMKSA_REPLACE sm
            in (pe_id entry, insert_entry E entry (make_room sm)))"

definition new_pmkid ::
    "pmksa_env \<Rightarrow> u8 list \<Rightarrow> u8 list option \<Rightarrow> u8 list option \<Rightarrow> u8 list \<Rightarrow> u8 list \<Rightarrow> u32 \<Rightarrow> u8 list" where
  "new_pmkid E key pid kck addr spa akm =
     (case pid of
        Some p \<Rightarrow> p
      | None \<Rightarrow>
          if akm = 0x20000 then case_option (replicate 16 0) id (rsn_pmkid_suite_b_192 (case_option [] id kck) addr spa)
          else if wpa_key_mgmt_suite_b akm then case_option (replicate 16 0) id (rsn_pmkid_suite_b (case_option [] id kck) addr spa)
          else rsn_pmkid E key addr spa akm)"

text \<open>The fields of a new entry: unsigned arithmetic on the lifetimes, then a conversion to \<open>os_time_t\<close>.\<close>

definition new_entry ::
    "pmksa_env \<Rightarrow> u8 list \<Rightarrow> u8 list option \<Rightarrow> u8 list option \<Rightarrow> u8 list \<Rightarrow> u8 list \<Rightarrow> ptr \<Rightarrow> u32 \<Rightarrow> u8 list option \<Rightarrow>
     wpa_sm \<Rightarrow> rsn_pmksa_cache_entry" where
  "new_entry E key pid kck addr spa ctx akm cache_id sm =
     (let life = dot11RSNAConfigPMKLifetime sm
      in \<lparr>pe_id = next_ptr sm, pmkid = new_pmkid E key pid kck addr spa akm, pmk = key,
          expiration = wrap32 (sec (now E) + uint life), akmp = akm, aa = addr, fils_cache_id = cache_id,
          reauth_time = wrap32 (sec (now E) + uint (life * dot11RSNAConfigPMKReauthThreshold sm div 100)),
          network_ctx = ctx, opportunistic = False\<rparr>)"

definition pmksa_cache_add ::
    "pmksa_env \<Rightarrow> u8 list \<Rightarrow> u8 list option \<Rightarrow> u8 list option \<Rightarrow> u8 list \<Rightarrow> u8 list \<Rightarrow> ptr \<Rightarrow> u32 \<Rightarrow> u8 list option \<Rightarrow>
     wpa_sm \<Rightarrow> nat option \<times> wpa_sm" where
  "pmksa_cache_add E key pid kck addr spa ctx akm cache_id sm =
     (if length key > 64 then (None, sm)
      else if wpa_key_mgmt_suite_b akm \<and> kck = None then (None, sm)
      else if \<not> entry_alloc E then (None, sm)
      else
        let (p, sm) = pmksa_cache_add_entry E (new_entry E key pid kck addr spa ctx akm cache_id sm)
              (sm\<lparr>next_ptr := next_ptr sm + 1\<rparr>)
        in (Some p, sm))"

text \<open>\<open>*p\<close> changed through a pointer.\<close>

definition update_entry ::
    "nat \<Rightarrow> (rsn_pmksa_cache_entry \<Rightarrow> rsn_pmksa_cache_entry) \<Rightarrow> wpa_sm \<Rightarrow> wpa_sm" where
  "update_entry p f sm = sm\<lparr>pmksa := map (\<lambda>e. if pe_id e = p then f e else e) (pmksa sm)\<rparr>"

definition pmksa_cache_clone_entry ::
    "pmksa_env \<Rightarrow> rsn_pmksa_cache_entry \<Rightarrow> u8 list \<Rightarrow> wpa_sm \<Rightarrow> nat option \<times> wpa_sm" where
  "pmksa_cache_clone_entry E old addr sm =
     (case pmksa_cache_add E (pmk old) None None addr (own_addr sm) (network_ctx old) (akmp old) (fils_cache_id old) sm of
        (None, sm) \<Rightarrow> (None, sm)
      | (Some p, sm) \<Rightarrow> (Some p, update_entry p (\<lambda>e. e\<lparr>expiration := expiration old, opportunistic := True\<rparr>) sm))"

definition pmksa_cache_get_opportunistic ::
    "pmksa_env \<Rightarrow> ptr \<Rightarrow> u8 list \<Rightarrow> u32 \<Rightarrow> wpa_sm \<Rightarrow> nat option \<times> wpa_sm" where
  "pmksa_cache_get_opportunistic E ctx addr akm sm =
     (if ctx = 0 then (None, sm)
      else case find (\<lambda>e. network_ctx e = ctx \<and> (akm = 0 \<or> akmp e = akm)) (pmksa sm) of
             None \<Rightarrow> (None, sm)
           | Some e \<Rightarrow> pmksa_cache_clone_entry E e addr sm)"

definition pmksa_cache_get_fils_cache_id :: "ptr \<Rightarrow> u8 list \<Rightarrow> wpa_sm \<Rightarrow> rsn_pmksa_cache_entry option" where
  "pmksa_cache_get_fils_cache_id ctx cache_id sm =
     find (\<lambda>e. ctx = network_ctx e \<and> fils_cache_id e = Some cache_id) (pmksa sm)"

section \<open>The current entry\<close>

definition pmksa_cache_get_current :: "wpa_sm \<Rightarrow> nat option" where
  "pmksa_cache_get_current sm = cur_pmksa sm"

definition pmksa_cache_clear_current :: "wpa_sm \<Rightarrow> wpa_sm" where
  "pmksa_cache_clear_current sm = sm\<lparr>cur_pmksa := None\<rparr>"

definition pmksa_cache_set_current ::
    "pmksa_env \<Rightarrow> u8 list option \<Rightarrow> u8 list option \<Rightarrow> ptr \<Rightarrow> bool \<Rightarrow> u8 list option \<Rightarrow> u32 \<Rightarrow> wpa_sm \<Rightarrow> int \<times> wpa_sm" where
  "pmksa_cache_set_current E pid bss ctx try_opportunistic cache_id akm sm =
     (let sm = sm\<lparr>cur_pmksa := None\<rparr>;
          sm = (if pid \<noteq> None then sm\<lparr>cur_pmksa := map_option pe_id (pmksa_cache_get None pid ctx akm sm)\<rparr> else sm);
          sm = (if cur_pmksa sm = None \<and> bss \<noteq> None
                then sm\<lparr>cur_pmksa := map_option pe_id (pmksa_cache_get bss None ctx akm sm)\<rparr> else sm);
          sm = (case bss of
                  Some addr \<Rightarrow>
                    if cur_pmksa sm = None \<and> try_opportunistic
                    then (case pmksa_cache_get_opportunistic E ctx addr akm sm of (p, sm) \<Rightarrow> sm\<lparr>cur_pmksa := p\<rparr>)
                    else sm
                | None \<Rightarrow> sm);
          sm = (case cache_id of
                  Some cid \<Rightarrow>
                    if cur_pmksa sm = None
                    then sm\<lparr>cur_pmksa := map_option pe_id (pmksa_cache_get_fils_cache_id ctx cid sm)\<rparr>
                    else sm
                | None \<Rightarrow> sm)
      in (if cur_pmksa sm \<noteq> None then 0 else -1, sm))"

definition pmksa_cache_head :: "wpa_sm \<Rightarrow> rsn_pmksa_cache_entry option" where
  "pmksa_cache_head sm = (case pmksa sm of [] \<Rightarrow> None | e # _ \<Rightarrow> Some e)"

text \<open>\<open>*cur_pmksa\<close>; \<open>None\<close> for a dangling pointer.\<close>

definition entry_at :: "nat \<Rightarrow> wpa_sm \<Rightarrow> rsn_pmksa_cache_entry option" where
  "entry_at p sm = find (\<lambda>e. pe_id e = p) (pmksa sm)"

text \<open>In \<open>wpa.c\<close>: the current entry is marked valid after a handshake, its key taken into use; a key
  set from outside is added to the cache.\<close>

definition accept_opportunistic :: "wpa_sm \<Rightarrow> wpa_sm" where
  "accept_opportunistic sm =
     (case cur_pmksa sm of None \<Rightarrow> sm | Some p \<Rightarrow> update_entry p (\<lambda>e. e\<lparr>opportunistic := False\<rparr>) sm)"

definition wpa_sm_set_pmk_from_pmksa :: "wpa_sm \<Rightarrow> wpa_sm option" where
  "wpa_sm_set_pmk_from_pmksa sm =
     (case cur_pmksa sm of
        None \<Rightarrow> Some (sm\<lparr>sm_pmk := []\<rparr>)
      | Some p \<Rightarrow> map_option (\<lambda>e. sm\<lparr>sm_pmk := pmk e\<rparr>) (entry_at p sm))"

definition wpa_sm_set_pmk :: "pmksa_env \<Rightarrow> u8 list \<Rightarrow> u8 list option \<Rightarrow> u8 list option \<Rightarrow> wpa_sm \<Rightarrow> wpa_sm" where
  "wpa_sm_set_pmk E key pid bss sm =
     (let sm = sm\<lparr>sm_pmk := key, xxkey := key\<rparr>
      in case bss of
           None \<Rightarrow> sm
         | Some addr \<Rightarrow> snd (pmksa_cache_add E key pid None addr (own_addr sm) (sm_network_ctx sm) (key_mgmt sm) None sm))"

text \<open>The entry is one that the caller has just allocated.\<close>

definition wpa_sm_pmksa_cache_add_entry :: "pmksa_env \<Rightarrow> rsn_pmksa_cache_entry \<Rightarrow> wpa_sm \<Rightarrow> nat \<times> wpa_sm" where
  "wpa_sm_pmksa_cache_add_entry E entry sm =
     pmksa_cache_add_entry E (entry\<lparr>pe_id := next_ptr sm\<rparr>) (sm\<lparr>next_ptr := next_ptr sm + 1\<rparr>)"

section \<open>The list as text\<close>

definition show_int :: "int \<Rightarrow> string" where
  "show_int i = (if i < 0 then CHR ''-'' # show_nat (nat (- i)) else show_nat (nat i))"

text \<open>The pieces of a line: a printed piece (\<open>Inl\<close>) must fit with its NUL, a hex dump (\<open>Inr\<close>) is cut off. The
  result is the text of the length that is returned.\<close>

fun put_pieces :: "nat \<Rightarrow> (string + u8 list) list \<Rightarrow> string" where
  "put_pieces room [] = []"
| "put_pieces room (Inl s # ps) = (if length s < room then s @ put_pieces (room - length s) ps else [])"
| "put_pieces room (Inr d # ps) = (let s = wpa_snprintf_hex room d in s @ put_pieces (room - length s) ps)"

definition entry_pieces :: "int \<Rightarrow> nat \<Rightarrow> rsn_pmksa_cache_entry \<Rightarrow> (string + u8 list) list" where
  "entry_pieces t i e =
     [Inl (show_nat i @ '' '' @ macstr (aa e) @ '' ''), Inr (pmkid e),
      Inl ('' '' @ show_int (wrap32 (expiration e - t)) @ '' '' @ (if opportunistic e then ''1'' else ''0''))] @
     (case fils_cache_id e of
        None \<Rightarrow> []
      | Some cid \<Rightarrow> [Inl ('' '' @ hex_byte False (cid ! 0) @ hex_byte False (cid ! 1))]) @
     [Inl [CHR 0x0A]]"

definition pmksa_cache_list :: "int \<Rightarrow> nat \<Rightarrow> wpa_sm \<Rightarrow> string" where
  "pmksa_cache_list t len sm =
     (let used = list_ex (\<lambda>e. fils_cache_id e \<noteq> None) (pmksa sm);
          title = ''Index / AA / PMKID / expiration (in seconds) / opportunistic'' @
            (if used then '' / FILS Cache Identifier'' else []) @ [CHR 0x0A]
      in put_pieces len (Inl title # concat (map (\<lambda>(i, e). entry_pieces t i e) (zip [1..<Suc (length (pmksa sm))] (pmksa sm)))))"

text \<open>\<open>pmksa_cache_init\<close>, in a state machine that has the values given.\<close>

definition pmksa_cache_init :: "wpa_sm \<Rightarrow> wpa_sm" where
  "pmksa_cache_init sm = sm\<lparr>pmksa := [], pmksa_count := 0\<rparr>"

end
