(* ===== verification/Pmksa_Cache.thy ===== *)
theory Pmksa_Cache
  imports Pmksa "HOL-Library.Sublist"
begin

text \<open>
  What the cache of \<open>Pmksa\<close> keeps in every state it can reach: its count and its bound, one entry per access
  point, a current entry that is never dangling, a driver that knows exactly the cached keys, one timer
  for the expiry; what a new entry does to the others, and that expired keys are given up.
\<close>

section \<open>What the driver has been told\<close>

type_synonym slot = "ptr \<times> u8 list \<times> u8 list \<times> u8 list option"

definition slot_of :: "rsn_pmksa_cache_entry \<Rightarrow> slot" where
  "slot_of e = (network_ctx e, aa e, pmkid e, fils_cache_id e)"

fun driver_step :: "pmksa_out \<Rightarrow> slot multiset \<Rightarrow> slot multiset" where
  "driver_step (Add_Pmkid ctx a p c k) M = add_mset (ctx, a, p, c) M"
| "driver_step (Remove_Pmkid ctx a p c) M = M - {#(ctx, a, p, c)#}"
| "driver_step Request_Reauth M = M"
| "driver_step Deauthenticate M = M"

definition driver_pmkids :: "pmksa_out list \<Rightarrow> slot multiset" where
  "driver_pmkids xs = fold driver_step xs {#}"

lemma driver_simps [simp]:
  "driver_pmkids [] = {#}" "driver_pmkids (xs @ [x]) = driver_step x (driver_pmkids xs)"
  by (simp_all add: driver_pmkids_def)

section \<open>Live entries\<close>

text \<open>\<open>M\<close> are the entries that are allocated and counted, whether they are in the list or just taken out.\<close>

definition live :: "rsn_pmksa_cache_entry multiset \<Rightarrow> wpa_sm \<Rightarrow> bool" where
  "live M sm \<longleftrightarrow> pmksa_count sm = int (size M) \<and> (\<forall>p. cur_pmksa sm = Some p \<longrightarrow> p \<in> pe_id ` set_mset M) \<and>
     driver_pmkids (outs sm) = image_mset slot_of M \<and> eloop_ok (eloop_of sm) \<and> cache_ptr sm \<noteq> ELOOP_ALL_CTX"

definition list_ok :: "rsn_pmksa_cache_entry list \<Rightarrow> nat \<Rightarrow> bool" where
  "list_ok es n \<longleftrightarrow> int (length es) \<le> pmksa_cache_max_entries \<and> distinct (map aa es) \<and> distinct (map pe_id es) \<and>
     (\<forall>e\<in>set es. pe_id e < n)"

definition cache_ok :: "wpa_sm \<Rightarrow> bool" where
  "cache_ok sm \<longleftrightarrow> live (mset (pmksa sm)) sm \<and> list_ok (pmksa sm) (next_ptr sm)"

lemma live_fields [simp]:
  "live M (sm\<lparr>pmksa := x1\<rparr>) = live M sm" "live M (sm\<lparr>next_ptr := x2\<rparr>) = live M sm"
  "live M (sm\<lparr>sm_pmk := x3\<rparr>) = live M sm" "live M (sm\<lparr>xxkey := x4\<rparr>) = live M sm"
  by (simp_all add: live_def)

lemma live_free: "live (add_mset e M) sm \<Longrightarrow> live M (pmksa_cache_free_entry e r sm)"
  by (auto simp: live_def pmksa_cache_free_entry_def wpa_sm_pmksa_free_cb_def slot_of_def Let_def)

lemma free_entry_frame [simp]:
  "next_ptr (pmksa_cache_free_entry e r sm) = next_ptr sm" "eloop_of (pmksa_cache_free_entry e r sm) = eloop_of sm"
  "cache_ptr (pmksa_cache_free_entry e r sm) = cache_ptr sm" "bssid (pmksa_cache_free_entry e r sm) = bssid sm"
  "dot11RSNAConfigPMKLifetime (pmksa_cache_free_entry e r sm) = dot11RSNAConfigPMKLifetime sm"
  by (simp_all add: pmksa_cache_free_entry_def wpa_sm_pmksa_free_cb_def Let_def)

lemma free_other:
  "cur_pmksa sm \<noteq> Some (pe_id e) \<Longrightarrow> pmksa_cache_free_entry e PMKSA_FREE sm =
     sm\<lparr>outs := outs sm @ [Remove_Pmkid (network_ctx e) (aa e) (pmkid e) (fils_cache_id e)],
        pmksa_count := pmksa_count sm - 1\<rparr>"
  by (simp add: pmksa_cache_free_entry_def wpa_sm_pmksa_free_cb_def Let_def)

section \<open>Timers\<close>

lemma set_expiration_frame [simp]:
  "pmksa (pmksa_cache_set_expiration E sm) = pmksa sm" "next_ptr (pmksa_cache_set_expiration E sm) = next_ptr sm"
  "pmksa_count (pmksa_cache_set_expiration E sm) = pmksa_count sm"
  "cur_pmksa (pmksa_cache_set_expiration E sm) = cur_pmksa sm" "outs (pmksa_cache_set_expiration E sm) = outs sm"
  "cache_ptr (pmksa_cache_set_expiration E sm) = cache_ptr sm" "sm_pmk (pmksa_cache_set_expiration E sm) = sm_pmk sm"
  "dot11RSNAConfigPMKLifetime (pmksa_cache_set_expiration E sm) = dot11RSNAConfigPMKLifetime sm"
  by (simp_all add: pmksa_cache_set_expiration_def stop_timer_def start_timer_def Let_def split: list.split)

lemma eloop_ok_timers:
  "eloop_ok (eloop_of sm) \<Longrightarrow> eloop_ok (eloop_of (stop_timer t sm))"
  "eloop_ok (eloop_of sm) \<Longrightarrow> eloop_ok (eloop_of (start_timer E n t sm))"
  by (simp_all add: stop_timer_def start_timer_def ok_cancel ok_register)

lemma live_set_expiration [simp]:
  assumes "live M sm" shows "live M (pmksa_cache_set_expiration E sm)"
proof -
  have "eloop_ok (eloop_of (pmksa_cache_set_expiration E sm))"
    using assms by (auto simp: pmksa_cache_set_expiration_def live_def Let_def eloop_ok_timers split: list.split)
  with assms show ?thesis by (simp add: live_def)
qed

text \<open>The number of expiry timers of the cache in the queue of the event loop, and what the model asks of
  the clock and the event loop for them to be registered.\<close>

definition expiry_timers :: "wpa_sm \<Rightarrow> nat" where
  "expiry_timers sm = eloop_pending (Pmksa_Cache_Expire, cache_ptr sm, 0) (eloop_of sm)"

definition armed :: "wpa_sm \<Rightarrow> bool" where
  "armed sm \<longleftrightarrow> (pmksa sm \<noteq> [] \<longrightarrow> expiry_timers sm = 1)"

definition served :: "pmksa_env \<Rightarrow> rsn_pmksa_cache_entry list \<Rightarrow> bool" where
  "served E es \<longleftrightarrow> (\<forall>t. timer_alloc E t) \<and> 0 \<le> sec (now E) \<and> sec (now E) < int_max \<and>
     (\<forall>e\<in>set es. expiration e < int_max)"

lemma pending_stop_timer:
  assumes "eloop_ok (eloop_of sm)" "cache_ptr sm \<noteq> ELOOP_ALL_CTX"
  shows "eloop_pending k (eloop_of (stop_timer t sm)) = (if k = (t, cache_ptr sm, 0) then 0 else eloop_pending k (eloop_of sm))"
proof -
  have "eloop_of (stop_timer t sm) = eloop_stop (t, cache_ptr sm, 0) (eloop_of sm)"
    using cancel_is_stop [of "cache_ptr sm" 0 t "eloop_of sm"] assms(2) by (simp add: stop_timer_def)
  with eloop_timers.cancel_ok [OF assms(1), of "(t, cache_ptr sm, 0)"] show ?thesis by (cases k) auto
qed

lemma pending_start_timer:
  assumes "eloop_ok (eloop_of sm)" "timer_alloc E t" "0 \<le> sec (now E)" "sec (now E) < int_max" "0 \<le> n"
    "n + sec (now E) \<le> int_max"
  shows "eloop_pending k (eloop_of (start_timer E n t sm)) =
    eloop_pending k (eloop_of sm) + (if k = (t, cache_ptr sm, 0) then 1 else 0)"
proof -
  have "wrap32 (sec (now E) + int (nat n)) = sec (now E) + n"
    using assms by (subst wrap32_id) (auto simp: int_max_def)
  then have "eloop_serves (True, Some (now E), nat n, 0)" using assms by (simp add: eloop_serves_def)
  from eloop_timers.reg_ok [OF assms(1) this, of "(t, cache_ptr sm, 0)"] show ?thesis
    using assms(2) by (cases k) (auto simp: start_timer_def eloop_reg_def)
qed

lemma timer_frames [simp]:
  "pmksa (stop_timer t sm) = pmksa sm" "cur_pmksa (stop_timer t sm) = cur_pmksa sm" "bssid (stop_timer t sm) = bssid sm"
  "cache_ptr (stop_timer t sm) = cache_ptr sm" "pmksa (start_timer E n t sm) = pmksa sm"
  "cur_pmksa (start_timer E n t sm) = cur_pmksa sm" "cache_ptr (start_timer E n t sm) = cache_ptr sm"
  by (simp_all add: stop_timer_def start_timer_def)

text \<open>The reauthentication timer has its own key, whatever it is set to.\<close>

lemma pending_reauth_start:
  "eloop_pending (Pmksa_Cache_Expire, c, d) (eloop_of (start_timer E n Pmksa_Cache_Reauth sm)) =
    eloop_pending (Pmksa_Cache_Expire, c, d) (eloop_of sm)"
  by (auto simp: start_timer_def eloop_register_timeout_def eloop_pending_def exact_match_def length_filter_insert
      Let_def split: option.split)

lemma set_expiration_timer:
  assumes "eloop_ok (eloop_of sm)" "cache_ptr sm \<noteq> ELOOP_ALL_CTX" "served E (pmksa sm)"
  shows "expiry_timers (pmksa_cache_set_expiration E sm) = (if pmksa sm = [] then 0 else 1)"
proof (cases "pmksa sm")
  case Nil
  then show ?thesis
    using pending_stop_timer [OF assms(1,2)] pending_stop_timer [OF eloop_ok_timers(1) [OF assms(1)]] assms(2)
    by (simp add: pmksa_cache_set_expiration_def expiry_timers_def Let_def)
next
  case (Cons h es)
  let ?s = "stop_timer Pmksa_Cache_Reauth (stop_timer Pmksa_Cache_Expire sm)"
  let ?n = "max 0 (expiration h - sec (now E)) + 1"
  have ok: "eloop_ok (eloop_of ?s)" using assms(1) by (simp add: eloop_ok_timers)
  have "eloop_pending (Pmksa_Cache_Expire, cache_ptr sm, 0) (eloop_of ?s) = 0"
    using pending_stop_timer [OF assms(1,2)] pending_stop_timer [OF eloop_ok_timers(1) [OF assms(1)]] assms(2) by simp
  moreover have "?n + sec (now E) \<le> int_max" using assms(3) Cons by (auto simp: served_def)
  ultimately have "eloop_pending (Pmksa_Cache_Expire, cache_ptr sm, 0) (eloop_of (start_timer E ?n Pmksa_Cache_Expire ?s)) = 1"
    using pending_start_timer [OF ok, of E Pmksa_Cache_Expire ?n] assms(3) by (simp add: served_def)
  then show ?thesis using Cons
    by (simp add: pmksa_cache_set_expiration_def expiry_timers_def Let_def pending_reauth_start)
qed

section \<open>The operations on the list\<close>

lemma flush_loop_spec:
  assumes "live (mset kept + mset es + R) sm" "pmksa sm = kept @ es" "flush_loop m kept es n sm = (n', sm')"
  shows "pmksa sm' = kept @ filter (\<lambda>e. \<not> m e) es \<and> live (mset (pmksa sm') + R) sm' \<and>
    n' = n + length (filter m es) \<and> next_ptr sm' = next_ptr sm \<and> eloop_of sm' = eloop_of sm \<and>
    cache_ptr sm' = cache_ptr sm \<and> dot11RSNAConfigPMKLifetime sm' = dot11RSNAConfigPMKLifetime sm"
  using assms
proof (induction es arbitrary: kept n sm)
  case (Cons e es)
  show ?case
  proof (cases "m e")
    case True
    have "live (mset kept + mset es + R) (pmksa_cache_free_entry e PMKSA_FREE (sm\<lparr>pmksa := kept @ es\<rparr>))"
      by (rule live_free) (use Cons.prems(1) in simp)
    from Cons.IH [OF this, of "Suc n"] Cons.prems(3) True show ?thesis by auto
  next
    case False
    with Cons.IH [of "kept @ [e]" sm n] Cons.prems show ?thesis by auto
  qed
qed simp

lemma flush_spec:
  assumes "live (mset (pmksa sm) + R) sm"
  shows "pmksa (pmksa_cache_flush E ctx k sm) = filter (\<lambda>e. \<not> flush_matches ctx k e) (pmksa sm)"
    "live (mset (pmksa (pmksa_cache_flush E ctx k sm)) + R) (pmksa_cache_flush E ctx k sm)"
    "next_ptr (pmksa_cache_flush E ctx k sm) = next_ptr sm"
    "cache_ptr (pmksa_cache_flush E ctx k sm) = cache_ptr sm"
    "dot11RSNAConfigPMKLifetime (pmksa_cache_flush E ctx k sm) = dot11RSNAConfigPMKLifetime sm"
    "served E (pmksa sm) \<Longrightarrow> armed sm \<Longrightarrow> armed (pmksa_cache_flush E ctx k sm)"
    "served E (pmksa sm) \<Longrightarrow> expiry_timers sm = (if pmksa sm = [] then 0 else 1) \<Longrightarrow>
      expiry_timers (pmksa_cache_flush E ctx k sm) = (if pmksa (pmksa_cache_flush E ctx k sm) = [] then 0 else 1)"
proof -
  obtain n' sm' where l: "flush_loop (flush_matches ctx k) [] (pmksa sm) 0 sm = (n', sm')" by fastforce
  note f = flush_loop_spec [of "[]", simplified, OF assms refl l]
  show "pmksa (pmksa_cache_flush E ctx k sm) = filter (\<lambda>e. \<not> flush_matches ctx k e) (pmksa sm)"
    "live (mset (pmksa (pmksa_cache_flush E ctx k sm)) + R) (pmksa_cache_flush E ctx k sm)"
    "next_ptr (pmksa_cache_flush E ctx k sm) = next_ptr sm"
    "cache_ptr (pmksa_cache_flush E ctx k sm) = cache_ptr sm"
    "dot11RSNAConfigPMKLifetime (pmksa_cache_flush E ctx k sm) = dot11RSNAConfigPMKLifetime sm"
    using f by (auto simp: pmksa_cache_flush_def l)
  have t: "n' > 0 \<Longrightarrow> served E (pmksa sm) \<Longrightarrow> expiry_timers (pmksa_cache_set_expiration E sm') = (if pmksa sm' = [] then 0 else 1)"
    using f by (intro set_expiration_timer) (auto simp: live_def served_def)
  have z: "n' = 0 \<Longrightarrow> pmksa sm' = pmksa sm" using f by (simp add: filter_id_conv filter_empty_conv)
  show "served E (pmksa sm) \<Longrightarrow> armed sm \<Longrightarrow> armed (pmksa_cache_flush E ctx k sm)"
    using t z f by (auto simp: pmksa_cache_flush_def l armed_def expiry_timers_def)
  show "served E (pmksa sm) \<Longrightarrow> expiry_timers sm = (if pmksa sm = [] then 0 else 1) \<Longrightarrow>
      expiry_timers (pmksa_cache_flush E ctx k sm) = (if pmksa (pmksa_cache_flush E ctx k sm) = [] then 0 else 1)"
    using t z f by (auto simp: pmksa_cache_flush_def l expiry_timers_def)
qed

text \<open>What the removals leave is the old list with some entries taken out.\<close>

lemma subseq_set_distinct:
  "subseq xs ys \<Longrightarrow> set xs \<subseteq> set ys \<and> (distinct (map f ys) \<longrightarrow> distinct (map f xs)) \<and> length xs \<le> length ys"
  by (induction rule: list_emb.induct) auto

lemma list_ok_subseq:
  assumes "list_ok es n" "subseq es' es" "n \<le> n'" shows "list_ok es' n'"
  using assms subseq_set_distinct [OF assms(2), of aa] subseq_set_distinct [OF assms(2), of pe_id]
  by (fastforce simp: list_ok_def)

lemma make_room_spec:
  assumes "live (mset (pmksa sm)) sm" "list_ok (pmksa sm) n"
  shows "live (mset (pmksa (make_room sm))) (make_room sm)" "subseq (pmksa (make_room sm)) (pmksa sm)"
    "int (length (pmksa (make_room sm))) < pmksa_cache_max_entries"
    "cur_pmksa (make_room sm) = cur_pmksa sm" "sm_pmk (make_room sm) = sm_pmk sm"
    "Deauthenticate \<in> set (outs (make_room sm)) \<longleftrightarrow> Deauthenticate \<in> set (outs sm)"
    "next_ptr (make_room sm) = next_ptr sm" "cache_ptr (make_room sm) = cache_ptr sm"
    "eloop_of (make_room sm) = eloop_of sm"
    "dot11RSNAConfigPMKLifetime (make_room sm) = dot11RSNAConfigPMKLifetime sm"
proof -
  have c: "pmksa_count sm = int (length (pmksa sm))" using assms(1) by (simp add: live_def)
  consider (small) "\<not> pmksa_count sm \<ge> pmksa_cache_max_entries"
    | (current) e p es where "pmksa_count sm \<ge> pmksa_cache_max_entries" "pmksa sm = e # p # es" "cur_pmksa sm = Some (pe_id e)"
    | (oldest) e es where "pmksa_count sm \<ge> pmksa_cache_max_entries" "pmksa sm = e # es" "cur_pmksa sm \<noteq> Some (pe_id e)"
    using c by (cases "pmksa sm"; cases "tl (pmksa sm)") (auto simp: pmksa_cache_max_entries_def)
  then have "live (mset (pmksa (make_room sm))) (make_room sm) \<and> subseq (pmksa (make_room sm)) (pmksa sm) \<and>
    int (length (pmksa (make_room sm))) < pmksa_cache_max_entries \<and>
    cur_pmksa (make_room sm) = cur_pmksa sm \<and> sm_pmk (make_room sm) = sm_pmk sm \<and>
    (Deauthenticate \<in> set (outs (make_room sm)) \<longleftrightarrow> Deauthenticate \<in> set (outs sm)) \<and>
    next_ptr (make_room sm) = next_ptr sm \<and> cache_ptr (make_room sm) = cache_ptr sm \<and>
    eloop_of (make_room sm) = eloop_of sm \<and>
    dot11RSNAConfigPMKLifetime (make_room sm) = dot11RSNAConfigPMKLifetime sm"
  proof cases
    case small
    with assms(1) c show ?thesis by (simp add: make_room_def)
  next
    case current
    have m: "make_room sm = pmksa_cache_free_entry p PMKSA_FREE (sm\<lparr>pmksa := e # es\<rparr>)"
      using current by (simp add: make_room_def)
    have "live (mset (e # es)) (make_room sm)"
      unfolding m by (rule live_free) (use assms(1) current in \<open>simp add: add_mset_commute\<close>)
    moreover have "pe_id e \<noteq> pe_id p" using assms(2) current by (simp add: list_ok_def)
    ultimately show ?thesis using current assms(2) unfolding m
      by (auto simp: list_ok_def free_other simp del: live_fields)
  next
    case oldest
    have m: "make_room sm = pmksa_cache_free_entry e PMKSA_FREE (sm\<lparr>pmksa := es\<rparr>)"
      using oldest by (simp add: make_room_def)
    have "live (mset es) (make_room sm)"
      unfolding m by (rule live_free) (use assms(1) oldest in simp)
    with oldest assms(2) show ?thesis unfolding m
      by (auto simp: list_ok_def free_other simp del: live_fields)
  qed
  then show "live (mset (pmksa (make_room sm))) (make_room sm)" "subseq (pmksa (make_room sm)) (pmksa sm)"
    "int (length (pmksa (make_room sm))) < pmksa_cache_max_entries"
    "cur_pmksa (make_room sm) = cur_pmksa sm" "sm_pmk (make_room sm) = sm_pmk sm"
    "Deauthenticate \<in> set (outs (make_room sm)) \<longleftrightarrow> Deauthenticate \<in> set (outs sm)"
    "next_ptr (make_room sm) = next_ptr sm" "cache_ptr (make_room sm) = cache_ptr sm"
    "eloop_of (make_room sm) = eloop_of sm"
    "dot11RSNAConfigPMKLifetime (make_room sm) = dot11RSNAConfigPMKLifetime sm"
    by blast+
qed

lemma insert_spec:
  assumes "live (mset (pmksa sm)) sm"
  shows "mset (pmksa (insert_entry E e sm)) = add_mset e (mset (pmksa sm))"
    "live (mset (pmksa (insert_entry E e sm))) (insert_entry E e sm)"
proof -
  let ?P = "\<lambda>p. \<not> expiration p > expiration e"
  have l: "pmksa (insert_entry E e sm) = takeWhile ?P (pmksa sm) @ e # dropWhile ?P (pmksa sm)"
    by (simp add: insert_entry_def Let_def)
  have "mset (takeWhile ?P (pmksa sm) @ dropWhile ?P (pmksa sm)) = mset (pmksa sm)" by simp
  then show m: "mset (pmksa (insert_entry E e sm)) = add_mset e (mset (pmksa sm))"
    unfolding l by (simp del: takeWhile_dropWhile_id)
  define s where "s = (if takeWhile ?P (pmksa sm) = [] then pmksa_cache_set_expiration E
      (sm\<lparr>pmksa := takeWhile ?P (pmksa sm) @ e # dropWhile ?P (pmksa sm)\<rparr>)
      else sm\<lparr>pmksa := takeWhile ?P (pmksa sm) @ e # dropWhile ?P (pmksa sm)\<rparr>)"
  have "live (mset (pmksa sm)) s" using assms by (simp add: s_def)
  then have "live (add_mset e (mset (pmksa sm))) (s\<lparr>pmksa_count := pmksa_count s + 1,
      outs := outs s @ [Add_Pmkid (network_ctx e) (aa e) (pmkid e) (fils_cache_id e) (pmk e)]\<rparr>)"
    by (auto simp: live_def slot_of_def)
  then show "live (mset (pmksa (insert_entry E e sm))) (insert_entry E e sm)"
    unfolding m by (simp add: insert_entry_def Let_def s_def)
qed

section \<open>A new entry\<close>

text \<open>The list when the new entry is put in: without the entry of the same access point, what was flushed
  and the one that made room.\<close>

lemma add_entry_cases:
  assumes ok: "cache_ok sm" and r: "pmksa_cache_add_entry E entry (sm\<lparr>next_ptr := n\<rparr>) = (p, sm')" and n: "next_ptr sm \<le> n"
  shows "(\<exists>pos. pos \<in> set (pmksa sm) \<and> aa pos = aa entry \<and> pmk pos = pmk entry \<and> pmkid pos = pmkid entry \<and>
        p = pe_id pos \<and> sm' = sm\<lparr>next_ptr := n\<rparr>) \<or>
    (\<exists>s. p = pe_id entry \<and> sm' = insert_entry E entry s \<and> live (mset (pmksa s)) s \<and> subseq (pmksa s) (pmksa sm) \<and>
      int (length (pmksa s)) < pmksa_cache_max_entries \<and> next_ptr s = n \<and> aa entry \<notin> aa ` set (pmksa s) \<and>
      cache_ptr s = cache_ptr sm \<and> dot11RSNAConfigPMKLifetime s = dot11RSNAConfigPMKLifetime sm \<and>
      (served E (pmksa sm) \<and> armed sm \<longrightarrow> armed s))"
proof (cases "dropWhile (\<lambda>p. aa p \<noteq> aa entry) (pmksa sm)")
  case Nil
  then have "aa entry \<notin> aa ` set (pmksa sm)" by (auto simp: dropWhile_eq_Nil_conv)
  moreover note mr = make_room_spec [of "sm\<lparr>next_ptr := n\<rparr>" n]
  moreover have "live (mset (pmksa sm)) sm" "list_ok (pmksa sm) n"
    using ok n list_ok_subseq by (auto simp: cache_ok_def)
  moreover have "p = pe_id entry" "sm' = insert_entry E entry (make_room (sm\<lparr>next_ptr := n\<rparr>))"
    using r Nil by (simp_all add: pmksa_cache_add_entry_def)
  moreover have "armed sm \<Longrightarrow> armed (make_room (sm\<lparr>next_ptr := n\<rparr>))"
    using calculation by (auto simp: armed_def expiry_timers_def)
  ultimately show ?thesis
    using subseq_set_distinct [of "pmksa (make_room (sm\<lparr>next_ptr := n\<rparr>))" "pmksa sm" aa]
    by (intro disjI2 exI [of _ "make_room (sm\<lparr>next_ptr := n\<rparr>)"] conjI impI) auto
next
  case (Cons pos rest)
  let ?before = "takeWhile (\<lambda>p. aa p \<noteq> aa entry) (pmksa sm)"
  have split: "pmksa sm = ?before @ pos # rest" using Cons takeWhile_dropWhile_id [of _ "pmksa sm"] by metis
  have same: "aa pos = aa entry" using hd_dropWhile [of "\<lambda>p. aa p \<noteq> aa entry" "pmksa sm"] Cons by simp
  show ?thesis
  proof (cases "pmk pos = pmk entry \<and> pmkid pos = pmkid entry")
    case True
    have "pos \<in> set (pmksa sm)" by (subst split) simp
    with Cons r same True show ?thesis by (intro disjI1 exI [of _ pos]) (simp add: pmksa_cache_add_entry_def)
  next
    case False
    define s1 where "s1 = sm\<lparr>next_ptr := n, pmksa := ?before @ rest\<rparr>"
    define s2 where "s2 = (if \<not> opportunistic pos then pmksa_cache_flush E (network_ctx entry) (Some (pmk pos)) s1 else s1)"
    define s3 where "s3 = pmksa_cache_free_entry pos PMKSA_REPLACE s2"
    have res: "p = pe_id entry" "sm' = insert_entry E entry (make_room s3)"
      using r Cons False by (auto simp: pmksa_cache_add_entry_def s1_def s2_def s3_def Let_def)
    have l1: "live (mset (pmksa s1) + {#pos#}) s1"
    proof -
      have "mset (pmksa sm) = mset (?before @ rest) + {#pos#}" by (subst split) simp
      with ok show ?thesis by (simp add: cache_ok_def s1_def)
    qed
    have l2: "live (mset (pmksa s2) + {#pos#}) s2 \<and> subseq (pmksa s2) (pmksa s1) \<and> next_ptr s2 = n"
    proof -
      have "next_ptr s1 = n" by (simp add: s1_def)
      moreover have "subseq (filter q (pmksa s1)) (pmksa s1)" for q by simp
      ultimately show ?thesis
        using l1 flush_spec(1-3) [OF l1, of E "network_ctx entry" "Some (pmk pos)"] unfolding s2_def by auto
    qed
    have sub1: "subseq (pmksa s1) (pmksa sm)"
      unfolding s1_def by (subst (2) split) (simp, intro list_emb_append_mono list_emb_Cons subseq_order.order_refl)
    have sub3: "subseq (pmksa s3) (pmksa sm)" using l2 sub1 subseq_order.order_trans by (auto simp: s3_def)
    have "aa entry \<notin> aa ` set (pmksa s1)"
    proof -
      have "distinct (map aa (?before @ pos # rest))" using ok split by (simp add: cache_ok_def list_ok_def)
      then show ?thesis using same by (auto simp: s1_def)
    qed
    moreover have "set (pmksa s3) \<subseteq> set (pmksa s1)" using l2 subseq_set_distinct by (auto simp: s3_def)
    ultimately have no: "aa entry \<notin> aa ` set (pmksa s3)" by blast
    have l3: "live (mset (pmksa s3)) s3"
      using live_free [of pos "mset (pmksa s2)" s2 PMKSA_REPLACE] l2 by (simp add: s3_def)
    have ok3: "list_ok (pmksa s3) n" using list_ok_subseq [OF _ sub3 n] ok by (simp add: cache_ok_def)
    note mr = make_room_spec [OF l3 ok3]
    have "subseq (pmksa (make_room s3)) (pmksa sm)" using mr(2) sub3 subseq_order.order_trans by blast
    moreover have "aa entry \<notin> aa ` set (pmksa (make_room s3))" using no mr(2) subseq_set_distinct [of _ "pmksa s3"] by blast
    moreover have "next_ptr (make_room s3) = n" using mr l2 by (simp add: s3_def)
    moreover have "cache_ptr (make_room s3) = cache_ptr sm"
      "dot11RSNAConfigPMKLifetime (make_room s3) = dot11RSNAConfigPMKLifetime sm"
      using mr flush_spec [OF l1] by (simp_all add: s3_def s2_def s1_def)
    moreover have "armed (make_room s3)" if g: "served E (pmksa sm)" "armed sm"
    proof -
      have "served E (pmksa s1)" using g(1) sub1 subseq_set_distinct by (fastforce simp: served_def)
      moreover have "armed s1" using g(2) split by (auto simp: armed_def expiry_timers_def s1_def)
      ultimately have "armed s2" using flush_spec(6) [OF l1] by (simp add: s2_def)
      then show ?thesis using mr by (auto simp: armed_def expiry_timers_def s3_def)
    qed
    ultimately show ?thesis using res mr by blast
  qed
qed

lemma insert_entry_frame: "next_ptr (insert_entry E e sm) = next_ptr sm"
  by (simp add: insert_entry_def Let_def)


end
