(* ===== verification/Pmksa_Reach.thy ===== *)
theory Pmksa_Reach
  imports Pmksa_Cache
begin

text \<open>
  The states that the PMKSA cache can reach, by whatever calls in whatever order, and its properties there:
  the invariant, the expiry timer, lookup after an addition, expiry, and what the current entry survives.
\<close>

section \<open>Invariant\<close>

text \<open>With \<open>T\<close> the clock and the timers of the event loop are taken to work, and times to be representable.\<close>

definition timed :: "wpa_sm \<Rightarrow> bool" where
  "timed sm \<longleftrightarrow> expiry_timers sm = (if pmksa sm = [] then 0 else 1) \<and> (\<forall>e\<in>set (pmksa sm). expiration e < int_max)"

definition pmksa_inv :: "bool \<Rightarrow> wpa_sm \<Rightarrow> bool" where
  "pmksa_inv T sm \<longleftrightarrow> cache_ok sm \<and> (T \<longrightarrow> timed sm)"

definition env_ok :: "bool \<Rightarrow> wpa_sm \<Rightarrow> pmksa_env \<Rightarrow> bool" where
  "env_ok T sm E \<longleftrightarrow> (T \<longrightarrow> (\<forall>t. timer_alloc E t) \<and> 0 \<le> sec (now E) \<and>
     sec (now E) + uint (dot11RSNAConfigPMKLifetime sm) < int_max)"

lemma env_served: "env_ok True sm E \<Longrightarrow> timed sm \<Longrightarrow> served E (pmksa sm)"
proof -
  assume e: "env_ok True sm E" and t: "timed sm"
  have "0 \<le> uint (dot11RSNAConfigPMKLifetime sm)" by simp
  moreover from e have "sec (now E) + uint (dot11RSNAConfigPMKLifetime sm) < int_max" by (simp add: env_ok_def)
  ultimately have "sec (now E) < int_max" by linarith
  with e t show ?thesis by (simp add: env_ok_def timed_def served_def)
qed

lemma inv_setters:
  "pmksa_inv T (sm\<lparr>sm_pmk := k\<rparr>) = pmksa_inv T sm" "pmksa_inv T (sm\<lparr>xxkey := k\<rparr>) = pmksa_inv T sm"
  "env_ok T (sm\<lparr>sm_pmk := k\<rparr>) E = env_ok T sm E" "env_ok T (sm\<lparr>xxkey := k\<rparr>) E = env_ok T sm E"
  "env_ok T (sm\<lparr>cur_pmksa := c\<rparr>) E = env_ok T sm E"
  by (simp_all add: pmksa_inv_def cache_ok_def timed_def expiry_timers_def env_ok_def)

lemma inv_current:
  "pmksa_inv T sm \<Longrightarrow> (\<And>p. c = Some p \<Longrightarrow> p \<in> pe_id ` set (pmksa sm)) \<Longrightarrow> pmksa_inv T (sm\<lparr>cur_pmksa := c\<rparr>)"
  by (auto simp: pmksa_inv_def cache_ok_def live_def timed_def expiry_timers_def)

lemma inv_reauth: "pmksa_inv T sm \<Longrightarrow> pmksa_inv T (pmksa_cache_reauth sm)"
  by (auto simp: pmksa_inv_def cache_ok_def live_def timed_def expiry_timers_def pmksa_cache_reauth_def)

lemma inv_map:
  assumes "pmksa_inv T sm" and g: "\<And>e. pe_id (g e) = pe_id e" "\<And>e. aa (g e) = aa e" "\<And>e. slot_of (g e) = slot_of e"
    and "T \<Longrightarrow> \<forall>e\<in>set (pmksa sm). expiration (g e) < int_max"
  shows "pmksa_inv T (sm\<lparr>pmksa := map g (pmksa sm)\<rparr>)"
proof -
  have "image_mset slot_of (mset (map g (pmksa sm))) = image_mset slot_of (mset (pmksa sm))"
    by (simp add: multiset.map_comp o_def g)
  moreover have "map aa (map g (pmksa sm)) = map aa (pmksa sm)" "map pe_id (map g (pmksa sm)) = map pe_id (pmksa sm)"
    by (simp_all add: o_def g)
  moreover have "pe_id ` g ` set (pmksa sm) = pe_id ` set (pmksa sm)" by (simp add: image_image g)
  ultimately show ?thesis using assms(1,5)
    by (simp add: pmksa_inv_def cache_ok_def list_ok_def live_def timed_def expiry_timers_def g o_def)
qed

lemma inv_update:
  assumes "pmksa_inv T sm" "\<And>e. pe_id (f e) = pe_id e" "\<And>e. aa (f e) = aa e" "\<And>e. slot_of (f e) = slot_of e"
    "T \<Longrightarrow> \<forall>e\<in>set (pmksa sm). expiration (f e) < int_max"
  shows "pmksa_inv T (update_entry p f sm)"
  unfolding update_entry_def
  by (rule inv_map [OF assms(1)]) (use assms in \<open>auto simp: pmksa_inv_def timed_def\<close>)

section \<open>Each operation keeps it\<close>

lemma insert_timer:
  assumes "live (mset (pmksa s)) s" "served E (e # pmksa s)" "armed s"
  shows "expiry_timers (insert_entry E e s) = 1"
proof -
  let ?P = "\<lambda>p. \<not> expiration p > expiration e"
  let ?s = "s\<lparr>pmksa := takeWhile ?P (pmksa s) @ e # dropWhile ?P (pmksa s)\<rparr>"
  have sv: "served E (pmksa ?s)" using assms(2)
    by (auto simp: served_def dest: set_takeWhileD set_dropWhileD)
  have "eloop_ok (eloop_of ?s)" "cache_ptr ?s \<noteq> ELOOP_ALL_CTX" using assms(1) by (simp_all add: live_def)
  from set_expiration_timer [OF this sv] have "expiry_timers (pmksa_cache_set_expiration E ?s) = 1" by simp
  moreover have "takeWhile ?P (pmksa s) \<noteq> [] \<Longrightarrow> expiry_timers s = 1" using assms(3) by (auto simp: armed_def)
  ultimately show ?thesis by (auto simp: insert_entry_def Let_def expiry_timers_def)
qed

lemma ok_insert:
  assumes "live (mset (pmksa s)) s" "list_ok (pmksa s) n" "int (length (pmksa s)) < pmksa_cache_max_entries"
    "next_ptr s = Suc n" "pe_id e = n" "aa e \<notin> aa ` set (pmksa s)"
  shows "cache_ok (insert_entry E e s)"
proof -
  have m: "mset (pmksa (insert_entry E e s)) = mset (e # pmksa s)" using insert_spec(1) [OF assms(1)] by simp
  have set_eq: "set (pmksa (insert_entry E e s)) = insert e (set (pmksa s))" using mset_eq_setD [OF m] by simp
  have "mset (map f (pmksa (insert_entry E e s))) = mset (map f (e # pmksa s))" for f :: "_ \<Rightarrow> 'b"
    using m by simp
  then have d: "distinct (map f (pmksa (insert_entry E e s))) = distinct (map f (e # pmksa s))" for f :: "_ \<Rightarrow> 'b"
    by (metis mset_eq_imp_distinct_iff)
  have "length (pmksa (insert_entry E e s)) = Suc (length (pmksa s))" using mset_eq_length [OF m] by simp
  moreover have "pe_id e \<notin> pe_id ` set (pmksa s)" using assms(2,5) by (auto simp: list_ok_def)
  ultimately have "list_ok (pmksa (insert_entry E e s)) (next_ptr (insert_entry E e s))"
    using assms(2-6) by (auto simp: list_ok_def d set_eq insert_entry_frame)
  with insert_spec(2) [OF assms(1)] show ?thesis by (simp add: cache_ok_def)
qed

lemma new_entry_fields [simp]:
  "pe_id (new_entry E key pid kck addr spa ctx akm cid sm) = next_ptr sm"
  "aa (new_entry E key pid kck addr spa ctx akm cid sm) = addr" "pmk (new_entry E key pid kck addr spa ctx akm cid sm) = key"
  "pmkid (new_entry E key pid kck addr spa ctx akm cid sm) = new_pmkid E key pid kck addr spa akm"
  "expiration (new_entry E key pid kck addr spa ctx akm cid sm) = wrap32 (sec (now E) + uint (dot11RSNAConfigPMKLifetime sm))"
  by (simp_all add: new_entry_def Let_def)

lemma add_is_entry:
  "pmksa_cache_add E key pid kck addr spa ctx akm cid sm = (Some p, sm') \<Longrightarrow>
   pmksa_cache_add_entry E (new_entry E key pid kck addr spa ctx akm cid sm) (sm\<lparr>next_ptr := Suc (next_ptr sm)\<rparr>) = (p, sm')"
  by (auto simp: pmksa_cache_add_def split: if_splits prod.splits)

text \<open>A new entry: the invariant, where the result points, and which entries there are now.\<close>

lemma add_entry_spec:
  assumes inv: "pmksa_inv T sm" and env: "env_ok T sm E" and new: "pe_id entry = next_ptr sm"
    and exp: "T \<Longrightarrow> expiration entry < int_max"
    and r: "pmksa_cache_add_entry E entry (sm\<lparr>next_ptr := Suc (next_ptr sm)\<rparr>) = (p, sm')"
  shows "pmksa_inv T sm' \<and> (\<exists>e\<in>set (pmksa sm'). pe_id e = p \<and> aa e = aa entry \<and> pmk e = pmk entry \<and> pmkid e = pmkid entry) \<and>
    (\<forall>e\<in>set (pmksa sm'). aa e = aa entry \<or> e \<in> set (pmksa sm))"
proof -
  have ok: "cache_ok sm" using inv by (simp add: pmksa_inv_def)
  from add_entry_cases [OF ok r le_SucI [OF order_refl]] show ?thesis
  proof (elim disjE exE conjE)
    fix pos assume h: "pos \<in> set (pmksa sm)" "aa pos = aa entry" "pmk pos = pmk entry" "pmkid pos = pmkid entry"
      "p = pe_id pos" "sm' = sm\<lparr>next_ptr := Suc (next_ptr sm)\<rparr>"
    have "pmksa_inv T sm'"
      using inv h(6) by (auto simp: pmksa_inv_def cache_ok_def list_ok_def timed_def expiry_timers_def)
    with h show ?thesis by auto
  next
    fix s assume h: "p = pe_id entry" "sm' = insert_entry E entry s" "live (mset (pmksa s)) s" "subseq (pmksa s) (pmksa sm)"
      "int (length (pmksa s)) < pmksa_cache_max_entries" "next_ptr s = Suc (next_ptr sm)" "aa entry \<notin> aa ` set (pmksa s)"
      "served E (pmksa sm) \<and> armed sm \<longrightarrow> armed s"
    have sub: "set (pmksa s) \<subseteq> set (pmksa sm)" by (rule conjunct1 [OF subseq_set_distinct [OF h(4)]])
    have lk: "list_ok (pmksa s) (next_ptr sm)" using ok by (intro list_ok_subseq [OF _ h(4) order_refl]) (simp add: cache_ok_def)
    have "cache_ok sm'" unfolding h(2) by (rule ok_insert [OF h(3) lk h(5,6) new h(7)])
    moreover have set_eq: "set (pmksa sm') = insert entry (set (pmksa s))"
      using insert_spec(1) [OF h(3), of E entry] h(2) by (metis mset.simps(2) mset_eq_setD list.simps(15))
    moreover have "timed sm'" if T
    proof -
      have t: "timed sm" and sv: "served E (pmksa sm)" using inv env_served that env by (auto simp: pmksa_inv_def)
      have "served E (entry # pmksa s)" using sv sub exp [OF that] by (auto simp: served_def)
      moreover have "armed s" using h(8) sv t by (simp add: armed_def timed_def)
      ultimately have "expiry_timers sm' = 1" unfolding h(2) by (rule insert_timer [OF h(3)])
      with set_eq t sub exp [OF that] show ?thesis by (auto simp: timed_def)
    qed
    ultimately show ?thesis using sub h(1) by (auto simp: pmksa_inv_def)
  qed
qed

lemma add_spec:
  assumes inv: "pmksa_inv T sm" and env: "env_ok T sm E"
    and r: "pmksa_cache_add E key pid kck addr spa ctx akm cid sm = (Some p, sm')"
  shows "pmksa_inv T sm' \<and> (\<exists>e\<in>set (pmksa sm'). pe_id e = p \<and> aa e = addr \<and> pmk e = key \<and>
      pmkid e = new_pmkid E key pid kck addr spa akm) \<and>
    (\<forall>e\<in>set (pmksa sm'). aa e = addr \<or> e \<in> set (pmksa sm))"
proof -
  let ?life = "dot11RSNAConfigPMKLifetime sm"
  have "expiration (new_entry E key pid kck addr spa ctx akm cid sm) < int_max" if T
    using that env wrap32_id [of "sec (now E) + uint ?life"] uint_ge_0 [of ?life]
    by (auto simp: env_ok_def int_max_def)
  from add_entry_spec [OF inv env _ this add_is_entry [OF r]] show ?thesis by simp
qed

lemma add_none: "pmksa_cache_add E key pid kck addr spa ctx akm cid sm = (None, sm') \<Longrightarrow> sm' = sm"
  by (auto simp: pmksa_cache_add_def Let_def split: if_splits prod.splits)

lemma inv_add:
  assumes "pmksa_inv T sm" "env_ok T sm E"
  shows "pmksa_inv T (snd (pmksa_cache_add E key pid kck addr spa ctx akm cid sm))"
proof (cases "pmksa_cache_add E key pid kck addr spa ctx akm cid sm")
  case (Pair q sm')
  then show ?thesis
  proof (cases q)
    case None
    with Pair have "sm' = sm" by (intro add_none) simp
    with Pair assms(1) show ?thesis by simp
  next
    case (Some p)
    with Pair add_spec [OF assms] show ?thesis by simp
  qed
qed

lemma inv_flush:
  assumes inv: "pmksa_inv T sm" and env: "env_ok T sm E"
  shows "pmksa_inv T (pmksa_cache_flush E ctx k sm)"
proof -
  have l: "live (mset (pmksa sm) + {#}) sm" and o: "list_ok (pmksa sm) (next_ptr sm)"
    using inv by (simp_all add: pmksa_inv_def cache_ok_def)
  note f = flush_spec [OF l, of E ctx k]
  have "list_ok (pmksa (pmksa_cache_flush E ctx k sm)) (next_ptr (pmksa_cache_flush E ctx k sm))"
    unfolding f by (rule list_ok_subseq [OF o]) simp_all
  moreover have "timed (pmksa_cache_flush E ctx k sm)" if T
  proof -
    have t: "timed sm" "served E (pmksa sm)" using inv env env_served that by (auto simp: pmksa_inv_def)
    from f(7) [OF t(2)] t(1)
    have "expiry_timers (pmksa_cache_flush E ctx k sm) = (if pmksa (pmksa_cache_flush E ctx k sm) = [] then 0 else 1)"
      unfolding timed_def by blast
    then show ?thesis using t(1) f(1) by (auto simp: timed_def)
  qed
  ultimately show ?thesis using f(2) by (simp add: pmksa_inv_def cache_ok_def)
qed

lemma expire_loop_spec:
  assumes "live (mset (pmksa sm)) sm"
  shows "pmksa (expire_loop t sm) = dropWhile (\<lambda>e. expiration e \<le> t) (pmksa sm) \<and>
    live (mset (pmksa (expire_loop t sm))) (expire_loop t sm) \<and> next_ptr (expire_loop t sm) = next_ptr sm \<and>
    cache_ptr (expire_loop t sm) = cache_ptr sm \<and> eloop_of (expire_loop t sm) = eloop_of sm"
  using assms
proof (induction t sm rule: expire_loop.induct)
  case (1 t sm)
  show ?case
  proof (cases "pmksa sm")
    case (Cons e es)
    then show ?thesis
    proof (cases "expiration e \<le> t")
      case True
      have "live (mset es) (pmksa_cache_free_entry e PMKSA_EXPIRE (sm\<lparr>pmksa := es\<rparr>))"
        by (rule live_free) (use 1(2) Cons in simp)
      with 1(1) [OF Cons True] Cons True show ?thesis by (auto simp: expire_loop.simps [of t sm])
    qed (use 1(2) in \<open>simp add: expire_loop.simps [of t sm]\<close>)
  qed (use 1(2) in \<open>simp add: expire_loop.simps [of t sm]\<close>)
qed

lemma update_ids:
  assumes "\<And>e. pe_id (f e) = pe_id e" shows "pe_id ` set (pmksa (update_entry p f sm)) = pe_id ` set (pmksa sm)"
proof -
  have "map pe_id (pmksa (update_entry p f sm)) = map pe_id (pmksa sm)" by (simp add: update_entry_def assms)
  then show ?thesis by (metis set_map)
qed

lemma inv_clone:
  assumes inv: "pmksa_inv T sm" and env: "env_ok T sm E" and old: "old \<in> set (pmksa sm)"
    and r: "pmksa_cache_clone_entry E old addr sm = (q, sm')"
  shows "pmksa_inv T sm' \<and> (\<forall>p. q = Some p \<longrightarrow> p \<in> pe_id ` set (pmksa sm'))"
proof (cases "pmksa_cache_add E (pmk old) None None addr (own_addr sm) (network_ctx old) (akmp old) (fils_cache_id old) sm")
  case (Pair q' s)
  show ?thesis
  proof (cases q')
    case None
    with Pair have "s = sm" by (intro add_none) simp
    with None Pair r inv show ?thesis by (auto simp: pmksa_cache_clone_entry_def)
  next
    case (Some p)
    let ?f = "\<lambda>e :: rsn_pmksa_cache_entry. e\<lparr>expiration := expiration old, opportunistic := True\<rparr>"
    have s': "sm' = update_entry p ?f s" "q = Some p" using r Pair Some by (auto simp: pmksa_cache_clone_entry_def)
    have a: "pmksa_inv T s" "p \<in> pe_id ` set (pmksa s)" using add_spec [OF inv env] Pair Some by (auto, blast)
    have ids: "pe_id ` set (pmksa sm') = pe_id ` set (pmksa s)" unfolding s'(1) by (rule update_ids) simp
    have "T \<Longrightarrow> expiration old < int_max" using inv old by (auto simp: pmksa_inv_def timed_def)
    then have "pmksa_inv T sm'" unfolding s'(1) by (intro inv_update [OF a(1)]) (auto simp: slot_of_def)
    moreover have "p \<in> pe_id ` set (pmksa sm')" using a(2) by (simp only: ids)
    ultimately show ?thesis using s'(2) by simp
  qed
qed

lemma find_in: "find m es = Some e \<Longrightarrow> e \<in> set es \<and> m e"
  by (auto simp: find_Some_iff)

lemma inv_opportunistic:
  assumes "pmksa_inv T sm" "env_ok T sm E" "pmksa_cache_get_opportunistic E ctx addr akm sm = (q, sm')"
  shows "pmksa_inv T sm' \<and> (\<forall>p. q = Some p \<longrightarrow> p \<in> pe_id ` set (pmksa sm'))"
proof (cases "ctx = 0 \<or> find (\<lambda>e. network_ctx e = ctx \<and> (akm = 0 \<or> akmp e = akm)) (pmksa sm) = None")
  case False
  then obtain e where e: "find (\<lambda>e. network_ctx e = ctx \<and> (akm = 0 \<or> akmp e = akm)) (pmksa sm) = Some e" "ctx \<noteq> 0" by auto
  from inv_clone [OF assms(1,2) conjunct1 [OF find_in [OF e(1)]]] e assms(3) show ?thesis
    by (simp add: pmksa_cache_get_opportunistic_def)
qed (use assms in \<open>auto simp: pmksa_cache_get_opportunistic_def split: if_splits\<close>)

lemma find_id: "map_option pe_id (find m es) = Some p \<Longrightarrow> p \<in> pe_id ` set es"
  by (auto simp: find_Some_iff)

lemma inv_found: "pmksa_inv T sm \<Longrightarrow> pmksa_inv T (sm\<lparr>cur_pmksa := map_option pe_id (find m (pmksa sm))\<rparr>)"
  by (erule inv_current) (rule find_id)

lemma inv_set_current:
  assumes "pmksa_inv T sm" "env_ok T sm E"
  shows "pmksa_inv T (snd (pmksa_cache_set_current E pid bss ctx opp cid akm sm))"
proof -
  define s1 where "s1 = sm\<lparr>cur_pmksa := None\<rparr>"
  define s2 where "s2 = (if pid \<noteq> None then s1\<lparr>cur_pmksa := map_option pe_id (pmksa_cache_get None pid ctx akm s1)\<rparr> else s1)"
  define s3 where "s3 = (if cur_pmksa s2 = None \<and> bss \<noteq> None
    then s2\<lparr>cur_pmksa := map_option pe_id (pmksa_cache_get bss None ctx akm s2)\<rparr> else s2)"
  define s4 where "s4 = (case bss of
    Some addr \<Rightarrow> if cur_pmksa s3 = None \<and> opp
      then (case pmksa_cache_get_opportunistic E ctx addr akm s3 of (p, sm) \<Rightarrow> sm\<lparr>cur_pmksa := p\<rparr>) else s3
    | None \<Rightarrow> s3)"
  define s5 where "s5 = (case cid of
    Some c \<Rightarrow> if cur_pmksa s4 = None
      then s4\<lparr>cur_pmksa := map_option pe_id (pmksa_cache_get_fils_cache_id ctx c s4)\<rparr> else s4
    | None \<Rightarrow> s4)"
  have s1: "pmksa_inv T s1" "env_ok T s1 E" using assms inv_current [of T sm None] by (simp_all add: s1_def inv_setters)
  have s2: "pmksa_inv T s2" "env_ok T s2 E" using s1 by (auto simp: s2_def inv_setters pmksa_cache_get_def inv_found)
  have s3: "pmksa_inv T s3" "env_ok T s3 E" using s2 by (auto simp: s3_def inv_setters pmksa_cache_get_def inv_found)
  have s4: "pmksa_inv T s4"
  proof (cases bss)
    case (Some addr)
    obtain q s where o: "pmksa_cache_get_opportunistic E ctx addr akm s3 = (q, s)" by fastforce
    from inv_opportunistic [OF s3 o] have "pmksa_inv T (s\<lparr>cur_pmksa := q\<rparr>)" by (intro inv_current) auto
    with s3(1) Some o show ?thesis by (simp add: s4_def)
  qed (use s3(1) in \<open>simp add: s4_def\<close>)
  have "pmksa_inv T s5"
    using s4 by (auto simp: s5_def pmksa_cache_get_fils_cache_id_def inv_found split: option.split)
  moreover have "snd (pmksa_cache_set_current E pid bss ctx opp cid akm sm) = s5"
    unfolding pmksa_cache_set_current_def s5_def s4_def s3_def s2_def s1_def Let_def by simp
  ultimately show ?thesis by simp
qed

lemma inv_accept: "pmksa_inv T sm \<Longrightarrow> pmksa_inv T (accept_opportunistic sm)"
  unfolding accept_opportunistic_def
  by (auto simp: slot_of_def split: option.split intro!: inv_update) (simp add: pmksa_inv_def timed_def)

lemma inv_set_pmk:
  "pmksa_inv T sm \<Longrightarrow> env_ok T sm E \<Longrightarrow> pmksa_inv T (wpa_sm_set_pmk E key pid bss sm)"
  by (simp add: wpa_sm_set_pmk_def Let_def inv_setters inv_add split: option.split)

lemma inv_add_current:
  assumes inv: "pmksa_inv T sm" and env: "env_ok T sm E"
    and r: "pmksa_cache_add E key pid kck addr spa ctx akm cid sm = (q, s)"
  shows "pmksa_inv T (s\<lparr>cur_pmksa := q\<rparr>)"
proof -
  have "pmksa_inv T s \<and> (\<forall>p. q = Some p \<longrightarrow> p \<in> pe_id ` set (pmksa s))"
  proof (cases q)
    case None
    with r inv add_none show ?thesis by fastforce
  next
    case (Some p)
    from add_spec [OF inv env r [unfolded Some]] Some show ?thesis by auto
  qed
  then show ?thesis using inv_current [of T s q] by simp
qed

lemma inv_cache_add_entry:
  "pmksa_inv T sm \<Longrightarrow> env_ok T sm E \<Longrightarrow> (T \<Longrightarrow> expiration e < int_max) \<Longrightarrow> pmksa_inv T (snd (wpa_sm_pmksa_cache_add_entry E e sm))"
  using add_entry_spec [of T sm E "e\<lparr>pe_id := next_ptr sm\<rparr>"]
  by (cases "wpa_sm_pmksa_cache_add_entry E e sm") (simp add: wpa_sm_pmksa_cache_add_entry_def)

lemma inv_parameters:
  "pmksa_inv T (sm\<lparr>bssid := a\<rparr>) = pmksa_inv T sm" "pmksa_inv T (sm\<lparr>own_addr := a\<rparr>) = pmksa_inv T sm"
  "pmksa_inv T (sm\<lparr>sm_network_ctx := c\<rparr>) = pmksa_inv T sm" "pmksa_inv T (sm\<lparr>key_mgmt := k\<rparr>) = pmksa_inv T sm"
  "pmksa_inv T (sm\<lparr>dot11RSNAConfigPMKLifetime := n\<rparr>) = pmksa_inv T sm"
  "pmksa_inv T (sm\<lparr>dot11RSNAConfigPMKReauthThreshold := n\<rparr>) = pmksa_inv T sm"
  by (simp_all add: pmksa_inv_def cache_ok_def live_def timed_def expiry_timers_def)

section \<open>Reachable states\<close>

text \<open>The calls of the supplicant, its events and its control interface, the two timers, and the parameters of the
  state machine that the cache reads: the addresses, the network, the lifetime and the threshold.\<close>

datatype pmksa_op =
  Add pmksa_env "u8 list" "u8 list option" "u8 list option" "u8 list" "u8 list" ptr u32 "u8 list option"
  | Expire_Timer pmksa_env
  | Reauth_Timer
  | Flush pmksa_env ptr "u8 list option"
  | Set_Current pmksa_env "u8 list option" "u8 list option" ptr bool "u8 list option" u32
  | Clear_Current
  | Accept
  | Set_Pmk_From_Pmksa
  | Set_Pmk pmksa_env "u8 list" "u8 list option" "u8 list option"
  | Add_Current pmksa_env "u8 list" "u8 list option" "u8 list" "u8 list option"
  | Add_Given pmksa_env rsn_pmksa_cache_entry
  | New_Bssid "u8 list"
  | New_Own_Addr "u8 list"
  | New_Network ptr u32
  | New_Lifetime u32
  | New_Threshold u32

text \<open>The loop takes a timer out of the queue before its handler runs. \<open>None\<close> would be the use of a dangling
  pointer.\<close>

definition take_timer :: "pmksa_timer \<Rightarrow> wpa_sm \<Rightarrow> wpa_sm" where
  "take_timer t sm =
     sm\<lparr>eloop_of := (eloop_of sm)\<lparr>timeout := remove_first (exact_match t (cache_ptr sm) 0) (timeout (eloop_of sm))\<rparr>\<rparr>"

fun pmksa_do :: "pmksa_op \<Rightarrow> wpa_sm \<Rightarrow> wpa_sm option" where
  "pmksa_do (Add E key pid kck addr spa ctx akm cid) sm = Some (snd (pmksa_cache_add E key pid kck addr spa ctx akm cid sm))"
| "pmksa_do (Expire_Timer E) sm = Some (pmksa_cache_expire E (take_timer Pmksa_Cache_Expire sm))"
| "pmksa_do Reauth_Timer sm = Some (pmksa_cache_reauth (take_timer Pmksa_Cache_Reauth sm))"
| "pmksa_do (Flush E ctx k) sm = Some (pmksa_cache_flush E ctx k sm)"
| "pmksa_do (Set_Current E pid bss ctx opp cid akm) sm = Some (snd (pmksa_cache_set_current E pid bss ctx opp cid akm sm))"
| "pmksa_do Clear_Current sm = Some (pmksa_cache_clear_current sm)"
| "pmksa_do Accept sm = Some (accept_opportunistic sm)"
| "pmksa_do Set_Pmk_From_Pmksa sm = wpa_sm_set_pmk_from_pmksa sm"
| "pmksa_do (Set_Pmk E key pid bss) sm = Some (wpa_sm_set_pmk E key pid bss sm)"
| "pmksa_do (Add_Current E key pid addr cid) sm =
     (case pmksa_cache_add E key pid None addr (own_addr sm) (sm_network_ctx sm) (key_mgmt sm) cid sm of
        (p, sm) \<Rightarrow> Some (sm\<lparr>cur_pmksa := p\<rparr>))"
| "pmksa_do (Add_Given E e) sm = Some (snd (wpa_sm_pmksa_cache_add_entry E e sm))"
| "pmksa_do (New_Bssid a) sm = Some (sm\<lparr>bssid := a\<rparr>)"
| "pmksa_do (New_Own_Addr a) sm = Some (sm\<lparr>own_addr := a\<rparr>)"
| "pmksa_do (New_Network ctx akm) sm = Some (sm\<lparr>sm_network_ctx := ctx, key_mgmt := akm\<rparr>)"
| "pmksa_do (New_Lifetime n) sm = Some (if n > 0 then sm\<lparr>dot11RSNAConfigPMKLifetime := n\<rparr> else sm)"
| "pmksa_do (New_Threshold n) sm = Some (if n > 0 \<and> n \<le> 100 then sm\<lparr>dot11RSNAConfigPMKReauthThreshold := n\<rparr> else sm)"

fun op_env :: "pmksa_op \<Rightarrow> pmksa_env option" where
  "op_env (Add E key pid kck addr spa ctx akm cid) = Some E"
| "op_env (Expire_Timer E) = Some E"
| "op_env (Flush E ctx k) = Some E"
| "op_env (Set_Current E pid bss ctx opp cid akm) = Some E"
| "op_env (Set_Pmk E key pid bss) = Some E"
| "op_env (Add_Current E key pid addr cid) = Some E"
| "op_env (Add_Given E e) = Some E"
| "op_env _ = None"

text \<open>The entry of a caller has an expiration time of its own.\<close>

fun op_entry :: "pmksa_op \<Rightarrow> rsn_pmksa_cache_entry option" where
  "op_entry (Add_Given E e) = Some e"
| "op_entry _ = None"

definition pmksa_start :: "wpa_sm \<Rightarrow> bool" where
  "pmksa_start sm \<longleftrightarrow> cur_pmksa sm = None \<and> outs sm = [] \<and> eloop_of sm = eloop_init \<and> cache_ptr sm \<noteq> ELOOP_ALL_CTX"

inductive pmksa_reachable :: "bool \<Rightarrow> wpa_sm \<Rightarrow> bool" for T where
  init: "pmksa_start sm \<Longrightarrow> pmksa_reachable T (pmksa_cache_init sm)"
| op: "pmksa_reachable T sm \<Longrightarrow> (\<And>E. op_env c = Some E \<Longrightarrow> env_ok T sm E) \<Longrightarrow>
    (\<And>e. T \<Longrightarrow> op_entry c = Some e \<Longrightarrow> expiration e < int_max) \<Longrightarrow> pmksa_do c sm = Some sm' \<Longrightarrow>
    pmksa_reachable T sm'"

lemma inv_take_reauth: "pmksa_inv T sm \<Longrightarrow> pmksa_inv T (take_timer Pmksa_Cache_Reauth sm)"
proof -
  have "length (filter (exact_match Pmksa_Cache_Expire c d) (remove_first (exact_match Pmksa_Cache_Reauth c d) ts)) =
      length (filter (exact_match Pmksa_Cache_Expire c d) ts)" for c d ts
    by (induction ts) (auto simp: exact_match_def)
  then show "pmksa_inv T sm \<Longrightarrow> pmksa_inv T (take_timer Pmksa_Cache_Reauth sm)"
    by (simp add: pmksa_inv_def cache_ok_def live_def timed_def expiry_timers_def take_timer_def eloop_pending_def
        ok_cancel_one)
qed

text \<open>The expiry handler arms its timer anew, whatever the queue holds.\<close>

lemma inv_expire_timer:
  assumes "pmksa_inv T sm" "env_ok T sm E" shows "pmksa_inv T (pmksa_cache_expire E (take_timer Pmksa_Cache_Expire sm))"
proof -
  let ?before = "take_timer Pmksa_Cache_Expire sm"
  let ?s = "expire_loop (sec (now E)) ?before"
  have l: "live (mset (pmksa ?before)) ?before" and o: "list_ok (pmksa ?before) (next_ptr ?before)" and e: "pmksa ?before = pmksa sm"
    using assms(1) by (simp_all add: pmksa_inv_def cache_ok_def live_def take_timer_def ok_cancel_one)
  note x = expire_loop_spec [OF l, of "sec (now E)"]
  have "subseq (pmksa ?s) (pmksa ?before)" using x by (simp add: suffix_dropWhile suffix_imp_subseq)
  then have o': "list_ok (pmksa ?s) (next_ptr ?s)" using x list_ok_subseq [OF o] by simp
  have "timed (pmksa_cache_expire E ?before)" if T
  proof -
    have t: "timed sm" "served E (pmksa sm)" using assms env_served that by (auto simp: pmksa_inv_def)
    have "served E (pmksa ?s)" using t(2) x e by (auto simp: served_def dest: set_dropWhileD)
    from set_expiration_timer [OF _ _ this] t(1) x e show ?thesis
      by (auto simp: pmksa_cache_expire_def timed_def live_def dest: set_dropWhileD)
  qed
  with x o' show ?thesis by (auto simp: pmksa_inv_def cache_ok_def pmksa_cache_expire_def)
qed

lemma inv_do:
  assumes inv: "pmksa_inv T sm" and env: "\<And>E. op_env c = Some E \<Longrightarrow> env_ok T sm E"
    and entry: "\<And>e. T \<Longrightarrow> op_entry c = Some e \<Longrightarrow> expiration e < int_max" and r: "pmksa_do c sm = Some sm'"
  shows "pmksa_inv T sm'"
proof (cases c)
  case (Add_Given E e)
  with inv_cache_add_entry [OF inv, of E e] env entry r show ?thesis by auto
next
  case Set_Pmk_From_Pmksa
  with inv r show ?thesis by (auto simp: wpa_sm_set_pmk_from_pmksa_def inv_setters split: option.splits)
next
  case Clear_Current
  with r inv_current [OF inv, of None] show ?thesis by (auto simp: pmksa_cache_clear_current_def)
qed (use inv env r in \<open>auto simp: inv_add inv_flush inv_set_current inv_accept inv_set_pmk inv_expire_timer
  inv_reauth inv_take_reauth inv_add_current inv_parameters split: prod.splits\<close>)

lemma reachable_inv: "pmksa_reachable T sm \<Longrightarrow> pmksa_inv T sm"
proof (induction rule: pmksa_reachable.induct)
  case (init sm)
  then show ?case
    by (simp add: pmksa_inv_def cache_ok_def live_def list_ok_def timed_def pmksa_start_def pmksa_cache_init_def
        pmksa_cache_max_entries_def eloop_ok_def eloop_init_def time_sorted_def expiry_timers_def eloop_pending_def)
next
  case (op sm c sm')
  then show ?case by (blast intro: inv_do)
qed

section \<open>An example\<close>

definition example_env :: "int \<Rightarrow> pmksa_env" where
  "example_env t = \<lparr>entry_alloc = True, now = \<lparr>sec = t, usec = 0\<rparr>, timer_alloc = (\<lambda>_. True),
     hmac_vector = (\<lambda>_ k d. (0, take 16 (k @ d @ replicate 16 0)))\<rparr>"

definition example_sm :: wpa_sm where
  "example_sm = pmksa_cache_init
     \<lparr>pmksa = [], pmksa_count = 0, cur_pmksa = None, cache_ptr = 64, sm_pmk = [], xxkey = [], bssid = [1, 0, 0, 0, 0, 1],
      own_addr = [2, 0, 0, 0, 0, 2], sm_network_ctx = 5, key_mgmt = 1, dot11RSNAConfigPMKLifetime = 100,
      dot11RSNAConfigPMKReauthThreshold = 70, eloop_of = eloop_init, outs = [], next_ptr = 0\<rparr>"

definition example_added :: wpa_sm where
  "example_added = snd (pmksa_cache_add (example_env 10) [7] None None [1, 0, 0, 0, 0, 1] [2, 0, 0, 0, 0, 2] 5 1 None
     example_sm)"

text \<open>The key is selected and taken into use.\<close>

definition example_cached :: wpa_sm where
  "example_cached = the (wpa_sm_set_pmk_from_pmksa
     (snd (pmksa_cache_set_current (example_env 10) None (Some [1, 0, 0, 0, 0, 1]) 5 False None 1 example_added)))"

lemma example_lifetimes:
  "dot11RSNAConfigPMKLifetime example_sm = 100" "dot11RSNAConfigPMKLifetime example_added = 100"
  by code_simp+

lemma example_reachable: "pmksa_reachable T example_cached"
proof -
  have env: "dot11RSNAConfigPMKLifetime s = 100 \<Longrightarrow> env_ok T s (example_env 10)" for s
    by (simp add: env_ok_def example_env_def int_max_def)
  have "pmksa_reachable T example_sm" unfolding example_sm_def
    by (rule pmksa_reachable.init) (simp add: pmksa_start_def)
  then have "pmksa_reachable T example_added"
    by (rule pmksa_reachable.op [where c = "Add (example_env 10) [7] None None [1, 0, 0, 0, 0, 1] [2, 0, 0, 0, 0, 2] 5 1 None"])
      (simp_all add: example_added_def env example_lifetimes)
  then have cur: "pmksa_reachable T (snd (pmksa_cache_set_current (example_env 10) None (Some [1, 0, 0, 0, 0, 1]) 5 False None 1 example_added))"
    by (rule pmksa_reachable.op [where c = "Set_Current (example_env 10) None (Some [1, 0, 0, 0, 0, 1]) 5 False None 1"])
      (simp_all add: env example_lifetimes)
  have "wpa_sm_set_pmk_from_pmksa (snd (pmksa_cache_set_current (example_env 10) None (Some [1, 0, 0, 0, 0, 1]) 5
      False None 1 example_added)) \<noteq> None" by code_simp
  then show ?thesis
    by (intro pmksa_reachable.op [OF cur, where c = Set_Pmk_From_Pmksa]) (auto simp: example_cached_def)
qed

section \<open>Properties\<close>

text \<open>C26: In every state the PMKSA cache can reach, however allocation and timers fail, it counts its entries
  correctly and holds at most 32, one for each access point; the current entry, when there is one, is an
  entry of the list, so no removal leaves a dangling pointer behind and the key of the current entry can
  always be taken into use; and the driver has been told of exactly the cached PMKIDs.\<close>

theorem pmksa_cache_invariant:
  assumes "pmksa_reachable False sm"
  shows "pmksa_count sm = int (length (pmksa sm)) \<and> pmksa_count sm \<le> 32 \<and> distinct (map aa (pmksa sm)) \<and>
    (\<forall>p. cur_pmksa sm = Some p \<longrightarrow> (\<exists>e\<in>set (pmksa sm). entry_at p sm = Some e)) \<and>
    wpa_sm_set_pmk_from_pmksa sm \<noteq> None \<and>
    driver_pmkids (outs sm) = image_mset slot_of (mset (pmksa sm))"
proof -
  have ok: "cache_ok sm" using reachable_inv [OF assms] by (simp add: pmksa_inv_def)
  have cur: "\<exists>e\<in>set (pmksa sm). entry_at p sm = Some e" if "cur_pmksa sm = Some p" for p
  proof -
    have "find (\<lambda>e. pe_id e = p) (pmksa sm) \<noteq> None"
      using ok that by (auto simp: cache_ok_def live_def find_None_iff)
    then show ?thesis using find_in by (fastforce simp: entry_at_def)
  qed
  then have "wpa_sm_set_pmk_from_pmksa sm \<noteq> None"
    by (fastforce simp: wpa_sm_set_pmk_from_pmksa_def split: option.split)
  with ok cur show ?thesis by (simp add: cache_ok_def live_def list_ok_def pmksa_cache_max_entries_def)
qed

theorem pmksa_cache_invariant_witness:
  "cur_pmksa example_cached = Some 0 \<and> wpa_sm_set_pmk_from_pmksa example_cached \<noteq> None \<and> pmksa_count example_cached \<le> 32"
proof -
  have "cur_pmksa example_cached = Some 0" by code_simp
  with pmksa_cache_invariant [OF example_reachable] show ?thesis by blast
qed

text \<open>C29: As long as every expiry time fits the 32-bit clock and the event loop accepts timers, a PMKSA cache with
  entries has exactly one expiry timer in the queue of the event loop, and an empty cache has none. This is
  a statement about the number of timers: the timer is set for the head of the list of its time, and may fire
  early when that head has been replaced since.\<close>

theorem pmksa_expiry_is_armed:
  assumes "pmksa_reachable True sm"
  shows "eloop_pending (Pmksa_Cache_Expire, cache_ptr sm, 0) (eloop_of sm) = (if pmksa sm = [] then 0 else 1)"
  using reachable_inv [OF assms] by (simp add: pmksa_inv_def timed_def expiry_timers_def)

theorem pmksa_expiry_is_armed_witness:
  "eloop_pending (Pmksa_Cache_Expire, cache_ptr example_cached, 0) (eloop_of example_cached) = 1"
proof -
  have "pmksa_cache_head example_cached \<noteq> None" by code_simp
  then have "pmksa example_cached \<noteq> []" by (auto simp: pmksa_cache_head_def)
  with pmksa_expiry_is_armed [OF example_reachable] show ?thesis by simp
qed

section \<open>A new key\<close>

lemma find_distinct: "distinct (map f es) \<Longrightarrow> e \<in> set es \<Longrightarrow> find (\<lambda>x. f x = f e) es = Some e"
  by (induction es) auto

lemma entry_at_distinct: "cache_ok sm \<Longrightarrow> e \<in> set (pmksa sm) \<Longrightarrow> entry_at (pe_id e) sm = Some e"
  by (simp add: cache_ok_def list_ok_def entry_at_def find_distinct)

lemma get_by_address: "cache_ok sm \<Longrightarrow> e \<in> set (pmksa sm) \<Longrightarrow> pmksa_cache_get (Some (aa e)) None 0 0 sm = Some e"
proof -
  assume "cache_ok sm" "e \<in> set (pmksa sm)"
  moreover have "entry_matches (Some (aa e)) None 0 0 = (\<lambda>x. aa x = aa e)" by (auto simp: entry_matches_def)
  ultimately show ?thesis by (simp add: pmksa_cache_get_def cache_ok_def list_ok_def find_distinct)
qed

text \<open>An added key is there: the cache has an entry for its access point, the one that the call returned,
  with this key and its identifier, and lookup by address finds it; all other entries were there before.\<close>

theorem pmksa_added_is_found:
  assumes "pmksa_reachable False sm" "pmksa_cache_add E key pid kck addr spa ctx akm cid sm = (Some p, sm')"
  shows "\<exists>e. entry_at p sm' = Some e \<and> pmksa_cache_get (Some addr) None 0 0 sm' = Some e \<and> aa e = addr \<and>
      pmk e = key \<and> pmkid e = new_pmkid E key pid kck addr spa akm \<and>
      (\<forall>x\<in>set (pmksa sm'). x = e \<or> x \<in> set (pmksa sm) \<and> aa x \<noteq> addr)"
proof -
  have env: "env_ok False sm E" by (simp add: env_ok_def)
  note a = add_spec [OF reachable_inv [OF assms(1)] env assms(2)]
  then have ok: "cache_ok sm'" by (simp add: pmksa_inv_def)
  from a obtain e where e: "e \<in> set (pmksa sm')" "pe_id e = p" "aa e = addr" "pmk e = key"
    "pmkid e = new_pmkid E key pid kck addr spa akm" by blast
  have "x = e" if "x \<in> set (pmksa sm')" "aa x = addr" for x
    using ok that e(1,3) by (auto simp: cache_ok_def list_ok_def distinct_map inj_on_def)
  with a e entry_at_distinct [OF ok e(1)] get_by_address [OF ok e(1)] show ?thesis by blast
qed

theorem pmksa_added_is_found_witness:
  "\<exists>p sm'. pmksa_cache_add (example_env 20) [8] None None [3, 0, 0, 0, 0, 3] [2, 0, 0, 0, 0, 2] 5 1 None example_cached =
      (Some p, sm') \<and> pmksa_cache_get (Some [3, 0, 0, 0, 0, 3]) None 0 0 sm' = entry_at p sm'"
proof -
  let ?r = "pmksa_cache_add (example_env 20) [8] None None [3, 0, 0, 0, 0, 3] [2, 0, 0, 0, 0, 2] 5 1 None example_cached"
  have "fst ?r = Some 1" by code_simp
  then obtain sm' where "?r = (Some 1, sm')" by (cases ?r) simp
  from pmksa_added_is_found [OF example_reachable this] this show ?thesis by fastforce
qed

text \<open>C28: A key for a new access point never costs the connection: when room has to be made, the entry in use
  stays, is current as before, the key in use stays, and no deauthentication is asked for.\<close>

theorem current_entry_survives:
  assumes "pmksa_reachable False sm" "cur_pmksa sm = Some c" "addr \<notin> aa ` set (pmksa sm)"
    and "pmksa_cache_add E key pid kck addr spa ctx akm cid sm = (q, sm')"
  shows "cur_pmksa sm' = Some c \<and> entry_at c sm' = entry_at c sm \<and> sm_pmk sm' = sm_pmk sm \<and>
    (Deauthenticate \<in> set (outs sm') \<longleftrightarrow> Deauthenticate \<in> set (outs sm))"
proof (cases q)
  case None
  with add_none assms(4) have "sm' = sm" by blast
  with assms(2) show ?thesis by simp
next
  case (Some p)
  let ?room = "make_room (sm\<lparr>next_ptr := Suc (next_ptr sm)\<rparr>)"
  have inv: "pmksa_inv False sm" using reachable_inv [OF assms(1)] .
  have ok: "cache_ok sm" using inv by (simp add: pmksa_inv_def)
  let ?entry = "new_entry E key pid kck addr spa ctx akm cid sm"
  have "dropWhile (\<lambda>x. aa x \<noteq> addr) (pmksa sm) = []" using assms(3) by (auto simp: dropWhile_eq_Nil_conv)
  with add_is_entry [OF assms(4) [unfolded Some]] have sm': "sm' = insert_entry E ?entry ?room"
    by (auto simp: pmksa_cache_add_entry_def)
  have "live (mset (pmksa sm)) sm" "list_ok (pmksa sm) (Suc (next_ptr sm))"
    using ok by (auto simp: cache_ok_def list_ok_def)
  note mr = make_room_spec [of "sm\<lparr>next_ptr := Suc (next_ptr sm)\<rparr>", simplified, OF this]
  have frame: "cur_pmksa sm' = cur_pmksa ?room" "sm_pmk sm' = sm_pmk ?room"
    "Deauthenticate \<in> set (outs sm') \<longleftrightarrow> Deauthenticate \<in> set (outs ?room)"
    by (auto simp: sm' insert_entry_def Let_def)
  have ok': "cache_ok sm'"
    using add_spec [OF inv, of E] assms(4) Some by (simp add: pmksa_inv_def env_ok_def)
  obtain e where e: "e \<in> set (pmksa ?room)" "pe_id e = c"
    using mr(1,4) assms(2) by (auto simp: live_def)
  have "set (pmksa ?room) \<subseteq> set (pmksa sm)" by (rule conjunct1 [OF subseq_set_distinct [OF mr(2)]])
  then have "entry_at c sm = Some e" using entry_at_distinct [OF ok] e by blast
  moreover have "set (pmksa sm') = insert ?entry (set (pmksa ?room))"
    using insert_spec(1) [OF mr(1), of E ?entry] sm' by (metis mset.simps(2) mset_eq_setD list.simps(15))
  then have "entry_at c sm' = Some e" using entry_at_distinct [OF ok'] e by blast
  ultimately show ?thesis using frame mr assms(2) by simp
qed

theorem current_entry_survives_witness:
  "cur_pmksa (snd (pmksa_cache_add (example_env 20) [8] None None [3, 0, 0, 0, 0, 3] [2, 0, 0, 0, 0, 2] 5 1 None
     example_cached)) = Some 0"
proof -
  let ?r = "pmksa_cache_add (example_env 20) [8] None None [3, 0, 0, 0, 0, 3] [2, 0, 0, 0, 0, 2] 5 1 None example_cached"
  have c: "cur_pmksa example_cached = Some 0" by code_simp
  have "map aa (pmksa example_cached) = [[1, 0, 0, 0, 0, 1]]" by code_simp
  then have "set (map aa (pmksa example_cached)) = {[1, 0, 0, 0, 0, 1]}" by simp
  then have a: "[3, 0, 0, 0, 0, 3] \<notin> aa ` set (pmksa example_cached)" by simp
  obtain q sm' where r: "?r = (q, sm')" by (cases ?r)
  from current_entry_survives [OF example_reachable c a r] r show ?thesis by simp
qed

text \<open>C30: An opportunistic entry takes over the key of an entry of the same network, with an identifier computed for
  the new access point; it is marked as opportunistic, and it has the expiration time of the entry it was made
  from, not a lifetime of its own. When the two are removed is another matter: the list is not put in order
  after the time has been changed.\<close>

theorem opportunistic_entry:
  assumes "pmksa_reachable False sm" "pmksa_cache_get_opportunistic E ctx addr akm sm = (Some p, sm')"
  shows "\<exists>old\<in>set (pmksa sm). \<exists>e. network_ctx old = ctx \<and> (akm = 0 \<or> akmp old = akm) \<and>
    entry_at p sm' = Some e \<and> aa e = addr \<and> pmk e = pmk old \<and> expiration e = expiration old \<and> opportunistic e \<and>
    pmkid e = new_pmkid E (pmk old) None None addr (own_addr sm) (akmp old)"
proof -
  have inv: "pmksa_inv False sm" and env: "env_ok False sm E" using reachable_inv [OF assms(1)] by (simp_all add: env_ok_def)
  from assms(2) obtain old where found: "find (\<lambda>e. network_ctx e = ctx \<and> (akm = 0 \<or> akmp e = akm)) (pmksa sm) = Some old"
    and clone: "pmksa_cache_clone_entry E old addr sm = (Some p, sm')"
    by (auto simp: pmksa_cache_get_opportunistic_def split: if_splits option.splits)
  note old = find_in [OF found]
  let ?f = "\<lambda>e :: rsn_pmksa_cache_entry. e\<lparr>expiration := expiration old, opportunistic := True\<rparr>"
  from clone obtain s where
    add: "pmksa_cache_add E (pmk old) None None addr (own_addr sm) (network_ctx old) (akmp old) (fils_cache_id old) sm = (Some p, s)"
    and sm': "sm' = update_entry p ?f s"
    by (auto simp: pmksa_cache_clone_entry_def split: prod.splits option.splits)
  from add_spec [OF inv env add] obtain e where e: "e \<in> set (pmksa s)" "pe_id e = p" "aa e = addr" "pmk e = pmk old"
    "pmkid e = new_pmkid E (pmk old) None None addr (own_addr sm) (akmp old)" by blast
  have "?f e \<in> set (pmksa sm')" using e(1,2) by (force simp: sm' update_entry_def)
  moreover have "cache_ok sm'"
    using inv_clone [OF inv env conjunct1 [OF old] clone] by (simp add: pmksa_inv_def)
  ultimately have "entry_at (pe_id (?f e)) sm' = Some (?f e)" by (rule entry_at_distinct [rotated])
  with e old show ?thesis by (intro bexI [of _ old] exI [of _ "?f e"]) simp_all
qed

theorem opportunistic_entry_witness:
  "\<exists>p sm'. pmksa_cache_get_opportunistic (example_env 20) 5 [3, 0, 0, 0, 0, 3] 1 example_cached = (Some p, sm') \<and>
    map_option opportunistic (entry_at p sm') = Some True"
proof -
  let ?r = "pmksa_cache_get_opportunistic (example_env 20) 5 [3, 0, 0, 0, 0, 3] 1 example_cached"
  have "fst ?r = Some 1" by code_simp
  then obtain sm' where r: "?r = (Some 1, sm')" by (cases ?r) simp
  from opportunistic_entry [OF example_reachable r] r show ?thesis by auto
qed

section \<open>Expiry\<close>

definition gives_up :: "int \<Rightarrow> wpa_sm \<Rightarrow> bool" where
  "gives_up t sm \<longleftrightarrow> (\<exists>e\<in>set (takeWhile (\<lambda>e. expiration e \<le> t) (pmksa sm)). cur_pmksa sm = Some (pe_id e) \<or> pmk e = sm_pmk sm)"

definition given_up :: "bool \<Rightarrow> wpa_sm \<Rightarrow> wpa_sm \<Rightarrow> bool" where
  "given_up b sm sm' \<longleftrightarrow> (\<exists>ys. outs sm' = outs sm @ ys \<and>
     (if b then cur_pmksa sm' = None \<and> sm_pmk sm' = [] \<and> Deauthenticate \<in> set ys
      else cur_pmksa sm' = cur_pmksa sm \<and> sm_pmk sm' = sm_pmk sm \<and> Deauthenticate \<notin> set ys))"

lemma expire_gives_up: "given_up (gives_up t sm) sm (expire_loop t sm)"
proof (induction t sm rule: expire_loop.induct)
  case (1 t sm)
  show ?case
  proof (cases "pmksa sm")
    case (Cons e es)
    let ?s = "pmksa_cache_free_entry e PMKSA_EXPIRE (sm\<lparr>pmksa := es\<rparr>)"
    let ?hit = "cur_pmksa sm = Some (pe_id e) \<or> pmk e = sm_pmk sm"
    show ?thesis
    proof (cases "expiration e \<le> t")
      case True
      have step: "expire_loop t sm = expire_loop t ?s" using Cons True by (simp add: expire_loop.simps [of t sm])
      have s: "given_up ?hit sm ?s"
        by (auto simp: given_up_def pmksa_cache_free_entry_def wpa_sm_pmksa_free_cb_def Let_def)
      have "\<not> ?hit \<Longrightarrow> gives_up t sm = gives_up t ?s"
        using s Cons True by (clarsimp simp: gives_up_def given_up_def)
      moreover have "?hit \<Longrightarrow> gives_up t sm" using Cons True by (auto simp: gives_up_def)
      ultimately show ?thesis using s 1 [OF Cons True] unfolding step
        by (fastforce simp: given_up_def split: if_splits)
    qed (use Cons in \<open>simp add: expire_loop.simps [of t sm] gives_up_def given_up_def\<close>)
  qed (simp add: expire_loop.simps [of t sm] gives_up_def given_up_def)
qed

text \<open>C27: When the expiry timer fires, the expired entries at the head of the list go; if the current entry
  or the key in use was among them, then nothing is current any more, the key in use is wiped and a
  deauthentication is asked for; otherwise the connection is left alone.\<close>

theorem expired_keys_given_up:
  assumes "pmksa_reachable False sm"
  shows "pmksa (pmksa_cache_expire E sm) = dropWhile (\<lambda>e. expiration e \<le> sec (now E)) (pmksa sm) \<and>
    (\<exists>ys. outs (pmksa_cache_expire E sm) = outs sm @ ys \<and>
      (if \<exists>e\<in>set (takeWhile (\<lambda>e. expiration e \<le> sec (now E)) (pmksa sm)).
            cur_pmksa sm = Some (pe_id e) \<or> pmk e = sm_pmk sm
       then cur_pmksa (pmksa_cache_expire E sm) = None \<and> sm_pmk (pmksa_cache_expire E sm) = [] \<and>
            Deauthenticate \<in> set ys
       else cur_pmksa (pmksa_cache_expire E sm) = cur_pmksa sm \<and>
            sm_pmk (pmksa_cache_expire E sm) = sm_pmk sm \<and> Deauthenticate \<notin> set ys))"
proof -
  have "live (mset (pmksa sm)) sm" using reachable_inv [OF assms] by (simp add: pmksa_inv_def cache_ok_def)
  from expire_loop_spec [OF this, of "sec (now E)"] expire_gives_up [of "sec (now E)" sm] show ?thesis
    unfolding pmksa_cache_expire_def set_expiration_frame given_up_def gives_up_def by (intro conjI) simp_all
qed

theorem expired_keys_given_up_witness:
  "sm_pmk example_cached = [7] \<and> sm_pmk (pmksa_cache_expire (example_env 110) example_cached) = []"
proof -
  have k: "sm_pmk example_cached = [7]" by code_simp
  have "map expiration (pmksa example_cached) = [110] \<and> map pmk (pmksa example_cached) = [[7]]" by code_simp
  then obtain e where e: "pmksa example_cached = [e]" "expiration e = 110" "pmk e = [7]"
    by (cases "pmksa example_cached") auto
  have "sec (now (example_env 110)) = 110" by (simp add: example_env_def)
  with expired_keys_given_up [OF example_reachable, of "example_env 110"] e k show ?thesis
    by (auto split: if_splits)
qed

end
