(* ===== verification/Blacklist.thy ===== *)
theory Blacklist
  imports Prelude "HOL-Library.AList"
begin

text \<open>
  \<open>wpa_supplicant/wpa_supplicant/blacklist.c\<close>: the access points that failed, with the number of their
  failures. \<open>struct wpa_blacklist\<close> is the pair of address and count, its chain a list; an absent address is
  \<open>None\<close>, and the allocation of an entry may fail. The abstract view is the map of the counts.
\<close>

type_synonym wpa_blacklist = "u8 list \<times> int"

record wpa_supplicant =
  blacklist :: "wpa_blacklist list"
  extra_blacklist_count :: int

definition wpa_blacklist_get :: "u8 list option \<Rightarrow> wpa_supplicant \<Rightarrow> wpa_blacklist option" where
  "wpa_blacklist_get bssid s =
     (case bssid of None \<Rightarrow> None | Some b \<Rightarrow> find (\<lambda>e. fst e = b) (blacklist s))"

definition wpa_blacklist_add :: "bool \<Rightarrow> u8 list option \<Rightarrow> wpa_supplicant \<Rightarrow> int \<times> wpa_supplicant" where
  "wpa_blacklist_add alloc bssid s =
     (case bssid of
        None \<Rightarrow> (-1, s)
      | Some b \<Rightarrow>
          (case wpa_blacklist_get bssid s of
             Some e \<Rightarrow> (snd e + 1, s\<lparr>blacklist := AList.update b (snd e + 1) (blacklist s)\<rparr>)
           | None \<Rightarrow> if \<not> alloc then (-1, s) else (1, s\<lparr>blacklist := (b, 1) # blacklist s\<rparr>)))"

fun del_first :: "u8 list \<Rightarrow> wpa_blacklist list \<Rightarrow> wpa_blacklist list option" where
  "del_first b [] = None"
| "del_first b (e # es) = (if fst e = b then Some es else map_option (Cons e) (del_first b es))"

definition wpa_blacklist_del :: "u8 list option \<Rightarrow> wpa_supplicant \<Rightarrow> int \<times> wpa_supplicant" where
  "wpa_blacklist_del bssid s =
     (case bssid of
        None \<Rightarrow> (-1, s)
      | Some b \<Rightarrow>
          (case del_first b (blacklist s) of None \<Rightarrow> (-1, s) | Some es \<Rightarrow> (0, s\<lparr>blacklist := es\<rparr>)))"

definition wpa_blacklist_clear :: "wpa_supplicant \<Rightarrow> wpa_supplicant" where
  "wpa_blacklist_clear s =
     s\<lparr>blacklist := [],
       extra_blacklist_count := extra_blacklist_count s +
         fold (\<lambda>e m. if snd e > m then snd e else m) (blacklist s) 0\<rparr>"

section \<open>Refinement of the map of counts\<close>

definition failures :: "wpa_supplicant \<Rightarrow> u8 list \<rightharpoonup> int" where
  "failures s = map_of (blacklist s)"

definition blacklist_ok :: "wpa_supplicant \<Rightarrow> bool" where
  "blacklist_ok s \<longleftrightarrow> distinct (map fst (blacklist s)) \<and> (\<forall>e\<in>set (blacklist s). snd e > 0)"

lemma find_map_of: "map_option snd (find (\<lambda>e. fst e = b) es) = map_of es b"
  by (induction es) auto

lemma del_first_none: "del_first b es = None \<longleftrightarrow> b \<notin> fst ` set es"
  by (induction es) auto

lemma del_first_some:
  "del_first b es = Some es' \<Longrightarrow> distinct (map fst es) \<Longrightarrow>
    map_of es' = (map_of es)(b := None) \<and> distinct (map fst es') \<and> set es' \<subseteq> set es"
proof (induction es arbitrary: es')
  case (Cons e es)
  show ?case
  proof (cases "fst e = b")
    case True
    with Cons.prems have "map_of es b = None" "es' = es" by (auto simp: map_of_eq_None_iff)
    with True Cons.prems show ?thesis by (cases e) (auto simp: fun_eq_iff)
  next
    case False
    with Cons.prems obtain es1 where e: "del_first b es = Some es1" "es' = e # es1" by auto
    with Cons.IH [OF e(1)] Cons.prems False show ?thesis by (cases e) (auto simp: fun_eq_iff)
  qed
qed simp

lemma fold_max: "fold (\<lambda>e m. if snd e > m then snd e else m) es (m :: int) = Max (insert m (snd ` set es))"
proof -
  have "(\<lambda>e m. if snd e > m then snd e else m) = (max :: int \<Rightarrow> _) \<circ> (snd :: 'a \<times> int \<Rightarrow> int)"
    by (auto simp: fun_eq_iff max_def)
  then have "fold (\<lambda>e m. if snd e > m then snd e else m) es m = fold max (map snd es) m" by (simp add: fold_map)
  also have "\<dots> = Max (set (m # map snd es))" by (rule Max.set_eq_fold [symmetric])
  finally show ?thesis by simp
qed

lemma add_refines:
  assumes "blacklist_ok s"
  shows "wpa_blacklist_add alloc (Some b) s =
      (case failures s b of
         Some n \<Rightarrow> (n + 1, s\<lparr>blacklist := AList.update b (n + 1) (blacklist s)\<rparr>)
       | None \<Rightarrow> if \<not> alloc then (-1, s) else (1, s\<lparr>blacklist := (b, 1) # blacklist s\<rparr>))"
  by (auto simp: wpa_blacklist_add_def wpa_blacklist_get_def failures_def find_map_of [symmetric] split: option.splits)

lemma positive_update:
  "\<forall>e\<in>set es. snd e > (0 :: int) \<Longrightarrow> n > 0 \<Longrightarrow> \<forall>e\<in>set (AList.update b n es). snd e > 0"
  by (induction es) auto

text \<open>The list of failed access points is the map of their failures: adding counts one failure more and
  returns the count (a refused allocation changes nothing), deleting forgets the access point and says
  whether it was known, clearing forgets all and adds the highest count to the extra count. An access
  point is in the list once, with a positive count.\<close>

theorem blacklist_counts_failures:
  assumes "blacklist_ok s"
  shows "(\<forall>n. n = (case failures s b of None \<Rightarrow> 1 | Some k \<Rightarrow> k + 1) \<longrightarrow>
      (case wpa_blacklist_add alloc (Some b) s of (r, s') \<Rightarrow>
         if failures s b = None \<and> \<not> alloc then r = -1 \<and> s' = s
         else r = n \<and> failures s' = (failures s)(b \<mapsto> n) \<and> blacklist_ok s')) \<and>
    (case wpa_blacklist_del (Some b) s of (r, s') \<Rightarrow>
       (r = 0 \<longleftrightarrow> failures s b \<noteq> None) \<and> failures s' = (failures s)(b := None) \<and> blacklist_ok s') \<and>
    failures (wpa_blacklist_clear s) = Map.empty \<and> blacklist_ok (wpa_blacklist_clear s) \<and>
    extra_blacklist_count (wpa_blacklist_clear s) = extra_blacklist_count s + Max (insert 0 (ran (failures s)))"
proof (intro conjI)
  have pos: "failures s b = Some k \<Longrightarrow> k > 0" for k
    using assms by (force simp: blacklist_ok_def failures_def dest: map_of_SomeD)
  have upd: "blacklist_ok (s\<lparr>blacklist := AList.update b n (blacklist s)\<rparr>)" if "n > 0" for n
    using assms that positive_update [of "blacklist s" n b] by (simp add: blacklist_ok_def distinct_update)
  show "\<forall>n. n = (case failures s b of None \<Rightarrow> 1 | Some k \<Rightarrow> k + 1) \<longrightarrow>
      (case wpa_blacklist_add alloc (Some b) s of (r, s') \<Rightarrow>
         if failures s b = None \<and> \<not> alloc then r = -1 \<and> s' = s
         else r = n \<and> failures s' = (failures s)(b \<mapsto> n) \<and> blacklist_ok s')"
  proof (cases "failures s b")
    case None
    then have "b \<notin> fst ` set (blacklist s)" by (simp add: failures_def map_of_eq_None_iff)
    with assms have "blacklist_ok (s\<lparr>blacklist := (b, 1) # blacklist s\<rparr>)" by (simp add: blacklist_ok_def)
    moreover have "failures (s\<lparr>blacklist := (b, 1) # blacklist s\<rparr>) = (failures s)(b \<mapsto> 1)" by (simp add: failures_def)
    ultimately show ?thesis using None by (simp add: add_refines [OF assms])
  next
    case (Some k)
    moreover have "failures (s\<lparr>blacklist := AList.update b (k + 1) (blacklist s)\<rparr>) = (failures s)(b \<mapsto> k + 1)"
      by (simp add: failures_def update_conv')
    ultimately show ?thesis using upd [of "k + 1"] pos [of k] by (simp add: add_refines [OF assms])
  qed
  show "case wpa_blacklist_del (Some b) s of (r, s') \<Rightarrow>
       (r = 0 \<longleftrightarrow> failures s b \<noteq> None) \<and> failures s' = (failures s)(b := None) \<and> blacklist_ok s'"
  proof (cases "del_first b (blacklist s)")
    case None
    then have "failures s b = None" by (simp add: failures_def del_first_none map_of_eq_None_iff)
    with None assms show ?thesis by (auto simp: wpa_blacklist_del_def fun_eq_iff)
  next
    case (Some es)
    have "failures s b \<noteq> None" using Some del_first_none [of b "blacklist s"] by (simp add: failures_def map_of_eq_None_iff)
    with del_first_some [OF Some] Some assms show ?thesis
      by (auto simp: wpa_blacklist_del_def failures_def blacklist_ok_def)
  qed
  have "ran (failures s) = snd ` set (blacklist s)"
    using assms by (simp add: failures_def blacklist_ok_def ran_distinct)
  then show "extra_blacklist_count (wpa_blacklist_clear s) = extra_blacklist_count s + Max (insert 0 (ran (failures s)))"
    by (simp add: wpa_blacklist_clear_def fold_max)
qed (simp_all add: wpa_blacklist_clear_def failures_def blacklist_ok_def)

theorem blacklist_counts_failures_witness:
  "fst (wpa_blacklist_del (Some [9]) \<lparr>blacklist = [([9], 2)], extra_blacklist_count = 0\<rparr>) = 0"
proof -
  have "blacklist_ok \<lparr>blacklist = [([9], 2)], extra_blacklist_count = 0\<rparr>" by (simp add: blacklist_ok_def)
  from blacklist_counts_failures [OF this, of "[9]" True] show ?thesis by (auto simp: failures_def split: prod.splits)
qed

end
