(* ===== verification/Rsn_Cipher.thy ===== *)
theory Rsn_Cipher
  imports Byte_Order
begin

text \<open>
  The cipher suites and key management suites of \<open>wpa_supplicant/src/common/wpa_common.c\<close> and \<open>defs.h\<close>:
  as bits of an \<open>int\<close>, as selectors of four bytes in RSN and WPA elements, and as text in the configuration.
  The build is the one of \<open>defconfig\<close>: with 802.11w, 802.11r, SAE and DPP (so with SHA-384), without OWE.
\<close>

unbundle bit_operations_syntax

section \<open>Bits\<close>

abbreviation (input) WPA_CIPHER_NONE :: u32 where "WPA_CIPHER_NONE \<equiv> 0x1"
abbreviation (input) WPA_CIPHER_WEP40 :: u32 where "WPA_CIPHER_WEP40 \<equiv> 0x2"
abbreviation (input) WPA_CIPHER_WEP104 :: u32 where "WPA_CIPHER_WEP104 \<equiv> 0x4"
abbreviation (input) WPA_CIPHER_TKIP :: u32 where "WPA_CIPHER_TKIP \<equiv> 0x8"
abbreviation (input) WPA_CIPHER_CCMP :: u32 where "WPA_CIPHER_CCMP \<equiv> 0x10"
abbreviation (input) WPA_CIPHER_AES_128_CMAC :: u32 where "WPA_CIPHER_AES_128_CMAC \<equiv> 0x20"
abbreviation (input) WPA_CIPHER_GCMP :: u32 where "WPA_CIPHER_GCMP \<equiv> 0x40"
abbreviation (input) WPA_CIPHER_GCMP_256 :: u32 where "WPA_CIPHER_GCMP_256 \<equiv> 0x100"
abbreviation (input) WPA_CIPHER_CCMP_256 :: u32 where "WPA_CIPHER_CCMP_256 \<equiv> 0x200"
abbreviation (input) WPA_CIPHER_BIP_GMAC_128 :: u32 where "WPA_CIPHER_BIP_GMAC_128 \<equiv> 0x800"
abbreviation (input) WPA_CIPHER_BIP_GMAC_256 :: u32 where "WPA_CIPHER_BIP_GMAC_256 \<equiv> 0x1000"
abbreviation (input) WPA_CIPHER_BIP_CMAC_256 :: u32 where "WPA_CIPHER_BIP_CMAC_256 \<equiv> 0x2000"
abbreviation (input) WPA_CIPHER_GTK_NOT_USED :: u32 where "WPA_CIPHER_GTK_NOT_USED \<equiv> 0x4000"

abbreviation (input) WPA_PROTO_WPA :: u32 where "WPA_PROTO_WPA \<equiv> 1"
abbreviation (input) WPA_PROTO_RSN :: u32 where "WPA_PROTO_RSN \<equiv> 2"
abbreviation (input) WPA_PROTO_OSEN :: u32 where "WPA_PROTO_OSEN \<equiv> 8"

text \<open>\<open>WPA_KEY_MGMT_x\<close> is bit \<open>n\<close>.\<close>

abbreviation (input) WPA_KEY_MGMT_IEEE8021X :: u32 where "WPA_KEY_MGMT_IEEE8021X \<equiv> 0x1"
abbreviation (input) WPA_KEY_MGMT_PSK :: u32 where "WPA_KEY_MGMT_PSK \<equiv> 0x2"
abbreviation (input) WPA_KEY_MGMT_WPA_NONE :: u32 where "WPA_KEY_MGMT_WPA_NONE \<equiv> 0x10"
abbreviation (input) WPA_KEY_MGMT_FT_IEEE8021X :: u32 where "WPA_KEY_MGMT_FT_IEEE8021X \<equiv> 0x20"
abbreviation (input) WPA_KEY_MGMT_FT_PSK :: u32 where "WPA_KEY_MGMT_FT_PSK \<equiv> 0x40"
abbreviation (input) WPA_KEY_MGMT_IEEE8021X_SHA256 :: u32 where "WPA_KEY_MGMT_IEEE8021X_SHA256 \<equiv> 0x80"
abbreviation (input) WPA_KEY_MGMT_PSK_SHA256 :: u32 where "WPA_KEY_MGMT_PSK_SHA256 \<equiv> 0x100"
abbreviation (input) WPA_KEY_MGMT_SAE :: u32 where "WPA_KEY_MGMT_SAE \<equiv> 0x400"
abbreviation (input) WPA_KEY_MGMT_FT_SAE :: u32 where "WPA_KEY_MGMT_FT_SAE \<equiv> 0x800"
abbreviation (input) WPA_KEY_MGMT_CCKM :: u32 where "WPA_KEY_MGMT_CCKM \<equiv> 0x4000"
abbreviation (input) WPA_KEY_MGMT_OSEN :: u32 where "WPA_KEY_MGMT_OSEN \<equiv> 0x8000"
abbreviation (input) WPA_KEY_MGMT_IEEE8021X_SUITE_B :: u32 where "WPA_KEY_MGMT_IEEE8021X_SUITE_B \<equiv> 0x10000"
abbreviation (input) WPA_KEY_MGMT_IEEE8021X_SUITE_B_192 :: u32 where "WPA_KEY_MGMT_IEEE8021X_SUITE_B_192 \<equiv> 0x20000"
abbreviation (input) WPA_KEY_MGMT_FILS_SHA256 :: u32 where "WPA_KEY_MGMT_FILS_SHA256 \<equiv> 0x40000"
abbreviation (input) WPA_KEY_MGMT_FILS_SHA384 :: u32 where "WPA_KEY_MGMT_FILS_SHA384 \<equiv> 0x80000"
abbreviation (input) WPA_KEY_MGMT_FT_FILS_SHA256 :: u32 where "WPA_KEY_MGMT_FT_FILS_SHA256 \<equiv> 0x100000"
abbreviation (input) WPA_KEY_MGMT_FT_FILS_SHA384 :: u32 where "WPA_KEY_MGMT_FT_FILS_SHA384 \<equiv> 0x200000"
abbreviation (input) WPA_KEY_MGMT_OWE :: u32 where "WPA_KEY_MGMT_OWE \<equiv> 0x400000"
abbreviation (input) WPA_KEY_MGMT_DPP :: u32 where "WPA_KEY_MGMT_DPP \<equiv> 0x800000"
abbreviation (input) WPA_KEY_MGMT_FT_IEEE8021X_SHA384 :: u32 where "WPA_KEY_MGMT_FT_IEEE8021X_SHA384 \<equiv> 0x1000000"

section \<open>Selectors\<close>

text \<open>\<open>RSN_SELECTOR\<close> with the OUIs of RSN, of WPA and of the Wi-Fi Alliance.\<close>

abbreviation (input) RSN :: "u32 \<Rightarrow> u32" where "RSN n \<equiv> 0x000fac00 + n"
abbreviation (input) MS :: "u32 \<Rightarrow> u32" where "MS n \<equiv> 0x0050f200 + n"
abbreviation (input) WFA :: "u32 \<Rightarrow> u32" where "WFA n \<equiv> 0x506f9a00 + n"
abbreviation (input) AUTH_KEY_MGMT_CCKM :: u32 where "AUTH_KEY_MGMT_CCKM \<equiv> 0x00409600"

definition rsn_selector_to_bitfield :: "u8 list \<Rightarrow> u32" where
  "rsn_selector_to_bitfield s =
     (let v = WPA_GET_BE32 s
      in if v = RSN 0 then WPA_CIPHER_NONE else if v = RSN 2 then WPA_CIPHER_TKIP
         else if v = RSN 4 then WPA_CIPHER_CCMP else if v = RSN 6 then WPA_CIPHER_AES_128_CMAC
         else if v = RSN 8 then WPA_CIPHER_GCMP else if v = RSN 10 then WPA_CIPHER_CCMP_256
         else if v = RSN 9 then WPA_CIPHER_GCMP_256 else if v = RSN 11 then WPA_CIPHER_BIP_GMAC_128
         else if v = RSN 12 then WPA_CIPHER_BIP_GMAC_256 else if v = RSN 13 then WPA_CIPHER_BIP_CMAC_256
         else if v = RSN 7 then WPA_CIPHER_GTK_NOT_USED else 0)"

definition rsn_key_mgmt_to_bitfield :: "u8 list \<Rightarrow> u32" where
  "rsn_key_mgmt_to_bitfield s =
     (let v = WPA_GET_BE32 s
      in if v = RSN 1 then WPA_KEY_MGMT_IEEE8021X else if v = RSN 2 then WPA_KEY_MGMT_PSK
         else if v = RSN 3 then WPA_KEY_MGMT_FT_IEEE8021X else if v = RSN 4 then WPA_KEY_MGMT_FT_PSK
         else if v = RSN 13 then WPA_KEY_MGMT_FT_IEEE8021X_SHA384
         else if v = RSN 5 then WPA_KEY_MGMT_IEEE8021X_SHA256 else if v = RSN 6 then WPA_KEY_MGMT_PSK_SHA256
         else if v = RSN 8 then WPA_KEY_MGMT_SAE else if v = RSN 9 then WPA_KEY_MGMT_FT_SAE
         else if v = RSN 11 then WPA_KEY_MGMT_IEEE8021X_SUITE_B
         else if v = RSN 12 then WPA_KEY_MGMT_IEEE8021X_SUITE_B_192
         else if v = RSN 14 then WPA_KEY_MGMT_FILS_SHA256 else if v = RSN 15 then WPA_KEY_MGMT_FILS_SHA384
         else if v = RSN 16 then WPA_KEY_MGMT_FT_FILS_SHA256 else if v = RSN 17 then WPA_KEY_MGMT_FT_FILS_SHA384
         else if v = WFA 2 then WPA_KEY_MGMT_DPP else if v = WFA 1 then WPA_KEY_MGMT_OSEN else 0)"

definition wpa_selector_to_bitfield :: "u8 list \<Rightarrow> u32" where
  "wpa_selector_to_bitfield s =
     (let v = WPA_GET_BE32 s
      in if v = MS 0 then WPA_CIPHER_NONE else if v = MS 2 then WPA_CIPHER_TKIP
         else if v = MS 4 then WPA_CIPHER_CCMP else 0)"

definition wpa_key_mgmt_to_bitfield :: "u8 list \<Rightarrow> u32" where
  "wpa_key_mgmt_to_bitfield s =
     (let v = WPA_GET_BE32 s
      in if v = MS 1 then WPA_KEY_MGMT_IEEE8021X else if v = MS 2 then WPA_KEY_MGMT_PSK
         else if v = MS 0 then WPA_KEY_MGMT_WPA_NONE else 0)"

definition wpa_cipher_valid_pairwise :: "u32 \<Rightarrow> bool" where
  "wpa_cipher_valid_pairwise c \<longleftrightarrow> c = WPA_CIPHER_CCMP_256 \<or> c = WPA_CIPHER_GCMP_256 \<or> c = WPA_CIPHER_CCMP \<or>
     c = WPA_CIPHER_GCMP \<or> c = WPA_CIPHER_TKIP"

definition wpa_cipher_valid_group :: "u32 \<Rightarrow> bool" where
  "wpa_cipher_valid_group c \<longleftrightarrow> wpa_cipher_valid_pairwise c \<or> c = WPA_CIPHER_GTK_NOT_USED"

definition wpa_cipher_valid_mgmt_group :: "u32 \<Rightarrow> bool" where
  "wpa_cipher_valid_mgmt_group c \<longleftrightarrow> c = WPA_CIPHER_AES_128_CMAC \<or> c = WPA_CIPHER_BIP_GMAC_128 \<or>
     c = WPA_CIPHER_BIP_GMAC_256 \<or> c = WPA_CIPHER_BIP_CMAC_256"

text \<open>\<open>c AND x \<noteq> 0\<close> is the C condition \<open>c & x\<close>.\<close>

definition wpa_cipher_to_suite :: "u32 \<Rightarrow> u32 \<Rightarrow> u32" where
  "wpa_cipher_to_suite proto c =
     (if c AND WPA_CIPHER_CCMP_256 \<noteq> 0 then RSN 10 else if c AND WPA_CIPHER_GCMP_256 \<noteq> 0 then RSN 9
      else if c AND WPA_CIPHER_CCMP \<noteq> 0 then (if proto = WPA_PROTO_RSN then RSN 4 else MS 4)
      else if c AND WPA_CIPHER_GCMP \<noteq> 0 then RSN 8
      else if c AND WPA_CIPHER_TKIP \<noteq> 0 then (if proto = WPA_PROTO_RSN then RSN 2 else MS 2)
      else if c AND WPA_CIPHER_NONE \<noteq> 0 then (if proto = WPA_PROTO_RSN then RSN 0 else MS 0)
      else if c AND WPA_CIPHER_GTK_NOT_USED \<noteq> 0 then RSN 7 else if c AND WPA_CIPHER_AES_128_CMAC \<noteq> 0 then RSN 6
      else if c AND WPA_CIPHER_BIP_GMAC_128 \<noteq> 0 then RSN 11 else if c AND WPA_CIPHER_BIP_GMAC_256 \<noteq> 0 then RSN 12
      else if c AND WPA_CIPHER_BIP_CMAC_256 \<noteq> 0 then RSN 13 else 0)"

definition wpa_akm_to_suite :: "u32 \<Rightarrow> u32" where
  "wpa_akm_to_suite a =
     (if a AND WPA_KEY_MGMT_FT_IEEE8021X_SHA384 \<noteq> 0 then RSN 13 else if a AND WPA_KEY_MGMT_FT_IEEE8021X \<noteq> 0 then RSN 3
      else if a AND WPA_KEY_MGMT_FT_PSK \<noteq> 0 then RSN 4 else if a AND WPA_KEY_MGMT_IEEE8021X_SHA256 \<noteq> 0 then RSN 5
      else if a AND WPA_KEY_MGMT_IEEE8021X \<noteq> 0 then RSN 1 else if a AND WPA_KEY_MGMT_PSK_SHA256 \<noteq> 0 then RSN 6
      else if a AND WPA_KEY_MGMT_PSK \<noteq> 0 then RSN 2 else if a AND WPA_KEY_MGMT_CCKM \<noteq> 0 then AUTH_KEY_MGMT_CCKM
      else if a AND WPA_KEY_MGMT_OSEN \<noteq> 0 then WFA 1 else if a AND WPA_KEY_MGMT_IEEE8021X_SUITE_B \<noteq> 0 then RSN 11
      else if a AND WPA_KEY_MGMT_IEEE8021X_SUITE_B_192 \<noteq> 0 then RSN 12
      else if a AND WPA_KEY_MGMT_FILS_SHA256 \<noteq> 0 then RSN 14 else if a AND WPA_KEY_MGMT_FILS_SHA384 \<noteq> 0 then RSN 15
      else if a AND WPA_KEY_MGMT_FT_FILS_SHA256 \<noteq> 0 then RSN 16
      else if a AND WPA_KEY_MGMT_FT_FILS_SHA384 \<noteq> 0 then RSN 17
      else if a AND WPA_KEY_MGMT_SAE \<noteq> 0 then RSN 8 else if a AND WPA_KEY_MGMT_FT_SAE \<noteq> 0 then RSN 9
      else if a AND WPA_KEY_MGMT_OWE \<noteq> 0 then RSN 18 else if a AND WPA_KEY_MGMT_DPP \<noteq> 0 then WFA 2
      else if a AND WPA_KEY_MGMT_OSEN \<noteq> 0 then WFA 1 else 0)"

section \<open>Properties of a cipher\<close>

datatype wpa_alg =
  WPA_ALG_NONE | WPA_ALG_WEP | WPA_ALG_TKIP | WPA_ALG_CCMP | WPA_ALG_IGTK | WPA_ALG_PMK | WPA_ALG_GCMP | WPA_ALG_SMS4
  | WPA_ALG_KRK | WPA_ALG_GCMP_256 | WPA_ALG_CCMP_256 | WPA_ALG_BIP_GMAC_128 | WPA_ALG_BIP_GMAC_256 | WPA_ALG_BIP_CMAC_256

definition wpa_cipher_key_len :: "u32 \<Rightarrow> nat" where
  "wpa_cipher_key_len c =
     (if c \<in> {WPA_CIPHER_CCMP_256, WPA_CIPHER_GCMP_256, WPA_CIPHER_BIP_GMAC_256, WPA_CIPHER_BIP_CMAC_256} then 32
      else if c \<in> {WPA_CIPHER_CCMP, WPA_CIPHER_GCMP, WPA_CIPHER_AES_128_CMAC, WPA_CIPHER_BIP_GMAC_128} then 16
      else if c = WPA_CIPHER_TKIP then 32 else 0)"

definition wpa_cipher_rsc_len :: "u32 \<Rightarrow> nat" where
  "wpa_cipher_rsc_len c =
     (if c \<in> {WPA_CIPHER_CCMP_256, WPA_CIPHER_GCMP_256, WPA_CIPHER_CCMP, WPA_CIPHER_GCMP, WPA_CIPHER_TKIP} then 6 else 0)"

definition wpa_cipher_to_alg :: "u32 \<Rightarrow> wpa_alg" where
  "wpa_cipher_to_alg c =
     (if c = WPA_CIPHER_CCMP_256 then WPA_ALG_CCMP_256 else if c = WPA_CIPHER_GCMP_256 then WPA_ALG_GCMP_256
      else if c = WPA_CIPHER_CCMP then WPA_ALG_CCMP else if c = WPA_CIPHER_GCMP then WPA_ALG_GCMP
      else if c = WPA_CIPHER_TKIP then WPA_ALG_TKIP else if c = WPA_CIPHER_AES_128_CMAC then WPA_ALG_IGTK
      else if c = WPA_CIPHER_BIP_GMAC_128 then WPA_ALG_BIP_GMAC_128
      else if c = WPA_CIPHER_BIP_GMAC_256 then WPA_ALG_BIP_GMAC_256
      else if c = WPA_CIPHER_BIP_CMAC_256 then WPA_ALG_BIP_CMAC_256 else WPA_ALG_NONE)"

section \<open>Sets of ciphers\<close>

text \<open>The suites of a set, in the order of the code; the count is a quarter of the length.\<close>

definition put_if :: "u32 \<Rightarrow> u32 \<Rightarrow> u32 \<Rightarrow> u8 list" where
  "put_if cs c suite = (if cs AND c \<noteq> 0 then WPA_PUT_BE32 suite else [])"

definition rsn_cipher_put_suites :: "u32 \<Rightarrow> u8 list \<times> nat" where
  "rsn_cipher_put_suites cs =
     (let s = put_if cs WPA_CIPHER_CCMP_256 (RSN 10) @ put_if cs WPA_CIPHER_GCMP_256 (RSN 9) @
        put_if cs WPA_CIPHER_CCMP (RSN 4) @ put_if cs WPA_CIPHER_GCMP (RSN 8) @ put_if cs WPA_CIPHER_TKIP (RSN 2) @
        put_if cs WPA_CIPHER_NONE (RSN 0)
      in (s, length s div 4))"

definition wpa_cipher_put_suites :: "u32 \<Rightarrow> u8 list \<times> nat" where
  "wpa_cipher_put_suites cs =
     (let s = put_if cs WPA_CIPHER_CCMP (MS 4) @ put_if cs WPA_CIPHER_TKIP (MS 2) @ put_if cs WPA_CIPHER_NONE (MS 0)
      in (s, length s div 4))"

definition wpa_pick_pairwise_cipher :: "u32 \<Rightarrow> bool \<Rightarrow> u32 option" where
  "wpa_pick_pairwise_cipher cs none_allowed =
     (if cs AND WPA_CIPHER_CCMP_256 \<noteq> 0 then Some WPA_CIPHER_CCMP_256
      else if cs AND WPA_CIPHER_GCMP_256 \<noteq> 0 then Some WPA_CIPHER_GCMP_256
      else if cs AND WPA_CIPHER_CCMP \<noteq> 0 then Some WPA_CIPHER_CCMP
      else if cs AND WPA_CIPHER_GCMP \<noteq> 0 then Some WPA_CIPHER_GCMP
      else if cs AND WPA_CIPHER_TKIP \<noteq> 0 then Some WPA_CIPHER_TKIP
      else if none_allowed \<and> cs AND WPA_CIPHER_NONE \<noteq> 0 then Some WPA_CIPHER_NONE else None)"

definition wpa_pick_group_cipher :: "u32 \<Rightarrow> u32 option" where
  "wpa_pick_group_cipher cs =
     (if cs AND WPA_CIPHER_CCMP_256 \<noteq> 0 then Some WPA_CIPHER_CCMP_256
      else if cs AND WPA_CIPHER_GCMP_256 \<noteq> 0 then Some WPA_CIPHER_GCMP_256
      else if cs AND WPA_CIPHER_CCMP \<noteq> 0 then Some WPA_CIPHER_CCMP
      else if cs AND WPA_CIPHER_GCMP \<noteq> 0 then Some WPA_CIPHER_GCMP
      else if cs AND WPA_CIPHER_GTK_NOT_USED \<noteq> 0 then Some WPA_CIPHER_GTK_NOT_USED
      else if cs AND WPA_CIPHER_TKIP \<noteq> 0 then Some WPA_CIPHER_TKIP else None)"

definition wpa_select_ap_group_cipher :: "u32 \<Rightarrow> u32 \<Rightarrow> u32 \<Rightarrow> u32" where
  "wpa_select_ap_group_cipher wpa wpa_pairwise rsn_pairwise =
     (let p = (if wpa AND 1 \<noteq> 0 then wpa_pairwise else 0) OR (if wpa AND 2 \<noteq> 0 then rsn_pairwise else 0)
      in if p AND WPA_CIPHER_TKIP \<noteq> 0 then WPA_CIPHER_TKIP
         else if p AND (WPA_CIPHER_CCMP OR WPA_CIPHER_GCMP) = WPA_CIPHER_GCMP then WPA_CIPHER_GCMP
         else if p AND (WPA_CIPHER_GCMP_256 OR WPA_CIPHER_CCMP OR WPA_CIPHER_GCMP) = WPA_CIPHER_GCMP_256
           then WPA_CIPHER_GCMP_256
         else if p AND (WPA_CIPHER_CCMP_256 OR WPA_CIPHER_CCMP OR WPA_CIPHER_GCMP) = WPA_CIPHER_CCMP_256
           then WPA_CIPHER_CCMP_256
         else WPA_CIPHER_CCMP)"

section \<open>Ciphers as text\<close>

definition cipher_of_name :: "string \<Rightarrow> u32 option" where
  "cipher_of_name s =
     (if s = ''CCMP-256'' then Some WPA_CIPHER_CCMP_256 else if s = ''GCMP-256'' then Some WPA_CIPHER_GCMP_256
      else if s = ''CCMP'' then Some WPA_CIPHER_CCMP else if s = ''GCMP'' then Some WPA_CIPHER_GCMP
      else if s = ''TKIP'' then Some WPA_CIPHER_TKIP else if s = ''WEP104'' then Some WPA_CIPHER_WEP104
      else if s = ''WEP40'' then Some WPA_CIPHER_WEP40 else if s = ''NONE'' then Some WPA_CIPHER_NONE
      else if s = ''GTK_NOT_USED'' then Some WPA_CIPHER_GTK_NOT_USED
      else if s = ''AES-128-CMAC'' then Some WPA_CIPHER_AES_128_CMAC
      else if s = ''BIP-GMAC-128'' then Some WPA_CIPHER_BIP_GMAC_128
      else if s = ''BIP-GMAC-256'' then Some WPA_CIPHER_BIP_GMAC_256
      else if s = ''BIP-CMAC-256'' then Some WPA_CIPHER_BIP_CMAC_256 else None)"

definition blank :: "char \<Rightarrow> bool" where
  "blank c \<longleftrightarrow> c = CHR '' '' \<or> c = CHR 0x09"

text \<open>\<open>None\<close> is the result -1.\<close>

function parse_cipher_loop :: "u32 \<Rightarrow> string \<Rightarrow> u32 option" where
  "parse_cipher_loop val start =
     (let start = dropWhile blank start
      in if start = [] then Some val
         else let end = dropWhile (\<lambda>c. \<not> blank c) start
           in case cipher_of_name (takeWhile (\<lambda>c. \<not> blank c) start) of
                None \<Rightarrow> None
              | Some c \<Rightarrow> if end = [] then Some (val OR c) else parse_cipher_loop (val OR c) (tl end))"
  by pat_completeness auto
termination
proof (relation "measure (\<lambda>(val, s). length s)", goal_cases)
  case (2 val start s e c)
  have "length (tl e) < length e" using 2(2-) by simp
  also have "length e \<le> length s" unfolding 2(3) by (rule length_dropWhile_le)
  also have "length s \<le> length start" unfolding 2(1) by (rule length_dropWhile_le)
  finally show ?case by simp
qed simp

declare parse_cipher_loop.simps [simp del]

definition wpa_parse_cipher :: "bool \<Rightarrow> string \<Rightarrow> u32 option" where
  "wpa_parse_cipher alloc value = (if \<not> alloc then None else parse_cipher_loop 0 value)"

text \<open>The text in a buffer of \<open>n\<close> characters; a piece must fit with its NUL.\<close>

definition write_one :: "nat \<Rightarrow> string \<Rightarrow> u32 \<Rightarrow> u32 \<times> string \<Rightarrow> string option \<Rightarrow> string option" where
  "write_one n delim cs = (\<lambda>(c, name) r.
     case r of
       None \<Rightarrow> None
     | Some out \<Rightarrow>
         if cs AND c = 0 then Some out
         else let piece = (if out = [] then [] else delim) @ name
           in if length piece \<ge> n - length out then None else Some (out @ piece))"

definition cipher_names :: "(u32 \<times> string) list" where
  "cipher_names =
     [(WPA_CIPHER_CCMP_256, ''CCMP-256''), (WPA_CIPHER_GCMP_256, ''GCMP-256''), (WPA_CIPHER_CCMP, ''CCMP''),
      (WPA_CIPHER_GCMP, ''GCMP''), (WPA_CIPHER_TKIP, ''TKIP''), (WPA_CIPHER_AES_128_CMAC, ''AES-128-CMAC''),
      (WPA_CIPHER_BIP_GMAC_128, ''BIP-GMAC-128''), (WPA_CIPHER_BIP_GMAC_256, ''BIP-GMAC-256''),
      (WPA_CIPHER_BIP_CMAC_256, ''BIP-CMAC-256''), (WPA_CIPHER_NONE, ''NONE'')]"

definition wpa_write_ciphers :: "nat \<Rightarrow> u32 \<Rightarrow> string \<Rightarrow> string option" where
  "wpa_write_ciphers n cs delim = fold (write_one n delim cs) cipher_names (Some [])"

section \<open>Text round trip\<close>

fun unwords :: "string list \<Rightarrow> string" where
  "unwords [] = []"
| "unwords [w] = w"
| "unwords (w # ws) = w @ CHR '' '' # unwords ws"

definition word_ok :: "string \<Rightarrow> bool" where
  "word_ok w \<longleftrightarrow> w \<noteq> [] \<and> (\<forall>c\<in>set w. \<not> blank c)"

definition add_name :: "string \<Rightarrow> u32 option \<Rightarrow> u32 option" where
  "add_name w r = (case r of None \<Rightarrow> None | Some v \<Rightarrow> map_option (\<lambda>c. v OR c) (cipher_of_name w))"

lemma unwords_snoc: "unwords (ws @ [w]) = (if ws = [] then w else unwords ws @ CHR '' '' # w)"
  by (induction ws rule: unwords.induct) auto

lemma unwords_empty: "(\<And>w. w \<in> set ws \<Longrightarrow> word_ok w) \<Longrightarrow> unwords ws = [] \<longleftrightarrow> ws = []"
  by (induction ws rule: unwords.induct) (auto simp: word_ok_def)

lemma scan_word:
  assumes "word_ok w"
  shows "dropWhile blank (w @ r) = w @ r" "takeWhile (\<lambda>c. \<not> blank c) w = w" "dropWhile (\<lambda>c. \<not> blank c) w = []"
    "takeWhile (\<lambda>c. \<not> blank c) (w @ CHR '' '' # r) = w" "dropWhile (\<lambda>c. \<not> blank c) (w @ CHR '' '' # r) = CHR '' '' # r"
proof -
  have "blank (CHR '' '')" by (simp add: blank_def)
  with assms show "takeWhile (\<lambda>c. \<not> blank c) (w @ CHR '' '' # r) = w"
    "dropWhile (\<lambda>c. \<not> blank c) (w @ CHR '' '' # r) = CHR '' '' # r"
    by (simp_all add: word_ok_def takeWhile_append2 dropWhile_append2)
  from assms show "takeWhile (\<lambda>c. \<not> blank c) w = w" "dropWhile (\<lambda>c. \<not> blank c) w = []"
    by (auto simp: word_ok_def takeWhile_eq_all_conv dropWhile_eq_Nil_conv)
  from assms show "dropWhile blank (w @ r) = w @ r" by (cases w) (auto simp: word_ok_def)
qed

lemma add_name_simps [simp]:
  "add_name w None = None" "add_name w (Some v) = map_option (\<lambda>c. v OR c) (cipher_of_name w)"
  by (simp_all add: add_name_def)

lemma fold_add_none [simp]: "fold add_name ws None = None"
  by (induction ws) simp_all

lemma parse_words:
  "(\<And>w. w \<in> set ws \<Longrightarrow> word_ok w) \<Longrightarrow> parse_cipher_loop v (unwords ws) = fold add_name ws (Some v)"
proof (induction ws arbitrary: v rule: unwords.induct)
  case 1
  show ?case by (simp add: parse_cipher_loop.simps)
next
  case (2 w)
  then have w: "word_ok w" "w \<noteq> []" by (auto simp: word_ok_def)
  have "parse_cipher_loop v w = (case cipher_of_name w of None \<Rightarrow> None | Some c \<Rightarrow> Some (v OR c))"
    using w(2) scan_word(1) [OF w(1), of "[]"]
    by (simp only: parse_cipher_loop.simps [of v w] scan_word(2,3) [OF w(1)] Let_def append_Nil2 if_False if_True)
      (simp split: option.split)
  then show ?case by (simp split: option.split)
next
  case (3 w w' ws)
  then have w: "word_ok w" "w \<noteq> []" by (auto simp: word_ok_def)
  let ?t = "w @ CHR '' '' # unwords (w' # ws)"
  have "parse_cipher_loop v ?t = (case cipher_of_name w of None \<Rightarrow> None
      | Some c \<Rightarrow> parse_cipher_loop (v OR c) (unwords (w' # ws)))"
    using w(2) by (simp add: parse_cipher_loop.simps [of v ?t] scan_word [OF w(1)] Let_def split: option.split)
  also have "\<dots> = fold add_name (w # w' # ws) (Some v)"
    using 3 by (auto split: option.split)
  finally show ?case by simp
qed

lemma write_words:
  assumes "length (unwords (ws @ map snd tab)) < n" "\<And>w. w \<in> set ws \<union> snd ` set tab \<Longrightarrow> word_ok w"
  shows "fold (write_one n '' '' cs) tab (Some (unwords ws)) =
    Some (unwords (ws @ map snd (filter (\<lambda>(c, _). cs AND c \<noteq> 0) tab)))"
  using assms
proof (induction tab arbitrary: ws)
  case (Cons e tab)
  obtain c w where e: "e = (c, w)" by (cases e)
  have mono: "length (unwords (xs @ ys)) \<le> length (unwords (xs @ w # ys))" for xs ys
  proof (induction xs rule: unwords.induct)
    case (2 x)
    show ?case by (cases ys) auto
  qed (cases ys; auto)+
  have pre: "length (unwords xs) \<le> length (unwords (xs @ ys))" for xs ys
  proof (induction ys rule: rev_induct)
    case (snoc y ys)
    then show ?case using unwords_snoc [of "xs @ ys" y] by (auto split: if_splits)
  qed simp
  show ?case
  proof (cases "cs AND c = 0")
    case True
    have "length (unwords (ws @ map snd tab)) < n" using Cons.prems(1) mono [of ws "map snd tab"] by (simp add: e)
    with Cons.IH [of ws] Cons.prems(2) True show ?thesis by (auto simp: e write_one_def)
  next
    case False
    have "length (unwords (ws @ [w])) < n"
      using Cons.prems(1) pre [of "ws @ [w]" "map snd tab"] by (simp add: e)
    then have "write_one n '' '' cs e (Some (unwords ws)) = Some (unwords (ws @ [w]))"
      using False unwords_empty [of ws] Cons.prems(2) by (auto simp: e write_one_def unwords_snoc Let_def)
    with Cons.IH [of "ws @ [w]"] Cons.prems False show ?thesis by (auto simp: e)
  qed
qed simp

lemma cipher_names_ok:
  "(c, w) \<in> set cipher_names \<Longrightarrow> word_ok w \<and> cipher_of_name w = Some c"
  unfolding cipher_names_def list.set insert_iff prod.inject empty_iff
  by (elim disjE FalseE conjE; hypsubst) (simp_all add: word_ok_def blank_def cipher_of_name_def)

lemma fold_names:
  "(\<And>c w. (c, w) \<in> set tab \<Longrightarrow> cipher_of_name w = Some c) \<Longrightarrow>
    fold add_name (map snd tab) (Some v) = Some (fold (\<lambda>(c, _) v. v OR c) tab v)"
proof (induction tab arbitrary: v)
  case (Cons e tab)
  obtain c w where e: "e = (c, w)" by (cases e)
  have w: "cipher_of_name w = Some c" by (rule Cons.prems) (simp add: e)
  have "fold add_name (map snd tab) (Some (v OR c)) = Some (fold (\<lambda>(c, _) v. v OR c) tab (v OR c))"
    by (rule Cons.IH, rule Cons.prems) simp
  then show ?case by (simp add: e w)
qed simp

lemma length_unwords_bound: "length (unwords ws) \<le> sum_list (map length ws) + length ws"
  by (induction ws rule: unwords.induct) auto

lemma length_unwords_filter: "length (unwords (map snd (filter p tab))) \<le> sum_list (map (length \<circ> snd) tab) + length tab"
proof -
  have "sum_list (map length (map snd (filter p tab))) \<le> sum_list (map (length \<circ> snd) tab)"
    by (induction tab) auto
  moreover have "length (filter p tab) \<le> length tab" by simp
  ultimately show ?thesis
    using length_unwords_bound [of "map snd (filter p tab)"] unfolding length_map by linarith
qed

text \<open>A set of ciphers is the union of its single bits.\<close>

lemma single_bit:
  fixes cs :: u32 shows "(if cs AND 2 ^ k = 0 then v else v OR 2 ^ k) = v OR (cs AND 2 ^ k)"
  by (auto simp: and_exp_eq_0_iff_not_bit intro!: bit_word_eqI simp: bit_simps)

lemma fold_filter_bits:
  fixes tab :: "(u32 \<times> string) list"
  shows "(\<And>c w. (c, w) \<in> set tab \<Longrightarrow> \<exists>k. c = 2 ^ k) \<Longrightarrow>
    fold (\<lambda>(c, _) v. v OR c) (filter (\<lambda>(c, _). cs AND c \<noteq> 0) tab) (v :: u32) =
    v OR (cs AND fold (\<lambda>(c, _) v. v OR c) tab 0)"
proof (induction tab arbitrary: v)
  case (Cons e tab)
  obtain c w where e: "e = (c, w)" by (cases e)
  obtain k where k: "c = 2 ^ k" using Cons.prems [of c w] by (auto simp: e)
  have shift: "fold (\<lambda>(c, _) v. v OR c) t (u :: u32) = u OR fold (\<lambda>(c, _) v. v OR c) t 0" for t :: "(u32 \<times> string) list" and u
  proof (induction t arbitrary: u)
    case (Cons x t)
    obtain c w where x: "x = (c, w)" by (cases x)
    show ?case using Cons [of "u OR c"] Cons [of c] by (simp add: x or.assoc)
  qed simp
  have "fold (\<lambda>(c, _) v. v OR c) (filter (\<lambda>(c, _). cs AND c \<noteq> 0) (e # tab)) v =
      fold (\<lambda>(c, _) v. v OR c) (filter (\<lambda>(c, _). cs AND c \<noteq> 0) tab) (if cs AND c = 0 then v else v OR c)"
    by (simp add: e)
  also have "\<dots> = (v OR (cs AND c)) OR (cs AND fold (\<lambda>(c, _) v. v OR c) tab 0)"
    unfolding k single_bit by (rule Cons.IH) (use Cons.prems in auto)
  also have "\<dots> = v OR (cs AND fold (\<lambda>(c, _) v. v OR c) (e # tab) 0)"
    using shift [of tab c] by (simp add: e bit.conj_disj_distrib or.assoc)
  finally show ?case .
qed simp

lemma names_are_bits: "(c, w) \<in> set cipher_names \<Longrightarrow> \<exists>k. c = (2 :: u32) ^ k"
proof -
  have "\<forall>e\<in>set cipher_names. \<exists>k\<in>{9, 8, 4, 6, 3, 5, 11, 12, 13, 0}. fst e = (2 :: u32) ^ k"
    by (simp add: cipher_names_def)
  moreover assume "(c, w) \<in> set cipher_names"
  ultimately have "\<exists>k\<in>{9, 8, 4, 6, 3, 5, 11, 12, 13, 0}. fst (c, w) = (2 :: u32) ^ k" by (rule bspec)
  then show "\<exists>k. c = (2 :: u32) ^ k" unfolding fst_conv by blast
qed

text \<open>A set of ciphers written into the configuration is read back as the same set, whenever the
  buffer has at least 100 characters; only WEP and the absent group cipher have no text.\<close>

theorem cipher_text_roundtrip:
  assumes "cs AND 0x3B79 = cs" "100 \<le> n"
  shows "\<exists>s. wpa_write_ciphers n cs '' '' = Some s \<and> wpa_parse_cipher True s = Some cs"
proof -
  let ?sel = "filter (\<lambda>(c, _). cs AND c \<noteq> 0) cipher_names"
  let ?s = "unwords (map snd ?sel)"
  have ok: "\<And>w. w \<in> snd ` set cipher_names \<Longrightarrow> word_ok w" using cipher_names_ok by force
  have "length (unwords (map snd cipher_names)) < n"
    using assms(2) by (simp add: cipher_names_def)
  then have w: "wpa_write_ciphers n cs '' '' = Some ?s"
    using write_words [of "[]" cipher_names n cs] ok by (simp add: wpa_write_ciphers_def)
  have "fold add_name (map snd ?sel) (Some 0) = Some (fold (\<lambda>(c, _) v. v OR c) ?sel 0)"
    by (rule fold_names) (use cipher_names_ok in auto)
  also have "fold (\<lambda>(c, _) v. v OR c) ?sel 0 = 0 OR (cs AND fold (\<lambda>(c, _) v. v OR c) cipher_names 0)"
    by (rule fold_filter_bits) (rule names_are_bits)
  also have "fold (\<lambda>(c, _) v. v OR c) cipher_names 0 = (0x3B79 :: u32)" by (simp add: cipher_names_def)
  finally have "fold add_name (map snd ?sel) (Some 0) = Some cs" using assms(1) by simp
  moreover have "parse_cipher_loop 0 ?s = fold add_name (map snd ?sel) (Some 0)"
    by (rule parse_words) (use ok in force)
  ultimately show ?thesis using w by (simp add: wpa_parse_cipher_def)
qed

theorem cipher_text_roundtrip_witness:
  "\<exists>s. wpa_write_ciphers 200 0x18 '' '' = Some s \<and> wpa_parse_cipher True s = Some 0x18"
  by (rule cipher_text_roundtrip) simp_all

section \<open>Selectors round trip\<close>

lemma selector_of_suite:
  "c \<in> {WPA_CIPHER_NONE, WPA_CIPHER_TKIP, WPA_CIPHER_CCMP, WPA_CIPHER_AES_128_CMAC, WPA_CIPHER_GCMP, WPA_CIPHER_GCMP_256,
      WPA_CIPHER_CCMP_256, WPA_CIPHER_BIP_GMAC_128, WPA_CIPHER_BIP_GMAC_256, WPA_CIPHER_BIP_CMAC_256,
      WPA_CIPHER_GTK_NOT_USED} \<Longrightarrow>
    wpa_cipher_to_suite WPA_PROTO_RSN c \<noteq> 0 \<and>
    rsn_selector_to_bitfield (WPA_PUT_BE32 (wpa_cipher_to_suite WPA_PROTO_RSN c) @ r) = c"
  by (elim insertE emptyE; hypsubst) (simp_all add: wpa_cipher_to_suite_def rsn_selector_to_bitfield_def
      WPA_GET_BE32_def WPA_PUT_BE32_def)

end
