(* ===== verification/Rsn_Ie.thy ===== *)
theory Rsn_Ie
  imports Rsn_Cipher
begin

text \<open>
  The RSN and WPA elements of \<open>wpa_supplicant/src/common/wpa_common.c\<close>: their two parsers and the comparison of
  the element of a beacon with the one of the 4-way handshake. An element is the list of its bytes, header included;
  a parser passes the record it fills and the bytes that are left from one field to the next.
\<close>

section \<open>Parsed data\<close>

text \<open>The PMKID list is the offset of its first byte in the element.\<close>

record wpa_ie_data =
  ie_proto :: u32
  ie_pairwise_cipher :: u32
  ie_has_pairwise :: bool
  ie_group_cipher :: u32
  ie_has_group :: bool
  ie_key_mgmt :: u32
  ie_capabilities :: u16
  ie_num_pmkid :: nat
  ie_pmkid :: "nat option"
  ie_mgmt_group_cipher :: u32

abbreviation (input) WLAN_EID_RSN :: u8 where "WLAN_EID_RSN \<equiv> 48"
abbreviation (input) WLAN_EID_VENDOR_SPECIFIC :: u8 where "WLAN_EID_VENDOR_SPECIFIC \<equiv> 221"
abbreviation (input) OSEN_IE_VENDOR_TYPE :: u32 where "OSEN_IE_VENDOR_TYPE \<equiv> 0x506f9a12"

text \<open>A field of the element: the result of the parser and its record, or the record and the bytes behind the field.\<close>

type_synonym ie_stage = "(int \<times> wpa_ie_data) + (wpa_ie_data \<times> u8 list)"

definition then_field :: "ie_stage \<Rightarrow> (wpa_ie_data \<Rightarrow> u8 list \<Rightarrow> ie_stage) \<Rightarrow> ie_stage" where
  "then_field r f = (case r of Inl e \<Rightarrow> Inl e | Inr (d, b) \<Rightarrow> f d b)"

definition ie_result :: "ie_stage \<Rightarrow> int \<times> wpa_ie_data" where
  "ie_result r = (case r of Inl e \<Rightarrow> e | Inr (d, b) \<Rightarrow> (0, d))"

text \<open>The loop over \<open>n\<close> selectors.\<close>

fun or_suites :: "(u8 list \<Rightarrow> u32) \<Rightarrow> nat \<Rightarrow> u8 list \<Rightarrow> u32 \<Rightarrow> u32 \<times> u8 list" where
  "or_suites f 0 b v = (v, b)"
| "or_suites f (Suc n) b v = or_suites f n (drop 4 b) (v OR f b)"

section \<open>RSN element\<close>

definition rsn_ie_defaults :: wpa_ie_data where
  "rsn_ie_defaults =
     \<lparr>ie_proto = WPA_PROTO_RSN, ie_pairwise_cipher = WPA_CIPHER_CCMP, ie_has_pairwise = False,
      ie_group_cipher = WPA_CIPHER_CCMP, ie_has_group = False, ie_key_mgmt = WPA_KEY_MGMT_IEEE8021X,
      ie_capabilities = 0, ie_num_pmkid = 0, ie_pmkid = None, ie_mgmt_group_cipher = WPA_CIPHER_AES_128_CMAC\<rparr>"

definition rsn_header :: "u8 list \<Rightarrow> ie_stage" where
  "rsn_header ie =
     (let d = rsn_ie_defaults; n = length ie
      in if n < 4 then Inl (- 1, d)
         else if 6 \<le> n \<and> 4 \<le> ie ! 1 \<and> unat (ie ! 1) = n - 2 \<and> WPA_GET_BE32 (drop 2 ie) = OSEN_IE_VENDOR_TYPE
           then Inr (d\<lparr>ie_group_cipher := WPA_CIPHER_GTK_NOT_USED, ie_has_group := True,
                       ie_key_mgmt := WPA_KEY_MGMT_OSEN, ie_proto := WPA_PROTO_OSEN\<rparr>, drop 6 ie)
         else if ie ! 0 \<noteq> WLAN_EID_RSN \<or> unat (ie ! 1) \<noteq> n - 2 \<or> WPA_GET_LE16 (drop 2 ie) \<noteq> 1 then Inl (- 2, d)
         else Inr (d, drop 4 ie))"

definition rsn_group :: "wpa_ie_data \<Rightarrow> u8 list \<Rightarrow> ie_stage" where
  "rsn_group d b =
     (if 4 \<le> length b
      then let d' = d\<lparr>ie_group_cipher := rsn_selector_to_bitfield b, ie_has_group := True\<rparr>
        in if \<not> wpa_cipher_valid_group (ie_group_cipher d') then Inl (- 1, d') else Inr (d', drop 4 b)
      else if 0 < length b then Inl (- 3, d) else Inr (d, b))"

definition rsn_pairwise :: "wpa_ie_data \<Rightarrow> u8 list \<Rightarrow> ie_stage" where
  "rsn_pairwise d b =
     (if 2 \<le> length b
      then let n = unat (WPA_GET_LE16 b); b' = drop 2 b
        in if n = 0 \<or> n > length b' div 4 then Inl (- 4, d\<lparr>ie_pairwise_cipher := 0\<rparr>)
           else let (v, r) = or_suites rsn_selector_to_bitfield n b' 0;
                    d' = d\<lparr>ie_pairwise_cipher := v, ie_has_pairwise := True\<rparr>
             in if v AND WPA_CIPHER_AES_128_CMAC \<noteq> 0 then Inl (- 1, d') else Inr (d', r)
      else if length b = 1 then Inl (- 5, d) else Inr (d, b))"

definition akm_list :: "(u8 list \<Rightarrow> u32) \<Rightarrow> wpa_ie_data \<Rightarrow> u8 list \<Rightarrow> ie_stage" where
  "akm_list f d b =
     (if 2 \<le> length b
      then let n = unat (WPA_GET_LE16 b); b' = drop 2 b
        in if n = 0 \<or> n > length b' div 4 then Inl (- 6, d\<lparr>ie_key_mgmt := 0\<rparr>)
           else let (v, r) = or_suites f n b' 0 in Inr (d\<lparr>ie_key_mgmt := v\<rparr>, r)
      else if length b = 1 then Inl (- 7, d) else Inr (d, b))"

definition ie_capab_field :: "wpa_ie_data \<Rightarrow> u8 list \<Rightarrow> ie_stage" where
  "ie_capab_field d b =
     (if 2 \<le> length b then Inr (d\<lparr>ie_capabilities := WPA_GET_LE16 b\<rparr>, drop 2 b) else Inr (d, b))"

definition rsn_pmkids :: "nat \<Rightarrow> wpa_ie_data \<Rightarrow> u8 list \<Rightarrow> ie_stage" where
  "rsn_pmkids len d b =
     (if 2 \<le> length b
      then let n = unat (WPA_GET_LE16 b); b' = drop 2 b
        in if n > length b' div 16 then Inl (- 9, d\<lparr>ie_num_pmkid := 0\<rparr>)
           else Inr (d\<lparr>ie_num_pmkid := n, ie_pmkid := Some (len - length b')\<rparr>, drop (n * 16) b')
      else Inr (d, b))"

definition rsn_mgmt_group :: "wpa_ie_data \<Rightarrow> u8 list \<Rightarrow> ie_stage" where
  "rsn_mgmt_group d b =
     (if 4 \<le> length b
      then let d' = d\<lparr>ie_mgmt_group_cipher := rsn_selector_to_bitfield b\<rparr>
        in if \<not> wpa_cipher_valid_mgmt_group (ie_mgmt_group_cipher d') then Inl (- 10, d') else Inr (d', drop 4 b)
      else Inr (d, b))"

definition rsn_fields :: "nat \<Rightarrow> ie_stage \<Rightarrow> ie_stage" where
  "rsn_fields len h =
     then_field (then_field (then_field (then_field (then_field (then_field h rsn_group) rsn_pairwise)
       (akm_list rsn_key_mgmt_to_bitfield)) ie_capab_field) (rsn_pmkids len)) rsn_mgmt_group"

definition wpa_parse_wpa_ie_rsn :: "u8 list \<Rightarrow> int \<times> wpa_ie_data" where
  "wpa_parse_wpa_ie_rsn ie = ie_result (rsn_fields (length ie) (rsn_header ie))"

section \<open>WPA element\<close>

definition wpa_ie_defaults :: wpa_ie_data where
  "wpa_ie_defaults =
     \<lparr>ie_proto = WPA_PROTO_WPA, ie_pairwise_cipher = WPA_CIPHER_TKIP, ie_has_pairwise = False,
      ie_group_cipher = WPA_CIPHER_TKIP, ie_has_group = False, ie_key_mgmt = WPA_KEY_MGMT_IEEE8021X,
      ie_capabilities = 0, ie_num_pmkid = 0, ie_pmkid = None, ie_mgmt_group_cipher = 0\<rparr>"

definition wpa_header :: "u8 list \<Rightarrow> ie_stage" where
  "wpa_header ie =
     (let d = wpa_ie_defaults; n = length ie
      in if n < 8 then Inl (- 1, d)
         else if ie ! 0 \<noteq> WLAN_EID_VENDOR_SPECIFIC \<or> unat (ie ! 1) \<noteq> n - 2 \<or> WPA_GET_BE32 (drop 2 ie) \<noteq> MS 1 \<or>
             WPA_GET_LE16 (drop 6 ie) \<noteq> 1 then Inl (- 2, d)
         else Inr (d, drop 8 ie))"

definition wpa_group :: "wpa_ie_data \<Rightarrow> u8 list \<Rightarrow> ie_stage" where
  "wpa_group d b =
     (if 4 \<le> length b then Inr (d\<lparr>ie_group_cipher := wpa_selector_to_bitfield b\<rparr>, drop 4 b)
      else if 0 < length b then Inl (- 3, d) else Inr (d, b))"

definition wpa_pairwise :: "wpa_ie_data \<Rightarrow> u8 list \<Rightarrow> ie_stage" where
  "wpa_pairwise d b =
     (if 2 \<le> length b
      then let n = unat (WPA_GET_LE16 b); b' = drop 2 b
        in if n = 0 \<or> n > length b' div 4 then Inl (- 4, d\<lparr>ie_pairwise_cipher := 0\<rparr>)
           else let (v, r) = or_suites wpa_selector_to_bitfield n b' 0 in Inr (d\<lparr>ie_pairwise_cipher := v\<rparr>, r)
      else if length b = 1 then Inl (- 5, d) else Inr (d, b))"

definition wpa_parse_wpa_ie_wpa :: "u8 list \<Rightarrow> int \<times> wpa_ie_data" where
  "wpa_parse_wpa_ie_wpa ie =
     ie_result (then_field (then_field (then_field (then_field (wpa_header ie) wpa_group) wpa_pairwise)
       (akm_list wpa_key_mgmt_to_bitfield)) ie_capab_field)"

definition wpa_parse_wpa_ie :: "u8 list \<Rightarrow> int \<times> wpa_ie_data" where
  "wpa_parse_wpa_ie ie =
     (if 1 \<le> length ie \<and> ie ! 0 = WLAN_EID_RSN then wpa_parse_wpa_ie_rsn ie
      else if 6 \<le> length ie \<and> ie ! 0 = WLAN_EID_VENDOR_SPECIFIC \<and> 4 \<le> ie ! 1 \<and>
        WPA_GET_BE32 (drop 2 ie) = OSEN_IE_VENDOR_TYPE then wpa_parse_wpa_ie_rsn ie
      else wpa_parse_wpa_ie_wpa ie)"

section \<open>Comparison\<close>

definition wpa_compare_rsn_ie :: "bool \<Rightarrow> u8 list option \<Rightarrow> u8 list option \<Rightarrow> int" where
  "wpa_compare_rsn_ie ft_initial_assoc ie1 ie2 =
     (case (ie1, ie2) of
        (Some a, Some b) \<Rightarrow>
          if a = b then 0
          else if ft_initial_assoc
          then let (r1, d1) = wpa_parse_wpa_ie_rsn a; (r2, d2) = wpa_parse_wpa_ie_rsn b
            in if r1 < 0 \<or> r2 < 0 then - 1
               else if ie_proto d1 = ie_proto d2 \<and> ie_pairwise_cipher d1 = ie_pairwise_cipher d2 \<and>
                   ie_group_cipher d1 = ie_group_cipher d2 \<and> ie_key_mgmt d1 = ie_key_mgmt d2 \<and>
                   ie_capabilities d1 = ie_capabilities d2 \<and>
                   ie_mgmt_group_cipher d1 = ie_mgmt_group_cipher d2 then 0
               else - 1
          else - 1
      | _ \<Rightarrow> - 1)"

section \<open>Lemmas on the fields\<close>

lemma then_field_simps [simp]: "then_field (Inl e) f = Inl e" "then_field (Inr (d, b)) f = f d b"
  by (simp_all add: then_field_def)

lemma then_field_Inr: "then_field r f = Inr z \<longleftrightarrow> (\<exists>d b. r = Inr (d, b) \<and> f d b = Inr z)"
  by (auto simp: then_field_def split: sum.split)

lemma ie_result_simps [simp]: "ie_result (Inl e) = e" "ie_result (Inr (d, b)) = (0, d)"
  by (simp_all add: ie_result_def)

lemma or_suites_length: "snd (or_suites f n b v) = drop (4 * n) b"
  by (induction f n b v rule: or_suites.induct) (simp_all add: add.commute)

text \<open>The bits of the result are those of the selectors.\<close>

lemma or_suites_value: "fst (or_suites f n b v) = fold (\<lambda>i w. w OR f (drop (4 * i) b)) [0..<n] v"
proof (induction n arbitrary: b v)
  case (Suc n)
  have "fst (or_suites f (Suc n) b v) = fold (\<lambda>i w. w OR f (drop (4 * Suc i) b)) [0..<n] (v OR f b)"
    by (simp add: Suc add.commute)
  also have "\<dots> = fold (\<lambda>i w. w OR f (drop (4 * i) b)) (map Suc [0..<n]) (v OR f b)"
    by (simp add: fold_map comp_def)
  also have "\<dots> = fold (\<lambda>i w. w OR f (drop (4 * i) b)) [0..<Suc n] v"
    by (simp add: map_Suc_upt upt_conv_Cons del: upt_Suc)
  finally show ?case .
qed simp

lemma put_lengths [simp]: "length (WPA_PUT_BE32 v) = 4" "length (WPA_PUT_LE16 w) = 2"
  by (simp_all add: WPA_PUT_BE32_def WPA_PUT_LE16_def)

lemma get_put_le16 [simp]: "WPA_GET_LE16 (WPA_PUT_LE16 v @ r) = v"
  by (rule le16.get_put) simp

lemma get_put_be32 [simp]: "WPA_GET_BE32 (WPA_PUT_BE32 v @ r) = v"
  by (rule be32.get_put) simp

end
