(* ===== verification/Rsn_Gen.thy ===== *)
theory Rsn_Gen
  imports Rsn_Ie
begin

text \<open>
  The elements the station sends: \<open>wpa_gen_wpa_ie\<close> of \<open>wpa_supplicant/src/rsn_supp/wpa_ie.c\<close>, and that what it writes
  is parsed as the policy it was written from.
\<close>

section \<open>Generator\<close>

text \<open>
  What \<open>wpa_gen_wpa_ie\<close> reads of \<open>struct wpa_sm\<close>; \<open>gs_cur_pmksa\<close> is the PMKID of the current cache entry.
  The outcome is -1, the element, or the failed assertion, which ends the program after the buffer has been overrun.
\<close>

record gen_sm =
  gs_proto :: u32
  gs_pairwise_cipher :: u32
  gs_group_cipher :: u32
  gs_key_mgmt :: u32
  gs_mgmt_group_cipher :: u32
  gs_mfp :: int
  gs_ocv :: bool
  gs_cur_pmksa :: "u8 list option"

datatype ie_gen = Ie_Fail | Ie_Assert | Ie "u8 list"

text \<open>The element id, the length of the body and the body, in a buffer of \<open>n\<close> bytes.\<close>

definition close_ie :: "nat \<Rightarrow> u8 \<Rightarrow> u8 list \<Rightarrow> ie_gen" where
  "close_ie n eid body = (if 2 + length body \<le> n then Ie (eid # of_nat (length body) # body) else Ie_Assert)"

definition bad_pairwise :: "u32 \<Rightarrow> u32 \<Rightarrow> bool" where
  "bad_pairwise proto c \<longleftrightarrow>
     wpa_cipher_to_suite proto c = 0 \<or> (\<not> wpa_cipher_valid_pairwise c \<and> c \<noteq> WPA_CIPHER_NONE)"

definition wpa_gen_akm :: "u32 \<Rightarrow> u32 option" where
  "wpa_gen_akm a =
     (if a = WPA_KEY_MGMT_IEEE8021X then Some (MS 1) else if a = WPA_KEY_MGMT_PSK then Some (MS 2)
      else if a = WPA_KEY_MGMT_WPA_NONE then Some (MS 0)
      else if a = WPA_KEY_MGMT_CCKM then Some AUTH_KEY_MGMT_CCKM else None)"

definition wpa_gen_wpa_ie_wpa :: "nat \<Rightarrow> u32 \<Rightarrow> u32 \<Rightarrow> u32 \<Rightarrow> ie_gen" where
  "wpa_gen_wpa_ie_wpa n pw gr key_mgmt =
     (if n < 8 + 4 + 2 + 4 + 2 + 4 then Ie_Fail
      else if wpa_cipher_to_suite WPA_PROTO_WPA gr = 0 then Ie_Fail
      else if bad_pairwise WPA_PROTO_WPA pw then Ie_Fail
      else case wpa_gen_akm key_mgmt of
          None \<Rightarrow> Ie_Fail
        | Some a \<Rightarrow> close_ie n WLAN_EID_VENDOR_SPECIFIC
            (WPA_PUT_BE32 (MS 1) @ WPA_PUT_LE16 1 @ WPA_PUT_BE32 (wpa_cipher_to_suite WPA_PROTO_WPA gr) @
             [1, 0] @ WPA_PUT_BE32 (wpa_cipher_to_suite WPA_PROTO_WPA pw) @ [1, 0] @ WPA_PUT_BE32 a))"

definition rsn_gen_akm :: "u32 \<Rightarrow> u32 option" where
  "rsn_gen_akm a =
     (if a = WPA_KEY_MGMT_IEEE8021X then Some (RSN 1) else if a = WPA_KEY_MGMT_PSK then Some (RSN 2)
      else if a = WPA_KEY_MGMT_CCKM then Some AUTH_KEY_MGMT_CCKM
      else if a = WPA_KEY_MGMT_FT_IEEE8021X then Some (RSN 3)
      else if a = WPA_KEY_MGMT_FT_IEEE8021X_SHA384 then Some (RSN 13)
      else if a = WPA_KEY_MGMT_FT_PSK then Some (RSN 4)
      else if a = WPA_KEY_MGMT_IEEE8021X_SHA256 then Some (RSN 5)
      else if a = WPA_KEY_MGMT_PSK_SHA256 then Some (RSN 6)
      else if a = WPA_KEY_MGMT_SAE then Some (RSN 8) else if a = WPA_KEY_MGMT_FT_SAE then Some (RSN 9)
      else if a = WPA_KEY_MGMT_IEEE8021X_SUITE_B_192 then Some (RSN 12)
      else if a = WPA_KEY_MGMT_IEEE8021X_SUITE_B then Some (RSN 11)
      else if a AND WPA_KEY_MGMT_DPP \<noteq> 0 then Some (WFA 2)
      else if a AND WPA_KEY_MGMT_OSEN \<noteq> 0 then Some (WFA 1) else None)"

definition rsn_gen_capab :: "gen_sm \<Rightarrow> u16" where
  "rsn_gen_capab sm = (if gs_mfp sm \<noteq> 0 then 0x80 else 0) OR (if gs_mfp sm = 2 then 0x40 else 0) OR
     (if gs_ocv sm then 0x4000 else 0)"

definition rsn_gen_tail :: "gen_sm \<Rightarrow> u32 \<Rightarrow> u8 list" where
  "rsn_gen_tail sm mgmt_group =
     (case gs_cur_pmksa sm of None \<Rightarrow> [] | Some pmkid \<Rightarrow> [1, 0] @ pmkid) @
     (if wpa_cipher_valid_mgmt_group mgmt_group
      then (if gs_cur_pmksa sm = None then WPA_PUT_LE16 0 else []) @
        WPA_PUT_BE32 (wpa_cipher_to_suite WPA_PROTO_RSN mgmt_group)
      else [])"

definition wpa_gen_wpa_ie_rsn :: "nat \<Rightarrow> u32 \<Rightarrow> u32 \<Rightarrow> u32 \<Rightarrow> u32 \<Rightarrow> gen_sm \<Rightarrow> ie_gen" where
  "wpa_gen_wpa_ie_rsn n pw gr key_mgmt mgmt_group sm =
     (if n < 4 + 4 + 2 + 4 + 2 + 4 + 2 + (if gs_cur_pmksa sm \<noteq> None then 2 + 16 else 0) then Ie_Fail
      else if wpa_cipher_to_suite WPA_PROTO_RSN gr = 0 then Ie_Fail
      else if bad_pairwise WPA_PROTO_RSN pw then Ie_Fail
      else case rsn_gen_akm key_mgmt of
          None \<Rightarrow> Ie_Fail
        | Some a \<Rightarrow> close_ie n WLAN_EID_RSN
            (WPA_PUT_LE16 1 @ WPA_PUT_BE32 (wpa_cipher_to_suite WPA_PROTO_RSN gr) @
             [1, 0] @ WPA_PUT_BE32 (wpa_cipher_to_suite WPA_PROTO_RSN pw) @ [1, 0] @ WPA_PUT_BE32 a @
             WPA_PUT_LE16 (rsn_gen_capab sm) @ rsn_gen_tail sm mgmt_group))"

definition wpa_gen_wpa_ie_osen :: "nat \<Rightarrow> u32 \<Rightarrow> u32 \<Rightarrow> ie_gen" where
  "wpa_gen_wpa_ie_osen n pw gr =
     (if n < 2 + 4 + 4 + 2 + 4 + 2 + 4 then Ie_Fail
      else if wpa_cipher_to_suite WPA_PROTO_RSN gr = 0 then Ie_Fail
      else if bad_pairwise WPA_PROTO_RSN pw then Ie_Fail
      else close_ie n WLAN_EID_VENDOR_SPECIFIC
        (WPA_PUT_BE24 0x506f9a @ [18] @ WPA_PUT_BE32 (wpa_cipher_to_suite WPA_PROTO_RSN gr) @
         WPA_PUT_LE16 1 @ WPA_PUT_BE32 (wpa_cipher_to_suite WPA_PROTO_RSN pw) @
         WPA_PUT_LE16 1 @ WPA_PUT_BE32 (WFA 1)))"

definition wpa_gen_wpa_ie :: "gen_sm \<Rightarrow> nat \<Rightarrow> ie_gen" where
  "wpa_gen_wpa_ie sm n =
     (if gs_proto sm = WPA_PROTO_RSN
      then wpa_gen_wpa_ie_rsn n (gs_pairwise_cipher sm) (gs_group_cipher sm) (gs_key_mgmt sm) (gs_mgmt_group_cipher sm) sm
      else if gs_proto sm = WPA_PROTO_OSEN
      then wpa_gen_wpa_ie_osen n (gs_pairwise_cipher sm) (gs_group_cipher sm)
      else wpa_gen_wpa_ie_wpa n (gs_pairwise_cipher sm) (gs_group_cipher sm) (gs_key_mgmt sm))"

section \<open>Each field is read back\<close>

lemma group_read:
  assumes "wpa_cipher_valid_group c"
  shows "rsn_group d (WPA_PUT_BE32 (wpa_cipher_to_suite WPA_PROTO_RSN c) @ r) =
    Inr (d\<lparr>ie_group_cipher := c, ie_has_group := True\<rparr>, r)"
proof -
  have "rsn_selector_to_bitfield (WPA_PUT_BE32 (wpa_cipher_to_suite WPA_PROTO_RSN c) @ r) = c"
    by (rule selector_of_suite [THEN conjunct2])
      (use assms in \<open>auto simp: wpa_cipher_valid_group_def wpa_cipher_valid_pairwise_def\<close>)
  then show ?thesis using assms by (simp add: rsn_group_def)
qed

lemma list_one: "WPA_GET_LE16 (1 # 0 # r) = 1"
  by (simp add: WPA_GET_LE16_def)

lemma pairwise_read:
  assumes "\<not> bad_pairwise WPA_PROTO_RSN c"
  shows "rsn_pairwise d (1 # 0 # WPA_PUT_BE32 (wpa_cipher_to_suite WPA_PROTO_RSN c) @ r) =
    Inr (d\<lparr>ie_pairwise_cipher := c, ie_has_pairwise := True\<rparr>, r)"
proof -
  have c: "c \<in> {WPA_CIPHER_NONE, WPA_CIPHER_TKIP, WPA_CIPHER_CCMP, WPA_CIPHER_GCMP, WPA_CIPHER_GCMP_256, WPA_CIPHER_CCMP_256}"
    using assms by (auto simp: bad_pairwise_def wpa_cipher_valid_pairwise_def)
  have "rsn_selector_to_bitfield (WPA_PUT_BE32 (wpa_cipher_to_suite WPA_PROTO_RSN c) @ r) = c"
    by (rule selector_of_suite [THEN conjunct2]) (use c in auto)
  moreover have "c AND WPA_CIPHER_AES_128_CMAC = 0" using c by auto
  ultimately show ?thesis by (simp add: rsn_pairwise_def list_one Let_def)
qed

lemma akm_read:
  "f (WPA_PUT_BE32 s @ r) = a \<Longrightarrow> akm_list f d (1 # 0 # WPA_PUT_BE32 s @ r) = Inr (d\<lparr>ie_key_mgmt := a\<rparr>, r)"
  by (simp add: akm_list_def list_one Let_def)

lemma capab_read: "ie_capab_field d (WPA_PUT_LE16 v @ r) = Inr (d\<lparr>ie_capabilities := v\<rparr>, r)"
  by (simp add: ie_capab_field_def)

lemma mgmt_read:
  assumes "wpa_cipher_valid_mgmt_group c"
  shows "rsn_mgmt_group d (WPA_PUT_BE32 (wpa_cipher_to_suite WPA_PROTO_RSN c) @ r) = Inr (d\<lparr>ie_mgmt_group_cipher := c\<rparr>, r)"
proof -
  have "rsn_selector_to_bitfield (WPA_PUT_BE32 (wpa_cipher_to_suite WPA_PROTO_RSN c) @ r) = c"
    by (rule selector_of_suite [THEN conjunct2]) (use assms in \<open>auto simp: wpa_cipher_valid_mgmt_group_def\<close>)
  then show ?thesis using assms by (simp add: rsn_mgmt_group_def)
qed

text \<open>The key managements whose selector the parser knows.\<close>

definition rsn_akms :: "u32 list" where
  "rsn_akms = [WPA_KEY_MGMT_IEEE8021X, WPA_KEY_MGMT_PSK, WPA_KEY_MGMT_FT_IEEE8021X, WPA_KEY_MGMT_FT_IEEE8021X_SHA384,
     WPA_KEY_MGMT_FT_PSK, WPA_KEY_MGMT_IEEE8021X_SHA256, WPA_KEY_MGMT_PSK_SHA256, WPA_KEY_MGMT_SAE, WPA_KEY_MGMT_FT_SAE,
     WPA_KEY_MGMT_IEEE8021X_SUITE_B_192, WPA_KEY_MGMT_IEEE8021X_SUITE_B, WPA_KEY_MGMT_DPP, WPA_KEY_MGMT_OSEN]"

text \<open>The generator also writes the selector of CCKM, which the parser reads as no key management.\<close>

definition akm_understood :: "u32 \<Rightarrow> u32" where
  "akm_understood a = (if a = WPA_KEY_MGMT_CCKM then 0 else a)"

lemma akm_of_suite:
  "a \<in> insert WPA_KEY_MGMT_CCKM (set rsn_akms) \<Longrightarrow>
    \<exists>s. rsn_gen_akm a = Some s \<and> (\<forall>r. rsn_key_mgmt_to_bitfield (WPA_PUT_BE32 s @ r) = akm_understood a)"
  unfolding rsn_akms_def list.set
  by (elim insertE emptyE; hypsubst) (simp_all add: rsn_gen_akm_def rsn_key_mgmt_to_bitfield_def akm_understood_def)

text \<open>PMKIDs and management group cipher, as the generator writes them behind an element that is read up to there.\<close>

definition gen_data :: "gen_sm \<Rightarrow> u32 \<Rightarrow> u32 \<Rightarrow> u32 \<Rightarrow> u32 \<Rightarrow> wpa_ie_data" where
  "gen_data sm pw gr key_mgmt mgmt_group =
     \<lparr>ie_proto = WPA_PROTO_RSN, ie_pairwise_cipher = pw, ie_has_pairwise = True,
      ie_group_cipher = gr, ie_has_group = True, ie_key_mgmt = key_mgmt, ie_capabilities = rsn_gen_capab sm,
      ie_num_pmkid = (if gs_cur_pmksa sm = None then 0 else 1),
      ie_pmkid = (if gs_cur_pmksa sm \<noteq> None \<or> wpa_cipher_valid_mgmt_group mgmt_group then Some 24 else None),
      ie_mgmt_group_cipher =
        (if wpa_cipher_valid_mgmt_group mgmt_group then mgmt_group else WPA_CIPHER_AES_128_CMAC)\<rparr>"

lemma tail_read:
  assumes "\<And>p. gs_cur_pmksa sm = Some p \<Longrightarrow> length p = 16" "ie_num_pmkid d = 0" "ie_pmkid d = None"
    "ie_mgmt_group_cipher d = WPA_CIPHER_AES_128_CMAC" "len = 22 + length (rsn_gen_tail sm m)"
  shows "\<exists>r. then_field (rsn_pmkids len d (rsn_gen_tail sm m)) rsn_mgmt_group =
    Inr (d\<lparr>ie_num_pmkid := (if gs_cur_pmksa sm = None then 0 else 1),
      ie_pmkid := (if gs_cur_pmksa sm \<noteq> None \<or> wpa_cipher_valid_mgmt_group m then Some 24 else None),
      ie_mgmt_group_cipher := (if wpa_cipher_valid_mgmt_group m then m else WPA_CIPHER_AES_128_CMAC)\<rparr>, r)"
proof (cases "gs_cur_pmksa sm")
  case None
  show ?thesis
  proof (cases "wpa_cipher_valid_mgmt_group m")
    case True
    with None assms show ?thesis by (simp add: rsn_gen_tail_def rsn_pmkids_def Let_def mgmt_read [where r = "[]", simplified])
  next
    case False
    with None assms show ?thesis by (simp add: rsn_gen_tail_def rsn_pmkids_def rsn_mgmt_group_def)
  qed
next
  case (Some p)
  show ?thesis
  proof (cases "wpa_cipher_valid_mgmt_group m")
    case True
    with Some assms show ?thesis
      by (simp add: rsn_gen_tail_def rsn_pmkids_def Let_def list_one mgmt_read [where r = "[]", simplified])
  next
    case False
    with Some assms show ?thesis by (simp add: rsn_gen_tail_def rsn_pmkids_def rsn_mgmt_group_def Let_def list_one)
  qed
qed

lemma be32_bytes: "4 \<le> length a \<Longrightarrow> WPA_GET_BE32 a = v \<Longrightarrow> take 4 a = WPA_PUT_BE32 v"
  using be32.put_get [of "take 4 a"] by (simp add: WPA_GET_BE32_def)

text \<open>The element the generator closes, as a header and a body.\<close>

lemma close_ie_Ie:
  assumes "close_ie n eid body = Ie ie" "length body < 256"
  shows "ie = eid # of_nat (length body) # body" "unat (ie ! 1) = length ie - 2" "length ie \<le> n"
proof -
  show ie: "ie = eid # of_nat (length body) # body" using assms(1) by (simp add: close_ie_def split: if_splits)
  show "unat (ie ! 1) = length ie - 2" using assms(2) by (simp add: ie unat_of_nat)
  show "length ie \<le> n" using assms(1) ie by (simp add: close_ie_def split: if_splits)
qed

lemma rsn_gen_tail_length:
  "(\<And>p. gs_cur_pmksa sm = Some p \<Longrightarrow> length p = 16) \<Longrightarrow> length (rsn_gen_tail sm m) \<le> 22"
  by (auto simp: rsn_gen_tail_def split: option.split)

section \<open>Round trips\<close>

lemma rsn_roundtrip:
  assumes "wpa_gen_wpa_ie_rsn n pw gr akm m sm = Ie ie" "wpa_cipher_valid_group gr" "akm \<in> insert WPA_KEY_MGMT_CCKM (set rsn_akms)"
    "\<And>p. gs_cur_pmksa sm = Some p \<Longrightarrow> length p = 16"
  shows "wpa_parse_wpa_ie_rsn ie = (0, gen_data sm pw gr (akm_understood akm) m)" "ie ! 0 = WLAN_EID_RSN" "1 \<le> length ie"
    "\<And>p. gs_cur_pmksa sm = Some p \<Longrightarrow> take 16 (drop 24 ie) = p"
proof -
  obtain a where a: "rsn_gen_akm akm = Some a" "\<And>r. rsn_key_mgmt_to_bitfield (WPA_PUT_BE32 a @ r) = akm_understood akm"
    using akm_of_suite [OF assms(3)] by blast
  let ?t = "rsn_gen_tail sm m"
  let ?b = "WPA_PUT_BE32 (wpa_cipher_to_suite WPA_PROTO_RSN gr) @
    [1, 0] @ WPA_PUT_BE32 (wpa_cipher_to_suite WPA_PROTO_RSN pw) @ [1, 0] @ WPA_PUT_BE32 a @ WPA_PUT_LE16 (rsn_gen_capab sm) @ ?t"
  have bad: "\<not> bad_pairwise WPA_PROTO_RSN pw" and cl: "close_ie n WLAN_EID_RSN (WPA_PUT_LE16 1 @ ?b) = Ie ie"
    using assms(1) a(1) by (simp_all add: wpa_gen_wpa_ie_rsn_def split: if_splits)
  have t: "length ?t \<le> 22" using rsn_gen_tail_length assms(4) by blast
  then have len: "length (WPA_PUT_LE16 1 @ ?b) < 256" by simp
  have ie: "ie = WLAN_EID_RSN # of_nat (length (WPA_PUT_LE16 1 @ ?b)) # WPA_PUT_LE16 1 @ ?b"
    using close_ie_Ie(1) [OF cl len] .
  then show "ie ! 0 = WLAN_EID_RSN" "1 \<le> length ie" by simp_all
  show "take 16 (drop 24 ie) = p" if p: "gs_cur_pmksa sm = Some p" for p
    using assms(4) [OF p] p by (simp add: ie rsn_gen_tail_def)
  have "WPA_GET_BE32 (drop 2 ie) \<noteq> OSEN_IE_VENDOR_TYPE"
  proof
    assume "WPA_GET_BE32 (drop 2 ie) = OSEN_IE_VENDOR_TYPE"
    then have "take 4 (drop 2 ie) = WPA_PUT_BE32 OSEN_IE_VENDOR_TYPE" by (rule be32_bytes [rotated]) (simp add: ie)
    then show False by (simp add: ie WPA_PUT_LE16_def WPA_PUT_BE32_def)
  qed
  then have h: "rsn_header ie = Inr (rsn_ie_defaults, ?b)"
    using close_ie_Ie(2) [OF cl len] by (simp add: rsn_header_def Let_def ie WPA_PUT_LE16_def [of 1] WPA_GET_LE16_def)
  obtain r where r: "then_field (rsn_pmkids (length ie) (rsn_ie_defaults\<lparr>ie_group_cipher := gr, ie_has_group := True,
        ie_pairwise_cipher := pw, ie_has_pairwise := True, ie_key_mgmt := akm_understood akm, ie_capabilities := rsn_gen_capab sm\<rparr>) ?t)
      rsn_mgmt_group = Inr (gen_data sm pw gr (akm_understood akm) m, r)"
    using tail_read [of sm "rsn_ie_defaults\<lparr>ie_group_cipher := gr, ie_has_group := True,
        ie_pairwise_cipher := pw, ie_has_pairwise := True, ie_key_mgmt := akm_understood akm, ie_capabilities := rsn_gen_capab sm\<rparr>" "length ie" m] assms(4)
    by (auto simp: ie gen_data_def rsn_ie_defaults_def)
  show "wpa_parse_wpa_ie_rsn ie = (0, gen_data sm pw gr (akm_understood akm) m)"
    unfolding wpa_parse_wpa_ie_rsn_def rsn_fields_def h
    using assms(2) bad by (simp add: group_read pairwise_read akm_read [where f = rsn_key_mgmt_to_bitfield, OF a(2)] capab_read r)
qed

definition osen_data :: "u32 \<Rightarrow> u32 \<Rightarrow> wpa_ie_data" where
  "osen_data pw gr =
     \<lparr>ie_proto = WPA_PROTO_OSEN, ie_pairwise_cipher = pw, ie_has_pairwise = True, ie_group_cipher = gr,
      ie_has_group = True, ie_key_mgmt = WPA_KEY_MGMT_OSEN, ie_capabilities = 0, ie_num_pmkid = 0, ie_pmkid = None,
      ie_mgmt_group_cipher = WPA_CIPHER_AES_128_CMAC\<rparr>"

lemma osen_roundtrip:
  assumes "wpa_gen_wpa_ie_osen n pw gr = Ie ie" "wpa_cipher_valid_group gr"
  shows "wpa_parse_wpa_ie ie = (0, osen_data pw gr)"
proof -
  let ?b = "WPA_PUT_BE32 (wpa_cipher_to_suite WPA_PROTO_RSN gr) @
    [1, 0] @ WPA_PUT_BE32 (wpa_cipher_to_suite WPA_PROTO_RSN pw) @ [1, 0] @ WPA_PUT_BE32 (WFA 1)"
  have t: "WPA_PUT_BE24 0x506f9a @ [18] = WPA_PUT_BE32 OSEN_IE_VENDOR_TYPE" "WPA_PUT_LE16 1 = [1, 0]"
    by (simp_all add: WPA_PUT_BE24_def WPA_PUT_BE32_def WPA_PUT_LE16_def)
  have bad: "\<not> bad_pairwise WPA_PROTO_RSN pw"
    and cl: "close_ie n WLAN_EID_VENDOR_SPECIFIC ((WPA_PUT_BE24 0x506f9a @ [18]) @ ?b) = Ie ie"
    using assms(1) t(2) by (simp_all add: wpa_gen_wpa_ie_osen_def split: if_splits)
  note cl = cl [unfolded t]
  have ie: "ie = WLAN_EID_VENDOR_SPECIFIC # 20 # WPA_PUT_BE32 OSEN_IE_VENDOR_TYPE @ ?b"
    using close_ie_Ie(1) [OF cl] by simp
  have h: "rsn_header ie = Inr (rsn_ie_defaults\<lparr>ie_group_cipher := WPA_CIPHER_GTK_NOT_USED, ie_has_group := True,
      ie_key_mgmt := WPA_KEY_MGMT_OSEN, ie_proto := WPA_PROTO_OSEN\<rparr>, ?b)"
    by (simp add: rsn_header_def Let_def ie)
  have "rsn_key_mgmt_to_bitfield (WPA_PUT_BE32 (WFA 1) @ []) = WPA_KEY_MGMT_OSEN"
    by (simp add: rsn_key_mgmt_to_bitfield_def del: append_Nil2)
  note akm = akm_read [where f = rsn_key_mgmt_to_bitfield, OF this, simplified]
  have "wpa_parse_wpa_ie_rsn ie = (0, osen_data pw gr)"
    unfolding wpa_parse_wpa_ie_rsn_def rsn_fields_def h
    using assms(2) bad by (simp add: group_read pairwise_read akm ie_capab_field_def rsn_pmkids_def rsn_mgmt_group_def
        osen_data_def rsn_ie_defaults_def)
  then show ?thesis by (simp add: wpa_parse_wpa_ie_def ie)
qed

text \<open>In a WPA element only TKIP and CCMP, and no cipher, have a selector of WPA.\<close>

definition wpa_data :: "u32 \<Rightarrow> u32 \<Rightarrow> u32 \<Rightarrow> wpa_ie_data" where
  "wpa_data pw gr akm =
     \<lparr>ie_proto = WPA_PROTO_WPA, ie_pairwise_cipher = pw, ie_has_pairwise = False, ie_group_cipher = gr,
      ie_has_group = False, ie_key_mgmt = akm, ie_capabilities = 0, ie_num_pmkid = 0, ie_pmkid = None,
      ie_mgmt_group_cipher = 0\<rparr>"

lemma wpa_selector_of_suite:
  "c \<in> {WPA_CIPHER_NONE, WPA_CIPHER_TKIP, WPA_CIPHER_CCMP} \<Longrightarrow>
    wpa_selector_to_bitfield (WPA_PUT_BE32 (wpa_cipher_to_suite WPA_PROTO_WPA c) @ r) = c"
  by (elim insertE emptyE; hypsubst) (simp_all add: wpa_cipher_to_suite_def wpa_selector_to_bitfield_def)

lemma wpa_akm_of_suite:
  "akm \<in> {WPA_KEY_MGMT_IEEE8021X, WPA_KEY_MGMT_PSK, WPA_KEY_MGMT_WPA_NONE, WPA_KEY_MGMT_CCKM} \<Longrightarrow>
    \<exists>s. wpa_gen_akm akm = Some s \<and> (\<forall>r. wpa_key_mgmt_to_bitfield (WPA_PUT_BE32 s @ r) = akm_understood akm)"
  by (elim insertE emptyE; hypsubst) (simp_all add: wpa_gen_akm_def wpa_key_mgmt_to_bitfield_def akm_understood_def)

lemma wpa_roundtrip:
  assumes "wpa_gen_wpa_ie_wpa n pw gr akm = Ie ie"
    "gr \<in> {WPA_CIPHER_NONE, WPA_CIPHER_TKIP, WPA_CIPHER_CCMP}" "pw \<in> {WPA_CIPHER_NONE, WPA_CIPHER_TKIP, WPA_CIPHER_CCMP}"
    "akm \<in> {WPA_KEY_MGMT_IEEE8021X, WPA_KEY_MGMT_PSK, WPA_KEY_MGMT_WPA_NONE, WPA_KEY_MGMT_CCKM}"
  shows "wpa_parse_wpa_ie ie = (0, wpa_data pw gr (akm_understood akm))"
proof -
  obtain a where a: "wpa_gen_akm akm = Some a" "\<And>r. wpa_key_mgmt_to_bitfield (WPA_PUT_BE32 a @ r) = akm_understood akm"
    using wpa_akm_of_suite [OF assms(4)] by blast
  let ?b = "WPA_PUT_BE32 (wpa_cipher_to_suite WPA_PROTO_WPA gr) @
    [1, 0] @ WPA_PUT_BE32 (wpa_cipher_to_suite WPA_PROTO_WPA pw) @ [1, 0] @ WPA_PUT_BE32 a"
  have cl: "close_ie n WLAN_EID_VENDOR_SPECIFIC (WPA_PUT_BE32 (MS 1) @ WPA_PUT_LE16 1 @ ?b) = Ie ie"
    using assms(1) a(1) by (simp add: wpa_gen_wpa_ie_wpa_def split: if_splits)
  have ie: "ie = WLAN_EID_VENDOR_SPECIFIC # 22 # WPA_PUT_BE32 (MS 1) @ WPA_PUT_LE16 1 @ ?b"
    using close_ie_Ie(1) [OF cl] by simp
  have h: "wpa_header ie = Inr (wpa_ie_defaults, ?b)" by (simp add: wpa_header_def Let_def ie)
  note akm = akm_read [where f = wpa_key_mgmt_to_bitfield and r = "[]", OF a(2), simplified]
  have "wpa_parse_wpa_ie_wpa ie = (0, wpa_data pw gr (akm_understood akm))"
    unfolding wpa_parse_wpa_ie_wpa_def h
    using assms(2,3) by (simp add: wpa_group_def wpa_pairwise_def list_one wpa_selector_of_suite akm ie_capab_field_def
        wpa_data_def wpa_ie_defaults_def Let_def)
  then show ?thesis by (simp add: wpa_parse_wpa_ie_def ie)
qed

text \<open>The policies that are written: any key management with a selector, and a group cipher that is one.\<close>

definition policy_ok :: "gen_sm \<Rightarrow> bool" where
  "policy_ok sm \<longleftrightarrow>
     (if gs_proto sm = WPA_PROTO_RSN
      then wpa_cipher_valid_group (gs_group_cipher sm) \<and> gs_key_mgmt sm \<in> insert WPA_KEY_MGMT_CCKM (set rsn_akms) \<and>
        (\<forall>p. gs_cur_pmksa sm = Some p \<longrightarrow> length p = 16)
      else if gs_proto sm = WPA_PROTO_OSEN then wpa_cipher_valid_group (gs_group_cipher sm)
      else gs_group_cipher sm \<in> {WPA_CIPHER_NONE, WPA_CIPHER_TKIP, WPA_CIPHER_CCMP} \<and>
        gs_pairwise_cipher sm \<in> {WPA_CIPHER_NONE, WPA_CIPHER_TKIP, WPA_CIPHER_CCMP} \<and>
        gs_key_mgmt sm \<in> {WPA_KEY_MGMT_IEEE8021X, WPA_KEY_MGMT_PSK, WPA_KEY_MGMT_WPA_NONE, WPA_KEY_MGMT_CCKM})"

definition policy_data :: "gen_sm \<Rightarrow> wpa_ie_data" where
  "policy_data sm =
     (let akm = akm_understood (gs_key_mgmt sm)
      in if gs_proto sm = WPA_PROTO_RSN
         then gen_data sm (gs_pairwise_cipher sm) (gs_group_cipher sm) akm (gs_mgmt_group_cipher sm)
         else if gs_proto sm = WPA_PROTO_OSEN then osen_data (gs_pairwise_cipher sm) (gs_group_cipher sm)
         else wpa_data (gs_pairwise_cipher sm) (gs_group_cipher sm) akm)"

text \<open>C16: The element the station generates from its security policy, for RSN, WPA or OSEN, is parsed without an
  error, and as that policy: the protocol, the pairwise and the group cipher, the key management and, in RSN, the
  capabilities, the management group cipher and the PMKID of the current cache entry, whose bytes are at the offset the
  parser gives. The policy has a valid group cipher (in WPA all its ciphers are NONE, TKIP or CCMP) and one key management
  that has a selector. Two parts of it are not read back: CCKM is written but read as no key management, and a management
  group cipher that is not valid is left out, which is read as AES-128-CMAC.\<close>

theorem generated_ie_is_parsed:
  assumes "wpa_gen_wpa_ie sm n = Ie ie" "policy_ok sm"
  shows "wpa_parse_wpa_ie ie = (0, policy_data sm) \<and>
    (gs_proto sm = WPA_PROTO_RSN \<longrightarrow>
      (\<forall>p. gs_cur_pmksa sm = Some p \<longrightarrow> (\<exists>k. ie_pmkid (policy_data sm) = Some k \<and> take 16 (drop k ie) = p)))"
proof (cases "gs_proto sm = WPA_PROTO_RSN")
  case True
  with assms have "wpa_gen_wpa_ie_rsn n (gs_pairwise_cipher sm) (gs_group_cipher sm) (gs_key_mgmt sm)
      (gs_mgmt_group_cipher sm) sm = Ie ie" by (simp add: wpa_gen_wpa_ie_def)
  from rsn_roundtrip [OF this] assms(2) True show ?thesis
    by (auto simp: wpa_parse_wpa_ie_def policy_data_def policy_ok_def gen_data_def)
next
  case False
  show ?thesis
  proof (cases "gs_proto sm = WPA_PROTO_OSEN")
    case True
    with assms show ?thesis
      using osen_roundtrip by (simp add: wpa_gen_wpa_ie_def policy_data_def policy_ok_def)
  next
    case F2: False
    from False F2 assms(2)
    have "policy_data sm = wpa_data (gs_pairwise_cipher sm) (gs_group_cipher sm) (akm_understood (gs_key_mgmt sm))"
      by (simp add: policy_data_def)
    moreover from False F2 assms(1)
    have "wpa_gen_wpa_ie_wpa n (gs_pairwise_cipher sm) (gs_group_cipher sm) (gs_key_mgmt sm) = Ie ie"
      by (simp add: wpa_gen_wpa_ie_def)
    ultimately show ?thesis using wpa_roundtrip False F2 assms(2) by (simp add: policy_ok_def)
  qed
qed

definition example_gen :: gen_sm where
  "example_gen = \<lparr>gs_proto = WPA_PROTO_RSN, gs_pairwise_cipher = WPA_CIPHER_CCMP, gs_group_cipher = WPA_CIPHER_TKIP,
     gs_key_mgmt = WPA_KEY_MGMT_SAE, gs_mgmt_group_cipher = WPA_CIPHER_AES_128_CMAC, gs_mfp = 2, gs_ocv = False,
     gs_cur_pmksa = Some (replicate 16 7)\<rparr>"

definition example_ie :: "u8 list" where
  "example_ie = [48, 42, 1, 0, 0, 15, 172, 2, 1, 0, 0, 15, 172, 4, 1, 0, 0, 15, 172, 8, 192, 0, 1, 0] @ replicate 16 7 @
     [0, 15, 172, 6]"

lemma example_generated: "wpa_gen_wpa_ie example_gen 80 = Ie example_ie"
  by code_simp

lemma example_policy: "policy_ok example_gen"
  by (simp add: policy_ok_def example_gen_def wpa_cipher_valid_group_def wpa_cipher_valid_pairwise_def rsn_akms_def)

theorem generated_ie_is_parsed_witness:
  "wpa_parse_wpa_ie example_ie = (0, policy_data example_gen) \<and>
   (\<exists>k. ie_pmkid (policy_data example_gen) = Some k \<and> take 16 (drop k example_ie) = replicate 16 7)"
proof -
  have "gs_proto example_gen = WPA_PROTO_RSN" "gs_cur_pmksa example_gen = Some (replicate 16 7)"
    by (simp_all add: example_gen_def)
  then show ?thesis using generated_ie_is_parsed [OF example_generated example_policy] by simp
qed

text \<open>The buffer check leaves out the management group cipher, so that a buffer of 40 to 43 bytes is overrun.\<close>

lemma short_buffer_overrun: "wpa_gen_wpa_ie example_gen 40 = Ie_Assert" "wpa_gen_wpa_ie example_gen 39 = Ie_Fail"
  by (simp_all add: wpa_gen_wpa_ie_def wpa_gen_wpa_ie_rsn_def example_gen_def wpa_cipher_to_suite_def bad_pairwise_def
      wpa_cipher_valid_pairwise_def rsn_gen_akm_def close_ie_def rsn_gen_tail_def wpa_cipher_valid_mgmt_group_def)

lemma long_buffer_suffices:
  assumes "48 \<le> n" "\<And>p. gs_cur_pmksa sm = Some p \<Longrightarrow> length p = 16"
  shows "wpa_gen_wpa_ie sm n \<noteq> Ie_Assert"
proof -
  have "length (rsn_gen_tail sm (gs_mgmt_group_cipher sm)) \<le> 22" using rsn_gen_tail_length assms(2) by blast
  with assms(1) show ?thesis
    by (auto simp: wpa_gen_wpa_ie_def wpa_gen_wpa_ie_rsn_def wpa_gen_wpa_ie_wpa_def wpa_gen_wpa_ie_osen_def close_ie_def
        WPA_PUT_BE24_def split: option.split)
qed

end
