(* ===== verification/Rsn_Insert.thy ===== *)
theory Rsn_Insert
  imports Rsn_Gen
begin

text \<open>
  \<open>wpa_insert_pmkid\<close> of \<open>wpa_supplicant/src/common/wpa_common.c\<close>: the PMKR1Name is put into the RSN element of a
  buffer of elements, in place. The buffer is the list of all its bytes, of which the first \<open>len\<close> are elements;
  an access outside it is an outcome of its own.
\<close>

section \<open>Memory\<close>

datatype ins_error = Ins_Fail | Ins_Outside

definition ins_bind :: "ins_error + 'a \<Rightarrow> ('a \<Rightarrow> ins_error + 'b) \<Rightarrow> ins_error + 'b" where
  "ins_bind r f = (case r of Inl e \<Rightarrow> Inl e | Inr v \<Rightarrow> f v)"

lemma ins_bind_simps [simp]: "ins_bind (Inl e) f = Inl e" "ins_bind (Inr v) f = f v"
  by (simp_all add: ins_bind_def)

definition rd16 :: "u8 list \<Rightarrow> nat \<Rightarrow> ins_error + nat" where
  "rd16 m p = (if p + 2 \<le> length m then Inr (unat (WPA_GET_LE16 (drop p m))) else Inl Ins_Outside)"

definition put_at :: "u8 list \<Rightarrow> nat \<Rightarrow> u8 list \<Rightarrow> ins_error + u8 list" where
  "put_at m p bs =
     (if p + length bs \<le> length m then Inr (take p m @ bs @ drop (p + length bs) m) else Inl Ins_Outside)"

text \<open>A negative length is a \<open>size_t\<close> no memory has room for.\<close>

definition memmove :: "u8 list \<Rightarrow> nat \<Rightarrow> nat \<Rightarrow> int \<Rightarrow> ins_error + u8 list" where
  "memmove m dst src n =
     (if n < 0 \<or> src + nat n > length m then Inl Ins_Outside else put_at m dst (take (nat n) (drop src m)))"

section \<open>The operation\<close>

function find_rsn :: "u8 list \<Rightarrow> nat \<Rightarrow> nat \<Rightarrow> ins_error + nat" where
  "find_rsn m len start =
     (if len \<le> start then Inl Ins_Fail
      else if length m \<le> start then Inl Ins_Outside
      else if m ! start = WLAN_EID_RSN then Inr start
      else if length m \<le> start + 1 then Inl Ins_Outside
      else find_rsn m len (start + 2 + unat (m ! (start + 1))))"
  by pat_completeness auto
termination by (relation "measure (\<lambda>(m, len, start). len - start)") auto

declare find_rsn.simps [simp del]

text \<open>The end of the list of AKM suites.\<close>

definition akm_end :: "u8 list \<Rightarrow> nat \<Rightarrow> ins_error + nat" where
  "akm_end m start =
     (let rpos = start + 2 + 2 + 4
      in ins_bind (rd16 m rpos) (\<lambda>n. let rpos = rpos + 2 + n * 4
      in ins_bind (rd16 m rpos) (\<lambda>n. Inr (rpos + 2 + n * 4))))"

text \<open>Behind the capabilities, which are added when they are missing: memory, \<open>rpos\<close>, \<open>rend\<close> and \<open>added\<close>.\<close>

definition ins_capab :: "u8 list \<Rightarrow> nat \<Rightarrow> nat \<Rightarrow> nat \<Rightarrow> nat \<Rightarrow> ins_error + (u8 list \<times> nat \<times> nat \<times> int)" where
  "ins_capab m len start rpos rend =
     (if rpos = rend
      then ins_bind (memmove m (rpos + 2) rpos (int len - int rpos)) (\<lambda>m. ins_bind (put_at m rpos [0, 0]) (\<lambda>m.
        Inr (m[start + 1 := m ! (start + 1) + 2], rpos + 2, rpos + 2, 2)))
      else if rpos + 2 > rend then Inl Ins_Fail else Inr (m, rpos + 2, rend, 0))"

definition ins_list :: "u8 list \<Rightarrow> nat \<Rightarrow> nat \<Rightarrow> nat \<Rightarrow> nat \<Rightarrow> int \<Rightarrow> u8 list \<Rightarrow> ins_error + (u8 list \<times> int)" where
  "ins_list m len start rpos rend added pmkid =
     (if rpos = rend
      then ins_bind (memmove m (rpos + 2 + 16) rpos (int len + added - int rpos)) (\<lambda>m.
        ins_bind (put_at m rpos (WPA_PUT_LE16 1)) (\<lambda>m. ins_bind (put_at m (rpos + 2) pmkid) (\<lambda>m.
        Inr (m[start + 1 := m ! (start + 1) + 18], added + 18))))
      else if rend - rpos < 2 then Inl Ins_Fail
      else ins_bind (rd16 m rpos) (\<lambda>num_pmkid.
        ins_bind
         (if num_pmkid \<noteq> 0
          then if num_pmkid * 16 > rend - rpos - 2 then Inl Ins_Fail
            else let after = rpos + 2 + num_pmkid * 16
              in ins_bind (memmove m (rpos + 2) after (int rend - int after)) (\<lambda>m.
                Inr (m[start + 1 := m ! (start + 1) - of_nat (num_pmkid * 16)], added - int (num_pmkid * 16)))
          else Inr (m, added))
        (\<lambda>(m, added). ins_bind (put_at m rpos (WPA_PUT_LE16 1)) (\<lambda>m.
          ins_bind (memmove m (rpos + 2 + 16) (rpos + 2) (int len + added - int (rpos + 2))) (\<lambda>m.
          ins_bind (put_at m (rpos + 2) pmkid) (\<lambda>m.
          Inr (m[start + 1 := m ! (start + 1) + 16], added + 16)))))))"

definition wpa_insert_pmkid :: "u8 list \<Rightarrow> nat \<Rightarrow> u8 list \<Rightarrow> ins_error + (u8 list \<times> nat)" where
  "wpa_insert_pmkid m len pmkid =
     ins_bind (find_rsn m len 0) (\<lambda>start.
       if length m \<le> start + 1 then Inl Ins_Outside
       else let rend = start + 2 + unat (m ! (start + 1))
         in ins_bind (akm_end m start) (\<lambda>rpos. ins_bind (ins_capab m len start rpos rend) (\<lambda>(m, rpos, rend, added).
           ins_bind (ins_list m len start rpos rend added pmkid) (\<lambda>(m, added). Inr (m, nat (int len + added))))))"

section \<open>The element of the generator\<close>

text \<open>The fields in front of the PMKID list, as 22 bytes.\<close>

definition rsn_front :: "gen_sm \<Rightarrow> u32 \<Rightarrow> u8 list" where
  "rsn_front sm a = WPA_PUT_LE16 1 @ WPA_PUT_BE32 (wpa_cipher_to_suite WPA_PROTO_RSN (gs_group_cipher sm)) @
     [1, 0] @ WPA_PUT_BE32 (wpa_cipher_to_suite WPA_PROTO_RSN (gs_pairwise_cipher sm)) @ [1, 0] @ WPA_PUT_BE32 a @
     WPA_PUT_LE16 (rsn_gen_capab sm)"

lemma length_front: "length (rsn_front sm a) = 20"
  by (simp add: rsn_front_def)

lemma generated_shape:
  assumes "wpa_gen_wpa_ie sm n = Ie ie" "gs_proto sm = WPA_PROTO_RSN" "\<And>p. gs_cur_pmksa sm = Some p \<Longrightarrow> length p = 16"
  obtains a where "rsn_gen_akm (gs_key_mgmt sm) = Some a" "\<not> bad_pairwise WPA_PROTO_RSN (gs_pairwise_cipher sm)"
    "wpa_cipher_to_suite WPA_PROTO_RSN (gs_group_cipher sm) \<noteq> 0"
    "ie = WLAN_EID_RSN # of_nat (20 + length (rsn_gen_tail sm (gs_mgmt_group_cipher sm))) # rsn_front sm a @
      rsn_gen_tail sm (gs_mgmt_group_cipher sm)"
proof -
  let ?t = "rsn_gen_tail sm (gs_mgmt_group_cipher sm)"
  obtain a where a: "rsn_gen_akm (gs_key_mgmt sm) = Some a" and b: "\<not> bad_pairwise WPA_PROTO_RSN (gs_pairwise_cipher sm)"
    and c: "wpa_cipher_to_suite WPA_PROTO_RSN (gs_group_cipher sm) \<noteq> 0"
    and cl: "close_ie n WLAN_EID_RSN (rsn_front sm a @ ?t) = Ie ie"
    using assms(1,2) by (auto simp: wpa_gen_wpa_ie_def wpa_gen_wpa_ie_rsn_def rsn_front_def split: if_splits option.splits)
  have "length ?t \<le> 22" using rsn_gen_tail_length assms(3) by blast
  then have "ie = WLAN_EID_RSN # of_nat (20 + length ?t) # rsn_front sm a @ ?t"
    using close_ie_Ie(1) [OF cl] by (simp add: length_front)
  with a b c show thesis by (rule that)
qed

lemma generated_again:
  assumes "rsn_gen_akm (gs_key_mgmt sm) = Some a" "\<not> bad_pairwise WPA_PROTO_RSN (gs_pairwise_cipher sm)"
    "wpa_cipher_to_suite WPA_PROTO_RSN (gs_group_cipher sm) \<noteq> 0" "gs_proto sm = WPA_PROTO_RSN" "length p = 16" "48 \<le> n"
  shows "wpa_gen_wpa_ie (sm\<lparr>gs_cur_pmksa := Some p\<rparr>) n =
    Ie (WLAN_EID_RSN # of_nat (20 + length (rsn_gen_tail (sm\<lparr>gs_cur_pmksa := Some p\<rparr>) (gs_mgmt_group_cipher sm))) #
      rsn_front sm a @ rsn_gen_tail (sm\<lparr>gs_cur_pmksa := Some p\<rparr>) (gs_mgmt_group_cipher sm))"
  using assms by (simp add: wpa_gen_wpa_ie_def wpa_gen_wpa_ie_rsn_def close_ie_def rsn_front_def rsn_gen_capab_def
      rsn_gen_tail_def)

section \<open>Insertion\<close>

lemma put_at_seq: "length xs = p \<Longrightarrow> length ys = length bs \<Longrightarrow> put_at (xs @ ys @ zs) p bs = Inr (xs @ bs @ zs)"
  by (simp add: put_at_def)

lemma memmove_right:
  assumes "dst = length xs + k" "k \<le> length r" "n = int (length d)"
  shows "memmove (xs @ d @ r) dst (length xs) n = Inr (xs @ take k (d @ r) @ d @ drop k r)"
  using assms by (simp add: memmove_def put_at_def add.commute [of k])

lemma memmove_left:
  assumes "src = length xs + length g" "n = int (length d)"
  shows "memmove (xs @ g @ d @ r) (length xs) src n = Inr (xs @ d @ drop (length d) (g @ d @ r))"
  using assms by (simp add: memmove_def put_at_def add.commute [of "length d"])

abbreviation (input) front_bytes :: "u8 \<Rightarrow> gen_sm \<Rightarrow> u32 \<Rightarrow> u8 list" where
  "front_bytes l sm a \<equiv> WLAN_EID_RSN # l # rsn_front sm a"

lemma akm_end_front: "akm_end (front_bytes l sm a @ r) 0 = Inr 20"
  by (simp add: akm_end_def rd16_def rsn_front_def list_one)

lemma find_rsn_front: "0 < len \<Longrightarrow> find_rsn (front_bytes l sm a @ r) len 0 = Inr 0"
  by (simp add: find_rsn.simps [of _ len 0])

text \<open>With the list of PMKIDs at offset 22, the operation is \<open>ins_list\<close> there.\<close>

lemma insert_is_ins_list:
  assumes "0 < len" "unat l = k + 20"
  shows "wpa_insert_pmkid (front_bytes l sm a @ r) len pmkid =
    ins_bind (ins_list (front_bytes l sm a @ r) len 0 22 (k + 22) 0 pmkid) (\<lambda>(m, added). Inr (m, nat (int len + added)))"
proof -
  let ?m = "front_bytes l sm a @ r"
  have "wpa_insert_pmkid ?m len pmkid =
      ins_bind (ins_capab ?m len 0 20 (k + 22)) (\<lambda>(m, rpos, rend, added).
        ins_bind (ins_list m len 0 rpos rend added pmkid) (\<lambda>(m, added). Inr (m, nat (int len + added))))"
    unfolding wpa_insert_pmkid_def find_rsn_front [OF assms(1)] ins_bind_simps
    using assms(2) by (simp add: akm_end_front [simplified] add.commute [of k])
  also have "ins_capab ?m len 0 20 (k + 22) = Inr (?m, 22, k + 22, 0)" by (simp add: ins_capab_def)
  finally show ?thesis by simp
qed

text \<open>No list: 18 bytes are opened up.\<close>

lemma ins_list_none:
  assumes "length h' = 20" "length pmkid = 16" "18 \<le> length sp" "len = 22 + length post"
  shows "ins_list (x # l # h' @ post @ sp) len 0 22 22 0 pmkid =
    Inr (x # (l + 18) # h' @ [1, 0] @ pmkid @ post @ drop 18 sp, 18)"
proof -
  let ?h = "x # l # h'"
  have "memmove (?h @ post @ sp) 40 (length ?h) (int (length post)) = Inr (?h @ take 18 (post @ sp) @ post @ drop 18 sp)"
    by (rule memmove_right) (use assms in simp_all)
  then have 1: "memmove (x # l # h' @ post @ sp) 40 22 (int len - 22) = Inr (?h @ take 18 (post @ sp) @ post @ drop 18 sp)"
    using assms by simp
  have t: "take 18 (post @ sp) = take 2 (post @ sp) @ drop 2 (take 18 (post @ sp))"
    by (metis append_take_drop_id min.absorb1 numeral_le_iff semiring_norm(68,71) take_take)
  have 2: "put_at (?h @ take 18 (post @ sp) @ r) 22 (WPA_PUT_LE16 1) = Inr (?h @ [1, 0] @ drop 2 (take 18 (post @ sp)) @ r)" for r
    using put_at_seq [of ?h 22 "take 2 (post @ sp)" "[1, 0]" "drop 2 (take 18 (post @ sp)) @ r"] t assms(1,3)
    by (simp add: WPA_PUT_LE16_def)
  have 3: "put_at (?h @ [1, 0] @ drop 2 (take 18 (post @ sp)) @ r) 24 pmkid = Inr (?h @ [1, 0] @ pmkid @ r)" for r
    using put_at_seq [of "?h @ [1, 0]" 24 "drop 2 (take 18 (post @ sp))" pmkid r] assms by simp
  show ?thesis using 1 2 3 by (simp add: ins_list_def)
qed

text \<open>An empty list: its count becomes 1.\<close>

lemma ins_list_empty:
  assumes "length h' = 20" "length pmkid = 16" "16 \<le> length sp" "len = 28 + length post" "length mg = 4"
  shows "ins_list (x # l # h' @ [0, 0] @ mg @ post @ sp) len 0 22 28 0 pmkid =
    Inr (x # (l + 16) # h' @ [1, 0] @ pmkid @ mg @ post @ drop 16 sp, 16)"
proof -
  let ?h = "x # l # h' @ [1, 0]"
  let ?d = "mg @ post"
  have 0: "rd16 (x # l # h' @ [0, 0] @ mg @ post @ sp) 22 = Inr 0"
    using assms by (simp add: rd16_def WPA_GET_LE16_def)
  have 1: "put_at (x # l # h' @ [0, 0] @ mg @ post @ sp) 22 (WPA_PUT_LE16 1) = Inr (?h @ ?d @ sp)"
    using put_at_seq [of "x # l # h'" 22 "[0, 0]" "[1, 0]" "mg @ post @ sp"] assms(1) by (simp add: WPA_PUT_LE16_def)
  have "memmove (?h @ ?d @ sp) 40 (length ?h) (int (length ?d)) = Inr (?h @ take 16 (?d @ sp) @ ?d @ drop 16 sp)"
    by (rule memmove_right) (use assms in simp_all)
  then have 2: "memmove (?h @ ?d @ sp) 40 24 (int len - 24) = Inr (?h @ take 16 (?d @ sp) @ ?d @ drop 16 sp)"
    using assms by (simp add: algebra_simps)
  have 3: "put_at (?h @ take 16 (?d @ sp) @ ?d @ drop 16 sp) 24 pmkid = Inr (?h @ pmkid @ ?d @ drop 16 sp)"
    by (rule put_at_seq) (use assms in simp_all)
  show ?thesis using 0 1 2 3 by (simp add: ins_list_def)
qed

text \<open>One PMKID, with no element behind the RSN element: it is replaced.\<close>

lemma ins_list_one:
  assumes "length h' = 20" "length pmkid = 16" "length p = 16" "len = 40 + length mg"
  shows "\<exists>r. ins_list (x # l # h' @ [1, 0] @ p @ mg @ sp) len 0 22 (40 + length mg) 0 pmkid =
    Inr (x # l # h' @ [1, 0] @ pmkid @ mg @ r, 0)"
proof -
  let ?h = "\<lambda>l. x # l # h' @ [1, 0]"
  let ?r = "drop (length mg) (p @ mg @ sp)"
  have 0: "rd16 (?h l @ p @ mg @ sp) 22 = Inr 1" using assms by (simp add: rd16_def WPA_GET_LE16_def)
  have "memmove (?h l @ p @ mg @ sp) (length (?h l)) 40 (int (length mg)) = Inr (?h l @ mg @ ?r)"
    by (rule memmove_left) (use assms in simp_all)
  then have 1: "memmove (?h l @ p @ mg @ sp) 24 40 (int (length mg)) = Inr (?h l @ mg @ ?r)" using assms by simp
  have 2: "put_at (?h l @ mg @ ?r) 22 (WPA_PUT_LE16 1) = Inr (?h l @ mg @ ?r)" for l
    using put_at_seq [of "x # l # h'" 22 "[1, 0]" "[1, 0]" "mg @ ?r"] assms(1) by (simp add: WPA_PUT_LE16_def)
  have "memmove (?h l @ mg @ ?r) 40 (length (?h l)) (int (length mg)) = Inr (?h l @ take 16 (mg @ ?r) @ mg @ drop 16 ?r)" for l
    by (rule memmove_right) (use assms in simp_all)
  then have 3: "memmove (?h l @ mg @ ?r) 40 24 (int (length mg)) = Inr (?h l @ take 16 (mg @ ?r) @ mg @ drop 16 ?r)" for l
    using assms by simp
  have 4: "put_at (?h l @ take 16 (mg @ ?r) @ mg @ drop 16 ?r) 24 pmkid = Inr (?h l @ pmkid @ mg @ drop 16 ?r)" for l
    by (rule put_at_seq) (use assms in simp_all)
  show ?thesis using 0 1 2 3 4 by (simp add: ins_list_def Let_def assms(4))
qed

text \<open>C19: Inserting a PMKID into an element the station generated gives exactly the element it would generate
  with that PMKID: a missing list is added, an empty one filled and an old PMKID replaced; the elements behind it keep
  their bytes where no old PMKID is removed.\<close>

theorem insert_is_generate:
  assumes "wpa_gen_wpa_ie sm n = Ie ie" "gs_proto sm = WPA_PROTO_RSN" "length pmkid = 16"
    "\<forall>p. gs_cur_pmksa sm = Some p \<longrightarrow> length p = 16 \<and> post = []" "18 \<le> length sp"
  shows "\<exists>ie' r. wpa_gen_wpa_ie (sm\<lparr>gs_cur_pmksa := Some pmkid\<rparr>) 48 = Ie ie' \<and>
    wpa_insert_pmkid (ie @ post @ sp) (length ie + length post) pmkid = Inr (ie' @ post @ r, length ie' + length post)"
proof -
  let ?mg = "gs_mgmt_group_cipher sm"
  obtain a where a: "rsn_gen_akm (gs_key_mgmt sm) = Some a" "\<not> bad_pairwise WPA_PROTO_RSN (gs_pairwise_cipher sm)"
    "wpa_cipher_to_suite WPA_PROTO_RSN (gs_group_cipher sm) \<noteq> 0"
    and ie: "ie = WLAN_EID_RSN # of_nat (20 + length (rsn_gen_tail sm ?mg)) # rsn_front sm a @ rsn_gen_tail sm ?mg"
    using generated_shape [OF assms(1,2)] assms(4) by blast
  let ?g = "if wpa_cipher_valid_mgmt_group ?mg then WPA_PUT_BE32 (wpa_cipher_to_suite WPA_PROTO_RSN ?mg) else []"
  have tail': "rsn_gen_tail (sm\<lparr>gs_cur_pmksa := Some pmkid\<rparr>) ?mg = [1, 0] @ pmkid @ ?g" by (simp add: rsn_gen_tail_def)
  define ie' where "ie' = WLAN_EID_RSN # of_nat (38 + length ?g) # rsn_front sm a @ [1, 0] @ pmkid @ ?g"
  have gen: "wpa_gen_wpa_ie (sm\<lparr>gs_cur_pmksa := Some pmkid\<rparr>) 48 = Ie ie'"
    using generated_again [OF a assms(2,3), of 48] assms(3) by (simp add: tail' ie'_def add.assoc)
  have "\<exists>r. wpa_insert_pmkid (ie @ post @ sp) (length ie + length post) pmkid = Inr (ie' @ post @ r, length ie' + length post)"
  proof (cases "gs_cur_pmksa sm")
    case None
    show ?thesis
    proof (cases "wpa_cipher_valid_mgmt_group ?mg")
      case True
      have t: "rsn_gen_tail sm ?mg = [0, 0] @ ?g" using None True by (simp add: rsn_gen_tail_def WPA_PUT_LE16_def)
      show ?thesis
        using insert_is_ins_list [of "length ie + length post" 26 6 sm a "[0, 0] @ ?g @ post @ sp" pmkid]
          ins_list_empty [of "rsn_front sm a" pmkid sp "length ie + length post" post ?g WLAN_EID_RSN 26] True assms(3,5)
        by (simp add: ie t length_front ie'_def)
    next
      case False
      have t: "rsn_gen_tail sm ?mg = []" using None False by (simp add: rsn_gen_tail_def)
      show ?thesis
        using insert_is_ins_list [of "length ie + length post" 20 0 sm a "post @ sp" pmkid]
          ins_list_none [of "rsn_front sm a" pmkid sp "length ie + length post" post WLAN_EID_RSN 20] False assms(3,5)
        by (simp add: ie t length_front ie'_def)
    qed
  next
    case (Some p)
    then have p: "length p = 16" "post = []" using assms(4) by auto
    have t: "rsn_gen_tail sm ?mg = [1, 0] @ p @ ?g" using Some by (simp add: rsn_gen_tail_def)
    have l: "unat (of_nat (38 + length ?g) :: u8) = 18 + length ?g + 20" by simp
    obtain r where "ins_list (WLAN_EID_RSN # of_nat (38 + length ?g) # rsn_front sm a @ [1, 0] @ p @ ?g @ sp) (40 + length ?g)
        0 22 (40 + length ?g) 0 pmkid = Inr (ie' @ r, 0)"
      using ins_list_one [of "rsn_front sm a" pmkid p "40 + length ?g" ?g WLAN_EID_RSN "of_nat (38 + length ?g)" sp] p assms(3)
      by (auto simp: length_front ie'_def)
    then show ?thesis
      using insert_is_ins_list [OF _ l, of "length ie" sm a "[1, 0] @ p @ ?g @ sp" pmkid] p assms(3)
      by (auto simp: ie t length_front ie'_def add.commute)
  qed
  with gen show ?thesis by blast
qed

theorem insert_is_generate_witness:
  "\<exists>ie' r. wpa_gen_wpa_ie (example_gen\<lparr>gs_cur_pmksa := Some (replicate 16 9)\<rparr>) 48 = Ie ie' \<and>
    wpa_insert_pmkid (example_ie @ [] @ replicate 20 0) (length example_ie + length ([] :: u8 list)) (replicate 16 9) =
      Inr (ie' @ [] @ r, length ie' + length ([] :: u8 list))"
  by (rule insert_is_generate [OF example_generated]) (simp_all add: example_gen_def)

text \<open>Elements behind the RSN element are shifted wrongly when an old PMKID is removed: here an element with one byte.\<close>

lemma insert_overwrites_next:
  "wpa_insert_pmkid (example_ie @ [1, 1, 77] @ replicate 20 0) (length example_ie + 3) (replicate 16 9) =
    Inr (take 24 example_ie @ replicate 16 9 @ [0, 15, 172, 6, 7, 7, 7] @ replicate 20 0, length example_ie + 3)"
  by code_simp

section \<open>Comparison of two elements\<close>

text \<open>The element that the access point sends back with the PMKR1Name inserted passes the check.\<close>

lemma compare_with_pmkid:
  assumes "wpa_gen_wpa_ie sm n = Ie ie" "wpa_gen_wpa_ie (sm\<lparr>gs_cur_pmksa := Some pmkid\<rparr>) k = Ie ie'"
    "gs_proto sm = WPA_PROTO_RSN" "policy_ok sm" "length pmkid = 16"
  shows "wpa_compare_rsn_ie True (Some ie) (Some ie') = 0"
proof -
  have "wpa_parse_wpa_ie_rsn ie = (0, gen_data sm (gs_pairwise_cipher sm) (gs_group_cipher sm) (akm_understood (gs_key_mgmt sm))
      (gs_mgmt_group_cipher sm))"
    by (rule rsn_roundtrip(1)) (use assms in \<open>auto simp: wpa_gen_wpa_ie_def policy_ok_def\<close>)
  moreover have "wpa_parse_wpa_ie_rsn ie' = (0, gen_data (sm\<lparr>gs_cur_pmksa := Some pmkid\<rparr>) (gs_pairwise_cipher sm)
      (gs_group_cipher sm) (akm_understood (gs_key_mgmt sm)) (gs_mgmt_group_cipher sm))"
    by (rule rsn_roundtrip(1)) (use assms in \<open>auto simp: wpa_gen_wpa_ie_def policy_ok_def\<close>)
  ultimately show ?thesis by (simp add: wpa_compare_rsn_ie_def gen_data_def rsn_gen_capab_def)
qed

end
