(* ===== verification/Rsn_Kde.thy ===== *)
theory Rsn_Kde
  imports Rsn_Insert
begin

text \<open>
  The key data of EAPOL-Key messages: \<open>wpa_supplicant_parse_ies\<close> of \<open>wpa_supplicant/src/rsn_supp/wpa_ie.c\<close>. The buffer
  is the memory from the start of the key data on, of which \<open>len\<close> bytes are key data; pointers are offsets.
\<close>

section \<open>Result\<close>

text \<open>A pointer with its length is a pair.\<close>

record wpa_eapol_ie_parse =
  k_wpa_ie :: "(nat \<times> nat) option"
  k_rsn_ie :: "(nat \<times> nat) option"
  k_pmkid :: "nat option"
  k_gtk :: "(nat \<times> nat) option"
  k_mac_addr :: "(nat \<times> nat) option"
  k_igtk :: "(nat \<times> nat) option"
  k_mdie :: "(nat \<times> nat) option"
  k_ftie :: "(nat \<times> nat) option"
  k_reassoc_deadline :: "nat option"
  k_key_lifetime :: "nat option"
  k_lnkid :: "(nat \<times> nat) option"
  k_ext_capab :: "(nat \<times> nat) option"
  k_supp_rates :: "(nat \<times> nat) option"
  k_ext_supp_rates :: "(nat \<times> nat) option"
  k_ht_capabilities :: "nat option"
  k_vht_capabilities :: "nat option"
  k_supp_channels :: "(nat \<times> nat) option"
  k_supp_oper_classes :: "(nat \<times> nat) option"
  k_qosinfo :: u8
  k_aid :: u16
  k_wmm :: "(nat \<times> nat) option"
  k_ip_addr_req :: "nat option"
  k_ip_addr_alloc :: "nat option"

definition empty_parse :: wpa_eapol_ie_parse where
  "empty_parse =
     \<lparr>k_wpa_ie = None, k_rsn_ie = None, k_pmkid = None, k_gtk = None, k_mac_addr = None, k_igtk = None, k_mdie = None,
      k_ftie = None, k_reassoc_deadline = None, k_key_lifetime = None, k_lnkid = None, k_ext_capab = None,
      k_supp_rates = None, k_ext_supp_rates = None, k_ht_capabilities = None, k_vht_capabilities = None,
      k_supp_channels = None, k_supp_oper_classes = None, k_qosinfo = 0, k_aid = 0, k_wmm = None,
      k_ip_addr_req = None, k_ip_addr_alloc = None\<rparr>"

section \<open>Elements\<close>

text \<open>Both return 0, or 1 at the end mark; \<open>p\<close> is the offset of the element.\<close>

definition wpa_parse_generic :: "u8 list \<Rightarrow> nat \<Rightarrow> nat \<Rightarrow> wpa_eapol_ie_parse \<Rightarrow> int \<times> wpa_eapol_ie_parse" where
  "wpa_parse_generic buf end p ie =
     (let l = unat (buf ! (p + 1)); sel = WPA_GET_BE32 (drop (p + 2) buf)
      in if l = 0 then (1, ie)
         else if 6 \<le> l \<and> sel = MS 1 \<and> buf ! (p + 6) = 1 \<and> buf ! (p + 7) = 0 then (0, ie\<lparr>k_wpa_ie := Some (p, l + 2)\<rparr>)
         else if 5 < end - p \<and> 20 \<le> l \<and> sel = RSN 4 then (0, ie\<lparr>k_pmkid := Some (p + 6)\<rparr>)
         else if 6 < l \<and> sel = RSN 1 then (0, ie\<lparr>k_gtk := Some (p + 6, l - 4)\<rparr>)
         else if 6 < l \<and> sel = RSN 3 then (0, ie\<lparr>k_mac_addr := Some (p + 6, l - 4)\<rparr>)
         else if 6 < l \<and> sel = RSN 9 then (0, ie\<lparr>k_igtk := Some (p + 6, l - 4)\<rparr>)
         else if 5 \<le> l \<and> sel = WFA 4 then (0, ie\<lparr>k_ip_addr_req := Some (p + 6)\<rparr>)
         else if 16 \<le> l \<and> sel = WFA 5 then (0, ie\<lparr>k_ip_addr_alloc := Some (p + 6)\<rparr>)
         else (0, ie))"

definition wpa_parse_vendor_specific :: "u8 list \<Rightarrow> nat \<Rightarrow> wpa_eapol_ie_parse \<Rightarrow> int \<times> wpa_eapol_ie_parse" where
  "wpa_parse_vendor_specific buf p ie =
     (let l = unat (buf ! (p + 1))
      in if l < 4 then (1, ie)
         else if WPA_GET_BE24 (drop (p + 2) buf) = 0x0050f2 \<and> buf ! (p + 5) = 2 \<and> 4 < l \<and>
           (buf ! (p + 6) = 0 \<or> buf ! (p + 6) = 1) then (0, ie\<lparr>k_wmm := Some (p + 2, l)\<rparr>)
         else (0, ie))"

text \<open>
  The chain of tests on the element id; an element whose length does not pass the test of its id may still
  be tested against the ids behind it, of which none is equal.
\<close>

definition parse_kde_element :: "u8 list \<Rightarrow> nat \<Rightarrow> nat \<Rightarrow> wpa_eapol_ie_parse \<Rightarrow> int \<times> wpa_eapol_ie_parse" where
  "parse_kde_element buf end p ie =
     (let eid = buf ! p; l = unat (buf ! (p + 1))
      in if eid = WLAN_EID_RSN then (0, ie\<lparr>k_rsn_ie := Some (p, l + 2)\<rparr>)
         else if eid = 54 \<and> 3 \<le> l then (0, ie\<lparr>k_mdie := Some (p, l + 2)\<rparr>)
         else if eid = 55 \<and> 82 \<le> l then (0, ie\<lparr>k_ftie := Some (p, l + 2)\<rparr>)
         else if eid = 56 \<and> 5 \<le> l
         then (0, if buf ! (p + 2) = 1 then ie\<lparr>k_reassoc_deadline := Some p\<rparr>
                  else if buf ! (p + 2) = 2 then ie\<lparr>k_key_lifetime := Some p\<rparr> else ie)
         else if eid = 101 then (0, if 18 \<le> l then ie\<lparr>k_lnkid := Some (p, l + 2)\<rparr> else ie)
         else if eid = 127 then (0, ie\<lparr>k_ext_capab := Some (p, l + 2)\<rparr>)
         else if eid = 1 then (0, ie\<lparr>k_supp_rates := Some (p, l + 2)\<rparr>)
         else if eid = 50 then (0, ie\<lparr>k_ext_supp_rates := Some (p, l + 2)\<rparr>)
         else if eid = 45 \<and> 26 \<le> l then (0, ie\<lparr>k_ht_capabilities := Some (p + 2)\<rparr>)
         else if eid = 197 then (0, if 2 \<le> l then ie\<lparr>k_aid := WPA_GET_LE16 (drop (p + 2) buf) AND 0x3fff\<rparr> else ie)
         else if eid = 191 \<and> 12 \<le> l then (0, ie\<lparr>k_vht_capabilities := Some (p + 2)\<rparr>)
         else if eid = 46 \<and> 1 \<le> l then (0, ie\<lparr>k_qosinfo := buf ! (p + 2)\<rparr>)
         else if eid = 36 then (0, ie\<lparr>k_supp_channels := Some (p + 2, l)\<rparr>)
         else if eid = 59 then (0, if 2 \<le> l \<and> l \<le> 253 then ie\<lparr>k_supp_oper_classes := Some (p + 2, l)\<rparr> else ie)
         else if eid = WLAN_EID_VENDOR_SPECIFIC
         then let (r, ie) = wpa_parse_generic buf end p ie
           in if r \<noteq> 0 then (r, ie) else wpa_parse_vendor_specific buf p ie
         else (0, ie))"

function parse_ies_loop :: "u8 list \<Rightarrow> nat \<Rightarrow> nat \<Rightarrow> wpa_eapol_ie_parse \<Rightarrow> int \<times> wpa_eapol_ie_parse" where
  "parse_ies_loop buf len p ie =
     (if len \<le> p + 1 then (0, ie)
      else if buf ! p = 0xdd \<and> (p = len - 1 \<or> buf ! (p + 1) = 0) then (0, ie)
      else if len < p + 2 + unat (buf ! (p + 1)) then (- 1, ie)
      else let (r, ie) = parse_kde_element buf len p ie
        in if r < 0 then (r, ie) else if 0 < r then (0, ie)
           else parse_ies_loop buf len (p + 2 + unat (buf ! (p + 1))) ie)"
  by pat_completeness auto
termination by (relation "measure (\<lambda>(buf, len, p, ie). len - p)") auto

declare parse_ies_loop.simps [simp del]

definition wpa_supplicant_parse_ies :: "u8 list \<Rightarrow> nat \<Rightarrow> int \<times> wpa_eapol_ie_parse" where
  "wpa_supplicant_parse_ies buf len = parse_ies_loop buf len 0 empty_parse"

section \<open>Inside the key data\<close>

text \<open>Every pointer of the result lies, with what it points to, inside the first \<open>n\<close> bytes.\<close>

definition span_in :: "nat \<Rightarrow> (nat \<times> nat) option \<Rightarrow> bool" where
  "span_in n r \<longleftrightarrow> (case r of None \<Rightarrow> True | Some (p, l) \<Rightarrow> p + l \<le> n)"

definition ptr_in :: "nat \<Rightarrow> nat \<Rightarrow> nat option \<Rightarrow> bool" where
  "ptr_in n l r = span_in n (map_option (\<lambda>p. (p, l)) r)"

definition parse_in :: "nat \<Rightarrow> wpa_eapol_ie_parse \<Rightarrow> bool" where
  "parse_in n ie \<longleftrightarrow>
     span_in n (k_wpa_ie ie) \<and> span_in n (k_rsn_ie ie) \<and> ptr_in n 16 (k_pmkid ie) \<and> span_in n (k_gtk ie) \<and>
     span_in n (k_mac_addr ie) \<and> span_in n (k_igtk ie) \<and> span_in n (k_mdie ie) \<and> span_in n (k_ftie ie) \<and>
     ptr_in n 7 (k_reassoc_deadline ie) \<and> ptr_in n 7 (k_key_lifetime ie) \<and> span_in n (k_lnkid ie) \<and>
     span_in n (k_ext_capab ie) \<and> span_in n (k_supp_rates ie) \<and> span_in n (k_ext_supp_rates ie) \<and>
     ptr_in n 26 (k_ht_capabilities ie) \<and> ptr_in n 12 (k_vht_capabilities ie) \<and> span_in n (k_supp_channels ie) \<and>
     span_in n (k_supp_oper_classes ie) \<and> span_in n (k_wmm ie) \<and> ptr_in n 1 (k_ip_addr_req ie) \<and>
     ptr_in n 12 (k_ip_addr_alloc ie)"

lemma span_in_simps [simp]: "span_in n None" "span_in n (Some (p, l)) \<longleftrightarrow> p + l \<le> n"
  "ptr_in n l None" "ptr_in n l (Some p) \<longleftrightarrow> p + l \<le> n"
  by (simp_all add: span_in_def ptr_in_def)

lemma generic_in:
  assumes "parse_in len ie" "p + 2 + unat (buf ! (p + 1)) \<le> len"
  shows "parse_in len (snd (wpa_parse_generic buf len p ie))"
  using assms by (auto simp: wpa_parse_generic_def Let_def parse_in_def)

lemma vendor_in:
  assumes "parse_in len ie" "p + 2 + unat (buf ! (p + 1)) \<le> len"
  shows "parse_in len (snd (wpa_parse_vendor_specific buf p ie))"
  using assms by (auto simp: wpa_parse_vendor_specific_def Let_def parse_in_def)

lemma element_in:
  assumes "parse_in len ie" "p + 2 + unat (buf ! (p + 1)) \<le> len"
  shows "parse_in len (snd (parse_kde_element buf len p ie))"
proof -
  have "parse_in len (snd (let (r, ie) = wpa_parse_generic buf len p ie
      in if r \<noteq> 0 then (r, ie) else wpa_parse_vendor_specific buf p ie))"
    using generic_in [OF assms] vendor_in [OF _ assms(2)] by (auto simp: case_prod_beta Let_def)
  with assms show ?thesis by (simp add: parse_kde_element_def Let_def parse_in_def)
qed

lemma loop_step:
  "parse_ies_loop buf len p ie =
     (if len \<le> p + 1 then (0, ie)
      else if buf ! p = 0xdd \<and> (p = len - 1 \<or> buf ! (p + 1) = 0) then (0, ie)
      else if len < p + 2 + unat (buf ! (p + 1)) then (- 1, ie)
      else (case parse_kde_element buf len p ie of
          (r, ie) \<Rightarrow> if r < 0 then (r, ie) else if 0 < r then (0, ie)
            else parse_ies_loop buf len (p + 2 + unat (buf ! (p + 1))) ie))"
  by (subst parse_ies_loop.simps) (simp only: Let_def)

lemma loop_in: "parse_in len ie \<Longrightarrow> parse_in len (snd (parse_ies_loop buf len p ie))"
proof (induction "len - p" arbitrary: p ie rule: less_induct)
  case less
  obtain r ie' where e: "parse_kde_element buf len p ie = (r, ie')" by (cases "parse_kde_element buf len p ie")
  have i: "p + 2 + unat (buf ! (p + 1)) \<le> len \<Longrightarrow> parse_in len ie'" using element_in [OF less.prems] e by (metis snd_conv)
  then have "p + 2 + unat (buf ! (p + 1)) \<le> len \<Longrightarrow>
      parse_in len (snd (parse_ies_loop buf len (p + 2 + unat (buf ! (p + 1))) ie'))"
    by (intro less.hyps) linarith+
  with i less.prems e show ?case by (subst loop_step) (simp add: not_less)
qed

text \<open>Only the key data is read: bytes behind it do not change the result.\<close>

lemma nth_behind: "i < length a \<Longrightarrow> (a @ x) ! i = a ! i"
  by (simp add: nth_append)

lemma get_behind:
  "p + 4 \<le> length a \<Longrightarrow> WPA_GET_BE32 (drop p (a @ x)) = WPA_GET_BE32 (drop p a)"
  "p + 3 \<le> length a \<Longrightarrow> WPA_GET_BE24 (drop p (a @ x)) = WPA_GET_BE24 (drop p a)"
  "p + 2 \<le> length a \<Longrightarrow> WPA_GET_LE16 (drop p (a @ x)) = WPA_GET_LE16 (drop p a)"
proof -
  have n: "drop p (a @ x) ! i = drop p a ! i" if "p + i < length a" for i
    using that by (simp add: nth_append del: drop_append)
  show "p + 4 \<le> length a \<Longrightarrow> WPA_GET_BE32 (drop p (a @ x)) = WPA_GET_BE32 (drop p a)"
    unfolding WPA_GET_BE32_def by (simp add: n del: drop_append nth_drop)
  show "p + 3 \<le> length a \<Longrightarrow> WPA_GET_BE24 (drop p (a @ x)) = WPA_GET_BE24 (drop p a)"
    unfolding WPA_GET_BE24_def by (simp add: n del: drop_append nth_drop)
  show "p + 2 \<le> length a \<Longrightarrow> WPA_GET_LE16 (drop p (a @ x)) = WPA_GET_LE16 (drop p a)"
    unfolding WPA_GET_LE16_def by (simp add: n del: drop_append nth_drop)
qed

lemma generic_behind:
  assumes "p + 2 + unat (a ! (p + 1)) \<le> length a"
  shows "wpa_parse_generic (a @ x) len p ie = wpa_parse_generic a len p ie"
proof (cases "4 \<le> unat (a ! (p + 1))")
  case True
  have n: "p + 1 < length a" using assms by linarith
  have g: "WPA_GET_BE32 (drop (p + 2) (a @ x)) = WPA_GET_BE32 (drop (p + 2) a)"
    by (rule get_behind) (use assms True in linarith)
  have "6 \<le> unat (a ! (p + 1)) \<Longrightarrow> (a @ x) ! (p + 6) = a ! (p + 6) \<and> (a @ x) ! (p + 7) = a ! (p + 7)"
    using assms by (auto intro!: nth_behind)
  then show ?thesis unfolding wpa_parse_generic_def Let_def g nth_behind [OF n] by (simp cong: if_cong conj_cong)
next
  case False
  have n: "p + 1 < length a" using assms by linarith
  show ?thesis using False unfolding wpa_parse_generic_def Let_def nth_behind [OF n] by simp
qed

lemma vendor_behind:
  assumes "p + 2 + unat (a ! (p + 1)) \<le> length a"
  shows "wpa_parse_vendor_specific (a @ x) p ie = wpa_parse_vendor_specific a p ie"
proof (cases "4 \<le> unat (a ! (p + 1))")
  case True
  have n: "p + 1 < length a" "p + 5 < length a" using assms True by linarith+
  have g: "WPA_GET_BE24 (drop (p + 2) (a @ x)) = WPA_GET_BE24 (drop (p + 2) a)"
    by (rule get_behind) (use assms True in linarith)
  have "4 < unat (a ! (p + 1)) \<Longrightarrow> (a @ x) ! (p + 6) = a ! (p + 6)" using assms by (auto intro!: nth_behind)
  then show ?thesis
    unfolding wpa_parse_vendor_specific_def Let_def g nth_behind [OF n(1)] nth_behind [OF n(2)] by (simp cong: if_cong conj_cong)
next
  case False
  have n: "p + 1 < length a" using assms by linarith
  show ?thesis using False unfolding wpa_parse_vendor_specific_def Let_def nth_behind [OF n] by simp
qed

lemma element_behind:
  assumes "p + 2 + unat (a ! (p + 1)) \<le> length a"
  shows "parse_kde_element (a @ x) len p ie = parse_kde_element a len p ie"
proof -
  have n: "p < length a" "p + 1 < length a" using assms by linarith+
  have 2: "1 \<le> unat (a ! (p + 1)) \<Longrightarrow> (a @ x) ! (p + 2) = a ! (p + 2)" using assms by (auto intro!: nth_behind)
  have 3: "2 \<le> unat (a ! (p + 1)) \<Longrightarrow> WPA_GET_LE16 (drop (p + 2) (a @ x)) = WPA_GET_LE16 (drop (p + 2) a)"
    using assms by (intro get_behind) linarith
  show ?thesis
    unfolding parse_kde_element_def Let_def nth_behind [OF n(1)] nth_behind [OF n(2)] generic_behind [OF assms] vendor_behind [OF assms]
    using 2 3 by (simp cong: if_cong conj_cong)
qed

lemma loop_behind: "parse_ies_loop (a @ x) (length a) p ie = parse_ies_loop a (length a) p ie"
proof (induction "length a - p" arbitrary: p ie rule: less_induct)
  case less
  show ?case
  proof (cases "length a \<le> p + 1")
    case True
    then show ?thesis by (simp add: loop_step [of _ _ p])
  next
    case False
    then have n: "p < length a" "p + 1 < length a" by linarith+
    let ?q = "p + 2 + unat (a ! (p + 1))"
    show ?thesis
    proof (cases "?q \<le> length a")
      case True
      have "parse_ies_loop (a @ x) (length a) ?q ie' = parse_ies_loop a (length a) ?q ie'" for ie'
        by (rule less) (use n in linarith)
      then show ?thesis
        unfolding loop_step [of _ _ p] nth_behind [OF n(1)] nth_behind [OF n(2)] element_behind [OF True] by (simp only:)
    next
      case False
      then have q: "length a < ?q" by simp
      show ?thesis unfolding loop_step [of _ _ p] nth_behind [OF n(1)] nth_behind [OF n(2)] by (simp only: q if_True)
    qed
  qed
qed

text \<open>C17: The parser of EAPOL-Key key data reads nothing behind the key data, and every pointer it returns lies, with
  the bytes its user reads through it, inside the key data, whatever an attacker put there.\<close>

theorem kde_inside:
  "wpa_supplicant_parse_ies (buf @ x) (length buf) = wpa_supplicant_parse_ies buf (length buf) \<and>
   parse_in (length buf) (snd (wpa_supplicant_parse_ies (buf @ x) (length buf)))"
  using loop_behind loop_in [of "length buf" empty_parse]
  by (simp add: wpa_supplicant_parse_ies_def parse_in_def empty_parse_def)

section \<open>Well formed key data\<close>

text \<open>An element is its id and its payload.\<close>

type_synonym kde_element = "u8 \<times> u8 list"

definition tlv :: "kde_element \<Rightarrow> u8 list" where
  "tlv = (\<lambda>(e, d). e # of_nat (length d) # d)"

definition element_ok :: "kde_element \<Rightarrow> bool" where
  "element_ok = (\<lambda>(e, d). length d < 256 \<and> (e = WLAN_EID_VENDOR_SPECIFIC \<longrightarrow> 4 \<le> length d))"

text \<open>Padding is nothing, one byte 0xdd, or 0xdd and zeros.\<close>

definition padding :: "u8 list \<Rightarrow> bool" where
  "padding pd \<longleftrightarrow> length pd \<le> 1 \<or> (pd ! 0 = 0xdd \<and> pd ! 1 = 0)"

definition kde :: "u32 \<Rightarrow> nat \<Rightarrow> kde_element \<Rightarrow> u8 list option" where
  "kde sel k = (\<lambda>(e, d).
     if e = WLAN_EID_VENDOR_SPECIFIC \<and> k \<le> length d \<and> take 4 d = WPA_PUT_BE32 sel then Some (drop 4 d) else None)"

definition rsn_of :: "kde_element \<Rightarrow> u8 list option" where
  "rsn_of x = (if fst x = WLAN_EID_RSN then Some (tlv x) else None)"

text \<open>The last element that carries a value, the bytes a pointer of the result stands for.\<close>

definition latest :: "(kde_element \<Rightarrow> 'v option) \<Rightarrow> kde_element list \<Rightarrow> 'v option \<Rightarrow> 'v option" where
  "latest f els = fold (\<lambda>x r. case f x of None \<Rightarrow> r | Some v \<Rightarrow> Some v) els"

definition bytes_at :: "u8 list \<Rightarrow> (nat \<times> nat) option \<Rightarrow> u8 list option" where
  "bytes_at buf r = map_option (\<lambda>(p, l). take l (drop p buf)) r"

lemma latest_simps [simp]: "latest f [] r = r" "latest f (x # xs) r = latest f xs (case f x of None \<Rightarrow> r | Some v \<Rightarrow> Some v)"
  by (simp_all add: latest_def)

lemma bytes_at_simps [simp]: "bytes_at buf None = None" "bytes_at buf (Some (p, l)) = Some (take l (drop p buf))"
  by (simp_all add: bytes_at_def)

lemma selector_iff:
  assumes "4 \<le> length d"
  shows "WPA_GET_BE32 (d @ r) = sel \<longleftrightarrow> take 4 d = WPA_PUT_BE32 sel"
proof
  assume "WPA_GET_BE32 (d @ r) = sel"
  then have "take 4 (d @ r) = WPA_PUT_BE32 sel" by (rule be32_bytes [rotated]) (use assms in simp)
  then show "take 4 d = WPA_PUT_BE32 sel" using assms by simp
next
  assume "take 4 d = WPA_PUT_BE32 sel"
  then have "d @ r = WPA_PUT_BE32 sel @ drop 4 d @ r" by (metis append_assoc append_take_drop_id)
  then show "WPA_GET_BE32 (d @ r) = sel" by (simp only: get_put_be32)
qed

text \<open>The pointers the 4-way handshake uses, as bytes.\<close>

definition kde_view :: "u8 list \<Rightarrow> wpa_eapol_ie_parse \<Rightarrow> u8 list option \<times> u8 list option \<times> u8 list option \<times> u8 list option" where
  "kde_view buf ie = (bytes_at buf (k_rsn_ie ie), bytes_at buf (map_option (\<lambda>p. (p, 16)) (k_pmkid ie)),
     bytes_at buf (k_gtk ie), bytes_at buf (k_igtk ie))"

definition key_step :: "kde_element \<Rightarrow> u8 list option \<times> u8 list option \<times> u8 list option \<times> u8 list option \<Rightarrow>
    u8 list option \<times> u8 list option \<times> u8 list option \<times> u8 list option" where
  "key_step x = (\<lambda>(r, p, g, i).
     (case_option r Some (rsn_of x), case_option p Some (map_option (take 16) (kde (RSN 4) 20 x)),
      case_option g Some (kde (RSN 1) 7 x), case_option i Some (kde (RSN 9) 7 x)))"

definition element_at :: "u8 list \<Rightarrow> nat \<Rightarrow> kde_element \<Rightarrow> bool" where
  "element_at buf p x \<longleftrightarrow> element_ok x \<and> (\<exists>pre r. buf = pre @ tlv x @ r \<and> length pre = p)"

lemma element_bytes:
  assumes "element_at buf p (e, d)"
  shows "buf ! p = e" "unat (buf ! (p + 1)) = length d" "drop (p + 2) buf = d @ drop (p + 2 + length d) buf"
    "take (length d + 2) (drop p buf) = tlv (e, d)" "take (Suc (Suc (length d))) (drop p buf) = tlv (e, d)"
    "drop (p + 6) buf = drop 4 (d @ drop (p + 2 + length d) buf)" "p + 2 + length d \<le> length buf"
  using assms by (auto simp: element_at_def tlv_def element_ok_def nth_append unat_of_nat)

lemma generic_view:
  assumes "element_at buf p (e, d)" "e = WLAN_EID_VENDOR_SPECIFIC"
  obtains ie' where "wpa_parse_generic buf (length buf) p ie = (0, ie')" "kde_view buf ie' = key_step (e, d) (kde_view buf ie)"
proof -
  note b = element_bytes [OF assms(1)]
  have d: "4 \<le> length d" "length d \<noteq> 0" using assms by (auto simp: element_ok_def element_at_def)
  have "fst (wpa_parse_generic buf (length buf) p ie) = 0"
    using d unfolding wpa_parse_generic_def Let_def b by (simp only: if_False if_distrib [where f = fst] fst_conv if_cancel)
  moreover have "kde_view buf (snd (wpa_parse_generic buf (length buf) p ie)) = key_step (e, d) (kde_view buf ie)"
    using d assms(2) b(7) unfolding wpa_parse_generic_def Let_def b(1-3) selector_iff [OF d(1)]
    by (auto simp: kde_view_def key_step_def rsn_of_def kde_def b WPA_PUT_BE32_def)
  ultimately show thesis using that by (cases "wpa_parse_generic buf (length buf) p ie") auto
qed

lemma vendor_view:
  assumes "element_at buf p (e, d)" "e = WLAN_EID_VENDOR_SPECIFIC"
  obtains ie' where "wpa_parse_vendor_specific buf p ie = (0, ie')" "kde_view buf ie' = kde_view buf ie"
proof -
  have d: "\<not> length d < 4" using assms by (simp add: element_ok_def element_at_def)
  have "fst (wpa_parse_vendor_specific buf p ie) = 0"
    using d unfolding wpa_parse_vendor_specific_def Let_def element_bytes [OF assms(1)] by simp
  moreover have "kde_view buf (snd (wpa_parse_vendor_specific buf p ie)) = kde_view buf ie"
    by (auto simp: wpa_parse_vendor_specific_def Let_def kde_view_def)
  ultimately show thesis using that by (cases "wpa_parse_vendor_specific buf p ie") auto
qed

lemma element_view:
  assumes "element_at buf p (e, d)"
  obtains ie' where "parse_kde_element buf (length buf) p ie = (0, ie')" "kde_view buf ie' = key_step (e, d) (kde_view buf ie)"
proof (cases "e = WLAN_EID_VENDOR_SPECIFIC")
  case True
  obtain ie1 where 1: "wpa_parse_generic buf (length buf) p ie = (0, ie1)"
    "kde_view buf ie1 = key_step (e, d) (kde_view buf ie)" by (rule generic_view [OF assms True])
  obtain ie2 where 2: "wpa_parse_vendor_specific buf p ie1 = (0, ie2)" "kde_view buf ie2 = kde_view buf ie1"
    by (rule vendor_view [OF assms True])
  have "parse_kde_element buf (length buf) p ie = (0, ie2)"
    unfolding parse_kde_element_def Let_def element_bytes [OF assms] using True by (simp add: 1 2)
  with 1 2 that show thesis by simp
next
  case False
  have "fst (parse_kde_element buf (length buf) p ie) = 0"
    using False unfolding parse_kde_element_def Let_def element_bytes [OF assms] by simp
  moreover have "kde_view buf (snd (parse_kde_element buf (length buf) p ie)) = key_step (e, d) (kde_view buf ie)"
    using False unfolding parse_kde_element_def Let_def element_bytes [OF assms]
    by (auto simp: kde_view_def key_step_def rsn_of_def kde_def element_bytes [OF assms])
  ultimately show thesis using that by (cases "parse_kde_element buf (length buf) p ie") auto
qed

lemma fold_key_step:
  "fold key_step els (r, p, g, i) =
     (latest rsn_of els r, latest (\<lambda>x. map_option (take 16) (kde (RSN 4) 20 x)) els p, latest (kde (RSN 1) 7) els g,
      latest (kde (RSN 9) 7) els i)"
  by (induction els arbitrary: r p g i) (auto simp: key_step_def split: option.split)

lemma loop_view:
  assumes "drop p buf = concat (map tlv els) @ pd" "\<forall>x\<in>set els. element_ok x" "padding pd" "p \<le> length buf"
  shows "\<exists>ie'. parse_ies_loop buf (length buf) p ie = (0, ie') \<and> kde_view buf ie' = fold key_step els (kde_view buf ie)"
  using assms
proof (induction els arbitrary: p ie)
  case Nil
  have l: "length buf = p + length pd" using arg_cong [OF Nil.prems(1), of length] Nil.prems(4) by simp
  have "parse_ies_loop buf (length buf) p ie = (0, ie)"
  proof (cases "length pd \<le> 1")
    case False
    then have "pd ! 0 = 0xdd" "pd ! 1 = 0" using Nil.prems(3) by (auto simp: padding_def)
    moreover have "buf ! p = pd ! 0" "buf ! (p + 1) = pd ! 1"
      using Nil.prems(1,4) l False nth_drop [of p buf 0] nth_drop [of p buf 1] by auto
    ultimately show ?thesis by (simp add: loop_step [of _ _ p])
  qed (simp add: loop_step [of _ _ p] l)
  then show ?case by simp
next
  case (Cons x els)
  obtain e d where x: "x = (e, d)" by (cases x)
  have "buf = take p buf @ tlv x @ concat (map tlv els) @ pd" using append_take_drop_id [of p buf] Cons.prems(1) by simp
  moreover have "length (take p buf) = p" using Cons.prems(4) by simp
  moreover have "element_ok x" using Cons.prems(2) by simp
  ultimately have at: "element_at buf p (e, d)" unfolding element_at_def x by blast
  note b = element_bytes [OF at]
  let ?q = "p + 2 + length d"
  obtain ie1 where 1: "parse_kde_element buf (length buf) p ie = (0, ie1)" "kde_view buf ie1 = key_step x (kde_view buf ie)"
    using element_view [OF at] unfolding x by blast
  have "buf ! p = 0xdd \<longrightarrow> buf ! (p + 1) \<noteq> 0" using at b(1,2) by (auto simp: element_at_def element_ok_def)
  then have step: "parse_ies_loop buf (length buf) p ie = parse_ies_loop buf (length buf) ?q ie1"
    unfolding loop_step [of _ _ p] 1 using b(2,7) by auto
  have "drop ?q buf = drop (2 + length d) (drop p buf)" by (simp add: add_ac)
  also have "\<dots> = concat (map tlv els) @ pd" unfolding Cons.prems(1) by (simp add: x tlv_def)
  finally show ?case using Cons.IH [of ?q ie1] Cons.prems(2,3) b(7) 1(2) by (simp add: step)
qed

text \<open>C18: Well formed key data is understood: for any sequence of elements, with the padding of the standard behind
  it, the parser succeeds, and the RSN element, the PMKID, the GTK and the IGTK it points to are those of the last
  element that carries one.\<close>

theorem kde_understood:
  assumes "\<forall>x\<in>set els. element_ok x" "padding pd"
  shows "\<exists>ie. wpa_supplicant_parse_ies (concat (map tlv els) @ pd) (length (concat (map tlv els) @ pd)) = (0, ie) \<and>
    bytes_at (concat (map tlv els) @ pd) (k_rsn_ie ie) = latest rsn_of els None \<and>
    bytes_at (concat (map tlv els) @ pd) (map_option (\<lambda>p. (p, 16)) (k_pmkid ie)) =
      latest (\<lambda>x. map_option (take 16) (kde (RSN 4) 20 x)) els None \<and>
    bytes_at (concat (map tlv els) @ pd) (k_gtk ie) = latest (kde (RSN 1) 7) els None \<and>
    bytes_at (concat (map tlv els) @ pd) (k_igtk ie) = latest (kde (RSN 9) 7) els None"
proof -
  let ?b = "concat (map tlv els) @ pd"
  obtain ie where ie: "parse_ies_loop ?b (length ?b) 0 empty_parse = (0, ie)"
    "kde_view ?b ie = fold key_step els (kde_view ?b empty_parse)"
    using loop_view [of 0 ?b els pd empty_parse] assms by auto
  have "kde_view ?b empty_parse = (None, None, None, None)" by (simp add: kde_view_def empty_parse_def)
  with ie show ?thesis by (simp add: wpa_supplicant_parse_ies_def fold_key_step kde_view_def)
qed

definition example_kdes :: "kde_element list" where
  "example_kdes = [(48, drop 2 example_ie), (221, [0, 15, 172, 1, 1, 0] @ replicate 16 5)]"

theorem kde_understood_witness:
  "\<exists>ie. wpa_supplicant_parse_ies (concat (map tlv example_kdes) @ [221, 0]) (length (concat (map tlv example_kdes) @ [221, 0])) = (0, ie) \<and>
    bytes_at (concat (map tlv example_kdes) @ [221, 0]) (k_rsn_ie ie) = latest rsn_of example_kdes None \<and>
    bytes_at (concat (map tlv example_kdes) @ [221, 0]) (map_option (\<lambda>p. (p, 16)) (k_pmkid ie)) =
      latest (\<lambda>x. map_option (take 16) (kde (RSN 4) 20 x)) example_kdes None \<and>
    bytes_at (concat (map tlv example_kdes) @ [221, 0]) (k_gtk ie) = latest (kde (RSN 1) 7) example_kdes None \<and>
    bytes_at (concat (map tlv example_kdes) @ [221, 0]) (k_igtk ie) = latest (kde (RSN 9) 7) example_kdes None"
  by (rule kde_understood) (simp_all add: example_kdes_def element_ok_def padding_def example_ie_def)

lemma example_kdes_carry: "latest rsn_of example_kdes None = Some example_ie"
  "latest (kde (RSN 1) 7) example_kdes None = Some ([1, 0] @ replicate 16 5)"
  by code_simp+

text \<open>A vendor element shorter than four bytes is said to be ignored, but it ends the parser: the GTK behind it is lost.\<close>

lemma short_vendor_element_ends:
  "k_gtk (snd (wpa_supplicant_parse_ies ([221, 1, 7] @ concat (map tlv example_kdes)) (3 + length (concat (map tlv example_kdes))))) = None"
  by code_simp

end
