(* ===== verification/Wpa_Keys.thy ===== *)
theory Wpa_Keys
  imports Pmksa Rsn_Kde
begin

text \<open>
  Keys of the 4-way handshake, \<open>wpa_supplicant/src/common/wpa_common.c\<close>: which lengths and algorithms a key
  management uses, the integrity check of EAPOL-Key frames, and the derivation of the pairwise transient key, with and
  without fast transition. The hash functions and ciphers of \<open>src/crypto\<close> are parameters; \<open>None\<close> is their failure.
\<close>

section \<open>Cryptographic parameters\<close>

record wpa_crypto =
  hmac_md5 :: "u8 list \<Rightarrow> u8 list \<Rightarrow> u8 list option"
  hmac_sha1 :: "u8 list \<Rightarrow> u8 list \<Rightarrow> u8 list option"
  hmac_sha256 :: "u8 list \<Rightarrow> u8 list \<Rightarrow> u8 list option"
  hmac_sha384 :: "u8 list \<Rightarrow> u8 list \<Rightarrow> u8 list option"
  hmac_sha512 :: "u8 list \<Rightarrow> u8 list \<Rightarrow> u8 list option"
  omac1_aes_128 :: "u8 list \<Rightarrow> u8 list \<Rightarrow> u8 list option"
  sha1_prf :: "u8 list \<Rightarrow> string \<Rightarrow> u8 list \<Rightarrow> nat \<Rightarrow> u8 list option"
  sha256_prf :: "u8 list \<Rightarrow> string \<Rightarrow> u8 list \<Rightarrow> nat \<Rightarrow> u8 list option"
  sha384_prf :: "u8 list \<Rightarrow> string \<Rightarrow> u8 list \<Rightarrow> nat \<Rightarrow> u8 list option"
  sha512_prf :: "u8 list \<Rightarrow> string \<Rightarrow> u8 list \<Rightarrow> nat \<Rightarrow> u8 list option"
  sha256_vector :: "u8 list \<Rightarrow> u8 list option"
  sha384_vector :: "u8 list \<Rightarrow> u8 list option"
  rc4_skip :: "u8 list \<Rightarrow> nat \<Rightarrow> u8 list \<Rightarrow> u8 list option"
  aes_unwrap :: "u8 list \<Rightarrow> nat \<Rightarrow> u8 list \<Rightarrow> u8 list option"

section \<open>Memory and comparison\<close>

text \<open>\<open>memcpy\<close> of \<open>bs\<close> to offset \<open>p\<close> of a buffer that is long enough; the order of \<open>memcmp\<close> on equal lengths.\<close>

definition poke :: "nat \<Rightarrow> u8 list \<Rightarrow> u8 list \<Rightarrow> u8 list" where
  "poke p bs buf = take p buf @ bs @ drop (p + length bs) buf"

fun memcmp_lt :: "u8 list \<Rightarrow> u8 list \<Rightarrow> bool" where
  "memcmp_lt (a # as) (b # bs) \<longleftrightarrow> a < b \<or> (a = b \<and> memcmp_lt as bs)"
| "memcmp_lt _ _ \<longleftrightarrow> False"

definition zeros :: "nat \<Rightarrow> u8 list" where
  "zeros n = replicate n 0"

definition ascii_bytes :: "string \<Rightarrow> u8 list" where
  "ascii_bytes s = map of_char s"

section \<open>Key managements\<close>

definition wpa_key_mgmt_wpa_ieee8021x :: "u32 \<Rightarrow> bool" where
  "wpa_key_mgmt_wpa_ieee8021x akm \<longleftrightarrow>
     akm AND (WPA_KEY_MGMT_IEEE8021X OR WPA_KEY_MGMT_FT_IEEE8021X OR WPA_KEY_MGMT_FT_IEEE8021X_SHA384 OR WPA_KEY_MGMT_CCKM OR
       WPA_KEY_MGMT_OSEN OR WPA_KEY_MGMT_IEEE8021X_SHA256 OR WPA_KEY_MGMT_IEEE8021X_SUITE_B OR
       WPA_KEY_MGMT_IEEE8021X_SUITE_B_192 OR WPA_KEY_MGMT_FILS_SHA256 OR WPA_KEY_MGMT_FILS_SHA384 OR
       WPA_KEY_MGMT_FT_FILS_SHA256 OR WPA_KEY_MGMT_FT_FILS_SHA384) \<noteq> 0"

definition wpa_key_mgmt_wpa_psk :: "u32 \<Rightarrow> bool" where
  "wpa_key_mgmt_wpa_psk akm \<longleftrightarrow>
     akm AND (WPA_KEY_MGMT_PSK OR WPA_KEY_MGMT_FT_PSK OR WPA_KEY_MGMT_PSK_SHA256 OR WPA_KEY_MGMT_SAE OR WPA_KEY_MGMT_FT_SAE) \<noteq> 0"

definition wpa_key_mgmt_ft :: "u32 \<Rightarrow> bool" where
  "wpa_key_mgmt_ft akm \<longleftrightarrow>
     akm AND (WPA_KEY_MGMT_FT_PSK OR WPA_KEY_MGMT_FT_IEEE8021X OR WPA_KEY_MGMT_FT_IEEE8021X_SHA384 OR WPA_KEY_MGMT_FT_SAE OR
       WPA_KEY_MGMT_FT_FILS_SHA256 OR WPA_KEY_MGMT_FT_FILS_SHA384) \<noteq> 0"

definition wpa_key_mgmt_sae :: "u32 \<Rightarrow> bool" where
  "wpa_key_mgmt_sae akm \<longleftrightarrow> akm AND (WPA_KEY_MGMT_SAE OR WPA_KEY_MGMT_FT_SAE) \<noteq> 0"

definition wpa_key_mgmt_fils :: "u32 \<Rightarrow> bool" where
  "wpa_key_mgmt_fils akm \<longleftrightarrow> akm AND (WPA_KEY_MGMT_FILS_SHA256 OR WPA_KEY_MGMT_FILS_SHA384 OR
     WPA_KEY_MGMT_FT_FILS_SHA256 OR WPA_KEY_MGMT_FT_FILS_SHA384) \<noteq> 0"

definition wpa_kck_len :: "u32 \<Rightarrow> nat \<Rightarrow> nat" where
  "wpa_kck_len akm pmk_len =
     (if akm \<in> {WPA_KEY_MGMT_IEEE8021X_SUITE_B_192, WPA_KEY_MGMT_FT_IEEE8021X_SHA384} then 24
      else if akm \<in> {WPA_KEY_MGMT_FILS_SHA256, WPA_KEY_MGMT_FT_FILS_SHA256, WPA_KEY_MGMT_FILS_SHA384,
        WPA_KEY_MGMT_FT_FILS_SHA384} then 0
      else if akm = WPA_KEY_MGMT_DPP \<or> akm = WPA_KEY_MGMT_OWE then pmk_len div 2 else 16)"

definition wpa_kck2_len :: "u32 \<Rightarrow> nat" where
  "wpa_kck2_len akm =
     (if akm = WPA_KEY_MGMT_FT_FILS_SHA256 then 16 else if akm = WPA_KEY_MGMT_FT_FILS_SHA384 then 24 else 0)"

definition wpa_kek_len :: "u32 \<Rightarrow> nat \<Rightarrow> nat" where
  "wpa_kek_len akm pmk_len =
     (if akm \<in> {WPA_KEY_MGMT_FILS_SHA384, WPA_KEY_MGMT_FT_FILS_SHA384} then 64
      else if akm \<in> {WPA_KEY_MGMT_IEEE8021X_SUITE_B_192, WPA_KEY_MGMT_FILS_SHA256, WPA_KEY_MGMT_FT_FILS_SHA256,
        WPA_KEY_MGMT_FT_IEEE8021X_SHA384} then 32
      else if akm = WPA_KEY_MGMT_DPP \<or> akm = WPA_KEY_MGMT_OWE then (if pmk_len \<le> 32 then 16 else 32) else 16)"

definition wpa_kek2_len :: "u32 \<Rightarrow> nat" where
  "wpa_kek2_len akm =
     (if akm = WPA_KEY_MGMT_FT_FILS_SHA256 then 16 else if akm = WPA_KEY_MGMT_FT_FILS_SHA384 then 32 else 0)"

definition wpa_mic_len :: "u32 \<Rightarrow> nat \<Rightarrow> nat" where
  "wpa_mic_len akm pmk_len =
     (if akm \<in> {WPA_KEY_MGMT_IEEE8021X_SUITE_B_192, WPA_KEY_MGMT_FT_IEEE8021X_SHA384} then 24
      else if akm \<in> {WPA_KEY_MGMT_FILS_SHA256, WPA_KEY_MGMT_FILS_SHA384, WPA_KEY_MGMT_FT_FILS_SHA256,
        WPA_KEY_MGMT_FT_FILS_SHA384} then 0
      else if akm = WPA_KEY_MGMT_DPP \<or> akm = WPA_KEY_MGMT_OWE then pmk_len div 2 else 16)"

definition wpa_use_akm_defined :: "u32 \<Rightarrow> bool" where
  "wpa_use_akm_defined akm \<longleftrightarrow> akm = WPA_KEY_MGMT_OSEN \<or> akm = WPA_KEY_MGMT_OWE \<or> akm = WPA_KEY_MGMT_DPP \<or>
     akm = WPA_KEY_MGMT_FT_IEEE8021X_SHA384 \<or> wpa_key_mgmt_sae akm \<or> wpa_key_mgmt_suite_b akm \<or> wpa_key_mgmt_fils akm"

definition wpa_use_aes_key_wrap :: "u32 \<Rightarrow> bool" where
  "wpa_use_aes_key_wrap akm \<longleftrightarrow> akm = WPA_KEY_MGMT_OSEN \<or> akm = WPA_KEY_MGMT_OWE \<or> akm = WPA_KEY_MGMT_DPP \<or>
     wpa_key_mgmt_ft akm \<or> wpa_key_mgmt_sha256 akm \<or> wpa_key_mgmt_sae akm \<or> wpa_key_mgmt_suite_b akm"

section \<open>Integrity of a frame\<close>

abbreviation (input) WPA_KEY_INFO_TYPE_HMAC_MD5_RC4 :: u16 where "WPA_KEY_INFO_TYPE_HMAC_MD5_RC4 \<equiv> 1"
abbreviation (input) WPA_KEY_INFO_TYPE_HMAC_SHA1_AES :: u16 where "WPA_KEY_INFO_TYPE_HMAC_SHA1_AES \<equiv> 2"
abbreviation (input) WPA_KEY_INFO_TYPE_AES_128_CMAC :: u16 where "WPA_KEY_INFO_TYPE_AES_128_CMAC \<equiv> 3"

text \<open>The bytes written to the MIC field, or \<open>None\<close> for an error.\<close>

definition wpa_eapol_key_mic :: "wpa_crypto \<Rightarrow> u8 list \<Rightarrow> u32 \<Rightarrow> u16 \<Rightarrow> u8 list \<Rightarrow> u8 list option" where
  "wpa_eapol_key_mic C key akm ver buf =
     (if key = [] then None
      else if ver = WPA_KEY_INFO_TYPE_HMAC_MD5_RC4 then hmac_md5 C key buf
      else if ver = WPA_KEY_INFO_TYPE_HMAC_SHA1_AES then map_option (take 16) (hmac_sha1 C key buf)
      else if ver = WPA_KEY_INFO_TYPE_AES_128_CMAC then omac1_aes_128 C key buf
      else if ver = 0
      then if akm = WPA_KEY_MGMT_SAE \<or> akm = WPA_KEY_MGMT_FT_SAE \<or> akm = WPA_KEY_MGMT_OSEN then omac1_aes_128 C key buf
        else if akm = WPA_KEY_MGMT_DPP
        then map_option (take (length key))
          (if length key = 16 then hmac_sha256 C key buf else if length key = 24 then hmac_sha384 C key buf
           else if length key = 32 then hmac_sha512 C key buf else None)
        else if akm = WPA_KEY_MGMT_FT_IEEE8021X_SHA384 then map_option (take 24) (hmac_sha384 C key buf)
        else None
      else None)"

section \<open>Pairwise transient key\<close>

text \<open>Buffers with their lengths, as in \<open>struct wpa_ptk\<close>.\<close>

record wpa_ptk =
  kck_buf :: "u8 list"
  kek_buf :: "u8 list"
  tk_buf :: "u8 list"
  kck2_buf :: "u8 list"
  kek2_buf :: "u8 list"
  kck_len :: nat
  kek_len :: nat
  tk_len :: nat
  kck2_len :: nat
  kek2_len :: nat
  ptk_installed :: bool

definition no_ptk :: wpa_ptk where
  "no_ptk = \<lparr>kck_buf = zeros 32, kek_buf = zeros 64, tk_buf = zeros 32, kck2_buf = zeros 32, kek2_buf = zeros 64,
     kck_len = 0, kek_len = 0, tk_len = 0, kck2_len = 0, kek2_len = 0, ptk_installed = False\<rparr>"

definition ptk_kck :: "wpa_ptk \<Rightarrow> u8 list" where "ptk_kck p = take (kck_len p) (kck_buf p)"
definition ptk_kek :: "wpa_ptk \<Rightarrow> u8 list" where "ptk_kek p = take (kek_len p) (kek_buf p)"
definition ptk_tk :: "wpa_ptk \<Rightarrow> u8 list" where "ptk_tk p = take (tk_len p) (tk_buf p)"

definition pmk_to_ptk_data :: "u8 list \<Rightarrow> u8 list \<Rightarrow> u8 list \<Rightarrow> u8 list \<Rightarrow> u8 list \<Rightarrow> u8 list" where
  "pmk_to_ptk_data addr1 addr2 nonce1 nonce2 z =
     (if memcmp_lt addr1 addr2 then addr1 @ addr2 else addr2 @ addr1) @
     (if memcmp_lt nonce1 nonce2 then nonce1 @ nonce2 else nonce2 @ nonce1) @ z"

text \<open>SHA-384 without DPP needs Suite B 192 or FILS, which are not built. \<open>tmp\<close> is the output of the PRF.\<close>

definition pmk_to_ptk_prf :: "wpa_crypto \<Rightarrow> u8 list \<Rightarrow> string \<Rightarrow> u8 list \<Rightarrow> u32 \<Rightarrow> nat \<Rightarrow> u8 list option" where
  "pmk_to_ptk_prf C key label data akm n =
     (if wpa_key_mgmt_sha384 akm then None
      else if wpa_key_mgmt_sha256 akm \<or> akm = WPA_KEY_MGMT_OWE then sha256_prf C key label data n
      else if akm = WPA_KEY_MGMT_DPP
      then (if length key = 32 then sha256_prf C key label data n else if length key = 48 then sha384_prf C key label data n
            else if length key = 64 then sha512_prf C key label data n else None)
      else sha1_prf C key label data n)"

text \<open>The derivation as the pair of its result and the record, whose lengths are set even when it fails.\<close>

definition wpa_pmk_to_ptk ::
    "wpa_crypto \<Rightarrow> u8 list \<Rightarrow> string \<Rightarrow> u8 list \<Rightarrow> u8 list \<Rightarrow> u8 list \<Rightarrow> u8 list \<Rightarrow> wpa_ptk \<Rightarrow> u32 \<Rightarrow> u32 \<Rightarrow> u8 list \<Rightarrow>
     int \<times> wpa_ptk" where
  "wpa_pmk_to_ptk C key label addr1 addr2 nonce1 nonce2 p akm cipher z =
     (if key = [] then (- 1, p)
      else if length z > 66 then (- 1, p)
      else
        let p = p\<lparr>kck_len := wpa_kck_len akm (length key), kek_len := wpa_kek_len akm (length key),
                  tk_len := wpa_cipher_key_len cipher\<rparr>
        in if tk_len p = 0 then (- 1, p)
           else case pmk_to_ptk_prf C key label (pmk_to_ptk_data addr1 addr2 nonce1 nonce2 z) akm
               (kck_len p + kek_len p + tk_len p) of
             None \<Rightarrow> (- 1, p)
           | Some tmp \<Rightarrow>
               (0, p\<lparr>kck_buf := poke 0 (take (kck_len p) tmp) (kck_buf p),
                     kek_buf := poke 0 (take (kek_len p) (drop (kck_len p) tmp)) (kek_buf p),
                     tk_buf := poke 0 (take (tk_len p) (drop (kck_len p + kek_len p) tmp)) (tk_buf p),
                     kek2_len := 0, kck2_len := 0\<rparr>))"

section \<open>Fast transition\<close>

text \<open>What the derivations of PMK-R0 and PMK-R1 write: \<open>None\<close> for nothing, then the key, and the name unless its hash
  fails. They succeed when both are written.\<close>

definition wpa_derive_pmk_r0 ::
    "wpa_crypto \<Rightarrow> u8 list \<Rightarrow> u8 list \<Rightarrow> u8 list \<Rightarrow> u8 list \<Rightarrow> u8 list \<Rightarrow> bool \<Rightarrow> (u8 list \<times> u8 list option) option" where
  "wpa_derive_pmk_r0 C key ss mdid r0kh s0kh use_sha384 =
     (let q = (if use_sha384 then 48 else 32);
          data = of_nat (length ss) # ss @ mdid @ of_nat (length r0kh) # r0kh @ s0kh
      in if length ss > 32 \<or> length r0kh > 48 then None
         else if length key \<noteq> q then None
         else map_option (\<lambda>d. (take q d, map_option (take 16)
             ((if use_sha384 then sha384_vector C else sha256_vector C) (ascii_bytes ''FT-R0N'' @ take 16 (drop q d)))))
           ((if use_sha384 then sha384_prf C else sha256_prf C) key ''FT-R0'' data (q + 16)))"

definition wpa_derive_pmk_r1_name ::
    "wpa_crypto \<Rightarrow> u8 list \<Rightarrow> u8 list \<Rightarrow> u8 list \<Rightarrow> bool \<Rightarrow> u8 list option" where
  "wpa_derive_pmk_r1_name C r0_name r1kh s1kh use_sha384 =
     map_option (take 16)
       ((if use_sha384 then sha384_vector C else sha256_vector C) (ascii_bytes ''FT-R1N'' @ r0_name @ r1kh @ s1kh))"

definition wpa_derive_pmk_r1 ::
    "wpa_crypto \<Rightarrow> u8 list \<Rightarrow> u8 list \<Rightarrow> u8 list \<Rightarrow> u8 list \<Rightarrow> (u8 list \<times> u8 list option) option" where
  "wpa_derive_pmk_r1 C r0 r0_name r1kh s1kh =
     map_option (\<lambda>r1. (r1, wpa_derive_pmk_r1_name C r0_name r1kh s1kh (length r0 = 48)))
       (if length r0 = 48 then sha384_prf C r0 ''FT-R1'' (r1kh @ s1kh) (length r0)
        else if length r0 = 32 then sha256_prf C r0 ''FT-R1'' (r1kh @ s1kh) (length r0) else None)"

definition wpa_pmk_r1_to_ptk ::
    "wpa_crypto \<Rightarrow> u8 list \<Rightarrow> u8 list \<Rightarrow> u8 list \<Rightarrow> u8 list \<Rightarrow> u8 list \<Rightarrow> u8 list \<Rightarrow> wpa_ptk \<Rightarrow> u32 \<Rightarrow> u32 \<Rightarrow>
     int \<times> wpa_ptk" where
  "wpa_pmk_r1_to_ptk C r1 sn an sta bss r1_name p akm cipher =
     (let data = sn @ an @ bss @ sta; use_sha384 = wpa_key_mgmt_sha384 akm;
          p = p\<lparr>kck_len := wpa_kck_len akm 32, kck2_len := wpa_kck2_len akm, kek_len := wpa_kek_len akm 32,
                kek2_len := wpa_kek2_len akm, tk_len := wpa_cipher_key_len cipher\<rparr>;
          n = kck_len p + kek_len p + tk_len p + kck2_len p + kek2_len p
      in if length r1 \<noteq> (if use_sha384 then 48 else 32) then (- 1, p)
         else case (if use_sha384 then sha384_prf C else sha256_prf C) r1 ''FT-PTK'' data n of
             None \<Rightarrow> (- 1, p)
           | Some tmp \<Rightarrow>
               if sha256_vector C (r1_name @ ascii_bytes ''FT-PTKN'' @ data) = None then (- 1, p)
               else
                 let o1 = kck_len p; o2 = o1 + kek_len p; o3 = o2 + tk_len p; o4 = o3 + kck2_len p
                 in (0, p\<lparr>kck_buf := poke 0 (take (kck_len p) tmp) (kck_buf p),
                          kek_buf := poke 0 (take (kek_len p) (drop o1 tmp)) (kek_buf p),
                          tk_buf := poke 0 (take (tk_len p) (drop o2 tmp)) (tk_buf p),
                          kck2_buf := poke 0 (take (kck2_len p) (drop o3 tmp)) (kck2_buf p),
                          kek2_buf := poke 0 (take (kek2_len p) (drop o4 tmp)) (kek2_buf p)\<rparr>))"

end
