(* ===== verification/Wpa_Sm.thy ===== *)
theory Wpa_Sm
  imports Wpa_Keys
begin

text \<open>
  The WPA state machine of \<open>wpa_supplicant/src/rsn_supp/wpa.c\<close>: its state, the EAPOL-Key messages it sends, the
  pairwise master key it takes, and message 1 of the 4-way handshake. The fields that the PMKSA cache shares with it are
  the record \<open>wpa_sm\<close> of \<open>Pmksa\<close>, here the field \<open>cache\<close>. Calls out of the state machine are entries of \<open>hs_outs\<close>.
  A received frame is the list of its bytes from the EAPOL header on.
\<close>

section \<open>State\<close>

datatype wpa_states =
  WPA_DISCONNECTED | WPA_INTERFACE_DISABLED | WPA_INACTIVE | WPA_SCANNING | WPA_AUTHENTICATING | WPA_ASSOCIATING
  | WPA_ASSOCIATED | WPA_4WAY_HANDSHAKE | WPA_GROUP_HANDSHAKE | WPA_COMPLETED

text \<open>\<open>Set_Key\<close> has the algorithm, the address (\<open>None\<close> for \<open>NULL\<close>), the index, the transmit flag, the sequence counter, the
  key and what the driver answered. \<open>Random_Snonce\<close> records a nonce drawn for the 4-way handshake, \<open>Random_Ft_Snonce\<close> one
  for fast transition.\<close>

datatype wpa_out =
  Set_Key wpa_alg "u8 list option" nat bool "u8 list" "u8 list" int
  | Ether_Send "u8 list" "u8 list"
  | Set_State wpa_states
  | Deauth nat
  | Random_Snonce "u8 list"
  | Random_Ft_Snonce "u8 list"
  | Key_Mgmt_Set_Pmk "u8 list"
  | Set_Protection "u8 list" nat nat
  | Rekey_Offload "u8 list" "u8 list" "u8 list"
  | Cancel_Auth_Timeout
  | Notify_Cached | Notify_Tx_Eapol_Key | Notify_Lower_Layer_Success
  | Port_Valid bool | Eap_Success bool
  | Cancel_Rekey | Register_Rekey nat
  | Cancel_Preauth | Register_Preauth
  | Preauth_Open | Preauth_Open_Bridge | Preauth_Close | Preauth_Close_Bridge
  | Preauth_Eapol_Start "u8 list" | Preauth_Eapol_Stop | Preauth_Rx "u8 list" | Preauth_Send "u8 list" "u8 list"
  | Register_Preauth_Timeout u32 | Cancel_Preauth_Timeout
  | Update_Ft_Ies "u8 list" "u8 list"
  | Mark_Authenticated "u8 list"
  | Send_Ft_Action "u8 list" "u8 list"

record hs_sm =
  cache :: wpa_sm
  ptk :: wpa_ptk
  tptk :: wpa_ptk
  ptk_set :: bool
  tptk_set :: bool
  msg_3_of_4_ok :: bool
  snonce :: "u8 list"
  anonce :: "u8 list"
  renew_snonce :: bool
  rx_replay_counter :: "u8 list"
  rx_replay_counter_set :: bool
  request_counter :: "u8 list"
  gtk :: "u8 list"
  gtk_wnm_sleep :: "u8 list"
  igtk :: "u8 list"
  igtk_wnm_sleep :: "u8 list"
  has_eapol :: bool
  pmksa_candidates :: "(u8 list \<times> int) list"
  preauth_eapol :: bool
  preauth_bssid :: "u8 list"
  l2_preauth :: bool
  l2_preauth_br :: bool
  bridge_ifname :: bool
  allowed_pairwise_cipher :: u32
  proactive_key_caching :: int
  eap_workaround :: int
  fast_reauth :: int
  dot11RSNAConfigSATimeout :: u32
  ssid :: "u8 list"
  wpa_ptk_rekey :: nat
  p2p :: bool
  wpa_rsc_relaxation :: bool
  proto :: u32
  pairwise_cipher :: u32
  group_cipher :: u32
  mgmt_group_cipher :: u32
  rsn_enabled :: bool
  mfp :: int
  ocv :: bool
  assoc_wpa_ie :: "u8 list option"
  ap_wpa_ie :: "u8 list option"
  ap_rsn_ie :: "u8 list option"
  pmk_r0 :: "u8 list"
  pmk_r0_len :: nat
  pmk_r0_name :: "u8 list"
  pmk_r1 :: "u8 list"
  pmk_r1_len :: nat
  pmk_r1_name :: "u8 list"
  mobility_domain :: "u8 list"
  r0kh_id :: "u8 list"
  r1kh_id :: "u8 list"
  ft_completed :: bool
  ft_reassoc_completed :: bool
  ft_protocol :: bool
  over_the_ds_in_progress :: bool
  target_ap :: "u8 list"
  set_ptk_after_assoc :: bool
  mdie_ft_capab :: u8
  assoc_resp_ies :: "u8 list option"
  p2p_ip_addr :: "u8 list"
  handshake_failures :: u32
  wpa_state :: wpa_states
  hs_outs :: "wpa_out list"

text \<open>What a call finds outside: the cryptography, what the PMKSA cache needs, whether memory can be allocated
  (by the place in the code), the results of the driver, whether a socket or state machine can be opened, random bytes,
  the keys of the EAPOL machine by their length, the elements of the access point in the scan results, and the version
  byte of the configuration.\<close>

datatype mem_site = Mem_Frame | Mem_Ie | Mem_Kde | Mem_Copy | Mem_Unwrap | Mem_Set | Mem_Candidate | Mem_Eapol

datatype init_site = L2_Preauth | L2_Preauth_Br | Preauth_Eapol

record wpa_env =
  crypto :: wpa_crypto
  cache_env :: pmksa_env
  mem_ok :: "mem_site \<Rightarrow> bool"
  set_key_result :: "wpa_alg \<Rightarrow> u8 list option \<Rightarrow> nat \<Rightarrow> bool \<Rightarrow> u8 list \<Rightarrow> u8 list \<Rightarrow> int"
  send_result :: int
  init_ok :: "init_site \<Rightarrow> bool"
  driver_bssid :: "u8 list option"
  random_bytes :: "u8 list option"
  eapol_key :: "nat \<Rightarrow> u8 list option"
  beacon_ies :: "(u8 list option \<times> u8 list option) option"
  has_network :: bool
  eapol_version :: u8

section \<open>Accessors and small operations\<close>

definition hs_emit :: "wpa_out \<Rightarrow> hs_sm \<Rightarrow> hs_sm" where
  "hs_emit e sm = sm\<lparr>hs_outs := hs_outs sm @ [e]\<rparr>"

definition wpa_sm_set_state :: "wpa_states \<Rightarrow> hs_sm \<Rightarrow> hs_sm" where
  "wpa_sm_set_state s sm = hs_emit (Set_State s) (sm\<lparr>wpa_state := s\<rparr>)"

definition wpa_sm_deauthenticate :: "nat \<Rightarrow> hs_sm \<Rightarrow> hs_sm" where
  "wpa_sm_deauthenticate reason sm = hs_emit (Deauth reason) sm"

definition akm :: "hs_sm \<Rightarrow> u32" where "akm sm = key_mgmt (cache sm)"
definition pmk_of :: "hs_sm \<Rightarrow> u8 list" where "pmk_of sm = sm_pmk (cache sm)"
definition mic_len :: "hs_sm \<Rightarrow> nat" where "mic_len sm = wpa_mic_len (akm sm) (length (pmk_of sm))"
definition is_rsn :: "hs_sm \<Rightarrow> bool" where "is_rsn sm \<longleftrightarrow> proto sm = WPA_PROTO_RSN \<or> proto sm = WPA_PROTO_OSEN"

definition set_cache :: "(wpa_sm \<Rightarrow> wpa_sm) \<Rightarrow> hs_sm \<Rightarrow> hs_sm" where
  "set_cache f sm = sm\<lparr>cache := f (cache sm)\<rparr>"

text \<open>\<open>struct ieee802_1x_hdr\<close> and \<open>struct wpa_eapol_key\<close> of a frame.\<close>

definition hdr_type :: "u8 list \<Rightarrow> u8" where "hdr_type buf = buf ! 1"
definition hdr_length :: "u8 list \<Rightarrow> nat" where "hdr_length buf = unat (WPA_GET_BE16 (drop 2 buf))"
definition k_type :: "u8 list \<Rightarrow> u8" where "k_type buf = buf ! 4"
definition k_key_info :: "u8 list \<Rightarrow> u16" where "k_key_info buf = WPA_GET_BE16 (drop 5 buf)"
definition k_key_length :: "u8 list \<Rightarrow> u8 list" where "k_key_length buf = take 2 (drop 7 buf)"
definition k_replay_counter :: "u8 list \<Rightarrow> u8 list" where "k_replay_counter buf = take 8 (drop 9 buf)"
definition k_key_nonce :: "u8 list \<Rightarrow> u8 list" where "k_key_nonce buf = take 32 (drop 17 buf)"
definition k_key_iv :: "u8 list \<Rightarrow> u8 list" where "k_key_iv buf = take 16 (drop 49 buf)"
definition k_key_rsc :: "u8 list \<Rightarrow> u8 list" where "k_key_rsc buf = take 8 (drop 65 buf)"
definition k_mic :: "nat \<Rightarrow> u8 list \<Rightarrow> u8 list" where "k_mic n buf = take n (drop 81 buf)"

abbreviation (input) WPA_KEY_INFO_KEY_TYPE :: u16 where "WPA_KEY_INFO_KEY_TYPE \<equiv> 0x8"
abbreviation (input) WPA_KEY_INFO_KEY_INDEX_MASK :: u16 where "WPA_KEY_INFO_KEY_INDEX_MASK \<equiv> 0x30"
abbreviation (input) WPA_KEY_INFO_INSTALL :: u16 where "WPA_KEY_INFO_INSTALL \<equiv> 0x40"
abbreviation (input) WPA_KEY_INFO_ACK :: u16 where "WPA_KEY_INFO_ACK \<equiv> 0x80"
abbreviation (input) WPA_KEY_INFO_MIC :: u16 where "WPA_KEY_INFO_MIC \<equiv> 0x100"
abbreviation (input) WPA_KEY_INFO_SECURE :: u16 where "WPA_KEY_INFO_SECURE \<equiv> 0x200"
abbreviation (input) WPA_KEY_INFO_ERROR :: u16 where "WPA_KEY_INFO_ERROR \<equiv> 0x400"
abbreviation (input) WPA_KEY_INFO_REQUEST :: u16 where "WPA_KEY_INFO_REQUEST \<equiv> 0x800"
abbreviation (input) WPA_KEY_INFO_ENCR_KEY_DATA :: u16 where "WPA_KEY_INFO_ENCR_KEY_DATA \<equiv> 0x1000"
abbreviation (input) WPA_KEY_INFO_SMK_MESSAGE :: u16 where "WPA_KEY_INFO_SMK_MESSAGE \<equiv> 0x2000"

definition info_bit :: "u16 \<Rightarrow> u16 \<Rightarrow> bool" where
  "info_bit info b \<longleftrightarrow> info AND b \<noteq> 0"

section \<open>Sending\<close>

definition wpa_eapol_key_send ::
    "wpa_env \<Rightarrow> wpa_ptk \<Rightarrow> u16 \<Rightarrow> u8 list \<Rightarrow> u8 list \<Rightarrow> bool \<Rightarrow> hs_sm \<Rightarrow> int \<times> hs_sm" where
  "wpa_eapol_key_send E key ver dest msg with_mic sm =
     (let (dest, sm) =
        (if dest = zeros 6 \<and> bssid (cache sm) = zeros 6
         then case driver_bssid E of
             None \<Rightarrow> (dest, sm)
           | Some b \<Rightarrow> (b, set_cache (\<lambda>c. c\<lparr>bssid := b\<rparr>) sm)
         else (dest, sm))
      in if mic_len sm = 0 then (- 1, sm)
         else case (if \<not> with_mic then Some msg
             else if kck_len key = 0 then None
             else map_option (\<lambda>m. poke 81 m msg) (wpa_eapol_key_mic (crypto E) (ptk_kck key) (akm sm) ver msg)) of
           None \<Rightarrow> (- 1, sm)
         | Some msg \<Rightarrow> (send_result E, hs_emit Notify_Tx_Eapol_Key (hs_emit (Ether_Send dest msg) sm)))"

text \<open>A frame with the fields that the messages set; the others, and the MIC, are zero.\<close>

definition eapol_key_frame ::
    "wpa_env \<Rightarrow> hs_sm \<Rightarrow> u16 \<Rightarrow> u8 list \<Rightarrow> u8 list \<Rightarrow> u8 list \<Rightarrow> u8 list \<Rightarrow> u8 list" where
  "eapol_key_frame E sm info key_length replay nonce data =
     [eapol_version E, 3] @ WPA_PUT_BE16 (of_nat (77 + mic_len sm + 2 + length data)) @
     [if is_rsn sm then 2 else 254] @ WPA_PUT_BE16 info @ key_length @ replay @ nonce @ zeros 16 @ zeros 8 @ zeros 8 @
     zeros (mic_len sm) @ WPA_PUT_BE16 (of_nat (length data)) @ data"

definition reply_key_length :: "hs_sm \<Rightarrow> u8 list \<Rightarrow> u8 list" where
  "reply_key_length sm buf = (if is_rsn sm then [0, 0] else k_key_length buf)"

definition mic_or_encr :: "hs_sm \<Rightarrow> u16" where
  "mic_or_encr sm = (if mic_len sm \<noteq> 0 then WPA_KEY_INFO_MIC else WPA_KEY_INFO_ENCR_KEY_DATA)"

text \<open>Fast transition puts the PMKR1Name into the element, in a buffer with 20 spare bytes, and the elements of the
  association response behind it.\<close>

definition ie_of_2_of_4 :: "wpa_env \<Rightarrow> u8 list \<Rightarrow> hs_sm \<Rightarrow> u8 list option" where
  "ie_of_2_of_4 E ie sm =
     (if wpa_key_mgmt_ft (akm sm)
      then if \<not> mem_ok E Mem_Ie then None
        else case wpa_insert_pmkid (ie @ zeros (2 + 2 + 16 + length (case_option [] id (assoc_resp_ies sm))))
            (length ie) (pmk_r1_name sm) of
          Inl e \<Rightarrow> None
        | Inr (m, len) \<Rightarrow> Some (take len m @ case_option [] id (assoc_resp_ies sm))
      else Some ie)"

definition wpa_supplicant_send_2_of_4 ::
    "wpa_env \<Rightarrow> u8 list \<Rightarrow> u8 list \<Rightarrow> u16 \<Rightarrow> u8 list \<Rightarrow> u8 list option \<Rightarrow> wpa_ptk \<Rightarrow> hs_sm \<Rightarrow> int \<times> hs_sm" where
  "wpa_supplicant_send_2_of_4 E dst buf ver nonce wpa_ie key sm =
     (case wpa_ie of
        None \<Rightarrow> (- 1, sm)
      | Some ie \<Rightarrow>
          case ie_of_2_of_4 E ie sm of
            None \<Rightarrow> (- 1, sm)
          | Some ie \<Rightarrow>
              if \<not> mem_ok E Mem_Frame then (- 1, sm)
              else wpa_eapol_key_send E key ver dst
                (eapol_key_frame E sm (ver OR WPA_KEY_INFO_KEY_TYPE OR mic_or_encr sm) (reply_key_length sm buf)
                  (k_replay_counter buf) nonce ie) True sm)"

definition wpa_supplicant_send_4_of_4 ::
    "wpa_env \<Rightarrow> u8 list \<Rightarrow> u8 list \<Rightarrow> u16 \<Rightarrow> u16 \<Rightarrow> wpa_ptk \<Rightarrow> hs_sm \<Rightarrow> int \<times> hs_sm" where
  "wpa_supplicant_send_4_of_4 E dst buf ver key_info key sm =
     (if \<not> mem_ok E Mem_Frame then (- 1, sm)
      else wpa_eapol_key_send E key ver dst
        (eapol_key_frame E sm ((key_info AND WPA_KEY_INFO_SECURE) OR ver OR WPA_KEY_INFO_KEY_TYPE OR mic_or_encr sm)
          (reply_key_length sm buf) (k_replay_counter buf) (zeros 32) []) True sm)"

definition wpa_supplicant_send_2_of_2 ::
    "wpa_env \<Rightarrow> u8 list \<Rightarrow> u16 \<Rightarrow> u16 \<Rightarrow> hs_sm \<Rightarrow> int \<times> hs_sm" where
  "wpa_supplicant_send_2_of_2 E buf ver key_info sm =
     (if \<not> mem_ok E Mem_Frame then (- 1, sm)
      else wpa_eapol_key_send E (ptk sm) ver (bssid (cache sm))
        (eapol_key_frame E sm ((key_info AND WPA_KEY_INFO_KEY_INDEX_MASK) OR ver OR WPA_KEY_INFO_SECURE OR mic_or_encr sm)
          (reply_key_length sm buf) (k_replay_counter buf) (zeros 32) []) True sm)"

definition request_ver :: "hs_sm \<Rightarrow> u16" where
  "request_ver sm =
     (if wpa_use_akm_defined (akm sm) then 0
      else if wpa_key_mgmt_ft (akm sm) \<or> wpa_key_mgmt_sha256 (akm sm) then WPA_KEY_INFO_TYPE_AES_128_CMAC
      else if pairwise_cipher sm \<noteq> WPA_CIPHER_TKIP then WPA_KEY_INFO_TYPE_HMAC_SHA1_AES
      else WPA_KEY_INFO_TYPE_HMAC_MD5_RC4)"

definition wpa_sm_key_request :: "wpa_env \<Rightarrow> bool \<Rightarrow> bool \<Rightarrow> hs_sm \<Rightarrow> hs_sm" where
  "wpa_sm_key_request E error pw sm =
     (case driver_bssid E of
        None \<Rightarrow> sm
      | Some b \<Rightarrow>
          if \<not> mem_ok E Mem_Frame then sm
          else
            let info = WPA_KEY_INFO_REQUEST OR request_ver sm OR (if ptk_set sm then WPA_KEY_INFO_SECURE else 0) OR
                  (if ptk_set sm \<and> mic_len sm \<noteq> 0 then WPA_KEY_INFO_MIC else 0) OR
                  (if error then WPA_KEY_INFO_ERROR else 0) OR (if pw then WPA_KEY_INFO_KEY_TYPE else 0);
                msg = eapol_key_frame E sm info [0, 0] (request_counter sm) (zeros 32) [];
                sm = sm\<lparr>request_counter := inc_byte_array (request_counter sm)\<rparr>
            in snd (wpa_eapol_key_send E (ptk sm) (request_ver sm) b msg (info_bit info WPA_KEY_INFO_MIC) sm))"

definition wpa_sm_rekey_ptk :: "wpa_env \<Rightarrow> hs_sm \<Rightarrow> hs_sm" where
  "wpa_sm_rekey_ptk E sm = wpa_sm_key_request E False True sm"

section \<open>Pairwise master key\<close>

definition wpa_supplicant_key_mgmt_set_pmk :: "hs_sm \<Rightarrow> hs_sm" where
  "wpa_supplicant_key_mgmt_set_pmk sm =
     hs_emit (Key_Mgmt_Set_Pmk (if akm sm = WPA_KEY_MGMT_FT_IEEE8021X then xxkey (cache sm) else pmk_of sm)) sm"

text \<open>The current entry; the cache never leaves a dangling pointer, for which the field would be ignored here.\<close>

definition cur_entry :: "hs_sm \<Rightarrow> rsn_pmksa_cache_entry option" where
  "cur_entry sm = (case cur_pmksa (cache sm) of None \<Rightarrow> None | Some p \<Rightarrow> entry_at p (cache sm))"

definition set_current :: "nat option \<Rightarrow> hs_sm \<Rightarrow> hs_sm" where
  "set_current p sm = set_cache (\<lambda>c. c\<lparr>cur_pmksa := p\<rparr>) sm"

definition current_if_none :: "nat option \<Rightarrow> hs_sm \<Rightarrow> hs_sm" where
  "current_if_none p sm = (if cur_pmksa (cache sm) = None then set_current p sm else sm)"

definition cache_key :: "wpa_env \<Rightarrow> u8 list \<Rightarrow> u8 list option \<Rightarrow> u8 list \<Rightarrow> hs_sm \<Rightarrow> nat option \<times> hs_sm" where
  "cache_key E key kck addr sm =
     (let c = cache sm;
          (p, c) = pmksa_cache_add (cache_env E) key None kck addr (own_addr c) (sm_network_ctx c) (key_mgmt c) None c
      in (p, sm\<lparr>cache := c\<rparr>))"

text \<open>The key of the PMKSA entry that message 1 names.\<close>

definition pmk_from_entry :: "hs_sm \<Rightarrow> hs_sm" where
  "pmk_from_entry sm =
     (let sm = set_cache (\<lambda>c. case_option c id (wpa_sm_set_pmk_from_pmksa c)) sm;
          sm = hs_emit Notify_Cached sm;
          sm = set_cache (\<lambda>c. c\<lparr>xxkey := []\<rparr>) sm
      in if akm sm = WPA_KEY_MGMT_FT_SAE \<and> length (pmk_of sm) = 32 then set_cache (\<lambda>c. c\<lparr>xxkey := sm_pmk c\<rparr>) sm else sm)"

text \<open>The key of the EAPOL machine, with the 16 bytes of LEAP as a fallback.\<close>

definition eapol_pmk :: "wpa_env \<Rightarrow> hs_sm \<Rightarrow> u8 list option" where
  "eapol_pmk E sm =
     (if wpa_key_mgmt_sha384 (akm sm) then eapol_key E 48
      else case eapol_key E 32 of Some k \<Rightarrow> Some k | None \<Rightarrow> eapol_key E 16)"

definition ft_xxkey :: "wpa_env \<Rightarrow> u8 list \<Rightarrow> hs_sm \<Rightarrow> hs_sm" where
  "ft_xxkey E src sm =
     (case eapol_key E 64 of
        None \<Rightarrow> sm
      | Some b \<Rightarrow>
          let sm = set_cache (\<lambda>c. c\<lparr>xxkey := if wpa_key_mgmt_sha384 (akm sm) then take 48 b else take 32 (drop 32 b)\<rparr>) sm
          in if proto sm = WPA_PROTO_RSN \<and> wpa_key_mgmt_ft (akm sm)
             then let (sa, sm) = cache_key E (xxkey (cache sm)) None src sm in current_if_none sa sm
             else sm)"

text \<open>\<open>Inl\<close> is an early return of -1; \<open>Inr\<close> has \<open>abort_cached\<close>.\<close>

definition pmk_from_eapol ::
    "wpa_env \<Rightarrow> u8 list \<Rightarrow> u8 list option \<Rightarrow> bool \<Rightarrow> hs_sm \<Rightarrow> hs_sm + (bool \<times> hs_sm)" where
  "pmk_from_eapol E src pid abort sm =
     (case eapol_pmk E sm of
        Some k \<Rightarrow>
          let sm = ft_xxkey E src sm;
              sm = wpa_supplicant_key_mgmt_set_pmk (set_cache (\<lambda>c. c\<lparr>sm_pmk := k\<rparr>) sm);
              (sa, sm) = (if proto sm = WPA_PROTO_RSN \<and> \<not> wpa_key_mgmt_suite_b (akm sm) \<and> \<not> wpa_key_mgmt_ft (akm sm)
                then cache_key E k None src sm else (None, sm))
          in if cur_pmksa (cache sm) = None \<and> pid \<noteq> None \<and> pmksa_cache_get (Some src) pid 0 0 (cache sm) \<noteq> None
             then Inr (False, current_if_none sa sm)
             else if sa \<noteq> None \<and> cur_pmksa (cache sm) = None \<and> pid \<noteq> None then Inl sm
             else Inr (abort, current_if_none sa sm)
      | None \<Rightarrow>
          if wpa_key_mgmt_ft (akm sm) \<and> ft_protocol sm then Inr (abort, sm)
          else if cur_pmksa (cache sm) \<noteq> None then Inr (True, set_current None sm)
          else if \<not> abort then Inl sm else Inr (abort, sm))"

definition abort_pmksa_caching :: "wpa_env \<Rightarrow> bool \<Rightarrow> hs_sm \<Rightarrow> int \<times> hs_sm" where
  "abort_pmksa_caching E abort sm =
     (if abort \<and> wpa_key_mgmt_wpa_ieee8021x (akm sm) \<and> \<not> wpa_key_mgmt_suite_b (akm sm) \<and> \<not> wpa_key_mgmt_ft (akm sm) \<and>
        akm sm \<noteq> WPA_KEY_MGMT_OSEN
      then if mem_ok E Mem_Frame then (- 2, hs_emit (Ether_Send (bssid (cache sm)) [eapol_version E, 1, 0, 0]) sm) else (- 1, sm)
      else (0, sm))"

definition wpa_supplicant_get_pmk :: "wpa_env \<Rightarrow> u8 list \<Rightarrow> u8 list option \<Rightarrow> hs_sm \<Rightarrow> int \<times> hs_sm" where
  "wpa_supplicant_get_pmk E src pid sm =
     (let (abort, sm) =
        (if pid \<noteq> None \<and> cur_pmksa (cache sm) = None
         then let p = map_option pe_id (pmksa_cache_get (Some src) pid 0 0 (cache sm)) in (p = None, set_current p sm)
         else (False, sm))
      in if pid \<noteq> None \<and> map_option pmkid (cur_entry sm) = pid then abort_pmksa_caching E abort (pmk_from_entry sm)
         else if wpa_key_mgmt_wpa_ieee8021x (akm sm) \<and> has_eapol sm
         then case pmk_from_eapol E src pid abort sm of
             Inl sm \<Rightarrow> (- 1, sm)
           | Inr (abort, sm) \<Rightarrow> abort_pmksa_caching E abort sm
         else abort_pmksa_caching E abort sm)"

section \<open>Message 1\<close>

definition pmk_r0_key :: "hs_sm \<Rightarrow> u8 list" where "pmk_r0_key sm = take (pmk_r0_len sm) (pmk_r0 sm)"
definition pmk_r1_key :: "hs_sm \<Rightarrow> u8 list" where "pmk_r1_key sm = take (pmk_r1_len sm) (pmk_r1 sm)"

definition store_r0 :: "(u8 list \<times> u8 list option) option \<Rightarrow> hs_sm \<Rightarrow> hs_sm" where
  "store_r0 d sm =
     (case d of None \<Rightarrow> sm
      | Some (k, n) \<Rightarrow> sm\<lparr>pmk_r0 := poke 0 k (pmk_r0 sm), pmk_r0_name := case_option (pmk_r0_name sm) id n\<rparr>)"

definition store_r1 :: "(u8 list \<times> u8 list option) option \<Rightarrow> hs_sm \<Rightarrow> hs_sm" where
  "store_r1 d sm =
     (case d of None \<Rightarrow> sm
      | Some (k, n) \<Rightarrow> sm\<lparr>pmk_r1 := poke 0 k (pmk_r1 sm), pmk_r1_name := case_option (pmk_r1_name sm) id n\<rparr>)"

definition derived :: "(u8 list \<times> u8 list option) option \<Rightarrow> bool" where
  "derived d \<longleftrightarrow> (case d of Some (k, Some n) \<Rightarrow> True | _ \<Rightarrow> False)"

definition mpmk_of :: "hs_sm \<Rightarrow> u8 list option" where
  "mpmk_of sm = (if xxkey (cache sm) \<noteq> [] then Some (xxkey (cache sm)) else map_option pmk (cur_entry sm))"

definition wpa_derive_ptk_ft :: "wpa_env \<Rightarrow> u8 list \<Rightarrow> wpa_ptk \<Rightarrow> hs_sm \<Rightarrow> int \<times> wpa_ptk \<times> hs_sm" where
  "wpa_derive_ptk_ft E an key sm =
     (let C = crypto E; own = own_addr (cache sm); sha384 = wpa_key_mgmt_sha384 (akm sm)
      in case mpmk_of sm of
           None \<Rightarrow> (- 1, key, sm)
         | Some mpmk \<Rightarrow>
             let d = wpa_derive_pmk_r0 C mpmk (ssid sm) (mobility_domain sm) (r0kh_id sm) own sha384;
                 sm = store_r0 d (sm\<lparr>pmk_r0_len := if sha384 then 48 else 32\<rparr>)
             in if \<not> derived d then (- 1, key, sm)
                else
                  let d = wpa_derive_pmk_r1 C (pmk_r0_key sm) (pmk_r0_name sm) (r1kh_id sm) own;
                      sm = store_r1 d (sm\<lparr>pmk_r1_len := pmk_r0_len sm\<rparr>)
                  in if \<not> derived d then (- 1, key, sm)
                     else
                       let (r, key) = wpa_pmk_r1_to_ptk C (pmk_r1_key sm) (snonce sm) an own (bssid (cache sm))
                             (pmk_r1_name sm) key (akm sm) (pairwise_cipher sm)
                       in (r, key, sm))"

definition wpa_derive_ptk :: "wpa_env \<Rightarrow> u8 list \<Rightarrow> wpa_ptk \<Rightarrow> hs_sm \<Rightarrow> int \<times> wpa_ptk \<times> hs_sm" where
  "wpa_derive_ptk E buf key sm =
     (if wpa_key_mgmt_ft (akm sm) then wpa_derive_ptk_ft E (k_key_nonce buf) key sm
      else let (r, key) = wpa_pmk_to_ptk (crypto E) (pmk_of sm) ''Pairwise key expansion'' (own_addr (cache sm))
                 (bssid (cache sm)) (snonce sm) (k_key_nonce buf) key (akm sm) (pairwise_cipher sm) []
        in (r, key, sm))"

text \<open>The Michael keys of TKIP change places.\<close>

definition swap_mic_keys :: "u8 list \<Rightarrow> u8 list" where
  "swap_mic_keys k = take 16 k @ take 8 (drop 24 k) @ take 8 (drop 16 k) @ drop 32 k"

text \<open>The nonce, which is drawn only when the last one was used.\<close>

definition fresh_snonce :: "wpa_env \<Rightarrow> hs_sm \<Rightarrow> hs_sm option" where
  "fresh_snonce E sm =
     (if \<not> renew_snonce sm then Some sm
      else map_option (\<lambda>n. hs_emit (Random_Snonce n) (sm\<lparr>snonce := n, renew_snonce := False\<rparr>)) (random_bytes E))"

definition kde_of_2_of_4 :: "wpa_env \<Rightarrow> hs_sm \<Rightarrow> u8 list option" where
  "kde_of_2_of_4 E sm =
     (if p2p sm \<and> mem_ok E Mem_Kde
      then Some (case_option [] id (assoc_wpa_ie sm) @ [221, 5] @ WPA_PUT_BE32 (WFA 4) @ [1]) else assoc_wpa_ie sm)"

definition answer_1_of_4 :: "wpa_env \<Rightarrow> u8 list \<Rightarrow> u16 \<Rightarrow> hs_sm \<Rightarrow> hs_sm" where
  "answer_1_of_4 E buf ver sm =
     (let (r, key, sm) = wpa_derive_ptk E buf (tptk sm) sm; sm = sm\<lparr>tptk := key\<rparr>
      in if r < 0 then wpa_sm_deauthenticate 1 sm
         else
           let sm = sm\<lparr>tptk := if pairwise_cipher sm = WPA_CIPHER_TKIP then key\<lparr>tk_buf := swap_mic_keys (tk_buf key)\<rparr> else key,
                       tptk_set := True\<rparr>;
               (r, sm) = wpa_supplicant_send_2_of_4 E (bssid (cache sm)) buf ver (snonce sm) (kde_of_2_of_4 E sm) (tptk sm) sm
           in if r < 0 then wpa_sm_deauthenticate 1 sm else sm\<lparr>anonce := k_key_nonce buf\<rparr>)"

text \<open>The PMKID that key data names, as bytes.\<close>

definition pmkid_of :: "u8 list \<Rightarrow> wpa_eapol_ie_parse \<Rightarrow> u8 list option" where
  "pmkid_of data ie = map_option (\<lambda>p. take 16 (drop p data)) (k_pmkid ie)"

definition wpa_supplicant_process_1_of_4 :: "wpa_env \<Rightarrow> u8 list \<Rightarrow> u8 list \<Rightarrow> u16 \<Rightarrow> u8 list \<Rightarrow> hs_sm \<Rightarrow> hs_sm" where
  "wpa_supplicant_process_1_of_4 E src buf ver key_data sm =
     (if \<not> has_network E then sm
      else
        let sm = wpa_sm_set_state WPA_4WAY_HANDSHAKE sm;
            (r, ie) = (if is_rsn sm then wpa_supplicant_parse_ies key_data (length key_data) else (0, empty_parse))
        in if r < 0 then wpa_sm_deauthenticate 1 sm
           else
             let (res, sm) = wpa_supplicant_get_pmk E src (pmkid_of key_data ie) sm
             in if res = - 2 then sm
                else if res \<noteq> 0 then wpa_sm_deauthenticate 1 sm
                else case fresh_snonce E sm of
                    None \<Rightarrow> wpa_sm_deauthenticate 1 sm
                  | Some sm \<Rightarrow> answer_1_of_4 E buf ver sm)"

end
