(* ===== verification/Wpa_Ft_Ie.thy ===== *)
theory Wpa_Ft_Ie
  imports Wpa_Sm Rsn_Gen Element_Uses
begin

text \<open>
  The elements of fast transition: their parser and integrity check in \<open>wpa_supplicant/src/common/wpa_common.c\<close>, and the
  request that \<open>wpa_supplicant/src/rsn_supp/wpa_ft.c\<close> builds. What the parser finds is kept as bytes: the body of an
  element or subelement behind its length.
\<close>

section \<open>Parsed elements\<close>

record wpa_ft_ies =
  f_mdie :: "u8 list option"
  f_ftie :: "u8 list option"
  f_r1kh_id :: "u8 list option"
  f_gtk :: "u8 list option"
  f_r0kh_id :: "u8 list option"
  f_rsn :: "u8 list option"
  f_rsn_pmkid :: "u8 list option"
  f_tie :: "u8 list option"
  f_igtk :: "u8 list option"
  f_ric :: "u8 list option"
  f_key_mgmt :: u32
  f_pairwise_cipher :: u32

definition no_ft_ies :: wpa_ft_ies where
  "no_ft_ies =
     \<lparr>f_mdie = None, f_ftie = None, f_r1kh_id = None, f_gtk = None, f_r0kh_id = None, f_rsn = None, f_rsn_pmkid = None,
      f_tie = None, f_igtk = None, f_ric = None, f_key_mgmt = 0, f_pairwise_cipher = 0\<rparr>"

abbreviation (input) WLAN_EID_MOBILITY_DOMAIN :: u8 where "WLAN_EID_MOBILITY_DOMAIN \<equiv> 54"
abbreviation (input) WLAN_EID_FAST_BSS_TRANSITION :: u8 where "WLAN_EID_FAST_BSS_TRANSITION \<equiv> 55"
abbreviation (input) WLAN_EID_TIMEOUT_INTERVAL :: u8 where "WLAN_EID_TIMEOUT_INTERVAL \<equiv> 56"
abbreviation (input) WLAN_EID_RIC_DATA :: u8 where "WLAN_EID_RIC_DATA \<equiv> 57"

text \<open>An element or subelement with its header, and \<open>struct rsn_ftie\<close>, whose MIC has 16 or 24 bytes.\<close>

definition element_of :: "u8 \<Rightarrow> u8 list \<Rightarrow> u8 list" where
  "element_of eid body = eid # of_nat (length body) # body"

definition fte_mic_len :: "bool \<Rightarrow> nat" where "fte_mic_len use_sha384 = (if use_sha384 then 24 else 16)"
definition ftie_size :: "bool \<Rightarrow> nat" where "ftie_size use_sha384 = 2 + fte_mic_len use_sha384 + 32 + 32"
definition fte_mic :: "bool \<Rightarrow> u8 list \<Rightarrow> u8 list" where
  "fte_mic use_sha384 f = take (fte_mic_len use_sha384) (drop 2 f)"
definition fte_anonce :: "bool \<Rightarrow> u8 list \<Rightarrow> u8 list" where
  "fte_anonce use_sha384 f = take 32 (drop (2 + fte_mic_len use_sha384) f)"
definition fte_snonce :: "bool \<Rightarrow> u8 list \<Rightarrow> u8 list" where
  "fte_snonce use_sha384 f = take 32 (drop (2 + fte_mic_len use_sha384 + 32) f)"

section \<open>Parser\<close>

text \<open>One subelement; \<open>None\<close> is the result -1.\<close>

definition ftie_subelem :: "u8 \<Rightarrow> u8 list \<Rightarrow> wpa_ft_ies \<Rightarrow> wpa_ft_ies option" where
  "ftie_subelem sid body f =
     (if sid = 1 then (if length body \<noteq> 6 then None else Some (f\<lparr>f_r1kh_id := Some body\<rparr>))
      else if sid = 2 then Some (f\<lparr>f_gtk := Some body\<rparr>)
      else if sid = 3 then (if length body < 1 \<or> 48 < length body then None else Some (f\<lparr>f_r0kh_id := Some body\<rparr>))
      else if sid = 4 then Some (f\<lparr>f_igtk := Some body\<rparr>)
      else Some f)"

function ftie_subelems :: "u8 list \<Rightarrow> wpa_ft_ies \<Rightarrow> wpa_ft_ies option" where
  "ftie_subelems b f =
     (if length b < 2 then Some f
      else
        let sid = b ! 0; l = unat (b ! 1); rest = drop 2 b
        in if length rest < l then Some f
           else case ftie_subelem sid (take l rest) f of
               None \<Rightarrow> None
             | Some f \<Rightarrow> ftie_subelems (drop l rest) f)"
  by pat_completeness auto
termination by (relation "measure (length \<circ> fst)") auto

declare ftie_subelems.simps [simp del]

definition wpa_ft_parse_ftie :: "u8 list \<Rightarrow> bool \<Rightarrow> wpa_ft_ies \<Rightarrow> wpa_ft_ies option" where
  "wpa_ft_parse_ftie ie use_sha384 f = ftie_subelems (drop (ftie_size use_sha384) ie) (f\<lparr>f_ftie := Some ie\<rparr>)"

text \<open>The local variables of the loop: the parsed elements, the hash and whether the RSN element still decides it, the
  count of protected elements, and the bytes from the first RIC element on.\<close>

record ft_loop =
  l_parse :: wpa_ft_ies
  l_sha384 :: bool
  l_update :: bool
  l_prot :: int
  l_ric :: "u8 list option"

definition ft_rsn :: "u8 list \<Rightarrow> ft_loop \<Rightarrow> ft_loop option" where
  "ft_rsn body s =
     (let e = element_of Rsn_Ie.WLAN_EID_RSN body; (r, data) = wpa_parse_wpa_ie_rsn e; f = (l_parse s)\<lparr>f_rsn := Some body\<rparr>
      in if r < 0 then None
         else
           let f = (case ie_pmkid data of
                   Some p \<Rightarrow> if ie_num_pmkid data = 1 then f\<lparr>f_rsn_pmkid := Some (take 16 (drop p e))\<rparr> else f
                 | None \<Rightarrow> f);
               f = f\<lparr>f_key_mgmt := ie_key_mgmt data, f_pairwise_cipher := ie_pairwise_cipher data\<rparr>
           in Some (s\<lparr>l_parse := f, l_sha384 := (if l_update s then wpa_key_mgmt_sha384 (f_key_mgmt f) else l_sha384 s),
                      l_update := False\<rparr>))"

definition ft_element :: "u8 \<Rightarrow> u8 list \<Rightarrow> u8 list \<Rightarrow> ft_loop \<Rightarrow> ft_loop option" where
  "ft_element eid body from s =
     (if eid = Rsn_Ie.WLAN_EID_RSN then ft_rsn body s
      else if eid = WLAN_EID_MOBILITY_DOMAIN
      then (if length body < 3 then None else Some (s\<lparr>l_parse := (l_parse s)\<lparr>f_mdie := Some body\<rparr>\<rparr>))
      else if eid = WLAN_EID_FAST_BSS_TRANSITION
      then (if length body < ftie_size (l_sha384 s) then None
            else map_option (\<lambda>f. s\<lparr>l_parse := f, l_prot := uint (body ! 1)\<rparr>)
              (wpa_ft_parse_ftie body (l_sha384 s) (l_parse s)))
      else if eid = WLAN_EID_TIMEOUT_INTERVAL
      then Some (if length body \<noteq> 5 then s else s\<lparr>l_parse := (l_parse s)\<lparr>f_tie := Some body\<rparr>\<rparr>)
      else if eid = WLAN_EID_RIC_DATA then Some (if l_ric s = None then s\<lparr>l_ric := Some from\<rparr> else s)
      else Some s)"

function ft_elements :: "u8 list \<Rightarrow> ft_loop \<Rightarrow> ft_loop option" where
  "ft_elements b s =
     (if length b < 2 then Some s
      else
        let eid = b ! 0; l = unat (b ! 1); rest = drop 2 b
        in if length rest < l then Some s
           else case ft_element eid (take l rest) b s of
               None \<Rightarrow> None
             | Some s \<Rightarrow> ft_elements (drop l rest) s)"
  by pat_completeness auto
termination by (relation "measure (length \<circ> fst)") auto

declare ft_elements.simps [simp del]

text \<open>The RIC elements are the next \<open>n\<close> elements: their length, and how many are missing.\<close>

fun ric_span :: "nat \<Rightarrow> u8 list \<Rightarrow> nat \<times> nat" where
  "ric_span 0 b = (0, 0)"
| "ric_span (Suc n) b =
     (if 2 \<le> length b \<and> 2 + unat (b ! 1) \<le> length b
      then let (l, m) = ric_span n (drop (2 + unat (b ! 1)) b) in (2 + unat (b ! 1) + l, m)
      else (0, Suc n))"

definition ft_count :: "ft_loop \<Rightarrow> wpa_ft_ies option" where
  "ft_count s =
     (let f = l_parse s
      in if l_prot s = 0 then Some (f\<lparr>f_ric := map_option (\<lambda>b. []) (l_ric s)\<rparr>)
         else
           let n = l_prot s - (if f_rsn f \<noteq> None then 1 else 0) - (if f_mdie f \<noteq> None then 1 else 0) -
                 (if f_ftie f \<noteq> None then 1 else 0)
           in if n < 0 then None
              else case l_ric s of
                  None \<Rightarrow> if n \<noteq> 0 then None else Some f
                | Some b \<Rightarrow>
                    if n = 0 then None
                    else let (l, m) = ric_span (nat n) b in if m \<noteq> 0 then None else Some (f\<lparr>f_ric := Some (take l b)\<rparr>))"

text \<open>\<open>use_sha384\<close> is \<open>None\<close> for a negative argument; \<open>None\<close> is the result -1.\<close>

definition wpa_ft_parse_ies :: "u8 list \<Rightarrow> bool option \<Rightarrow> wpa_ft_ies option" where
  "wpa_ft_parse_ies ies use_sha384 =
     (case ft_elements ies \<lparr>l_parse = no_ft_ies, l_sha384 = case_option False id use_sha384, l_update = use_sha384 = None,
         l_prot = 0, l_ric = None\<rparr> of
        None \<Rightarrow> None
      | Some s \<Rightarrow> ft_count s)"

section \<open>Integrity\<close>

text \<open>The elements are given with their headers. The hash functions read their vector of pieces as one string.\<close>

definition wpa_ft_mic ::
    "wpa_crypto \<Rightarrow> u8 list \<Rightarrow> u8 list \<Rightarrow> u8 list \<Rightarrow> u8 \<Rightarrow> u8 list \<Rightarrow> u8 list \<Rightarrow> u8 list \<Rightarrow> u8 list option \<Rightarrow>
     u8 list option" where
  "wpa_ft_mic C kck sta ap seq mdie ftie rsnie ric =
     (let n = length kck;
          msg = sta @ ap @ [seq] @ rsnie @ mdie @ take 4 ftie @ zeros n @ drop (4 + n) ftie @ case_option [] id ric
      in if n \<noteq> 16 \<and> n \<noteq> 24 then None
         else if length ftie < 2 + (82 - 16 + n) then None
         else if n = 24 then map_option (take 24) (hmac_sha384 C kck msg) else omac1_aes_128 C kck msg)"

section \<open>Request\<close>

definition wpa_ft_add_mdie :: "nat \<Rightarrow> u8 list option \<Rightarrow> hs_sm \<Rightarrow> u8 list" where
  "wpa_ft_add_mdie room ap_mdie sm =
     (if room < 5 then []
      else [WLAN_EID_MOBILITY_DOMAIN, 3] @ mobility_domain sm @
        [case ap_mdie of Some m \<Rightarrow> if 3 \<le> m ! 1 then m ! 4 else mdie_ft_capab sm | None \<Rightarrow> mdie_ft_capab sm])"

definition wpa_sm_get_ft_md :: "hs_sm \<Rightarrow> u8 list" where
  "wpa_sm_get_ft_md sm = mobility_domain sm"

definition ft_req_akm :: "u32 \<Rightarrow> u32 option" where
  "ft_req_akm a =
     (if a = WPA_KEY_MGMT_FT_IEEE8021X then Some (RSN 3) else if a = WPA_KEY_MGMT_FT_IEEE8021X_SHA384 then Some (RSN 13)
      else if a = WPA_KEY_MGMT_FT_PSK then Some (RSN 4) else if a = WPA_KEY_MGMT_FT_SAE then Some (RSN 9) else None)"

definition bip_suite :: "u32 \<Rightarrow> u8 list" where
  "bip_suite c =
     (if c = WPA_CIPHER_AES_128_CMAC then WPA_PUT_BE32 (RSN 6) else if c = WPA_CIPHER_BIP_GMAC_128 then WPA_PUT_BE32 (RSN 11)
      else if c = WPA_CIPHER_BIP_GMAC_256 then WPA_PUT_BE32 (RSN 12)
      else if c = WPA_CIPHER_BIP_CMAC_256 then WPA_PUT_BE32 (RSN 13) else [])"

definition ft_req_rsne :: "u8 list \<Rightarrow> hs_sm \<Rightarrow> u8 list option" where
  "ft_req_rsne name sm =
     (if \<not> wpa_cipher_valid_group (group_cipher sm) then None
      else if \<not> wpa_cipher_valid_pairwise (pairwise_cipher sm) then None
      else map_option (\<lambda>a. element_of Rsn_Ie.WLAN_EID_RSN
          (WPA_PUT_LE16 1 @ WPA_PUT_BE32 (wpa_cipher_to_suite WPA_PROTO_RSN (group_cipher sm)) @
           WPA_PUT_LE16 1 @ WPA_PUT_BE32 (wpa_cipher_to_suite WPA_PROTO_RSN (pairwise_cipher sm)) @
           WPA_PUT_LE16 1 @ WPA_PUT_BE32 a @
           WPA_PUT_LE16 ((if bip_suite (mgmt_group_cipher sm) \<noteq> [] then 0x80 else 0) OR (if ocv sm then 0x4000 else 0)) @
           WPA_PUT_LE16 1 @ name @ bip_suite (mgmt_group_cipher sm)))
        (ft_req_akm (akm sm)))"

text \<open>The element of the request, before the MIC is filled in.\<close>

definition ft_req_ftie :: "u8 list option \<Rightarrow> bool \<Rightarrow> u8 \<Rightarrow> hs_sm \<Rightarrow> u8 list" where
  "ft_req_ftie an third elem_count sm =
     element_of WLAN_EID_FAST_BSS_TRANSITION
       ([0, elem_count] @ zeros (fte_mic_len (wpa_key_mgmt_sha384 (akm sm))) @ case_option (zeros 32) id an @ snonce sm @
        (if third then element_of 1 (r1kh_id sm) else []) @ element_of 3 (r0kh_id sm))"

definition wpa_ft_gen_req_ies ::
    "wpa_env \<Rightarrow> u8 list option \<Rightarrow> u8 list \<Rightarrow> u8 list option \<Rightarrow> u8 list \<Rightarrow> u8 list option \<Rightarrow> u8 list option \<Rightarrow> hs_sm \<Rightarrow>
     u8 list option \<times> hs_sm" where
  "wpa_ft_gen_req_ies E an name kck target ric ap_mdie sm =
     (let sm = sm\<lparr>ft_completed := False, ft_reassoc_completed := False\<rparr>;
          rics = case_option [] id ric;
          buf_len = 2 + 3 + 2 + 90 + 2 + length (r0kh_id sm) + length rics + 100
      in if \<not> mem_ok E Mem_Ie then (None, sm)
         else case ft_req_rsne name sm of
             None \<Rightarrow> (None, sm)
           | Some rsne \<Rightarrow>
               let mdie = wpa_ft_add_mdie (buf_len - length rsne) ap_mdie sm
               in if mdie = [] then (None, sm)
                  else case kck of
                      None \<Rightarrow> (Some (rsne @ mdie @ ft_req_ftie an False 0 sm @ rics), sm)
                    | Some k \<Rightarrow>
                        let ftie = ft_req_ftie an True (of_nat (3 + ieee802_11_ie_count ric)) sm
                        in (map_option (\<lambda>m. rsne @ mdie @ poke 4 m ftie @ rics)
                              (wpa_ft_mic (crypto E) k (own_addr (cache sm)) target 5 mdie ftie rsne ric), sm))"

definition wpa_ft_prepare_auth_request :: "wpa_env \<Rightarrow> u8 list option \<Rightarrow> hs_sm \<Rightarrow> int \<times> hs_sm" where
  "wpa_ft_prepare_auth_request E ap_mdie sm =
     (case random_bytes E of
        None \<Rightarrow> (- 1, sm)
      | Some n \<Rightarrow>
          let sm = hs_emit (Random_Ft_Snonce n) (sm\<lparr>snonce := n\<rparr>);
              (ies, sm) = wpa_ft_gen_req_ies E None (pmk_r0_name sm) None (bssid (cache sm)) None ap_mdie sm
          in (0, case ies of None \<Rightarrow> sm | Some b \<Rightarrow> hs_emit (Update_Ft_Ies (mobility_domain sm) b) sm))"

end
