(* ===== verification/Wpa_Install.thy ===== *)
theory Wpa_Install
  imports Wpa_Ft_Ie
begin

text \<open>
  Installing keys, \<open>wpa_supplicant/src/rsn_supp/wpa.c\<close>: the pairwise key, the group keys of both kinds, and the end of a
  key negotiation.
\<close>

abbreviation (input) null_rsc :: "u8 list" where "null_rsc \<equiv> [0, 0, 0, 0, 0, 0, 0, 0]"
abbreviation (input) broadcast_ether_addr :: "u8 list" where "broadcast_ether_addr \<equiv> [255, 255, 255, 255, 255, 255]"

section \<open>Driver calls\<close>

definition wpa_sm_set_key ::
    "wpa_env \<Rightarrow> wpa_alg \<Rightarrow> u8 list option \<Rightarrow> nat \<Rightarrow> bool \<Rightarrow> u8 list \<Rightarrow> u8 list \<Rightarrow> hs_sm \<Rightarrow> int \<times> hs_sm" where
  "wpa_sm_set_key E alg addr idx tx seq key sm =
     (let r = set_key_result E alg addr idx tx seq key in (r, hs_emit (Set_Key alg addr idx tx seq key r) sm))"

definition wpa_sm_set_rekey_offload :: "hs_sm \<Rightarrow> hs_sm" where
  "wpa_sm_set_rekey_offload sm = hs_emit (Rekey_Offload (ptk_kek (ptk sm)) (ptk_kck (ptk sm)) (rx_replay_counter sm)) sm"

section \<open>Pairwise key\<close>

text \<open>The key of 0 length that is left behind marks that nothing may be installed again.\<close>

definition wpa_supplicant_install_ptk :: "wpa_env \<Rightarrow> u8 list \<Rightarrow> hs_sm \<Rightarrow> int \<times> hs_sm" where
  "wpa_supplicant_install_ptk E buf sm =
     (let keylen = wpa_cipher_key_len (pairwise_cipher sm);
          rsc = take (wpa_cipher_rsc_len (pairwise_cipher sm)) (if is_rsn sm then null_rsc else k_key_rsc buf)
      in if ptk_installed (ptk sm) then (0, sm)
         else if pairwise_cipher sm = WPA_CIPHER_NONE then (0, sm)
         else if \<not> wpa_cipher_valid_pairwise (pairwise_cipher sm) then (- 1, sm)
         else if keylen = 0 \<or> keylen \<noteq> tk_len (ptk sm) then (- 1, sm)
         else
           let (r, sm) = wpa_sm_set_key E (wpa_cipher_to_alg (pairwise_cipher sm)) (Some (bssid (cache sm))) 0 True rsc
                 (take keylen (tk_buf (ptk sm))) sm
           in if r < 0 then (- 1, sm)
              else
                let sm = sm\<lparr>ptk := (ptk sm)\<lparr>tk_buf := zeros 32, tk_len := 0, ptk_installed := True\<rparr>\<rparr>
                in (0, if wpa_ptk_rekey sm \<noteq> 0 then hs_emit (Register_Rekey (wpa_ptk_rekey sm)) (hs_emit Cancel_Rekey sm) else sm))"

section \<open>Group key\<close>

text \<open>\<open>Some\<close> has the length of the sequence counter and the algorithm.\<close>

definition wpa_supplicant_check_group_cipher :: "u32 \<Rightarrow> nat \<Rightarrow> nat \<Rightarrow> (nat \<times> wpa_alg) option" where
  "wpa_supplicant_check_group_cipher cipher keylen maxkeylen =
     (let alg = wpa_cipher_to_alg cipher; klen = wpa_cipher_key_len cipher
      in if alg = WPA_ALG_NONE then None
         else if keylen \<noteq> klen \<or> maxkeylen < klen then None
         else Some (wpa_cipher_rsc_len cipher, alg))"

record wpa_gtk_data =
  gd_alg :: wpa_alg
  gd_tx :: bool
  gd_key_rsc_len :: nat
  gd_keyidx :: nat
  gd_gtk :: "u8 list"
  gd_gtk_len :: nat

definition no_gtk :: wpa_gtk_data where
  "no_gtk = \<lparr>gd_alg = WPA_ALG_NONE, gd_tx = False, gd_key_rsc_len = 0, gd_keyidx = 0, gd_gtk = zeros 32, gd_gtk_len = 0\<rparr>"

definition gd_key :: "wpa_gtk_data \<Rightarrow> u8 list" where "gd_key gd = take (gd_gtk_len gd) (gd_gtk gd)"

definition store_gtk :: "bool \<Rightarrow> u8 list \<Rightarrow> hs_sm \<Rightarrow> hs_sm" where
  "store_gtk wnm_sleep k sm = (if wnm_sleep then sm\<lparr>gtk_wnm_sleep := k\<rparr> else sm\<lparr>gtk := k\<rparr>)"

definition wpa_supplicant_install_gtk ::
    "wpa_env \<Rightarrow> wpa_gtk_data \<Rightarrow> u8 list \<Rightarrow> bool \<Rightarrow> hs_sm \<Rightarrow> int \<times> hs_sm" where
  "wpa_supplicant_install_gtk E gd key_rsc wnm_sleep sm =
     (let raw = (if group_cipher sm = WPA_CIPHER_TKIP then swap_mic_keys (gd_gtk gd) else gd_gtk gd);
          k = take (gd_gtk_len gd) raw; rsc = take (gd_key_rsc_len gd) key_rsc
      in if gtk sm = gd_key gd \<or> gtk_wnm_sleep sm = gd_key gd then (0, sm)
         else
           let (r, sm) =
             (if pairwise_cipher sm = WPA_CIPHER_NONE then wpa_sm_set_key E (gd_alg gd) None (gd_keyidx gd) True rsc k sm
              else wpa_sm_set_key E (gd_alg gd) (Some broadcast_ether_addr) (gd_keyidx gd) (gd_tx gd) rsc k sm)
           in if r < 0 then (- 1, sm) else (0, store_gtk wnm_sleep (gd_key gd) sm))"

definition wpa_supplicant_gtk_tx_bit_workaround :: "bool \<Rightarrow> hs_sm \<Rightarrow> bool" where
  "wpa_supplicant_gtk_tx_bit_workaround tx sm = (if tx \<and> pairwise_cipher sm \<noteq> WPA_CIPHER_NONE then False else tx)"

definition wpa_supplicant_rsc_relaxation :: "u8 list \<Rightarrow> hs_sm \<Rightarrow> bool" where
  "wpa_supplicant_rsc_relaxation rsc sm \<longleftrightarrow>
     wpa_rsc_relaxation sm \<and> wpa_cipher_rsc_len (group_cipher sm) = 6 \<and>
     ((rsc ! 5 \<noteq> 0 \<and> rsc ! 0 = 0) \<or> rsc ! 6 \<noteq> 0 \<or> rsc ! 7 \<noteq> 0)"

definition group_rsc :: "u8 list \<Rightarrow> hs_sm \<Rightarrow> u8 list" where
  "group_rsc buf sm = (if wpa_supplicant_rsc_relaxation (k_key_rsc buf) sm then null_rsc else k_key_rsc buf)"

text \<open>\<open>body\<close> is the group key KDE behind its selector.\<close>

definition wpa_supplicant_pairwise_gtk :: "wpa_env \<Rightarrow> u8 list \<Rightarrow> u8 list \<Rightarrow> hs_sm \<Rightarrow> int \<times> hs_sm" where
  "wpa_supplicant_pairwise_gtk E buf body sm =
     (let g = drop 2 body; n = length g;
          gd = no_gtk\<lparr>gd_keyidx := unat (body ! 0 AND 3),
                 gd_tx := wpa_supplicant_gtk_tx_bit_workaround (body ! 0 AND 4 \<noteq> 0) sm,
                 gd_gtk := poke 0 g (zeros 32), gd_gtk_len := n\<rparr>
      in if length body < 2 \<or> n > 32 then (- 1, sm)
         else if group_cipher sm = WPA_CIPHER_GTK_NOT_USED then (0, sm)
         else case wpa_supplicant_check_group_cipher (group_cipher sm) n n of
             None \<Rightarrow> (- 1, sm)
           | Some (l, alg) \<Rightarrow>
               let (r, sm) = wpa_supplicant_install_gtk E (gd\<lparr>gd_key_rsc_len := l, gd_alg := alg\<rparr>) (group_rsc buf sm) False sm
               in if r \<noteq> 0 then (- 1, sm) else (0, sm))"

section \<open>Integrity group key\<close>

text \<open>\<open>body\<close> is \<open>struct wpa_igtk_kde\<close>, of which the key has as many bytes as the cipher takes.\<close>

definition igtk_keyid :: "u8 list \<Rightarrow> nat" where "igtk_keyid body = unat (WPA_GET_LE16 body)"

definition store_igtk :: "bool \<Rightarrow> u8 list \<Rightarrow> hs_sm \<Rightarrow> hs_sm" where
  "store_igtk wnm_sleep k sm = (if wnm_sleep then sm\<lparr>igtk_wnm_sleep := k\<rparr> else sm\<lparr>igtk := k\<rparr>)"

definition wpa_supplicant_install_igtk :: "wpa_env \<Rightarrow> u8 list \<Rightarrow> bool \<Rightarrow> hs_sm \<Rightarrow> int \<times> hs_sm" where
  "wpa_supplicant_install_igtk E body wnm_sleep sm =
     (let k = take (wpa_cipher_key_len (mgmt_group_cipher sm)) (drop 8 body); keyidx = igtk_keyid body
      in if igtk sm = k \<or> igtk_wnm_sleep sm = k then (0, sm)
         else if keyidx > 4095 then (- 1, sm)
         else
           let (r, sm) = wpa_sm_set_key E (wpa_cipher_to_alg (mgmt_group_cipher sm)) (Some broadcast_ether_addr) keyidx False
                 (take 6 (drop 2 body)) k sm
           in if r < 0 \<and> keyidx \<noteq> 0x400 \<and> keyidx \<noteq> 0x500 then (- 1, sm) else (0, store_igtk wnm_sleep k sm))"

definition ieee80211w_set_keys :: "wpa_env \<Rightarrow> u8 list option \<Rightarrow> hs_sm \<Rightarrow> int \<times> hs_sm" where
  "ieee80211w_set_keys E body sm =
     (if \<not> wpa_cipher_valid_mgmt_group (mgmt_group_cipher sm) then (0, sm)
      else case body of
          None \<Rightarrow> (0, sm)
        | Some k \<Rightarrow>
            if length k \<noteq> 8 + wpa_cipher_key_len (mgmt_group_cipher sm) then (- 1, sm)
            else let (r, sm) = wpa_supplicant_install_igtk E k False sm in (if r < 0 then - 1 else 0, sm))"

section \<open>End of a negotiation\<close>

text \<open>\<open>Set_Protection\<close> has the address, the protection (1 for received frames, 3 for both directions) and the type of the
  key, 1 for pairwise.\<close>

definition wpa_supplicant_key_neg_complete :: "wpa_env \<Rightarrow> u8 list \<Rightarrow> bool \<Rightarrow> hs_sm \<Rightarrow> hs_sm" where
  "wpa_supplicant_key_neg_complete E addr secure sm =
     (let sm = wpa_sm_set_state WPA_COMPLETED (hs_emit Cancel_Auth_Timeout sm);
          sm = (if secure
            then
              let sm = hs_emit (Port_Valid True) (hs_emit (Set_Protection addr 3 1) sm);
                  sm = (if wpa_key_mgmt_wpa_psk (akm sm) \<or> akm sm = WPA_KEY_MGMT_DPP \<or> akm sm = WPA_KEY_MGMT_OWE
                    then hs_emit (Eap_Success True) sm else sm)
              in if pmksa_candidates sm \<noteq> [] then hs_emit Register_Preauth sm else sm
            else sm);
          sm = set_cache accept_opportunistic sm
      in if wpa_key_mgmt_ft (akm sm) then snd (wpa_ft_prepare_auth_request E None sm) else sm)"

end
