(* ===== verification/Wpa_Ft.thy ===== *)
theory Wpa_Ft
  imports Wpa_Install
begin

text \<open>
  Fast transition, \<open>wpa_supplicant/src/rsn_supp/wpa_ft.c\<close>: the parameters from the association response, the second
  message of the FT protocol with the pairwise key it installs, and the reassociation response with the group keys.
\<close>

section \<open>Parameters\<close>

text \<open>\<open>ies\<close> is empty for \<open>NULL\<close>, which is parsed the same way.\<close>

definition wpa_sm_set_ft_params :: "wpa_env \<Rightarrow> u8 list \<Rightarrow> hs_sm \<Rightarrow> int \<times> hs_sm" where
  "wpa_sm_set_ft_params E ies sm =
     (case wpa_ft_parse_ies ies (Some (wpa_key_mgmt_sha384 (akm sm))) of
        None \<Rightarrow> (- 1, sm)
      | Some ft \<Rightarrow>
          if f_mdie ft \<noteq> None \<and> length (the (f_mdie ft)) < 3 then (- 1, sm)
          else
            let sm = (case f_mdie ft of
                    Some m \<Rightarrow> sm\<lparr>mobility_domain := take 2 m, mdie_ft_capab := m ! 2\<rparr>
                  | None \<Rightarrow> sm\<lparr>mobility_domain := zeros 2\<rparr>);
                sm = (case f_r0kh_id ft of Some r \<Rightarrow> sm\<lparr>r0kh_id := r\<rparr> | None \<Rightarrow> sm);
                sm = sm\<lparr>r1kh_id := case_option (zeros 6) id (f_r1kh_id ft)\<rparr>
            in (0, sm\<lparr>assoc_resp_ies :=
                   if mem_ok E Mem_Set
                   then Some (case_option [] (element_of WLAN_EID_MOBILITY_DOMAIN) (f_mdie ft) @
                     case_option [] (element_of WLAN_EID_FAST_BSS_TRANSITION) (f_ftie ft))
                   else None\<rparr>))"

section \<open>Response\<close>

definition ft_kck :: "hs_sm \<Rightarrow> u8 list" where
  "ft_kck sm = (if wpa_key_mgmt_fils (akm sm) then take (kck2_len (ptk sm)) (kck2_buf (ptk sm)) else ptk_kck (ptk sm))"

definition ft_kek :: "hs_sm \<Rightarrow> u8 list" where
  "ft_kek sm = (if wpa_key_mgmt_fils (akm sm) then take (kek2_len (ptk sm)) (kek2_buf (ptk sm)) else ptk_kek (ptk sm))"

definition wpa_ft_install_ptk :: "wpa_env \<Rightarrow> u8 list \<Rightarrow> hs_sm \<Rightarrow> int \<times> hs_sm" where
  "wpa_ft_install_ptk E bss sm =
     (if \<not> wpa_cipher_valid_pairwise (pairwise_cipher sm) then (- 1, sm)
      else
        let (r, sm) = wpa_sm_set_key E (wpa_cipher_to_alg (pairwise_cipher sm)) (Some bss) 0 True (zeros 6)
              (take (wpa_cipher_key_len (pairwise_cipher sm)) (tk_buf (ptk sm))) sm
        in (if r < 0 then - 1 else 0, sm))"

text \<open>What both messages check of the elements they bring, with the name of the key that the RSN element must have.\<close>

definition ft_mdie_ok :: "wpa_ft_ies \<Rightarrow> hs_sm \<Rightarrow> bool" where
  "ft_mdie_ok f sm \<longleftrightarrow> (case f_mdie f of None \<Rightarrow> False | Some m \<Rightarrow> 3 \<le> length m \<and> take 2 m = mobility_domain sm)"

definition ft_r0kh_ok :: "wpa_ft_ies \<Rightarrow> hs_sm \<Rightarrow> bool" where
  "ft_r0kh_ok f sm \<longleftrightarrow> f_r0kh_id f = Some (r0kh_id sm)"

definition ft_response_ok :: "wpa_ft_ies \<Rightarrow> hs_sm \<Rightarrow> bool" where
  "ft_response_ok f sm \<longleftrightarrow>
     (let sha384 = wpa_key_mgmt_sha384 (akm sm)
      in ft_mdie_ok f sm \<and>
         (case f_ftie f of None \<Rightarrow> False | Some t \<Rightarrow> ftie_size sha384 \<le> length t \<and> fte_snonce sha384 t = snonce sm) \<and>
         ft_r0kh_ok f sm \<and> f_r1kh_id f \<noteq> None \<and> f_rsn_pmkid f = Some (pmk_r0_name sm))"

definition ft_authenticated :: "wpa_env \<Rightarrow> bool \<Rightarrow> u8 list \<Rightarrow> hs_sm \<Rightarrow> hs_sm" where
  "ft_authenticated E ft_action target sm =
     (let (r, sm) = wpa_ft_install_ptk E target (hs_emit (Mark_Authenticated target) sm);
          sm = sm\<lparr>set_ptk_after_assoc := r \<noteq> 0, ft_completed := True\<rparr>
      in if ft_action then set_cache (\<lambda>c. c\<lparr>bssid := target\<rparr>) sm else sm)"

definition ft_derive :: "wpa_env \<Rightarrow> u8 list \<Rightarrow> u8 list \<Rightarrow> hs_sm \<Rightarrow> bool \<times> hs_sm" where
  "ft_derive E an target sm =
     (let C = crypto E; own = own_addr (cache sm);
          d = wpa_derive_pmk_r1 C (pmk_r0_key sm) (pmk_r0_name sm) (r1kh_id sm) own;
          sm = store_r1 d sm
      in if \<not> derived d then (False, sm)
         else
           let sm = sm\<lparr>pmk_r1_len := pmk_r0_len sm\<rparr>;
               (r, key) = wpa_pmk_r1_to_ptk C (pmk_r1_key sm) (snonce sm) an own target (pmk_r1_name sm) (ptk sm) (akm sm)
                 (pairwise_cipher sm)
           in (0 \<le> r, sm\<lparr>ptk := key\<rparr>))"

definition wpa_ft_process_response ::
    "wpa_env \<Rightarrow> u8 list \<Rightarrow> bool \<Rightarrow> u8 list \<Rightarrow> u8 list option \<Rightarrow> hs_sm \<Rightarrow> int \<times> hs_sm" where
  "wpa_ft_process_response E ies ft_action target ric sm =
     (if ft_action \<and> \<not> over_the_ds_in_progress sm then (- 1, sm)
      else if ft_action \<and> target \<noteq> target_ap sm then (- 1, sm)
      else if \<not> wpa_key_mgmt_ft (akm sm) then (- 1, sm)
      else case wpa_ft_parse_ies ies (Some (wpa_key_mgmt_sha384 (akm sm))) of
          None \<Rightarrow> (- 1, sm)
        | Some f \<Rightarrow>
            if \<not> ft_response_ok f sm then (- 1, sm)
            else
              let an = fte_anonce (wpa_key_mgmt_sha384 (akm sm)) (the (f_ftie f));
                  (ok, sm) = ft_derive E an target (sm\<lparr>r1kh_id := the (f_r1kh_id f), anonce := an\<rparr>)
              in if \<not> ok then (- 1, sm)
                 else
                   let (b, sm) = wpa_ft_gen_req_ies E (Some an) (pmk_r1_name sm) (Some (ft_kck sm)) target ric
                         (map_option (element_of WLAN_EID_MOBILITY_DOMAIN) (f_mdie f)) sm;
                       sm = (case b of None \<Rightarrow> sm | Some bs \<Rightarrow> hs_emit (Update_Ft_Ies (mobility_domain sm) bs) sm)
                   in (0, ft_authenticated E ft_action target sm))"

definition wpa_ft_is_completed :: "hs_sm \<Rightarrow> bool" where
  "wpa_ft_is_completed sm \<longleftrightarrow> wpa_key_mgmt_ft (akm sm) \<and> ft_completed sm"

definition wpa_reset_ft_completed :: "hs_sm \<Rightarrow> hs_sm" where
  "wpa_reset_ft_completed sm = sm\<lparr>ft_completed := False\<rparr>"

section \<open>Reassociation response\<close>

definition wpa_ft_process_gtk_subelem :: "wpa_env \<Rightarrow> u8 list option \<Rightarrow> hs_sm \<Rightarrow> int \<times> hs_sm" where
  "wpa_ft_process_gtk_subelem E elem sm =
     (case elem of
        None \<Rightarrow> (0, sm)
      | Some g \<Rightarrow>
          let n = length g - 19; keylen = wpa_cipher_key_len (group_cipher sm); alg = wpa_cipher_to_alg (group_cipher sm)
          in if length g < 11 + 24 \<or> (length g - 11) mod 8 \<noteq> 0 \<or> n > 32 then (- 1, sm)
             else case aes_unwrap (crypto E) (ft_kek sm) (n div 8) (drop 11 g) of
                 None \<Rightarrow> (- 1, sm)
               | Some k \<Rightarrow>
                   if alg = WPA_ALG_NONE then (- 1, sm)
                   else if n < keylen then (- 1, sm)
                   else if unat (g ! 2) \<noteq> keylen then (- 1, sm)
                   else
                     let k = (if group_cipher sm = WPA_CIPHER_TKIP then swap_mic_keys k else k);
                         (r, sm) = wpa_sm_set_key E alg (Some broadcast_ether_addr) (unat (WPA_GET_LE16 g AND 3)) False
                           (take (wpa_cipher_rsc_len (group_cipher sm)) (drop 3 g)) (take keylen k) sm
                     in (if r < 0 then - 1 else 0, sm))"

definition wpa_ft_process_igtk_subelem :: "wpa_env \<Rightarrow> u8 list option \<Rightarrow> hs_sm \<Rightarrow> int \<times> hs_sm" where
  "wpa_ft_process_igtk_subelem E elem sm =
     (if bip_suite (mgmt_group_cipher sm) = [] then (0, sm)
      else case elem of
          None \<Rightarrow> (0, sm)
        | Some g \<Rightarrow>
            let n = wpa_cipher_key_len (mgmt_group_cipher sm)
            in if length g \<noteq> 2 + 6 + 1 + n + 8 then (- 1, sm)
               else if unat (g ! 8) \<noteq> n then (- 1, sm)
               else case aes_unwrap (crypto E) (ft_kek sm) (n div 8) (drop 9 g) of
                   None \<Rightarrow> (- 1, sm)
                 | Some k \<Rightarrow>
                     let (r, sm) = wpa_sm_set_key E (wpa_cipher_to_alg (mgmt_group_cipher sm)) (Some broadcast_ether_addr)
                           (unat (WPA_GET_LE16 g)) False (take 6 (drop 2 g)) (take n k) sm
                     in (if r < 0 then - 1 else 0, sm))"

definition ft_reassoc_ok :: "wpa_env \<Rightarrow> u8 list \<Rightarrow> wpa_ft_ies \<Rightarrow> hs_sm \<Rightarrow> bool" where
  "ft_reassoc_ok E src f sm \<longleftrightarrow>
     (let sha384 = wpa_key_mgmt_sha384 (akm sm); t = the (f_ftie f)
      in ft_mdie_ok f sm \<and> f_ftie f \<noteq> None \<and> ftie_size sha384 \<le> length t \<and> fte_snonce sha384 t = snonce sm \<and>
         fte_anonce sha384 t = anonce sm \<and> ft_r0kh_ok f sm \<and> f_r1kh_id f = Some (r1kh_id sm) \<and>
         f_rsn_pmkid f = Some (pmk_r1_name sm) \<and> unat (t ! 1) = 3 + case_option 0 (\<lambda>r. ieee802_11_ie_count (Some r)) (f_ric f) \<and>
         (case wpa_ft_mic (crypto E) (ft_kck sm) (own_addr (cache sm)) src 6
             (element_of WLAN_EID_MOBILITY_DOMAIN (the (f_mdie f))) (element_of WLAN_EID_FAST_BSS_TRANSITION t)
             (element_of Rsn_Ie.WLAN_EID_RSN (the (f_rsn f))) (f_ric f) of
            None \<Rightarrow> False
          | Some mic \<Rightarrow> take 16 mic = take 16 (fte_mic sha384 t)))"

definition ft_keys :: "wpa_env \<Rightarrow> u8 list \<Rightarrow> wpa_ft_ies \<Rightarrow> hs_sm \<Rightarrow> int \<times> hs_sm" where
  "ft_keys E src f sm =
     (let (r, sm) = wpa_ft_process_gtk_subelem E (f_gtk f) (sm\<lparr>ft_reassoc_completed := True\<rparr>)
      in if r < 0 then (- 1, sm)
         else
           let (r, sm) = wpa_ft_process_igtk_subelem E (f_igtk f) sm
           in if r < 0 then (- 1, sm)
              else if set_ptk_after_assoc sm
              then let (r, sm) = wpa_ft_install_ptk E src sm
                in if r < 0 then (- 1, sm) else (0, sm\<lparr>set_ptk_after_assoc := False\<rparr>)
              else (0, sm))"

definition wpa_ft_validate_reassoc_resp :: "wpa_env \<Rightarrow> u8 list \<Rightarrow> u8 list \<Rightarrow> hs_sm \<Rightarrow> int \<times> hs_sm" where
  "wpa_ft_validate_reassoc_resp E ies src sm =
     (if \<not> wpa_key_mgmt_ft (akm sm) then (- 1, sm)
      else if ft_reassoc_completed sm then (0, sm)
      else case wpa_ft_parse_ies ies (Some (wpa_key_mgmt_sha384 (akm sm))) of
          None \<Rightarrow> (- 1, sm)
        | Some f \<Rightarrow> if ft_reassoc_ok E src f sm then ft_keys E src f sm else (- 1, sm))"

section \<open>Over the distribution system\<close>

definition wpa_ft_start_over_ds :: "wpa_env \<Rightarrow> u8 list \<Rightarrow> u8 list option \<Rightarrow> hs_sm \<Rightarrow> int \<times> hs_sm" where
  "wpa_ft_start_over_ds E target ap_mdie sm =
     (case random_bytes E of
        None \<Rightarrow> (- 1, sm)
      | Some n \<Rightarrow>
          let sm = hs_emit (Random_Ft_Snonce n) (sm\<lparr>snonce := n\<rparr>);
              (ies, sm) = wpa_ft_gen_req_ies E None (pmk_r0_name sm) None target None ap_mdie sm
          in (0, case ies of None \<Rightarrow> sm
               | Some b \<Rightarrow> hs_emit (Send_Ft_Action target b) (sm\<lparr>over_the_ds_in_progress := True, target_ap := target\<rparr>)))"

end
