(* ===== verification/Wpa_Rx.thy ===== *)
theory Wpa_Rx
  imports Wpa_Install
begin

text \<open>
  Received EAPOL-Key frames, \<open>wpa_supplicant/src/rsn_supp/wpa.c\<close>: the checks of \<open>wpa_sm_rx_eapol\<close>, the integrity check,
  the decryption of the key data, and messages 3 of the 4-way handshake and 1 of the group key handshake.
\<close>

section \<open>Elements of message 3\<close>

text \<open>The bytes of a part of the key data.\<close>

definition kde_at :: "u8 list \<Rightarrow> (nat \<times> nat) option \<Rightarrow> u8 list option" where
  "kde_at data r = map_option (\<lambda>(p, l). take l (drop p data)) r"

definition wpa_report_ie_mismatch :: "hs_sm \<Rightarrow> hs_sm" where
  "wpa_report_ie_mismatch sm = wpa_sm_deauthenticate 17 sm"

text \<open>The last MDIE and the last FTIE of the association response, with their headers.\<close>

function assoc_resp_elems :: "u8 list \<Rightarrow> u8 list option \<times> u8 list option \<Rightarrow> u8 list option \<times> u8 list option" where
  "assoc_resp_elems b acc =
     (if length b \<le> 2 then acc
      else
        let n = 2 + unat (b ! 1)
        in if n > length b then acc
           else assoc_resp_elems (drop n b)
             (if b ! 0 = WLAN_EID_MOBILITY_DOMAIN then (Some (take n b), snd acc)
              else if b ! 0 = WLAN_EID_FAST_BSS_TRANSITION then (fst acc, Some (take n b)) else acc))"
  by pat_completeness auto
termination by (relation "measure (length \<circ> fst)") auto

declare assoc_resp_elems.simps [simp del]

definition ft_validate_mdie :: "u8 list option \<Rightarrow> u8 list option \<Rightarrow> hs_sm \<Rightarrow> bool" where
  "ft_validate_mdie mdie assoc_resp_mdie sm \<longleftrightarrow>
     (case mdie of
        None \<Rightarrow> False
      | Some m \<Rightarrow> 5 \<le> length m \<and> take 2 (drop 2 m) = mobility_domain sm \<and>
          (case assoc_resp_mdie of None \<Rightarrow> True | Some a \<Rightarrow> a = m))"

definition ft_validate_ftie :: "u8 list option \<Rightarrow> u8 list option \<Rightarrow> bool" where
  "ft_validate_ftie ftie assoc_resp_ftie \<longleftrightarrow>
     (case ftie of
        None \<Rightarrow> False
      | Some f \<Rightarrow> (case assoc_resp_ftie of None \<Rightarrow> True | Some a \<Rightarrow> a = f))"

definition ft_validate_rsnie :: "u8 list option \<Rightarrow> hs_sm \<Rightarrow> bool" where
  "ft_validate_rsnie rsn sm \<longleftrightarrow>
     (case rsn of
        None \<Rightarrow> True
      | Some e \<Rightarrow>
          let (r, d) = wpa_parse_wpa_ie_rsn e
          in 0 \<le> r \<and> ie_num_pmkid d = 1 \<and>
             (case ie_pmkid d of None \<Rightarrow> False | Some p \<Rightarrow> take 16 (drop p e) = pmk_r1_name sm))"

definition wpa_supplicant_validate_ie_ft :: "u8 list \<Rightarrow> wpa_eapol_ie_parse \<Rightarrow> hs_sm \<Rightarrow> bool" where
  "wpa_supplicant_validate_ie_ft data ie sm \<longleftrightarrow>
     (let (m, f) = assoc_resp_elems (case_option [] id (assoc_resp_ies sm)) (None, None)
      in ft_validate_mdie (kde_at data (k_mdie ie)) m sm \<and> ft_validate_ftie (kde_at data (k_ftie ie)) f \<and>
         ft_validate_rsnie (kde_at data (k_rsn_ie ie)) sm)"

text \<open>The elements of the scan results, which the callback stores when it finds the access point.\<close>

definition wpa_sm_get_beacon_ie :: "wpa_env \<Rightarrow> hs_sm \<Rightarrow> hs_sm" where
  "wpa_sm_get_beacon_ie E sm = (case beacon_ies E of None \<Rightarrow> sm | Some (w, r) \<Rightarrow> sm\<lparr>ap_wpa_ie := w, ap_rsn_ie := r\<rparr>)"

definition ie_mismatch :: "u8 list option \<Rightarrow> u8 list option \<Rightarrow> hs_sm \<Rightarrow> bool" where
  "ie_mismatch wpa_ie rsn_ie sm \<longleftrightarrow>
     wpa_ie = None \<and> rsn_ie = None \<and> (ap_wpa_ie sm \<noteq> None \<or> ap_rsn_ie sm \<noteq> None) \<or>
     wpa_ie \<noteq> None \<and> ap_wpa_ie sm \<noteq> None \<and> wpa_ie \<noteq> ap_wpa_ie sm \<or>
     rsn_ie \<noteq> None \<and> ap_rsn_ie sm \<noteq> None \<and> wpa_compare_rsn_ie (wpa_key_mgmt_ft (akm sm)) (ap_rsn_ie sm) rsn_ie \<noteq> 0 \<or>
     proto sm = WPA_PROTO_WPA \<and> rsn_ie \<noteq> None \<and> ap_rsn_ie sm = None \<and> rsn_enabled sm"

definition wpa_supplicant_validate_ie :: "wpa_env \<Rightarrow> u8 list \<Rightarrow> wpa_eapol_ie_parse \<Rightarrow> hs_sm \<Rightarrow> bool \<times> hs_sm" where
  "wpa_supplicant_validate_ie E data ie sm =
     (let sm = (if ap_wpa_ie sm = None \<and> ap_rsn_ie sm = None then wpa_sm_get_beacon_ie E sm else sm)
      in if ie_mismatch (kde_at data (k_wpa_ie ie)) (kde_at data (k_rsn_ie ie)) sm
         then (False, wpa_report_ie_mismatch sm)
         else (\<not> wpa_key_mgmt_ft (akm sm) \<or> wpa_supplicant_validate_ie_ft data ie sm, sm))"

section \<open>Message 3\<close>

text \<open>Keys in the clear, and an integrity group key of the wrong length, are refused.\<close>

definition kdes_ok :: "u16 \<Rightarrow> wpa_eapol_ie_parse \<Rightarrow> hs_sm \<Rightarrow> bool" where
  "kdes_ok key_info ie sm \<longleftrightarrow>
     (info_bit key_info WPA_KEY_INFO_ENCR_KEY_DATA \<or> (k_gtk ie = None \<and> k_igtk ie = None)) \<and>
     (case k_igtk ie of None \<Rightarrow> True
      | Some (p, l) \<Rightarrow> wpa_cipher_valid_mgmt_group (mgmt_group_cipher sm) \<longrightarrow>
          l = 8 + wpa_cipher_key_len (mgmt_group_cipher sm))"

text \<open>The Suite B identifier needs the key confirmation key, so that its entry is added only here.\<close>

definition cache_suite_b :: "wpa_env \<Rightarrow> hs_sm \<Rightarrow> hs_sm" where
  "cache_suite_b E sm =
     (if proto sm = WPA_PROTO_RSN \<and> wpa_key_mgmt_suite_b (akm sm) \<and> cur_pmksa (cache sm) = None
      then let (sa, sm) = cache_key E (pmk_of sm) (Some (ptk_kck (ptk sm))) (bssid (cache sm)) sm in current_if_none sa sm
      else sm)"

definition group_keys_of_3_of_4 :: "wpa_env \<Rightarrow> u8 list \<Rightarrow> u8 list \<Rightarrow> wpa_eapol_ie_parse \<Rightarrow> hs_sm \<Rightarrow> bool \<times> hs_sm" where
  "group_keys_of_3_of_4 E buf data ie sm =
     (let (r, sm) =
        (if group_cipher sm = WPA_CIPHER_GTK_NOT_USED then (0, sm)
         else case kde_at data (k_gtk ie) of
             None \<Rightarrow> (if proto sm = WPA_PROTO_RSN then (- 1, sm) else (0, sm))
           | Some g \<Rightarrow> wpa_supplicant_pairwise_gtk E buf g sm)
      in if r < 0 then (False, sm)
         else let (r, sm) = ieee80211w_set_keys E (kde_at data (k_igtk ie)) sm in (0 \<le> r, sm))"

definition finish_3_of_4 :: "wpa_env \<Rightarrow> u8 list \<Rightarrow> u8 list \<Rightarrow> wpa_eapol_ie_parse \<Rightarrow> hs_sm \<Rightarrow> hs_sm" where
  "finish_3_of_4 E buf data ie sm =
     (let secure = info_bit (k_key_info buf) WPA_KEY_INFO_SECURE;
          sm = (if secure then hs_emit (Port_Valid True) (hs_emit (Set_Protection (bssid (cache sm)) 1 1) sm) else sm);
          (ok, sm) = group_keys_of_3_of_4 E buf data ie (wpa_sm_set_state WPA_GROUP_HANDSHAKE sm)
      in if \<not> ok then wpa_sm_deauthenticate 1 sm
         else
           let sm = (if group_cipher sm = WPA_CIPHER_GTK_NOT_USED \<or> k_gtk ie \<noteq> None
                 then wpa_supplicant_key_neg_complete E (bssid (cache sm)) secure sm else sm);
               sm = (if k_gtk ie \<noteq> None then wpa_sm_set_rekey_offload sm else sm)
           in (cache_suite_b E sm)\<lparr>msg_3_of_4_ok := True\<rparr>)"

definition answer_3_of_4 :: "wpa_env \<Rightarrow> u8 list \<Rightarrow> u16 \<Rightarrow> u8 list \<Rightarrow> wpa_eapol_ie_parse \<Rightarrow> hs_sm \<Rightarrow> hs_sm" where
  "answer_3_of_4 E buf ver data ie sm =
     (let sm = (case k_ip_addr_alloc ie of None \<Rightarrow> sm | Some p \<Rightarrow> sm\<lparr>p2p_ip_addr := take 12 (drop p data)\<rparr>);
          (r, sm) = wpa_supplicant_send_4_of_4 E (bssid (cache sm)) buf ver (k_key_info buf) (ptk sm) sm
      in if r < 0 then wpa_sm_deauthenticate 1 sm
         else
           let sm = sm\<lparr>renew_snonce := True\<rparr>;
               (r, sm) = (if info_bit (k_key_info buf) WPA_KEY_INFO_INSTALL then wpa_supplicant_install_ptk E buf sm else (0, sm))
           in if r \<noteq> 0 then wpa_sm_deauthenticate 1 sm else finish_3_of_4 E buf data ie sm)"

definition wpa_supplicant_process_3_of_4 :: "wpa_env \<Rightarrow> u8 list \<Rightarrow> u16 \<Rightarrow> u8 list \<Rightarrow> hs_sm \<Rightarrow> hs_sm" where
  "wpa_supplicant_process_3_of_4 E buf ver data sm =
     (let sm = wpa_sm_set_state WPA_4WAY_HANDSHAKE sm; (r, ie) = wpa_supplicant_parse_ies data (length data)
      in if r < 0 \<or> \<not> kdes_ok (k_key_info buf) ie sm then wpa_sm_deauthenticate 1 sm
         else
           let (ok, sm) = wpa_supplicant_validate_ie E data ie sm
           in if \<not> ok \<or> anonce sm \<noteq> k_key_nonce buf \<or>
                 unat (WPA_GET_BE16 (k_key_length buf)) \<noteq> wpa_cipher_key_len (pairwise_cipher sm)
              then wpa_sm_deauthenticate 1 sm
              else answer_3_of_4 E buf ver data ie sm)"

section \<open>Group key handshake\<close>

text \<open>Both forms give the group key, or \<open>None\<close> for an error.\<close>

definition wpa_supplicant_process_1_of_2_rsn ::
    "wpa_env \<Rightarrow> u8 list \<Rightarrow> u16 \<Rightarrow> hs_sm \<Rightarrow> wpa_gtk_data option \<times> hs_sm" where
  "wpa_supplicant_process_1_of_2_rsn E data key_info sm =
     (let (r, ie) = wpa_supplicant_parse_ies data (length data)
      in if r < 0 then (None, sm)
         else case kde_at data (k_gtk ie) of
             None \<Rightarrow> (None, sm)
           | Some g \<Rightarrow>
               if \<not> info_bit key_info WPA_KEY_INFO_ENCR_KEY_DATA then (None, sm)
               else case wpa_supplicant_check_group_cipher (group_cipher sm) (length g - 2) (length g - 2) of
                   None \<Rightarrow> (None, sm)
                 | Some (l, alg) \<Rightarrow>
                     if length g - 2 > 32 then (None, sm)
                     else (Some \<lparr>gd_alg = alg, gd_tx = wpa_supplicant_gtk_tx_bit_workaround (g ! 0 AND 4 \<noteq> 0) sm,
                         gd_key_rsc_len = l, gd_keyidx = unat (g ! 0 AND 3), gd_gtk = poke 0 (drop 2 g) (zeros 32),
                         gd_gtk_len = length g - 2\<rparr>,
                       snd (ieee80211w_set_keys E (kde_at data (k_igtk ie)) sm)))"

definition wpa_group_key :: "wpa_env \<Rightarrow> u8 list \<Rightarrow> u8 list \<Rightarrow> u16 \<Rightarrow> hs_sm \<Rightarrow> u8 list option" where
  "wpa_group_key E buf data ver sm =
     (if ver = WPA_KEY_INFO_TYPE_HMAC_MD5_RC4 \<and> kek_len (ptk sm) = 16
      then if length data > 32 then None else rc4_skip (crypto E) (k_key_iv buf @ ptk_kek (ptk sm)) 256 data
      else if ver = WPA_KEY_INFO_TYPE_HMAC_SHA1_AES
      then if (length data - 8) mod 8 \<noteq> 0 then None else if length data - 8 > 32 then None
        else aes_unwrap (crypto E) (ptk_kek (ptk sm)) ((length data - 8) div 8) data
      else None)"

definition wpa_supplicant_process_1_of_2_wpa ::
    "wpa_env \<Rightarrow> u8 list \<Rightarrow> u8 list \<Rightarrow> u16 \<Rightarrow> u16 \<Rightarrow> hs_sm \<Rightarrow> wpa_gtk_data option" where
  "wpa_supplicant_process_1_of_2_wpa E buf data key_info ver sm =
     (let n = unat (WPA_GET_BE16 (k_key_length buf));
          maxkeylen = (if ver = WPA_KEY_INFO_TYPE_HMAC_SHA1_AES then length data - 8 else length data)
      in if ver = WPA_KEY_INFO_TYPE_HMAC_SHA1_AES \<and> length data < 8 then None
         else if n > maxkeylen then None
         else case wpa_supplicant_check_group_cipher (group_cipher sm) n maxkeylen of
             None \<Rightarrow> None
           | Some (l, alg) \<Rightarrow>
               map_option (\<lambda>k. \<lparr>gd_alg = alg, gd_tx = wpa_supplicant_gtk_tx_bit_workaround (info_bit key_info 0x40) sm,
                   gd_key_rsc_len = l, gd_keyidx = unat (drop_bit 4 (key_info AND WPA_KEY_INFO_KEY_INDEX_MASK)),
                   gd_gtk = poke 0 k (zeros 32), gd_gtk_len = n\<rparr>)
                 (wpa_group_key E buf data ver sm))"

definition finish_1_of_2 :: "wpa_env \<Rightarrow> u8 list \<Rightarrow> u16 \<Rightarrow> bool \<Rightarrow> wpa_gtk_data \<Rightarrow> hs_sm \<Rightarrow> hs_sm" where
  "finish_1_of_2 E buf ver rekey gd sm =
     (let info = k_key_info buf; (r, sm) = wpa_supplicant_install_gtk E gd (group_rsc buf sm) False sm
      in if r \<noteq> 0 then wpa_sm_deauthenticate 1 sm
         else
           let (r, sm) = wpa_supplicant_send_2_of_2 E buf ver info sm
           in if r < 0 then wpa_sm_deauthenticate 1 sm
              else wpa_sm_set_rekey_offload
                (if rekey then wpa_sm_set_state WPA_COMPLETED (hs_emit Cancel_Auth_Timeout sm)
                 else wpa_supplicant_key_neg_complete E (bssid (cache sm)) (info_bit info WPA_KEY_INFO_SECURE) sm))"

definition wpa_supplicant_process_1_of_2 :: "wpa_env \<Rightarrow> u8 list \<Rightarrow> u8 list \<Rightarrow> u16 \<Rightarrow> hs_sm \<Rightarrow> hs_sm" where
  "wpa_supplicant_process_1_of_2 E buf data ver sm =
     (if \<not> msg_3_of_4_ok sm then wpa_sm_deauthenticate 1 sm
      else
        let rekey = (wpa_state sm = WPA_COMPLETED);
            (gd, sm) = (if is_rsn sm then wpa_supplicant_process_1_of_2_rsn E data (k_key_info buf) sm
              else (wpa_supplicant_process_1_of_2_wpa E buf data (k_key_info buf) ver sm, sm));
            sm = wpa_sm_set_state WPA_GROUP_HANDSHAKE sm
        in case gd of
             None \<Rightarrow> wpa_sm_deauthenticate 1 sm
           | Some g \<Rightarrow> finish_1_of_2 E buf ver rekey g sm)"

section \<open>Integrity and decryption\<close>

text \<open>The MIC is computed in place, over a frame whose MIC is cleared, and compared with the one received.\<close>

definition mic_attempt :: "wpa_env \<Rightarrow> wpa_ptk \<Rightarrow> u16 \<Rightarrow> u8 list \<Rightarrow> u8 list \<Rightarrow> hs_sm \<Rightarrow> bool \<times> u8 list" where
  "mic_attempt E key ver mic buf sm =
     (let z = poke 81 (zeros (mic_len sm)) buf
      in case wpa_eapol_key_mic (crypto E) (ptk_kck key) (akm sm) ver z of
           None \<Rightarrow> (False, z)
         | Some m \<Rightarrow> let b = poke 81 m z in (mic = k_mic (mic_len sm) b, b))"

definition use_tptk :: "hs_sm \<Rightarrow> hs_sm" where
  "use_tptk sm = sm\<lparr>tptk_set := False, ptk_set := True, ptk := tptk sm, tptk := no_ptk, renew_snonce := True\<rparr>"

definition wpa_supplicant_verify_eapol_key_mic ::
    "wpa_env \<Rightarrow> u16 \<Rightarrow> u8 list \<Rightarrow> hs_sm \<Rightarrow> bool \<times> u8 list \<times> hs_sm" where
  "wpa_supplicant_verify_eapol_key_mic E ver buf sm =
     (let mic = k_mic (mic_len sm) buf;
          (ok, buf, sm) =
            (if tptk_set sm
             then let (ok, b) = mic_attempt E (tptk sm) ver mic buf sm in (ok, b, if ok then use_tptk sm else sm)
             else (False, buf, sm));
          (ok, buf) = (if \<not> ok \<and> ptk_set sm then mic_attempt E (ptk sm) ver mic buf sm else (ok, buf))
      in (ok, buf, if ok then sm\<lparr>rx_replay_counter := k_replay_counter buf, rx_replay_counter_set := True\<rparr> else sm))"

definition wpa_supplicant_decrypt_key_data :: "wpa_env \<Rightarrow> u8 list \<Rightarrow> u16 \<Rightarrow> u8 list \<Rightarrow> hs_sm \<Rightarrow> u8 list option" where
  "wpa_supplicant_decrypt_key_data E buf ver data sm =
     (if \<not> ptk_set sm then None
      else if ver = WPA_KEY_INFO_TYPE_HMAC_MD5_RC4 \<and> kek_len (ptk sm) = 16
      then rc4_skip (crypto E) (k_key_iv buf @ ptk_kek (ptk sm)) 256 data
      else if ver = WPA_KEY_INFO_TYPE_HMAC_SHA1_AES \<or> ver = WPA_KEY_INFO_TYPE_AES_128_CMAC \<or> wpa_use_aes_key_wrap (akm sm)
      then if length data < 8 \<or> length data mod 8 \<noteq> 0 then None
        else if \<not> mem_ok E Mem_Unwrap then None
        else map_option (take (length data - 8)) (aes_unwrap (crypto E) (ptk_kek (ptk sm)) ((length data - 8) div 8) data)
      else None)"

section \<open>Received frame\<close>

text \<open>The version of the descriptor must be the one of the key management and the ciphers.\<close>

definition descriptor_ok :: "u16 \<Rightarrow> hs_sm \<Rightarrow> bool" where
  "descriptor_ok key_info sm =
     (let ver = key_info AND 7; akm_defined = wpa_use_akm_defined (akm sm)
      in if ver \<notin> {WPA_KEY_INFO_TYPE_HMAC_MD5_RC4, WPA_KEY_INFO_TYPE_AES_128_CMAC, WPA_KEY_INFO_TYPE_HMAC_SHA1_AES} \<and>
           \<not> akm_defined then False
         else if akm_defined \<and> ver \<noteq> 0 then False
         else if wpa_key_mgmt_ft (akm sm) then ver = WPA_KEY_INFO_TYPE_AES_128_CMAC \<or> akm_defined
         else if wpa_key_mgmt_sha256 (akm sm) then ver = WPA_KEY_INFO_TYPE_AES_128_CMAC \<or> akm_defined
         else if pairwise_cipher sm = WPA_CIPHER_CCMP \<and> \<not> akm_defined \<and> ver \<noteq> WPA_KEY_INFO_TYPE_HMAC_SHA1_AES
         then (group_cipher sm \<noteq> WPA_CIPHER_CCMP \<and> \<not> info_bit key_info WPA_KEY_INFO_KEY_TYPE) \<or>
           ver = WPA_KEY_INFO_TYPE_AES_128_CMAC
         else \<not> (pairwise_cipher sm = WPA_CIPHER_GCMP \<and> \<not> akm_defined \<and> ver \<noteq> WPA_KEY_INFO_TYPE_HMAC_SHA1_AES))"

definition replay_ok :: "u8 list \<Rightarrow> hs_sm \<Rightarrow> bool" where
  "replay_ok buf sm \<longleftrightarrow> \<not> rx_replay_counter_set sm \<or> memcmp_lt (rx_replay_counter sm) (k_replay_counter buf)"

definition key_info_ok :: "u8 list \<Rightarrow> hs_sm \<Rightarrow> bool" where
  "key_info_ok buf sm \<longleftrightarrow>
     (let info = k_key_info buf
      in descriptor_ok info sm \<and> replay_ok buf sm \<and> \<not> info_bit info WPA_KEY_INFO_SMK_MESSAGE \<and>
         info_bit info WPA_KEY_INFO_ACK \<and> \<not> info_bit info WPA_KEY_INFO_REQUEST)"

definition rx_dispatch :: "wpa_env \<Rightarrow> u8 list \<Rightarrow> u8 list \<Rightarrow> u8 list \<Rightarrow> hs_sm \<Rightarrow> int \<times> hs_sm" where
  "rx_dispatch E src buf data sm =
     (let info = k_key_info buf; ver = info AND 7
      in if info_bit info WPA_KEY_INFO_KEY_TYPE
         then if info_bit info WPA_KEY_INFO_KEY_INDEX_MASK then (- 1, sm)
           else if info_bit info WPA_KEY_INFO_MIC \<or> info_bit info WPA_KEY_INFO_ENCR_KEY_DATA
           then (1, wpa_supplicant_process_3_of_4 E buf ver data sm)
           else (1, wpa_supplicant_process_1_of_4 E src buf ver data sm)
         else if info_bit info (if mic_len sm \<noteq> 0 then WPA_KEY_INFO_MIC else WPA_KEY_INFO_ENCR_KEY_DATA)
         then (1, wpa_supplicant_process_1_of_2 E buf data ver sm)
         else (1, sm))"

definition rx_key :: "wpa_env \<Rightarrow> u8 list \<Rightarrow> u8 list \<Rightarrow> nat \<Rightarrow> hs_sm \<Rightarrow> int \<times> hs_sm" where
  "rx_key E src buf key_data_len sm =
     (let info = k_key_info buf;
          (ok, buf, sm) = (if info_bit info WPA_KEY_INFO_MIC
            then wpa_supplicant_verify_eapol_key_mic E (info AND 7) buf sm else (True, buf, sm));
          data = take key_data_len (drop (83 + mic_len sm) buf)
      in if \<not> ok then (- 1, sm)
         else if is_rsn sm \<and> info_bit info WPA_KEY_INFO_ENCR_KEY_DATA \<and> mic_len sm \<noteq> 0
         then if \<not> info_bit info WPA_KEY_INFO_MIC then (- 1, sm)
           else case wpa_supplicant_decrypt_key_data E buf (info AND 7) data sm of
               None \<Rightarrow> (- 1, sm)
             | Some plain \<Rightarrow> rx_dispatch E src buf plain sm
         else rx_dispatch E src buf data sm)"

definition wpa_sm_rx_eapol :: "wpa_env \<Rightarrow> u8 list \<Rightarrow> u8 list \<Rightarrow> hs_sm \<Rightarrow> int \<times> hs_sm" where
  "wpa_sm_rx_eapol E src buf sm =
     (let sm = sm\<lparr>ft_completed := False\<rparr>; keyhdrlen = 77 + mic_len sm + 2; plen = hdr_length buf; tmp = take (plen + 4) buf;
          key_data_len = unat (WPA_GET_BE16 (drop (81 + mic_len sm) tmp))
      in if length buf < 4 + keyhdrlen then (0, sm)
         else if hdr_type buf \<noteq> 3 then (0, sm)
         else if plen > length buf - 4 \<or> plen < keyhdrlen then (0, sm)
         else if \<not> mem_ok E Mem_Copy then (- 1, sm)
         else if k_type tmp \<noteq> 254 \<and> k_type tmp \<noteq> 2 then (0, sm)
         else if key_data_len > plen - keyhdrlen then (- 1, sm)
         else
           let sm = hs_emit Notify_Lower_Layer_Success sm
           in if \<not> key_info_ok tmp sm then (- 1, sm) else rx_key E src tmp key_data_len sm)"

end
