(* ===== verification/Wpa_Preauth.thy ===== *)
theory Wpa_Preauth
  imports Wpa_Sm
begin

text \<open>
  Pre-authentication, \<open>wpa_supplicant/src/rsn_supp/preauth.c\<close>: the list of candidates, ordered by priority, and the
  EAPOL machine that is run with one of them at a time. The machine and its socket are outside; \<open>preauth_eapol\<close> is
  whether there is one.
\<close>

section \<open>Candidates\<close>

abbreviation (input) PMKID_CANDIDATE_PRIO_SCAN :: int where "PMKID_CANDIDATE_PRIO_SCAN \<equiv> 1000"

definition pmksa_candidate_free :: "hs_sm \<Rightarrow> hs_sm" where
  "pmksa_candidate_free sm = sm\<lparr>pmksa_candidates := []\<rparr>"

section \<open>Start and end\<close>

definition close_preauth :: "hs_sm \<Rightarrow> hs_sm" where
  "close_preauth sm =
     (let sm = hs_emit Preauth_Close (sm\<lparr>l2_preauth := False\<rparr>)
      in if l2_preauth_br sm then hs_emit Preauth_Close_Bridge (sm\<lparr>l2_preauth_br := False\<rparr>) else sm)"

definition rsn_preauth_deinit :: "hs_sm \<Rightarrow> hs_sm" where
  "rsn_preauth_deinit sm =
     (if \<not> preauth_eapol sm then sm
      else close_preauth
        (hs_emit Preauth_Eapol_Stop (hs_emit Cancel_Preauth_Timeout sm)\<lparr>preauth_eapol := False, preauth_bssid := zeros 6\<rparr>))"

text \<open>A failure closes the bridge before the socket.\<close>

definition fail_preauth :: "int \<Rightarrow> hs_sm \<Rightarrow> int \<times> hs_sm" where
  "fail_preauth r sm =
     (let sm = (if l2_preauth_br sm then hs_emit Preauth_Close_Bridge (sm\<lparr>l2_preauth_br := False\<rparr>) else sm)
      in (r, hs_emit Preauth_Close (sm\<lparr>l2_preauth := False\<rparr>)))"

definition rsn_preauth_init :: "wpa_env \<Rightarrow> u8 list \<Rightarrow> hs_sm \<Rightarrow> int \<times> hs_sm" where
  "rsn_preauth_init E dst sm =
     (if preauth_eapol sm then (- 1, sm)
      else if \<not> init_ok E L2_Preauth then (- 2, sm\<lparr>l2_preauth := False\<rparr>)
      else
        let sm = hs_emit Preauth_Open (sm\<lparr>l2_preauth := True\<rparr>)
        in if bridge_ifname sm \<and> \<not> init_ok E L2_Preauth_Br then fail_preauth (- 2) (sm\<lparr>l2_preauth_br := False\<rparr>)
           else
             let sm = (if bridge_ifname sm then hs_emit Preauth_Open_Bridge (sm\<lparr>l2_preauth_br := True\<rparr>) else sm)
             in if \<not> mem_ok E Mem_Eapol then fail_preauth (- 4) sm
                else if \<not> init_ok E Preauth_Eapol then fail_preauth (- 3) sm
                else (0, hs_emit (Register_Preauth_Timeout (dot11RSNAConfigSATimeout sm))
                  (hs_emit (Preauth_Eapol_Start dst) (sm\<lparr>preauth_eapol := True, preauth_bssid := dst\<rparr>))))"

section \<open>Processing\<close>

text \<open>A candidate that has an entry, or is the current access point, is dropped; its entry is given to the driver again.\<close>

definition candidate_entry :: "u8 list \<Rightarrow> hs_sm \<Rightarrow> rsn_pmksa_cache_entry option" where
  "candidate_entry bss sm = pmksa_cache_get (Some bss) None 0 0 (cache sm)"

definition wants_preauth :: "u8 list \<Rightarrow> hs_sm \<Rightarrow> bool" where
  "wants_preauth bss sm \<longleftrightarrow>
     bssid (cache sm) \<noteq> bss \<and> (case candidate_entry bss sm of None \<Rightarrow> True | Some e \<Rightarrow> opportunistic e)"

definition report_candidate :: "u8 list \<Rightarrow> hs_sm \<Rightarrow> hs_sm" where
  "report_candidate bss sm =
     (case candidate_entry bss sm of
        None \<Rightarrow> sm
      | Some e \<Rightarrow> set_cache (\<lambda>c. c\<lparr>outs := outs c @ [Add_Pmkid 0 bss (pmkid e) None (pmk e)]\<rparr>) sm)"

fun candidate_pass :: "wpa_env \<Rightarrow> (u8 list \<times> int) list \<Rightarrow> hs_sm \<Rightarrow> hs_sm" where
  "candidate_pass E [] sm = sm\<lparr>pmksa_candidates := []\<rparr>"
| "candidate_pass E ((bss, prio) # cs) sm =
     (if wants_preauth bss sm then snd (rsn_preauth_init E bss (sm\<lparr>pmksa_candidates := cs\<rparr>))
      else candidate_pass E cs (report_candidate bss sm))"

definition preauth_suitable :: "hs_sm \<Rightarrow> bool" where
  "preauth_suitable sm \<longleftrightarrow> \<not> preauth_eapol sm \<and> proto sm = WPA_PROTO_RSN \<and> wpa_state sm = WPA_COMPLETED \<and>
     akm sm \<in> {WPA_KEY_MGMT_IEEE8021X, WPA_KEY_MGMT_IEEE8021X_SHA256, WPA_KEY_MGMT_IEEE8021X_SUITE_B,
       WPA_KEY_MGMT_IEEE8021X_SUITE_B_192}"

definition rsn_preauth_candidate_process :: "wpa_env \<Rightarrow> hs_sm \<Rightarrow> hs_sm" where
  "rsn_preauth_candidate_process E sm =
     (if pmksa_candidates sm = [] then sm
      else if \<not> preauth_suitable sm then sm
      else candidate_pass E (pmksa_candidates sm) sm)"

section \<open>The EAPOL machine\<close>

definition rsn_preauth_receive :: "u8 list \<Rightarrow> u8 list \<Rightarrow> hs_sm \<Rightarrow> hs_sm" where
  "rsn_preauth_receive src buf sm =
     (if \<not> preauth_eapol sm \<or> preauth_bssid sm = zeros 6 \<or> preauth_bssid sm \<noteq> src then sm else hs_emit (Preauth_Rx buf) sm)"

text \<open>The key of the machine, and its result: an access point that gave a key has an entry. The length of the key is also
  stored as the length of the key in use; \<open>rest\<close> are the bytes behind that key in its buffer.\<close>

definition preauth_key :: "wpa_env \<Rightarrow> u8 list option" where
  "preauth_key E = (case eapol_key E 32 of Some k \<Rightarrow> Some k | None \<Rightarrow> eapol_key E 16)"

definition rsn_preauth_eapol_cb :: "wpa_env \<Rightarrow> bool \<Rightarrow> u8 list \<Rightarrow> hs_sm \<Rightarrow> hs_sm" where
  "rsn_preauth_eapol_cb E success rest sm =
     (let sm = (case (success, preauth_key E) of
            (True, Some k) \<Rightarrow> set_cache (\<lambda>c. snd (pmksa_cache_add (cache_env E) k None None (preauth_bssid sm) (own_addr c)
              (sm_network_ctx c) WPA_KEY_MGMT_IEEE8021X None (c\<lparr>sm_pmk := take (length k) (sm_pmk c @ rest)\<rparr>))) sm
          | _ \<Rightarrow> sm)
      in rsn_preauth_candidate_process E (rsn_preauth_deinit sm))"

definition rsn_preauth_timeout :: "wpa_env \<Rightarrow> hs_sm \<Rightarrow> hs_sm" where
  "rsn_preauth_timeout E sm = rsn_preauth_candidate_process E (rsn_preauth_deinit sm)"

definition rsn_preauth_eapol_send :: "wpa_env \<Rightarrow> u8 \<Rightarrow> u8 list \<Rightarrow> hs_sm \<Rightarrow> int \<times> hs_sm" where
  "rsn_preauth_eapol_send E ty buf sm =
     (if \<not> l2_preauth sm then (- 1, sm)
      else if \<not> mem_ok E Mem_Frame then (- 1, sm)
      else (send_result E, hs_emit (Preauth_Send (preauth_bssid sm)
        ([eapol_version E, ty] @ WPA_PUT_BE16 (of_nat (length buf)) @ buf)) sm))"

section \<open>New candidates\<close>

text \<open>In front of the first candidate of the same or a lower priority.\<close>

fun insert_candidate :: "u8 list \<times> int \<Rightarrow> (u8 list \<times> int) list \<Rightarrow> (u8 list \<times> int) list" where
  "insert_candidate c [] = [c]"
| "insert_candidate c (d # ds) = (if snd c \<le> snd d then c # d # ds else d # insert_candidate c ds)"

definition candidate_prio :: "u8 list \<Rightarrow> int \<Rightarrow> hs_sm \<Rightarrow> int" where
  "candidate_prio bss prio sm =
     (case find (\<lambda>c. fst c = bss) (pmksa_candidates sm) of
        None \<Rightarrow> prio
      | Some c \<Rightarrow> if prio < PMKID_CANDIDATE_PRIO_SCAN then prio else snd c)"

definition pmksa_candidate_add :: "wpa_env \<Rightarrow> u8 list \<Rightarrow> int \<Rightarrow> bool \<Rightarrow> hs_sm \<Rightarrow> hs_sm" where
  "pmksa_candidate_add E bss prio preauth sm =
     (let sm = (if sm_network_ctx (cache sm) \<noteq> 0 \<and> proactive_key_caching sm \<noteq> 0
            then set_cache (\<lambda>c. snd (pmksa_cache_get_opportunistic (cache_env E) (sm_network_ctx c) bss 0 c)) sm else sm)
      in if \<not> preauth then sm
         else if find (\<lambda>c. fst c = bss) (pmksa_candidates sm) = None \<and> \<not> mem_ok E Mem_Candidate then sm
         else rsn_preauth_candidate_process E
           (sm\<lparr>pmksa_candidates := insert_candidate (bss, candidate_prio bss prio sm)
                  (remove_first (\<lambda>c. fst c = bss) (pmksa_candidates sm))\<rparr>))"

definition rsn_preauth_scan_results :: "hs_sm \<Rightarrow> int \<times> hs_sm" where
  "rsn_preauth_scan_results sm = (if ssid sm = [] then (- 1, sm) else (0, pmksa_candidate_free sm))"

text \<open>\<open>ss\<close> is the SSID element of the scan result, with its header, and \<open>rsn\<close> its RSN element.\<close>

definition rsn_preauth_scan_result :: "wpa_env \<Rightarrow> u8 list \<Rightarrow> u8 list \<Rightarrow> u8 list \<Rightarrow> hs_sm \<Rightarrow> hs_sm" where
  "rsn_preauth_scan_result E bss ss rsn sm =
     (let (r, ie) = wpa_parse_wpa_ie rsn; preauth = (ie_capabilities ie AND 1 \<noteq> 0)
      in if unat (ss ! 1) \<noteq> length (ssid sm) \<or> take (length (ssid sm)) (drop 2 ss) \<noteq> ssid sm then sm
         else if bss = bssid (cache sm) then sm
         else if r \<noteq> 0 then sm
         else if (case candidate_entry bss sm of None \<Rightarrow> False | Some e \<Rightarrow> \<not> opportunistic e \<or> \<not> preauth) then sm
         else pmksa_candidate_add E bss PMKID_CANDIDATE_PRIO_SCAN preauth sm)"

definition rsn_preauth_in_progress :: "hs_sm \<Rightarrow> bool" where
  "rsn_preauth_in_progress sm = preauth_eapol sm"

end
