(* ===== verification/Wpa_Calls.thy ===== *)
theory Wpa_Calls
  imports Wpa_Ft Wpa_Rx Wpa_Preauth
begin

text \<open>
  The other entry points of \<open>wpa_supplicant/src/rsn_supp/wpa.c\<close>: creation, association and disassociation, the
  configuration, and the keys that the driver or WNM sleep mode hand over.
\<close>

section \<open>Creation\<close>

text \<open>A zeroed structure; \<open>c\<close> has what exists before: the event loop, the addresses the allocator gives.\<close>

definition new_cache :: "wpa_sm \<Rightarrow> wpa_sm" where
  "new_cache c = pmksa_cache_init (c\<lparr>cur_pmksa := None, sm_pmk := [], xxkey := [], bssid := zeros 6, own_addr := zeros 6,
     sm_network_ctx := 0, key_mgmt := 0, dot11RSNAConfigPMKLifetime := 43200, dot11RSNAConfigPMKReauthThreshold := 70,
     outs := []\<rparr>)"

definition wpa_sm_init :: "bool \<Rightarrow> wpa_sm \<Rightarrow> hs_sm option" where
  "wpa_sm_init allocated c =
     (if \<not> allocated then None
      else Some
        \<lparr>cache = new_cache c, ptk = no_ptk, tptk = no_ptk, ptk_set = False, tptk_set = False, msg_3_of_4_ok = False,
         snonce = zeros 32, anonce = zeros 32, renew_snonce = True, rx_replay_counter = zeros 8,
         rx_replay_counter_set = False, request_counter = zeros 8, gtk = [], gtk_wnm_sleep = [], igtk = [],
         igtk_wnm_sleep = [], has_eapol = False, pmksa_candidates = [], preauth_eapol = False, preauth_bssid = zeros 6,
         l2_preauth = False, l2_preauth_br = False, bridge_ifname = False, allowed_pairwise_cipher = 0,
         proactive_key_caching = 0, eap_workaround = 0, fast_reauth = 0, dot11RSNAConfigSATimeout = 60, ssid = [],
         wpa_ptk_rekey = 0, p2p = False, wpa_rsc_relaxation = False, proto = 0, pairwise_cipher = 0, group_cipher = 0,
         mgmt_group_cipher = 0, rsn_enabled = False, mfp = 0, ocv = False, assoc_wpa_ie = None, ap_wpa_ie = None,
         ap_rsn_ie = None, pmk_r0 = zeros 64, pmk_r0_len = 0, pmk_r0_name = zeros 16, pmk_r1 = zeros 64, pmk_r1_len = 0,
         pmk_r1_name = zeros 16, mobility_domain = zeros 2, r0kh_id = [], r1kh_id = zeros 6, ft_completed = False,
         ft_reassoc_completed = False, ft_protocol = False, over_the_ds_in_progress = False, target_ap = zeros 6,
         set_ptk_after_assoc = False, mdie_ft_capab = 0, assoc_resp_ies = None, p2p_ip_addr = zeros 12,
         handshake_failures = 0, wpa_state = WPA_DISCONNECTED, hs_outs = []\<rparr>)"

section \<open>Association\<close>

definition clear_keys :: "hs_sm \<Rightarrow> hs_sm" where
  "clear_keys sm = sm\<lparr>ptk_set := False, ptk := no_ptk, tptk_set := False, tptk := no_ptk, gtk := [], gtk_wnm_sleep := [],
     igtk := [], igtk_wnm_sleep := []\<rparr>"

definition wpa_sm_notify_assoc :: "wpa_env \<Rightarrow> u8 list \<Rightarrow> hs_sm \<Rightarrow> hs_sm" where
  "wpa_sm_notify_assoc E bss sm =
     (let sm = set_cache (\<lambda>c. c\<lparr>bssid := bss\<rparr>) (sm\<lparr>rx_replay_counter := zeros 8, rx_replay_counter_set := False, renew_snonce := True\<rparr>);
          sm = (if preauth_bssid sm = bss then rsn_preauth_deinit sm else sm);
          sm = (if wpa_ft_is_completed sm
            then
              let sm = wpa_supplicant_key_neg_complete E bss True (hs_emit (Port_Valid False) sm)
              in (snd (wpa_ft_prepare_auth_request E None sm))\<lparr>ft_protocol := True\<rparr>
            else clear_keys (sm\<lparr>ft_protocol := False\<rparr>))
      in sm\<lparr>p2p_ip_addr := zeros 12\<rparr>)"

definition wpa_sm_drop_sa :: "hs_sm \<Rightarrow> hs_sm" where
  "wpa_sm_drop_sa sm =
     set_cache (\<lambda>c. c\<lparr>sm_pmk := [], xxkey := []\<rparr>)
       (clear_keys sm\<lparr>pmk_r0 := zeros 64, pmk_r0_len := 0, pmk_r1 := zeros 64, pmk_r1_len := 0\<rparr>)"

text \<open>The timers of pre-authentication and of the pairwise key are cancelled.\<close>

definition wpa_sm_notify_disassoc :: "hs_sm \<Rightarrow> hs_sm" where
  "wpa_sm_notify_disassoc sm =
     (let sm = rsn_preauth_deinit (hs_emit Cancel_Rekey (hs_emit Cancel_Preauth sm));
          sm = set_cache pmksa_cache_clear_current sm;
          sm = (if wpa_state sm = WPA_4WAY_HANDSHAKE then sm\<lparr>handshake_failures := handshake_failures sm + 1\<rparr> else sm);
          sm = wpa_sm_drop_sa (sm\<lparr>ft_reassoc_completed := False, ft_protocol := False\<rparr>)
      in set_cache (\<lambda>c. c\<lparr>bssid := zeros 6\<rparr>) (sm\<lparr>msg_3_of_4_ok := False\<rparr>))"

definition wpa_sm_aborted_cached :: "hs_sm \<Rightarrow> hs_sm" where
  "wpa_sm_aborted_cached sm = (if cur_pmksa (cache sm) \<noteq> None then set_current None sm else sm)"

definition wpa_sm_start_preauth :: "wpa_env \<Rightarrow> hs_sm \<Rightarrow> hs_sm" where
  "wpa_sm_start_preauth E sm = rsn_preauth_candidate_process E sm"

section \<open>Configuration\<close>

record rsn_supp_config =
  c_network_ctx :: ptr
  c_allowed_pairwise_cipher :: u32
  c_proactive_key_caching :: int
  c_eap_workaround :: int
  c_ssid :: "u8 list option"
  c_wpa_ptk_rekey :: nat
  c_p2p :: bool
  c_wpa_rsc_relaxation :: bool

definition no_config :: rsn_supp_config where
  "no_config = \<lparr>c_network_ctx = 0, c_allowed_pairwise_cipher = 0, c_proactive_key_caching = 0, c_eap_workaround = 0,
     c_ssid = None, c_wpa_ptk_rekey = 0, c_p2p = False, c_wpa_rsc_relaxation = False\<rparr>"

text \<open>The branch for \<open>NULL\<close> clears the same fields.\<close>

definition wpa_sm_set_config :: "rsn_supp_config option \<Rightarrow> hs_sm \<Rightarrow> hs_sm" where
  "wpa_sm_set_config config sm =
     (let c = (case config of Some c \<Rightarrow> c | None \<Rightarrow> no_config)
      in set_cache (\<lambda>m. m\<lparr>sm_network_ctx := c_network_ctx c\<rparr>)
        (sm\<lparr>allowed_pairwise_cipher := c_allowed_pairwise_cipher c, proactive_key_caching := c_proactive_key_caching c,
           eap_workaround := c_eap_workaround c, ssid := case_option [] id (c_ssid c), wpa_ptk_rekey := c_wpa_ptk_rekey c,
           p2p := c_p2p c, wpa_rsc_relaxation := c_wpa_rsc_relaxation c\<rparr>))"

definition wpa_sm_set_own_addr :: "u8 list \<Rightarrow> hs_sm \<Rightarrow> hs_sm" where
  "wpa_sm_set_own_addr addr sm = set_cache (\<lambda>c. c\<lparr>own_addr := addr\<rparr>) sm"

definition wpa_sm_set_fast_reauth :: "int \<Rightarrow> hs_sm \<Rightarrow> hs_sm" where
  "wpa_sm_set_fast_reauth f sm = sm\<lparr>fast_reauth := f\<rparr>"

definition wpa_sm_set_ifname :: "bool \<Rightarrow> hs_sm \<Rightarrow> hs_sm" where
  "wpa_sm_set_ifname bridge sm = sm\<lparr>bridge_ifname := bridge\<rparr>"

definition wpa_sm_set_eapol :: "bool \<Rightarrow> hs_sm \<Rightarrow> hs_sm" where
  "wpa_sm_set_eapol eapol sm = sm\<lparr>has_eapol := eapol\<rparr>"

datatype wpa_sm_conf_params =
  RSNA_PMK_LIFETIME | RSNA_PMK_REAUTH_THRESHOLD | RSNA_SA_TIMEOUT | WPA_PARAM_PROTO | WPA_PARAM_PAIRWISE | WPA_PARAM_GROUP
  | WPA_PARAM_KEY_MGMT | WPA_PARAM_MGMT_GROUP | WPA_PARAM_RSN_ENABLED | WPA_PARAM_MFP | WPA_PARAM_OCV

fun wpa_sm_set_param :: "wpa_sm_conf_params \<Rightarrow> u32 \<Rightarrow> hs_sm \<Rightarrow> int \<times> hs_sm" where
  "wpa_sm_set_param RSNA_PMK_LIFETIME v sm =
     (if v > 0 then (0, set_cache (\<lambda>c. c\<lparr>dot11RSNAConfigPMKLifetime := v\<rparr>) sm) else (- 1, sm))"
| "wpa_sm_set_param RSNA_PMK_REAUTH_THRESHOLD v sm =
     (if v > 0 \<and> v \<le> 100 then (0, set_cache (\<lambda>c. c\<lparr>dot11RSNAConfigPMKReauthThreshold := v\<rparr>) sm) else (- 1, sm))"
| "wpa_sm_set_param RSNA_SA_TIMEOUT v sm = (if v > 0 then (0, sm\<lparr>dot11RSNAConfigSATimeout := v\<rparr>) else (- 1, sm))"
| "wpa_sm_set_param WPA_PARAM_PROTO v sm = (0, sm\<lparr>proto := v\<rparr>)"
| "wpa_sm_set_param WPA_PARAM_PAIRWISE v sm = (0, sm\<lparr>pairwise_cipher := v\<rparr>)"
| "wpa_sm_set_param WPA_PARAM_GROUP v sm = (0, sm\<lparr>group_cipher := v\<rparr>)"
| "wpa_sm_set_param WPA_PARAM_KEY_MGMT v sm = (0, set_cache (\<lambda>c. c\<lparr>key_mgmt := v\<rparr>) sm)"
| "wpa_sm_set_param WPA_PARAM_MGMT_GROUP v sm = (0, sm\<lparr>mgmt_group_cipher := v\<rparr>)"
| "wpa_sm_set_param WPA_PARAM_RSN_ENABLED v sm = (0, sm\<lparr>rsn_enabled := v \<noteq> 0\<rparr>)"
| "wpa_sm_set_param WPA_PARAM_MFP v sm = (0, sm\<lparr>mfp := sint v\<rparr>)"
| "wpa_sm_set_param WPA_PARAM_OCV v sm = (0, sm\<lparr>ocv := v \<noteq> 0\<rparr>)"

definition ap_capability :: "u16 \<Rightarrow> hs_sm \<Rightarrow> bool" where
  "ap_capability bits sm \<longleftrightarrow>
     (case ap_rsn_ie sm of
        None \<Rightarrow> False
      | Some e \<Rightarrow> let (r, d) = wpa_parse_wpa_ie_rsn e in 0 \<le> r \<and> ie_capabilities d AND bits \<noteq> 0)"

definition wpa_sm_pmf_enabled :: "hs_sm \<Rightarrow> bool" where
  "wpa_sm_pmf_enabled sm \<longleftrightarrow> mfp sm \<noteq> 0 \<and> ap_capability (0x40 OR 0x80) sm"

definition wpa_sm_ocv_enabled :: "hs_sm \<Rightarrow> bool" where
  "wpa_sm_ocv_enabled sm \<longleftrightarrow> ocv sm \<and> ap_capability 0x4000 sm"

section \<open>Elements\<close>

definition gen_of :: "hs_sm \<Rightarrow> gen_sm" where
  "gen_of sm = \<lparr>gs_proto = proto sm, gs_pairwise_cipher = pairwise_cipher sm, gs_group_cipher = group_cipher sm,
     gs_key_mgmt = akm sm, gs_mgmt_group_cipher = mgmt_group_cipher sm, gs_mfp = mfp sm, gs_ocv = ocv sm,
     gs_cur_pmksa = map_option pmkid (cur_entry sm)\<rparr>"

text \<open>\<open>n\<close> is the size of the buffer; the element is returned in it. The failed assertion of the generator is \<open>None\<close>.\<close>

definition wpa_sm_set_assoc_wpa_ie_default :: "wpa_env \<Rightarrow> nat \<Rightarrow> hs_sm \<Rightarrow> (int \<times> u8 list \<times> hs_sm) option" where
  "wpa_sm_set_assoc_wpa_ie_default E n sm =
     (case wpa_gen_wpa_ie (gen_of sm) n of
        Ie_Assert \<Rightarrow> None
      | Ie_Fail \<Rightarrow> Some (- 1, [], sm)
      | Ie e \<Rightarrow>
          Some (if assoc_wpa_ie sm \<noteq> None then (0, e, sm)
            else if mem_ok E Mem_Set then (0, e, sm\<lparr>assoc_wpa_ie := Some e\<rparr>) else (- 1, e, sm)))"

definition set_ie :: "wpa_env \<Rightarrow> u8 list option \<Rightarrow> int \<times> u8 list option" where
  "set_ie E ie =
     (case ie of
        None \<Rightarrow> (0, None)
      | Some e \<Rightarrow> if e = [] then (0, None) else if mem_ok E Mem_Set then (0, Some e) else (- 1, None))"

definition wpa_sm_set_assoc_wpa_ie :: "wpa_env \<Rightarrow> u8 list option \<Rightarrow> hs_sm \<Rightarrow> int \<times> hs_sm" where
  "wpa_sm_set_assoc_wpa_ie E ie sm = (let (r, e) = set_ie E ie in (r, sm\<lparr>assoc_wpa_ie := e\<rparr>))"

definition wpa_sm_set_ap_wpa_ie :: "wpa_env \<Rightarrow> u8 list option \<Rightarrow> hs_sm \<Rightarrow> int \<times> hs_sm" where
  "wpa_sm_set_ap_wpa_ie E ie sm = (let (r, e) = set_ie E ie in (r, sm\<lparr>ap_wpa_ie := e\<rparr>))"

definition wpa_sm_set_ap_rsn_ie :: "wpa_env \<Rightarrow> u8 list option \<Rightarrow> hs_sm \<Rightarrow> int \<times> hs_sm" where
  "wpa_sm_set_ap_rsn_ie E ie sm = (let (r, e) = set_ie E ie in (r, sm\<lparr>ap_rsn_ie := e\<rparr>))"

definition wpa_sm_parse_own_wpa_ie :: "hs_sm \<Rightarrow> int \<times> wpa_ie_data option" where
  "wpa_sm_parse_own_wpa_ie sm =
     (case assoc_wpa_ie sm of
        None \<Rightarrow> (- 1, None)
      | Some e \<Rightarrow> let (r, d) = wpa_parse_wpa_ie e in if r \<noteq> 0 then (- 2, Some d) else (0, Some d))"

section \<open>Keys from outside\<close>

definition wpa_sm_has_ptk :: "hs_sm \<Rightarrow> bool" where "wpa_sm_has_ptk sm = ptk_set sm"

definition wpa_sm_update_replay_ctr :: "u8 list \<Rightarrow> hs_sm \<Rightarrow> hs_sm" where
  "wpa_sm_update_replay_ctr ctr sm = sm\<lparr>rx_replay_counter := ctr\<rparr>"

definition wpa_sm_set_rx_replay_ctr :: "u8 list option \<Rightarrow> hs_sm \<Rightarrow> hs_sm" where
  "wpa_sm_set_rx_replay_ctr ctr sm =
     (case ctr of None \<Rightarrow> sm | Some c \<Rightarrow> sm\<lparr>rx_replay_counter := c, rx_replay_counter_set := True\<rparr>)"

definition wpa_sm_set_ptk_kck_kek :: "u8 list option \<Rightarrow> u8 list option \<Rightarrow> hs_sm \<Rightarrow> hs_sm" where
  "wpa_sm_set_ptk_kck_kek kck kek sm =
     (let p = ptk sm;
          p = (case kck of Some k \<Rightarrow> if length k \<le> 32 then p\<lparr>kck_buf := poke 0 k (kck_buf p), kck_len := length k\<rparr> else p
             | None \<Rightarrow> p);
          p = (case kek of Some k \<Rightarrow> if length k \<le> 64 then p\<lparr>kek_buf := poke 0 k (kek_buf p), kek_len := length k\<rparr> else p
             | None \<Rightarrow> p)
      in sm\<lparr>ptk := p, ptk_set := True\<rparr>)"

text \<open>The subelement with the group key has its information at 2, the length of the key at 4, the sequence counter at 5
  and the key at 13; the one with the integrity group key has \<open>struct wpa_igtk_kde\<close> at 2.\<close>

definition wpa_wnmsleep_install_key :: "wpa_env \<Rightarrow> u8 \<Rightarrow> u8 list \<Rightarrow> hs_sm \<Rightarrow> int \<times> hs_sm" where
  "wpa_wnmsleep_install_key E subelem_id buf sm =
     (if subelem_id = 0
      then
        let keylen = wpa_cipher_key_len (group_cipher sm); alg = wpa_cipher_to_alg (group_cipher sm);
            info = WPA_GET_LE16 (drop 2 buf)
        in if alg = WPA_ALG_NONE then (- 1, sm)
           else if keylen \<noteq> unat (buf ! 4) then (- 1, sm)
           else
             let (r, sm) = wpa_supplicant_install_gtk E
                   \<lparr>gd_alg = alg, gd_tx = wpa_supplicant_gtk_tx_bit_workaround (info_bit info 0x40) sm,
                    gd_key_rsc_len = wpa_cipher_rsc_len (group_cipher sm), gd_keyidx = unat (info AND 3),
                    gd_gtk = poke 0 (take keylen (drop 13 buf)) (zeros 32), gd_gtk_len = keylen\<rparr> (drop 5 buf) True sm
             in (if r \<noteq> 0 then - 1 else 0, sm)
      else if subelem_id = 1
      then let (r, sm) = wpa_supplicant_install_igtk E (drop 2 buf) True sm in (if r < 0 then - 1 else 0, sm)
      else (- 1, sm))"

definition wpa_sm_get_p2p_ip_addr :: "hs_sm \<Rightarrow> u8 list option" where
  "wpa_sm_get_p2p_ip_addr sm = (if WPA_GET_BE32 (p2p_ip_addr sm) = 0 then None else Some (p2p_ip_addr sm))"

definition wpa_sm_pmksa_cache_add :: "wpa_env \<Rightarrow> u8 list \<Rightarrow> u8 list option \<Rightarrow> u8 list \<Rightarrow> u8 list option \<Rightarrow> hs_sm \<Rightarrow> hs_sm" where
  "wpa_sm_pmksa_cache_add E key pid bss cache_id sm =
     (let c = cache sm;
          (p, c) = pmksa_cache_add (cache_env E) key pid None bss (own_addr c) (sm_network_ctx c) (key_mgmt c) cache_id c
      in sm\<lparr>cache := c\<lparr>cur_pmksa := p\<rparr>\<rparr>)"

definition wpa_sm_pmksa_exists :: "u8 list \<Rightarrow> ptr \<Rightarrow> hs_sm \<Rightarrow> bool" where
  "wpa_sm_pmksa_exists bss ctx sm \<longleftrightarrow> pmksa_cache_get (Some bss) None ctx 0 (cache sm) \<noteq> None"

end
