(* ===== verification/Wpa_Views.thy ===== *)
theory Wpa_Views
  imports Wpa_Calls
begin

text \<open>
  What the operations of the WPA state machine leave alone: the keys it holds, its replay counter, and the trace of the
  keys it gave to the driver and of the nonces it drew. Each operation that touches none of them has one equation.
\<close>

named_theorems view

definition loud :: "wpa_out \<Rightarrow> bool" where
  "loud e \<longleftrightarrow> (case e of Set_Key alg addr idx tx seq key r \<Rightarrow> True | Random_Snonce n \<Rightarrow> True | _ \<Rightarrow> False)"

lemma loud_simps [simp]:
  "loud (Set_Key alg addr idx tx seq key r)" "loud (Random_Snonce n)" "\<not> loud (Ether_Send d b)" "\<not> loud (Set_State s)"
  "\<not> loud (Deauth n')" "\<not> loud (Random_Ft_Snonce n)" "\<not> loud (Key_Mgmt_Set_Pmk k)" "\<not> loud (Set_Protection a t u)"
  "\<not> loud (Rekey_Offload a b d)" "\<not> loud Cancel_Auth_Timeout" "\<not> loud Notify_Cached" "\<not> loud Notify_Tx_Eapol_Key"
  "\<not> loud Notify_Lower_Layer_Success" "\<not> loud (Port_Valid v)" "\<not> loud (Eap_Success v)" "\<not> loud Cancel_Rekey"
  "\<not> loud (Register_Rekey n')" "\<not> loud Cancel_Preauth" "\<not> loud Register_Preauth" "\<not> loud Preauth_Open"
  "\<not> loud Preauth_Open_Bridge" "\<not> loud Preauth_Close" "\<not> loud Preauth_Close_Bridge" "\<not> loud (Preauth_Eapol_Start d)"
  "\<not> loud Preauth_Eapol_Stop" "\<not> loud (Preauth_Rx b)" "\<not> loud (Preauth_Send d b)" "\<not> loud (Register_Preauth_Timeout w)"
  "\<not> loud Cancel_Preauth_Timeout" "\<not> loud (Update_Ft_Ies a b)" "\<not> loud (Mark_Authenticated a)" "\<not> loud (Send_Ft_Action a b)"
  by (simp_all add: loud_def)

text \<open>An event changes the trace only.\<close>

lemma hs_emit_simps [simp]:
  "cache (hs_emit e sm) = cache sm" "ptk (hs_emit e sm) = ptk sm" "tptk (hs_emit e sm) = tptk sm"
  "ptk_set (hs_emit e sm) = ptk_set sm" "tptk_set (hs_emit e sm) = tptk_set sm" "msg_3_of_4_ok (hs_emit e sm) = msg_3_of_4_ok sm"
  "snonce (hs_emit e sm) = snonce sm" "anonce (hs_emit e sm) = anonce sm" "renew_snonce (hs_emit e sm) = renew_snonce sm"
  "rx_replay_counter (hs_emit e sm) = rx_replay_counter sm" "rx_replay_counter_set (hs_emit e sm) = rx_replay_counter_set sm"
  "request_counter (hs_emit e sm) = request_counter sm" "gtk (hs_emit e sm) = gtk sm"
  "gtk_wnm_sleep (hs_emit e sm) = gtk_wnm_sleep sm" "igtk (hs_emit e sm) = igtk sm"
  "igtk_wnm_sleep (hs_emit e sm) = igtk_wnm_sleep sm" "has_eapol (hs_emit e sm) = has_eapol sm"
  "pmksa_candidates (hs_emit e sm) = pmksa_candidates sm" "preauth_eapol (hs_emit e sm) = preauth_eapol sm"
  "preauth_bssid (hs_emit e sm) = preauth_bssid sm" "l2_preauth (hs_emit e sm) = l2_preauth sm"
  "l2_preauth_br (hs_emit e sm) = l2_preauth_br sm" "bridge_ifname (hs_emit e sm) = bridge_ifname sm"
  "ssid (hs_emit e sm) = ssid sm" "wpa_ptk_rekey (hs_emit e sm) = wpa_ptk_rekey sm" "p2p (hs_emit e sm) = p2p sm"
  "wpa_rsc_relaxation (hs_emit e sm) = wpa_rsc_relaxation sm" "proto (hs_emit e sm) = proto sm"
  "pairwise_cipher (hs_emit e sm) = pairwise_cipher sm" "group_cipher (hs_emit e sm) = group_cipher sm"
  "mgmt_group_cipher (hs_emit e sm) = mgmt_group_cipher sm" "rsn_enabled (hs_emit e sm) = rsn_enabled sm"
  "assoc_wpa_ie (hs_emit e sm) = assoc_wpa_ie sm" "ap_wpa_ie (hs_emit e sm) = ap_wpa_ie sm"
  "ap_rsn_ie (hs_emit e sm) = ap_rsn_ie sm" "pmk_r0 (hs_emit e sm) = pmk_r0 sm" "pmk_r0_len (hs_emit e sm) = pmk_r0_len sm"
  "pmk_r0_name (hs_emit e sm) = pmk_r0_name sm" "pmk_r1 (hs_emit e sm) = pmk_r1 sm" "pmk_r1_len (hs_emit e sm) = pmk_r1_len sm"
  "pmk_r1_name (hs_emit e sm) = pmk_r1_name sm" "mobility_domain (hs_emit e sm) = mobility_domain sm"
  "r0kh_id (hs_emit e sm) = r0kh_id sm" "r1kh_id (hs_emit e sm) = r1kh_id sm" "ft_completed (hs_emit e sm) = ft_completed sm"
  "ft_reassoc_completed (hs_emit e sm) = ft_reassoc_completed sm" "ft_protocol (hs_emit e sm) = ft_protocol sm"
  "over_the_ds_in_progress (hs_emit e sm) = over_the_ds_in_progress sm" "target_ap (hs_emit e sm) = target_ap sm"
  "set_ptk_after_assoc (hs_emit e sm) = set_ptk_after_assoc sm" "assoc_resp_ies (hs_emit e sm) = assoc_resp_ies sm"
  "p2p_ip_addr (hs_emit e sm) = p2p_ip_addr sm" "wpa_state (hs_emit e sm) = wpa_state sm" "akm (hs_emit e sm) = akm sm"
  "pmk_of (hs_emit e sm) = pmk_of sm" "mic_len (hs_emit e sm) = mic_len sm" "is_rsn (hs_emit e sm) = is_rsn sm"
  by (simp_all add: hs_emit_def akm_def pmk_of_def mic_len_def is_rsn_def)

lemma outs_emit [simp]: "hs_outs (hs_emit e sm) = hs_outs sm @ [e]"
  by (simp add: hs_emit_def)

text \<open>The keys with the trace; the replay counter apart, since only a verified frame changes it.\<close>

definition wpa_view :: "hs_sm \<Rightarrow> (bool \<times> wpa_ptk \<times> wpa_ptk \<times> bool \<times> bool) \<times> (u8 list \<times> bool) \<times> wpa_out list" where
  "wpa_view sm = ((ptk_set sm, ptk sm, tptk sm, tptk_set sm, renew_snonce sm), (rx_replay_counter sm, rx_replay_counter_set sm),
     filter loud (hs_outs sm))"

lemma key_view_emit [view]: "\<not> loud e \<Longrightarrow> wpa_view (hs_emit e sm) = wpa_view sm"
  by (simp add: wpa_view_def hs_emit_def)

lemma key_view_updates [view]:
  "wpa_view (sm\<lparr>cache := c\<rparr>) = wpa_view sm" "wpa_view (sm\<lparr>snonce := b\<rparr>) = wpa_view sm" "wpa_view (sm\<lparr>anonce := b\<rparr>) = wpa_view sm"
  "wpa_view (sm\<lparr>request_counter := b\<rparr>) = wpa_view sm" "wpa_view (sm\<lparr>wpa_state := st\<rparr>) = wpa_view sm"
  "wpa_view (sm\<lparr>msg_3_of_4_ok := v\<rparr>) = wpa_view sm" "wpa_view (sm\<lparr>gtk := b\<rparr>) = wpa_view sm"
  "wpa_view (sm\<lparr>gtk_wnm_sleep := b\<rparr>) = wpa_view sm" "wpa_view (sm\<lparr>igtk := b\<rparr>) = wpa_view sm"
  "wpa_view (sm\<lparr>igtk_wnm_sleep := b\<rparr>) = wpa_view sm" "wpa_view (sm\<lparr>p2p_ip_addr := b\<rparr>) = wpa_view sm"
  "wpa_view (sm\<lparr>pmk_r0 := b\<rparr>) = wpa_view sm" "wpa_view (sm\<lparr>pmk_r0_len := n\<rparr>) = wpa_view sm"
  "wpa_view (sm\<lparr>pmk_r0_name := b\<rparr>) = wpa_view sm" "wpa_view (sm\<lparr>pmk_r1 := b\<rparr>) = wpa_view sm"
  "wpa_view (sm\<lparr>pmk_r1_len := n\<rparr>) = wpa_view sm" "wpa_view (sm\<lparr>pmk_r1_name := b\<rparr>) = wpa_view sm"
  "wpa_view (sm\<lparr>ap_wpa_ie := ie\<rparr>) = wpa_view sm" "wpa_view (sm\<lparr>ap_rsn_ie := ie\<rparr>) = wpa_view sm"
  "wpa_view (sm\<lparr>assoc_wpa_ie := ie\<rparr>) = wpa_view sm" "wpa_view (sm\<lparr>assoc_resp_ies := ie\<rparr>) = wpa_view sm"
  "wpa_view (sm\<lparr>ft_completed := v\<rparr>) = wpa_view sm" "wpa_view (sm\<lparr>ft_reassoc_completed := v\<rparr>) = wpa_view sm"
  "wpa_view (sm\<lparr>ft_protocol := v\<rparr>) = wpa_view sm" "wpa_view (sm\<lparr>over_the_ds_in_progress := v\<rparr>) = wpa_view sm"
  "wpa_view (sm\<lparr>target_ap := b\<rparr>) = wpa_view sm" "wpa_view (sm\<lparr>set_ptk_after_assoc := v\<rparr>) = wpa_view sm"
  "wpa_view (sm\<lparr>mdie_ft_capab := w\<rparr>) = wpa_view sm" "wpa_view (sm\<lparr>mobility_domain := b\<rparr>) = wpa_view sm"
  "wpa_view (sm\<lparr>r0kh_id := b\<rparr>) = wpa_view sm" "wpa_view (sm\<lparr>r1kh_id := b\<rparr>) = wpa_view sm"
  "wpa_view (sm\<lparr>pmksa_candidates := cs\<rparr>) = wpa_view sm" "wpa_view (sm\<lparr>preauth_eapol := v\<rparr>) = wpa_view sm"
  "wpa_view (sm\<lparr>preauth_bssid := b\<rparr>) = wpa_view sm" "wpa_view (sm\<lparr>l2_preauth := v\<rparr>) = wpa_view sm"
  "wpa_view (sm\<lparr>l2_preauth_br := v\<rparr>) = wpa_view sm" "wpa_view (sm\<lparr>bridge_ifname := v\<rparr>) = wpa_view sm"
  "wpa_view (sm\<lparr>handshake_failures := d\<rparr>) = wpa_view sm" "wpa_view (sm\<lparr>has_eapol := v\<rparr>) = wpa_view sm"
  "wpa_view (sm\<lparr>fast_reauth := i\<rparr>) = wpa_view sm" "wpa_view (sm\<lparr>proto := d\<rparr>) = wpa_view sm"
  "wpa_view (sm\<lparr>pairwise_cipher := d\<rparr>) = wpa_view sm" "wpa_view (sm\<lparr>group_cipher := d\<rparr>) = wpa_view sm"
  "wpa_view (sm\<lparr>mgmt_group_cipher := d\<rparr>) = wpa_view sm" "wpa_view (sm\<lparr>rsn_enabled := v\<rparr>) = wpa_view sm"
  "wpa_view (sm\<lparr>mfp := i\<rparr>) = wpa_view sm" "wpa_view (sm\<lparr>ocv := v\<rparr>) = wpa_view sm"
  "wpa_view (sm\<lparr>dot11RSNAConfigSATimeout := d\<rparr>) = wpa_view sm" "wpa_view (sm\<lparr>allowed_pairwise_cipher := d\<rparr>) = wpa_view sm"
  "wpa_view (sm\<lparr>proactive_key_caching := i\<rparr>) = wpa_view sm" "wpa_view (sm\<lparr>eap_workaround := i\<rparr>) = wpa_view sm"
  "wpa_view (sm\<lparr>ssid := b\<rparr>) = wpa_view sm" "wpa_view (sm\<lparr>wpa_ptk_rekey := n\<rparr>) = wpa_view sm"
  "wpa_view (sm\<lparr>p2p := v\<rparr>) = wpa_view sm" "wpa_view (sm\<lparr>wpa_rsc_relaxation := v\<rparr>) = wpa_view sm"
  by (simp_all add: wpa_view_def)

section \<open>Sending\<close>

lemma key_view_small [view]:
  "wpa_view (wpa_sm_set_state st sm) = wpa_view sm" "wpa_view (wpa_sm_deauthenticate n sm) = wpa_view sm"
  "wpa_view (set_cache f sm) = wpa_view sm" "wpa_view (wpa_report_ie_mismatch sm) = wpa_view sm"
  "wpa_view (wpa_sm_set_rekey_offload sm) = wpa_view sm" "wpa_view (wpa_sm_get_beacon_ie E sm) = wpa_view sm"
  "wpa_view (store_gtk w k sm) = wpa_view sm" "wpa_view (store_igtk w k sm) = wpa_view sm"
  "wpa_view (store_r0 d sm) = wpa_view sm" "wpa_view (store_r1 d sm) = wpa_view sm"
  by (simp_all add: wpa_sm_set_state_def wpa_sm_deauthenticate_def set_cache_def wpa_report_ie_mismatch_def store_gtk_def
      store_igtk_def store_r0_def store_r1_def wpa_sm_set_rekey_offload_def wpa_sm_get_beacon_ie_def view
      split: option.split)

lemma key_view_send [view]: "wpa_view (snd (wpa_eapol_key_send E key ver dest msg m sm)) = wpa_view sm"
  by (simp add: wpa_eapol_key_send_def Let_def view split: option.split)

lemma key_view_sends [view]:
  "wpa_view (snd (wpa_supplicant_send_2_of_4 E dst buf ver n ie key sm)) = wpa_view sm"
  "wpa_view (snd (wpa_supplicant_send_4_of_4 E dst buf ver info key sm)) = wpa_view sm"
  "wpa_view (snd (wpa_supplicant_send_2_of_2 E buf ver info sm)) = wpa_view sm"
  by (simp_all add: wpa_supplicant_send_2_of_4_def wpa_supplicant_send_4_of_4_def wpa_supplicant_send_2_of_2_def Let_def view
      split: option.split)

lemma key_view_request [view]: "wpa_view (wpa_sm_key_request E err pw sm) = wpa_view sm" "wpa_view (wpa_sm_rekey_ptk E sm) = wpa_view sm"
  by (simp_all add: wpa_sm_rekey_ptk_def wpa_sm_key_request_def Let_def view split: option.split)

section \<open>Master key\<close>

lemma key_view_pmk [view]:
  "wpa_view (wpa_supplicant_key_mgmt_set_pmk sm) = wpa_view sm" "wpa_view (set_current p sm) = wpa_view sm"
  "wpa_view (current_if_none p sm) = wpa_view sm" "wpa_view (snd (cache_key E k kck a sm)) = wpa_view sm"
  "wpa_view (pmk_from_entry sm) = wpa_view sm" "wpa_view (snd (abort_pmksa_caching E ab sm)) = wpa_view sm"
  by (simp_all add: wpa_supplicant_key_mgmt_set_pmk_def set_current_def current_if_none_def cache_key_def pmk_from_entry_def
      abort_pmksa_caching_def Let_def case_prod_beta view)

lemma key_view_xxkey [view]: "wpa_view (ft_xxkey E src sm) = wpa_view sm"
  by (simp add: ft_xxkey_def Let_def case_prod_beta view split: option.split)

lemma key_view_from_eapol:
  "(case pmk_from_eapol E src pid ab sm of Inl s \<Rightarrow> wpa_view s | Inr (a, s) \<Rightarrow> wpa_view s) = wpa_view sm"
  by (simp add: pmk_from_eapol_def Let_def case_prod_beta view split: option.split)

lemma key_view_eapol_case [view]:
  "wpa_view (snd (case pmk_from_eapol E src pid ab sm of Inl s \<Rightarrow> (- 1, s) | Inr x \<Rightarrow> abort_pmksa_caching E (fst x) (snd x))) =
   wpa_view sm"
  using key_view_from_eapol [of E src pid ab sm]
  by (cases "pmk_from_eapol E src pid ab sm") (simp_all add: case_prod_beta view)

lemma key_view_get_pmk [view]: "wpa_view (snd (wpa_supplicant_get_pmk E src pid sm)) = wpa_view sm"
  unfolding wpa_supplicant_get_pmk_def Let_def case_prod_beta
  by (simp only: if_distrib [of snd] if_distrib [of wpa_view] view snd_conv fst_conv if_cancel)

section \<open>Derivation\<close>

lemma key_view_derive_ft [view]: "wpa_view (snd (snd (wpa_derive_ptk_ft E an key sm))) = wpa_view sm"
  by (simp add: wpa_derive_ptk_ft_def Let_def case_prod_beta view split: option.split)

lemma key_view_derive [view]: "wpa_view (snd (snd (wpa_derive_ptk E buf key sm))) = wpa_view sm"
  by (simp add: wpa_derive_ptk_def Let_def case_prod_beta view)

section \<open>Fast transition requests and the end of a negotiation\<close>

lemma key_view_gen_req [view]: "wpa_view (snd (wpa_ft_gen_req_ies E an name kck t ric md sm)) = wpa_view sm"
  by (simp add: wpa_ft_gen_req_ies_def Let_def view split: option.split)

lemma key_view_prepare [view]: "wpa_view (snd (wpa_ft_prepare_auth_request E md sm)) = wpa_view sm"
  by (simp add: wpa_ft_prepare_auth_request_def Let_def case_prod_beta view split: option.split)

lemma key_view_over_ds [view]: "wpa_view (snd (wpa_ft_start_over_ds E t md sm)) = wpa_view sm"
  by (simp add: wpa_ft_start_over_ds_def Let_def case_prod_beta view split: option.split)

lemma key_view_ft_params [view]: "wpa_view (snd (wpa_sm_set_ft_params E ies sm)) = wpa_view sm"
  by (simp add: wpa_sm_set_ft_params_def Let_def view split: option.split)

lemma key_view_neg_complete [view]: "wpa_view (wpa_supplicant_key_neg_complete E a secure sm) = wpa_view sm"
  by (simp add: wpa_supplicant_key_neg_complete_def Let_def view)

lemma key_view_validate [view]: "wpa_view (snd (wpa_supplicant_validate_ie E data ie sm)) = wpa_view sm"
  by (simp add: wpa_supplicant_validate_ie_def Let_def view)

lemma key_view_suite_b [view]: "wpa_view (cache_suite_b E sm) = wpa_view sm"
  by (simp add: cache_suite_b_def Let_def case_prod_beta view)

section \<open>Pre-authentication\<close>

lemma key_view_close [view]: "wpa_view (close_preauth sm) = wpa_view sm" "wpa_view (rsn_preauth_deinit sm) = wpa_view sm"
  "wpa_view (snd (fail_preauth r sm)) = wpa_view sm"
  by (simp_all add: close_preauth_def rsn_preauth_deinit_def fail_preauth_def Let_def view)

lemma key_view_init [view]: "wpa_view (snd (rsn_preauth_init E dst sm)) = wpa_view sm"
  by (simp add: rsn_preauth_init_def Let_def view)

lemma key_view_report [view]: "wpa_view (report_candidate bss sm) = wpa_view sm"
  by (simp add: report_candidate_def view split: option.split)

lemma key_view_pass [view]: "wpa_view (candidate_pass E cs sm) = wpa_view sm"
  by (induction E cs sm rule: candidate_pass.induct) (simp_all add: view)

lemma key_view_process [view]: "wpa_view (rsn_preauth_candidate_process E sm) = wpa_view sm"
  "wpa_view (rsn_preauth_timeout E sm) = wpa_view sm" "wpa_view (rsn_preauth_receive src buf sm) = wpa_view sm"
  "wpa_view (snd (rsn_preauth_eapol_send E ty buf sm)) = wpa_view sm"
  by (simp_all add: rsn_preauth_candidate_process_def rsn_preauth_timeout_def rsn_preauth_receive_def
      rsn_preauth_eapol_send_def view)

lemma key_view_eapol_cb [view]: "wpa_view (rsn_preauth_eapol_cb E ok rest sm) = wpa_view sm"
  by (simp add: rsn_preauth_eapol_cb_def Let_def view split: option.split bool.split)

lemma key_view_candidates [view]: "wpa_view (pmksa_candidate_free sm) = wpa_view sm"
  "wpa_view (pmksa_candidate_add E bss prio pre sm) = wpa_view sm" "wpa_view (snd (rsn_preauth_scan_results sm)) = wpa_view sm"
  "wpa_view (rsn_preauth_scan_result E bss ss rsn sm) = wpa_view sm"
  by (simp_all add: pmksa_candidate_free_def pmksa_candidate_add_def rsn_preauth_scan_results_def rsn_preauth_scan_result_def
      Let_def case_prod_beta view)

section \<open>Configuration\<close>

lemma key_view_config [view]: "wpa_view (wpa_sm_set_config c sm) = wpa_view sm" "wpa_view (wpa_sm_aborted_cached sm) = wpa_view sm"
  "wpa_view (wpa_sm_set_own_addr a sm) = wpa_view sm" "wpa_view (wpa_sm_set_fast_reauth i sm) = wpa_view sm"
  "wpa_view (wpa_sm_set_ifname v sm) = wpa_view sm" "wpa_view (wpa_sm_set_eapol v sm) = wpa_view sm"
  "wpa_view (wpa_sm_start_preauth E sm) = wpa_view sm" "wpa_view (wpa_sm_pmksa_cache_add E key pid bss cid sm) = wpa_view sm"
  "wpa_view (snd (wpa_sm_set_assoc_wpa_ie E ie sm)) = wpa_view sm" "wpa_view (snd (wpa_sm_set_ap_wpa_ie E ie sm)) = wpa_view sm"
  "wpa_view (snd (wpa_sm_set_ap_rsn_ie E ie sm)) = wpa_view sm" "wpa_view (wpa_reset_ft_completed sm) = wpa_view sm"
  by (simp_all add: wpa_sm_set_config_def wpa_sm_aborted_cached_def wpa_sm_set_own_addr_def wpa_sm_set_fast_reauth_def
      wpa_sm_set_ifname_def wpa_sm_set_eapol_def wpa_sm_start_preauth_def wpa_sm_pmksa_cache_add_def Let_def case_prod_beta
      wpa_sm_set_assoc_wpa_ie_def wpa_sm_set_ap_wpa_ie_def wpa_sm_set_ap_rsn_ie_def wpa_reset_ft_completed_def view)

lemma key_view_param [view]: "wpa_view (snd (wpa_sm_set_param p v sm)) = wpa_view sm"
  by (cases p) (simp_all add: view)

lemma key_view_ie_default [view]:
  "wpa_sm_set_assoc_wpa_ie_default E n sm = Some (r, e, sm') \<Longrightarrow> wpa_view sm' = wpa_view sm"
  by (auto simp: wpa_sm_set_assoc_wpa_ie_default_def view split: ie_gen.splits if_splits)

end
