(* ===== verification/Wpa_Auth.thy ===== *)
theory Wpa_Auth
  imports Wpa_Views
begin

text \<open>
  What a received EAPOL-Key frame can do: keys come from authenticated frames only, a frame is accepted once, and a
  message 3 that fails a check changes nothing before the station disconnects.
\<close>

section \<open>Byte order\<close>

lemma memcmp_irrefl [simp]: "\<not> memcmp_lt a a"
  by (induction a) auto

lemma memcmp_trans: "memcmp_lt a b \<Longrightarrow> memcmp_lt b c \<Longrightarrow> memcmp_lt a c"
proof (induction a b arbitrary: c rule: memcmp_lt.induct)
  case (1 x xs y ys)
  then show ?case by (cases c) (auto intro: less_trans)
qed auto

lemma memcmp_total: "length a = length b \<Longrightarrow> \<not> memcmp_lt a b \<Longrightarrow> \<not> memcmp_lt b a \<Longrightarrow> a = b"
  by (induction a b rule: list_induct2) auto

lemma memcmp_asym: "memcmp_lt a b \<Longrightarrow> \<not> memcmp_lt b a"
  using memcmp_trans memcmp_irrefl by blast

section \<open>Writing into a frame\<close>

lemma length_zeros [simp]: "length (zeros n) = n"
  by (simp add: zeros_def)

lemma poke_take: "n \<le> p \<Longrightarrow> p \<le> length buf \<Longrightarrow> take n (poke p bs buf) = take n buf"
  by (simp add: poke_def)

lemma poke_same: "length b = length a \<Longrightarrow> p \<le> length buf \<Longrightarrow> poke p a (poke p b buf) = poke p a buf"
  by (simp add: poke_def)

lemma poke_at: "p \<le> length buf \<Longrightarrow> take (length bs) (drop p (poke p bs buf)) = bs"
  by (simp add: poke_def)

lemma poke_field:
  assumes "p + n \<le> 81" "81 \<le> length buf"
  shows "take n (drop p (poke 81 bs buf)) = take n (drop p buf)"
proof -
  have "take n (drop p (poke 81 bs buf)) = drop p (take (p + n) (poke 81 bs buf))" by (simp add: take_drop add.commute)
  also have "\<dots> = drop p (take (p + n) buf)" using assms by (simp add: poke_take)
  finally show ?thesis by (simp add: take_drop add.commute)
qed

section \<open>Keys given to the driver\<close>

definition is_set_key :: "wpa_out \<Rightarrow> bool" where
  "is_set_key e \<longleftrightarrow> (case e of Set_Key alg addr idx tx seq key r \<Rightarrow> True | _ \<Rightarrow> False)"

definition given :: "hs_sm \<Rightarrow> wpa_out list" where "given sm = filter is_set_key (hs_outs sm)"

lemma set_key_loud: "is_set_key e \<Longrightarrow> loud e"
  by (simp add: is_set_key_def loud_def split: wpa_out.splits)

lemma given_loud: "filter is_set_key (filter loud es) = filter is_set_key es"
  by (induction es) (auto dest: set_key_loud)

lemma given_of_view: "wpa_view s = wpa_view t \<Longrightarrow> given s = given t"
proof -
  assume "wpa_view s = wpa_view t"
  then have "filter loud (hs_outs s) = filter loud (hs_outs t)" by (simp add: wpa_view_def)
  then have "filter is_set_key (filter loud (hs_outs s)) = filter is_set_key (filter loud (hs_outs t))" by simp
  then show ?thesis by (simp only: given_loud given_def)
qed

lemmas given_quiet [simp] = view [THEN given_of_view]

lemma given_emit [simp]: "\<not> is_set_key e \<Longrightarrow> given (hs_emit e sm) = given sm"
  by (simp add: given_def)

lemma given_updates [simp]: "given (sm\<lparr>tptk := p\<rparr>) = given sm" "given (sm\<lparr>tptk_set := v\<rparr>) = given sm"
  "given (sm\<lparr>renew_snonce := v\<rparr>) = given sm" "given (sm\<lparr>ptk := p\<rparr>) = given sm" "given (sm\<lparr>ptk_set := v\<rparr>) = given sm"
  "given (sm\<lparr>rx_replay_counter := c\<rparr>) = given sm" "given (sm\<lparr>rx_replay_counter_set := v\<rparr>) = given sm"
  by (simp_all add: given_def)

lemma given_nonce: "fresh_snonce E sm = Some s \<Longrightarrow> given s = given sm"
  by (auto simp: fresh_snonce_def is_set_key_def split: if_splits)

lemma given_answer_1 [simp]: "given (answer_1_of_4 E buf ver sm) = given sm"
  by (simp add: answer_1_of_4_def Let_def case_prod_beta)

lemma given_1_of_4 [simp]: "given (wpa_supplicant_process_1_of_4 E src buf ver data sm) = given sm"
  by (simp add: wpa_supplicant_process_1_of_4_def Let_def case_prod_beta given_nonce split: option.split)

lemma given_use_tptk [simp]: "given (use_tptk sm) = given sm"
  by (simp add: use_tptk_def)

lemma given_verify [simp]: "given (snd (snd (wpa_supplicant_verify_eapol_key_mic E ver buf sm))) = given sm"
  by (simp add: wpa_supplicant_verify_eapol_key_mic_def Let_def case_prod_beta)

section \<open>Verified frames\<close>

text \<open>The frame that the EAPOL header delimits, and the frame with its MIC cleared.\<close>

definition frame_of :: "u8 list \<Rightarrow> u8 list" where "frame_of buf = take (hdr_length buf + 4) buf"
definition clear_mic :: "nat \<Rightarrow> u8 list \<Rightarrow> u8 list" where "clear_mic n buf = poke 81 (zeros n) buf"

text \<open>The output sizes of the hash functions.\<close>

definition mac_sizes :: "wpa_crypto \<Rightarrow> bool" where
  "mac_sizes C \<longleftrightarrow>
     (\<forall>k b m. (hmac_md5 C k b = Some m \<longrightarrow> length m = 16) \<and> (hmac_sha1 C k b = Some m \<longrightarrow> length m = 20) \<and>
        (omac1_aes_128 C k b = Some m \<longrightarrow> length m = 16) \<and> (hmac_sha384 C k b = Some m \<longrightarrow> length m = 48))"

lemma mac_size:
  assumes "mac_sizes C" "wpa_eapol_key_mic C key a ver b = Some m" "a \<noteq> WPA_KEY_MGMT_DPP"
  shows "length m = (if ver = 0 \<and> a = WPA_KEY_MGMT_FT_IEEE8021X_SHA384 then 24 else 16)"
  using assms unfolding mac_sizes_def wpa_eapol_key_mic_def
  by (auto simp: split: if_splits)

lemma ver_of_descriptor:
  assumes "descriptor_ok info sm" "wpa_use_akm_defined (akm sm)"
  shows "info AND 7 = 0"
  using assms by (simp add: descriptor_ok_def Let_def split: if_splits)

lemma mic_size:
  assumes "mac_sizes (crypto E)" "descriptor_ok info sm" "akm sm \<noteq> WPA_KEY_MGMT_DPP" "akm sm \<noteq> WPA_KEY_MGMT_OWE"
    "mic_len sm \<noteq> 0" "wpa_eapol_key_mic (crypto E) key (akm sm) (info AND 7) b = Some m"
  shows "length m = mic_len sm"
proof -
  have "info AND 7 = 0" if "akm sm = WPA_KEY_MGMT_FT_IEEE8021X_SHA384 \<or> akm sm = WPA_KEY_MGMT_IEEE8021X_SUITE_B_192"
    using ver_of_descriptor [OF assms(2)] that by (auto simp: wpa_use_akm_defined_def wpa_key_mgmt_suite_b_def)
  moreover have "akm sm \<noteq> WPA_KEY_MGMT_IEEE8021X_SUITE_B_192 \<or> info AND 7 \<noteq> 0"
    using assms(6) by (auto simp: wpa_eapol_key_mic_def split: if_splits)
  ultimately show ?thesis
    using mac_size [OF assms(1,6,3)] assms(3-5) by (auto simp: mic_len_def wpa_mic_len_def split: if_splits)
qed

lemma attempt:
  assumes "mac_sizes (crypto E)" "descriptor_ok info sm" "akm sm \<noteq> WPA_KEY_MGMT_DPP" "akm sm \<noteq> WPA_KEY_MGMT_OWE"
    "mic_len sm \<noteq> 0" "81 + mic_len sm \<le> length buf" "mic_attempt E key (info AND 7) mic buf sm = (ok, b)"
  shows "clear_mic (mic_len sm) b = clear_mic (mic_len sm) buf \<and>
    (ok \<longrightarrow> wpa_eapol_key_mic (crypto E) (ptk_kck key) (akm sm) (info AND 7) (clear_mic (mic_len sm) buf) = Some mic)"
proof (cases "wpa_eapol_key_mic (crypto E) (ptk_kck key) (akm sm) (info AND 7) (clear_mic (mic_len sm) buf)")
  case None
  then show ?thesis using assms(6,7) by (auto simp: mic_attempt_def Let_def clear_mic_def poke_same)
next
  case (Some m)
  then have n: "length m = mic_len sm" using mic_size assms(1-5) by blast
  let ?z = "clear_mic (mic_len sm) buf"
  have l: "81 \<le> length ?z" using assms(6) by (simp add: clear_mic_def poke_def)
  have "b = poke 81 m ?z" "ok = (mic = k_mic (mic_len sm) b)"
    using Some assms(7) by (auto simp: mic_attempt_def Let_def clear_mic_def)
  moreover have "k_mic (mic_len sm) (poke 81 m ?z) = m" using poke_at [OF l, of m] n by (simp add: k_mic_def)
  moreover have "clear_mic (mic_len sm) (poke 81 m ?z) = ?z"
    using l assms(6) n by (simp add: clear_mic_def poke_same poke_def)
  ultimately show ?thesis using Some by simp
qed

lemma verified:
  assumes "mac_sizes (crypto E)" "descriptor_ok info sm" "akm sm \<noteq> WPA_KEY_MGMT_DPP" "akm sm \<noteq> WPA_KEY_MGMT_OWE"
    "mic_len sm \<noteq> 0" "81 + mic_len sm \<le> length buf" "fst (wpa_supplicant_verify_eapol_key_mic E (info AND 7) buf sm)"
  shows "\<exists>key. (tptk_set sm \<and> key = tptk sm \<or> ptk_set sm \<and> key = ptk sm) \<and>
    wpa_eapol_key_mic (crypto E) (ptk_kck key) (akm sm) (info AND 7) (clear_mic (mic_len sm) buf) = Some (k_mic (mic_len sm) buf)"
proof -
  let ?n = "mic_len sm" and ?ver = "info AND 7"
  note att = attempt [OF assms(1-5)]
  obtain ok1 b1 where t: "mic_attempt E (tptk sm) ?ver (k_mic ?n buf) buf sm = (ok1, b1)" by fastforce
  show ?thesis
  proof (cases "tptk_set sm \<and> ok1")
    case True
    then show ?thesis using att [OF assms(6) t] by auto
  next
    case False
    define b where "b = (if tptk_set sm then b1 else buf)"
    obtain ok2 b2 where u: "mic_attempt E (ptk sm) ?ver (k_mic ?n buf) b sm = (ok2, b2)" by fastforce
    have b: "clear_mic ?n b = clear_mic ?n buf" using att [OF assms(6) t] by (simp add: b_def)
    have "length b1 \<ge> 81 + ?n"
      using t assms(6) by (auto simp: mic_attempt_def Let_def poke_def split: option.splits)
    then have lb: "81 + ?n \<le> length b" using assms(6) by (simp add: b_def)
    have "ptk_set sm \<and> ok2"
      using assms(7) False t u
      by (auto simp: wpa_supplicant_verify_eapol_key_mic_def Let_def b_def case_prod_beta split: if_splits)
    then show ?thesis using att [OF lb u] b by auto
  qed
qed

section \<open>Where keys come from\<close>

lemma given_dispatch:
  assumes "given (snd (rx_dispatch E src buf data sm)) \<noteq> given sm"
  shows "if info_bit (k_key_info buf) WPA_KEY_INFO_KEY_TYPE
    then info_bit (k_key_info buf) WPA_KEY_INFO_MIC \<or> info_bit (k_key_info buf) WPA_KEY_INFO_ENCR_KEY_DATA
    else info_bit (k_key_info buf) (if mic_len sm \<noteq> 0 then WPA_KEY_INFO_MIC else WPA_KEY_INFO_ENCR_KEY_DATA)"
  using assms by (auto simp: rx_dispatch_def Let_def split: if_splits)

lemma verify_keeps:
  "mic_len (snd (snd (wpa_supplicant_verify_eapol_key_mic E ver buf sm))) = mic_len sm"
  "is_rsn (snd (snd (wpa_supplicant_verify_eapol_key_mic E ver buf sm))) = is_rsn sm"
  by (simp_all add: wpa_supplicant_verify_eapol_key_mic_def use_tptk_def Let_def case_prod_beta mic_len_def akm_def pmk_of_def
      is_rsn_def)

lemma info_poke: "81 \<le> length buf \<Longrightarrow> k_key_info (poke 81 bs buf) = k_key_info buf"
  using poke_field [of 5 2 buf bs]
  by (simp add: k_key_info_def WPA_GET_BE16_def poke_def nth_append hd_drop_conv_nth)

lemma length_poke: "81 \<le> length buf \<Longrightarrow> 81 \<le> length (poke 81 bs buf)"
  by (simp add: poke_def)

lemma replay_poke: "81 \<le> length buf \<Longrightarrow> k_replay_counter (poke 81 bs buf) = k_replay_counter buf"
  by (simp add: k_replay_counter_def poke_field)

lemma attempt_header:
  assumes "81 \<le> length buf" "mic_attempt E key ver mic buf sm = (ok, b)"
  shows "k_key_info b = k_key_info buf \<and> k_replay_counter b = k_replay_counter buf \<and> 81 \<le> length b"
  using assms by (auto simp: mic_attempt_def Let_def info_poke replay_poke length_poke split: option.splits)

lemma verify_header:
  assumes "81 \<le> length buf" "wpa_supplicant_verify_eapol_key_mic E ver buf sm = (ok, b, s)"
  shows "k_key_info b = k_key_info buf \<and> k_replay_counter b = k_replay_counter buf"
proof -
  obtain ok1 b1 where t: "mic_attempt E (tptk sm) ver (k_mic (mic_len sm) buf) buf sm = (ok1, b1)" by fastforce
  define b0 where "b0 = (if tptk_set sm then b1 else buf)"
  obtain ok2 b2 where u: "mic_attempt E (ptk sm) ver (k_mic (mic_len sm) buf) b0 sm = (ok2, b2)" by fastforce
  have 1: "k_key_info b1 = k_key_info buf \<and> k_replay_counter b1 = k_replay_counter buf \<and> 81 \<le> length b1"
    by (rule attempt_header [OF assms(1) t])
  then have 2: "k_key_info b2 = k_key_info buf \<and> k_replay_counter b2 = k_replay_counter buf"
    using attempt_header [OF _ u] assms(1) by (auto simp: b0_def split: if_splits)
  have "b = b0 \<or> b = b2"
    using assms(2) t u unfolding wpa_supplicant_verify_eapol_key_mic_def Let_def
    by (auto simp: b0_def case_prod_beta split: if_splits)
  with 1 2 show ?thesis by (auto simp: b0_def)
qed

lemma given_rx_key:
  assumes "is_rsn sm" "mic_len sm \<noteq> 0" "81 \<le> length buf" "given (snd (rx_key E src buf n sm)) \<noteq> given sm"
  shows "info_bit (k_key_info buf) WPA_KEY_INFO_MIC \<and> fst (wpa_supplicant_verify_eapol_key_mic E (k_key_info buf AND 7) buf sm)"
proof (cases "info_bit (k_key_info buf) WPA_KEY_INFO_MIC")
  case True
  then show ?thesis using assms(4) by (auto simp: rx_key_def Let_def case_prod_beta split: if_splits)
next
  case False
  then have "snd (rx_key E src buf n sm) = sm \<or>
      \<not> info_bit (k_key_info buf) WPA_KEY_INFO_ENCR_KEY_DATA \<and>
      snd (rx_key E src buf n sm) = snd (rx_dispatch E src buf (take n (drop (83 + mic_len sm) buf)) sm)"
    using assms(1,2) by (auto simp: rx_key_def Let_def)
  then show ?thesis using assms(2,4) False given_dispatch [of E src buf "take n (drop (83 + mic_len sm) buf)" sm]
    by (auto split: if_splits)
qed

text \<open>The reception of a frame, up to the dispatch on its key information.\<close>

definition lowered :: "hs_sm \<Rightarrow> hs_sm" where
  "lowered sm = hs_emit Notify_Lower_Layer_Success (sm\<lparr>ft_completed := False\<rparr>)"

lemma rx_to_key:
  obtains (dropped) "fst (wpa_sm_rx_eapol E src buf sm) \<noteq> 1"
      "snd (wpa_sm_rx_eapol E src buf sm) = sm\<lparr>ft_completed := False\<rparr> \<or> snd (wpa_sm_rx_eapol E src buf sm) = (lowered sm)"
    | (key) n where "key_info_ok (frame_of buf) (lowered sm)" "83 + mic_len sm \<le> length (frame_of buf)"
      "wpa_sm_rx_eapol E src buf sm = rx_key E src (frame_of buf) n (lowered sm)"
proof -
  let ?s = "sm\<lparr>ft_completed := False\<rparr>"
  have m: "mic_len ?s = mic_len sm" by (simp add: mic_len_def akm_def pmk_of_def)
  let ?ok = "\<not> length buf < 4 + (77 + mic_len sm + 2) \<and> hdr_type buf = 3 \<and>
    \<not> (hdr_length buf > length buf - 4 \<or> hdr_length buf < 77 + mic_len sm + 2) \<and> mem_ok E Mem_Copy \<and>
    \<not> (k_type (frame_of buf) \<noteq> 254 \<and> k_type (frame_of buf) \<noteq> 2) \<and>
    \<not> unat (WPA_GET_BE16 (drop (81 + mic_len sm) (frame_of buf))) > hdr_length buf - (77 + mic_len sm + 2) \<and>
    key_info_ok (frame_of buf) (lowered sm)"
  show ?thesis
  proof (cases ?ok)
    case True
    then have "wpa_sm_rx_eapol E src buf sm =
        rx_key E src (frame_of buf) (unat (WPA_GET_BE16 (drop (81 + mic_len sm) (frame_of buf)))) (lowered sm)"
      by (auto simp: wpa_sm_rx_eapol_def Let_def m lowered_def frame_of_def)
    moreover have "83 + mic_len sm \<le> length (frame_of buf)" using True by (auto simp: frame_of_def)
    ultimately show ?thesis using key True by blast
  next
    case False
    then have "fst (wpa_sm_rx_eapol E src buf sm) \<noteq> 1 \<and>
        (snd (wpa_sm_rx_eapol E src buf sm) = ?s \<or> snd (wpa_sm_rx_eapol E src buf sm) = (lowered sm))"
      by (auto simp: wpa_sm_rx_eapol_def Let_def m lowered_def frame_of_def)
    then show ?thesis using dropped by blast
  qed
qed

lemma received_fields:
  assumes "83 + n \<le> length (frame_of buf)"
  shows "k_key_info (frame_of buf) = k_key_info buf" "k_replay_counter (frame_of buf) = k_replay_counter buf"
    "k_mic n (frame_of buf) = k_mic n buf"
proof -
  have l: "83 + n \<le> hdr_length buf + 4" "83 + n \<le> length buf" using assms by (simp_all add: frame_of_def)
  then show "k_key_info (frame_of buf) = k_key_info buf"
    by (simp add: k_key_info_def frame_of_def WPA_GET_BE16_def drop_take hd_drop_conv_nth)
  show "k_replay_counter (frame_of buf) = k_replay_counter buf" "k_mic n (frame_of buf) = k_mic n buf"
    using l by (simp_all add: k_replay_counter_def k_mic_def frame_of_def drop_take)
qed

lemma low_state:
  shows "is_rsn (lowered sm) = is_rsn sm" "mic_len (lowered sm) = mic_len sm" "akm (lowered sm) = akm sm" "tptk_set (lowered sm) = tptk_set sm" "tptk (lowered sm) = tptk sm"
    "ptk_set (lowered sm) = ptk_set sm" "ptk (lowered sm) = ptk sm" "given (lowered sm) = given sm" "wpa_view (lowered sm) = wpa_view sm"
  by (simp_all add: lowered_def is_rsn_def mic_len_def akm_def pmk_of_def is_set_key_def view)

text \<open>
  In RSN a received frame makes the station install a key only if its MIC is the one under the key confirmation key of a
  pairwise key the station derived: the key of the running handshake, or the one in use.
\<close>

lemma authentic_keys:
  assumes "is_rsn sm" "mic_len sm \<noteq> 0" "akm sm \<noteq> WPA_KEY_MGMT_DPP" "akm sm \<noteq> WPA_KEY_MGMT_OWE" "mac_sizes (crypto E)"
    "given (snd (wpa_sm_rx_eapol E src buf sm)) \<noteq> given sm"
  shows "\<exists>key. (tptk_set sm \<and> key = tptk sm \<or> ptk_set sm \<and> key = ptk sm) \<and>
    wpa_eapol_key_mic (crypto E) (ptk_kck key) (akm sm) (k_key_info buf AND 7) (clear_mic (mic_len sm) (frame_of buf)) =
      Some (k_mic (mic_len sm) buf)"
proof -
  note low = low_state [of sm]
  have "given (sm\<lparr>ft_completed := False\<rparr>) = given sm" by (simp add: given_def)
  with assms(6) low(8) obtain n where k: "key_info_ok (frame_of buf) (lowered sm)" "83 + mic_len sm \<le> length (frame_of buf)"
      "wpa_sm_rx_eapol E src buf sm = rx_key E src (frame_of buf) n (lowered sm)"
    by (cases rule: rx_to_key [of E src buf sm]) auto
  have f: "k_key_info (frame_of buf) = k_key_info buf" "k_mic (mic_len sm) (frame_of buf) = k_mic (mic_len sm) buf"
    using received_fields [OF k(2)] by simp_all
  have "fst (wpa_supplicant_verify_eapol_key_mic E (k_key_info buf AND 7) (frame_of buf) (lowered sm))"
    using given_rx_key [of "lowered sm" "frame_of buf" E src n] assms(1,2,6) k low f by simp
  moreover have "descriptor_ok (k_key_info buf) (lowered sm)" using k(1) f by (simp add: key_info_ok_def Let_def)
  ultimately show ?thesis
    using verified [of E "k_key_info buf" "lowered sm" "frame_of buf"] assms k(2) low f by simp
qed

section \<open>Replay\<close>

lemma counter_of_view: "wpa_view s = wpa_view t \<Longrightarrow> rx_replay_counter s = rx_replay_counter t \<and>
  rx_replay_counter_set s = rx_replay_counter_set t"
  by (simp add: wpa_view_def)

definition counter :: "hs_sm \<Rightarrow> u8 list \<times> bool" where
  "counter sm = (rx_replay_counter sm, rx_replay_counter_set sm)"

lemma counter_quiet: "wpa_view s = wpa_view t \<Longrightarrow> counter s = counter t"
  using counter_of_view [of s t] by (simp add: counter_def)

lemmas counter_view [simp] = view [THEN counter_quiet]

lemma counter_updates [simp]: "counter (sm\<lparr>tptk := p\<rparr>) = counter sm" "counter (sm\<lparr>tptk_set := v\<rparr>) = counter sm"
  "counter (sm\<lparr>renew_snonce := v\<rparr>) = counter sm" "counter (sm\<lparr>ptk := p\<rparr>) = counter sm" "counter (hs_emit e sm) = counter sm"
  by (simp_all add: counter_def)

lemma counter_set_key [simp]: "counter (snd (wpa_sm_set_key E alg a i tx q k sm)) = counter sm"
  by (simp add: wpa_sm_set_key_def Let_def)

lemma counter_install [simp]:
  "counter (snd (wpa_supplicant_install_ptk E buf sm)) = counter sm"
  "counter (snd (wpa_supplicant_install_gtk E gd rsc w sm)) = counter sm"
  "counter (snd (wpa_supplicant_install_igtk E body w sm)) = counter sm"
  by (simp_all add: wpa_supplicant_install_ptk_def wpa_supplicant_install_gtk_def wpa_supplicant_install_igtk_def Let_def
      case_prod_beta)

lemma counter_group [simp]:
  "counter (snd (ieee80211w_set_keys E ob sm)) = counter sm"
  "counter (snd (wpa_supplicant_pairwise_gtk E buf body sm)) = counter sm"
  by (simp_all add: ieee80211w_set_keys_def wpa_supplicant_pairwise_gtk_def Let_def case_prod_beta split: option.split)

lemma counter_nonce: "fresh_snonce E sm = Some s \<Longrightarrow> counter s = counter sm"
  by (auto simp: fresh_snonce_def split: if_splits)

lemma counter_answer_1 [simp]: "counter (answer_1_of_4 E buf ver sm) = counter sm"
  by (simp add: answer_1_of_4_def Let_def case_prod_beta)

lemma counter_1_of_4 [simp]: "counter (wpa_supplicant_process_1_of_4 E src buf ver data sm) = counter sm"
  by (simp add: wpa_supplicant_process_1_of_4_def Let_def case_prod_beta counter_nonce split: option.split)

lemma counter_group_keys [simp]: "counter (snd (group_keys_of_3_of_4 E buf data ie sm)) = counter sm"
  by (simp add: group_keys_of_3_of_4_def Let_def case_prod_beta split: option.split)

lemma counter_finish_3 [simp]: "counter (finish_3_of_4 E buf data ie sm) = counter sm"
  by (simp add: finish_3_of_4_def Let_def case_prod_beta)

lemma counter_answer_3 [simp]: "counter (answer_3_of_4 E buf ver data ie sm) = counter sm"
  by (simp add: answer_3_of_4_def Let_def case_prod_beta split: option.split)

lemma counter_3_of_4 [simp]: "counter (wpa_supplicant_process_3_of_4 E buf ver data sm) = counter sm"
  by (simp add: wpa_supplicant_process_3_of_4_def Let_def case_prod_beta)

lemma counter_finish_1 [simp]: "counter (finish_1_of_2 E buf ver rekey gd sm) = counter sm"
  by (simp add: finish_1_of_2_def Let_def case_prod_beta)

lemma counter_1_of_2_rsn [simp]: "counter (snd (wpa_supplicant_process_1_of_2_rsn E data info sm)) = counter sm"
  by (simp add: wpa_supplicant_process_1_of_2_rsn_def Let_def case_prod_beta split: option.split)

lemma counter_1_of_2 [simp]: "counter (wpa_supplicant_process_1_of_2 E buf data ver sm) = counter sm"
  by (simp add: wpa_supplicant_process_1_of_2_def Let_def case_prod_beta split: option.split)

lemma counter_dispatch [simp]: "counter (snd (rx_dispatch E src buf data sm)) = counter sm"
  by (simp add: rx_dispatch_def Let_def)

text \<open>A verified frame moves the counter to its own; any other frame leaves it.\<close>

lemma counter_verify:
  assumes "81 \<le> length buf"
  shows "counter (snd (snd (wpa_supplicant_verify_eapol_key_mic E ver buf sm))) =
    (if fst (wpa_supplicant_verify_eapol_key_mic E ver buf sm) then (k_replay_counter buf, True) else counter sm)"
proof -
  obtain ok b s where v: "wpa_supplicant_verify_eapol_key_mic E ver buf sm = (ok, b, s)"
    by (cases "wpa_supplicant_verify_eapol_key_mic E ver buf sm") auto
  have "counter s = (if ok then (k_replay_counter b, True) else counter sm)"
    using v by (auto simp: wpa_supplicant_verify_eapol_key_mic_def Let_def case_prod_beta use_tptk_def counter_def
        split: if_splits)
  then show ?thesis using verify_header [OF assms v] v by simp
qed

lemma counter_rx_key:
  assumes "81 \<le> length buf"
  shows "counter (snd (rx_key E src buf n sm)) \<in> {counter sm, (k_replay_counter buf, True)} \<and>
    (info_bit (k_key_info buf) WPA_KEY_INFO_MIC \<and> fst (rx_key E src buf n sm) = 1 \<longrightarrow>
      counter (snd (rx_key E src buf n sm)) = (k_replay_counter buf, True))"
  using counter_verify [OF assms, of E "k_key_info buf AND 7" sm]
  by (simp add: rx_key_def Let_def case_prod_beta split: option.split)

definition past :: "u8 list \<Rightarrow> hs_sm \<Rightarrow> bool" where
  "past c sm \<longleftrightarrow> rx_replay_counter_set sm \<and> \<not> memcmp_lt (rx_replay_counter sm) c"

lemma past_counter: "counter s = counter t \<Longrightarrow> past c s = past c t"
  by (simp add: counter_def past_def)

lemma past_rx:
  assumes "past c sm"
  shows "past c (snd (wpa_sm_rx_eapol E src buf sm))"
proof -
  have c0: "counter (lowered sm) = counter sm" "counter (sm\<lparr>ft_completed := False\<rparr>) = counter sm" by (simp_all add: lowered_def)
  show ?thesis
  proof (cases rule: rx_to_key [of E src buf sm])
    case dropped
    from dropped(2) c0 have "counter (snd (wpa_sm_rx_eapol E src buf sm)) = counter sm" by auto
    from past_counter [OF this] assms show ?thesis by simp
  next
    case (key n)
    let ?s = "snd (rx_key E src (frame_of buf) n (lowered sm))" and ?c = "k_replay_counter (frame_of buf)"
    have o: "past c (lowered sm)" using past_counter [OF c0(1)] assms by simp
    have "replay_ok (frame_of buf) (lowered sm)" using key(1) by (simp add: key_info_ok_def Let_def)
    then have "memcmp_lt (rx_replay_counter (lowered sm)) ?c" using o by (simp add: replay_ok_def past_def)
    then have "\<not> memcmp_lt ?c c" using o memcmp_trans by (auto simp: past_def)
    moreover have "counter ?s = counter (lowered sm) \<or> counter ?s = (?c, True)"
      using counter_rx_key [of "frame_of buf" E src n "lowered sm"] key(2) by simp
    ultimately have "past c ?s" using o by (auto simp: past_def counter_def)
    then show ?thesis using key(3) by simp
  qed
qed

fun receive :: "(wpa_env \<times> u8 list \<times> u8 list) list \<Rightarrow> hs_sm \<Rightarrow> hs_sm" where
  "receive [] sm = sm"
| "receive ((E, src, buf) # fs) sm = receive fs (snd (wpa_sm_rx_eapol E src buf sm))"

lemma past_receive: "past c sm \<Longrightarrow> past c (receive fs sm)"
  by (induction fs sm rule: receive.induct) (simp_all add: past_rx)

lemma past_drops:
  assumes "past (k_replay_counter buf) sm"
  shows "fst (wpa_sm_rx_eapol E src buf sm) \<noteq> 1"
proof -
  have "\<not> replay_ok f (lowered sm)" if "k_replay_counter f = k_replay_counter buf" for f
    using assms that by (simp add: replay_ok_def past_def lowered_def)
  then have "\<not> key_info_ok (frame_of buf) (lowered sm)" if "83 + mic_len sm \<le> length (frame_of buf)"
    using received_fields(2) [OF that] by (simp add: key_info_ok_def Let_def)
  then show ?thesis by (cases rule: rx_to_key [of E src buf sm]) auto
qed

lemma accepted_is_past:
  assumes "fst (wpa_sm_rx_eapol E src buf sm) = 1" "info_bit (k_key_info buf) WPA_KEY_INFO_MIC"
  shows "past (k_replay_counter buf) (snd (wpa_sm_rx_eapol E src buf sm))"
proof -
  show ?thesis
  proof (cases rule: rx_to_key [of E src buf sm])
    case dropped
    with assms(1) show ?thesis by simp
  next
    case (key n)
    then have "counter (snd (rx_key E src (frame_of buf) n (lowered sm))) = (k_replay_counter buf, True)"
      using counter_rx_key [of "frame_of buf" E src n "lowered sm"] received_fields [OF key(2)] assms by simp
    then show ?thesis using key(3) by (simp add: counter_def past_def)
  qed
qed

section \<open>Refused messages\<close>

text \<open>Everything that message 3 must satisfy before the station answers it.\<close>

definition with_beacon :: "wpa_env \<Rightarrow> hs_sm \<Rightarrow> hs_sm" where
  "with_beacon E sm = (if ap_wpa_ie sm = None \<and> ap_rsn_ie sm = None then wpa_sm_get_beacon_ie E sm else sm)"

definition acceptable_3_of_4 :: "wpa_env \<Rightarrow> u8 list \<Rightarrow> u8 list \<Rightarrow> hs_sm \<Rightarrow> bool" where
  "acceptable_3_of_4 E buf data sm \<longleftrightarrow>
     (let (r, ie) = wpa_supplicant_parse_ies data (length data)
      in 0 \<le> r \<and> kdes_ok (k_key_info buf) ie sm \<and>
         \<not> ie_mismatch (kde_at data (k_wpa_ie ie)) (kde_at data (k_rsn_ie ie)) (with_beacon E sm) \<and>
         (wpa_key_mgmt_ft (akm sm) \<longrightarrow> wpa_supplicant_validate_ie_ft data ie sm) \<and>
         anonce sm = k_key_nonce buf \<and> unat (WPA_GET_BE16 (k_key_length buf)) = wpa_cipher_key_len (pairwise_cipher sm))"

lemma validate_split:
  "wpa_supplicant_validate_ie E data ie sm =
     (if ie_mismatch (kde_at data (k_wpa_ie ie)) (kde_at data (k_rsn_ie ie)) (with_beacon E sm)
      then (False, wpa_sm_deauthenticate 17 (with_beacon E sm))
      else (\<not> wpa_key_mgmt_ft (akm sm) \<or> wpa_supplicant_validate_ie_ft data ie sm, with_beacon E sm))"
  by (simp add: wpa_supplicant_validate_ie_def with_beacon_def wpa_report_ie_mismatch_def Let_def wpa_sm_get_beacon_ie_def
      akm_def wpa_supplicant_validate_ie_ft_def ft_validate_mdie_def ft_validate_rsnie_def split: option.split)

end
