(* ===== verification/Wpa_Reach.thy ===== *)
theory Wpa_Reach
  imports Wpa_Views Pmksa_Reach
begin

text \<open>
  Histories of the WPA state machine: every entry point as a step, the states that are reached, and how often a pairwise
  key is given to the driver. A key may be installed once for each nonce that the station draws, whatever is received,
  replayed or retransmitted.
\<close>

section \<open>Counting\<close>

text \<open>Pairwise keys are set for an address and for transmission; group keys are not, or have no address.\<close>

definition pairwise_accepted :: "wpa_out \<Rightarrow> bool" where
  "pairwise_accepted e \<longleftrightarrow>
     (case e of Set_Key alg addr idx tx seq key r \<Rightarrow> addr \<noteq> None \<and> tx \<and> 0 \<le> r | _ \<Rightarrow> False)"

definition nonce_drawn :: "wpa_out \<Rightarrow> bool" where
  "nonce_drawn e \<longleftrightarrow> (case e of Random_Snonce n \<Rightarrow> True | _ \<Rightarrow> False)"

definition installs :: "hs_sm \<Rightarrow> nat" where "installs sm = length (filter pairwise_accepted (hs_outs sm))"
definition nonces :: "hs_sm \<Rightarrow> nat" where "nonces sm = length (filter nonce_drawn (hs_outs sm))"

text \<open>A nonce that was drawn and not used up, and a key that was not installed yet, each allow one more key.\<close>

definition pending :: "hs_sm \<Rightarrow> nat" where
  "pending sm = (if tptk_set sm \<or> \<not> renew_snonce sm then 1 else 0) +
     (if 0 < tk_len (ptk sm) \<and> \<not> ptk_installed (ptk sm) then 1 else 0)"

definition krack_ok :: "hs_sm \<Rightarrow> bool" where
  "krack_ok sm \<longleftrightarrow> installs sm + pending sm \<le> nonces sm"

lemma counted_loud [simp]: "pairwise_accepted e \<Longrightarrow> loud e" "nonce_drawn e \<Longrightarrow> loud e"
  by (auto simp: pairwise_accepted_def nonce_drawn_def loud_def split: wpa_out.splits)

lemma filter_loud: "(\<And>e. P e \<Longrightarrow> loud e) \<Longrightarrow> filter P (filter loud es) = filter P es"
  by (induction es) auto

lemma counts_of_view:
  assumes "wpa_view s = wpa_view t"
  shows "installs s = installs t \<and> nonces s = nonces t \<and> pending s = pending t"
proof -
  have "filter loud (hs_outs s) = filter loud (hs_outs t)" using assms by (simp add: wpa_view_def)
  then have "filter P (hs_outs s) = filter P (hs_outs t)" if "\<And>e. P e \<Longrightarrow> loud e" for P
    using filter_loud [of P "hs_outs s", OF that] filter_loud [of P "hs_outs t", OF that] by (simp only:)
  with assms show ?thesis
    by (simp add: installs_def nonces_def pending_def wpa_view_def)
qed

lemma krack_of_view: "wpa_view s = wpa_view t \<Longrightarrow> krack_ok s = krack_ok t"
  using counts_of_view [of s t] by (simp add: krack_ok_def)

lemma krack_mono: "krack_ok s \<Longrightarrow> hs_outs t = hs_outs s \<Longrightarrow> pending t \<le> pending s \<Longrightarrow> krack_ok t"
  by (simp add: krack_ok_def installs_def nonces_def)

lemmas krack_quiet [simp] = view [THEN krack_of_view]

section \<open>Keys given to the driver\<close>

lemma krack_emit [simp]: "\<not> pairwise_accepted e \<Longrightarrow> \<not> nonce_drawn e \<Longrightarrow> krack_ok (hs_emit e sm) = krack_ok sm"
  by (simp add: krack_ok_def installs_def nonces_def pending_def hs_emit_def)

lemma krack_rejected: "krack_ok sm \<Longrightarrow> r < 0 \<Longrightarrow> krack_ok (hs_emit (Set_Key alg a idx tx seq key r) sm)"
  by (simp add: krack_emit pairwise_accepted_def nonce_drawn_def)

lemma krack_installed:
  assumes "krack_ok sm" "0 < tk_len (ptk sm)" "\<not> ptk_installed (ptk sm)"
  shows "krack_ok (hs_emit (Set_Key alg a idx tx seq key r) sm\<lparr>ptk := (ptk sm)\<lparr>tk_buf := z, tk_len := 0, ptk_installed := True\<rparr>\<rparr>)"
  using assms by (auto simp: krack_ok_def installs_def nonces_def pending_def nonce_drawn_def split: if_splits)

lemma krack_ptk: "krack_ok sm \<Longrightarrow> krack_ok (snd (wpa_supplicant_install_ptk E buf sm))"
  using krack_installed [of sm] krack_rejected [of sm]
  by (simp add: wpa_supplicant_install_ptk_def wpa_sm_set_key_def Let_def)

lemma not_counted [simp]: "\<not> pairwise_accepted (Set_Key alg a idx False seq key r)" "\<not> pairwise_accepted (Set_Key alg None idx tx seq key r)"
  "\<not> nonce_drawn (Set_Key alg a idx tx seq key r)"
  by (simp_all add: pairwise_accepted_def nonce_drawn_def)

lemma krack_gtk:
  assumes "pairwise_cipher sm \<noteq> WPA_CIPHER_NONE \<Longrightarrow> \<not> gd_tx gd"
  shows "krack_ok (snd (wpa_supplicant_install_gtk E gd rsc w sm)) = krack_ok sm"
  using assms by (auto simp: wpa_supplicant_install_gtk_def wpa_sm_set_key_def Let_def)

lemma krack_igtk [simp]: "krack_ok (snd (wpa_supplicant_install_igtk E body w sm)) = krack_ok sm"
  by (simp add: wpa_supplicant_install_igtk_def wpa_sm_set_key_def Let_def)

lemma krack_igtk_keys [simp]: "krack_ok (snd (ieee80211w_set_keys E body sm)) = krack_ok sm"
  by (simp add: ieee80211w_set_keys_def Let_def case_prod_beta split: option.split)

lemma tx_workaround: "pairwise_cipher sm \<noteq> WPA_CIPHER_NONE \<Longrightarrow> \<not> wpa_supplicant_gtk_tx_bit_workaround tx sm"
  by (simp add: wpa_supplicant_gtk_tx_bit_workaround_def)

lemma krack_pairwise_gtk [simp]: "krack_ok (snd (wpa_supplicant_pairwise_gtk E buf body sm)) = krack_ok sm"
  by (simp add: wpa_supplicant_pairwise_gtk_def Let_def case_prod_beta krack_gtk tx_workaround split: option.split)

section \<open>Messages\<close>

lemma krack_nonce:
  assumes "krack_ok sm" "fresh_snonce E sm = Some s"
  shows "krack_ok s \<and> \<not> renew_snonce s"
proof (cases "renew_snonce sm")
  case True
  then obtain n where s: "s = hs_emit (Random_Snonce n) (sm\<lparr>snonce := n, renew_snonce := False\<rparr>)"
    using assms(2) by (auto simp: fresh_snonce_def)
  have "installs s = installs sm" "nonces s = Suc (nonces sm)" "pending s \<le> Suc (pending sm)" "\<not> renew_snonce s"
    by (simp_all add: s installs_def nonces_def pending_def hs_emit_def pairwise_accepted_def nonce_drawn_def)
  then show ?thesis using assms(1) by (simp add: krack_ok_def)
next
  case False
  then show ?thesis using assms by (simp add: fresh_snonce_def)
qed

lemma krack_tptk [simp]: "krack_ok (sm\<lparr>tptk := p\<rparr>) = krack_ok sm"
  by (simp add: krack_ok_def installs_def nonces_def pending_def)

lemma krack_tptk_set: "krack_ok sm \<Longrightarrow> \<not> renew_snonce sm \<Longrightarrow> krack_ok (sm\<lparr>tptk := p, tptk_set := True\<rparr>)"
  by (simp add: krack_ok_def installs_def nonces_def pending_def)

lemma renew_of_view: "wpa_view s = wpa_view t \<Longrightarrow> renew_snonce s = renew_snonce t"
  by (simp add: wpa_view_def)

lemmas renew_quiet [simp] = view [THEN renew_of_view]

lemma krack_answer_1: "krack_ok sm \<Longrightarrow> \<not> renew_snonce sm \<Longrightarrow> krack_ok (answer_1_of_4 E buf ver sm)"
  by (simp add: answer_1_of_4_def Let_def case_prod_beta krack_tptk_set)

lemma krack_1_of_4: "krack_ok sm \<Longrightarrow> krack_ok (wpa_supplicant_process_1_of_4 E src buf ver data sm)"
  using krack_nonce [of "snd (wpa_supplicant_get_pmk E src p (wpa_sm_set_state WPA_4WAY_HANDSHAKE sm))" E for p]
  by (simp add: wpa_supplicant_process_1_of_4_def Let_def case_prod_beta krack_answer_1 split: option.split)

lemma krack_renew: "krack_ok sm \<Longrightarrow> krack_ok (sm\<lparr>renew_snonce := True\<rparr>)"
  by (erule krack_mono) (simp_all add: pending_def)

lemma krack_group_keys [simp]: "krack_ok (snd (group_keys_of_3_of_4 E buf data ie sm)) = krack_ok sm"
  by (simp add: group_keys_of_3_of_4_def Let_def case_prod_beta split: option.split)

lemma krack_finish_3 [simp]: "krack_ok (finish_3_of_4 E buf data ie sm) = krack_ok sm"
  by (simp add: finish_3_of_4_def Let_def case_prod_beta)

lemma krack_answer_3: "krack_ok sm \<Longrightarrow> krack_ok (answer_3_of_4 E buf ver data ie sm)"
  by (auto simp: answer_3_of_4_def Let_def case_prod_beta intro!: krack_ptk krack_renew split: option.split)

lemma krack_3_of_4: "krack_ok sm \<Longrightarrow> krack_ok (wpa_supplicant_process_3_of_4 E buf ver data sm)"
  by (simp add: wpa_supplicant_process_3_of_4_def Let_def case_prod_beta krack_answer_3)

lemma group_data_tx:
  "fst (wpa_supplicant_process_1_of_2_rsn E data info sm) = Some gd \<Longrightarrow> pairwise_cipher sm \<noteq> WPA_CIPHER_NONE \<Longrightarrow> \<not> gd_tx gd"
  "wpa_supplicant_process_1_of_2_wpa E buf data info ver sm = Some gd \<Longrightarrow> pairwise_cipher sm \<noteq> WPA_CIPHER_NONE \<Longrightarrow> \<not> gd_tx gd"
  by (auto simp: wpa_supplicant_process_1_of_2_rsn_def wpa_supplicant_process_1_of_2_wpa_def Let_def case_prod_beta
      tx_workaround split: option.splits if_splits)

lemma krack_1_of_2_rsn [simp]: "krack_ok (snd (wpa_supplicant_process_1_of_2_rsn E data info sm)) = krack_ok sm"
  by (simp add: wpa_supplicant_process_1_of_2_rsn_def Let_def case_prod_beta split: option.split)

lemma pairwise_set_key [simp]: "pairwise_cipher (snd (wpa_sm_set_key E alg a i tx q k sm)) = pairwise_cipher sm"
  by (simp add: wpa_sm_set_key_def Let_def)

lemma pairwise_stays [simp]:
  "pairwise_cipher (wpa_sm_set_state st sm) = pairwise_cipher sm"
  "pairwise_cipher (store_igtk w k sm) = pairwise_cipher sm"
  by (simp_all add: wpa_sm_set_state_def store_igtk_def)

lemma pairwise_igtk [simp]: "pairwise_cipher (snd (ieee80211w_set_keys E body sm)) = pairwise_cipher sm"
  by (simp add: ieee80211w_set_keys_def wpa_supplicant_install_igtk_def Let_def case_prod_beta split: option.split)

lemma pairwise_1_of_2_rsn [simp]: "pairwise_cipher (snd (wpa_supplicant_process_1_of_2_rsn E data info sm)) = pairwise_cipher sm"
  by (simp add: wpa_supplicant_process_1_of_2_rsn_def Let_def case_prod_beta split: option.split)

lemma krack_finish_1:
  "(pairwise_cipher sm \<noteq> WPA_CIPHER_NONE \<Longrightarrow> \<not> gd_tx gd) \<Longrightarrow> krack_ok (finish_1_of_2 E buf ver rekey gd sm) = krack_ok sm"
  by (simp add: finish_1_of_2_def Let_def case_prod_beta krack_gtk)

lemma krack_1_of_2 [simp]: "krack_ok (wpa_supplicant_process_1_of_2 E buf data ver sm) = krack_ok sm"
proof -
  define p where "p = (if is_rsn sm then wpa_supplicant_process_1_of_2_rsn E data (k_key_info buf) sm
    else (wpa_supplicant_process_1_of_2_wpa E buf data (k_key_info buf) ver sm, sm))"
  have same: "krack_ok (snd p) = krack_ok sm" "pairwise_cipher (snd p) = pairwise_cipher sm" by (simp_all add: p_def)
  have tx: "\<not> gd_tx gd" if "fst p = Some gd" "pairwise_cipher sm \<noteq> WPA_CIPHER_NONE" for gd
    using group_data_tx(1) [of E data "k_key_info buf" sm gd] group_data_tx(2) [of E buf data "k_key_info buf" ver sm gd] that
    by (cases "is_rsn sm") (simp_all add: p_def)
  have "krack_ok (finish_1_of_2 E buf ver rekey gd (wpa_sm_set_state st (snd p))) = krack_ok sm"
    if "fst p = Some gd" for rekey gd st
    using tx [OF that] by (subst krack_finish_1) (simp_all add: same)
  then show ?thesis
    by (simp add: wpa_supplicant_process_1_of_2_def Let_def case_prod_beta p_def [symmetric] same split: option.split)
qed

section \<open>Received frames\<close>

lemma krack_replay [simp]: "krack_ok (sm\<lparr>rx_replay_counter := c, rx_replay_counter_set := v\<rparr>) = krack_ok sm"
  by (simp add: krack_ok_def installs_def nonces_def pending_def)

lemma krack_use_tptk: "krack_ok sm \<Longrightarrow> tptk_set sm \<Longrightarrow> krack_ok (use_tptk sm)"
  by (erule krack_mono) (simp_all add: pending_def use_tptk_def)

lemma krack_verify: "krack_ok sm \<Longrightarrow> krack_ok (snd (snd (wpa_supplicant_verify_eapol_key_mic E ver buf sm)))"
  by (simp add: wpa_supplicant_verify_eapol_key_mic_def Let_def case_prod_beta krack_use_tptk)

lemma krack_dispatch: "krack_ok sm \<Longrightarrow> krack_ok (snd (rx_dispatch E src buf data sm))"
  by (simp add: rx_dispatch_def Let_def krack_3_of_4 krack_1_of_4)

lemma krack_rx_key: "krack_ok sm \<Longrightarrow> krack_ok (snd (rx_key E src buf n sm))"
  by (simp add: rx_key_def Let_def case_prod_beta krack_dispatch krack_verify split: option.split)

lemma krack_rx: "krack_ok sm \<Longrightarrow> krack_ok (snd (wpa_sm_rx_eapol E src buf sm))"
  by (simp add: wpa_sm_rx_eapol_def Let_def krack_rx_key)

section \<open>Association\<close>

lemma krack_clear_any: "krack_ok sm \<Longrightarrow> krack_ok (clear_keys sm)"
  by (erule krack_mono) (simp_all add: pending_def clear_keys_def no_ptk_def)

lemma krack_assoc: "krack_ok sm \<Longrightarrow> krack_ok (wpa_sm_notify_assoc E bss sm)"
  by (simp add: wpa_sm_notify_assoc_def Let_def krack_clear_any krack_renew)

lemma krack_disassoc: "krack_ok sm \<Longrightarrow> krack_ok (wpa_sm_notify_disassoc sm)"
  by (simp add: wpa_sm_notify_disassoc_def wpa_sm_drop_sa_def Let_def krack_clear_any)

section \<open>Keys from outside\<close>

lemma krack_wnm [simp]: "krack_ok (snd (wpa_wnmsleep_install_key E i buf sm)) = krack_ok sm"
  by (simp add: wpa_wnmsleep_install_key_def Let_def case_prod_beta krack_gtk tx_workaround)

lemma krack_kck_kek: "krack_ok sm \<Longrightarrow> krack_ok (wpa_sm_set_ptk_kck_kek a b sm)"
  by (erule krack_mono) (simp_all add: pending_def wpa_sm_set_ptk_kck_kek_def Let_def split: option.split)

lemma krack_same: "hs_outs t = hs_outs s \<Longrightarrow> pending t = pending s \<Longrightarrow> krack_ok t = krack_ok s"
  by (simp add: krack_ok_def installs_def nonces_def)

lemma krack_counters [simp]: "krack_ok (wpa_sm_update_replay_ctr c sm) = krack_ok sm"
  "krack_ok (wpa_sm_set_rx_replay_ctr oc sm) = krack_ok sm"
  by (rule krack_same; simp add: wpa_sm_update_replay_ctr_def wpa_sm_set_rx_replay_ctr_def pending_def split: option.split)+

section \<open>Histories\<close>

text \<open>Every entry point, with what it finds outside. \<open>Other_State\<close> is a state that the rest of the supplicant sets.\<close>

datatype wpa_op =
  Rx_Eapol wpa_env "u8 list" "u8 list"
  | Assoc wpa_env "u8 list" | Disassoc
  | Request_Key wpa_env bool bool | Rekey_Timeout wpa_env
  | Config "rsn_supp_config option" | Param wpa_sm_conf_params u32
  | Own_Addr "u8 list" | Ifname bool | Eapol_Machine bool | Fast_Reauth int
  | Own_Ie_Default wpa_env nat | Own_Ie wpa_env "u8 list option"
  | Ap_Wpa_Ie wpa_env "u8 list option" | Ap_Rsn_Ie wpa_env "u8 list option"
  | Ft_Params wpa_env "u8 list" | Ft_Prepare wpa_env "u8 list option" | Ft_Over_Ds wpa_env "u8 list" "u8 list option"
  | Ft_Response wpa_env "u8 list" bool "u8 list" "u8 list option" | Ft_Reassoc wpa_env "u8 list" "u8 list" | Ft_Reset
  | Cache_Add wpa_env "u8 list" "u8 list option" "u8 list" "u8 list option" | Cache_Op pmksa_op | Cache_Aborted
  | Candidate wpa_env "u8 list" int bool | Scan_Start | Scan_Result wpa_env "u8 list" "u8 list" "u8 list"
  | Preauth_Frame "u8 list" "u8 list" | Preauth_Done wpa_env bool "u8 list" | Preauth_Timeout wpa_env
  | Preauth_Deferred wpa_env | Preauth_Out wpa_env u8 "u8 list"
  | Replay_Update "u8 list" | Replay_Set "u8 list option" | Kck_Kek "u8 list option" "u8 list option"
  | Wnm_Sleep wpa_env u8 "u8 list" | Other_State wpa_states

text \<open>\<open>None\<close> is the failed assertion of the element generator, or the use of a freed cache entry.\<close>

fun wpa_do :: "wpa_op \<Rightarrow> hs_sm \<Rightarrow> hs_sm option" where
  "wpa_do (Rx_Eapol E src buf) sm = Some (snd (wpa_sm_rx_eapol E src buf sm))"
| "wpa_do (Assoc E bss) sm = Some (wpa_sm_notify_assoc E bss sm)"
| "wpa_do Disassoc sm = Some (wpa_sm_notify_disassoc sm)"
| "wpa_do (Request_Key E err pw) sm = Some (wpa_sm_key_request E err pw sm)"
| "wpa_do (Rekey_Timeout E) sm = Some (wpa_sm_rekey_ptk E sm)"
| "wpa_do (Config c) sm = Some (wpa_sm_set_config c sm)"
| "wpa_do (Param p v) sm = Some (snd (wpa_sm_set_param p v sm))"
| "wpa_do (Own_Addr a) sm = Some (wpa_sm_set_own_addr a sm)"
| "wpa_do (Ifname v) sm = Some (wpa_sm_set_ifname v sm)"
| "wpa_do (Eapol_Machine v) sm = Some (wpa_sm_set_eapol v sm)"
| "wpa_do (Fast_Reauth i) sm = Some (wpa_sm_set_fast_reauth i sm)"
| "wpa_do (Own_Ie_Default E n) sm = map_option (snd \<circ> snd) (wpa_sm_set_assoc_wpa_ie_default E n sm)"
| "wpa_do (Own_Ie E ie) sm = Some (snd (wpa_sm_set_assoc_wpa_ie E ie sm))"
| "wpa_do (Ap_Wpa_Ie E ie) sm = Some (snd (wpa_sm_set_ap_wpa_ie E ie sm))"
| "wpa_do (Ap_Rsn_Ie E ie) sm = Some (snd (wpa_sm_set_ap_rsn_ie E ie sm))"
| "wpa_do (Ft_Params E ies) sm = Some (snd (wpa_sm_set_ft_params E ies sm))"
| "wpa_do (Ft_Prepare E md) sm = Some (snd (wpa_ft_prepare_auth_request E md sm))"
| "wpa_do (Ft_Over_Ds E t md) sm = Some (snd (wpa_ft_start_over_ds E t md sm))"
| "wpa_do (Ft_Response E ies act t ric) sm = Some (snd (wpa_ft_process_response E ies act t ric sm))"
| "wpa_do (Ft_Reassoc E ies src) sm = Some (snd (wpa_ft_validate_reassoc_resp E ies src sm))"
| "wpa_do Ft_Reset sm = Some (wpa_reset_ft_completed sm)"
| "wpa_do (Cache_Add E key pid bss cid) sm = Some (wpa_sm_pmksa_cache_add E key pid bss cid sm)"
| "wpa_do (Cache_Op op) sm = map_option (\<lambda>c. set_cache (\<lambda>_. c) sm) (pmksa_do op (cache sm))"
| "wpa_do Cache_Aborted sm = Some (wpa_sm_aborted_cached sm)"
| "wpa_do (Candidate E bss prio pre) sm = Some (pmksa_candidate_add E bss prio pre sm)"
| "wpa_do Scan_Start sm = Some (snd (rsn_preauth_scan_results sm))"
| "wpa_do (Scan_Result E bss ss rsn) sm = Some (rsn_preauth_scan_result E bss ss rsn sm)"
| "wpa_do (Preauth_Frame src buf) sm = Some (rsn_preauth_receive src buf sm)"
| "wpa_do (Preauth_Done E ok rest) sm = Some (rsn_preauth_eapol_cb E ok rest sm)"
| "wpa_do (Preauth_Timeout E) sm = Some (rsn_preauth_timeout E sm)"
| "wpa_do (Preauth_Deferred E) sm = Some (wpa_sm_start_preauth E sm)"
| "wpa_do (Preauth_Out E ty buf) sm = Some (snd (rsn_preauth_eapol_send E ty buf sm))"
| "wpa_do (Replay_Update c) sm = Some (wpa_sm_update_replay_ctr c sm)"
| "wpa_do (Replay_Set c) sm = Some (wpa_sm_set_rx_replay_ctr c sm)"
| "wpa_do (Kck_Kek a b) sm = Some (wpa_sm_set_ptk_kck_kek a b sm)"
| "wpa_do (Wnm_Sleep E i buf) sm = Some (snd (wpa_wnmsleep_install_key E i buf sm))"
| "wpa_do (Other_State st) sm = Some (sm\<lparr>wpa_state := st\<rparr>)"

text \<open>The two messages by which fast transition installs keys of its own.\<close>

fun ft_message :: "wpa_op \<Rightarrow> bool" where
  "ft_message (Ft_Response E ies act t ric) = True"
| "ft_message (Ft_Reassoc E ies src) = True"
| "ft_message _ = False"

inductive wpa_reach :: "bool \<Rightarrow> hs_sm \<Rightarrow> bool" for ft where
  init: "wpa_sm_init ok c = Some sm \<Longrightarrow> wpa_reach ft sm"
| step: "wpa_reach ft sm \<Longrightarrow> (ft_message op \<Longrightarrow> ft) \<Longrightarrow> wpa_do op sm = Some sm' \<Longrightarrow> wpa_reach ft sm'"

lemma krack_step: "krack_ok sm \<Longrightarrow> \<not> ft_message op \<Longrightarrow> wpa_do op sm = Some sm' \<Longrightarrow> krack_ok sm'"
  by (cases op) (auto simp: krack_rx krack_assoc krack_disassoc krack_kck_kek)

lemma krack_init: "wpa_sm_init ok c = Some sm \<Longrightarrow> krack_ok sm"
  by (auto simp: wpa_sm_init_def krack_ok_def installs_def nonces_def pending_def no_ptk_def split: if_splits)

lemma krack_reach: "wpa_reach ft sm \<Longrightarrow> \<not> ft \<Longrightarrow> krack_ok sm"
  by (induction rule: wpa_reach.induct) (auto intro: krack_init krack_step)

end
