(* ===== verification/Wpa_Complete.thy ===== *)
theory Wpa_Complete
  imports Wpa_Auth Wpa_Reach
begin

text \<open>
  The course of the 4-way handshake: both ends derive the same pairwise key, a message 3 that must be refused changes
  nothing, and one that is acceptable completes the negotiation with its keys in the driver.
\<close>

section \<open>The same key at both ends\<close>

lemma ptk_data_agrees:
  assumes "length a1 = length a2" "length n1 = length n2"
  shows "pmk_to_ptk_data a1 a2 n1 n2 z = pmk_to_ptk_data a2 a1 n2 n1 z"
proof -
  have swap: "(if memcmp_lt x y then x @ y else y @ x) = (if memcmp_lt y x then y @ x else x @ y)" if "length x = length y" for x y
    using memcmp_total [OF that] memcmp_asym [of x y] by auto
  show ?thesis using swap [OF assms(1)] swap [OF assms(2)] by (simp add: pmk_to_ptk_data_def)
qed

section \<open>Message 3\<close>

lemma state_step:
  "wpa_sm_set_state st sm = sm\<lparr>wpa_state := st, hs_outs := hs_outs sm @ [Set_State st]\<rparr>"
  by (simp add: wpa_sm_set_state_def hs_emit_def)

lemma beacon_step: "\<exists>w r. with_beacon E sm = sm\<lparr>ap_wpa_ie := w, ap_rsn_ie := r\<rparr>"
proof -
  have "with_beacon E sm = sm\<lparr>ap_wpa_ie := ap_wpa_ie (with_beacon E sm), ap_rsn_ie := ap_rsn_ie (with_beacon E sm)\<rparr>"
    by (simp add: with_beacon_def wpa_sm_get_beacon_ie_def split: option.split)
  then show ?thesis by blast
qed

lemma state_keeps [simp]:
  "kdes_ok info ie (wpa_sm_set_state st sm) = kdes_ok info ie sm"
  "with_beacon E (wpa_sm_set_state st sm) = wpa_sm_set_state st (with_beacon E sm)"
  "ie_mismatch w r (wpa_sm_set_state st sm) = ie_mismatch w r sm"
  "wpa_supplicant_validate_ie_ft data ie (wpa_sm_set_state st sm) = wpa_supplicant_validate_ie_ft data ie sm"
  "akm (wpa_sm_set_state st sm) = akm sm" "anonce (wpa_sm_set_state st sm) = anonce sm"
  "pairwise_cipher (wpa_sm_set_state st sm) = pairwise_cipher sm"
  by (simp_all add: kdes_ok_def with_beacon_def wpa_sm_get_beacon_ie_def state_step ie_mismatch_def akm_def
      wpa_supplicant_validate_ie_ft_def ft_validate_mdie_def ft_validate_rsnie_def split: option.split)

lemma acceptable_state: "acceptable_3_of_4 E buf data (wpa_sm_set_state st sm) = acceptable_3_of_4 E buf data sm"
  by (simp add: acceptable_3_of_4_def)

lemma beacon_keeps [simp]: "anonce (with_beacon E sm) = anonce sm" "pairwise_cipher (with_beacon E sm) = pairwise_cipher sm"
  by (simp_all add: with_beacon_def wpa_sm_get_beacon_ie_def split: option.split)

lemma process_3_acceptable:
  assumes "acceptable_3_of_4 E buf data sm"
  shows "wpa_supplicant_process_3_of_4 E buf ver data sm =
    answer_3_of_4 E buf ver data (snd (wpa_supplicant_parse_ies data (length data)))
      (with_beacon E (wpa_sm_set_state WPA_4WAY_HANDSHAKE sm))"
proof -
  have "acceptable_3_of_4 E buf data (wpa_sm_set_state WPA_4WAY_HANDSHAKE sm)" using assms by (simp only: acceptable_state)
  then show ?thesis
    by (auto simp: wpa_supplicant_process_3_of_4_def acceptable_3_of_4_def Let_def case_prod_beta validate_split)
qed

text \<open>A refused message 3: the element bytes that were read from the scan results are all that is kept of it.\<close>

lemma refused:
  assumes "\<not> acceptable_3_of_4 E buf data sm"
  shows "\<exists>w r d. (d = [] \<or> d = [Deauth 17]) \<and> wpa_supplicant_process_3_of_4 E buf ver data sm =
    sm\<lparr>wpa_state := WPA_4WAY_HANDSHAKE, ap_wpa_ie := w, ap_rsn_ie := r,
       hs_outs := hs_outs sm @ [Set_State WPA_4WAY_HANDSHAKE] @ d @ [Deauth 1]\<rparr>"
proof -
  let ?s = "wpa_sm_set_state WPA_4WAY_HANDSHAKE sm"
  have not: "\<not> acceptable_3_of_4 E buf data ?s" using assms by (simp only: acceptable_state not_False_eq_True)
  obtain w r where b: "with_beacon E ?s = ?s\<lparr>ap_wpa_ie := w, ap_rsn_ie := r\<rparr>" using beacon_step by blast
  have "wpa_supplicant_process_3_of_4 E buf ver data sm \<in>
      {wpa_sm_deauthenticate 1 ?s, wpa_sm_deauthenticate 1 (with_beacon E ?s),
       wpa_sm_deauthenticate 1 (wpa_sm_deauthenticate 17 (with_beacon E ?s))}"
    using not
    by (auto simp: wpa_supplicant_process_3_of_4_def acceptable_3_of_4_def Let_def case_prod_beta validate_split)
  then consider "wpa_supplicant_process_3_of_4 E buf ver data sm = wpa_sm_deauthenticate 1 ?s"
    | "wpa_supplicant_process_3_of_4 E buf ver data sm = wpa_sm_deauthenticate 1 (with_beacon E ?s)"
    | "wpa_supplicant_process_3_of_4 E buf ver data sm = wpa_sm_deauthenticate 1 (wpa_sm_deauthenticate 17 (with_beacon E ?s))"
    by blast
  then show ?thesis
  proof cases
    case 1
    then show ?thesis
      by (intro exI [of _ "ap_wpa_ie sm"] exI [of _ "ap_rsn_ie sm"] exI [of _ "[]"]) (simp add: wpa_sm_deauthenticate_def hs_emit_def state_step)
  next
    case 2
    then show ?thesis unfolding b
      by (intro exI [of _ w] exI [of _ r] exI [of _ "[]"]) (simp add: wpa_sm_deauthenticate_def hs_emit_def state_step)
  next
    case 3
    then show ?thesis unfolding b
      by (intro exI [of _ w] exI [of _ r] exI [of _ "[Deauth 17]"]) (simp add: wpa_sm_deauthenticate_def hs_emit_def state_step)
  qed
qed

section \<open>A handshake that completes\<close>

text \<open>Nothing outside fails: memory, the driver, the network and the integrity check of what is sent.\<close>

definition all_works :: "wpa_env \<Rightarrow> u16 \<Rightarrow> hs_sm \<Rightarrow> bool" where
  "all_works E ver sm \<longleftrightarrow> (\<forall>m. mem_ok E m) \<and> 0 \<le> send_result E \<and> (\<forall>alg a i tx q k. 0 \<le> set_key_result E alg a i tx q k) \<and>
     (\<forall>b. wpa_eapol_key_mic (crypto E) (ptk_kck (ptk sm)) (akm sm) ver b \<noteq> None)"

lemma send_works:
  assumes "all_works E ver sm" "mic_len sm \<noteq> 0" "kck_len (ptk sm) \<noteq> 0" "bssid (cache sm) \<noteq> zeros 6"
  shows "\<exists>b. wpa_supplicant_send_4_of_4 E (bssid (cache sm)) buf ver info (ptk sm) sm =
    (send_result E, hs_emit Notify_Tx_Eapol_Key (hs_emit (Ether_Send (bssid (cache sm)) b) sm))"
proof -
  let ?msg = "eapol_key_frame E sm ((info AND WPA_KEY_INFO_SECURE) OR ver OR WPA_KEY_INFO_KEY_TYPE OR mic_or_encr sm)
    (reply_key_length sm buf) (k_replay_counter buf) (zeros 32) []"
  have "wpa_eapol_key_mic (crypto E) (ptk_kck (ptk sm)) (akm sm) ver ?msg \<noteq> None"
    using assms(1) unfolding all_works_def by blast
  then obtain m where m: "wpa_eapol_key_mic (crypto E) (ptk_kck (ptk sm)) (akm sm) ver ?msg = Some m" by blast
  then have "wpa_supplicant_send_4_of_4 E (bssid (cache sm)) buf ver info (ptk sm) sm =
      (send_result E, hs_emit Notify_Tx_Eapol_Key (hs_emit (Ether_Send (bssid (cache sm)) (poke 81 m ?msg)) sm))"
    using assms by (simp add: wpa_supplicant_send_4_of_4_def wpa_eapol_key_send_def all_works_def Let_def)
  then show ?thesis by blast
qed

definition pairwise_event :: "wpa_env \<Rightarrow> u8 list \<Rightarrow> hs_sm \<Rightarrow> wpa_out" where
  "pairwise_event E buf sm =
     (let alg = wpa_cipher_to_alg (pairwise_cipher sm); a = Some (bssid (cache sm));
          q = take (wpa_cipher_rsc_len (pairwise_cipher sm)) (if is_rsn sm then null_rsc else k_key_rsc buf);
          k = take (wpa_cipher_key_len (pairwise_cipher sm)) (tk_buf (ptk sm))
      in Set_Key alg a 0 True q k (set_key_result E alg a 0 True q k))"

lemma valid_pairwise_len: "wpa_cipher_valid_pairwise c \<Longrightarrow> wpa_cipher_key_len c \<noteq> 0 \<and> c \<noteq> WPA_CIPHER_NONE"
  by (auto simp: wpa_cipher_valid_pairwise_def wpa_cipher_key_len_def)

text \<open>The key that is left after the installation, and the calls of the driver: none for a key that is installed already.\<close>

definition installed :: "wpa_ptk \<Rightarrow> wpa_ptk" where
  "installed p = (if ptk_installed p then p else p\<lparr>tk_buf := zeros 32, tk_len := 0, ptk_installed := True\<rparr>)"

definition pairwise_events :: "wpa_env \<Rightarrow> u8 list \<Rightarrow> hs_sm \<Rightarrow> wpa_out list" where
  "pairwise_events E buf sm = (if ptk_installed (ptk sm) then [] else [pairwise_event E buf sm])"

lemma install_works:
  assumes "all_works E ver sm" "wpa_cipher_valid_pairwise (pairwise_cipher sm)"
    "\<not> ptk_installed (ptk sm) \<longrightarrow> tk_len (ptk sm) = wpa_cipher_key_len (pairwise_cipher sm)"
  shows "\<exists>es. filter is_set_key es = [] \<and> wpa_supplicant_install_ptk E buf sm =
    (0, sm\<lparr>ptk := installed (ptk sm), hs_outs := hs_outs sm @ pairwise_events E buf sm @ es\<rparr>)"
proof (cases "ptk_installed (ptk sm)")
  case True
  then show ?thesis
    by (intro exI [of _ "[]"]) (simp add: wpa_supplicant_install_ptk_def installed_def pairwise_events_def Let_def)
next
  case False
  with assms valid_pairwise_len [OF assms(2)] show ?thesis
    by (intro exI [of _ "if wpa_ptk_rekey sm \<noteq> 0 then [Cancel_Rekey, Register_Rekey (wpa_ptk_rekey sm)] else []"])
      (simp add: wpa_supplicant_install_ptk_def wpa_sm_set_key_def pairwise_event_def all_works_def Let_def is_set_key_def
        installed_def pairwise_events_def hs_emit_def leD)
qed

definition group_data :: "u8 list \<Rightarrow> hs_sm \<Rightarrow> wpa_gtk_data" where
  "group_data body sm =
     \<lparr>gd_alg = wpa_cipher_to_alg (group_cipher sm), gd_tx = wpa_supplicant_gtk_tx_bit_workaround (body ! 0 AND 4 \<noteq> 0) sm,
      gd_key_rsc_len = wpa_cipher_rsc_len (group_cipher sm), gd_keyidx = unat (body ! 0 AND 3),
      gd_gtk = poke 0 (drop 2 body) (zeros 32), gd_gtk_len = length body - 2\<rparr>"

definition group_event :: "wpa_env \<Rightarrow> u8 list \<Rightarrow> u8 list \<Rightarrow> hs_sm \<Rightarrow> wpa_out" where
  "group_event E buf body sm =
     (let gd = group_data body sm; q = take (gd_key_rsc_len gd) (group_rsc buf sm);
          k = take (gd_gtk_len gd) (if group_cipher sm = WPA_CIPHER_TKIP then swap_mic_keys (gd_gtk gd) else gd_gtk gd);
          a = Some broadcast_ether_addr
      in Set_Key (gd_alg gd) a (gd_keyidx gd) (gd_tx gd) q k (set_key_result E (gd_alg gd) a (gd_keyidx gd) (gd_tx gd) q k))"

text \<open>A group key that is in use, or was installed by WNM sleep mode, is not given to the driver again.\<close>

definition group_known :: "u8 list \<Rightarrow> hs_sm \<Rightarrow> bool" where
  "group_known body sm \<longleftrightarrow> gtk sm = drop 2 body \<or> gtk_wnm_sleep sm = drop 2 body"

definition group_events :: "wpa_env \<Rightarrow> u8 list \<Rightarrow> u8 list \<Rightarrow> hs_sm \<Rightarrow> wpa_out list" where
  "group_events E buf body sm = (if group_known body sm then [] else [group_event E buf body sm])"

definition group_after :: "u8 list \<Rightarrow> hs_sm \<Rightarrow> u8 list" where
  "group_after body sm = (if group_known body sm then gtk sm else drop 2 body)"

lemma group_works:
  assumes "all_works E ver sm" "pairwise_cipher sm \<noteq> WPA_CIPHER_NONE" "group_cipher sm \<noteq> WPA_CIPHER_GTK_NOT_USED"
    "wpa_cipher_to_alg (group_cipher sm) \<noteq> WPA_ALG_NONE" "length body = 2 + wpa_cipher_key_len (group_cipher sm)"
  shows "wpa_supplicant_pairwise_gtk E buf body sm =
    (0, sm\<lparr>gtk := group_after body sm, hs_outs := hs_outs sm @ group_events E buf body sm\<rparr>)"
proof -
  have l: "wpa_cipher_key_len (group_cipher sm) \<le> 32" by (simp add: wpa_cipher_key_len_def)
  have k: "gd_key (group_data body sm) = drop 2 body" by (simp add: gd_key_def group_data_def poke_def)
  have "wpa_supplicant_install_gtk E (group_data body sm) (group_rsc buf sm) False sm =
      (0, sm\<lparr>gtk := group_after body sm, hs_outs := hs_outs sm @ group_events E buf body sm\<rparr>)"
  proof (cases "group_known body sm")
    case True
    then show ?thesis using k
      by (auto simp: wpa_supplicant_install_gtk_def group_known_def group_after_def group_events_def)
  next
    case False
    then show ?thesis using assms k
      by (auto simp: wpa_supplicant_install_gtk_def group_known_def group_after_def group_events_def group_event_def
          group_data_def wpa_sm_set_key_def all_works_def Let_def store_gtk_def hs_emit_def leD)
  qed
  moreover have "no_gtk\<lparr>gd_keyidx := unat (body ! 0 AND 3), gd_tx := wpa_supplicant_gtk_tx_bit_workaround (body ! 0 AND 4 \<noteq> 0) sm,
      gd_gtk := poke 0 (drop 2 body) (zeros 32), gd_gtk_len := length body - 2,
      gd_key_rsc_len := wpa_cipher_rsc_len (group_cipher sm), gd_alg := wpa_cipher_to_alg (group_cipher sm)\<rparr> = group_data body sm"
    by (simp add: no_gtk_def group_data_def)
  ultimately show ?thesis
    using assms l by (simp add: wpa_supplicant_pairwise_gtk_def wpa_supplicant_check_group_cipher_def Let_def)
qed

text \<open>The integrity group key, which is looked at only with a cipher for management frames.\<close>

definition igtk_key :: "u8 list \<Rightarrow> hs_sm \<Rightarrow> u8 list" where
  "igtk_key k sm = take (wpa_cipher_key_len (mgmt_group_cipher sm)) (drop 8 k)"

definition igtk_new :: "u8 list option \<Rightarrow> hs_sm \<Rightarrow> u8 list option" where
  "igtk_new b sm =
     (case b of None \<Rightarrow> None
      | Some k \<Rightarrow> if wpa_cipher_valid_mgmt_group (mgmt_group_cipher sm) \<and> igtk sm \<noteq> igtk_key k sm \<and>
            igtk_wnm_sleep sm \<noteq> igtk_key k sm then Some k else None)"

definition igtk_events :: "wpa_env \<Rightarrow> u8 list option \<Rightarrow> hs_sm \<Rightarrow> wpa_out list" where
  "igtk_events E b sm =
     (case igtk_new b sm of None \<Rightarrow> []
      | Some k \<Rightarrow>
          let alg = wpa_cipher_to_alg (mgmt_group_cipher sm); a = Some broadcast_ether_addr; q = take 6 (drop 2 k)
          in [Set_Key alg a (igtk_keyid k) False q (igtk_key k sm) (set_key_result E alg a (igtk_keyid k) False q (igtk_key k sm))])"

definition igtk_after :: "u8 list option \<Rightarrow> hs_sm \<Rightarrow> u8 list" where
  "igtk_after b sm = (case igtk_new b sm of None \<Rightarrow> igtk sm | Some k \<Rightarrow> igtk_key k sm)"

definition igtk_fits :: "u8 list option \<Rightarrow> hs_sm \<Rightarrow> bool" where
  "igtk_fits b sm \<longleftrightarrow>
     (case b of None \<Rightarrow> True
      | Some k \<Rightarrow> wpa_cipher_valid_mgmt_group (mgmt_group_cipher sm) \<longrightarrow>
          length k = 8 + wpa_cipher_key_len (mgmt_group_cipher sm) \<and> igtk_keyid k \<le> 4095)"

lemma igtk_works:
  assumes "all_works E ver sm" "igtk_fits b sm"
  shows "ieee80211w_set_keys E b sm = (0, sm\<lparr>igtk := igtk_after b sm, hs_outs := hs_outs sm @ igtk_events E b sm\<rparr>)"
proof (cases "igtk_new b sm")
  case None
  with assms show ?thesis
    by (cases b) (auto simp: ieee80211w_set_keys_def wpa_supplicant_install_igtk_def igtk_new_def igtk_after_def igtk_events_def
        igtk_fits_def igtk_key_def Let_def split: if_splits)
next
  case (Some k)
  then have b: "b = Some k" and v: "wpa_cipher_valid_mgmt_group (mgmt_group_cipher sm)" "igtk sm \<noteq> igtk_key k sm"
    "igtk_wnm_sleep sm \<noteq> igtk_key k sm" by (auto simp: igtk_new_def split: option.splits if_splits)
  with assms have "length k = 8 + wpa_cipher_key_len (mgmt_group_cipher sm)" "\<not> igtk_keyid k > 4095" by (simp_all add: igtk_fits_def)
  moreover have "0 \<le> set_key_result E alg a i tx q key" for alg a i tx q key using assms(1) by (simp add: all_works_def)
  ultimately show ?thesis using v
    by (simp add: b ieee80211w_set_keys_def wpa_supplicant_install_igtk_def igtk_after_def igtk_events_def Some [unfolded b]
        igtk_key_def [symmetric] wpa_sm_set_key_def store_igtk_def hs_emit_def Let_def leD)
qed

lemma neg_complete_state:
  assumes "\<not> wpa_key_mgmt_ft (akm sm)"
  shows "\<exists>c es. filter is_set_key es = [] \<and> wpa_supplicant_key_neg_complete E a secure sm =
    sm\<lparr>cache := c, wpa_state := WPA_COMPLETED, hs_outs := hs_outs sm @ es\<rparr>"
proof -
  let ?c = "accept_opportunistic (cache sm)"
  let ?es = "[Cancel_Auth_Timeout, Set_State WPA_COMPLETED] @
    (if secure then [Set_Protection a 3 1, Port_Valid True] @
       (if wpa_key_mgmt_wpa_psk (akm sm) \<or> akm sm = WPA_KEY_MGMT_DPP \<or> akm sm = WPA_KEY_MGMT_OWE then [Eap_Success True] else []) @
       (if pmksa_candidates sm \<noteq> [] then [Register_Preauth] else []) else [])"
  have "key_mgmt (accept_opportunistic c) = key_mgmt c" for c
    by (simp add: accept_opportunistic_def update_entry_def split: option.split)
  then have "wpa_supplicant_key_neg_complete E a secure sm =
      sm\<lparr>cache := ?c, wpa_state := WPA_COMPLETED, hs_outs := hs_outs sm @ ?es\<rparr>"
    using assms
    by (cases secure; cases "wpa_key_mgmt_wpa_psk (akm sm) \<or> akm sm = WPA_KEY_MGMT_DPP \<or> akm sm = WPA_KEY_MGMT_OWE";
        cases "pmksa_candidates sm = []")
      (simp_all add: wpa_supplicant_key_neg_complete_def Let_def state_step set_cache_def hs_emit_def akm_def)
  moreover have "filter is_set_key ?es = []" by (simp add: is_set_key_def)
  ultimately show ?thesis by blast
qed

lemma suite_b_state: "\<exists>c. cache_suite_b E sm = sm\<lparr>cache := c\<rparr>"
  by (auto simp: cache_suite_b_def Let_def case_prod_beta cache_key_def current_if_none_def set_current_def set_cache_def
      intro: exI [of _ "cache sm"])

lemma group_events_cong:
  assumes "gtk t = gtk sm" "gtk_wnm_sleep t = gtk_wnm_sleep sm" "group_cipher t = group_cipher sm"
    "pairwise_cipher t = pairwise_cipher sm" "wpa_rsc_relaxation t = wpa_rsc_relaxation sm"
  shows "group_events E buf body t = group_events E buf body sm" "group_after body t = group_after body sm"
  using assms by (simp_all add: group_events_def group_after_def group_known_def group_event_def group_data_def group_rsc_def
      wpa_supplicant_rsc_relaxation_def wpa_supplicant_gtk_tx_bit_workaround_def Let_def)

lemma igtk_events_cong:
  assumes "igtk t = igtk sm" "igtk_wnm_sleep t = igtk_wnm_sleep sm" "mgmt_group_cipher t = mgmt_group_cipher sm"
  shows "igtk_events E b t = igtk_events E b sm" "igtk_after b t = igtk_after b sm" "igtk_fits b t = igtk_fits b sm"
  using assms by (simp_all add: igtk_events_def igtk_after_def igtk_new_def igtk_key_def igtk_fits_def Let_def cong: option.case_cong)

text \<open>The sequence of the group keys in message 3; neither sees what the other changes.\<close>

lemma group_keys_work:
  assumes "all_works E ver sm" "pairwise_cipher sm \<noteq> WPA_CIPHER_NONE" "group_cipher sm \<noteq> WPA_CIPHER_GTK_NOT_USED"
    "wpa_cipher_to_alg (group_cipher sm) \<noteq> WPA_ALG_NONE" "kde_at data (k_gtk ie) = Some body"
    "length body = 2 + wpa_cipher_key_len (group_cipher sm)" "igtk_fits (kde_at data (k_igtk ie)) sm"
  shows "group_keys_of_3_of_4 E buf data ie sm =
    (True, sm\<lparr>gtk := group_after body sm, igtk := igtk_after (kde_at data (k_igtk ie)) sm,
      hs_outs := hs_outs sm @ group_events E buf body sm @ igtk_events E (kde_at data (k_igtk ie)) sm\<rparr>)"
proof -
  let ?b = "kde_at data (k_igtk ie)"
  define t where "t = sm\<lparr>gtk := group_after body sm, hs_outs := hs_outs sm @ group_events E buf body sm\<rparr>"
  have e: "igtk_events E ?b t = igtk_events E ?b sm" "igtk_after ?b t = igtk_after ?b sm" "igtk_fits ?b t = igtk_fits ?b sm"
    by (rule igtk_events_cong; simp add: t_def)+
  have w: "all_works E ver t" using assms(1) by (simp add: all_works_def t_def akm_def)
  have "wpa_supplicant_pairwise_gtk E buf body sm = (0, t)" unfolding t_def by (rule group_works [OF assms(1-4,6)])
  moreover have "ieee80211w_set_keys E ?b t = (0, t\<lparr>igtk := igtk_after ?b sm, hs_outs := hs_outs t @ igtk_events E ?b sm\<rparr>)"
    using igtk_works [OF w] assms(7) e by simp
  ultimately show ?thesis using assms(3,5) by (simp add: group_keys_of_3_of_4_def t_def)
qed

lemma set_key_events:
  "filter is_set_key (group_events E buf body sm) = group_events E buf body sm"
  "filter is_set_key (igtk_events E b sm) = igtk_events E b sm"
  "filter is_set_key (pairwise_events E buf sm) = pairwise_events E buf sm"
  by (simp_all add: group_events_def group_event_def igtk_events_def pairwise_events_def pairwise_event_def is_set_key_def
      Let_def split: option.split)

lemma finish_works:
  assumes "all_works E ver sm" "\<not> wpa_key_mgmt_ft (akm sm)" "pairwise_cipher sm \<noteq> WPA_CIPHER_NONE"
    "group_cipher sm \<noteq> WPA_CIPHER_GTK_NOT_USED" "wpa_cipher_to_alg (group_cipher sm) \<noteq> WPA_ALG_NONE"
    "kde_at data (k_gtk ie) = Some body" "length body = 2 + wpa_cipher_key_len (group_cipher sm)"
    "igtk_fits (kde_at data (k_igtk ie)) sm"
  shows "wpa_state (finish_3_of_4 E buf data ie sm) = WPA_COMPLETED \<and>
    given (finish_3_of_4 E buf data ie sm) =
      given sm @ group_events E buf body sm @ igtk_events E (kde_at data (k_igtk ie)) sm \<and>
    gtk (finish_3_of_4 E buf data ie sm) = group_after body sm \<and>
    igtk (finish_3_of_4 E buf data ie sm) = igtk_after (kde_at data (k_igtk ie)) sm \<and>
    ptk (finish_3_of_4 E buf data ie sm) = ptk sm \<and> msg_3_of_4_ok (finish_3_of_4 E buf data ie sm)"
proof -
  let ?secure = "info_bit (k_key_info buf) WPA_KEY_INFO_SECURE"
  let ?b = "kde_at data (k_igtk ie)"
  define sm1 where "sm1 = wpa_sm_set_state WPA_GROUP_HANDSHAKE
    (if ?secure then hs_emit (Port_Valid True) (hs_emit (Set_Protection (bssid (cache sm)) 1 1) sm) else sm)"
  define es where "es = (if ?secure then [Set_Protection (bssid (cache sm)) 1 1, Port_Valid True] else []) @ [Set_State WPA_GROUP_HANDSHAKE]"
  have es: "filter is_set_key es = []" "sm1 = sm\<lparr>wpa_state := WPA_GROUP_HANDSHAKE, hs_outs := hs_outs sm @ es\<rparr>"
    by (simp_all add: es_def sm1_def state_step hs_emit_def is_set_key_def)
  have w: "all_works E ver sm1" using assms(1) es by (simp add: all_works_def akm_def)
  have ev: "group_events E buf body sm1 = group_events E buf body sm" "group_after body sm1 = group_after body sm"
    "igtk_events E ?b sm1 = igtk_events E ?b sm" "igtk_after ?b sm1 = igtk_after ?b sm" "igtk_fits ?b sm1 = igtk_fits ?b sm"
    by (rule group_events_cong igtk_events_cong; simp add: es)+
  define sm2 where "sm2 = sm1\<lparr>gtk := group_after body sm, igtk := igtk_after ?b sm,
    hs_outs := hs_outs sm1 @ group_events E buf body sm @ igtk_events E ?b sm\<rparr>"
  have g: "group_keys_of_3_of_4 E buf data ie sm1 = (True, sm2)"
    using group_keys_work [OF w, of data ie body buf] assms by (simp add: sm2_def ev) (simp add: es)
  have "\<not> wpa_key_mgmt_ft (akm sm2)" using assms(2) es by (simp add: sm2_def akm_def)
  then obtain c es2 where n: "filter is_set_key es2 = []"
      "wpa_supplicant_key_neg_complete E (bssid (cache sm2)) ?secure sm2 =
        sm2\<lparr>cache := c, wpa_state := WPA_COMPLETED, hs_outs := hs_outs sm2 @ es2\<rparr>"
    using neg_complete_state by blast
  let ?sm3 = "wpa_sm_set_rekey_offload (sm2\<lparr>cache := c, wpa_state := WPA_COMPLETED, hs_outs := hs_outs sm2 @ es2\<rparr>)"
  obtain c' where c': "cache_suite_b E ?sm3 = ?sm3\<lparr>cache := c'\<rparr>" using suite_b_state by blast
  have "k_gtk ie \<noteq> None" using assms(6) by (auto simp: kde_at_def)
  then have "finish_3_of_4 E buf data ie sm = ?sm3\<lparr>cache := c', msg_3_of_4_ok := True\<rparr>"
    using g n c' by (simp add: finish_3_of_4_def Let_def sm1_def [symmetric])
  then show ?thesis
    using es(1) n(1)
    by (simp add: sm2_def es(2) wpa_sm_set_rekey_offload_def given_def hs_emit_def set_key_events) (simp add: is_set_key_def)
qed

text \<open>Memory, the driver and the integrity check see nothing of the fields a handshake only notes things in.\<close>

lemma works_state:
  assumes "all_works E ver sm" "ptk_kck (ptk sm') = ptk_kck (ptk sm)" "akm sm' = akm sm"
  shows "all_works E ver sm'"
  using assms by (simp add: all_works_def)

text \<open>The answer to an acceptable message 3 leaves the negotiation to the end, with the pairwise key given to the driver.\<close>

lemma answer_works:
  assumes w: "all_works E ver sm" and m: "mic_len sm \<noteq> 0" "kck_len (ptk sm) \<noteq> 0" "bssid (cache sm) \<noteq> zeros 6"
    and p: "wpa_cipher_valid_pairwise (pairwise_cipher sm)"
      "\<not> ptk_installed (ptk sm) \<longrightarrow> tk_len (ptk sm) = wpa_cipher_key_len (pairwise_cipher sm)"
    and i: "info_bit (k_key_info buf) WPA_KEY_INFO_INSTALL"
  shows "\<exists>ip es. filter is_set_key es = pairwise_events E buf sm \<and> answer_3_of_4 E buf ver data ie sm =
    finish_3_of_4 E buf data ie (sm\<lparr>p2p_ip_addr := ip, renew_snonce := True,
      ptk := installed (ptk sm), hs_outs := hs_outs sm @ es\<rparr>)"
proof -
  define ip where "ip = (case k_ip_addr_alloc ie of None \<Rightarrow> p2p_ip_addr sm | Some p \<Rightarrow> take 12 (drop p data))"
  let ?s1 = "sm\<lparr>p2p_ip_addr := ip\<rparr>"
  have s1: "(case k_ip_addr_alloc ie of None \<Rightarrow> sm | Some p \<Rightarrow> sm\<lparr>p2p_ip_addr := take 12 (drop p data)\<rparr>) = ?s1"
    by (simp add: ip_def split: option.split)
  have w1: "all_works E ver ?s1" by (rule works_state [OF w]) (simp_all add: akm_def)
  obtain b where b: "wpa_supplicant_send_4_of_4 E (bssid (cache ?s1)) buf ver (k_key_info buf) (ptk ?s1) ?s1 =
      (send_result E, hs_emit Notify_Tx_Eapol_Key (hs_emit (Ether_Send (bssid (cache ?s1)) b) ?s1))"
    using send_works [OF w1, of buf "k_key_info buf"] m by (auto simp: mic_len_def akm_def pmk_of_def)
  let ?s2 = "(hs_emit Notify_Tx_Eapol_Key (hs_emit (Ether_Send (bssid (cache ?s1)) b) ?s1))\<lparr>renew_snonce := True\<rparr>"
  have w2: "all_works E ver ?s2" by (rule works_state [OF w]) (simp_all add: akm_def hs_emit_def)
  have ev: "pairwise_events E buf ?s2 = pairwise_events E buf sm"
    by (simp add: pairwise_events_def pairwise_event_def hs_emit_def is_rsn_def)
  obtain es where es: "filter is_set_key es = []" "wpa_supplicant_install_ptk E buf ?s2 =
      (0, ?s2\<lparr>ptk := installed (ptk ?s2),
        hs_outs := hs_outs ?s2 @ pairwise_events E buf ?s2 @ es\<rparr>)"
    using install_works [OF w2, of buf] p by (auto simp: hs_emit_def)
  have "0 \<le> send_result E" using w by (simp add: all_works_def)
  then have "answer_3_of_4 E buf ver data ie sm = finish_3_of_4 E buf data ie (sm\<lparr>p2p_ip_addr := ip, renew_snonce := True,
      ptk := installed (ptk sm),
      hs_outs := hs_outs sm @ [Ether_Send (bssid (cache sm)) b, Notify_Tx_Eapol_Key] @ pairwise_events E buf sm @ es\<rparr>)"
    using i b es(2) ev unfolding answer_3_of_4_def Let_def s1 by (simp add: hs_emit_def leD)
  moreover have "filter is_set_key ([Ether_Send (bssid (cache sm)) b, Notify_Tx_Eapol_Key] @ pairwise_events E buf sm @ es) =
      pairwise_events E buf sm"
    using es(1) by (simp add: set_key_events) (simp add: is_set_key_def)
  ultimately show ?thesis by blast
qed

lemma handshake_completes:
  assumes "acceptable_3_of_4 E buf data sm" "all_works E ver sm" "info_bit (k_key_info buf) WPA_KEY_INFO_INSTALL"
    and "\<not> wpa_key_mgmt_ft (akm sm)" "mic_len sm \<noteq> 0" "kck_len (ptk sm) \<noteq> 0" "bssid (cache sm) \<noteq> zeros 6"
    and "wpa_cipher_valid_pairwise (pairwise_cipher sm)"
      "\<not> ptk_installed (ptk sm) \<longrightarrow> tk_len (ptk sm) = wpa_cipher_key_len (pairwise_cipher sm)"
    and "group_cipher sm \<noteq> WPA_CIPHER_GTK_NOT_USED" "wpa_cipher_to_alg (group_cipher sm) \<noteq> WPA_ALG_NONE"
    and "kde_at data (k_gtk (snd (wpa_supplicant_parse_ies data (length data)))) = Some body"
      "length body = 2 + wpa_cipher_key_len (group_cipher sm)"
    and "b = kde_at data (k_igtk (snd (wpa_supplicant_parse_ies data (length data))))" "igtk_fits b sm"
  shows "(let s = wpa_supplicant_process_3_of_4 E buf ver data sm
     in wpa_state s = WPA_COMPLETED \<and>
        given s = given sm @ pairwise_events E buf sm @ group_events E buf body sm @ igtk_events E b sm \<and>
        gtk s = group_after body sm \<and> igtk s = igtk_after b sm \<and> ptk s = installed (ptk sm) \<and> msg_3_of_4_ok s)"
proof -
  let ?ie = "snd (wpa_supplicant_parse_ies data (length data))"
  obtain x r where x: "with_beacon E (wpa_sm_set_state WPA_4WAY_HANDSHAKE sm) =
      (wpa_sm_set_state WPA_4WAY_HANDSHAKE sm)\<lparr>ap_wpa_ie := x, ap_rsn_ie := r\<rparr>" using beacon_step by blast
  define s where "s = (wpa_sm_set_state WPA_4WAY_HANDSHAKE sm)\<lparr>ap_wpa_ie := x, ap_rsn_ie := r\<rparr>"
  have s: "wpa_supplicant_process_3_of_4 E buf ver data sm = answer_3_of_4 E buf ver data ?ie s"
    unfolding process_3_acceptable [OF assms(1)] x s_def ..
  have w: "all_works E ver s" by (rule works_state [OF assms(2)]) (simp_all add: s_def state_step akm_def)
  have sf: "mic_len s = mic_len sm" "ptk s = ptk sm" "cache s = cache sm" "pairwise_cipher s = pairwise_cipher sm"
    by (simp_all add: s_def state_step mic_len_def akm_def pmk_of_def)
  obtain ip es where es: "filter is_set_key es = pairwise_events E buf s" "answer_3_of_4 E buf ver data ?ie s =
      finish_3_of_4 E buf data ?ie (s\<lparr>p2p_ip_addr := ip, renew_snonce := True,
        ptk := installed (ptk s), hs_outs := hs_outs s @ es\<rparr>)"
    using answer_works [OF w, of buf data ?ie] assms(3-9) by (auto simp: sf)
  define t where "t = s\<lparr>p2p_ip_addr := ip, renew_snonce := True, ptk := installed (ptk s), hs_outs := hs_outs s @ es\<rparr>"
  have t: "ptk t = installed (ptk sm)" "akm t = akm sm" "pairwise_cipher t = pairwise_cipher sm" "group_cipher t = group_cipher sm"
    by (simp_all add: t_def s_def state_step akm_def)
  have wt: "all_works E ver t" by (rule works_state [OF assms(2)]) (simp_all add: t ptk_kck_def installed_def)
  have pe: "pairwise_events E buf s = pairwise_events E buf sm"
    by (simp add: pairwise_events_def pairwise_event_def s_def state_step is_rsn_def)
  have ge: "group_events E buf body t = group_events E buf body sm" "group_after body t = group_after body sm"
    by (rule group_events_cong; simp add: t_def s_def state_step)+
  have ie: "igtk_events E b t = igtk_events E b sm" "igtk_after b t = igtk_after b sm" "igtk_fits b t = igtk_fits b sm" for b
    by (rule igtk_events_cong; simp add: t_def s_def state_step)+
  have gt: "given t = given sm @ pairwise_events E buf sm"
    using es(1) unfolding pe by (simp add: t_def s_def state_step given_def is_set_key_def)
  have "pairwise_cipher t \<noteq> WPA_CIPHER_NONE" using valid_pairwise_len [OF assms(8)] t by simp
  note f = finish_works [OF wt _ this, of data ?ie body buf, unfolded t ge ie gt, folded assms(14), OF assms(4,10-13,15)]
  show ?thesis unfolding s es(2) t_def [symmetric] Let_def using f by (simp add: t)
qed

end
