(* ===== verification/Wpa_Example.thy ===== *)
theory Wpa_Example
  imports Wpa_Calls Pmksa_Reach
begin

text \<open>
  A concrete station with a pre-shared key and the frames of one 4-way handshake, on which the properties of the WPA state
  machine are evaluated. Sums of bytes stand for the hash functions, and the key wrapping only adds 8 bytes.
\<close>

definition toy_mac :: "nat \<Rightarrow> u8 list \<Rightarrow> u8 list \<Rightarrow> u8 list option" where
  "toy_mac n key d = Some (replicate n (sum_list key + sum_list d))"

definition toy_crypto :: wpa_crypto where
  "toy_crypto = \<lparr>hmac_md5 = toy_mac 16, hmac_sha1 = toy_mac 20, hmac_sha256 = toy_mac 32, hmac_sha384 = toy_mac 48,
     hmac_sha512 = toy_mac 64, omac1_aes_128 = toy_mac 16, sha1_prf = (\<lambda>k l d n. toy_mac n k d),
     sha256_prf = (\<lambda>k l d n. toy_mac n k d), sha384_prf = (\<lambda>k l d n. toy_mac n k d), sha512_prf = (\<lambda>k l d n. toy_mac n k d),
     sha256_vector = toy_mac 32 [], sha384_vector = toy_mac 48 [], rc4_skip = (\<lambda>k n d. Some d),
     aes_unwrap = (\<lambda>k n d. Some (take (8 * n) (drop 8 d)))\<rparr>"

definition toy_env :: wpa_env where
  "toy_env = \<lparr>crypto = toy_crypto, cache_env = example_env 10, mem_ok = (\<lambda>m. True),
     set_key_result = (\<lambda>alg addr idx tx q k. 0), send_result = 0, init_ok = (\<lambda>s. True), driver_bssid = Some [2, 0, 0, 0, 0, 1],
     random_bytes = Some (replicate 32 5), eapol_key = (\<lambda>n. None), beacon_ies = None, has_network = True, eapol_version = 1\<rparr>"

abbreviation (input) toy_ap :: "u8 list" where "toy_ap \<equiv> [2, 0, 0, 0, 0, 1]"

text \<open>WPA2 with CCMP for both ciphers.\<close>

definition toy_rsne :: "u8 list" where
  "toy_rsne = [48, 20, 1, 0, 0, 15, 172, 4, 1, 0, 0, 15, 172, 4, 1, 0, 0, 15, 172, 2, 0, 0]"

fun toy_param :: "(wpa_sm_conf_params \<times> u32) list \<Rightarrow> hs_sm \<Rightarrow> hs_sm" where
  "toy_param [] sm = sm"
| "toy_param ((p, v) # ps) sm = toy_param ps (snd (wpa_sm_set_param p v sm))"

definition toy_fresh :: hs_sm where "toy_fresh = the (wpa_sm_init True example_sm)"

definition toy_configured :: hs_sm where
  "toy_configured =
     toy_param [(WPA_PARAM_PROTO, 2), (WPA_PARAM_PAIRWISE, 16), (WPA_PARAM_GROUP, 16), (WPA_PARAM_KEY_MGMT, 2)]
       (wpa_sm_set_own_addr [2, 0, 0, 0, 0, 2] toy_fresh)"

definition toy_associated :: hs_sm where
  "toy_associated =
     wpa_sm_notify_assoc toy_env toy_ap
       (snd (wpa_sm_set_ap_rsn_ie toy_env (Some toy_rsne)
         (snd (wpa_sm_set_assoc_wpa_ie toy_env (Some toy_rsne)
           (set_cache (\<lambda>c. wpa_sm_set_pmk (example_env 10) (replicate 32 1) None None c) toy_configured)))))"

text \<open>A key frame of the access point, without and with its MIC.\<close>

definition toy_frame :: "u8 list \<Rightarrow> u8 \<Rightarrow> u8 list \<Rightarrow> u8 list" where
  "toy_frame info c data =
     [1, 3, 0, of_nat (95 + length data), 2] @ info @ [0, 16] @ [0, 0, 0, 0, 0, 0, 0, c] @ replicate 32 9 @ zeros 16 @ zeros 8 @
     zeros 8 @ zeros 16 @ [0, of_nat (length data)] @ data"

definition toy_sign :: "u8 list \<Rightarrow> u8 list \<Rightarrow> u8 list" where
  "toy_sign kck f = poke 81 (take 16 (the (toy_mac 20 kck f))) f"

definition toy_msg1 :: "u8 list" where "toy_msg1 = toy_frame [0, 0x8a] 1 []"

definition toy_answered :: hs_sm where "toy_answered = snd (wpa_sm_rx_eapol toy_env toy_ap toy_msg1 toy_associated)"

definition toy_gtk :: "u8 list" where "toy_gtk = replicate 16 7"

definition toy_data :: "u8 list" where "toy_data = toy_rsne @ [221, 22, 0, 15, 172, 1, 1, 0] @ toy_gtk @ [221, 0]"

text \<open>The key confirmation key that both sides derive with \<open>toy_mac\<close>.\<close>

definition toy_kck :: "u8 list" where "toy_kck = replicate 16 231"

definition toy_msg3 :: "u8 \<Rightarrow> u8 list" where
  "toy_msg3 c = toy_sign toy_kck (toy_frame [0x13, 0xca] c (zeros 8 @ toy_data))"

definition toy_completed :: hs_sm where
  "toy_completed = snd (wpa_sm_rx_eapol toy_env toy_ap (toy_msg3 2) toy_answered)"

end
