(* ===== verification/Rsn_Policy.thy ===== *)
theory Rsn_Policy
  imports Rsn_Gen
begin

text \<open>
  What an RSN element says, apart from the code: the suites as IEEE 802.11 numbers them, and an encoder that puts down any
  list of them. \<open>wpa_compare_rsn_ie\<close> of \<open>wpa_supplicant/src/common/wpa_common.c\<close> is then related to what two elements
  say, and not to what the parser makes of them.
\<close>

section \<open>Elements\<close>

text \<open>The suite of type \<open>n\<close> with the OUI 00-0F-AC.\<close>

definition suite :: "u8 \<Rightarrow> u8 list" where "suite n = [0, 15, 172, n]"

record rsn_policy =
  pol_group :: u8
  pol_pairwise :: "u8 list"
  pol_akms :: "u8 list"
  pol_capab :: u16
  pol_pmkids :: "u8 list list"
  pol_mgmt :: "u8 option"

definition counted :: "u8 list list \<Rightarrow> u8 list" where
  "counted xs = WPA_PUT_LE16 (of_nat (length xs)) @ concat xs"

definition pol_tail :: "rsn_policy \<Rightarrow> u8 list" where
  "pol_tail p =
     (case pol_mgmt p of
        None \<Rightarrow> if pol_pmkids p = [] then [] else counted (pol_pmkids p)
      | Some n \<Rightarrow> counted (pol_pmkids p) @ suite n)"

definition pol_body :: "rsn_policy \<Rightarrow> u8 list" where
  "pol_body p = [1, 0] @ suite (pol_group p) @ counted (map suite (pol_pairwise p)) @ counted (map suite (pol_akms p)) @
     WPA_PUT_LE16 (pol_capab p) @ pol_tail p"

definition rsn_element :: "rsn_policy \<Rightarrow> u8 list" where
  "rsn_element p = WLAN_EID_RSN # of_nat (length (pol_body p)) # pol_body p"

text \<open>Types of group, pairwise and management group ciphers, and of key managements.\<close>

definition group_types :: "u8 set" where "group_types = {2, 4, 7, 8, 9, 10}"
definition pairwise_types :: "u8 set" where "pairwise_types = {0, 2, 4, 8, 9, 10}"
definition mgmt_types :: "u8 set" where "mgmt_types = {6, 11, 12, 13}"
definition akm_types :: "u8 set" where "akm_types = {1, 2, 3, 4, 5, 6, 8, 9, 11, 12, 13, 14, 15, 16, 17}"

definition wf_policy :: "rsn_policy \<Rightarrow> bool" where
  "wf_policy p \<longleftrightarrow> pol_group p \<in> group_types \<and> pol_pairwise p \<noteq> [] \<and> set (pol_pairwise p) \<subseteq> pairwise_types \<and>
     pol_akms p \<noteq> [] \<and> set (pol_akms p) \<subseteq> akm_types \<and> (\<forall>k\<in>set (pol_pmkids p). length k = 16) \<and>
     (case pol_mgmt p of None \<Rightarrow> True | Some n \<Rightarrow> n \<in> mgmt_types) \<and> length (pol_body p) < 256"

text \<open>Without a management group cipher the element means AES-128-CMAC.\<close>

definition mgmt_type :: "rsn_policy \<Rightarrow> u8" where
  "mgmt_type p = (case pol_mgmt p of None \<Rightarrow> 6 | Some n \<Rightarrow> n)"

definition same_security :: "rsn_policy \<Rightarrow> rsn_policy \<Rightarrow> bool" where
  "same_security p q \<longleftrightarrow> pol_group p = pol_group q \<and> set (pol_pairwise p) = set (pol_pairwise q) \<and>
     set (pol_akms p) = set (pol_akms q) \<and> pol_capab p = pol_capab q \<and> mgmt_type p = mgmt_type q"

section \<open>Suites as bits\<close>

lemma length_suite [simp]: "length (suite n) = 4"
  by (simp add: suite_def)

definition cipher_bit :: "u8 \<Rightarrow> nat" where
  "cipher_bit n = (if n = 0 then 0 else if n = 2 then 3 else if n = 4 then 4 else if n = 6 then 5 else if n = 7 then 14
     else if n = 8 then 6 else if n = 9 then 8 else if n = 10 then 9 else unat n)"

definition akm_bit :: "u8 \<Rightarrow> nat" where
  "akm_bit n = (if n = 1 then 0 else if n = 2 then 1 else if n = 3 then 5 else if n = 4 then 6 else if n = 5 then 7
     else if n = 6 then 8 else if n = 8 then 10 else if n = 9 then 11 else if n = 11 then 16 else if n = 12 then 17
     else if n = 13 then 24 else unat n + 4)"

lemma cipher_selector:
  "n \<in> group_types \<union> pairwise_types \<union> mgmt_types \<Longrightarrow> rsn_selector_to_bitfield (suite n @ r) = 2 ^ cipher_bit n"
  unfolding group_types_def pairwise_types_def mgmt_types_def Un_insert_left Un_empty_left
  by (elim insertE emptyE; hypsubst) (simp_all add: suite_def rsn_selector_to_bitfield_def cipher_bit_def WPA_GET_BE32_def)


lemma akm_selector: "n \<in> akm_types \<Longrightarrow> rsn_key_mgmt_to_bitfield (suite n @ r) = 2 ^ akm_bit n"
  unfolding akm_types_def
  by (elim insertE emptyE; hypsubst) (simp_all add: suite_def rsn_key_mgmt_to_bitfield_def akm_bit_def WPA_GET_BE32_def)

text \<open>The union of the bits of a list.\<close>

definition bits :: "(u8 \<Rightarrow> nat) \<Rightarrow> u8 list \<Rightarrow> u32 \<Rightarrow> u32" where
  "bits e ns v = fold (\<lambda>n w. w OR 2 ^ e n) ns v"

lemma bit_bits: "bit (bits e ns v) k \<longleftrightarrow> bit v k \<or> k < 32 \<and> (\<exists>n\<in>set ns. e n = k)"
  unfolding bits_def by (induction ns arbitrary: v) (auto simp: bit_simps)

lemma bits_eq_iff:
  assumes "inj_on e A" "\<forall>n\<in>A. e n < 32" "set ns \<subseteq> A" "set ms \<subseteq> A"
  shows "bits e ns 0 = bits e ms 0 \<longleftrightarrow> set ns = set ms"
proof
  assume "set ns = set ms"
  then show "bits e ns 0 = bits e ms 0" by (intro bit_word_eqI) (simp add: bit_bits)
next
  assume eq: "bits e ns 0 = bits e ms 0"
  have "n \<in> set ms'" if "bits e ns' 0 = bits e ms' 0" "set ns' \<subseteq> A" "set ms' \<subseteq> A" "n \<in> set ns'" for ns' ms' n
  proof -
    have "bit (bits e ns' 0) (e n)" using that(2,4) assms(2) by (auto simp: bit_bits)
    then have "bit (bits e ms' 0) (e n)" by (simp only: that(1))
    then obtain m where "m \<in> set ms'" "e m = e n" by (auto simp: bit_bits)
    with that assms(1) show ?thesis by (metis inj_onD subsetD)
  qed
  from this [OF eq assms(3,4)] this [OF eq [symmetric] assms(4,3)] show "set ns = set ms" by blast
qed

lemma or_suites_bits:
  assumes "\<And>n r. n \<in> set ns \<Longrightarrow> f (suite n @ r) = 2 ^ e n"
  shows "or_suites f (length ns) (concat (map suite ns) @ r) v = (bits e ns v, r)"
  using assms
proof (induction ns arbitrary: v)
  case (Cons n ns)
  then show ?case by (simp add: bits_def)
qed (simp add: bits_def)

lemma inj_cipher: "inj_on cipher_bit (group_types \<union> pairwise_types \<union> mgmt_types)"
  by (auto simp: inj_on_def group_types_def pairwise_types_def mgmt_types_def cipher_bit_def)

lemma inj_akm: "inj_on akm_bit akm_types"
  by (auto simp: inj_on_def akm_types_def akm_bit_def)

lemma bit_bounds: "\<forall>n\<in>group_types \<union> pairwise_types \<union> mgmt_types. cipher_bit n < 32" "\<forall>n\<in>akm_types. akm_bit n < 32"
  by (simp_all add: group_types_def pairwise_types_def mgmt_types_def cipher_bit_def akm_types_def akm_bit_def)

section \<open>The parser reads what the element says\<close>

lemma length_suites: "length (concat (map suite ns)) = 4 * length ns"
  by (induction ns) simp_all

lemma length_pmkids: "\<forall>k\<in>set ks. length k = 16 \<Longrightarrow> length (concat ks) = 16 * length ks"
  by (induction ks) simp_all

lemma count_read: "length xs < 65536 \<Longrightarrow> unat (WPA_GET_LE16 (counted xs @ r)) = length xs"
  "drop 2 (counted xs @ r) = concat xs @ r"
  by (simp_all add: counted_def unat_of_nat)


lemma group_field:
  assumes "n \<in> group_types"
  shows "rsn_group d (suite n @ r) = Inr (d\<lparr>ie_group_cipher := 2 ^ cipher_bit n, ie_has_group := True\<rparr>, r)"
proof -
  have "wpa_cipher_valid_group (2 ^ cipher_bit n)"
    using assms by (auto simp: group_types_def cipher_bit_def wpa_cipher_valid_group_def wpa_cipher_valid_pairwise_def)
  then show ?thesis using assms cipher_selector [of n r] by (simp add: rsn_group_def)
qed

lemma suites_read:
  assumes "ns \<noteq> []" "length ns < 65536"
  shows "2 \<le> length (counted (map suite ns) @ r)" "unat (WPA_GET_LE16 (counted (map suite ns) @ r)) = length ns"
    "drop 2 (counted (map suite ns) @ r) = concat (map suite ns) @ r"
    "\<not> (length ns = 0 \<or> length ns > length (concat (map suite ns) @ r) div 4)"
  using assms count_read [of "map suite ns" r]
  by (simp_all add: length_suites) (simp add: counted_def)

lemma pairwise_field:
  assumes "ns \<noteq> []" "length ns < 65536" "set ns \<subseteq> pairwise_types"
  shows "rsn_pairwise d (counted (map suite ns) @ r) =
    Inr (d\<lparr>ie_pairwise_cipher := bits cipher_bit ns 0, ie_has_pairwise := True\<rparr>, r)"
proof -
  have "or_suites rsn_selector_to_bitfield (length ns) (concat (map suite ns) @ r) 0 = (bits cipher_bit ns 0, r)"
    by (rule or_suites_bits) (use assms(3) in \<open>auto intro: cipher_selector\<close>)
  moreover have "bits cipher_bit ns 0 AND 2 ^ 5 = 0"
    unfolding and_exp_eq_0_iff_not_bit bit_bits using assms(3) by (auto simp: pairwise_types_def cipher_bit_def)
  ultimately show ?thesis
    unfolding rsn_pairwise_def Let_def suites_read [OF assms(1,2)] using suites_read(1,4) [OF assms(1,2), of r] by simp
qed

lemma akm_field:
  assumes "ns \<noteq> []" "length ns < 65536" "set ns \<subseteq> akm_types"
  shows "akm_list rsn_key_mgmt_to_bitfield d (counted (map suite ns) @ r) = Inr (d\<lparr>ie_key_mgmt := bits akm_bit ns 0\<rparr>, r)"
proof -
  have "or_suites rsn_key_mgmt_to_bitfield (length ns) (concat (map suite ns) @ r) 0 = (bits akm_bit ns 0, r)"
    by (rule or_suites_bits) (use assms(3) in \<open>auto intro: akm_selector\<close>)
  then show ?thesis
    unfolding akm_list_def Let_def suites_read [OF assms(1,2)] using suites_read(1,4) [OF assms(1,2), of r] by simp
qed

lemma mgmt_field:
  assumes "n \<in> mgmt_types"
  shows "rsn_mgmt_group d (suite n) = Inr (d\<lparr>ie_mgmt_group_cipher := 2 ^ cipher_bit n\<rparr>, [])"
proof -
  have "wpa_cipher_valid_mgmt_group (2 ^ cipher_bit n)"
    using assms by (auto simp: mgmt_types_def cipher_bit_def wpa_cipher_valid_mgmt_group_def)
  then show ?thesis using assms cipher_selector [of n "[]"] by (simp add: rsn_mgmt_group_def)
qed

lemma pmkids_field:
  assumes "\<forall>k\<in>set ks. length k = 16" "length ks < 65536"
  shows "\<exists>o'. rsn_pmkids len d (counted ks @ r) = Inr (d\<lparr>ie_num_pmkid := length ks, ie_pmkid := o'\<rparr>, r)"
proof -
  have "2 \<le> length (counted ks @ r)" by (simp add: counted_def)
  then show ?thesis
    unfolding rsn_pmkids_def Let_def count_read(1) [OF assms(2)] count_read(2)
    using length_pmkids [OF assms(1)] by auto
qed

text \<open>What the parser leaves in the fields that the comparison reads.\<close>

lemma tail_field:
  assumes "wf_policy p" "ie_mgmt_group_cipher d = WPA_CIPHER_AES_128_CMAC"
  shows "\<exists>n o' r. then_field (rsn_pmkids len d (pol_tail p)) rsn_mgmt_group =
    Inr (d\<lparr>ie_num_pmkid := n, ie_pmkid := o', ie_mgmt_group_cipher := 2 ^ cipher_bit (mgmt_type p)\<rparr>, r)"
proof -
  have ks: "\<forall>k\<in>set (pol_pmkids p). length k = 16" using assms(1) by (simp add: wf_policy_def)
  have "length (concat (pol_pmkids p)) < 256 \<or> pol_pmkids p = []"
    using assms(1) by (auto simp: wf_policy_def pol_body_def pol_tail_def counted_def split: option.splits)
  then have n: "length (pol_pmkids p) < 65536" using length_pmkids [OF ks] by auto
  note f = pmkids_field [OF ks n, of len d]
  show ?thesis
  proof (cases "pol_mgmt p")
    case None
    show ?thesis
    proof (cases "pol_pmkids p = []")
      case True
      have "d = d\<lparr>ie_num_pmkid := ie_num_pmkid d, ie_pmkid := ie_pmkid d, ie_mgmt_group_cipher := 2 ^ cipher_bit (mgmt_type p)\<rparr>"
        using assms(2) None by (simp add: mgmt_type_def cipher_bit_def)
      with None True show ?thesis
        by (intro exI [of _ "ie_num_pmkid d"] exI [of _ "ie_pmkid d"] exI [of _ "[]"])
          (simp add: pol_tail_def rsn_pmkids_def rsn_mgmt_group_def)
    next
      case False
      obtain o' where "rsn_pmkids len d (counted (pol_pmkids p)) = Inr (d\<lparr>ie_num_pmkid := length (pol_pmkids p), ie_pmkid := o'\<rparr>, [])"
        using f [of "[]"] by auto
      with None False assms(2) show ?thesis
        by (intro exI [of _ "length (pol_pmkids p)"] exI [of _ o'] exI [of _ "[]"])
          (simp add: pol_tail_def rsn_mgmt_group_def mgmt_type_def cipher_bit_def)
    qed
  next
    case (Some m)
    obtain o' where "rsn_pmkids len d (counted (pol_pmkids p) @ suite m) =
        Inr (d\<lparr>ie_num_pmkid := length (pol_pmkids p), ie_pmkid := o'\<rparr>, suite m)" using f [of "suite m"] by auto
    moreover have "m \<in> mgmt_types" using assms(1) Some by (simp add: wf_policy_def)
    ultimately show ?thesis using Some by (auto simp: pol_tail_def mgmt_field mgmt_type_def)
  qed
qed

lemma element_header:
  assumes "wf_policy p"
  shows "rsn_header (rsn_element p) = Inr (rsn_ie_defaults, drop 2 (pol_body p))"
proof -
  let ?n = "length (pol_body p)"
  have b: "pol_body p = 1 # 0 # 0 # 15 # drop 4 (pol_body p)" by (simp add: pol_body_def suite_def)
  have n: "unat (rsn_element p ! 1) = length (rsn_element p) - 2"
    using assms by (simp add: rsn_element_def wf_policy_def unat_of_nat)
  have l6: "6 \<le> length (rsn_element p)" by (simp add: rsn_element_def pol_body_def)
  have e: "drop 2 (rsn_element p) = pol_body p" "rsn_element p ! 0 = WLAN_EID_RSN" "drop 4 (rsn_element p) = drop 2 (pol_body p)"
    by (simp_all add: rsn_element_def)
  have v: "WPA_GET_BE32 (pol_body p) \<noteq> OSEN_IE_VENDOR_TYPE"
  proof
    assume "WPA_GET_BE32 (pol_body p) = OSEN_IE_VENDOR_TYPE"
    then have "take 4 (pol_body p) = WPA_PUT_BE32 OSEN_IE_VENDOR_TYPE" by (rule be32_bytes [rotated]) (simp add: pol_body_def)
    then show False by (subst (asm) b) (simp add: WPA_PUT_BE32_def)
  qed
  have l: "WPA_GET_LE16 (pol_body p) = 1" by (subst b) (rule list_one)
  show ?thesis unfolding rsn_header_def Let_def e l using n l6 v by simp
qed

lemma element_parsed:
  assumes "wf_policy p"
  shows "\<exists>n o'. wpa_parse_wpa_ie_rsn (rsn_element p) =
    (0, \<lparr>ie_proto = WPA_PROTO_RSN, ie_pairwise_cipher = bits cipher_bit (pol_pairwise p) 0, ie_has_pairwise = True,
      ie_group_cipher = 2 ^ cipher_bit (pol_group p), ie_has_group = True, ie_key_mgmt = bits akm_bit (pol_akms p) 0,
      ie_capabilities = pol_capab p, ie_num_pmkid = n, ie_pmkid = o', ie_mgmt_group_cipher = 2 ^ cipher_bit (mgmt_type p)\<rparr>)"
proof -
  let ?d = "rsn_ie_defaults\<lparr>ie_group_cipher := 2 ^ cipher_bit (pol_group p), ie_has_group := True,
    ie_pairwise_cipher := bits cipher_bit (pol_pairwise p) 0, ie_has_pairwise := True,
    ie_key_mgmt := bits akm_bit (pol_akms p) 0, ie_capabilities := pol_capab p\<rparr>"
  have "length (concat (map suite (pol_pairwise p))) < 256" "length (concat (map suite (pol_akms p))) < 256"
    using assms by (simp_all add: wf_policy_def pol_body_def counted_def)
  then have n: "length (pol_pairwise p) < 65536" "length (pol_akms p) < 65536" by (simp_all add: length_suites)
  have w: "pol_group p \<in> group_types" "pol_pairwise p \<noteq> []" "set (pol_pairwise p) \<subseteq> pairwise_types"
    "pol_akms p \<noteq> []" "set (pol_akms p) \<subseteq> akm_types" using assms by (simp_all add: wf_policy_def)
  obtain n' o' r where t: "then_field (rsn_pmkids (length (rsn_element p)) ?d (pol_tail p)) rsn_mgmt_group =
      Inr (?d\<lparr>ie_num_pmkid := n', ie_pmkid := o', ie_mgmt_group_cipher := 2 ^ cipher_bit (mgmt_type p)\<rparr>, r)"
    using tail_field [OF assms, of ?d "length (rsn_element p)"] by (auto simp: rsn_ie_defaults_def)
  have b: "drop 2 (pol_body p) = suite (pol_group p) @ counted (map suite (pol_pairwise p)) @ counted (map suite (pol_akms p)) @
    WPA_PUT_LE16 (pol_capab p) @ pol_tail p" by (simp add: pol_body_def)
  have "wpa_parse_wpa_ie_rsn (rsn_element p) =
      (0, ?d\<lparr>ie_num_pmkid := n', ie_pmkid := o', ie_mgmt_group_cipher := 2 ^ cipher_bit (mgmt_type p)\<rparr>)"
    unfolding wpa_parse_wpa_ie_rsn_def rsn_fields_def element_header [OF assms] b then_field_simps group_field [OF w(1)]
      pairwise_field [OF w(2) n(1) w(3)] akm_field [OF w(4) n(2) w(5)] capab_read t by simp
  then show ?thesis by (auto simp: rsn_ie_defaults_def)
qed

section \<open>Comparison\<close>

text \<open>Two elements agree in what the comparison reads exactly if they say the same.\<close>

lemma elements_agree:
  assumes "wf_policy p" "wf_policy q"
  shows "wpa_compare_rsn_ie True (Some (rsn_element p)) (Some (rsn_element q)) = 0 \<longleftrightarrow> same_security p q"
proof -
  let ?A = "group_types \<union> pairwise_types \<union> mgmt_types"
  have m: "mgmt_type p \<in> ?A" "mgmt_type q \<in> ?A" using assms
    by (auto simp: wf_policy_def mgmt_type_def mgmt_types_def split: option.splits)
  have "pol_group p \<in> ?A" "pol_group q \<in> ?A" "set (pol_pairwise p) \<subseteq> ?A" "set (pol_pairwise q) \<subseteq> ?A"
    "set (pol_akms p) \<subseteq> akm_types" "set (pol_akms q) \<subseteq> akm_types" using assms by (auto simp: wf_policy_def)
  note w = this m
  have one: "(2 :: u32) ^ cipher_bit m = 2 ^ cipher_bit n \<longleftrightarrow> m = n" if "m \<in> ?A" "n \<in> ?A" for m n
    using bits_eq_iff [OF inj_cipher bit_bounds(1), of "[m]" "[n]"] that by (simp add: bits_def)
  note sets = bits_eq_iff [OF inj_cipher bit_bounds(1) w(3,4)] bits_eq_iff [OF inj_akm bit_bounds(2) w(5,6)]
  obtain n o' n' o'' where
    P: "wpa_parse_wpa_ie_rsn (rsn_element p) = (0, \<lparr>ie_proto = WPA_PROTO_RSN, ie_pairwise_cipher = bits cipher_bit (pol_pairwise p) 0,
      ie_has_pairwise = True, ie_group_cipher = 2 ^ cipher_bit (pol_group p), ie_has_group = True,
      ie_key_mgmt = bits akm_bit (pol_akms p) 0, ie_capabilities = pol_capab p, ie_num_pmkid = n, ie_pmkid = o',
      ie_mgmt_group_cipher = 2 ^ cipher_bit (mgmt_type p)\<rparr>)" and
    Q: "wpa_parse_wpa_ie_rsn (rsn_element q) = (0, \<lparr>ie_proto = WPA_PROTO_RSN, ie_pairwise_cipher = bits cipher_bit (pol_pairwise q) 0,
      ie_has_pairwise = True, ie_group_cipher = 2 ^ cipher_bit (pol_group q), ie_has_group = True,
      ie_key_mgmt = bits akm_bit (pol_akms q) 0, ie_capabilities = pol_capab q, ie_num_pmkid = n', ie_pmkid = o'',
      ie_mgmt_group_cipher = 2 ^ cipher_bit (mgmt_type q)\<rparr>)"
    using element_parsed [OF assms(1)] element_parsed [OF assms(2)] by blast
  have s: "same_security p q \<longleftrightarrow> 2 ^ cipher_bit (pol_group p) = (2 :: u32) ^ cipher_bit (pol_group q) \<and>
      bits cipher_bit (pol_pairwise p) 0 = bits cipher_bit (pol_pairwise q) 0 \<and>
      bits akm_bit (pol_akms p) 0 = bits akm_bit (pol_akms q) 0 \<and> pol_capab p = pol_capab q \<and>
      2 ^ cipher_bit (mgmt_type p) = (2 :: u32) ^ cipher_bit (mgmt_type q)"
    by (simp only: same_security_def one [OF w(1,2)] one [OF w(7,8)] sets)
  show ?thesis
  proof (cases "rsn_element p = rsn_element q")
    case True
    with P Q s show ?thesis by (simp add: wpa_compare_rsn_ie_def)
  next
    case False
    then show ?thesis by (auto simp: wpa_compare_rsn_ie_def P Q s)
  qed
qed

lemma compared_elements:
  assumes "wf_policy p" "wf_policy q" "wpa_compare_rsn_ie ft (Some (rsn_element p)) (Some (rsn_element q)) = 0"
  shows "same_security p q"
proof -
  have "wpa_compare_rsn_ie True (Some (rsn_element p)) (Some (rsn_element q)) = 0"
    using assms(3) by (auto simp: wpa_compare_rsn_ie_def split: if_splits)
  with elements_agree [OF assms(1,2)] show ?thesis by simp
qed

end
