(* ===== verification/Wpa_Props.thy ===== *)
theory Wpa_Props
  imports Wpa_Complete Wpa_Example Rsn_Policy
begin

text \<open>
  The properties of the WPA state machine, each with the station and the frames of \<open>Wpa_Example\<close> as a witness: the
  pairwise key is installed once, keys come only from authentic frames, an accepted frame is not accepted again, message 3
  is refused or completes the handshake and does not lower the security of the beacon, both ends derive the same key, and the key fits its buffers.
\<close>

section \<open>The example\<close>

definition toy_retransmitted :: hs_sm where
  "toy_retransmitted = snd (wpa_sm_rx_eapol toy_env toy_ap (toy_msg3 3) toy_completed)"

lemma toy_configured_reached: "wpa_reach ft toy_configured"
proof -
  have f: "wpa_reach ft toy_fresh"
    by (rule wpa_reach.init [of True example_sm]) (simp add: toy_fresh_def wpa_sm_init_def)
  then have "wpa_reach ft (wpa_sm_set_own_addr a toy_fresh)" for a
    by (rule wpa_reach.step [of _ _ "Own_Addr a"]) simp_all
  moreover have "wpa_reach ft (snd (wpa_sm_set_param p v s))" if "wpa_reach ft s" for p v s
    using that by (rule wpa_reach.step [of _ _ "Param p v"]) simp_all
  ultimately show ?thesis unfolding toy_configured_def toy_param.simps by blast
qed

lemma toy_associated_reached: "wpa_reach ft toy_associated"
proof -
  have "wpa_reach ft (set_cache (\<lambda>c. wpa_sm_set_pmk (example_env 10) (replicate 32 1) None None c) toy_configured)"
    by (rule wpa_reach.step [OF toy_configured_reached, where op = "Cache_Op (Set_Pmk (example_env 10) (replicate 32 1) None None)"])
      (simp_all add: set_cache_def)
  then have "wpa_reach ft (snd (wpa_sm_set_assoc_wpa_ie toy_env (Some toy_rsne)
      (set_cache (\<lambda>c. wpa_sm_set_pmk (example_env 10) (replicate 32 1) None None c) toy_configured)))"
    by (rule wpa_reach.step [where op = "Own_Ie toy_env (Some toy_rsne)"]) simp_all
  moreover have "wpa_reach ft (snd (wpa_sm_set_ap_rsn_ie E e s))" if "wpa_reach ft s" for E e s
    using that by (rule wpa_reach.step [of _ _ "Ap_Rsn_Ie E e"]) simp_all
  moreover have "wpa_reach ft (wpa_sm_notify_assoc E b s)" if "wpa_reach ft s" for E b s
    using that by (rule wpa_reach.step [of _ _ "Assoc E b"]) simp_all
  ultimately show ?thesis unfolding toy_associated_def by blast
qed

lemma rx_reached: "wpa_reach ft s \<Longrightarrow> wpa_reach ft (snd (wpa_sm_rx_eapol E src buf s))"
  by (rule wpa_reach.step [of _ _ "Rx_Eapol E src buf"]) simp_all

lemma toy_retransmitted_reached: "wpa_reach ft toy_retransmitted"
  unfolding toy_retransmitted_def toy_completed_def toy_answered_def by (intro rx_reached toy_associated_reached)

lemma toy_sizes: "mac_sizes toy_crypto"
  by (auto simp: mac_sizes_def toy_crypto_def toy_mac_def)

section \<open>One installation\<close>

text \<open>C1: Without fast transition, the driver accepts a pairwise key at most as often as the station draws a nonce, in every history:
  messages that are replayed, retransmitted or forged cannot add up to more installations than there were nonces.\<close>

lemma pairwise_key_once:
  assumes "wpa_reach False sm"
  shows "length (filter pairwise_accepted (hs_outs sm)) \<le> length (filter nonce_drawn (hs_outs sm))"
  using krack_reach [OF assms] by (simp add: krack_ok_def installs_def nonces_def)

lemma pairwise_key_once_witness:
  "wpa_reach False toy_retransmitted \<and> length (filter pairwise_accepted (hs_outs toy_retransmitted)) \<le> 1"
proof -
  have "length (filter nonce_drawn (hs_outs toy_retransmitted)) = 1" by code_simp
  then show ?thesis using pairwise_key_once [OF toy_retransmitted_reached] toy_retransmitted_reached by simp
qed

section \<open>Authentic frames\<close>

text \<open>C2: In RSN a received frame makes the station install a key only if its MIC is the one under the key confirmation key of a
  pairwise key the station derived: the key of the running handshake, or the one in use. Left out are DPP and OWE, whose MIC has a
  length that follows from the master key, and key managements without a MIC.\<close>

lemma keys_are_authentic:
  assumes "is_rsn sm" "mic_len sm \<noteq> 0" "akm sm \<noteq> WPA_KEY_MGMT_DPP" "akm sm \<noteq> WPA_KEY_MGMT_OWE" "mac_sizes (crypto E)"
    "given (snd (wpa_sm_rx_eapol E src buf sm)) \<noteq> given sm"
  shows "\<exists>key. (tptk_set sm \<and> key = tptk sm \<or> ptk_set sm \<and> key = ptk sm) \<and>
    wpa_eapol_key_mic (crypto E) (ptk_kck key) (akm sm) (k_key_info buf AND 7) (clear_mic (mic_len sm) (frame_of buf)) =
      Some (k_mic (mic_len sm) buf)"
  by (rule authentic_keys [OF assms])

text \<open>The state is an argument of the checks, so that it is evaluated once for all of them.\<close>

definition toy_waits :: "hs_sm \<Rightarrow> bool" where
  "toy_waits sm \<longleftrightarrow> is_rsn sm \<and> mic_len sm \<noteq> 0 \<and> akm sm \<noteq> WPA_KEY_MGMT_DPP \<and> akm sm \<noteq> WPA_KEY_MGMT_OWE \<and> \<not> ptk_set sm \<and>
     given sm = []"

lemma toy_answered_waits: "toy_waits toy_answered"
  by code_simp

definition toy_accepts :: "int \<times> hs_sm \<Rightarrow> bool" where
  "toy_accepts p \<longleftrightarrow> fst p = 1 \<and> given (snd p) \<noteq> []"

lemma toy_msg3_accepted: "toy_accepts (wpa_sm_rx_eapol toy_env toy_ap (toy_msg3 2) toy_answered)"
  by code_simp

lemma toy_given:
  "is_rsn toy_answered" "mic_len toy_answered \<noteq> 0" "akm toy_answered \<noteq> WPA_KEY_MGMT_DPP" "akm toy_answered \<noteq> WPA_KEY_MGMT_OWE"
  "given (snd (wpa_sm_rx_eapol toy_env toy_ap (toy_msg3 2) toy_answered)) \<noteq> given toy_answered" "\<not> ptk_set toy_answered"
  using toy_answered_waits toy_msg3_accepted unfolding toy_waits_def toy_accepts_def by simp_all

lemma keys_are_authentic_witness:
  "wpa_eapol_key_mic toy_crypto (ptk_kck (tptk toy_answered)) (akm toy_answered) (k_key_info (toy_msg3 2) AND 7)
     (clear_mic (mic_len toy_answered) (frame_of (toy_msg3 2))) = Some (k_mic (mic_len toy_answered) (toy_msg3 2))"
  using keys_are_authentic [OF toy_given(1-4) _ toy_given(5)] toy_sizes toy_given(6) by (auto simp: toy_env_def)

section \<open>Replay\<close>

text \<open>C4: A frame with a MIC that was accepted is not accepted again, whatever frames come in between, and from whom it comes.\<close>

lemma replayed_frame_dropped:
  assumes "info_bit (k_key_info buf) WPA_KEY_INFO_MIC" "fst (wpa_sm_rx_eapol E src buf sm) = 1"
  shows "fst (wpa_sm_rx_eapol E' src' buf (receive fs (snd (wpa_sm_rx_eapol E src buf sm)))) \<noteq> 1"
  by (rule past_drops [OF past_receive [OF accepted_is_past [OF assms(2,1)]]])

lemma replayed_frame_dropped_witness:
  "fst (wpa_sm_rx_eapol toy_env toy_ap (toy_msg3 2) toy_retransmitted) \<noteq> 1"
proof -
  have "info_bit (k_key_info (toy_msg3 2)) WPA_KEY_INFO_MIC" by code_simp
  moreover have "fst (wpa_sm_rx_eapol toy_env toy_ap (toy_msg3 2) toy_answered) = 1"
    using toy_msg3_accepted by (simp add: toy_accepts_def)
  ultimately show ?thesis
    using replayed_frame_dropped [of "toy_msg3 2" toy_env toy_ap toy_answered toy_env toy_ap
        "[(toy_env, toy_ap, toy_msg3 3)]"] by (simp add: toy_retransmitted_def toy_completed_def)
qed

section \<open>Message 3\<close>

text \<open>C5: A message 3 that is not acceptable installs nothing and is not answered: what is left of it is the state, the elements read
  from the scan results and the deauthentication.\<close>

lemma message_3_refused:
  assumes "\<not> acceptable_3_of_4 E buf data sm"
  shows "\<exists>w r d. (d = [] \<or> d = [Deauth 17]) \<and> wpa_supplicant_process_3_of_4 E buf ver data sm =
    sm\<lparr>wpa_state := WPA_4WAY_HANDSHAKE, ap_wpa_ie := w, ap_rsn_ie := r,
       hs_outs := hs_outs sm @ [Set_State WPA_4WAY_HANDSHAKE] @ d @ [Deauth 1]\<rparr>"
  by (rule refused [OF assms])

lemma message_3_refused_witness:
  "ptk (wpa_supplicant_process_3_of_4 toy_env (toy_msg3 2) 2 toy_data toy_associated) = ptk toy_associated"
proof -
  have "\<not> acceptable_3_of_4 toy_env (toy_msg3 2) toy_data toy_associated" by code_simp
  from message_3_refused [OF this, of 2] show ?thesis by auto
qed

text \<open>C3: An acceptable message 3 that asks for installation completes the negotiation. The driver is given the pairwise key,
  unless it was installed before (a retransmitted message 3), then the group key of the message, unless it is already in use,
  and then its integrity group key, if there is one, the cipher of management frames takes it and it is not already in use:
  each once, in this order, and no other key; the copy of the pairwise key is cleared and the group keys are kept. The station
  is not in a fast transition; there are a MIC, a confirmation key and the address of the access point; the pairwise cipher is
  valid and the key, where it is to be installed, has its length; the group cipher is used and has an algorithm, and the group key in the message has
  its length, as has the integrity group key, with an index of at most 4095; memory, the MIC, the network and the driver do not fail.\<close>

lemma message_3_completes:
  assumes "acceptable_3_of_4 E buf data sm" "all_works E ver sm" "info_bit (k_key_info buf) WPA_KEY_INFO_INSTALL"
    and "\<not> wpa_key_mgmt_ft (akm sm)" "mic_len sm \<noteq> 0" "kck_len (ptk sm) \<noteq> 0" "bssid (cache sm) \<noteq> zeros 6"
    and "wpa_cipher_valid_pairwise (pairwise_cipher sm)"
      "\<not> ptk_installed (ptk sm) \<longrightarrow> tk_len (ptk sm) = wpa_cipher_key_len (pairwise_cipher sm)"
    and "group_cipher sm \<noteq> WPA_CIPHER_GTK_NOT_USED" "wpa_cipher_to_alg (group_cipher sm) \<noteq> WPA_ALG_NONE"
    and "kde_at data (k_gtk (snd (wpa_supplicant_parse_ies data (length data)))) = Some body"
      "length body = 2 + wpa_cipher_key_len (group_cipher sm)"
    and "b = kde_at data (k_igtk (snd (wpa_supplicant_parse_ies data (length data))))" "igtk_fits b sm"
  shows "(let s = wpa_supplicant_process_3_of_4 E buf ver data sm
     in wpa_state s = WPA_COMPLETED \<and>
        given s = given sm @ pairwise_events E buf sm @ group_events E buf body sm @ igtk_events E b sm \<and>
        gtk s = group_after body sm \<and> igtk s = igtk_after b sm \<and> ptk s = installed (ptk sm) \<and> msg_3_of_4_ok s)"
  by (rule handshake_completes [OF assms])

definition toy_keyed :: hs_sm where "toy_keyed = use_tptk toy_answered"

definition toy_expects :: "u8 list \<Rightarrow> hs_sm \<Rightarrow> bool" where
  "toy_expects body sm \<longleftrightarrow> \<not> wpa_key_mgmt_ft (akm sm) \<and> mic_len sm \<noteq> 0 \<and> kck_len (ptk sm) \<noteq> 0 \<and> bssid (cache sm) \<noteq> zeros 6 \<and>
     wpa_cipher_valid_pairwise (pairwise_cipher sm) \<and> \<not> ptk_installed (ptk sm) \<and>
     given sm = [] \<and> tk_len (ptk sm) = wpa_cipher_key_len (pairwise_cipher sm) \<and> group_cipher sm \<noteq> WPA_CIPHER_GTK_NOT_USED \<and>
     wpa_cipher_to_alg (group_cipher sm) \<noteq> WPA_ALG_NONE \<and> ptk_kck (ptk sm) \<noteq> [] \<and>
     length body = 2 + wpa_cipher_key_len (group_cipher sm) \<and> \<not> group_known body sm"

lemma toy_keyed_expects: "toy_expects ([1, 0] @ toy_gtk) toy_keyed"
  by code_simp

lemma toy_works: "all_works toy_env 2 toy_keyed"
proof -
  have "ptk_kck (ptk toy_keyed) \<noteq> []" using toy_keyed_expects unfolding toy_expects_def by blast
  then show ?thesis by (simp add: all_works_def toy_env_def wpa_eapol_key_mic_def toy_crypto_def toy_mac_def)
qed

lemma toy_acceptable:
  "acceptable_3_of_4 toy_env (toy_msg3 2) toy_data toy_keyed" "info_bit (k_key_info (toy_msg3 2)) WPA_KEY_INFO_INSTALL"
  by code_simp+

lemma toy_group:
  "kde_at toy_data (k_gtk (snd (wpa_supplicant_parse_ies toy_data (length toy_data)))) = Some ([1, 0] @ toy_gtk)"
  "k_igtk (snd (wpa_supplicant_parse_ies toy_data (length toy_data))) = None"
  by code_simp+

lemma message_3_completes_witness:
  "wpa_state (wpa_supplicant_process_3_of_4 toy_env (toy_msg3 2) 2 toy_data toy_keyed) = WPA_COMPLETED \<and>
   given (wpa_supplicant_process_3_of_4 toy_env (toy_msg3 2) 2 toy_data toy_keyed) =
     [pairwise_event toy_env (toy_msg3 2) toy_keyed, group_event toy_env (toy_msg3 2) ([1, 0] @ toy_gtk) toy_keyed]"
proof -
  have b: "None = kde_at toy_data (k_igtk (snd (wpa_supplicant_parse_ies toy_data (length toy_data))))"
    unfolding toy_group(2) by (simp add: kde_at_def)
  have f: "igtk_fits None toy_keyed" by (simp add: igtk_fits_def)
  note x = toy_keyed_expects [unfolded toy_expects_def]
  have "pairwise_events toy_env (toy_msg3 2) toy_keyed = [pairwise_event toy_env (toy_msg3 2) toy_keyed]"
    "group_events toy_env (toy_msg3 2) ([1, 0] @ toy_gtk) toy_keyed = [group_event toy_env (toy_msg3 2) ([1, 0] @ toy_gtk) toy_keyed]"
    "igtk_events toy_env None toy_keyed = []"
    unfolding pairwise_events_def group_events_def igtk_events_def igtk_new_def using x by simp_all
  then show ?thesis
    using message_3_completes [OF toy_acceptable(1) toy_works toy_acceptable(2) _ _ _ _ _ _ _ _ toy_group(1) _ b f] x
    unfolding Let_def by simp
qed

section \<open>Downgrade\<close>

text \<open>With the elements of the access point at hand, the scan results are not asked.\<close>

lemma refused_with_elements:
  assumes "ap_rsn_ie sm \<noteq> None"
    "ie_mismatch (kde_at data (k_wpa_ie (snd (wpa_supplicant_parse_ies data (length data)))))
       (kde_at data (k_rsn_ie (snd (wpa_supplicant_parse_ies data (length data))))) sm"
  shows "\<exists>d. (d = [] \<or> d = [Deauth 17]) \<and> wpa_supplicant_process_3_of_4 E buf ver data sm =
    sm\<lparr>wpa_state := WPA_4WAY_HANDSHAKE, hs_outs := hs_outs sm @ [Set_State WPA_4WAY_HANDSHAKE] @ d @ [Deauth 1]\<rparr>"
proof -
  let ?s = "wpa_sm_set_state WPA_4WAY_HANDSHAKE sm"
  have "with_beacon E sm = sm" using assms(1) by (auto simp: with_beacon_def)
  then have "wpa_supplicant_process_3_of_4 E buf ver data sm \<in>
      {wpa_sm_deauthenticate 1 ?s, wpa_sm_deauthenticate 1 (wpa_sm_deauthenticate 17 ?s)}"
    using assms(2) by (simp add: wpa_supplicant_process_3_of_4_def Let_def case_prod_beta validate_split)
  then consider "wpa_supplicant_process_3_of_4 E buf ver data sm = wpa_sm_deauthenticate 1 ?s"
    | "wpa_supplicant_process_3_of_4 E buf ver data sm = wpa_sm_deauthenticate 1 (wpa_sm_deauthenticate 17 ?s)" by blast
  then show ?thesis
  proof cases
    case 1
    then show ?thesis by (intro exI [of _ "[]"]) (simp add: wpa_sm_deauthenticate_def hs_emit_def state_step)
  next
    case 2
    then show ?thesis by (intro exI [of _ "[Deauth 17]"]) (simp add: wpa_sm_deauthenticate_def hs_emit_def state_step)
  qed
qed

text \<open>C15: An access point that states less security in message 3 than in its beacon is found out. If the RSN elements of the two,
  each any encoding of a group cipher, lists of pairwise ciphers and key managements, capabilities, PMKIDs and possibly a
  management group cipher, with suites of IEEE 802.11 that the parser knows, do not state the same ciphers, key managements and capabilities, then message 3 is not answered and installs
  nothing: it leaves the state and the deauthentication. In a fast transition, where the PMKIDs and the order of the lists may
  differ, the comparison accepts exactly the elements that state the same.\<close>

lemma no_downgrade:
  assumes "wf_policy p" "wf_policy q" "ap_rsn_ie sm = Some (rsn_element p)"
    "kde_at data (k_rsn_ie (snd (wpa_supplicant_parse_ies data (length data)))) = Some (rsn_element q)"
  shows "(\<not> same_security p q \<longrightarrow>
      (\<exists>d. (d = [] \<or> d = [Deauth 17]) \<and> wpa_supplicant_process_3_of_4 E buf ver data sm =
        sm\<lparr>wpa_state := WPA_4WAY_HANDSHAKE, hs_outs := hs_outs sm @ [Set_State WPA_4WAY_HANDSHAKE] @ d @ [Deauth 1]\<rparr>)) \<and>
    (wpa_compare_rsn_ie True (ap_rsn_ie sm) (Some (rsn_element q)) = 0 \<longleftrightarrow> same_security p q)"
proof (intro conjI impI)
  assume "\<not> same_security p q"
  then have "wpa_compare_rsn_ie (wpa_key_mgmt_ft (akm sm)) (Some (rsn_element p)) (Some (rsn_element q)) \<noteq> 0"
    using compared_elements [OF assms(1,2)] by blast
  then show "\<exists>d. (d = [] \<or> d = [Deauth 17]) \<and> wpa_supplicant_process_3_of_4 E buf ver data sm =
      sm\<lparr>wpa_state := WPA_4WAY_HANDSHAKE, hs_outs := hs_outs sm @ [Set_State WPA_4WAY_HANDSHAKE] @ d @ [Deauth 1]\<rparr>"
    by (intro refused_with_elements) (simp_all add: ie_mismatch_def assms(3,4))
qed (simp add: assms(3) elements_agree [OF assms(1,2)])

text \<open>The beacon offers CCMP only; message 3 offers TKIP as well.\<close>

definition toy_policy :: rsn_policy where
  "toy_policy = \<lparr>pol_group = 4, pol_pairwise = [4], pol_akms = [2], pol_capab = 0, pol_pmkids = [], pol_mgmt = None\<rparr>"

definition toy_weaker :: rsn_policy where "toy_weaker = toy_policy\<lparr>pol_pairwise := [2, 4]\<rparr>"

lemma toy_policies: "wf_policy toy_policy" "wf_policy toy_weaker" "\<not> same_security toy_policy toy_weaker"
  "ap_rsn_ie toy_associated = Some (rsn_element toy_policy)"
  "kde_at (rsn_element toy_weaker) (k_rsn_ie (snd (wpa_supplicant_parse_ies (rsn_element toy_weaker) (length (rsn_element toy_weaker))))) =
     Some (rsn_element toy_weaker)"
  by code_simp+

lemma no_downgrade_witness:
  "ptk (wpa_supplicant_process_3_of_4 toy_env (toy_msg3 2) 2 (rsn_element toy_weaker) toy_associated) = ptk toy_associated \<and>
   given (wpa_supplicant_process_3_of_4 toy_env (toy_msg3 2) 2 (rsn_element toy_weaker) toy_associated) = given toy_associated"
proof -
  obtain d where "d = [] \<or> d = [Deauth 17]"
    "wpa_supplicant_process_3_of_4 toy_env (toy_msg3 2) 2 (rsn_element toy_weaker) toy_associated =
      toy_associated\<lparr>wpa_state := WPA_4WAY_HANDSHAKE,
        hs_outs := hs_outs toy_associated @ [Set_State WPA_4WAY_HANDSHAKE] @ d @ [Deauth 1]\<rparr>"
    using no_downgrade [OF toy_policies(1,2,4,5), of toy_env "toy_msg3 2" 2] toy_policies(3) by blast
  then show ?thesis by (auto simp: given_def is_set_key_def)
qed

section \<open>Pairwise key\<close>

text \<open>C6: The access point, for which the addresses and the nonces are the other way round, derives the same result and the same key
  from the pairwise master key (the derivation without fast transition).\<close>

lemma same_key_at_both_ends:
  assumes "length addr1 = length addr2" "length nonce1 = length nonce2"
  shows "wpa_pmk_to_ptk C key label addr1 addr2 nonce1 nonce2 p a cipher z = wpa_pmk_to_ptk C key label addr2 addr1 nonce2 nonce1 p a cipher z"
  unfolding wpa_pmk_to_ptk_def ptk_data_agrees [OF assms, of z] ..

lemma same_key_at_both_ends_witness:
  "wpa_pmk_to_ptk toy_crypto [1] ''PTK'' [2, 0, 0, 0, 0, 1] [2, 0, 0, 0, 0, 2] (replicate 32 5) (replicate 32 9) no_ptk 2 16 [] =
   wpa_pmk_to_ptk toy_crypto [1] ''PTK'' [2, 0, 0, 0, 0, 2] [2, 0, 0, 0, 0, 1] (replicate 32 9) (replicate 32 5) no_ptk 2 16 []"
  by (rule same_key_at_both_ends) simp_all

text \<open>\<open>struct wpa_ptk\<close>: every buffer has its size, and no length is larger than its buffer.\<close>

definition ptk_ok :: "wpa_ptk \<Rightarrow> bool" where
  "ptk_ok p \<longleftrightarrow> length (kck_buf p) = 32 \<and> length (kek_buf p) = 64 \<and> length (tk_buf p) = 32 \<and> length (kck2_buf p) = 32 \<and>
     length (kek2_buf p) = 64 \<and> kck_len p \<le> 32 \<and> kek_len p \<le> 64 \<and> tk_len p \<le> 32 \<and> kck2_len p \<le> 32 \<and> kek2_len p \<le> 64"

lemma length_poke0 [simp]: "length bs \<le> length buf \<Longrightarrow> length (poke 0 bs buf) = length buf"
  by (simp add: poke_def)

lemma key_lengths [simp]: "n \<le> 64 \<Longrightarrow> wpa_kck_len a n \<le> 32" "wpa_kek_len a n \<le> 64" "wpa_kck2_len a \<le> 32"
  "wpa_kek2_len a \<le> 64" "wpa_cipher_key_len c \<le> 32"
  by (auto simp: wpa_kck_len_def wpa_kek_len_def wpa_kck2_len_def wpa_kek2_len_def wpa_cipher_key_len_def)

text \<open>C38: With a master key of at most 64 bytes, both derivations of the pairwise key, and the key that key management offload
  reports, write inside the buffers of the structure and leave lengths that fit them, whatever the hash functions
  return.\<close>

lemma pairwise_key_fits:
  assumes "ptk_ok p" "length key \<le> 64"
  shows "ptk_ok (snd (wpa_pmk_to_ptk C key label addr1 addr2 nonce1 nonce2 p a cipher z)) \<and>
    ptk_ok (snd (wpa_pmk_r1_to_ptk C r1 sn an sta bss r1_name p a cipher)) \<and>
    (ptk_ok (ptk sm) \<longrightarrow> ptk_ok (ptk (wpa_sm_set_ptk_kck_kek kck kek sm)))"
proof -
  have "ptk_ok (snd (wpa_pmk_to_ptk C key label addr1 addr2 nonce1 nonce2 p a cipher z))"
    using assms by (simp add: wpa_pmk_to_ptk_def Let_def ptk_ok_def min_le_iff_disj split: option.split)
  moreover have "ptk_ok (snd (wpa_pmk_r1_to_ptk C r1 sn an sta bss r1_name p a cipher))"
    using assms by (simp add: wpa_pmk_r1_to_ptk_def Let_def ptk_ok_def min_le_iff_disj split: option.split)
  moreover have "ptk_ok (ptk sm) \<longrightarrow> ptk_ok (ptk (wpa_sm_set_ptk_kck_kek kck kek sm))"
    by (simp add: wpa_sm_set_ptk_kck_kek_def Let_def ptk_ok_def split: option.split)
  ultimately show ?thesis by blast
qed

lemma pairwise_key_fits_witness:
  "ptk_ok (snd (wpa_pmk_to_ptk toy_crypto (replicate 32 1) ''PTK'' [2, 0, 0, 0, 0, 1] [2, 0, 0, 0, 0, 2] (replicate 32 5)
     (replicate 32 9) no_ptk 2 16 []))"
proof -
  have "ptk_ok no_ptk" by (simp add: ptk_ok_def no_ptk_def zeros_def)
  then show ?thesis using pairwise_key_fits [of no_ptk "replicate 32 1"] by simp
qed

end
