(* ===== verification/Wpa_Cands.thy ===== *)
theory Wpa_Cands
  imports Wpa_Example
begin

text \<open>
  The list of pre-authentication candidates: one entry for each access point, in the order of the priority values, so that
  the candidate that is taken is one of the most urgent that still need pre-authentication.
\<close>

definition cands_ok :: "(u8 list \<times> int) list \<Rightarrow> bool" where
  "cands_ok cs \<longleftrightarrow> sorted (map snd cs) \<and> distinct (map fst cs)"

section \<open>The list\<close>

lemma insert_candidate_set [simp]: "set (insert_candidate c cs) = insert c (set cs)"
  by (induction cs) auto

lemma insert_candidate_ok: "cands_ok cs \<Longrightarrow> fst c \<notin> fst ` set cs \<Longrightarrow> cands_ok (insert_candidate c cs)"
  by (induction cs) (auto simp: cands_ok_def)

lemma remove_first_subset: "set (remove_first P cs) \<subseteq> set cs"
  by (induction cs) auto

lemma remove_first_ok: "cands_ok cs \<Longrightarrow> cands_ok (remove_first P cs)"
  using remove_first_subset by (induction cs) (fastforce simp: cands_ok_def)+

lemma remove_first_gone: "distinct (map fst cs) \<Longrightarrow> b \<notin> fst ` set (remove_first (\<lambda>c. fst c = b) cs)"
  by (induction cs) auto

lemma suffix_ok: "cands_ok (as @ cs) \<Longrightarrow> cands_ok cs"
  by (simp add: cands_ok_def sorted_append)

section \<open>What leaves the list alone\<close>

lemma cands_fail [simp]: "pmksa_candidates (snd (fail_preauth r sm)) = pmksa_candidates sm"
  by (simp add: fail_preauth_def Let_def hs_emit_def)

lemma cands_init [simp]: "pmksa_candidates (snd (rsn_preauth_init E dst sm)) = pmksa_candidates sm"
  by (simp add: rsn_preauth_init_def Let_def hs_emit_def)

lemma cands_report [simp]: "pmksa_candidates (report_candidate bss sm) = pmksa_candidates sm"
  by (simp add: report_candidate_def set_cache_def split: option.split)

lemma wants_report [simp]: "wants_preauth b (report_candidate bss sm) = wants_preauth b sm"
  by (auto simp: wants_preauth_def report_candidate_def candidate_entry_def set_cache_def pmksa_cache_get_def split: option.split)

lemma idle_report [simp]: "preauth_eapol (report_candidate bss sm) = preauth_eapol sm" "bridge_ifname (report_candidate bss sm) = bridge_ifname sm"
  by (simp_all add: report_candidate_def set_cache_def split: option.split)

section \<open>Processing\<close>

lemma pass_suffix: "\<exists>as. cs = as @ pmksa_candidates (candidate_pass E cs sm)"
proof (induction E cs sm rule: candidate_pass.induct)
  case (2 E bss prio cs sm)
  then show ?case by (cases "wants_preauth bss sm") (auto intro: exI [of _ "(bss, prio) # as" for as])
qed simp

lemma process_suffix: "\<exists>as. pmksa_candidates sm = as @ pmksa_candidates (rsn_preauth_candidate_process E sm)"
  using pass_suffix [of "pmksa_candidates sm" E sm] by (simp add: rsn_preauth_candidate_process_def)

lemma process_ok: "cands_ok (pmksa_candidates sm) \<Longrightarrow> cands_ok (pmksa_candidates (rsn_preauth_candidate_process E sm))"
  using process_suffix [of sm E] suffix_ok by metis

lemma add_ok: "cands_ok (pmksa_candidates sm) \<Longrightarrow> cands_ok (pmksa_candidates (pmksa_candidate_add E bss prio pre sm))"
proof -
  assume ok: "cands_ok (pmksa_candidates sm)"
  then have "bss \<notin> fst ` set (remove_first (\<lambda>c. fst c = bss) (pmksa_candidates sm))"
    by (intro remove_first_gone) (simp add: cands_ok_def)
  then have "cands_ok (insert_candidate (bss, p) (remove_first (\<lambda>c. fst c = bss) (pmksa_candidates sm)))" for p
    using ok by (intro insert_candidate_ok remove_first_ok) simp_all
  then show ?thesis using ok by (auto simp: pmksa_candidate_add_def Let_def set_cache_def intro!: process_ok)
qed

text \<open>Nothing keeps the supplicant from starting the EAPOL machine.\<close>

definition preauth_works :: "wpa_env \<Rightarrow> bool" where
  "preauth_works E \<longleftrightarrow> (\<forall>s. init_ok E s) \<and> (\<forall>m. mem_ok E m)"

lemma init_starts: "preauth_works E \<Longrightarrow> \<not> preauth_eapol sm \<Longrightarrow>
    preauth_eapol (snd (rsn_preauth_init E dst sm)) \<and> preauth_bssid (snd (rsn_preauth_init E dst sm)) = dst"
  by (simp add: rsn_preauth_init_def preauth_works_def Let_def hs_emit_def)

lemma pass_takes_best:
  assumes "preauth_works E" "\<not> preauth_eapol sm" "sorted (map snd cs)" "(bss, prio) \<in> set cs" "wants_preauth bss sm"
  shows "\<exists>p. (preauth_bssid (candidate_pass E cs sm), p) \<in> set cs \<and> p \<le> prio \<and> preauth_eapol (candidate_pass E cs sm) \<and>
    wants_preauth (preauth_bssid (candidate_pass E cs sm)) sm"
  using assms
proof (induction E cs sm rule: candidate_pass.induct)
  case (2 E b p cs sm)
  show ?case
  proof (cases "wants_preauth b sm")
    case True
    have "p \<le> prio" using 2(4,5) by auto
    then show ?thesis using True init_starts [OF 2(2), of "sm\<lparr>pmksa_candidates := cs\<rparr>" b] 2(3) by auto
  next
    case False
    then have "(bss, prio) \<in> set cs" using 2(5,6) by auto
    then show ?thesis using 2(1) [OF False 2(2)] 2(3,4,6) False by auto
  qed
qed simp

lemma scan_ok: "cands_ok (pmksa_candidates sm) \<Longrightarrow> cands_ok (pmksa_candidates (rsn_preauth_scan_result E bss ss rsn sm))"
  by (simp add: rsn_preauth_scan_result_def Let_def case_prod_beta add_ok)

section \<open>The property\<close>

text \<open>C37: Adding a candidate, taking one and reading scan results keep one entry for each access point in the order of the
  priority values, and when pre-authentication can start it starts with a candidate that needs it and has no larger value
  than any other that needs it.\<close>

lemma candidates_in_order:
  assumes "cands_ok (pmksa_candidates sm)"
  shows "cands_ok (pmksa_candidates (pmksa_candidate_add E bss prio pre sm)) \<and>
    cands_ok (pmksa_candidates (rsn_preauth_scan_result E bss ss rsn sm)) \<and>
    (let s = rsn_preauth_candidate_process E sm
     in cands_ok (pmksa_candidates s) \<and>
        (preauth_works E \<and> preauth_suitable sm \<and> (b, q) \<in> set (pmksa_candidates sm) \<and> wants_preauth b sm \<longrightarrow>
          preauth_eapol s \<and> wants_preauth (preauth_bssid s) sm \<and> (\<exists>p\<le>q. (preauth_bssid s, p) \<in> set (pmksa_candidates sm))))"
proof -
  let ?s = "rsn_preauth_candidate_process E sm"
  have "preauth_eapol ?s \<and> wants_preauth (preauth_bssid ?s) sm \<and> (\<exists>p\<le>q. (preauth_bssid ?s, p) \<in> set (pmksa_candidates sm))"
    if t: "preauth_works E" "preauth_suitable sm" "(b, q) \<in> set (pmksa_candidates sm)" "wants_preauth b sm"
  proof -
    have "?s = candidate_pass E (pmksa_candidates sm) sm" using t(2,3) by (auto simp: rsn_preauth_candidate_process_def)
    moreover have "\<not> preauth_eapol sm" "sorted (map snd (pmksa_candidates sm))"
      using t(2) assms by (simp_all add: preauth_suitable_def cands_ok_def)
    ultimately show ?thesis using pass_takes_best [OF t(1) _ _ t(3,4)] by auto
  qed
  then show ?thesis using add_ok [OF assms] scan_ok [OF assms] process_ok [OF assms] by (simp add: Let_def)
qed

definition toy_roaming :: hs_sm where
  "toy_roaming = set_cache (\<lambda>c. c\<lparr>key_mgmt := 1\<rparr>)
     (toy_associated\<lparr>wpa_state := WPA_COMPLETED, pmksa_candidates := [(toy_ap, 3), ([2, 0, 0, 0, 0, 3], 5), ([2, 0, 0, 0, 0, 4], 9)]\<rparr>)"

lemma candidates_in_order_witness:
  "preauth_bssid (rsn_preauth_candidate_process toy_env toy_roaming) \<in> {toy_ap, [2, 0, 0, 0, 0, 3]} \<and>
   preauth_eapol (rsn_preauth_candidate_process toy_env toy_roaming)"
proof -
  have c: "pmksa_candidates toy_roaming = [(toy_ap, 3), ([2, 0, 0, 0, 0, 3], 5), ([2, 0, 0, 0, 0, 4], 9)]"
    by (simp add: toy_roaming_def set_cache_def)
  have "preauth_suitable toy_roaming" "wants_preauth [2, 0, 0, 0, 0, 3] toy_roaming" by code_simp+
  moreover have "preauth_works toy_env" by (simp add: preauth_works_def toy_env_def)
  ultimately show ?thesis
    using candidates_in_order [of toy_roaming toy_env "[]" 0 True "[]" "[]" "[2, 0, 0, 0, 0, 3]" 5]
    by (auto simp: c cands_ok_def Let_def)
qed

end
