(* ===== verification/Spec2Isabelle.thy ===== *)
theory Spec2Isabelle
  imports Beep_Main Touch_Screen Bitfield Base64 Wpabuf Escape_Text Chan_Freq Candidates Eapol_Live Eap_Exchange Eloop_Eapol Eloop_Run Pmksa_Reach Blacklist Rsn_Kde Wpa_Props Wpa_Cands
begin

text \<open>
  A verification library for the C code of the GuppyScreen repository: the touch screen firmware's own
  C programs and the station side of the \<open>wpa_supplicant\<close> it ships.

  Parts and theories (paths under \<open>src/\<close>; \<open>W\<close> is \<open>wpa_supplicant/src\<close>).
  \<^item> Buzzer player, \<open>k1/k1_mods/buzzer/guppybeep.c\<close>: \<open>Beep_Hw\<close> (registers of the PWM and GPIO pages, one
    note), \<open>Beep_Rtttl\<close> (the ringtone parser and the song file), \<open>Beep_Main\<close> (the command line, and the
    properties of the whole program), with \<open>Beep_Pin\<close> and \<open>Beep_Song\<close> for the register traces and for the
    printed form of songs.
  \<^item> Touch calibration, \<open>lv_touch_calibration/lv_tc.c\<close> and \<open>lv_tc_screen.c\<close>: \<open>Touch_Fp\<close> (rounding to single
    precision), \<open>Touch_Cal\<close> (coefficients and the wrapped driver), \<open>Touch_Screen\<close> (the state machine of the
    nine taps and its timers).
  \<^item> Utilities of \<open>W/utils\<close>: \<open>Byte_Order\<close> (\<open>common.h\<close>), \<open>Wpabuf\<close> (\<open>wpabuf.c\<close>), \<open>Bitfield\<close>, \<open>Base64\<close>,
    \<open>Hex_Text\<close>, \<open>Escape_Text\<close> and \<open>Int_Lists\<close> (\<open>common.c\<close>).
  \<^item> Frames of \<open>W/common/ieee802_11_common.c\<close>: \<open>Elements\<close> (the information element parser), \<open>Element_Uses\<close> and
    \<open>Candidates\<close> (what is read from and built of elements), \<open>Chan_Freq\<close> (channels and operating classes).
  \<^item> EAPOL supplicant, \<open>W/eapol_supp/eapol_supp_sm.c\<close>: \<open>Eapol_Sm\<close> (\<open>struct eapol_sm\<close>, its variables, the
    key frames, the port), \<open>Eapol_Step\<close> (the PAE, key receive and backend machines, \<open>eapol_sm_step\<close>, the
    timer, received frames, notifications, reachable states), \<open>Eapol_Port\<close>, \<open>Eapol_Timers\<close> and \<open>Eapol_Keys\<close>
    (its invariants and the key frames).
  \<^item> EAP peer, \<open>W/eap_common/eap_common.c\<close> and \<open>W/eap_peer/eap.c\<close>: \<open>Eap_Msg\<close> (headers), \<open>Eap_Peer\<close> (the
    machine), \<open>Eap_Build\<close> (its own responses), \<open>Eap_Exchange\<close> (whole requests), and both machines together in
    \<open>Eapol_Eap\<close> and \<open>Eapol_Live\<close>.

  \<^item> Event loop, \<open>W/utils/eloop.c\<close>: \<open>Eloop\<close> (timeouts, sockets, signals, \<open>eloop_run\<close>), \<open>Eloop_Queue\<close> (its
    invariant), \<open>Eloop_Run\<close> (whole runs: the steps of the loop keep the invariant, and which handlers it calls),
    \<open>Eloop_Eapol\<close> (the tick of the EAPOL machines in its queue).

  \<^item> PMKSA cache, \<open>W/rsn_supp/pmksa_cache.c\<close>: \<open>Pmksa\<close> (entries, timers, the operations and their users in
    \<open>wpa.c\<close>), \<open>Pmksa_Cache\<close> (what each operation does to the entries that are alive), \<open>Pmksa_Reach\<close> (reachable
    states and the properties).
  \<^item> RSN and WPA elements, \<open>W/common/wpa_common.c\<close> and \<open>W/rsn_supp/wpa_ie.c\<close>: \<open>Rsn_Cipher\<close> (cipher and key management
    suites as bits, selectors and text), \<open>Rsn_Ie\<close> (the two parsers, \<open>wpa_compare_rsn_ie\<close>), \<open>Rsn_Gen\<close> (the element the station
    sends), \<open>Rsn_Insert\<close> (\<open>wpa_insert_pmkid\<close>), \<open>Rsn_Policy\<close> (what an element says, apart from the code, and what the comparison
    makes of it), \<open>Rsn_Kde\<close> (the key data of EAPOL-Key messages). \<open>Blacklist\<close> is \<open>wpa_supplicant/wpa_supplicant/blacklist.c\<close>.

  \<^item> WPA state machine, \<open>W/rsn_supp/wpa.c\<close>, \<open>wpa_ft.c\<close>, \<open>preauth.c\<close> and the keys of \<open>wpa_common.c\<close>: \<open>Wpa_Keys\<close> (lengths,
    integrity check, key derivation), \<open>Wpa_Sm\<close> (\<open>struct wpa_sm\<close>, sending, the master key, message 1 of the 4-way handshake),
    \<open>Wpa_Install\<close> (keys for the driver), \<open>Wpa_Rx\<close> (\<open>wpa_sm_rx_eapol\<close>, message 3, the group handshake), \<open>Wpa_Ft_Ie\<close> and \<open>Wpa_Ft\<close>
    (fast transition), \<open>Wpa_Preauth\<close>, and \<open>Wpa_Calls\<close> (association, configuration, elements, keys from outside). Their lemmas
    are in \<open>Wpa_Views\<close> (what each operation leaves alone), \<open>Wpa_Reach\<close> (histories), \<open>Wpa_Auth\<close> (authentic and fresh frames)
    and \<open>Wpa_Complete\<close> (message 3); \<open>Wpa_Example\<close> is a concrete handshake, \<open>Wpa_Props\<close> and \<open>Wpa_Cands\<close> have the properties.

  How the parts interact. The frame and message code rests on the byte buffers and accessors; what a
  builder relies on is the locale \<open>byte_sink\<close>, which \<open>Wpabuf\<close> provides. The EAPOL machines call the EAP
  peer through the record \<open>eap_peer\<close> of its operations; what they rely on is the locale
  \<open>eap_peer_contract\<close> of \<open>Eapol_Timers\<close>, which \<open>Eap_Peer\<close> provides with the machine of \<open>eap.c\<close>. The two
  machines share variables: each round hands the peer the view \<open>eapol_view\<close> and replays the writes it
  made. Callbacks into the driver and the rest of the supplicant are entries of the field \<open>outs\<close>, in the order of the
  calls; timeouts held by the event loop are counted (\<open>ticks\<close>, \<open>steps\<close>);
  \<open>Eloop_Eapol\<close> proves, over the locale \<open>timeout_service\<close>, that \<open>ticks\<close> is what the queue really holds, and
  the PMKSA cache keeps its timers in that queue through the same locale. The WPA state machine holds the record of the
  PMKSA cache as its field \<open>cache\<close> and calls its operations, the parsers of elements and key data, and the element generator;
  its own calls outside are the entries of \<open>hs_outs\<close>, and the EAPOL machines are there only through the key they give
  (\<open>eapol_key\<close>) and the notifications they get. A C struct is a record with the
  same field names, a function has the name it has in C (state functions end in \<open>_Enter\<close>, loops that
  had no name in \<open>_loop\<close>); an error return is \<open>None\<close>, \<open>Inl\<close> or the integer the code returns.

  What the lemma groups show. Parsers stay inside their input and invert the builders; builders never
  write behind their buffer; the buzzer restores the levels
  and the multiplexing of the pin, but not its interrupt bit; nine taps calibrate the panel;
  the controlled port follows the state of the machines, opens only with keys in place, stays closed
  when disabled, takes keys only from signed frames with a fresh counter, and the timers do not stall while timeouts can be registered; the EAP
  peer answers, repeats and refuses requests as it should, and always comes to rest; the event loop calls the
  handlers that were registered, each once, in the order of the times they are due, and none before; the PMKSA cache never holds a dangling pointer or more keys than it may,
  tells the driver of exactly its keys, gives up those that have expired when its timer runs and keeps the connection otherwise; the RSN element that is
  generated states the policy it was generated from, a message 3 whose element states less than the beacon is refused, and the
  parser of key data stays inside it and finds the keys.

  Bounds and termination. \<open>eapol_sm_step\<close> runs at most 100 rounds as in C (\<open>step_loop\<close>) and defers the rest
  to a timeout; the properties hold for any number of rounds, and the liveness property needs four. The loop
  of the EAP peer has no bound in C; its termination is proved with the measure \<open>shape_measure\<close>. The note
  loop of the buzzer may run for ever and is a partial function. Times are those of a 32-bit
  \<open>os_time_t\<close> and coordinates of the panel have 32 bits. Buffers are below \<open>2 ^ 31\<close> bytes, and
  allocation may fail wherever the code allocates.

  Parameters. Registers and \<open>mmap\<close>, allocation, the driver callbacks, random bytes, the hash functions and ciphers of
  \<open>W/crypto\<close> (record \<open>wpa_crypto\<close>), and the EAP methods are parameters of the definitions that use them; a method
  may change the flags and the client timeout of the machine, as its \<open>init\<close> does in the code. The build is the one of \<open>defconfig\<close>, without Suite B (whose identifiers are the stubs that fail), ERP, smart
  cards, FIPS, EAP proxy and MACsec, and with one network configuration at a time.

  Not modelled. Of \<open>wpa.c\<close> the status and MIB texts, \<open>wpa_sm_deinit\<close>, and the parts for FILS, OWE, OCV, TDLS, DPP2 and tests,
  which the build leaves out; the lengths of buffers in which \<open>wpa_ft.c\<close> builds its request, which it makes large enough. The C++ panels and the printer client (LVGL, hv and json objects), generated assets,
  kernel drivers, cryptographic primitives, the control interface, P2P, WPS, DPP and the access point
  side. Debug output, status texts and freeing memory have no effect that the model shows.
\<close>

end
